(* ===== verification/Prelude.thy ===== *)
theory Prelude
  imports Main "HOL-Library.Char_ord" "HOL-Library.List_Lexorder" "HOL-Library.Product_Lexorder"
    "HOL-Library.Sublist" "HOL-Library.AList"
begin

text \<open>
  Shared vocabulary of the development: the Go values every component uses (byte strings,
  instants, durations, error results), the string functions of Go's standard library the
  program calls, and the generic list and map lemmas the component theories share.

  \<^item> A Go \<open>string\<close> is a byte sequence, hence an Isabelle \<open>string\<close> (a list of 8-bit
    characters).  Display text that the program handles rune by rune is a list of code points
    (\<open>runes\<close>).
  \<^item> An instant (\<open>time.Time\<close>) is an \<open>int\<close>: nanoseconds since the zero value of
    \<open>time.Time\<close>, so \<open>IsZero\<close> is \<open>t = 0\<close>, \<open>Before\<close> is \<open><\<close> and \<open>Add\<close> is \<open>+\<close>.
    The clock is an argument of every operation that reads it.
  \<^item> A duration (\<open>time.Duration\<close>) is an \<open>int\<close> of nanoseconds.  \<open>Time.Sub\<close> saturates at
    the 64-bit range, as in Go.
  \<^item> An operation that returns \<open>(T, error)\<close> yields \<open>err + 'a\<close>, \<open>Inl\<close> being the error.
\<close>

named_theorems go_simps \<open>unfolding equations of the Go string and time functions\<close>
named_theorems txn_simps \<open>unfolding equations of storage transactions\<close>

section \<open>Errors, instants, durations\<close>

datatype err =
    ErrNotFound            \<comment> \<open>\<open>fosite.ErrNotFound\<close>\<close>
  | ErrClientCapReached    \<comment> \<open>\<open>repository.ErrClientCapReached\<close>\<close>
  | ErrTokenInactive       \<comment> \<open>\<open>proxy.ErrTokenInactive\<close>\<close>
  | ErrDecode              \<comment> \<open>a stored document that does not unmarshal\<close>
  | ErrCommit              \<comment> \<open>a transaction, file or cookie write that failed\<close>
  | ErrSchemaNewer int int \<comment> \<open>stored version, supported version\<close>
  | ErrNotImplemented
  | ErrPanic               \<comment> \<open>a Go panic, which the recovery middleware answers with 500\<close>
  | ErrMsg string

type_synonym 'a result = "err + 'a"
type_synonym ('a, 's) act = "'s \<Rightarrow> 'a result \<times> 's"
type_synonym ('a, 's) query = "'s \<Rightarrow> 'a result"
type_synonym time = int
type_synonym duration = int
type_synonym runes = "nat list"

text \<open>A Go \<open>any\<close> that \<open>encoding/json\<close> decoded.  A number carries its \<open>%v\<close> rendering.\<close>

datatype json =
    JNull
  | JBool bool
  | JNum string
  | JStr string
  | JArr "json list"
  | JObj "(string \<times> json) list"

definition nanosecond :: duration where "nanosecond = 1"
definition second :: duration where "second = 1000000000"
definition minute :: duration where "minute = 60 * second"
definition hour :: duration where "hour = 60 * minute"

definition time_is_zero :: "time \<Rightarrow> bool" where
  "time_is_zero t \<longleftrightarrow> t = 0"

definition time_sub :: "time \<Rightarrow> time \<Rightarrow> duration" where
  "time_sub t u = max (- (2 ^ 63)) (min (2 ^ 63 - 1) (t - u))"

text \<open>Go's integer division truncates towards zero.\<close>

definition go_div :: "int \<Rightarrow> int \<Rightarrow> int" where
  "go_div a b = sgn a * sgn b * (\<bar>a\<bar> div \<bar>b\<bar>)"

lemma go_div_pos: "0 \<le> a \<Longrightarrow> 0 < b \<Longrightarrow> go_div a b = a div b"
  by (cases "a = 0") (simp_all add: go_div_def)

lemmas dur_defs = nanosecond_def second_def minute_def hour_def

lemma time_is_zero_simps [simp, go_simps]: "time_is_zero 0" "time_is_zero t \<longleftrightarrow> t = 0"
  by (simp_all add: time_is_zero_def)

lemma time_sub_ge:
  assumes "0 \<le> d" and "d < 2 ^ 63"
  shows "d \<le> time_sub t u \<longleftrightarrow> u + d \<le> t"
  using assms by (auto simp: time_sub_def min_def max_def)

section \<open>Byte strings\<close>

definition has_prefix :: "string \<Rightarrow> string \<Rightarrow> bool" where
  "has_prefix s p \<longleftrightarrow> prefix p s"

definition has_suffix :: "string \<Rightarrow> string \<Rightarrow> bool" where
  "has_suffix s p \<longleftrightarrow> suffix p s"

definition trim_prefix :: "string \<Rightarrow> string \<Rightarrow> string" where
  "trim_prefix s p = (if has_prefix s p then drop (length p) s else s)"

definition trim_suffix :: "string \<Rightarrow> string \<Rightarrow> string" where
  "trim_suffix s p = (if has_suffix s p then take (length s - length p) s else s)"

text \<open>\<open>strings.Cut\<close> and \<open>strings.Split\<close> with a one-byte separator.\<close>

definition cut_char :: "string \<Rightarrow> char \<Rightarrow> string \<times> string \<times> bool" where
  "cut_char s c = (let p = takeWhile (\<lambda>x. x \<noteq> c) s; r = dropWhile (\<lambda>x. x \<noteq> c) s
     in (p, tl r, r \<noteq> []))"

fun split_char :: "string \<Rightarrow> char \<Rightarrow> string list" where
  "split_char [] c = [[]]"
| "split_char (x # xs) c =
     (if x = c then [] # split_char xs c
      else (case split_char xs c of [] \<Rightarrow> [[x]] | w # ws \<Rightarrow> (x # w) # ws))"

fun join :: "string list \<Rightarrow> string \<Rightarrow> string" where
  "join [] sep = []"
| "join [s] sep = s"
| "join (s # t # ss) sep = s @ sep @ join (t # ss) sep"

text \<open>The position of the last occurrence of a byte, \<open>strings.LastIndex\<close>.\<close>

definition last_index :: "string \<Rightarrow> char \<Rightarrow> nat option" where
  "last_index s c =
     (if c \<in> set s then Some (length s - Suc (length (takeWhile (\<lambda>x. x \<noteq> c) (rev s)))) else None)"

lemma has_prefix_append [simp]: "has_prefix (p @ s) p"
  by (simp add: has_prefix_def)

lemma has_prefix_Nil [simp]: "has_prefix s []"
  by (simp add: has_prefix_def)

lemma has_prefixE: "has_prefix s p \<Longrightarrow> (\<And>r. s = p @ r \<Longrightarrow> thesis) \<Longrightarrow> thesis"
  by (auto simp: has_prefix_def prefix_def)

lemma has_prefix_Cons [simp]:
  "has_prefix [] (c # p) = False"
  "has_prefix (d # s) (c # p) \<longleftrightarrow> c = d \<and> has_prefix s p"
  by (auto simp: has_prefix_def)

lemma split_char_ne: "split_char s c \<noteq> []"
  by (cases s) (auto split: list.splits)

lemma split_char_no_sep: "\<forall>w \<in> set (split_char s c). c \<notin> set w"
  by (induction s) (auto split: list.splits)

lemma join_Cons: "ss \<noteq> [] \<Longrightarrow> join (s # ss) sep = s @ sep @ join ss sep"
  by (cases ss) auto

lemma join_split_char: "join (split_char s c) [c] = s"
proof (induction s)
  case Nil
  then show ?case by simp
next
  case (Cons x s)
  obtain w ws where w: "split_char s c = w # ws"
    using split_char_ne by (cases "split_char s c") auto
  show ?case
  proof (cases "x = c")
    case True
    then show ?thesis using Cons w by (simp add: join_Cons)
  next
    case False
    then show ?thesis using Cons w by (cases ws) auto
  qed
qed

subsection \<open>White space and letter case\<close>

text \<open>
  \<open>strings.TrimSpace\<close> works on the runes of the UTF-8 encoding.  \<open>space_len bs\<close> is the
  number of bytes of a white-space rune at the head of \<open>bs\<close> (0 when there is none); the
  right end is trimmed on the reversed bytes.
\<close>

abbreviation byte :: "char \<Rightarrow> nat" where "byte c \<equiv> of_char c"

definition ascii_space :: "nat \<Rightarrow> bool" where
  "ascii_space b \<longleftrightarrow> b = 32 \<or> (9 \<le> b \<and> b \<le> 13)"

fun space3 :: "nat \<Rightarrow> nat \<Rightarrow> nat \<Rightarrow> bool" where
  "space3 a b c =
     ((a = 225 \<and> b = 154 \<and> c = 128) \<or>
      (a = 226 \<and> b = 128 \<and> ((128 \<le> c \<and> c \<le> 138) \<or> c = 168 \<or> c = 169 \<or> c = 175)) \<or>
      (a = 226 \<and> b = 129 \<and> c = 159) \<or>
      (a = 227 \<and> b = 128 \<and> c = 128))"

definition space2 :: "nat \<Rightarrow> nat \<Rightarrow> bool" where
  "space2 a b \<longleftrightarrow> a = 194 \<and> (b = 133 \<or> b = 160)"

fun space_len :: "string \<Rightarrow> nat" where
  "space_len [] = 0"
| "space_len (a # s) =
     (if ascii_space (byte a) then 1
      else case s of
        [] \<Rightarrow> 0
      | b # t \<Rightarrow> if space2 (byte a) (byte b) then 2
          else (case t of [] \<Rightarrow> 0 | c # _ \<Rightarrow> if space3 (byte a) (byte b) (byte c) then 3 else 0))"

fun space_len_rev :: "string \<Rightarrow> nat" where
  "space_len_rev [] = 0"
| "space_len_rev (a # s) =
     (if ascii_space (byte a) then 1
      else case s of
        [] \<Rightarrow> 0
      | b # t \<Rightarrow> if space2 (byte b) (byte a) then 2
          else (case t of [] \<Rightarrow> 0 | c # _ \<Rightarrow> if space3 (byte c) (byte b) (byte a) then 3 else 0))"

lemma space_len_drop: "0 < space_len s \<Longrightarrow> length (drop (space_len s) s) < length s"
  by (cases "s = []") (simp_all del: space_len.simps(2))

lemma space_len_rev_drop: "0 < space_len_rev s \<Longrightarrow> length (drop (space_len_rev s) s) < length s"
  by (cases "s = []") (simp_all del: space_len_rev.simps(2))

function trim_left :: "string \<Rightarrow> string" where
  "trim_left s = (if space_len s = 0 then s else trim_left (drop (space_len s) s))"
  by pat_completeness auto
termination
proof (relation "measure length")
  fix s assume "space_len s \<noteq> 0"
  then show "(drop (space_len s) s, s) \<in> measure length"
    using space_len_drop [of s] by (simp only: in_measure neq0_conv)
qed (rule wf_measure)

function trim_left_rev :: "string \<Rightarrow> string" where
  "trim_left_rev s = (if space_len_rev s = 0 then s else trim_left_rev (drop (space_len_rev s) s))"
  by pat_completeness auto
termination
proof (relation "measure length")
  fix s assume "space_len_rev s \<noteq> 0"
  then show "(drop (space_len_rev s) s, s) \<in> measure length"
    using space_len_rev_drop [of s] by (simp only: in_measure neq0_conv)
qed (rule wf_measure)

declare trim_left.simps [simp del] trim_left_rev.simps [simp del]

definition trim_space :: "string \<Rightarrow> string" where
  "trim_space s = rev (trim_left_rev (rev (trim_left s)))"

lemma trim_left_Nil [simp]: "trim_left [] = []" "trim_left_rev [] = []"
  by (subst trim_left.simps, simp) (subst trim_left_rev.simps, simp)

lemma trim_space_Nil [simp]: "trim_space [] = []"
  by (simp add: trim_space_def)

text \<open>A byte that is no part of any white-space rune stays where it is.\<close>

definition plain_byte :: "char \<Rightarrow> bool" where
  "plain_byte c \<longleftrightarrow> 33 \<le> byte c \<and> byte c < 127"

lemma space_len_plain: "plain_byte c \<Longrightarrow> space_len (c # s) = 0"
  by (auto simp: plain_byte_def ascii_space_def space2_def split: list.splits)

lemma space_len_rev_plain: "plain_byte c \<Longrightarrow> space_len_rev (c # s) = 0"
  by (auto simp: plain_byte_def ascii_space_def space2_def split: list.splits)

lemma trim_space_plain:
  assumes "s \<noteq> []" and "plain_byte (hd s)" and "plain_byte (last s)"
  shows "trim_space s = s"
proof -
  have 1: "trim_left s = s"
    using assms(1,2) by (subst trim_left.simps) (cases s, simp_all del: space_len.simps(2) add: space_len_plain)
  obtain t where t: "rev s = last s # t"
    using assms(1) by (metis append_butlast_last_id rev_append rev.simps(2) rev_rev_ident append_Cons append_Nil)
  have "trim_left_rev (rev s) = rev s"
    unfolding t using assms(3)
    by (subst trim_left_rev.simps) (simp del: space_len_rev.simps(2) add: space_len_rev_plain)
  with 1 show ?thesis by (simp add: trim_space_def)
qed

text \<open>
  Letter case.  Only runes whose case partner is ASCII matter to a comparison with an ASCII
  constant: besides the ASCII letters these are U+0130, U+017F, U+0131 and U+212A.
\<close>

definition lower_byte :: "char \<Rightarrow> char" where
  "lower_byte c = (if 65 \<le> byte c \<and> byte c \<le> 90 then char_of (byte c + 32 :: nat) else c)"

definition upper_byte :: "char \<Rightarrow> char" where
  "upper_byte c = (if 97 \<le> byte c \<and> byte c \<le> 122 then char_of (byte c - 32 :: nat) else c)"

fun to_lower :: "string \<Rightarrow> string" where
  "to_lower [] = []"
| "to_lower (a # s) =
     (case s of
        b # c # t \<Rightarrow>
          if byte a = 226 \<and> byte b = 132 \<and> byte c = 170 then CHR ''k'' # to_lower t
          else if byte a = 196 \<and> byte b = 176 then CHR ''i'' # to_lower (c # t)
          else lower_byte a # to_lower s
      | b # t \<Rightarrow>
          if byte a = 196 \<and> byte b = 176 then CHR ''i'' # to_lower t
          else lower_byte a # to_lower s
      | [] \<Rightarrow> [lower_byte a])"

fun to_upper :: "string \<Rightarrow> string" where
  "to_upper [] = []"
| "to_upper (a # s) =
     (case s of
        b # t \<Rightarrow>
          if byte a = 197 \<and> byte b = 191 then CHR ''S'' # to_upper t
          else if byte a = 196 \<and> byte b = 177 then CHR ''I'' # to_upper t
          else upper_byte a # to_upper s
      | [] \<Rightarrow> [upper_byte a])"

text \<open>Simple case folding onto ASCII, as \<open>strings.EqualFold\<close> compares with an ASCII string.\<close>

fun fold_ascii :: "string \<Rightarrow> string" where
  "fold_ascii [] = []"
| "fold_ascii (a # s) =
     (case s of
        b # c # t \<Rightarrow>
          if byte a = 226 \<and> byte b = 132 \<and> byte c = 170 then CHR ''k'' # fold_ascii t
          else if byte a = 197 \<and> byte b = 191 then CHR ''s'' # fold_ascii (c # t)
          else lower_byte a # fold_ascii s
      | b # t \<Rightarrow>
          if byte a = 197 \<and> byte b = 191 then CHR ''s'' # fold_ascii t
          else lower_byte a # fold_ascii s
      | [] \<Rightarrow> [lower_byte a])"

definition equal_fold_ascii :: "string \<Rightarrow> string \<Rightarrow> bool" where
  "equal_fold_ascii s t \<longleftrightarrow> fold_ascii s = fold_ascii t"

subsection \<open>Decimal integers\<close>

definition is_digit :: "char \<Rightarrow> bool" where
  "is_digit c \<longleftrightarrow> 48 \<le> byte c \<and> byte c \<le> 57"

definition digits_val :: "string \<Rightarrow> int" where
  "digits_val s = foldl (\<lambda>n c. 10 * n + (int (byte c) - 48)) 0 s"

text \<open>\<open>strconv.Atoi\<close>: an optional sign, at least one digit, and the 64-bit range.\<close>

definition atoi :: "string \<Rightarrow> int option" where
  "atoi s =
     (let neg = (case s of c # _ \<Rightarrow> c = CHR ''-'' | [] \<Rightarrow> False);
          ds = (case s of c # t \<Rightarrow> if c = CHR ''-'' \<or> c = CHR ''+'' then t else s | [] \<Rightarrow> []);
          v = (if neg then - digits_val ds else digits_val ds)
      in if ds = [] \<or> \<not> list_all is_digit ds then None
         else if - (2 ^ 63) \<le> v \<and> v < 2 ^ 63 then Some v else None)"

section \<open>Sequencing of results\<close>

text \<open>The early return \<open>if err != nil { return err }\<close>, and a loop whose body may return early.\<close>

definition res_bind :: "'a result \<Rightarrow> ('a \<Rightarrow> 'b result) \<Rightarrow> 'b result" where
  "res_bind r f = (case r of Inl e \<Rightarrow> Inl e | Inr x \<Rightarrow> f x)"

fun fold_res :: "('a \<Rightarrow> 'x \<Rightarrow> 'x result) \<Rightarrow> 'a list \<Rightarrow> 'x \<Rightarrow> 'x result" where
  "fold_res f [] x = Inr x"
| "fold_res f (a # as) x = res_bind (f a x) (fold_res f as)"

lemma res_bind_simps [simp]: "res_bind (Inr x) f = f x" "res_bind (Inl e) f = Inl e"
  by (simp_all add: res_bind_def)

lemma res_bind_Inr: "res_bind r f = Inr y \<longleftrightarrow> (\<exists>x. r = Inr x \<and> f x = Inr y)"
  by (cases r) auto

lemma fold_res_total: "(\<And>a x. a \<in> set as \<Longrightarrow> f a x = Inr (g a x)) \<Longrightarrow> fold_res f as x = Inr (fold g as x)"
  by (induction as arbitrary: x) auto

lemma fold_res_append: "fold_res f (as @ bs) x = res_bind (fold_res f as x) (fold_res f bs)"
  by (induction as arbitrary: x) (auto simp: res_bind_def split: sum.splits)

text \<open>The loop returns early exactly when the body does on some element.\<close>

lemma fold_res_decode:
  assumes "\<And>a x. a \<in> set as \<Longrightarrow> f a x = (case dec a of Inl e \<Rightarrow> Inl e | Inr r \<Rightarrow> Inr (g a r x))"
  shows "fold_res f as x = Inr y \<longleftrightarrow>
    (\<forall>a \<in> set as. \<exists>r. dec a = Inr r) \<and> y = fold (\<lambda>a. g a (projr (dec a))) as x"
  using assms
proof (induction as arbitrary: x)
  case (Cons a as)
  then show ?case by (cases "dec a") auto
qed auto

section \<open>Maps as association lists\<close>

lemma map_of_eq_Some_distinct:
  "distinct (map fst xs) \<Longrightarrow> map_of xs k = Some v \<longleftrightarrow> (k, v) \<in> set xs"
  by simp

lemma map_of_filter_key: "map_of (filter (\<lambda>(k, v). P k) xs) = map_of xs |` {k. P k}"
  by (induction xs) (auto simp: restrict_map_def fun_eq_iff)

section \<open>Byte order\<close>

text \<open>The keys that start with \<open>p\<close> are an interval of the byte order that begins at \<open>p\<close>.\<close>

lemma prefix_le: "p \<le> p @ (s :: string)"
  by (induction p) auto

lemma has_prefix_le: "has_prefix s p \<Longrightarrow> p \<le> s"
  by (auto elim: has_prefixE simp: prefix_le)

lemma prefix_convex: "p \<le> k \<Longrightarrow> k \<le> p @ r \<Longrightarrow> has_prefix k p" for k p r :: string
proof (induction p arbitrary: k)
  case (Cons a p)
  then show ?case by (cases k) (auto simp: less_le_not_le)
qed simp

lemma has_prefix_convex:
  "p \<le> k \<Longrightarrow> k \<le> k' \<Longrightarrow> has_prefix k' p \<Longrightarrow> has_prefix k p" for k k' p :: string
  by (auto elim!: has_prefixE intro: prefix_convex)

lemma takeWhile_eq_filter_down:
  assumes "sorted_wrt (\<lambda>x y. P y \<longrightarrow> P x) xs"
  shows "takeWhile P xs = filter P xs"
  using assms
proof (induction xs)
  case (Cons x xs)
  then show ?case by (cases "P x") (auto simp: filter_empty_conv)
qed simp

end
