(* ===== verification/Web.thy ===== *)
theory Web
  imports Prelude
begin

text \<open>
  The request context the HTTP handlers share: the operator's cookie session
  (\<open>gin-contrib/sessions\<close>), the structured auth events of \<^verbatim>\<open>pkg/authevent\<close>, and the
  middleware chain of gin.

  A handler reads and writes the session in memory (\<open>sess\<close>); only \<open>session.Save()\<close> moves it
  into the response cookie (\<open>cookie\<close>), and a save can fail (\<open>save_faults\<close>, one entry per
  coming save, \<open>True\<close> for a failure).  What a browser brings back is the cookie, so that
  the effect of a handler on later requests is \<open>cookie\<close>, never \<open>sess\<close>.
  Diagnostic log lines (\<open>logger.Warn\<close>, \<open>logger.Error\<close>) are not modelled.
\<close>

datatype sval = SBool bool | SStr string

datatype fval = FStr string | FStrs "string list" | FInt int | FRunes runes

text \<open>\<^verbatim>\<open>authevent.Log\<close>: the event name and its fields.\<close>

datatype auth_event = AuthEvent (event_name: string) (event_fields: "(string \<times> fval) list")

record web =
  sess :: "string \<rightharpoonup> sval"
  cookie :: "string \<rightharpoonup> sval"
  save_faults :: "bool list"
  auth_log :: "auth_event list"

definition LoginOK :: string where "LoginOK = ''login_ok''"
definition LoginFail :: string where "LoginFail = ''login_fail''"
definition TokenIssued :: string where "TokenIssued = ''token_issued''"
definition Register :: string where "Register = ''register''"
definition RateLimited :: string where "RateLimited = ''rate_limited''"
definition Revoked :: string where "Revoked = ''revoked''"

definition authevent_Log :: "string \<Rightarrow> (string \<times> fval) list \<Rightarrow> 'a web_scheme \<Rightarrow> 'a web_scheme" where
  "authevent_Log ev flds w = w\<lparr>auth_log := auth_log w @ [AuthEvent ev flds]\<rparr>"

section \<open>Sessions\<close>

definition sess_get :: "'a web_scheme \<Rightarrow> string \<Rightarrow> sval option" where
  "sess_get w k = sess w k"

definition sess_set :: "string \<Rightarrow> sval \<Rightarrow> 'a web_scheme \<Rightarrow> 'a web_scheme" where
  "sess_set k v w = w\<lparr>sess := (sess w)(k \<mapsto> v)\<rparr>"

definition sess_delete :: "string \<Rightarrow> 'a web_scheme \<Rightarrow> 'a web_scheme" where
  "sess_delete k w = w\<lparr>sess := (sess w)(k := None)\<rparr>"

definition sess_clear :: "'a web_scheme \<Rightarrow> 'a web_scheme" where
  "sess_clear w = w\<lparr>sess := Map.empty\<rparr>"

text \<open>\<open>session.Save()\<close>: \<open>True\<close> when the cookie was written.\<close>

definition sess_save :: "'a web_scheme \<Rightarrow> bool \<times> 'a web_scheme" where
  "sess_save w =
     (case save_faults w of
        True # fs \<Rightarrow> (False, w\<lparr>save_faults := fs\<rparr>)
      | _ \<Rightarrow> (True, w\<lparr>cookie := sess w, save_faults := tl (save_faults w)\<rparr>))"

text \<open>The type assertion \<open>session.Get(k).(string)\<close> with its \<open>ok\<close>, empty string included.\<close>

definition sess_string :: "'a web_scheme \<Rightarrow> string \<Rightarrow> string option" where
  "sess_string w k = (case sess w k of Some (SStr s) \<Rightarrow> Some s | _ \<Rightarrow> None)"

named_theorems web_simps \<open>session accessors\<close>

declare sess_get_def [web_simps] sess_set_def [web_simps] sess_delete_def [web_simps]
  sess_clear_def [web_simps] sess_string_def [web_simps] authevent_Log_def [web_simps]

lemma sess_save_cases:
  "sess_save w = (True, w\<lparr>cookie := sess w, save_faults := tl (save_faults w)\<rparr>) \<or>
   sess_save w = (False, w\<lparr>save_faults := tl (save_faults w)\<rparr>)"
  by (auto simp: sess_save_def split: list.splits bool.splits)

lemma sess_save_ok:
  "sess_save w = (True, w') \<Longrightarrow> w' = w\<lparr>cookie := sess w, save_faults := tl (save_faults w)\<rparr>"
  using sess_save_cases [of w] by auto

lemma sess_save_fail:
  "sess_save w = (False, w') \<Longrightarrow> w' = w\<lparr>save_faults := tl (save_faults w)\<rparr>"
  using sess_save_cases [of w] by auto

section \<open>Responses and the middleware chain\<close>

text \<open>
  \<open>Json\<close> carries the fields of a fixed-text body, \<open>Body\<close> what a template or a library call
  renders, which each component describes by a type of its own.
\<close>

datatype 'p response =
    Redirect int string
  | Json int "(string \<times> string) list"
  | Body int 'p

text \<open>
  One gin handler: \<open>Some\<close> response ends the request (\<open>Abort\<close>, or the final handler),
  \<open>None\<close> is \<open>c.Next()\<close>.  A chain runs until the first handler that answers.
\<close>

fun run_chain :: "('w \<Rightarrow> 'p response option \<times> 'w) list \<Rightarrow> 'w \<Rightarrow> 'p response option \<times> 'w" where
  "run_chain [] w = (None, w)"
| "run_chain (h # hs) w =
     (case h w of (Some r, w') \<Rightarrow> (Some r, w') | (None, w') \<Rightarrow> run_chain hs w')"

text \<open>A final handler as the last element of a chain.\<close>

definition final_handler :: "('w \<Rightarrow> 'p response \<times> 'w) \<Rightarrow> 'w \<Rightarrow> 'p response option \<times> 'w" where
  "final_handler h w = (case h w of (r, w') \<Rightarrow> (Some r, w'))"

lemma run_chain_stop: "h w = (Some r, w') \<Longrightarrow> run_chain (h # hs) w = (Some r, w')"
  by simp

lemma run_chain_next: "h w = (None, w') \<Longrightarrow> run_chain (h # hs) w = run_chain hs w'"
  by simp

end
