(* ===== verification/Ratelimit.thy ===== *)
theory Ratelimit
  imports Web
begin

text \<open>
  \<^verbatim>\<open>pkg/ratelimit\<close>: rate expressions, the keyed token buckets, the login lockout and the
  gin middleware.  The bucket of \<^verbatim>\<open>golang.org/x/time/rate\<close> is not part of the repository; it
  enters as the pair of operations \<open>'l rate_ops\<close>, and what the sweeper relies on (a bucket
  that was idle for a full window behaves as a fresh one) is the locale \<open>rate_limiter\<close>.
  A nil \<open>*Limiter\<close> and a nil \<open>*Lockout\<close> are \<open>None\<close>.
\<close>

section \<open>Rate expressions\<close>

record Limit =
  Events :: int
  Window :: duration

definition Limit_zero :: Limit where
  "Limit_zero = \<lparr>Events = 0, Window = 0\<rparr>"

definition Enabled :: "Limit \<Rightarrow> bool" where
  "Enabled l \<longleftrightarrow> 0 < Events l"

definition windowUnits :: "string \<rightharpoonup> duration" where
  "windowUnits = [''s'' \<mapsto> second, ''m'' \<mapsto> minute, ''h'' \<mapsto> hour]"

definition ParseLimit :: "string \<Rightarrow> Limit result" where
  "ParseLimit s =
     (let trimmed = trim_space s
      in if trimmed = ''0'' then Inr Limit_zero
         else (case cut_char trimmed (CHR ''/'') of (events, unit, found) \<Rightarrow>
           if \<not> found then Inl (ErrMsg ''expected N/s, N/m, N/h, or 0'')
           else (case atoi events of
               None \<Rightarrow> Inl (ErrMsg ''event count must be a positive integer'')
             | Some count \<Rightarrow>
                 if count \<le> 0 then Inl (ErrMsg ''event count must be a positive integer'')
                 else (case windowUnits unit of
                     None \<Rightarrow> Inl (ErrMsg ''unit must be s, m, or h'')
                   | Some window \<Rightarrow> Inr \<lparr>Events = count, Window = window\<rparr>))))"

section \<open>The keyed limiter\<close>

text \<open>\<open>rl_new\<close> is \<open>rate.NewLimiter(rate.Every(interval), burst)\<close>, \<open>rl_allow\<close> is \<open>Allow()\<close> at an
  instant.\<close>

record 'l rate_ops =
  rl_new :: "duration \<Rightarrow> int \<Rightarrow> 'l"
  rl_allow :: "'l \<Rightarrow> time \<Rightarrow> bool \<times> 'l"

record 'l visitor =
  limiter :: 'l
  lastSeen :: time

record 'l Limiter =
  limit :: Limit
  visitors :: "string \<rightharpoonup> 'l visitor"

definition NewLimiter :: "Limit \<Rightarrow> 'l Limiter option" where
  "NewLimiter l = (if \<not> Enabled l then None else Some \<lparr>limit = l, visitors = Map.empty\<rparr>)"

definition interval :: "Limit \<Rightarrow> duration" where
  "interval l = go_div (Window l) (Events l)"

definition Allow :: "'l rate_ops \<Rightarrow> string \<Rightarrow> time \<Rightarrow> 'l Limiter option \<Rightarrow> bool \<times> 'l Limiter option" where
  "Allow R key now L =
     (case L of
        None \<Rightarrow> (True, None)
      | Some l \<Rightarrow>
          (let v = (case visitors l key of
                 None \<Rightarrow> \<lparr>limiter = rl_new R (interval (limit l)) (Events (limit l)), lastSeen = 0\<rparr>
               | Some v \<Rightarrow> v);
               (ok, lim) = rl_allow R (limiter v) now
           in (ok, Some (l\<lparr>visitors := (visitors l)(key \<mapsto> \<lparr>limiter = lim, lastSeen = now\<rparr>)\<rparr>))))"

definition idle_visitor :: "Limit \<Rightarrow> time \<Rightarrow> 'l visitor \<Rightarrow> bool" where
  "idle_visitor l now v \<longleftrightarrow> Window l \<le> time_sub now (lastSeen v)"

definition Limiter_Sweep :: "time \<Rightarrow> 'l Limiter option \<Rightarrow> 'l Limiter option" where
  "Limiter_Sweep now L =
     (case L of
        None \<Rightarrow> None
      | Some l \<Rightarrow> Some (l\<lparr>visitors := (\<lambda>k. case visitors l k of
            None \<Rightarrow> None
          | Some v \<Rightarrow> if idle_visitor (limit l) now v then None else Some v)\<rparr>))"

section \<open>The middleware\<close>

text \<open>\<open>None\<close> when the limiter is disabled: the route is registered without the extra hop.
  The limiter lives beside the request context, so the handler's state is the pair.\<close>

definition Middleware ::
  "'l rate_ops \<Rightarrow> 'l Limiter option \<Rightarrow> string \<Rightarrow>
     (string \<Rightarrow> time \<Rightarrow> 'l Limiter option \<times> 'a web_scheme \<Rightarrow>
        'p response option \<times> ('l Limiter option \<times> 'a web_scheme)) option" where
  "Middleware R configured endpoint =
     (case configured of
        None \<Rightarrow> None
      | Some _ \<Rightarrow> Some (\<lambda>clientIP now (L, w).
          (case Allow R clientIP now L of (ok, L') \<Rightarrow>
             if ok then (None, (L', w))
             else (Some (Json 429 [(''error'', ''temporarily_unavailable''),
                                   (''error_description'', ''too many requests'')]),
                   (L', authevent_Log RateLimited
                     [(''endpoint'', FStr endpoint), (''client_ip'', FStr clientIP)] w)))))"

section \<open>The login lockout\<close>

record lockoutEntry =
  failures :: int
  lockedUntil :: time
  lastFailure :: time

record Lockout =
  threshold :: int
  lock_duration :: duration
  entries :: "string \<rightharpoonup> lockoutEntry"

definition NewLockout :: "int \<Rightarrow> duration \<Rightarrow> Lockout option" where
  "NewLockout thr d =
     (if thr \<le> 0 then None
      else Some \<lparr>threshold = thr, lock_duration = d, entries = Map.empty\<rparr>)"

definition Locked :: "Lockout option \<Rightarrow> string \<Rightarrow> time \<Rightarrow> bool" where
  "Locked L key now =
     (case L of
        None \<Rightarrow> False
      | Some l \<Rightarrow> (case entries l key of None \<Rightarrow> False | Some e \<Rightarrow> now < lockedUntil e))"

definition Fail :: "string \<Rightarrow> time \<Rightarrow> Lockout option \<Rightarrow> Lockout option" where
  "Fail key now L =
     (case L of
        None \<Rightarrow> None
      | Some l \<Rightarrow>
          (let e = (case entries l key of
                 None \<Rightarrow> \<lparr>failures = 0, lockedUntil = 0, lastFailure = 0\<rparr>
               | Some e \<Rightarrow> e);
               e = (if \<not> time_is_zero (lockedUntil e) \<and> \<not> now < lockedUntil e
                    then e\<lparr>failures := 0, lockedUntil := 0\<rparr> else e);
               e = e\<lparr>failures := failures e + 1, lastFailure := now\<rparr>;
               e = (if failures e = threshold l then e\<lparr>lockedUntil := now + lock_duration l\<rparr> else e)
           in Some (l\<lparr>entries := (entries l)(key \<mapsto> e)\<rparr>)))"

definition Reset :: "string \<Rightarrow> Lockout option \<Rightarrow> Lockout option" where
  "Reset key L = map_option (\<lambda>l. l\<lparr>entries := (entries l)(key := None)\<rparr>) L"

definition Lockout_Sweep :: "time \<Rightarrow> Lockout option \<Rightarrow> Lockout option" where
  "Lockout_Sweep now L =
     map_option (\<lambda>l. l\<lparr>entries := (\<lambda>k. case entries l k of
         None \<Rightarrow> None
       | Some e \<Rightarrow>
           if now < lockedUntil e then Some e
           else if lock_duration l \<le> time_sub now (lastFailure e) then None else Some e)\<rparr>) L"

section \<open>Sweeping the limiter is unobservable\<close>

text \<open>A bucket that came out of \<open>rl_new\<close> and was last asked at \<open>t\<close>.\<close>

inductive rl_used :: "'l rate_ops \<Rightarrow> duration \<Rightarrow> int \<Rightarrow> 'l \<Rightarrow> time \<Rightarrow> bool" for R i b where
  first: "rl_used R i b (snd (rl_allow R (rl_new R i b) t)) t"
| later: "rl_used R i b l t \<Longrightarrow> t \<le> t' \<Longrightarrow> rl_used R i b (snd (rl_allow R l t')) t'"

locale rate_limiter =
  fixes R :: "'l rate_ops"
  assumes idle_full: "rl_used R i b l t \<Longrightarrow> 0 \<le> i \<Longrightarrow> 0 < b \<Longrightarrow> t + b * i \<le> t' \<Longrightarrow>
    rl_allow R l t' = rl_allow R (rl_new R i b) t'"

text \<open>Requests and sweeps in the order of time.\<close>

datatype limiter_op = OpAllow string time | OpSweep time

fun op_time :: "limiter_op \<Rightarrow> time" where
  "op_time (OpAllow k t) = t"
| "op_time (OpSweep t) = t"

fun is_allow :: "limiter_op \<Rightarrow> bool" where
  "is_allow (OpAllow k t) = True"
| "is_allow (OpSweep t) = False"

fun limiter_run :: "'l rate_ops \<Rightarrow> limiter_op list \<Rightarrow> 'l Limiter option \<Rightarrow> bool list" where
  "limiter_run R [] L = []"
| "limiter_run R (OpAllow k t # ops) L =
     (case Allow R k t L of (ok, L') \<Rightarrow> ok # limiter_run R ops L')"
| "limiter_run R (OpSweep t # ops) L = limiter_run R ops (Limiter_Sweep t L)"

lemma interval_le:
  assumes "0 < Events l" and "0 \<le> Window l"
  shows "0 \<le> interval l" and "Events l * interval l \<le> Window l"
proof -
  have i: "interval l = Window l div Events l"
    using assms by (simp add: interval_def go_div_pos)
  show "0 \<le> interval l" using assms by (simp add: i pos_imp_zdiv_nonneg_iff)
  show "Events l * interval l \<le> Window l"
    using minus_mod_eq_mult_div [of "Window l" "Events l"] pos_mod_sign [OF assms(1), of "Window l"]
    by (simp add: i)
qed

text \<open>Swept and unswept limiters stay related: what the sweep dropped was idle for a window.\<close>

definition visitor_ok :: "'l rate_ops \<Rightarrow> Limit \<Rightarrow> time \<Rightarrow> 'l visitor \<Rightarrow> bool" where
  "visitor_ok R l T v \<longleftrightarrow>
     rl_used R (interval l) (Events l) (limiter v) (lastSeen v) \<and> lastSeen v \<le> T"

definition swept_rel :: "'l rate_ops \<Rightarrow> time \<Rightarrow> 'l Limiter \<Rightarrow> 'l Limiter \<Rightarrow> bool" where
  "swept_rel R T s u \<longleftrightarrow> limit s = limit u \<and>
     (\<forall>k v. visitors u k = Some v \<longrightarrow> visitor_ok R (limit u) T v) \<and>
     (\<forall>k. visitors s k = visitors u k \<or>
        (visitors s k = None \<and> (\<exists>v. visitors u k = Some v \<and> lastSeen v + Window (limit u) \<le> T)))"

lemma swept_rel_sweep:
  assumes "swept_rel R T s u" and "T \<le> now"
    and "0 \<le> Window (limit u)" and "Window (limit u) < 2 ^ 63"
  obtains s' where "Limiter_Sweep now (Some s) = Some s'" and "swept_rel R now s' u"
proof -
  have idle: "idle_visitor (limit s) now v \<longleftrightarrow> lastSeen v + Window (limit u) \<le> now" for v :: "'a visitor"
    using assms by (simp add: idle_visitor_def time_sub_ge swept_rel_def)
  let ?s = "s\<lparr>visitors := (\<lambda>k. case visitors s k of None \<Rightarrow> None
      | Some v \<Rightarrow> if idle_visitor (limit s) now v then None else Some v)\<rparr>"
  have eq: "Limiter_Sweep now (Some s) = Some ?s"
    by (simp add: Limiter_Sweep_def)
  have keys: "visitors ?s k = visitors u k \<or> (visitors ?s k = None \<and>
      (\<exists>v. visitors u k = Some v \<and> lastSeen v + Window (limit u) \<le> now))" for k
  proof (cases "visitors s k")
    case None
    have "visitors s k = visitors u k \<or> (visitors s k = None \<and>
        (\<exists>v. visitors u k = Some v \<and> lastSeen v + Window (limit u) \<le> T))"
      using assms(1) by (simp add: swept_rel_def)
    with None assms(2) show ?thesis by (auto intro: order_trans)
  next
    case (Some v)
    with assms(1) have u: "visitors u k = Some v"
      unfolding swept_rel_def by (metis option.distinct(1))
    with Some show ?thesis by (simp add: idle)
  qed
  have ok: "visitor_ok R (limit u) now v" if "visitors u k = Some v" for k v
  proof -
    have "visitor_ok R (limit u) T v" using assms(1) that by (auto simp: swept_rel_def)
    with assms(2) show ?thesis by (auto simp: visitor_ok_def)
  qed
  have "swept_rel R now ?s u"
    unfolding swept_rel_def using assms(1) ok keys by (auto simp: swept_rel_def)
  with eq that show ?thesis by blast
qed

context rate_limiter
begin

lemma swept_rel_allow:
  assumes rel: "swept_rel R T s u" and T: "T \<le> now"
    and ev: "0 < Events (limit u)" and win: "0 \<le> Window (limit u)"
  obtains ok s' u' where "Allow R k now (Some s) = (ok, Some s')" "Allow R k now (Some u) = (ok, Some u')"
    "swept_rel R now s' u'" "limit u' = limit u"
proof -
  let ?i = "interval (limit u)" and ?b = "Events (limit u)"
  let ?fresh = "\<lparr>limiter = rl_new R ?i ?b, lastSeen = 0\<rparr>"
  define vu where "vu = (case visitors u k of None \<Rightarrow> ?fresh | Some v \<Rightarrow> v)"
  define vs where "vs = (case visitors s k of None \<Rightarrow> ?fresh | Some v \<Rightarrow> v)"
  have lim: "limit s = limit u" using rel by (simp add: swept_rel_def)
  have same: "rl_allow R (limiter vs) now = rl_allow R (limiter vu) now"
  proof (cases "visitors s k = visitors u k")
    case True
    then show ?thesis by (simp add: vs_def vu_def)
  next
    case False
    then obtain v where v: "visitors s k = None" "visitors u k = Some v"
      and idle: "lastSeen v + Window (limit u) \<le> T"
      using rel unfolding swept_rel_def by metis
    have used: "rl_used R ?i ?b (limiter v) (lastSeen v)"
      using rel v by (auto simp: swept_rel_def visitor_ok_def)
    have "lastSeen v + ?b * ?i \<le> now"
      using idle T interval_le [OF ev win] by linarith
    with idle_full [OF used interval_le(1) [OF ev win] ev] v show ?thesis
      by (simp add: vs_def vu_def)
  qed
  obtain ok l where al: "rl_allow R (limiter vu) now = (ok, l)" by force
  let ?v = "\<lparr>limiter = l, lastSeen = now\<rparr>"
  let ?s = "s\<lparr>visitors := (visitors s)(k \<mapsto> ?v)\<rparr>" and ?u = "u\<lparr>visitors := (visitors u)(k \<mapsto> ?v)\<rparr>"
  have used: "rl_used R ?i ?b l now"
  proof (cases "visitors u k")
    case None
    then show ?thesis using rl_used.first [of R ?i ?b now] al by (simp add: vu_def)
  next
    case (Some v)
    then have "visitor_ok R (limit u) T v" using rel by (auto simp: swept_rel_def)
    then show ?thesis
      using rl_used.later [of R ?i ?b "limiter v" "lastSeen v" now] al T Some
      by (simp add: vu_def visitor_ok_def)
  qed
  have "swept_rel R now ?s ?u"
    unfolding swept_rel_def
  proof (intro conjI allI impI)
    show "limit ?s = limit ?u" by (simp add: lim)
  next
    fix j v assume j: "visitors ?u j = Some v"
    show "visitor_ok R (limit ?u) now v"
    proof (cases "j = k")
      case True
      with j used show ?thesis by (auto simp: visitor_ok_def)
    next
      case False
      with j rel have "visitor_ok R (limit u) T v" by (auto simp: swept_rel_def)
      with T show ?thesis by (auto simp: visitor_ok_def)
    qed
  next
    fix j
    show "visitors ?s j = visitors ?u j \<or> (visitors ?s j = None \<and>
      (\<exists>v. visitors ?u j = Some v \<and> lastSeen v + Window (limit ?u) \<le> now))"
    proof (cases "j = k")
      case False
      have "visitors s j = visitors u j \<or> (visitors s j = None \<and>
        (\<exists>v. visitors u j = Some v \<and> lastSeen v + Window (limit u) \<le> T))"
        using rel by (simp add: swept_rel_def)
      with False T show ?thesis by force
    qed simp
  qed
  moreover have "Allow R k now (Some s) = (ok, Some ?s)" "Allow R k now (Some u) = (ok, Some ?u)"
    using same al by (simp_all add: Allow_def lim vs_def vu_def cong: option.case_cong)
  ultimately show ?thesis using that by simp
qed

lemma sweep_unobservable_rel:
  assumes "swept_rel R T s u" and "sorted (map op_time ops)" and "\<forall>p \<in> set ops. T \<le> op_time p"
    and "0 < Events (limit u)" and "0 \<le> Window (limit u)" and "Window (limit u) < 2 ^ 63"
  shows "limiter_run R ops (Some s) = limiter_run R (filter is_allow ops) (Some u)"
  using assms
proof (induction ops arbitrary: T s u)
  case Nil
  then show ?case by simp
next
  case (Cons p ops)
  show ?case
  proof (cases p)
    case (OpAllow k t)
    obtain ok s' u' where a: "Allow R k t (Some s) = (ok, Some s')" "Allow R k t (Some u) = (ok, Some u')"
      and rel: "swept_rel R t s' u'" and lim: "limit u' = limit u"
      using swept_rel_allow [OF Cons.prems(1), of t k] Cons.prems OpAllow by auto
    have "limiter_run R ops (Some s') = limiter_run R (filter is_allow ops) (Some u')"
      using Cons.prems OpAllow lim by (intro Cons.IH [OF rel]) auto
    with a OpAllow show ?thesis by simp
  next
    case (OpSweep t)
    obtain s' where a: "Limiter_Sweep t (Some s) = Some s'" and rel: "swept_rel R t s' u"
      using swept_rel_sweep [OF Cons.prems(1), of t] Cons.prems OpSweep by auto
    have "limiter_run R ops (Some s') = limiter_run R (filter is_allow ops) (Some u)"
      using Cons.prems OpSweep by (intro Cons.IH [OF rel]) auto
    with a OpSweep show ?thesis by simp
  qed
qed

end

section \<open>A reference bucket\<close>

text \<open>
  The token bucket of the library's documentation, with tokens counted in nanoseconds of refill:
  a bucket holds at most \<open>burst * interval\<close> and one event costs \<open>interval\<close>.
\<close>

record bucket =
  b_interval :: duration
  b_burst :: int
  b_credit :: int
  b_last :: time

definition bucket_new :: "duration \<Rightarrow> int \<Rightarrow> bucket" where
  "bucket_new i b = \<lparr>b_interval = i, b_burst = b, b_credit = b * i, b_last = 0\<rparr>"

definition bucket_allow :: "bucket \<Rightarrow> time \<Rightarrow> bool \<times> bucket" where
  "bucket_allow x t =
     (let c = min (b_burst x * b_interval x) (b_credit x + max 0 (t - b_last x))
      in if b_interval x \<le> c then (True, x\<lparr>b_credit := c - b_interval x, b_last := t\<rparr>)
         else (False, x\<lparr>b_credit := c, b_last := t\<rparr>))"

definition bucket_ops :: "bucket rate_ops" where
  "bucket_ops = \<lparr>rl_new = bucket_new, rl_allow = bucket_allow\<rparr>"

lemma bucket_used:
  assumes "rl_used bucket_ops i b l t" and "0 \<le> i" and "0 < b"
  shows "b_interval l = i \<and> b_burst l = b \<and> 0 \<le> b_credit l \<and> b_last l = t"
  using assms
proof (induction rule: rl_used.induct)
  case (first t)
  then show ?case by (auto simp: bucket_ops_def bucket_allow_def bucket_new_def Let_def)
next
  case (later l t t')
  then show ?case by (auto simp: bucket_ops_def bucket_allow_def Let_def)
qed

interpretation bucket: rate_limiter bucket_ops
proof
  fix i b l t t'
  assume u: "rl_used bucket_ops i b l t" and i: "0 \<le> i" and b: "0 < b" and t: "t + b * i \<le> t'"
  have l: "b_interval l = i" "b_burst l = b" "0 \<le> b_credit l" "b_last l = t"
    using bucket_used [OF u i b] by auto
  have "0 \<le> b * i" using i b by simp
  then have "min (b * i) (b_credit l + max 0 (t' - t)) = b * i"
    and "min (b * i) (b * i + max 0 (t' - 0)) = b * i"
    using t l(3) by auto
  then show "rl_allow bucket_ops l t' = rl_allow bucket_ops (rl_new bucket_ops i b) t'"
    using l by (auto simp: bucket_ops_def bucket_allow_def bucket_new_def Let_def intro: bucket.equality)
qed

section \<open>Properties\<close>

lemma ParseLimit_cases:
  assumes "ParseLimit s = Inr l"
  shows "l = Limit_zero \<or> (0 < Events l \<and> Window l \<in> {second, minute, hour})"
  using assms
  by (auto simp: ParseLimit_def Let_def windowUnits_def split: if_splits option.splits prod.splits)

lemma limiter_run_disabled: "limiter_run R ops None = limiter_run R (filter is_allow ops) None"
proof (induction ops)
  case (Cons p ops)
  then show ?case by (cases p) (simp_all add: Allow_def Limiter_Sweep_def)
qed simp

text \<open>C40: The periodic sweep of a rate limiter is unobservable.  For a limiter built from any rate
  expression the parser accepts, and any time-ordered sequence of requests and sweeps, the
  decisions are the same as with all sweeps left out: dropping an idle bucket never gives a
  client extra requests and never costs it one.\<close>

theorem limiter_sweep_unobservable:
  assumes "rate_limiter R" and "ParseLimit s = Inr l" and "sorted (map op_time ops)"
  shows "limiter_run R ops (NewLimiter l) = limiter_run R (filter is_allow ops) (NewLimiter l)"
proof (cases "Enabled l")
  case False
  then show ?thesis by (simp add: NewLimiter_def limiter_run_disabled [of R ops])
next
  case True
  let ?L = "\<lparr>limit = l, visitors = Map.empty\<rparr>"
  have ev: "0 < Events l" and win: "0 \<le> Window l" "Window l < 2 ^ 63"
    using True ParseLimit_cases [OF assms(2)] by (auto simp: Enabled_def Limit_zero_def dur_defs)
  define T where "T = (if ops = [] then 0 else op_time (hd ops))"
  have T: "\<forall>p \<in> set ops. T \<le> op_time p"
    using assms(3) by (cases ops) (auto simp: T_def)
  have "swept_rel R T ?L ?L" by (simp add: swept_rel_def)
  from rate_limiter.sweep_unobservable_rel [OF assms(1) this assms(3) T] ev win True
  show ?thesis by (simp add: NewLimiter_def)
qed

lemma limiter_sweep_unobservable_witness:
  "limiter_run bucket_ops
     [OpAllow ''ip'' (5 * second), OpSweep (9 * second), OpAllow ''ip'' (10 * second)]
     (NewLimiter \<lparr>Events = 1, Window = second\<rparr>) =
   limiter_run bucket_ops [OpAllow ''ip'' (5 * second), OpAllow ''ip'' (10 * second)]
     (NewLimiter \<lparr>Events = 1, Window = second\<rparr>)"
proof -
  have "ParseLimit ''1/s'' = Inr \<lparr>Events = 1, Window = second\<rparr>" by code_simp
  from limiter_sweep_unobservable [OF bucket.rate_limiter_axioms this,
      of "[OpAllow ''ip'' (5 * second), OpSweep (9 * second), OpAllow ''ip'' (10 * second)]"]
  show ?thesis by (simp add: dur_defs)
qed

subsection \<open>Lockout\<close>

definition fails :: "string \<Rightarrow> time list \<Rightarrow> Lockout option \<Rightarrow> Lockout option" where
  "fails key ts L = fold (Fail key) ts L"

lemma fails_simps [simp]:
  "fails key [] L = L"
  "fails key (t # ts) L = fails key ts (Fail key t L)"
  "fails key (ss @ ts) L = fails key ts (fails key ss L)"
  by (simp_all add: fails_def)

text \<open>The entry of \<open>key\<close> after the failures, with everything a later failure reads.\<close>

definition lock_entry :: "Lockout option \<Rightarrow> string \<Rightarrow> int \<Rightarrow> duration \<Rightarrow> int \<Rightarrow> time \<Rightarrow> bool" where
  "lock_entry L key thr d n u \<longleftrightarrow> (\<exists>l e. L = Some l \<and> threshold l = thr \<and> lock_duration l = d \<and>
     entries l key = Some e \<and> failures e = n \<and> lockedUntil e = u)"

lemma lock_entry_Locked: "lock_entry L key thr d n u \<Longrightarrow> Locked L key now \<longleftrightarrow> now < u"
  by (auto simp: lock_entry_def Locked_def)

lemma Fail_counting:
  assumes "lock_entry L key thr d n 0"
  shows "lock_entry (Fail key t L) key thr d (n + 1) (if n + 1 = thr then t + d else 0)"
  using assms by (auto simp: lock_entry_def Fail_def Let_def)

lemma Fail_armed:
  assumes "lock_entry L key thr d n u" and "thr \<le> n" and "t < u"
  shows "lock_entry (Fail key t L) key thr d (n + 1) u"
  using assms by (auto simp: lock_entry_def Fail_def Let_def)

lemma Fail_expired:
  assumes "lock_entry L key thr d n u" and "u \<noteq> 0" and "u \<le> t"
  shows "lock_entry (Fail key t L) key thr d 1 (if thr = 1 then t + d else 0)"
  using assms by (auto simp: lock_entry_def Fail_def Let_def)

lemma Fail_fresh:
  assumes "0 < thr"
  shows "lock_entry (Fail key t (NewLockout thr d)) key thr d 1 (if thr = 1 then t + d else 0)"
  using assms by (auto simp: lock_entry_def Fail_def NewLockout_def Let_def)

lemma fails_counting:
  assumes "lock_entry L key thr d n 0" and "n + int (length ts) \<le> thr" and "ts \<noteq> []"
  shows "lock_entry (fails key ts L) key thr d (n + int (length ts))
    (if n + int (length ts) = thr then last ts + d else 0)"
  using assms
proof (induction ts arbitrary: L n)
  case (Cons t ts)
  have step: "lock_entry (Fail key t L) key thr d (n + 1) (if n + 1 = thr then t + d else 0)"
    using Cons.prems(1) by (rule Fail_counting)
  show ?case
  proof (cases "ts = []")
    case True
    with step show ?thesis by (auto split: if_splits)
  next
    case False
    then have "0 < length ts" by simp
    with Cons.prems(2) have "n + 1 \<noteq> thr" by auto
    with step have "lock_entry (Fail key t L) key thr d (n + 1) 0" by simp
    from Cons.IH [OF this] False Cons.prems(2) show ?thesis
      by (auto simp: add.assoc split: if_splits)
  qed
qed simp

lemma fails_armed:
  assumes "lock_entry L key thr d n u" and "thr \<le> n" and "\<forall>t \<in> set ts. t < u"
  shows "lock_entry (fails key ts L) key thr d (n + int (length ts)) u"
  using assms
proof (induction ts arbitrary: L n)
  case (Cons t ts)
  have "lock_entry (Fail key t L) key thr d (n + 1) u"
    using Cons.prems by (intro Fail_armed) auto
  from Cons.IH [OF this] Cons.prems show ?case by (simp add: add.assoc)
qed simp

lemma fails_fresh:
  assumes "0 < thr" and "as \<noteq> []" and "int (length as) \<le> thr"
  shows "lock_entry (fails key as (NewLockout thr d)) key thr d (int (length as))
    (if int (length as) = thr then last as + d else 0)"
proof -
  obtain a as' where as: "as = a # as'" using assms(2) by (cases as) auto
  note first = Fail_fresh [OF assms(1), of key a d]
  show ?thesis
  proof (cases "as' = []")
    case True
    with first show ?thesis by (auto simp: as split: if_splits)
  next
    case False
    then have "thr \<noteq> 1" using assms(3) by (cases as') (auto simp: as)
    with first have "lock_entry (Fail key a (NewLockout thr d)) key thr d 1 0" by simp
    from fails_counting [OF this _ False] assms(3) False show ?thesis
      by (auto simp: as split: if_splits)
  qed
qed

text \<open>Fewer than \<open>threshold\<close> consecutive failures never lock the account, and the
  \<open>threshold\<close>-th one locks it for exactly the lockout duration, counted from that failure.\<close>

theorem lockout_arms:
  assumes "0 < thr" and "int (length ts) \<le> thr" and "0 \<le> now"
  shows "Locked (fails key ts (NewLockout thr d)) key now \<longleftrightarrow>
    int (length ts) = thr \<and> now < last ts + d"
proof (cases "ts = []")
  case True
  with assms show ?thesis by (auto simp: NewLockout_def Locked_def)
next
  case False
  from fails_fresh [OF assms(1) False assms(2), of key d] assms(3) show ?thesis
    by (auto dest: lock_entry_Locked [where now = now] split: if_splits)
qed

lemma lockout_arms_witness:
  "Locked (fails ''operator'' [10, 20, 30] (NewLockout 3 100)) ''operator'' 129 \<and>
   \<not> Locked (fails ''operator'' [10, 20, 30] (NewLockout 3 100)) ''operator'' 130"
  using lockout_arms [of 3 "[10, 20, 30]" 129 "''operator''" 100]
    lockout_arms [of 3 "[10, 20, 30]" 130 "''operator''" 100] by simp



text \<open>Sweeping an entry never ends a lock early.\<close>

lemma Lockout_Sweep_Locked:
  "s \<le> now \<Longrightarrow> Locked (Lockout_Sweep s L) key now = Locked L key now"
  by (cases L) (auto simp: Locked_def Lockout_Sweep_def split: option.splits)

end
