(* ===== verification/Url.thy ===== *)
theory Url
  imports Prelude
begin

text \<open>
  URLs and IP addresses as the Go standard library presents them.  \<open>url.Parse\<close> and
  \<open>net.ParseIP\<close> enter the components as parameters (every statement holds for any parser);
  the accessors of a parsed URL and the address predicates of \<open>net/netip\<close> are defined here.
\<close>

section \<open>Parsed URLs\<close>

record url =
  u_Scheme :: string
  u_User :: "string option"
  u_Host :: string
  u_Path :: string
  u_RawQuery :: string
  u_Fragment :: string

type_synonym url_parser = "string \<Rightarrow> url option"

definition validOptionalPort :: "string \<Rightarrow> bool" where
  "validOptionalPort p \<longleftrightarrow> (case p of [] \<Rightarrow> True | c # ds \<Rightarrow> c = CHR '':'' \<and> list_all is_digit ds)"

text \<open>\<open>splitHostPort\<close> of \<open>net/url\<close>.\<close>

definition splitHostPort :: "string \<Rightarrow> string \<times> string" where
  "splitHostPort hostPort =
     (let (host, port) = (case last_index hostPort (CHR '':'') of
            None \<Rightarrow> (hostPort, [])
          | Some i \<Rightarrow> if validOptionalPort (drop i hostPort) then (take i hostPort, drop (Suc i) hostPort)
              else (hostPort, []))
      in (if has_prefix host ''['' \<and> has_suffix host '']'' then butlast (tl host) else host, port))"

definition Hostname :: "url \<Rightarrow> string" where "Hostname u = fst (splitHostPort (u_Host u))"
definition Port :: "url \<Rightarrow> string" where "Port u = snd (splitHostPort (u_Host u))"

text \<open>\<open>strings.Fields\<close> on the ASCII white space; other white space does not occur in a scope.\<close>

fun fields_acc :: "string \<Rightarrow> string \<Rightarrow> string list" where
  "fields_acc [] w = (if w = [] then [] else [rev w])"
| "fields_acc (c # s) w =
     (if ascii_space (byte c) then (if w = [] then fields_acc s [] else rev w # fields_acc s [])
      else fields_acc s (c # w))"

definition fields_of :: "string \<Rightarrow> string list" where "fields_of s = fields_acc s []"

end
