(* ===== verification/Netip.thy ===== *)
theory Netip
  imports Prelude "HOL-Library.Word"
begin

text \<open>
  The address predicates of \<open>net/netip\<close> that the SSRF guard of \<^verbatim>\<open>pkg/cimd/resolver.go\<close> uses, on
  32-bit and 128-bit words, and the guard itself.  \<open>public_ranges\<close> states, as intervals of
  natural numbers taken from the RFCs the source cites, what a non-public address is; the guard
  is proved equivalent to it.
\<close>

section \<open>Addresses\<close>

datatype addr = V4 "32 word" | V6 "128 word"

text \<open>\<open>netip.AddrFromSlice\<close>: 4 or 16 bytes, most significant first.\<close>

definition be_word :: "nat list \<Rightarrow> 'a::len word" where
  "be_word bs = foldl (\<lambda>a b. a * 256 + of_nat b) 0 bs"

definition AddrFromSlice :: "nat list \<Rightarrow> addr option" where
  "AddrFromSlice bs =
     (if length bs = 4 then Some (V4 (be_word bs))
      else if length bs = 16 then Some (V6 (be_word bs)) else None)"

definition Unmap :: "addr \<Rightarrow> addr" where
  "Unmap a =
     (case a of
        V4 w \<Rightarrow> V4 w
      | V6 w \<Rightarrow> if drop_bit 32 w = 0xffff then V4 (ucast w) else V6 w)"

definition IsLoopback :: "addr \<Rightarrow> bool" where
  "IsLoopback a = (case a of V4 w \<Rightarrow> drop_bit 24 w = 127 | V6 w \<Rightarrow> w = 1)"

definition IsPrivate :: "addr \<Rightarrow> bool" where
  "IsPrivate a =
     (case a of
        V4 w \<Rightarrow> drop_bit 24 w = 10 \<or> drop_bit 20 w = 0xac1 \<or> drop_bit 16 w = 0xc0a8
      | V6 w \<Rightarrow> drop_bit 121 w = 0x7e)"

definition IsLinkLocalUnicast :: "addr \<Rightarrow> bool" where
  "IsLinkLocalUnicast a =
     (case a of V4 w \<Rightarrow> drop_bit 16 w = 0xa9fe | V6 w \<Rightarrow> drop_bit 118 w = 0x3fa)"

definition IsMulticast :: "addr \<Rightarrow> bool" where
  "IsMulticast a = (case a of V4 w \<Rightarrow> drop_bit 28 w = 0xe | V6 w \<Rightarrow> drop_bit 120 w = 0xff)"

text \<open>The scope nibble of a v6 multicast address is in the low four bits of its second byte.\<close>

definition IsLinkLocalMulticast :: "addr \<Rightarrow> bool" where
  "IsLinkLocalMulticast a =
     (case a of
        V4 w \<Rightarrow> drop_bit 8 w = 0xe00000
      | V6 w \<Rightarrow> drop_bit 120 w = 0xff \<and> take_bit 4 (drop_bit 112 w) = 2)"

definition IsInterfaceLocalMulticast :: "addr \<Rightarrow> bool" where
  "IsInterfaceLocalMulticast a =
     (case a of V4 w \<Rightarrow> False | V6 w \<Rightarrow> drop_bit 120 w = 0xff \<and> take_bit 4 (drop_bit 112 w) = 1)"

definition IsUnspecified :: "addr \<Rightarrow> bool" where
  "IsUnspecified a = (case a of V4 w \<Rightarrow> w = 0 | V6 w \<Rightarrow> w = 0)"

text \<open>A prefix is its address and the number of bits below it; families never mix.\<close>

datatype pfx = P4 "32 word" nat | P6 "128 word" nat

definition Contains :: "pfx \<Rightarrow> addr \<Rightarrow> bool" where
  "Contains p a =
     (case (p, a) of
        (P4 q n, V4 w) \<Rightarrow> drop_bit (32 - n) w = drop_bit (32 - n) q
      | (P6 q n, V6 w) \<Rightarrow> drop_bit (128 - n) w = drop_bit (128 - n) q
      | _ \<Rightarrow> False)"

definition disallowedPrefixes :: "pfx list" where
  "disallowedPrefixes =
     [P4 0x64400000 10, P4 0xc0000000 24, P4 0xc0000200 24, P4 0xc6120000 15, P4 0xc6336400 24,
      P4 0xcb007100 24, P4 0xf0000000 4,
      P6 0x20010db8000000000000000000000000 32, P6 0x0064ff9b000000000000000000000000 96,
      P6 0x0064ff9b000100000000000000000000 48, P6 0x01000000000000000000000000000000 64]"

definition isDisallowedIP :: "nat list \<Rightarrow> bool" where
  "isDisallowedIP ip =
     (case AddrFromSlice ip of
        None \<Rightarrow> True
      | Some a0 \<Rightarrow>
          (let a = Unmap a0
           in if IsLoopback a \<or> IsPrivate a \<or> IsLinkLocalUnicast a \<or> IsLinkLocalMulticast a \<or>
                 IsInterfaceLocalMulticast a \<or> IsMulticast a \<or> IsUnspecified a
              then True
              else list_ex (\<lambda>p. Contains p a) disallowedPrefixes))"

section \<open>The specification by intervals\<close>

text \<open>CIDR blocks as \<open>(first address, host bits)\<close>.\<close>

definition blocks4 :: "(nat \<times> nat) list" where
  "blocks4 =
     [(0x00000000, 0), (0x0a000000, 24), (0x64400000, 22), (0x7f000000, 24), (0xa9fe0000, 16),
      (0xac100000, 20), (0xc0000000, 8), (0xc0000200, 8), (0xc0a80000, 16), (0xc6120000, 17),
      (0xc6336400, 8), (0xcb007100, 8), (0xe0000000, 28), (0xf0000000, 28)]"

definition blocks6 :: "(nat \<times> nat) list" where
  "blocks6 =
     [(0, 0), (1, 0), (0x0064ff9b000000000000000000000000, 32), (0x0064ff9b000100000000000000000000, 80),
      (0x01000000000000000000000000000000, 64), (0x20010db8000000000000000000000000, 96),
      (0xfc000000000000000000000000000000, 121), (0xfe800000000000000000000000000000, 118),
      (0xff000000000000000000000000000000, 120)]"

definition in_block :: "nat \<Rightarrow> nat \<times> nat \<Rightarrow> bool" where
  "in_block n b \<longleftrightarrow> fst b \<le> n \<and> n < fst b + 2 ^ snd b"

definition non_public :: "addr \<Rightarrow> bool" where
  "non_public a = (case a of
     V4 w \<Rightarrow> list_ex (in_block (unat w)) blocks4
   | V6 w \<Rightarrow> list_ex (in_block (unat w)) blocks6)"

lemma drop_bit_block:
  fixes w c :: "'a::len word"
  assumes "k < LENGTH('a)" and "unat c < 2 ^ (LENGTH('a) - k)"
  shows "drop_bit k w = c \<longleftrightarrow> unat c * 2 ^ k \<le> unat w \<and> unat w < unat c * 2 ^ k + 2 ^ k"
proof -
  have "drop_bit k w = c \<longleftrightarrow> unat w div 2 ^ k = unat c"
    by (metis unat_drop_bit_eq drop_bit_eq_div word_unat_eq_iff)
  also have "\<dots> \<longleftrightarrow> unat c * 2 ^ k \<le> unat w \<and> unat w < unat c * 2 ^ k + 2 ^ k"
    by (metis add.commute div_nat_eqI dividend_less_div_times mult.commute mult_Suc
        times_div_less_eq_dividend zero_less_numeral zero_less_power)
  finally show ?thesis .
qed

lemma blocks_w4:
  fixes w :: "32 word"
  shows "w = 0 \<longleftrightarrow> in_block (unat w) (0, 0)"
    and "drop_bit 24 w = 10 \<longleftrightarrow> in_block (unat w) (0x0a000000, 24)"
    and "drop_bit 22 w = drop_bit 22 0x64400000 \<longleftrightarrow> in_block (unat w) (0x64400000, 22)"
    and "drop_bit 24 w = 127 \<longleftrightarrow> in_block (unat w) (0x7f000000, 24)"
    and "drop_bit 16 w = 0xa9fe \<longleftrightarrow> in_block (unat w) (0xa9fe0000, 16)"
    and "drop_bit 20 w = 0xac1 \<longleftrightarrow> in_block (unat w) (0xac100000, 20)"
    and "drop_bit 8 w = drop_bit 8 0xc0000000 \<longleftrightarrow> in_block (unat w) (0xc0000000, 8)"
    and "drop_bit 8 w = drop_bit 8 0xc0000200 \<longleftrightarrow> in_block (unat w) (0xc0000200, 8)"
    and "drop_bit 16 w = 0xc0a8 \<longleftrightarrow> in_block (unat w) (0xc0a80000, 16)"
    and "drop_bit 17 w = drop_bit 17 0xc6120000 \<longleftrightarrow> in_block (unat w) (0xc6120000, 17)"
    and "drop_bit 8 w = drop_bit 8 0xc6336400 \<longleftrightarrow> in_block (unat w) (0xc6336400, 8)"
    and "drop_bit 8 w = drop_bit 8 0xcb007100 \<longleftrightarrow> in_block (unat w) (0xcb007100, 8)"
    and "drop_bit 28 w = 0xe \<longleftrightarrow> in_block (unat w) (0xe0000000, 28)"
    and "drop_bit 28 w = drop_bit 28 0xf0000000 \<longleftrightarrow> in_block (unat w) (0xf0000000, 28)"
  by (simp_all add: drop_bit_block in_block_def word_unat_eq_iff [of w 0])

lemma blocks_w6:
  fixes w :: "128 word"
  shows "w = 0 \<longleftrightarrow> in_block (unat w) (0, 0)"
    and "w = 1 \<longleftrightarrow> in_block (unat w) (1, 0)"
    and "drop_bit 32 w = drop_bit 32 0x0064ff9b000000000000000000000000 \<longleftrightarrow>
      in_block (unat w) (0x0064ff9b000000000000000000000000, 32)"
    and "drop_bit 80 w = drop_bit 80 0x0064ff9b000100000000000000000000 \<longleftrightarrow>
      in_block (unat w) (0x0064ff9b000100000000000000000000, 80)"
    and "drop_bit 64 w = drop_bit 64 0x01000000000000000000000000000000 \<longleftrightarrow>
      in_block (unat w) (0x01000000000000000000000000000000, 64)"
    and "drop_bit 96 w = drop_bit 96 0x20010db8000000000000000000000000 \<longleftrightarrow>
      in_block (unat w) (0x20010db8000000000000000000000000, 96)"
    and "drop_bit 121 w = 0x7e \<longleftrightarrow> in_block (unat w) (0xfc000000000000000000000000000000, 121)"
    and "drop_bit 118 w = 0x3fa \<longleftrightarrow> in_block (unat w) (0xfe800000000000000000000000000000, 118)"
    and "drop_bit 120 w = 0xff \<longleftrightarrow> in_block (unat w) (0xff000000000000000000000000000000, 120)"
  by (simp_all add: drop_bit_block in_block_def word_unat_eq_iff [of w 0] word_unat_eq_iff [of w 1])
    arith

lemma guard_w4:
  fixes w :: "32 word"
  shows "(IsLoopback (V4 w) \<or> IsPrivate (V4 w) \<or> IsLinkLocalUnicast (V4 w) \<or> IsLinkLocalMulticast (V4 w) \<or>
      IsInterfaceLocalMulticast (V4 w) \<or> IsMulticast (V4 w) \<or> IsUnspecified (V4 w) \<or>
      list_ex (\<lambda>p. Contains p (V4 w)) disallowedPrefixes) \<longleftrightarrow> non_public (V4 w)"
proof -
  have m: "drop_bit 8 w = 0xe00000 \<Longrightarrow> drop_bit 28 w = 0xe"
  proof -
    assume "drop_bit 8 w = 0xe00000"
    then have "drop_bit 20 (drop_bit 8 w) = drop_bit 20 0xe00000" by simp
    then show "drop_bit 28 w = 0xe" by simp
  qed
  have "(IsLoopback (V4 w) \<or> IsPrivate (V4 w) \<or> IsLinkLocalUnicast (V4 w) \<or> IsLinkLocalMulticast (V4 w) \<or>
      IsInterfaceLocalMulticast (V4 w) \<or> IsMulticast (V4 w) \<or> IsUnspecified (V4 w) \<or>
      list_ex (\<lambda>p. Contains p (V4 w)) disallowedPrefixes) \<longleftrightarrow>
    w = 0 \<or> drop_bit 24 w = 10 \<or> drop_bit 22 w = drop_bit 22 0x64400000 \<or> drop_bit 24 w = 127 \<or>
    drop_bit 16 w = 0xa9fe \<or> drop_bit 20 w = 0xac1 \<or> drop_bit 8 w = drop_bit 8 0xc0000000 \<or>
    drop_bit 8 w = drop_bit 8 0xc0000200 \<or> drop_bit 16 w = 0xc0a8 \<or> drop_bit 17 w = drop_bit 17 0xc6120000 \<or>
    drop_bit 8 w = drop_bit 8 0xc6336400 \<or> drop_bit 8 w = drop_bit 8 0xcb007100 \<or> drop_bit 28 w = 0xe \<or>
    drop_bit 28 w = drop_bit 28 0xf0000000"
    using m
    by (auto simp: IsLoopback_def IsPrivate_def IsLinkLocalUnicast_def IsLinkLocalMulticast_def
        IsInterfaceLocalMulticast_def IsMulticast_def IsUnspecified_def Contains_def disallowedPrefixes_def)
  also have "\<dots> \<longleftrightarrow> non_public (V4 w)"
    unfolding blocks_w4 non_public_def blocks4_def by simp
  finally show ?thesis .
qed

lemma guard_w6:
  fixes w :: "128 word"
  shows "(IsLoopback (V6 w) \<or> IsPrivate (V6 w) \<or> IsLinkLocalUnicast (V6 w) \<or> IsLinkLocalMulticast (V6 w) \<or>
      IsInterfaceLocalMulticast (V6 w) \<or> IsMulticast (V6 w) \<or> IsUnspecified (V6 w) \<or>
      list_ex (\<lambda>p. Contains p (V6 w)) disallowedPrefixes) \<longleftrightarrow> non_public (V6 w)"
proof -
  have "(IsLoopback (V6 w) \<or> IsPrivate (V6 w) \<or> IsLinkLocalUnicast (V6 w) \<or> IsLinkLocalMulticast (V6 w) \<or>
      IsInterfaceLocalMulticast (V6 w) \<or> IsMulticast (V6 w) \<or> IsUnspecified (V6 w) \<or>
      list_ex (\<lambda>p. Contains p (V6 w)) disallowedPrefixes) \<longleftrightarrow>
    w = 0 \<or> w = 1 \<or> drop_bit 32 w = drop_bit 32 0x0064ff9b000000000000000000000000 \<or>
    drop_bit 80 w = drop_bit 80 0x0064ff9b000100000000000000000000 \<or>
    drop_bit 64 w = drop_bit 64 0x01000000000000000000000000000000 \<or>
    drop_bit 96 w = drop_bit 96 0x20010db8000000000000000000000000 \<or>
    drop_bit 121 w = 0x7e \<or> drop_bit 118 w = 0x3fa \<or> drop_bit 120 w = 0xff"
    by (auto simp: IsLoopback_def IsPrivate_def IsLinkLocalUnicast_def IsLinkLocalMulticast_def
        IsInterfaceLocalMulticast_def IsMulticast_def IsUnspecified_def Contains_def disallowedPrefixes_def)
  also have "\<dots> \<longleftrightarrow> non_public (V6 w)"
    unfolding blocks_w6 non_public_def blocks6_def by simp
  finally show ?thesis .
qed

lemma isDisallowedIP_spec:
  "isDisallowedIP ip = (case AddrFromSlice ip of None \<Rightarrow> True | Some a \<Rightarrow> non_public (Unmap a))"
proof -
  have *: "(if IsLoopback a \<or> IsPrivate a \<or> IsLinkLocalUnicast a \<or> IsLinkLocalMulticast a \<or>
      IsInterfaceLocalMulticast a \<or> IsMulticast a \<or> IsUnspecified a
      then True else list_ex (\<lambda>p. Contains p a) disallowedPrefixes) = non_public a" for a
    using guard_w4 guard_w6 by (cases a) (simp_all only: if_True if_bool_eq_disj, blast+)
  show ?thesis unfolding isDisallowedIP_def Let_def * ..
qed

text \<open>
  C34: the SSRF guard refuses exactly the non-public addresses.  For a 4-byte or a 16-byte address
  (an IPv4-mapped IPv6 address counting as its IPv4 address) \<open>isDisallowedIP\<close> holds if and only
  if the address lies in one of the listed CIDR blocks; any other byte string is refused.
\<close>

theorem ssrf_guard_exact:
  "isDisallowedIP ip \<longleftrightarrow>
     (case AddrFromSlice ip of
        None \<Rightarrow> True
      | Some (V4 w) \<Rightarrow> list_ex (in_block (unat w)) blocks4
      | Some (V6 w) \<Rightarrow>
          if unat w div 2 ^ 32 = 0xffff then list_ex (in_block (unat w mod 2 ^ 32)) blocks4
          else list_ex (in_block (unat w)) blocks6)"
proof (cases "AddrFromSlice ip")
  case (Some a)
  show ?thesis
  proof (cases a)
    case (V6 w)
    have "drop_bit 32 w = 0xffff \<longleftrightarrow> unat w div 2 ^ 32 = 0xffff"
      by (simp add: word_unat_eq_iff drop_bit_eq_div unat_div)
    moreover have "unat (ucast w :: 32 word) = unat w mod 2 ^ 32"
      by (simp add: unsigned_ucast_eq unsigned_take_bit_eq take_bit_eq_mod)
    ultimately show ?thesis
      by (simp add: isDisallowedIP_spec Some V6 Unmap_def non_public_def)
  qed (simp add: isDisallowedIP_spec Some Unmap_def non_public_def)
qed (simp add: isDisallowedIP_spec)

end
