(* ===== verification/Cimd.thy ===== *)
theory Cimd
  imports Web Url Netip
begin

text \<open>
  \<^verbatim>\<open>pkg/cimd/resolver.go\<close>: resolution of Client ID Metadata Documents.

  Parameters: \<open>P\<close> (\<open>url.Parse\<close>), \<open>parse_ip\<close> (\<open>net.ParseIP\<close>), \<open>split_addr\<close>
  (\<open>net.SplitHostPort\<close>), \<open>unmarshal\<close> (\<open>json.Unmarshal\<close> into the document struct) and the HTTP
  client \<open>do\<close>.  The HTTP client is given the dialer's control function and answers with the
  response and the list of addresses it connected to; that it connects to no address the control
  function refuses is the law of the locale \<open>http_client\<close>.  \<open>allowPrivateHosts\<close> is a test switch that
  \<open>NewResolver\<close> never sets; the model is of the resolver it returns.
  The cache is an association list; Go evicts in its random map order, which is the parameter
  \<open>order\<close> (any permutation).
\<close>

record CimdClient =
  cc_ClientID :: string
  cc_ClientName :: runes
  cc_RedirectURIs :: "string list"
  cc_GrantTypes :: "string list"
  cc_ResponseTypes :: "string list"
  cc_Scope :: string
  cc_AuthMethod :: string

record CimdConfig =
  cfg_FetchTimeout :: duration
  cfg_MaxSize :: int
  cfg_CacheTTL :: duration
  cfg_NegativeTTL :: duration

definition DefaultFetchTimeout :: duration where "DefaultFetchTimeout = 5 * second"
definition DefaultMaxSize :: int where "DefaultMaxSize = 64 * 1024"
definition DefaultCacheTTL :: duration where "DefaultCacheTTL = hour"
definition DefaultNegativeTTL :: duration where "DefaultNegativeTTL = minute"
definition maxCacheEntries :: nat where "maxCacheEntries = 4096"

definition ErrInvalidClientID :: err where "ErrInvalidClientID = ErrMsg ''invalid CIMD client ID''"

record cacheEntry =
  ce_result :: "CimdClient result"
  ce_expiresAt :: time

record Resolver =
  r_cfg :: CimdConfig
  r_cache :: "(string \<times> cacheEntry) list"

definition NewResolver :: "CimdConfig \<Rightarrow> Resolver" where
  "NewResolver cfg =
     \<lparr>r_cfg =
        \<lparr>cfg_FetchTimeout = (if cfg_FetchTimeout cfg \<le> 0 then DefaultFetchTimeout else cfg_FetchTimeout cfg),
         cfg_MaxSize = (if cfg_MaxSize cfg \<le> 0 then DefaultMaxSize else cfg_MaxSize cfg),
         cfg_CacheTTL = (if cfg_CacheTTL cfg \<le> 0 then DefaultCacheTTL else cfg_CacheTTL cfg),
         cfg_NegativeTTL = (if cfg_NegativeTTL cfg \<le> 0 then DefaultNegativeTTL else cfg_NegativeTTL cfg)\<rparr>,
      r_cache = []\<rparr>"

section \<open>Validation\<close>

definition supportedGrantTypes :: "string list" where
  "supportedGrantTypes = [''authorization_code'', ''refresh_token'']"

definition supportedResponseTypes :: "string list" where
  "supportedResponseTypes = [''code'']"

definition IsSupportedGrantType :: "string \<Rightarrow> bool" where
  "IsSupportedGrantType g \<longleftrightarrow> g \<in> set supportedGrantTypes"

definition IsSupportedResponseType :: "string \<Rightarrow> bool" where
  "IsSupportedResponseType r \<longleftrightarrow> r \<in> set supportedResponseTypes"

definition intersect :: "string list \<Rightarrow> (string \<Rightarrow> bool) \<Rightarrow> string list" where
  "intersect values isSupported = filter isSupported values"

definition ValidateRedirectURI :: "url_parser \<Rightarrow> string \<Rightarrow> unit result" where
  "ValidateRedirectURI P raw =
     (case P raw of
        None \<Rightarrow> Inl (ErrMsg ''invalid redirect URI'')
      | Some u \<Rightarrow>
          if u_Scheme u = [] then Inl (ErrMsg ''redirect URI must be absolute'')
          else if u_Scheme u = ''https'' then Inr ()
          else if u_Scheme u = ''http'' then
            (if Hostname u = ''localhost'' \<or> Hostname u = ''127.0.0.1'' \<or> Hostname u = ''::1'' then Inr ()
             else Inl (ErrMsg ''http is only allowed for loopback''))
          else if u_Scheme u \<in> {''javascript'', ''data'', ''file'', ''vbscript''} then
            Inl (ErrMsg ''scheme is not allowed'')
          else Inr ())"

definition validateClientIDURL :: "url_parser \<Rightarrow> string \<Rightarrow> unit result" where
  "validateClientIDURL P clientID =
     (case P clientID of
        None \<Rightarrow> Inl ErrInvalidClientID
      | Some u \<Rightarrow>
          if u_Scheme u \<noteq> ''https'' then Inl ErrInvalidClientID
          else if u_Host u = [] then Inl ErrInvalidClientID
          else if u_User u \<noteq> None then Inl ErrInvalidClientID
          else if Port u \<noteq> [] \<and> Port u \<noteq> ''443'' then Inl ErrInvalidClientID
          else Inr ())"

definition is_ok :: "'a result \<Rightarrow> bool" where
  "is_ok r = (case r of Inl _ \<Rightarrow> False | Inr _ \<Rightarrow> True)"

definition validateDocument :: "url_parser \<Rightarrow> string \<Rightarrow> CimdClient \<Rightarrow> CimdClient result" where
  "validateDocument P clientID c =
     (if cc_ClientID c \<noteq> clientID then Inl ErrInvalidClientID
      else if cc_RedirectURIs c = [] then Inl ErrInvalidClientID
      else if \<not> list_all (\<lambda>u. is_ok (ValidateRedirectURI P u)) (cc_RedirectURIs c) then Inl ErrInvalidClientID
      else if cc_AuthMethod c \<noteq> [] \<and> cc_AuthMethod c \<noteq> ''none'' then Inl ErrInvalidClientID
      else
        (let grants = (if cc_GrantTypes c = [] then [''authorization_code''] else cc_GrantTypes c);
             responses = (if cc_ResponseTypes c = [] then [''code''] else cc_ResponseTypes c);
             grants' = intersect grants IsSupportedGrantType;
             responses' = intersect responses IsSupportedResponseType
         in if grants' = [] then Inl ErrInvalidClientID
            else if responses' = [] then Inl ErrInvalidClientID
            else Inr (c\<lparr>cc_GrantTypes := grants', cc_ResponseTypes := responses'\<rparr>)))"

section \<open>The SSRF guard at dial time\<close>

definition checkDialAddress ::
  "(string \<Rightarrow> string option) \<Rightarrow> (string \<Rightarrow> nat list option) \<Rightarrow> string \<Rightarrow> unit result" where
  "checkDialAddress split_addr parse_ip address =
     (case split_addr address of
        None \<Rightarrow> Inl ErrInvalidClientID
      | Some host \<Rightarrow>
          (case parse_ip host of
             None \<Rightarrow> Inl ErrInvalidClientID
           | Some ip \<Rightarrow> if isDisallowedIP ip then Inl ErrInvalidClientID else Inr ()))"

section \<open>Fetching\<close>

datatype http_response = FetchError | HttpResponse int string bool
  \<comment> \<open>status, body, and whether reading the body fails\<close>

type_synonym http_do = "(string \<Rightarrow> unit result) \<Rightarrow> string \<Rightarrow> http_response \<times> string list"

record net_env =
  ne_url :: url_parser
  ne_split :: "string \<Rightarrow> string option"
  ne_ip :: "string \<Rightarrow> nat list option"
  ne_json :: "string \<Rightarrow> CimdClient option"
  ne_do :: http_do

definition fetch :: "net_env \<Rightarrow> CimdConfig \<Rightarrow> string \<Rightarrow> CimdClient result \<times> string list" where
  "fetch N cfg clientID =
     (case validateClientIDURL (ne_url N) clientID of
        Inl e \<Rightarrow> (Inl e, [])
      | Inr _ \<Rightarrow>
          (case ne_do N (checkDialAddress (ne_split N) (ne_ip N)) clientID of
             (FetchError, dialed) \<Rightarrow> (Inl ErrInvalidClientID, dialed)
           | (HttpResponse status stream broken, dialed) \<Rightarrow>
               (let body = take (nat (cfg_MaxSize cfg + 1)) stream
                in (if status \<noteq> 200 then Inl ErrInvalidClientID
                    else if broken then Inl ErrInvalidClientID
                    else if int (length body) > cfg_MaxSize cfg then Inl ErrInvalidClientID
                    else
                      (case ne_json N body of
                         None \<Rightarrow> Inl ErrInvalidClientID
                       | Some c \<Rightarrow> validateDocument (ne_url N) clientID c), dialed))))"

definition store_entry ::
  "((string \<times> cacheEntry) list \<Rightarrow> (string \<times> cacheEntry) list) \<Rightarrow> time \<Rightarrow> string \<Rightarrow> cacheEntry \<Rightarrow>
    (string \<times> cacheEntry) list \<Rightarrow> (string \<times> cacheEntry) list" where
  "store_entry order now clientID entry cache =
     (if clientID \<notin> fst ` set cache \<and> length cache \<ge> maxCacheEntries then
        (let live = filter (\<lambda>(_, e). now < ce_expiresAt e) cache;
             room = drop (Suc (length live) - maxCacheEntries) (order live)
         in (clientID, entry) # room)
      else (clientID, entry) # filter (\<lambda>(k, _). k \<noteq> clientID) cache)"

definition resolve_fresh ::
  "net_env \<Rightarrow> ((string \<times> cacheEntry) list \<Rightarrow> (string \<times> cacheEntry) list) \<Rightarrow>
    time \<Rightarrow> time \<Rightarrow> string \<Rightarrow> Resolver \<Rightarrow> (CimdClient result \<times> string list) \<times> Resolver" where
  "resolve_fresh N order t2 t3 clientID r =
     (case fetch N (r_cfg r) clientID of
        (res, dialed) \<Rightarrow>
          (let expiry = (case res of Inl _ \<Rightarrow> t2 + cfg_NegativeTTL (r_cfg r) | Inr _ \<Rightarrow> t2 + cfg_CacheTTL (r_cfg r));
               entry = \<lparr>ce_result = res, ce_expiresAt = expiry\<rparr>
           in ((res, dialed), r\<lparr>r_cache := store_entry order t3 clientID entry (r_cache r)\<rparr>)))"

text \<open>The three readings of the clock are arguments: at the cache lookup, for the expiry, and
  inside \<open>store\<close>.\<close>

definition Resolve ::
  "net_env \<Rightarrow> ((string \<times> cacheEntry) list \<Rightarrow> (string \<times> cacheEntry) list) \<Rightarrow>
    time \<times> time \<times> time \<Rightarrow> string \<Rightarrow> Resolver \<Rightarrow> (CimdClient result \<times> string list) \<times> Resolver" where
  "Resolve N order clock clientID r =
     (case clock of (t1, t2, t3) \<Rightarrow>
       (case map_of (r_cache r) clientID of
          Some entry \<Rightarrow>
            if t1 < ce_expiresAt entry then ((ce_result entry, []), r)
            else resolve_fresh N order t2 t3 clientID r
        | None \<Rightarrow> resolve_fresh N order t2 t3 clientID r))"

section \<open>The HTTP client\<close>

locale http_client =
  fixes "do" :: http_do
  assumes control: "do ctl u = (resp, dialed) \<Longrightarrow> a \<in> set dialed \<Longrightarrow> ctl a = Inr ()"

text \<open>A client that tries the addresses of the host in turn and connects to the first the dialer
  accepts.\<close>

definition ref_do :: "(string \<Rightarrow> string list) \<Rightarrow> (string \<Rightarrow> http_response) \<Rightarrow> http_do" where
  "ref_do dns serve ctl u =
     (case filter (\<lambda>a. is_ok (ctl a)) (dns u) of
        [] \<Rightarrow> (FetchError, [])
      | a # _ \<Rightarrow> (serve a, [a]))"

lemma is_ok_unit [simp]: "is_ok (r :: unit result) \<longleftrightarrow> r = Inr ()"
  by (auto simp: is_ok_def split: sum.splits)

lemma filter_first: "filter P xs = y # ys \<Longrightarrow> P y"
  by (induction xs) (auto split: if_splits)

interpretation reference_http: http_client "ref_do dns serve" for dns serve
  by unfold_locales (auto simp: ref_do_def dest!: filter_first split: list.splits)

section \<open>What a resolved document satisfies\<close>

definition valid_document :: "url_parser \<Rightarrow> string \<Rightarrow> CimdClient \<Rightarrow> bool" where
  "valid_document P k c \<longleftrightarrow>
     cc_ClientID c = k \<and> cc_RedirectURIs c \<noteq> [] \<and>
     list_all (\<lambda>u. ValidateRedirectURI P u = Inr ()) (cc_RedirectURIs c) \<and>
     (cc_AuthMethod c = [] \<or> cc_AuthMethod c = ''none'') \<and>
     cc_GrantTypes c \<noteq> [] \<and> list_all (\<lambda>g. g = ''authorization_code'' \<or> g = ''refresh_token'') (cc_GrantTypes c) \<and>
     cc_ResponseTypes c \<noteq> [] \<and> list_all (\<lambda>t. t = ''code'') (cc_ResponseTypes c)"

definition https_identifier :: "url_parser \<Rightarrow> string \<Rightarrow> bool" where
  "https_identifier P k \<longleftrightarrow>
     (\<exists>u. P k = Some u \<and> u_Scheme u = ''https'' \<and> u_Host u \<noteq> [] \<and> u_User u = None \<and>
        (Port u = [] \<or> Port u = ''443''))"

lemma validateClientIDURL_ok: "validateClientIDURL P k = Inr () \<longleftrightarrow> https_identifier P k"
  by (auto simp: validateClientIDURL_def https_identifier_def split: option.splits)

lemma intersect_supported:
  "list_all (\<lambda>g. g = ''authorization_code'' \<or> g = ''refresh_token'') (intersect gs IsSupportedGrantType)"
  "list_all (\<lambda>t. t = ''code'') (intersect ts IsSupportedResponseType)"
  by (simp_all add: intersect_def list_all_iff IsSupportedGrantType_def IsSupportedResponseType_def
      supportedGrantTypes_def supportedResponseTypes_def)

lemma validateDocument_form:
  assumes "validateDocument P k c0 = Inr c"
  obtains gs rs where "cc_ClientID c0 = k" and "cc_RedirectURIs c0 \<noteq> []"
    and "list_all (\<lambda>u. is_ok (ValidateRedirectURI P u)) (cc_RedirectURIs c0)"
    and "cc_AuthMethod c0 = [] \<or> cc_AuthMethod c0 = ''none''"
    and "intersect gs IsSupportedGrantType \<noteq> []" and "intersect rs IsSupportedResponseType \<noteq> []"
    and "c = c0\<lparr>cc_GrantTypes := intersect gs IsSupportedGrantType,
           cc_ResponseTypes := intersect rs IsSupportedResponseType\<rparr>"
  using assms unfolding validateDocument_def Let_def by (simp split: if_split_asm)

lemma validateDocument_ok:
  assumes "validateDocument P k c0 = Inr c" shows "valid_document P k c"
  using assms by (rule validateDocument_form) (simp add: valid_document_def intersect_supported)

text \<open>Narrowing never widens what the document declared.\<close>

lemma validateDocument_narrows:
  "validateDocument P k c0 = Inr c \<Longrightarrow> cc_GrantTypes c0 \<noteq> [] \<Longrightarrow>
     set (cc_GrantTypes c) \<subseteq> set (cc_GrantTypes c0)"
  by (auto simp: validateDocument_def Let_def intersect_def split: if_splits)

lemma fetch_ok:
  "fetch N cfg k = (Inr c, dialed) \<Longrightarrow> valid_document (ne_url N) k c \<and> https_identifier (ne_url N) k"
  by (auto simp: fetch_def Let_def validateClientIDURL_ok [symmetric] dest: validateDocument_ok
      split: sum.splits http_response.splits prod.splits if_splits option.splits)

lemma fetch_dialed:
  assumes "http_client (ne_do N)" and "fetch N cfg k = (res, dialed)" and "a \<in> set dialed"
  shows "checkDialAddress (ne_split N) (ne_ip N) a = Inr () \<and> https_identifier (ne_url N) k"
  using assms(2,3)
  by (auto simp: fetch_def Let_def validateClientIDURL_ok [symmetric] dest: http_client.control [OF assms(1)]
      split: sum.splits http_response.splits prod.splits)

section \<open>The cache\<close>

definition cache_ok :: "url_parser \<Rightarrow> (string \<times> cacheEntry) list \<Rightarrow> bool" where
  "cache_ok P cache \<longleftrightarrow>
     length cache \<le> maxCacheEntries \<and> distinct (map fst cache) \<and>
     (\<forall>(k, e) \<in> set cache. \<forall>c. ce_result e = Inr c \<longrightarrow> valid_document P k c \<and> https_identifier P k)"

definition permutes :: "((string \<times> cacheEntry) list \<Rightarrow> (string \<times> cacheEntry) list) \<Rightarrow> bool" where
  "permutes order \<longleftrightarrow>
     (\<forall>xs. length (order xs) = length xs \<and> set (order xs) = set xs \<and>
        (distinct (map fst xs) \<longrightarrow> distinct (map fst (order xs))))"

lemma cache_ok_Cons:
  assumes "cache_ok P cache" and "set xs \<subseteq> set cache" and "distinct (map fst xs)"
    and "length xs < maxCacheEntries" and "k \<notin> fst ` set xs"
    and "\<And>c. ce_result e = Inr c \<Longrightarrow> valid_document P k c \<and> https_identifier P k"
  shows "cache_ok P ((k, e) # xs)"
  unfolding cache_ok_def
proof (intro conjI)
  have "\<forall>(k, e) \<in> set xs. \<forall>c. ce_result e = Inr c \<longrightarrow> valid_document P k c \<and> https_identifier P k"
    using assms(1,2) unfolding cache_ok_def by blast
  then show "\<forall>(k, e) \<in> set ((k, e) # xs). \<forall>c. ce_result e = Inr c \<longrightarrow> valid_document P k c \<and> https_identifier P k"
    using assms(6) by simp
qed (use assms(3-5) in simp_all)

lemma store_entry_ok:
  assumes "cache_ok P cache" and "permutes order"
    and "\<And>c. ce_result e = Inr c \<Longrightarrow> valid_document P k c \<and> https_identifier P k"
  shows "cache_ok P (store_entry order now k e cache)"
proof (cases "k \<notin> fst ` set cache \<and> maxCacheEntries \<le> length cache")
  case True
  let ?live = "filter (\<lambda>(_, e). now < ce_expiresAt e) cache"
  let ?room = "drop (Suc (length ?live) - maxCacheEntries) (order ?live)"
  have o: "length (order ?live) = length ?live" "set (order ?live) = set ?live" "distinct (map fst (order ?live))"
    using assms(1,2) by (auto simp: permutes_def cache_ok_def distinct_map_filter)
  have r: "set ?room \<subseteq> set cache" using set_drop_subset [of _ "order ?live"] o(2) by fastforce
  have "distinct (map fst ?room)" using o(3) by (simp add: drop_map [symmetric] distinct_drop)
  moreover have "length ?room < maxCacheEntries" by (simp add: o(1)) (simp add: maxCacheEntries_def)
  moreover have "k \<notin> fst ` set ?room" using True r by blast
  ultimately have "cache_ok P ((k, e) # ?room)"
    using r assms(3) by (intro cache_ok_Cons [OF assms(1)])
  then show ?thesis using True by (simp add: store_entry_def Let_def)
next
  case False
  have "length (filter (\<lambda>(j, _). j \<noteq> k) cache) < maxCacheEntries"
  proof (cases "k \<in> fst ` set cache")
    case True
    then have "filter (\<lambda>(j, _). j \<noteq> k) cache \<noteq> cache" by (force simp: filter_id_conv)
    then have "length (filter (\<lambda>(j, _). j \<noteq> k) cache) \<noteq> length cache"
      by (metis filter_True length_filter_less less_irrefl filter_id_conv)
    then show ?thesis
      using assms(1) length_filter_le [of "\<lambda>(j, _). j \<noteq> k" cache] unfolding cache_ok_def by linarith
  next
    case no: False
    then show ?thesis
      using False length_filter_le [of "\<lambda>(j, _). j \<noteq> k" cache] by linarith
  qed
  then show ?thesis
    using assms(1,3) False
    by (auto simp: store_entry_def cache_ok_def distinct_map_filter)
qed

inductive resolver_reachable :: "net_env \<Rightarrow> CimdConfig \<Rightarrow> Resolver \<Rightarrow> bool" for N cfg where
  new: "resolver_reachable N cfg (NewResolver cfg)"
| resolve: "resolver_reachable N cfg r \<Longrightarrow> permutes order \<Longrightarrow>
    resolver_reachable N cfg (snd (Resolve N order clock k r))"

lemma resolve_fresh_ok:
  assumes "cache_ok (ne_url N) (r_cache r)" and "permutes order"
  shows "cache_ok (ne_url N) (r_cache (snd (resolve_fresh N order t2 t3 k r)))"
  using assms by (auto simp: resolve_fresh_def Let_def dest: fetch_ok intro!: store_entry_ok split: prod.splits)

lemma reachable_cache_ok: "resolver_reachable N cfg r \<Longrightarrow> cache_ok (ne_url N) (r_cache r)"
proof (induction rule: resolver_reachable.induct)
  case new
  then show ?case by (simp add: NewResolver_def cache_ok_def)
next
  case (resolve r order clock k)
  then show ?case
    using resolve_fresh_ok [OF resolve(3,2)]
    by (auto simp: Resolve_def split: prod.splits option.splits)
qed

section \<open>Properties\<close>

text \<open>
  C15: resolving a client identifier never connects to a non-public address.  Whatever the DNS
  answers, if the HTTP client honours its dial control, every address a \<open>Resolve\<close> connects to
  parses to an IP address outside all the non-public blocks, and it only connects for an \<open>https\<close> URL
  with a host, without credentials and with the default port.
\<close>

theorem resolve_no_ssrf:
  assumes "http_client (ne_do N)" and "Resolve N order clock k r = ((res, dialed), r')"
    and "a \<in> set dialed"
  shows "https_identifier (ne_url N) k \<and>
    (\<exists>host ip x. ne_split N a = Some host \<and> ne_ip N host = Some ip \<and>
       AddrFromSlice ip = Some x \<and> \<not> non_public (Unmap x))"
proof -
  obtain cfg where "fetch N cfg k = (res, dialed)"
    using assms(2,3)
    by (auto simp: Resolve_def resolve_fresh_def Let_def split: prod.splits option.splits if_splits)
  from fetch_dialed [OF assms(1) this assms(3)] show ?thesis
    by (auto simp: checkDialAddress_def isDisallowedIP_spec split: option.splits if_splits)
qed

text \<open>
  C33: a resolved client is valid, whether it was fetched or came from the cache.  In every state
  the resolver can reach, a successful \<open>Resolve\<close> returns a document whose \<open>client_id\<close> is the URL
  asked for, with at least one redirect URI, all of them of an allowed scheme, no client secret, and
  only grant and response types this server supports.
\<close>

theorem resolve_sound:
  assumes "resolver_reachable N cfg r" and "Resolve N order clock k r = ((Inr c, dialed), r')"
  shows "valid_document (ne_url N) k c \<and> https_identifier (ne_url N) k"
proof -
  obtain t1 t2 t3 where c: "clock = (t1, t2, t3)" by (metis prod_cases3)
  have fresh: ?thesis if "resolve_fresh N order t2 t3 k r = ((Inr c, dialed), r')"
    using that by (auto simp: resolve_fresh_def Let_def dest: fetch_ok split: prod.splits)
  show ?thesis
  proof (cases "map_of (r_cache r) k")
    case None
    then show ?thesis using assms(2) c by (intro fresh) (simp add: Resolve_def)
  next
    case (Some e)
    show ?thesis
    proof (cases "t1 < ce_expiresAt e")
      case True
      then have "ce_result e = Inr c" using assms(2) c Some by (auto simp: Resolve_def)
      then show ?thesis
        using reachable_cache_ok [OF assms(1)] map_of_SomeD [OF Some] by (fastforce simp: cache_ok_def)
    next
      case False
      then show ?thesis using assms(2) c Some by (intro fresh) (simp add: Resolve_def)
    qed
  qed
qed

text \<open>
  The cache is bounded and effective.  In every reachable state the cache holds at most 4096
  entries, whatever stream of client identifiers arrives; and a second \<open>Resolve\<close> of the same identifier
  before the entry expires, successful or not, returns the same result without any connection.
\<close>

theorem cache_bounded_effective:
  assumes "resolver_reachable N cfg r" and "permutes order"
    and "Resolve N order (t1, t2, t3) k r = ((res, dialed), r')"
  shows "length (r_cache r') \<le> 4096 \<and>
    (\<exists>expiry. map_of (r_cache r') k = Some \<lparr>ce_result = res, ce_expiresAt = expiry\<rparr> \<and>
      (\<forall>clock order2. fst clock < expiry \<longrightarrow> Resolve N order2 clock k r' = ((res, []), r')))"
proof -
  have "resolver_reachable N cfg r'"
    using resolver_reachable.resolve [OF assms(1,2), of "(t1, t2, t3)" k] assms(3) by simp
  then have l: "length (r_cache r') \<le> 4096"
    using reachable_cache_ok by (fastforce simp: cache_ok_def maxCacheEntries_def)
  have f: "\<exists>expiry. map_of (r_cache r') k = Some \<lparr>ce_result = res, ce_expiresAt = expiry\<rparr>"
    if "resolve_fresh N order t2 t3 k r = ((res, dialed), r')"
    using that by (auto simp: resolve_fresh_def Let_def store_entry_def split: prod.splits)
  have "\<exists>expiry. map_of (r_cache r') k = Some \<lparr>ce_result = res, ce_expiresAt = expiry\<rparr>"
  proof (cases "map_of (r_cache r) k")
    case None
    then show ?thesis using assms(3) by (intro f) (simp add: Resolve_def)
  next
    case (Some e)
    then show ?thesis using assms(3) f
      by (cases "t1 < ce_expiresAt e") (auto simp: Resolve_def intro: exI [of _ "ce_expiresAt e"])
  qed
  then show ?thesis using l by (auto simp: Resolve_def split: prod.splits)
qed

section \<open>Witnesses\<close>

definition demo_url :: url_parser where
  "demo_url s =
     (if s = ''https://c'' then Some \<lparr>u_Scheme = ''https'', u_User = None, u_Host = ''c'', u_Path = [],
          u_RawQuery = [], u_Fragment = []\<rparr>
      else if s = ''app:cb'' then Some \<lparr>u_Scheme = ''app'', u_User = None, u_Host = [], u_Path = [],
          u_RawQuery = [], u_Fragment = []\<rparr>
      else None)"

definition demo_document :: CimdClient where
  "demo_document =
     \<lparr>cc_ClientID = ''https://c'', cc_ClientName = [], cc_RedirectURIs = [''app:cb''],
      cc_GrantTypes = [''authorization_code'', ''x''], cc_ResponseTypes = [], cc_Scope = [], cc_AuthMethod = []\<rparr>"

text \<open>The host resolves to a private and a public address; only the second is dialed.\<close>

definition demo_net :: net_env where
  "demo_net =
     \<lparr>ne_url = demo_url, ne_split = Some,
      ne_ip = (\<lambda>h. if h = ''8'' then Some [8, 8, 8, 8] else if h = ''10'' then Some [10, 0, 0, 1] else None),
      ne_json = (\<lambda>b. if b = ''doc'' then Some demo_document else None),
      ne_do = ref_do (\<lambda>_. [''10'', ''8'']) (\<lambda>_. HttpResponse 200 ''doc'' False)\<rparr>"

definition demo_cfg :: CimdConfig where
  "demo_cfg = \<lparr>cfg_FetchTimeout = 0, cfg_MaxSize = 0, cfg_CacheTTL = 0, cfg_NegativeTTL = 0\<rparr>"

lemma demo_dial: "checkDialAddress Some (ne_ip demo_net) ''8'' = Inr ()"
  "checkDialAddress Some (ne_ip demo_net) ''10'' = Inl ErrInvalidClientID"
  by (simp_all add: checkDialAddress_def demo_net_def isDisallowedIP_spec AddrFromSlice_def be_word_def
      Unmap_def non_public_def blocks4_def in_block_def)

lemma demo_resolve:
  "fst (Resolve demo_net id (1, 1, 1) ''https://c'' (NewResolver demo_cfg)) =
     (Inr (demo_document\<lparr>cc_GrantTypes := [''authorization_code''], cc_ResponseTypes := [''code'']\<rparr>), [''8''])"
  using demo_dial
  by (simp add: Resolve_def NewResolver_def demo_cfg_def resolve_fresh_def fetch_def Let_def
      validateClientIDURL_def demo_net_def demo_url_def Port_def splitHostPort_def last_index_def
      ref_do_def DefaultMaxSize_def validateDocument_def demo_document_def ValidateRedirectURI_def
      intersect_def IsSupportedGrantType_def IsSupportedResponseType_def supportedGrantTypes_def
      supportedResponseTypes_def has_prefix_def)

lemma demo_http: "http_client (ne_do demo_net)"
  by (simp add: demo_net_def reference_http.http_client_axioms)

theorem resolve_no_ssrf_witness:
  "\<exists>r'. Resolve demo_net id (1, 1, 1) ''https://c'' (NewResolver demo_cfg) =
     ((Inr (demo_document\<lparr>cc_GrantTypes := [''authorization_code''], cc_ResponseTypes := [''code'']\<rparr>), [''8'']), r') \<and>
   https_identifier demo_url ''https://c''"
proof (cases "Resolve demo_net id (1, 1, 1) ''https://c'' (NewResolver demo_cfg)")
  case (Pair p r')
  then have p: "p = (Inr (demo_document\<lparr>cc_GrantTypes := [''authorization_code''],
      cc_ResponseTypes := [''code'']\<rparr>), [''8''])" using demo_resolve by simp
  from resolve_no_ssrf [OF demo_http Pair [unfolded p], of "''8''"] show ?thesis
    using Pair p by (simp add: demo_net_def)
qed

theorem resolve_sound_witness:
  "valid_document demo_url ''https://c''
     (demo_document\<lparr>cc_GrantTypes := [''authorization_code''], cc_ResponseTypes := [''code'']\<rparr>)"
proof (cases "Resolve demo_net id (1, 1, 1) ''https://c'' (NewResolver demo_cfg)")
  case (Pair p r')
  then have p: "p = (Inr (demo_document\<lparr>cc_GrantTypes := [''authorization_code''],
      cc_ResponseTypes := [''code'']\<rparr>), [''8''])" using demo_resolve by simp
  from resolve_sound [OF resolver_reachable.new Pair [unfolded p]] show ?thesis
    by (simp add: demo_net_def)
qed

theorem cache_bounded_effective_witness:
  "\<exists>r'. snd (Resolve demo_net id (1, 1, 1) ''https://c'' (NewResolver demo_cfg)) = r' \<and>
     length (r_cache r') \<le> 4096"
proof (cases "Resolve demo_net id (1, 1, 1) ''https://c'' (NewResolver demo_cfg)")
  case (Pair p r')
  have "permutes id" by (simp add: permutes_def)
  obtain res dialed where p: "p = (res, dialed)" by fastforce
  from cache_bounded_effective [OF resolver_reachable.new \<open>permutes id\<close> Pair [unfolded p]] show ?thesis
    using Pair by simp
qed

end
