(* ===== verification/Models.thy ===== *)
theory Models
  imports Prelude
begin

text \<open>
  \<^verbatim>\<open>pkg/models\<close>: the persisted shapes of clients, requests, the operator account and the
  passkeys, and their conversions to and from the request types of fosite.

  The types of fosite (\<open>FClient\<close>, \<open>FRequest\<close>, \<open>FAuthorizeRequest\<close>) are the fields this
  program reads and writes.  A nil slice and an empty slice are both \<open>[]\<close>.  Stored JSON is a
  \<open>doc\<close>: the value its bytes unmarshal to, or \<open>DBad\<close> for bytes that do not unmarshal.  A
  document read at a type it was not written with is an error; the repository theories show
  that every key family only ever holds its own type.
\<close>

section \<open>Sessions\<close>

text \<open>\<^verbatim>\<open>idp.Session\<close> with the fields of \<open>fosite.DefaultSession\<close>, \<open>jwt.JWTClaims\<close>, \<open>jwt.Headers\<close>.\<close>

record JWTClaims =
  jc_Issuer :: string
  jc_Subject :: string
  jc_JTI :: string
  jc_Audience :: "string list"
  jc_ExpiresAt :: time
  jc_IssuedAt :: time
  jc_NotBefore :: time
  jc_Extra :: "(string \<times> json) list"

record Session =
  s_Username :: string
  s_Subject :: string
  s_ExpiresAt :: "(string \<times> time) list"
  s_JWTClaims :: JWTClaims
  s_HeaderExtra :: "(string \<times> json) list"
  s_Label :: runes

text \<open>\<^verbatim>\<open>(*Session).GetLabel\<close>, nil receiver included.\<close>

definition GetLabel :: "Session option \<Rightarrow> runes" where
  "GetLabel s = (case s of None \<Rightarrow> [] | Some s \<Rightarrow> s_Label s)"

section \<open>Records\<close>

datatype session_data = NoData | Data Session | BadData

record Client =
  cl_ID :: string
  cl_Secret :: string
  cl_RotatedSecrets :: "string list"
  cl_RedirectURIs :: "string list"
  cl_GrantTypes :: "string list"
  cl_ResponseTypes :: "string list"
  cl_Scopes :: "string list"
  cl_Audience :: "string list"
  cl_Public :: bool
  cl_Name :: runes
  cl_CreatedAt :: time
  cl_ExpiresAt :: time

record Request =
  rq_ID :: string
  rq_RequestedAt :: time
  rq_Client :: "Client option"
  rq_RequestedScope :: "string list"
  rq_GrantedScope :: "string list"
  rq_Form :: "(string \<times> string list) list"
  rq_RequestedAudience :: "string list"
  rq_GrantedAudience :: "string list"
  rq_RotatedAt :: time
  rq_SessionData :: session_data
  rq_Label :: runes

record User =
  u_ID :: string
  u_Username :: string
  u_PasswordLoginDisabled :: bool
  u_CreatedAt :: time

record WebAuthnCredential =
  wc_ID :: string
  wc_UserID :: string
  wc_Name :: string
  wc_Credential :: string
  wc_CreatedAt :: time
  wc_LastUsedAt :: time

record AuthorizeRequest =
  ar_ResponseTypes :: "string list"
  ar_RedirectURI :: string
  ar_State :: string
  ar_HandledResponseTypes :: "string list"
  ar_ResponseMode :: string
  ar_DefaultResponseMode :: string
  ar_Request :: "Request option"

record FClient =
  fc_ID :: string
  fc_Secret :: string
  fc_RotatedSecrets :: "string list"
  fc_RedirectURIs :: "string list"
  fc_GrantTypes :: "string list"
  fc_ResponseTypes :: "string list"
  fc_Scopes :: "string list"
  fc_Audience :: "string list"
  fc_Public :: bool

record FRequest =
  fr_ID :: string
  fr_RequestedAt :: time
  fr_Client :: FClient
  fr_RequestedScope :: "string list"
  fr_GrantedScope :: "string list"
  fr_Form :: "(string \<times> string list) list"
  fr_Session :: "Session option"
  fr_RequestedAudience :: "string list"
  fr_GrantedAudience :: "string list"

record FAuthorizeRequest = FRequest +
  far_ResponseTypes :: "string list"
  far_RedirectURI :: string
  far_State :: string
  far_HandledResponseTypes :: "string list"
  far_ResponseMode :: string
  far_DefaultResponseMode :: string

text \<open>A stored document.\<close>

datatype doc =
    DRequest Request
  | DAuthorize AuthorizeRequest
  | DClient Client
  | DUser User
  | DCredential WebAuthnCredential
  | DVersion int
  | DBad

section \<open>Conversions\<close>

definition FromFositeClient :: "FClient \<Rightarrow> Client" where
  "FromFositeClient c =
     \<lparr>cl_ID = fc_ID c, cl_Secret = fc_Secret c, cl_RotatedSecrets = fc_RotatedSecrets c,
      cl_RedirectURIs = fc_RedirectURIs c, cl_GrantTypes = fc_GrantTypes c,
      cl_ResponseTypes = fc_ResponseTypes c, cl_Scopes = fc_Scopes c, cl_Audience = fc_Audience c,
      cl_Public = fc_Public c, cl_Name = [], cl_CreatedAt = 0, cl_ExpiresAt = 0\<rparr>"

definition ToFositeClient :: "Client \<Rightarrow> FClient" where
  "ToFositeClient c =
     \<lparr>fc_ID = cl_ID c, fc_Secret = cl_Secret c, fc_RotatedSecrets = cl_RotatedSecrets c,
      fc_RedirectURIs = cl_RedirectURIs c, fc_GrantTypes = cl_GrantTypes c,
      fc_ResponseTypes = cl_ResponseTypes c, fc_Scopes = cl_Scopes c, fc_Audience = cl_Audience c,
      fc_Public = cl_Public c\<rparr>"

definition FromFositeReq :: "'a FRequest_scheme \<Rightarrow> Request" where
  "FromFositeReq req =
     \<lparr>rq_ID = fr_ID req, rq_RequestedAt = fr_RequestedAt req,
      rq_Client = Some (FromFositeClient (fr_Client req)),
      rq_RequestedScope = fr_RequestedScope req, rq_GrantedScope = fr_GrantedScope req,
      rq_Form = fr_Form req, rq_RequestedAudience = fr_RequestedAudience req,
      rq_GrantedAudience = fr_GrantedAudience req, rq_RotatedAt = 0,
      rq_SessionData = (case fr_Session req of None \<Rightarrow> NoData | Some sess \<Rightarrow> Data sess),
      rq_Label = GetLabel (fr_Session req)\<rparr>"

text \<open>A stored request without a client makes \<open>r.Client.ToFositeClient()\<close> dereference nil.\<close>

definition ToFositeReq :: "Request \<Rightarrow> FRequest result" where
  "ToFositeReq r =
     (case rq_Client r of
        None \<Rightarrow> Inl ErrPanic
      | Some c \<Rightarrow> Inr
          \<lparr>fr_ID = rq_ID r, fr_RequestedAt = rq_RequestedAt r, fr_Client = ToFositeClient c,
           fr_RequestedScope = rq_RequestedScope r, fr_GrantedScope = rq_GrantedScope r,
           fr_Form = rq_Form r, fr_Session = None,
           fr_RequestedAudience = rq_RequestedAudience r,
           fr_GrantedAudience = rq_GrantedAudience r\<rparr>)"

definition FromFositeAuthorizeRequest :: "FAuthorizeRequest \<Rightarrow> AuthorizeRequest" where
  "FromFositeAuthorizeRequest req =
     \<lparr>ar_ResponseTypes = far_ResponseTypes req, ar_RedirectURI = far_RedirectURI req,
      ar_State = far_State req, ar_HandledResponseTypes = far_HandledResponseTypes req,
      ar_ResponseMode = far_ResponseMode req, ar_DefaultResponseMode = far_DefaultResponseMode req,
      ar_Request = Some (FromFositeReq req)\<rparr>"

text \<open>\<open>reparse\<close> is \<open>url.Parse\<close> followed by \<open>String()\<close>; \<open>Must\<close> panics where it fails.\<close>

definition ToFositeAuthorizeRequest ::
  "(string \<Rightarrow> string option) \<Rightarrow> AuthorizeRequest \<Rightarrow> FAuthorizeRequest result" where
  "ToFositeAuthorizeRequest reparse a =
     (case reparse (ar_RedirectURI a) of
        None \<Rightarrow> Inl ErrPanic
      | Some uri \<Rightarrow>
          (case ar_Request a of
             None \<Rightarrow> Inl ErrPanic
           | Some r \<Rightarrow>
               (case ToFositeReq r of
                  Inl e \<Rightarrow> Inl e
                | Inr q \<Rightarrow> Inr (FRequest.extend q
                    \<lparr>far_ResponseTypes = ar_ResponseTypes a, far_RedirectURI = uri,
                     far_State = ar_State a, far_HandledResponseTypes = ar_HandledResponseTypes a,
                     far_ResponseMode = ar_ResponseMode a,
                     far_DefaultResponseMode = ar_DefaultResponseMode a\<rparr>))))"

text \<open>
  \<^verbatim>\<open>repository.restoreSession\<close>: the stored session replaces the fields of the session object the
  caller passed (which is freshly made, so nothing of it remains); \<open>None\<close> is a nil session.
\<close>

definition restoreSession :: "session_data \<Rightarrow> Session option \<Rightarrow> FRequest \<Rightarrow> FRequest result" where
  "restoreSession data sess req =
     (case (data, sess) of
        (NoData, _) \<Rightarrow> Inr req
      | (_, None) \<Rightarrow> Inr req
      | (Data s, Some _) \<Rightarrow> Inr (req\<lparr>fr_Session := Some s\<rparr>)
      | (BadData, Some _) \<Rightarrow> Inl ErrDecode)"

text \<open>Loading a stored request: conversion, then the session.\<close>

definition load_request :: "Request \<Rightarrow> Session option \<Rightarrow> FRequest result" where
  "load_request r sess =
     (case ToFositeReq r of Inl e \<Rightarrow> Inl e | Inr q \<Rightarrow> restoreSession (rq_SessionData r) sess q)"

subsection \<open>Decoding\<close>

fun dec_request :: "doc \<Rightarrow> Request result" where
  "dec_request (DRequest r) = Inr r"
| "dec_request _ = Inl ErrDecode"

fun dec_authorize :: "doc \<Rightarrow> AuthorizeRequest result" where
  "dec_authorize (DAuthorize a) = Inr a"
| "dec_authorize _ = Inl ErrDecode"

fun dec_client :: "doc \<Rightarrow> Client result" where
  "dec_client (DClient c) = Inr c"
| "dec_client _ = Inl ErrDecode"

fun dec_user :: "doc \<Rightarrow> User result" where
  "dec_user (DUser u) = Inr u"
| "dec_user _ = Inl ErrDecode"

fun dec_credential :: "doc \<Rightarrow> WebAuthnCredential result" where
  "dec_credential (DCredential c) = Inr c"
| "dec_credential _ = Inl ErrDecode"

fun dec_version :: "doc \<Rightarrow> int result" where
  "dec_version (DVersion v) = Inr v"
| "dec_version _ = Inl ErrDecode"

lemma dec_simps [simp]:
  "dec_request d = Inr r \<longleftrightarrow> d = DRequest r" "dec_authorize d = Inr a \<longleftrightarrow> d = DAuthorize a"
  "dec_client d = Inr c \<longleftrightarrow> d = DClient c" "dec_user d = Inr u \<longleftrightarrow> d = DUser u"
  "dec_credential d = Inr w \<longleftrightarrow> d = DCredential w" "dec_version d = Inr v \<longleftrightarrow> d = DVersion v"
  by (cases d; auto)+

section \<open>Round trips\<close>

lemma ToFositeClient_FromFositeClient [simp]: "ToFositeClient (FromFositeClient c) = c"
  by (simp add: ToFositeClient_def FromFositeClient_def)

lemma FromFositeClient_ToFositeClient:
  "FromFositeClient (ToFositeClient c) = c\<lparr>cl_Name := [], cl_CreatedAt := 0, cl_ExpiresAt := 0\<rparr>"
  by (simp add: ToFositeClient_def FromFositeClient_def)

lemma client_id_conversions [simp]:
  "cl_ID (FromFositeClient c) = fc_ID c" "fc_ID (ToFositeClient d) = cl_ID d"
  by (simp_all add: FromFositeClient_def ToFositeClient_def)

lemma FromFositeReq_sel [simp]:
  "rq_ID (FromFositeReq q) = fr_ID q" "rq_RequestedAt (FromFositeReq q) = fr_RequestedAt q"
  "rq_Client (FromFositeReq q) = Some (FromFositeClient (fr_Client q))"
  "rq_RotatedAt (FromFositeReq q) = 0"
  by (simp_all add: FromFositeReq_def)

lemma load_FromFositeReq:
  "load_request (FromFositeReq q) sess =
     Inr (q\<lparr>fr_Session := (if sess = None then None else fr_Session q)\<rparr>)"
  for q :: FRequest
  by (cases sess; cases "fr_Session q")
     (simp_all add: load_request_def ToFositeReq_def FromFositeReq_def restoreSession_def)

lemma ToFosite_FromFosite_AuthorizeRequest:
  assumes "reparse (far_RedirectURI q) = Some (far_RedirectURI q)"
  shows "ToFositeAuthorizeRequest reparse (FromFositeAuthorizeRequest q) = Inr (q\<lparr>fr_Session := None\<rparr>)"
  using assms
  by (simp add: ToFositeAuthorizeRequest_def FromFositeAuthorizeRequest_def ToFositeReq_def
      FromFositeReq_def FRequest.extend_def)

end
