(* ===== verification/Repository.thy ===== *)
theory Repository
  imports Models
begin

text \<open>
  \<^verbatim>\<open>pkg/repository/interface.go\<close>: the persistence surface of the gateway, one record of
  operations per Go interface, and the contract a backend has to meet.

  The contract is stated over an abstract store: per record family a finite map from keys to
  documents.  \<open>v\<close> maps a backend's state to that store.  A write either succeeds and changes
  the store as specified, or fails and changes nothing (\<open>writes\<close>).  The handlers of the other
  components are proved against these locales, and \<open>Kvs\<close> discharges them for bbolt.
\<close>

section \<open>The abstract store\<close>

datatype family =
    AccessToken | RefreshToken | AuthorizeCode | PkceRequest
  | AuthorizeReq | ClientReg | UserRec | Credential | Meta

type_synonym store = "family \<Rightarrow> string \<rightharpoonup> doc"

definition session_families :: "family list" where
  "session_families = [AccessToken, RefreshToken, AuthorizeCode, PkceRequest]"

definition spec_put :: "family \<Rightarrow> string \<Rightarrow> doc \<Rightarrow> store \<Rightarrow> store" where
  "spec_put f k d V = V(f := (V f)(k \<mapsto> d))"

definition spec_delete :: "family \<Rightarrow> string \<Rightarrow> store \<Rightarrow> store" where
  "spec_delete f k V = V(f := (V f)(k := None))"

text \<open>Remove every record of a family that satisfies \<open>P\<close>.\<close>

definition spec_drop :: "family \<Rightarrow> (string \<Rightarrow> doc \<Rightarrow> bool) \<Rightarrow> store \<Rightarrow> store" where
  "spec_drop f P V =
     V(f := (\<lambda>k. case V f k of None \<Rightarrow> None | Some d \<Rightarrow> if P k d then None else Some d))"

definition get_doc :: "store \<Rightarrow> family \<Rightarrow> string \<Rightarrow> doc result" where
  "get_doc V f k = (case V f k of None \<Rightarrow> Inl ErrNotFound | Some d \<Rightarrow> Inr d)"

definition spec_request :: "store \<Rightarrow> family \<Rightarrow> string \<Rightarrow> Session option \<Rightarrow> FRequest result" where
  "spec_request V f k sess =
     res_bind (get_doc V f k) (\<lambda>d. res_bind (dec_request d) (\<lambda>r. load_request r sess))"

text \<open>What a revoke removes: the session records and pending authorize requests whose request
  satisfies \<open>P\<close>, and the registrations whose key satisfies \<open>Q\<close>.\<close>

definition revoke_hits :: "(Request \<Rightarrow> bool) \<Rightarrow> (string \<Rightarrow> bool) \<Rightarrow> family \<Rightarrow> string \<Rightarrow> doc \<Rightarrow> bool" where
  "revoke_hits P Q f k d =
     (if f \<in> set session_families then (case dec_request d of Inl _ \<Rightarrow> False | Inr r \<Rightarrow> P r)
      else if f = AuthorizeReq then
        (case dec_authorize d of
           Inl _ \<Rightarrow> False
         | Inr a \<Rightarrow> (case ar_Request a of None \<Rightarrow> False | Some r \<Rightarrow> P r))
      else f = ClientReg \<and> Q k)"

definition spec_revoke :: "(Request \<Rightarrow> bool) \<Rightarrow> (string \<Rightarrow> bool) \<Rightarrow> store \<Rightarrow> store" where
  "spec_revoke P Q V =
     (\<lambda>f k. case V f k of None \<Rightarrow> None | Some d \<Rightarrow> if revoke_hits P Q f k d then None else Some d)"

definition of_client :: "string \<Rightarrow> Request \<Rightarrow> bool" where
  "of_client clientID r \<longleftrightarrow> (\<exists>c. rq_Client r = Some c \<and> cl_ID c = clientID)"

lemma of_client_code [code]:
  "of_client clientID r = (case rq_Client r of None \<Rightarrow> False | Some c \<Rightarrow> cl_ID c = clientID)"
  by (auto simp: of_client_def split: option.splits)

text \<open>A registration that has expired counts as absent (fail-closed).\<close>

definition client_expired :: "time \<Rightarrow> Client \<Rightarrow> bool" where
  "client_expired now c \<longleftrightarrow> \<not> time_is_zero (cl_ExpiresAt c) \<and> cl_ExpiresAt c < now"

definition client_counts :: "time \<Rightarrow> doc \<Rightarrow> bool" where
  "client_counts now d =
     (case dec_client d of
        Inl _ \<Rightarrow> False
      | Inr c \<Rightarrow> time_is_zero (cl_ExpiresAt c) \<or> now < cl_ExpiresAt c)"

definition spec_client :: "store \<Rightarrow> string \<Rightarrow> time \<Rightarrow> FClient result" where
  "spec_client V cid now =
     res_bind (get_doc V ClientReg cid) (\<lambda>d. res_bind (dec_client d) (\<lambda>c.
       if client_expired now c then Inl ErrNotFound else Inr (ToFositeClient c)))"

lemmas spec_simps = spec_put_def spec_delete_def spec_drop_def get_doc_def

text \<open>Every record family holds its own kind of document; a stored request names its client.\<close>

fun doc_ok :: "family \<Rightarrow> doc \<Rightarrow> bool" where
  "doc_ok AuthorizeReq (DAuthorize a) = (case ar_Request a of None \<Rightarrow> False | Some r \<Rightarrow> rq_Client r \<noteq> None)"
| "doc_ok ClientReg (DClient c) = True"
| "doc_ok UserRec (DUser u) = True"
| "doc_ok Credential (DCredential w) = True"
| "doc_ok Meta (DVersion v) = True"
| "doc_ok f (DRequest r) = (f \<in> set session_families \<and> rq_Client r \<noteq> None)"
| "doc_ok _ _ = False"

definition typed :: "store \<Rightarrow> bool" where
  "typed V \<longleftrightarrow> (\<forall>f k d. V f k = Some d \<longrightarrow> doc_ok f d)"

lemma typed_put: "typed V \<Longrightarrow> doc_ok f d \<Longrightarrow> typed (spec_put f k d V)"
  by (auto simp: typed_def spec_put_def)

lemma typed_mono: "typed V \<Longrightarrow> (\<And>f k d. W f k = Some d \<Longrightarrow> V f k = Some d) \<Longrightarrow> typed W"
  unfolding typed_def by blast

lemma typed_delete: "typed V \<Longrightarrow> typed (spec_delete f k V)"
  by (erule typed_mono) (auto simp: spec_delete_def split: if_splits)

lemma typed_drop: "typed V \<Longrightarrow> typed (spec_drop f P V)"
  by (erule typed_mono) (auto simp: spec_drop_def split: if_splits option.splits)

lemma typed_revoke: "typed V \<Longrightarrow> typed (spec_revoke P Q V)"
  by (erule typed_mono) (auto simp: spec_revoke_def split: if_splits option.splits)

lemma doc_ok_FromFositeReq: "f \<in> set session_families \<Longrightarrow> doc_ok f (DRequest (FromFositeReq q))"
  by (auto simp: session_families_def)

lemma doc_ok_FromFositeAuthorizeRequest: "doc_ok AuthorizeReq (DAuthorize (FromFositeAuthorizeRequest q))"
  by (simp add: FromFositeAuthorizeRequest_def)

lemma spec_request_put:
  "spec_request (spec_put f k (DRequest (FromFositeReq q)) V) f k sess =
     Inr (q\<lparr>fr_Session := (if sess = None then None else fr_Session q)\<rparr>)"
  by (simp add: spec_request_def spec_simps load_FromFositeReq)

lemma spec_request_absent: "V f k = None \<Longrightarrow> spec_request V f k sess = Inl ErrNotFound"
  by (simp add: spec_request_def spec_simps)

lemma spec_request_frame:
  "(f, k) \<noteq> (f', k') \<Longrightarrow> spec_request (spec_put f' k' d V) f k sess = spec_request V f k sess"
  by (auto simp: spec_request_def spec_simps)

lemma spec_revoke_access:
  "spec_revoke (of_client c) Q V AccessToken sig = Some d \<Longrightarrow> d = DRequest r \<Longrightarrow> \<not> of_client c r"
  by (auto simp: spec_revoke_def revoke_hits_def session_families_def split: option.splits if_splits)

section \<open>Writes\<close>

text \<open>All or nothing: the change on success, no change on an error.\<close>

definition writes :: "('s \<Rightarrow> store) \<Rightarrow> 's \<Rightarrow> 'a result \<times> 's \<Rightarrow> (store \<Rightarrow> store) \<Rightarrow> bool" where
  "writes v s rs f \<longleftrightarrow>
     (case rs of (Inr _, s') \<Rightarrow> v s' = f (v s) | (Inl _, s') \<Rightarrow> v s' = v s)"

lemma writes_ok: "writes v s (r, s') f \<Longrightarrow> r = Inr x \<Longrightarrow> v s' = f (v s)"
  by (simp add: writes_def)

lemma writes_err: "writes v s (r, s') f \<Longrightarrow> r = Inl e \<Longrightarrow> v s' = v s"
  by (simp add: writes_def)

lemma writes_disj: "writes v s (r, s') f \<Longrightarrow> v s' = v s \<or> v s' = f (v s)"
  by (auto simp: writes_def split: sum.splits)

section \<open>The interfaces\<close>

record ClientRegistration =
  cr_Client :: FClient
  cr_Name :: runes
  cr_ExpiresAt :: time
  cr_MaxClients :: int

definition SchemaVersion :: int where "SchemaVersion = 1"

text \<open>\<open>fosite.Storage\<close>, \<open>oauth2.CoreStorage\<close>, \<open>TokenRevocationStorage\<close>, \<open>PKCERequestStorage\<close>:
  the part keyed by session family.  \<open>ss_create f\<close> is \<open>CreateAuthorizeCodeSession\<close>,
  \<open>CreateAccessTokenSession\<close>, \<open>CreateRefreshTokenSession\<close> or \<open>CreatePKCERequestSession\<close>, and so
  on.\<close>

record 's SessionStorage =
  ss_create :: "family \<Rightarrow> string \<Rightarrow> FRequest \<Rightarrow> (unit, 's) act"
  ss_get :: "family \<Rightarrow> string \<Rightarrow> Session option \<Rightarrow> (FRequest, 's) query"
  ss_delete :: "family \<Rightarrow> string \<Rightarrow> (unit, 's) act"
  ss_RotateRefreshToken :: "string \<Rightarrow> string \<Rightarrow> time \<Rightarrow> (unit, 's) act"
  ss_RevokeRefreshToken :: "string \<Rightarrow> (unit, 's) act"
  ss_RevokeAccessToken :: "string \<Rightarrow> (unit, 's) act"

record 's DynamicClientStorage =
  ds_GetClient :: "string \<Rightarrow> time \<Rightarrow> (FClient, 's) query"
  ds_RegisterClient :: "ClientRegistration \<Rightarrow> time \<Rightarrow> time \<Rightarrow> (unit, 's) act"
  ds_GetClientName :: "string \<Rightarrow> time \<Rightarrow> (runes, 's) query"
  ds_TouchClient :: "string \<Rightarrow> time \<Rightarrow> (unit, 's) act"
  ds_CountClients :: "time \<Rightarrow> (int, 's) query"

record 's AuthorizeRequestStorage =
  as_CreateAuthorizeRequest :: "FAuthorizeRequest \<Rightarrow> (unit, 's) act"
  as_GetAuthorizeRequest :: "string \<Rightarrow> (FAuthorizeRequest, 's) query"
  as_DeleteAuthorizeRequest :: "string \<Rightarrow> (unit, 's) act"

record 's UserStorage =
  us_GetUser :: "(User, 's) query"
  us_CreateUser :: "User \<Rightarrow> (unit, 's) act"
  us_UpdateUser :: "User \<Rightarrow> (unit, 's) act"
  us_AddWebAuthnCredential :: "WebAuthnCredential \<Rightarrow> (unit, 's) act"
  us_ListWebAuthnCredentials :: "string \<Rightarrow> (WebAuthnCredential list, 's) query"
  us_UpdateWebAuthnCredential :: "WebAuthnCredential \<Rightarrow> (unit, 's) act"
  us_DeleteWebAuthnCredential :: "string \<Rightarrow> (unit, 's) act"

record 's MaintenanceStorage =
  ms_DeleteExpiredSessions :: "time \<Rightarrow> time \<Rightarrow> time \<Rightarrow> (unit, 's) act"
  ms_EnsureSchemaVersion :: "int \<Rightarrow> (unit, 's) act"
  ms_DeleteExpiredClients :: "time \<Rightarrow> (unit, 's) act"

record 's InventoryStorage =
  is_RevokeClient :: "string \<Rightarrow> (int, 's) act"
  is_RevokeGrant :: "string \<Rightarrow> (int, 's) act"
  is_RevokeAll :: "(int, 's) act"

section \<open>The contracts\<close>

locale session_storage =
  fixes S :: "'s SessionStorage" and v :: "'s \<Rightarrow> store"
  assumes get_session: "f \<in> set session_families \<Longrightarrow> ss_get S f k sess s = spec_request (v s) f k sess"
    and create_session: "f \<in> set session_families \<Longrightarrow>
      writes v s (ss_create S f k q s) (spec_put f k (DRequest (FromFositeReq q)))"
    and delete_session: "f \<in> set session_families \<Longrightarrow> writes v s (ss_delete S f k s) (spec_delete f k)"
begin

lemma get_after_create:
  assumes "f \<in> set session_families" and "ss_create S f k q s = (Inr (), s')"
  shows "ss_get S f k sess s' = Inr (q\<lparr>fr_Session := (if sess = None then None else fr_Session q)\<rparr>)"
  using assms create_session [of f s k q]
  by (simp add: get_session writes_def spec_request_put)

lemma get_after_delete:
  assumes "f \<in> set session_families" and "ss_delete S f k s = (Inr (), s')"
  shows "ss_get S f k sess s' = Inl ErrNotFound"
  using assms delete_session [of f s k]
  by (simp add: get_session writes_def spec_request_def spec_simps)

end

locale authorize_request_storage =
  fixes A :: "'s AuthorizeRequestStorage" and v :: "'s \<Rightarrow> store"
    and reparse :: "string \<Rightarrow> string option"
  assumes get_ar: "as_GetAuthorizeRequest A k s =
      res_bind (get_doc (v s) AuthorizeReq k) (\<lambda>d. res_bind (dec_authorize d) (ToFositeAuthorizeRequest reparse))"
    and create_ar: "writes v s (as_CreateAuthorizeRequest A q s)
      (spec_put AuthorizeReq (fr_ID q) (DAuthorize (FromFositeAuthorizeRequest q)))"
    and delete_ar: "writes v s (as_DeleteAuthorizeRequest A k s) (spec_delete AuthorizeReq k)"
begin

lemma get_after_delete_ar:
  "as_DeleteAuthorizeRequest A k s = (Inr (), s') \<Longrightarrow> as_GetAuthorizeRequest A k s' = Inl ErrNotFound"
  using delete_ar [of s k] by (simp add: get_ar writes_def spec_simps)

lemma get_absent_ar: "v s AuthorizeReq k = None \<Longrightarrow> as_GetAuthorizeRequest A k s = Inl ErrNotFound"
  by (simp add: get_ar spec_simps)

end

locale dynamic_client_storage =
  fixes D :: "'s DynamicClientStorage" and v :: "'s \<Rightarrow> store"
  assumes get_client: "ds_GetClient D cid now s = spec_client (v s) cid now"
    and touch_client: "writes v s (ds_TouchClient D cid t s)
      (\<lambda>V. case V ClientReg cid of
         Some (DClient c) \<Rightarrow>
           if time_is_zero (cl_ExpiresAt c) then V
           else spec_put ClientReg cid (DClient (c\<lparr>cl_ExpiresAt := t\<rparr>)) V
       | _ \<Rightarrow> V)"
    and register_client: "writes v s (ds_RegisterClient D g created now s)
      (spec_put ClientReg (fc_ID (cr_Client g))
        (DClient ((FromFositeClient (cr_Client g))
          \<lparr>cl_Name := cr_Name g, cl_CreatedAt := created, cl_ExpiresAt := cr_ExpiresAt g\<rparr>)))"
begin

lemma get_registered:
  assumes "ds_RegisterClient D g created now s = (Inr (), s')"
    and "cr_ExpiresAt g = 0 \<or> t \<le> cr_ExpiresAt g"
  shows "ds_GetClient D (fc_ID (cr_Client g)) t s' = Inr (cr_Client g)"
  using assms register_client [of s g created now]
  by (auto simp: get_client writes_def spec_client_def spec_simps client_expired_def
      ToFositeClient_def FromFositeClient_def)

end

locale user_storage =
  fixes U :: "'s UserStorage" and v :: "'s \<Rightarrow> store"
  assumes get_user: "us_GetUser U s = res_bind (get_doc (v s) UserRec []) dec_user"
    and create_user: "writes v s (us_CreateUser U u s) (spec_put UserRec [] (DUser u))"
    and update_user: "writes v s (us_UpdateUser U u s) (spec_put UserRec [] (DUser u))"
    and delete_credential: "writes v s (us_DeleteWebAuthnCredential U k s) (spec_delete Credential k)"
    and list_credentials: "us_ListWebAuthnCredentials U uid s = Inr cs \<Longrightarrow>
      set cs = {c. \<exists>k. v s Credential k = Some (DCredential c) \<and> wc_UserID c = uid}"
begin

lemma get_after_update_user: "us_UpdateUser U u s = (Inr (), s') \<Longrightarrow> us_GetUser U s' = Inr u"
  using update_user [of s u] by (simp add: get_user writes_def spec_simps)

lemma get_after_create_user: "us_CreateUser U u s = (Inr (), s') \<Longrightarrow> us_GetUser U s' = Inr u"
  using create_user [of s u] by (simp add: get_user writes_def spec_simps)

end

text \<open>An empty client identifier names no registration; the handlers never ask for it.\<close>

locale inventory_storage =
  fixes I :: "'s InventoryStorage" and v :: "'s \<Rightarrow> store"
  assumes revoke_client: "cid \<noteq> [] \<Longrightarrow> writes v s (is_RevokeClient I cid s) (spec_revoke (of_client cid) (\<lambda>k. k = cid))"
    and revoke_grant: "writes v s (is_RevokeGrant I rid s) (spec_revoke (\<lambda>r. rq_ID r = rid) (\<lambda>_. False))"
    and revoke_all: "writes v s (is_RevokeAll I s) (spec_revoke (\<lambda>_. True) (\<lambda>_. True))"
begin

text \<open>After a successful revoke no family holds anything of the client.\<close>

lemma revoked_client_gone:
  assumes "is_RevokeClient I cid s = (Inr n, s')" and "cid \<noteq> []" and "f \<in> set session_families"
    and "v s' f k = Some (DRequest r)"
  shows "\<not> of_client cid r"
  using assms revoke_client [of cid s]
  by (auto simp: writes_def spec_revoke_def revoke_hits_def split: option.splits if_splits)

lemma revoked_client_frame:
  assumes "is_RevokeClient I cid s = (Inr n, s')" and "cid \<noteq> []" and "f \<in> set session_families"
    and "v s f k = Some (DRequest r)" and "\<not> of_client cid r"
  shows "v s' f k = Some (DRequest r)"
  using assms revoke_client [of cid s]
  by (auto simp: writes_def spec_revoke_def revoke_hits_def)

end

locale repository =
  session_storage S v + authorize_request_storage A v reparse + dynamic_client_storage D v +
  user_storage U v + inventory_storage I v
  for S :: "'s SessionStorage" and A :: "'s AuthorizeRequestStorage"
    and D :: "'s DynamicClientStorage" and U :: "'s UserStorage" and I :: "'s InventoryStorage"
    and v :: "'s \<Rightarrow> store" and reparse :: "string \<Rightarrow> string option"

end
