(* ===== verification/World.thy ===== *)
theory World
  imports Web Ratelimit Cimd Repository
begin

text \<open>
  The state the HTTP handlers share beside the request context: the repository, the source of
  random bytes, the login lockout and the CIMD resolver with its cache; and the identifiers of
  \<^verbatim>\<open>pkg/utils/rand.go\<close>.

  \<open>crypto/rand\<close> is a parameter: \<open>src i n\<close> is what the \<open>i\<close>-th read of \<open>n\<close> bytes yields,
  \<open>None\<close> when the read fails.  \<open>draws\<close> counts the reads.
\<close>

type_synonym rand_source = "nat \<Rightarrow> nat \<Rightarrow> string option"

record 's world = web +
  repo :: 's
  draws :: nat
  lockout :: "Lockout option"
  cimd :: Resolver

type_synonym ('a, 's) wact = "'s world \<Rightarrow> 'a \<times> 's world"

text \<open>Calls on the repository.\<close>

definition on_repo :: "('a, 's) act \<Rightarrow> 's world \<Rightarrow> 'a result \<times> 's world" where
  "on_repo f w = (case f (repo w) of (r, s) \<Rightarrow> (r, w\<lparr>repo := s\<rparr>))"

definition ask_repo :: "('a, 's) query \<Rightarrow> 's world \<Rightarrow> 'a result" where
  "ask_repo q w = q (repo w)"

lemma on_repo_eq: "on_repo f w = (fst (f (repo w)), w\<lparr>repo := snd (f (repo w))\<rparr>)"
  by (simp add: on_repo_def split: prod.splits)

section \<open>Random identifiers\<close>

definition hex_digit :: "nat \<Rightarrow> char" where
  "hex_digit n = char_of (if n < 10 then 48 + n else 87 + n)"

definition hex_encode :: "string \<Rightarrow> string" where
  "hex_encode bs = concat (map (\<lambda>c. [hex_digit (byte c div 16), hex_digit (byte c mod 16)]) bs)"

definition rand_hex :: "rand_source \<Rightarrow> nat \<Rightarrow> 's world \<Rightarrow> string result \<times> 's world" where
  "rand_hex src n w =
     (case src (draws w) n of
        None \<Rightarrow> (Inl (ErrMsg ''rand''), w\<lparr>draws := Suc (draws w)\<rparr>)
      | Some bs \<Rightarrow> (Inr (hex_encode bs), w\<lparr>draws := Suc (draws w)\<rparr>))"

definition GenerateClientID :: "rand_source \<Rightarrow> 's world \<Rightarrow> string result \<times> 's world" where
  "GenerateClientID src = rand_hex src 16"

definition GenerateClientSecret :: "rand_source \<Rightarrow> 's world \<Rightarrow> string result \<times> 's world" where
  "GenerateClientSecret src = rand_hex src 32"

definition GenerateState :: "rand_source \<Rightarrow> 's world \<Rightarrow> string result \<times> 's world" where
  "GenerateState src = rand_hex src 16"

definition GenerateJTI :: "rand_source \<Rightarrow> 's world \<Rightarrow> string result \<times> 's world" where
  "GenerateJTI src = rand_hex src 16"

definition GenerateUserID :: "rand_source \<Rightarrow> 's world \<Rightarrow> string result \<times> 's world" where
  "GenerateUserID src = rand_hex src 32"

definition GenerateCSRFToken :: "rand_source \<Rightarrow> 's world \<Rightarrow> string result \<times> 's world" where
  "GenerateCSRFToken src = rand_hex src 32"

lemmas generate_defs = GenerateClientID_def GenerateClientSecret_def GenerateState_def
  GenerateJTI_def GenerateUserID_def GenerateCSRFToken_def

lemma rand_hex_cases:
  obtains e where "rand_hex src n w = (Inl e, w\<lparr>draws := Suc (draws w)\<rparr>)"
  | bs where "src (draws w) n = Some bs"
      and "rand_hex src n w = (Inr (hex_encode bs), w\<lparr>draws := Suc (draws w)\<rparr>)"
  by (cases "src (draws w) n") (simp_all add: rand_hex_def)

lemma rand_hex_state: "rand_hex src n w = (r, w') \<Longrightarrow> w' = w\<lparr>draws := Suc (draws w)\<rparr>"
  by (cases rule: rand_hex_cases [of src n w]) auto

lemma length_hex_encode: "length (hex_encode bs) = 2 * length bs"
  by (induction bs) (simp_all add: hex_encode_def)

lemma of_char_hex_digit: "i < 16 \<Longrightarrow> byte (hex_digit i) = (if i < 10 then 48 + i else 87 + i)"
  by (simp add: hex_digit_def)

lemma hex_digit_inject: "i < 16 \<Longrightarrow> j < 16 \<Longrightarrow> hex_digit i = hex_digit j \<longleftrightarrow> i = j"
proof
  assume lt: "i < 16" "j < 16" and eq: "hex_digit i = hex_digit j"
  have "(if i < 10 then 48 + i else 87 + i) = (if j < 10 then 48 + j else 87 + j)"
    using of_char_hex_digit [OF lt(1)] of_char_hex_digit [OF lt(2)] by (simp only: eq)
  then show "i = j" by (auto split: if_splits)
qed simp

lemma hex_pair_inject:
  "[hex_digit (byte b div 16), hex_digit (byte b mod 16)] =
   [hex_digit (byte c div 16), hex_digit (byte c mod 16)] \<longleftrightarrow> b = c"
proof -
  have "byte b div 16 < 16" "byte c div 16 < 16"
    by (simp_all add: less_mult_imp_div_less)
  moreover have "b = c" if "byte b div 16 = byte c div 16" "byte b mod 16 = byte c mod 16"
    using that div_mult_mod_eq [of "byte b" 16] div_mult_mod_eq [of "byte c" 16] by (metis of_char_eq_iff)
  ultimately show ?thesis by (auto simp: hex_digit_inject)
qed

lemma hex_encode_Cons:
  "hex_encode (b # bs) = hex_digit (byte b div 16) # hex_digit (byte b mod 16) # hex_encode bs"
  by (simp add: hex_encode_def)

lemma hex_encode_inject: "hex_encode bs = hex_encode cs \<Longrightarrow> bs = cs"
proof (induction bs arbitrary: cs)
  case Nil
  then show ?case by (cases cs) (simp_all add: hex_encode_def)
next
  case (Cons b bs)
  then obtain c cs' where cs: "cs = c # cs'"
    by (cases cs) (simp_all add: hex_encode_def)
  from Cons.prems have "b = c" "hex_encode bs = hex_encode cs'"
    using hex_pair_inject [of b c] by (simp_all add: cs hex_encode_Cons)
  with Cons.IH show ?case by (simp add: cs)
qed

end
