(* ===== verification/Query.thy ===== *)
theory Query
  imports Url
begin

text \<open>
  Query strings as \<open>net/url\<close> handles them: escaping, \<open>ParseQuery\<close> and \<open>Values.Encode\<close>, with
  their round trip.  A \<open>url.Values\<close> map is an association list with distinct keys.
\<close>

type_synonym url_values = "(string \<times> string list) list"

section \<open>Escaping\<close>

definition unreserved :: "char \<Rightarrow> bool" where
  "unreserved c \<longleftrightarrow> (48 \<le> byte c \<and> byte c \<le> 57) \<or> (65 \<le> byte c \<and> byte c \<le> 90) \<or>
     (97 \<le> byte c \<and> byte c \<le> 122) \<or> c \<in> set ''-_.~''"

definition upper_hex :: "nat \<Rightarrow> char" where
  "upper_hex n = char_of (if n < 10 then 48 + n else 55 + n)"

definition unhex :: "char \<Rightarrow> nat option" where
  "unhex c =
     (if 48 \<le> byte c \<and> byte c \<le> 57 then Some (byte c - 48)
      else if 65 \<le> byte c \<and> byte c \<le> 70 then Some (byte c - 55)
      else if 97 \<le> byte c \<and> byte c \<le> 102 then Some (byte c - 87) else None)"

definition escape_byte :: "char \<Rightarrow> string" where
  "escape_byte c =
     (if unreserved c then [c] else if c = CHR '' '' then ''+''
      else [CHR ''%'', upper_hex (byte c div 16), upper_hex (byte c mod 16)])"

definition QueryEscape :: "string \<Rightarrow> string" where
  "QueryEscape s = concat (map escape_byte s)"

fun QueryUnescape :: "string \<Rightarrow> string option" where
  "QueryUnescape [] = Some []"
| "QueryUnescape (c # s) =
     (if c = CHR ''%'' then
        (case s of
           a # b # t \<Rightarrow>
             (case (unhex a, unhex b) of
                (Some i, Some j) \<Rightarrow> map_option (\<lambda>r. char_of (16 * i + j) # r) (QueryUnescape t)
              | _ \<Rightarrow> None)
         | _ \<Rightarrow> None)
      else map_option (\<lambda>r. (if c = CHR ''+'' then CHR '' '' else c) # r) (QueryUnescape s))"

section \<open>Parsing and encoding\<close>

fun parse_pair :: "string \<Rightarrow> (string \<times> string) option" where
  "parse_pair kv =
     (if CHR '';'' \<in> set kv then None
      else if kv = [] then None
      else (case cut_char kv (CHR ''='') of (k, v, _) \<Rightarrow>
        (case (QueryUnescape k, QueryUnescape v) of (Some k, Some v) \<Rightarrow> Some (k, v) | _ \<Rightarrow> None)))"

definition values_Add :: "string \<Rightarrow> string \<Rightarrow> url_values \<Rightarrow> url_values" where
  "values_Add k v m =
     (if k \<in> fst ` set m then map (\<lambda>(k', vs). if k' = k then (k', vs @ [v]) else (k', vs)) m
      else m @ [(k, [v])])"

definition parse_pairs :: "string \<Rightarrow> (string \<times> string) list" where
  "parse_pairs q = List.map_filter parse_pair (split_char q (CHR ''&''))"

definition ParseQuery :: "string \<Rightarrow> url_values" where
  "ParseQuery q = fold (\<lambda>(k, v). values_Add k v) (parse_pairs q) []"

definition values_Get :: "url_values \<Rightarrow> string \<Rightarrow> string" where
  "values_Get m k = (case map_of m k of Some (v # _) \<Rightarrow> v | _ \<Rightarrow> [])"

text \<open>\<open>m[k]\<close>: all values of a key.\<close>

definition values_All :: "url_values \<Rightarrow> string \<Rightarrow> string list" where
  "values_All m k = (case map_of m k of Some vs \<Rightarrow> vs | None \<Rightarrow> [])"

definition values_Set :: "string \<Rightarrow> string \<Rightarrow> url_values \<Rightarrow> url_values" where
  "values_Set k v m = filter (\<lambda>(k', _). k' \<noteq> k) m @ [(k, [v])]"

definition encode_pair :: "string \<times> string \<Rightarrow> string" where
  "encode_pair p = QueryEscape (fst p) @ ''='' @ QueryEscape (snd p)"

definition value_pairs :: "url_values \<Rightarrow> (string \<times> string) list" where
  "value_pairs m = concat (map (\<lambda>(k, vs). map (Pair k) vs) m)"

definition Encode :: "url_values \<Rightarrow> string" where
  "Encode m = join (map encode_pair (value_pairs (sort_key fst m))) ''&''"

section \<open>The round trip\<close>

lemma byte_upper_hex: "n < 16 \<Longrightarrow> byte (upper_hex n) = (if n < 10 then 48 + n else 55 + n)"
  by (simp add: upper_hex_def)

lemma unhex_upper_hex: "n < 16 \<Longrightarrow> unhex (upper_hex n) = Some n"
  using byte_upper_hex [of n] by (simp add: unhex_def)

lemma upper_hex_unreserved: "n < 16 \<Longrightarrow> unreserved (upper_hex n)"
  using byte_upper_hex [of n] by (simp add: unreserved_def)

lemma div_16 [simp]: "byte c div 16 < 16"
  by (simp add: less_mult_imp_div_less)

lemma char_of_halves: "char_of (16 * (byte c div 16) + byte c mod 16) = c"
  by (simp add: mult.commute [of 16])

lemma unreserved_special: "\<not> unreserved (CHR ''%'')" "\<not> unreserved (CHR ''+'')" "\<not> unreserved (CHR '' '')"
    "\<not> unreserved (CHR ''&'')" "\<not> unreserved (CHR ''='')" "\<not> unreserved (CHR '';'')"
  by (simp_all add: unreserved_def)

lemma unescape_escape_byte:
  "QueryUnescape (escape_byte c @ s) = map_option ((#) c) (QueryUnescape s)"
proof -
  consider "unreserved c" | "\<not> unreserved c" "c = CHR '' ''" | "\<not> unreserved c" "c \<noteq> CHR '' ''"
    by blast
  then show ?thesis
  proof cases
    case 1
    then have "c \<noteq> CHR ''%''" "c \<noteq> CHR ''+''"
      using unreserved_special by blast+
    with 1 show ?thesis by (simp add: escape_byte_def)
  next
    case 2
    then show ?thesis by (simp add: escape_byte_def)
  next
    case 3
    then show ?thesis by (simp add: escape_byte_def unhex_upper_hex char_of_halves)
  qed
qed

lemma unescape_escape: "QueryUnescape (QueryEscape s) = Some s"
  by (induction s) (simp_all add: QueryEscape_def unescape_escape_byte)

lemma escape_byte_bytes:
  assumes "x \<in> set (escape_byte c)"
  shows "unreserved x \<or> x = CHR ''+'' \<or> x = CHR ''%''"
proof -
  consider "x = c" "unreserved c" | "x = CHR ''+''" | "x = CHR ''%''"
    | "x = upper_hex (byte c div 16)" | "x = upper_hex (byte c mod 16)"
    using assms by (simp add: escape_byte_def split: if_splits) blast
  then show ?thesis
    by cases (simp_all add: upper_hex_unreserved)
qed

lemma escape_bytes: "x \<in> set (QueryEscape s) \<Longrightarrow> unreserved x \<or> x = CHR ''+'' \<or> x = CHR ''%''"
  using escape_byte_bytes unfolding QueryEscape_def set_concat set_map by blast

lemma escape_nin:
  "\<not> unreserved x \<Longrightarrow> x \<noteq> CHR ''+'' \<Longrightarrow> x \<noteq> CHR ''%'' \<Longrightarrow> x \<notin> set (QueryEscape s)"
  using escape_bytes by blast

lemma escape_clean:
  "CHR ''&'' \<notin> set (QueryEscape s)" "CHR ''='' \<notin> set (QueryEscape s)" "CHR '';'' \<notin> set (QueryEscape s)"
  by (rule escape_nin; simp add: unreserved_special)+

lemma encode_pair_clean: "CHR ''&'' \<notin> set (encode_pair p)" "CHR '';'' \<notin> set (encode_pair p)"
    "encode_pair p \<noteq> []"
  by (simp_all add: encode_pair_def escape_clean)

lemma parse_encode_pair: "parse_pair (encode_pair p) = Some p"
proof -
  have "takeWhile (\<lambda>x. x \<noteq> CHR ''='') (encode_pair p) = QueryEscape (fst p)"
    "dropWhile (\<lambda>x. x \<noteq> CHR ''='') (encode_pair p) = CHR ''='' # QueryEscape (snd p)"
    using escape_clean(2) [of "fst p"]
    by (simp_all add: encode_pair_def takeWhile_append dropWhile_append)
  then show ?thesis
    by (simp add: encode_pair_clean cut_char_def unescape_escape)
qed

lemma split_char_clean: "c \<notin> set w \<Longrightarrow> split_char w c = [w]"
  by (induction w) auto

lemma split_char_append: "c \<notin> set w \<Longrightarrow> split_char (w @ c # s) c = w # split_char s c"
  by (induction w) auto

lemma split_join: "ws \<noteq> [] \<Longrightarrow> \<forall>w \<in> set ws. c \<notin> set w \<Longrightarrow> split_char (join ws [c]) c = ws"
  by (induction ws "[c]" rule: join.induct) (simp_all add: split_char_clean split_char_append)

lemma map_filter_encode: "List.map_filter parse_pair (map encode_pair ps) = ps"
  by (induction ps) (simp_all add: List.map_filter_simps parse_encode_pair del: parse_pair.simps)

lemma parse_pairs_encode: "parse_pairs (join (map encode_pair ps) ''&'') = ps"
proof (cases "ps = []")
  case True
  then show ?thesis by (simp add: parse_pairs_def List.map_filter_simps)
next
  case False
  then have "split_char (join (map encode_pair ps) ''&'') (CHR ''&'') = map encode_pair ps"
    by (intro split_join) (simp_all add: encode_pair_clean)
  then show ?thesis
    by (simp add: parse_pairs_def map_filter_encode del: parse_pair.simps)
qed

text \<open>A value list survives: adding the pairs of a map in order rebuilds it.\<close>

lemma values_Add_All:
  "values_All (values_Add k v m) j = (if j = k then values_All m k @ [v] else values_All m j)"
proof -
  have "map_of (map (\<lambda>(k', vs). if k' = k then (k', vs @ [v]) else (k', vs)) m) j =
      (if j = k then map_option (\<lambda>vs. vs @ [v]) (map_of m k) else map_of m j)"
    by (induction m) auto
  moreover have "k \<in> fst ` set m \<longleftrightarrow> map_of m k \<noteq> None"
    by (metis map_of_eq_None_iff)
  moreover have "map_of (m @ [(k, [v])]) j = (case map_of m j of None \<Rightarrow> if j = k then Some [v] else None | Some x \<Rightarrow> Some x)"
    by (simp add: map_add_def split: option.splits)
  ultimately show ?thesis
    by (auto simp: values_Add_def values_All_def split: option.splits)
qed

lemma values_All_fold:
  "values_All (fold (\<lambda>(k, v). values_Add k v) ps m) j = values_All m j @ map snd (filter (\<lambda>p. fst p = j) ps)"
  by (induction ps arbitrary: m) (auto simp: values_Add_All)

lemma values_All_Parse: "values_All (ParseQuery q) j = map snd (filter (\<lambda>p. fst p = j) (parse_pairs q))"
  by (simp add: ParseQuery_def values_All_fold) (simp add: values_All_def)

lemma value_pairs_All:
  "distinct (map fst m) \<Longrightarrow> map snd (filter (\<lambda>p. fst p = j) (value_pairs m)) = values_All m j"
proof (induction m)
  case Nil
  then show ?case by (simp add: value_pairs_def values_All_def)
next
  case (Cons a m)
  obtain k vs where a: "a = (k, vs)" by (cases a)
  from Cons.prems have nin: "k \<notin> fst ` set m" by (simp add: a)
  have none: "filter (\<lambda>p. fst p = k) (value_pairs m) = []"
    using nin by (auto simp: value_pairs_def filter_empty_conv rev_image_eqI)
  have here: "filter (\<lambda>p. fst p = j) (map (Pair k) vs) = (if j = k then map (Pair k) vs else [])"
    by (induction vs) auto
  have "value_pairs (a # m) = map (Pair k) vs @ value_pairs m"
    by (simp add: a value_pairs_def)
  with Cons none here show ?case
    by (auto simp: a values_All_def comp_def)
qed

lemma values_All_sort: "distinct (map fst m) \<Longrightarrow> values_All (sort_key fst m) j = values_All m j"
  by (subst (1 2) values_All_def, subst map_of_inject_set [THEN iffD2, of "sort_key fst m" m])
     (simp_all add: distinct_map)

lemma Parse_Encode: "distinct (map fst m) \<Longrightarrow> values_All (ParseQuery (Encode m)) j = values_All m j"
proof -
  assume d: "distinct (map fst m)"
  have "distinct (map fst (sort_key fst m))"
    using d by (simp add: distinct_map)
  then show ?thesis
    using d by (simp add: values_All_Parse Encode_def parse_pairs_encode value_pairs_All values_All_sort)
qed

lemma values_Get_All: "values_Get m k = (case values_All m k of [] \<Rightarrow> [] | v # _ \<Rightarrow> v)"
  by (auto simp: values_Get_def values_All_def split: option.splits list.splits)

lemma distinct_Add: "distinct (map fst m) \<Longrightarrow> distinct (map fst (values_Add k v m))"
proof -
  assume d: "distinct (map fst m)"
  have eq: "map fst (map (\<lambda>(k', vs). if k' = k then (k', vs @ [v]) else (k', vs)) m) = map fst m"
    by (induction m) auto
  show ?thesis
    by (cases "k \<in> fst ` set m") (simp_all only: values_Add_def eq d if_True if_False, simp add: d)
qed

lemma distinct_Parse: "distinct (map fst (ParseQuery q))"
proof -
  have "distinct (map fst m) \<Longrightarrow> distinct (map fst (fold (\<lambda>(k, v). values_Add k v) ps m))" for ps m
    by (induction ps arbitrary: m) (auto simp: distinct_Add)
  from this [of "[]"] show ?thesis by (simp add: ParseQuery_def)
qed

lemma distinct_Set: "distinct (map fst m) \<Longrightarrow> distinct (map fst (values_Set k v m))"
  by (auto simp: values_Set_def distinct_map_filter)

lemma values_Set_All: "values_All (values_Set k v m) j = (if j = k then [v] else values_All m j)"
proof -
  have "map_of (filter (\<lambda>(k', _). k' \<noteq> k) m) j = (if j = k then None else map_of m j)"
    by (induction m) auto
  then show ?thesis
    by (auto simp: values_All_def values_Set_def map_add_def split: option.splits)
qed

end
