(* ===== verification/Inventory.thy ===== *)
theory Inventory
  imports Repository "HOL-Library.Multiset"
begin

text \<open>
  \<^verbatim>\<open>pkg/repository/inventory.go\<close>: the aggregator that turns token records and registrations
  into the operator's client list.

  The Go maps \<open>clients\<close> and \<open>grants\<close> are association lists with distinct keys.  Go walks a
  map in an arbitrary order; \<open>rows\<close> sorts by a total key, and \<open>rows_order\<close> proves that the
  order of the list has no influence.  Pointers into the maps (\<open>*clientAccumulator\<close>,
  \<open>*Grant\<close>) become values that are written back.
\<close>

section \<open>Data\<close>

datatype ClientOrigin = OriginCIMD | OriginDCR

record Grant =
  g_RequestID :: string
  g_Label :: runes
  g_RequestedAt :: time
  g_LastActivity :: time
  g_Scopes :: "string list"
  g_AccessTokens :: int
  g_RefreshTokens :: int

record ClientGrants =
  cg_ClientID :: string
  cg_Label :: runes
  cg_Origin :: ClientOrigin
  cg_Registered :: bool
  cg_RegisteredAt :: time
  cg_ExpiresAt :: time
  cg_RedirectURIs :: "string list"
  cg_Scopes :: "string list"
  cg_Grants :: "Grant list"
  cg_AccessTokens :: int
  cg_RefreshTokens :: int
  cg_FirstActivity :: time
  cg_LastActivity :: time

definition originOf :: "string \<Rightarrow> ClientOrigin" where
  "originOf clientID = (if has_prefix clientID ''https://'' then OriginCIMD else OriginDCR)"

datatype tokenKind = accessTokenKind | refreshTokenKind

record clientAccumulator =
  acc_row :: ClientGrants
  acc_grants :: "(string \<times> Grant) list"
  acc_scopes :: "string set"
  acc_snapshotAt :: time

type_synonym inventory = "(string \<times> clientAccumulator) list"

definition newInventory :: inventory where "newInventory = []"

section \<open>Folding records in\<close>

definition new_accumulator :: "string \<Rightarrow> clientAccumulator" where
  "new_accumulator clientID =
     \<lparr>acc_row = \<lparr>cg_ClientID = clientID, cg_Label = [], cg_Origin = originOf clientID,
        cg_Registered = False, cg_RegisteredAt = 0, cg_ExpiresAt = 0, cg_RedirectURIs = [],
        cg_Scopes = [], cg_Grants = [], cg_AccessTokens = 0, cg_RefreshTokens = 0,
        cg_FirstActivity = 0, cg_LastActivity = 0\<rparr>,
      acc_grants = [], acc_scopes = {}, acc_snapshotAt = 0\<rparr>"

definition accumulator :: "string \<Rightarrow> inventory \<Rightarrow> clientAccumulator" where
  "accumulator clientID i =
     (case map_of i clientID of Some acc \<Rightarrow> acc | None \<Rightarrow> new_accumulator clientID)"

definition takeSnapshot :: "Request \<Rightarrow> Client \<Rightarrow> clientAccumulator \<Rightarrow> clientAccumulator" where
  "takeSnapshot req c acc =
     (if cg_Registered (acc_row acc) \<or> rq_RequestedAt req < acc_snapshotAt acc then acc
      else acc\<lparr>acc_row := (acc_row acc)\<lparr>cg_RedirectURIs := cl_RedirectURIs c\<rparr>,
               acc_snapshotAt := rq_RequestedAt req\<rparr>)"

definition grantFor :: "Request \<Rightarrow> clientAccumulator \<Rightarrow> Grant" where
  "grantFor req acc =
     (case map_of (acc_grants acc) (rq_ID req) of
        None \<Rightarrow> \<lparr>g_RequestID = rq_ID req, g_Label = [], g_RequestedAt = rq_RequestedAt req,
           g_LastActivity = 0, g_Scopes = [], g_AccessTokens = 0, g_RefreshTokens = 0\<rparr>
      | Some g \<Rightarrow>
          if rq_RequestedAt req < g_RequestedAt g then g\<lparr>g_RequestedAt := rq_RequestedAt req\<rparr> else g)"

definition grantedScopes :: "Request \<Rightarrow> string list" where
  "grantedScopes req = (if rq_GrantedScope req \<noteq> [] then rq_GrantedScope req else rq_RequestedScope req)"

definition nameGrant :: "Request \<Rightarrow> Grant \<Rightarrow> Grant" where
  "nameGrant req g = (if g_Label g = [] \<and> rq_Label req \<noteq> [] then g\<lparr>g_Label := rq_Label req\<rparr> else g)"

definition acc_count :: "tokenKind \<Rightarrow> Grant \<Rightarrow> ClientGrants \<Rightarrow> Grant \<times> ClientGrants" where
  "acc_count kind g r =
     (case kind of
        accessTokenKind \<Rightarrow>
          (g\<lparr>g_AccessTokens := g_AccessTokens g + 1\<rparr>, r\<lparr>cg_AccessTokens := cg_AccessTokens r + 1\<rparr>)
      | refreshTokenKind \<Rightarrow>
          (g\<lparr>g_RefreshTokens := g_RefreshTokens g + 1\<rparr>, r\<lparr>cg_RefreshTokens := cg_RefreshTokens r + 1\<rparr>))"

definition recordActivity :: "Request \<Rightarrow> Grant \<Rightarrow> ClientGrants \<Rightarrow> Grant \<times> ClientGrants" where
  "recordActivity req g r =
     (let activity = (if rq_RequestedAt req < rq_RotatedAt req then rq_RotatedAt req
                      else rq_RequestedAt req);
          g' = (if g_LastActivity g < activity then g\<lparr>g_LastActivity := activity\<rparr> else g);
          r' = (if cg_LastActivity r < activity then r\<lparr>cg_LastActivity := activity\<rparr> else r);
          r'' = (if time_is_zero (cg_FirstActivity r') \<or> rq_RequestedAt req < cg_FirstActivity r'
                 then r'\<lparr>cg_FirstActivity := rq_RequestedAt req\<rparr> else r')
      in (g', r''))"

definition fold_token :: "tokenKind \<Rightarrow> Request \<Rightarrow> Client \<Rightarrow> clientAccumulator \<Rightarrow> clientAccumulator" where
  "fold_token kind req c acc0 =
     (let acc = takeSnapshot req c acc0;
          g = nameGrant req (grantFor req acc);
          scopes = acc_scopes acc \<union> set (grantedScopes req);
          (g1, r1) = acc_count kind g (acc_row acc);
          (g2, r2) = recordActivity req g1 r1
      in acc\<lparr>acc_row := r2, acc_grants := AList.update (rq_ID req) g2 (acc_grants acc),
             acc_scopes := scopes\<rparr>)"

definition addToken :: "tokenKind \<Rightarrow> Request \<Rightarrow> inventory \<Rightarrow> inventory" where
  "addToken kind req i =
     (case rq_Client req of
        None \<Rightarrow> i
      | Some c \<Rightarrow>
          if cl_ID c = [] then i
          else AList.update (cl_ID c) (fold_token kind req c (accumulator (cl_ID c) i)) i)"

definition addRegistration :: "Client \<Rightarrow> inventory \<Rightarrow> inventory" where
  "addRegistration c i =
     (if cl_ID c = [] then i
      else
        (let acc = accumulator (cl_ID c) i
         in AList.update (cl_ID c)
              (acc\<lparr>acc_row := (acc_row acc)\<lparr>cg_Registered := True, cg_RegisteredAt := cl_CreatedAt c,
                 cg_ExpiresAt := cl_ExpiresAt c, cg_RedirectURIs := cl_RedirectURIs c\<rparr>\<rparr>) i))"

section \<open>The finished list\<close>

definition isExpiredRegistration :: "time \<Rightarrow> clientAccumulator \<Rightarrow> bool" where
  "isExpiredRegistration now acc \<longleftrightarrow>
     cg_Registered (acc_row acc) \<and> \<not> time_is_zero (cg_ExpiresAt (acc_row acc)) \<and>
     cg_ExpiresAt (acc_row acc) < now"

definition sortedGrants :: "(string \<times> Grant) list \<Rightarrow> Grant list" where
  "sortedGrants gs = sort_key (\<lambda>g. (- g_LastActivity g, g_RequestID g)) (map snd gs)"

definition sortedKeys :: "string set \<Rightarrow> string list" where
  "sortedKeys S = sorted_list_of_set S"

definition row_of :: "clientAccumulator \<Rightarrow> ClientGrants" where
  "row_of acc =
     (let gs = sortedGrants (acc_grants acc);
          r = (acc_row acc)\<lparr>cg_Grants := gs, cg_Scopes := sortedKeys (acc_scopes acc)\<rparr>
      in case filter (\<lambda>g. g_Label g \<noteq> []) gs of [] \<Rightarrow> r | g # _ \<Rightarrow> r\<lparr>cg_Label := g_Label g\<rparr>)"

definition row_key :: "ClientGrants \<Rightarrow> int \<times> string" where
  "row_key r = (- cg_LastActivity r, cg_ClientID r)"

definition rows :: "time \<Rightarrow> inventory \<Rightarrow> ClientGrants list" where
  "rows now i =
     sort_key row_key
       (map (row_of \<circ> snd)
         (filter (\<lambda>(_, acc). \<not> (acc_grants acc = [] \<and> isExpiredRegistration now acc)) i))"

section \<open>One record\<close>

lemma sum_update:
  fixes f :: "'v \<Rightarrow> int"
  assumes "distinct (map fst gs)"
  shows "(\<Sum>g\<leftarrow>AList.update k v gs. f (snd g)) =
    (\<Sum>g\<leftarrow>gs. f (snd g)) + f v - (case map_of gs k of None \<Rightarrow> 0 | Some g \<Rightarrow> f g)"
  using assms by (induction gs) (auto split: option.splits)

lemma count_mset_eq: "mset xs = mset ys \<Longrightarrow> count_list xs k = count_list ys k"
  by (metis count_mset)

lemma sort_key_perm:
  fixes f :: "'a \<Rightarrow> 'b::linorder"
  assumes "mset xs = mset ys" and "inj_on f (set xs)"
  shows "sort_key f xs = sort_key f ys"
proof (rule properties_for_sort_key [symmetric])
  show "mset (sort_key f xs) = mset ys" using assms(1) by simp
  show "sorted (map f (sort_key f xs))" by simp
  fix k assume k: "k \<in> set (sort_key f xs)"
  have set_eq: "set ys = set xs" using assms(1) by (metis mset_eq_setD)
  have "filter (\<lambda>x. f k = f x) zs = replicate (count_list zs k) k" if "set zs = set xs" for zs
  proof -
    have "filter (\<lambda>x. f k = f x) zs = filter (\<lambda>x. x = k) zs"
      using that k assms(2) by (intro filter_cong) (auto simp: inj_on_def)
    also have "\<dots> = replicate (count_list zs k) k"
      by (induction zs) auto
    finally show ?thesis .
  qed
  then have "filter (\<lambda>x. f k = f x) (sort_key f xs) = replicate (count_list (sort_key f xs) k) k"
    and "filter (\<lambda>x. f k = f x) ys = replicate (count_list ys k) k"
    using set_eq by simp_all
  moreover have "count_list (sort_key f xs) k = count_list ys k"
    by (rule count_mset_eq) (simp add: assms(1))
  ultimately show "filter (\<lambda>x. f k = f x) (sort_key f xs) = filter (\<lambda>x. f k = f x) ys"
    by metis
qed

lemma acc_count_sel [simp]:
  "g_RequestID (fst (acc_count kind g r)) = g_RequestID g"
  "g_AccessTokens (fst (acc_count kind g r)) = g_AccessTokens g + of_bool (kind = accessTokenKind)"
  "g_RefreshTokens (fst (acc_count kind g r)) = g_RefreshTokens g + of_bool (kind = refreshTokenKind)"
  "cg_AccessTokens (snd (acc_count kind g r)) = cg_AccessTokens r + of_bool (kind = accessTokenKind)"
  "cg_RefreshTokens (snd (acc_count kind g r)) = cg_RefreshTokens r + of_bool (kind = refreshTokenKind)"
  "cg_ClientID (snd (acc_count kind g r)) = cg_ClientID r"
  "cg_Origin (snd (acc_count kind g r)) = cg_Origin r"
  "cg_Registered (snd (acc_count kind g r)) = cg_Registered r"
  "cg_ExpiresAt (snd (acc_count kind g r)) = cg_ExpiresAt r"
  by (cases kind; simp add: acc_count_def)+

lemma recordActivity_sel [simp]:
  "g_RequestID (fst (recordActivity req g r)) = g_RequestID g"
  "g_AccessTokens (fst (recordActivity req g r)) = g_AccessTokens g"
  "g_RefreshTokens (fst (recordActivity req g r)) = g_RefreshTokens g"
  "cg_AccessTokens (snd (recordActivity req g r)) = cg_AccessTokens r"
  "cg_RefreshTokens (snd (recordActivity req g r)) = cg_RefreshTokens r"
  "cg_ClientID (snd (recordActivity req g r)) = cg_ClientID r"
  "cg_Origin (snd (recordActivity req g r)) = cg_Origin r"
  "cg_Registered (snd (recordActivity req g r)) = cg_Registered r"
  "cg_ExpiresAt (snd (recordActivity req g r)) = cg_ExpiresAt r"
  by (simp_all add: recordActivity_def Let_def)

lemma takeSnapshot_sel [simp]:
  "cg_AccessTokens (acc_row (takeSnapshot req c acc)) = cg_AccessTokens (acc_row acc)"
  "cg_RefreshTokens (acc_row (takeSnapshot req c acc)) = cg_RefreshTokens (acc_row acc)"
  "cg_ClientID (acc_row (takeSnapshot req c acc)) = cg_ClientID (acc_row acc)"
  "cg_Origin (acc_row (takeSnapshot req c acc)) = cg_Origin (acc_row acc)"
  "cg_Registered (acc_row (takeSnapshot req c acc)) = cg_Registered (acc_row acc)"
  "cg_ExpiresAt (acc_row (takeSnapshot req c acc)) = cg_ExpiresAt (acc_row acc)"
  "acc_grants (takeSnapshot req c acc) = acc_grants acc"
  "acc_scopes (takeSnapshot req c acc) = acc_scopes acc"
  by (simp_all add: takeSnapshot_def)

lemma nameGrant_sel [simp]:
  "g_RequestID (nameGrant req g) = g_RequestID g"
  "g_AccessTokens (nameGrant req g) = g_AccessTokens g"
  "g_RefreshTokens (nameGrant req g) = g_RefreshTokens g"
  by (simp_all add: nameGrant_def)

lemma fold_token_sel [simp]:
  "cg_AccessTokens (acc_row (fold_token kind req c acc)) =
     cg_AccessTokens (acc_row acc) + of_bool (kind = accessTokenKind)"
  "cg_RefreshTokens (acc_row (fold_token kind req c acc)) =
     cg_RefreshTokens (acc_row acc) + of_bool (kind = refreshTokenKind)"
  "cg_ClientID (acc_row (fold_token kind req c acc)) = cg_ClientID (acc_row acc)"
  "cg_Origin (acc_row (fold_token kind req c acc)) = cg_Origin (acc_row acc)"
  "cg_Registered (acc_row (fold_token kind req c acc)) = cg_Registered (acc_row acc)"
  "cg_ExpiresAt (acc_row (fold_token kind req c acc)) = cg_ExpiresAt (acc_row acc)"
  by (simp_all add: fold_token_def Let_def case_prod_beta)

lemma grantFor_takeSnapshot [simp]: "grantFor req (takeSnapshot r c acc) = grantFor req acc"
  by (simp add: grantFor_def)

lemma fold_token_grants:
  "\<exists>g. acc_grants (fold_token kind req c acc) = AList.update (rq_ID req) g (acc_grants acc) \<and>
     g_RequestID g = g_RequestID (grantFor req acc) \<and>
     g_AccessTokens g = g_AccessTokens (grantFor req acc) + of_bool (kind = accessTokenKind) \<and>
     g_RefreshTokens g = g_RefreshTokens (grantFor req acc) + of_bool (kind = refreshTokenKind)"
proof -
  let ?g1 = "acc_count kind (nameGrant req (grantFor req acc)) (acc_row (takeSnapshot req c acc))"
  let ?g2 = "fst (recordActivity req (fst ?g1) (snd ?g1))"
  have "acc_grants (fold_token kind req c acc) = AList.update (rq_ID req) ?g2 (acc_grants acc)"
    by (simp add: fold_token_def Let_def case_prod_beta)
  then show ?thesis by (intro exI [of _ ?g2]) simp
qed

lemma update_ne_Nil [simp]: "AList.update k v xs \<noteq> []"
  by (cases xs) auto

lemma fold_token_grants_ne [simp]: "acc_grants (fold_token kind req c acc) \<noteq> []"
  using fold_token_grants [of kind req c acc] by (metis update_ne_Nil)

section \<open>The invariant of the aggregator\<close>

definition grants_ok :: "clientAccumulator \<Rightarrow> bool" where
  "grants_ok acc \<longleftrightarrow>
     distinct (map fst (acc_grants acc)) \<and>
     (\<forall>(rid, g) \<in> set (acc_grants acc). g_RequestID g = rid) \<and>
     (\<Sum>g\<leftarrow>acc_grants acc. g_AccessTokens (snd g)) = cg_AccessTokens (acc_row acc) \<and>
     (\<Sum>g\<leftarrow>acc_grants acc. g_RefreshTokens (snd g)) = cg_RefreshTokens (acc_row acc)"

definition acc_ok :: "string \<Rightarrow> clientAccumulator \<Rightarrow> bool" where
  "acc_ok cid acc \<longleftrightarrow>
     cg_ClientID (acc_row acc) = cid \<and> cg_Origin (acc_row acc) = originOf cid \<and> grants_ok acc"

definition inv_ok :: "inventory \<Rightarrow> bool" where
  "inv_ok i \<longleftrightarrow> distinct (map fst i) \<and> (\<forall>(cid, acc) \<in> set i. cid \<noteq> [] \<and> acc_ok cid acc)"

lemma grantFor_sel:
  assumes "grants_ok acc"
  shows "g_RequestID (grantFor req acc) = rq_ID req"
    and "g_AccessTokens (grantFor req acc) =
      (case map_of (acc_grants acc) (rq_ID req) of None \<Rightarrow> 0 | Some g \<Rightarrow> g_AccessTokens g)"
    and "g_RefreshTokens (grantFor req acc) =
      (case map_of (acc_grants acc) (rq_ID req) of None \<Rightarrow> 0 | Some g \<Rightarrow> g_RefreshTokens g)"
  using assms
  by (auto simp: grantFor_def grants_ok_def dest!: map_of_SomeD split: option.splits)

lemma set_update_subset: "set (AList.update k v xs) \<subseteq> insert (k, v) (set xs)"
  by (induction xs) auto

lemma grants_ok_fold_token:
  assumes "grants_ok acc"
  shows "grants_ok (fold_token kind req c acc)"
proof -
  obtain g where g: "acc_grants (fold_token kind req c acc) = AList.update (rq_ID req) g (acc_grants acc)"
    "g_RequestID g = rq_ID req"
    "g_AccessTokens g = g_AccessTokens (grantFor req acc) + of_bool (kind = accessTokenKind)"
    "g_RefreshTokens g = g_RefreshTokens (grantFor req acc) + of_bool (kind = refreshTokenKind)"
    using fold_token_grants grantFor_sel(1) [OF assms] by metis
  have d: "distinct (map fst (acc_grants acc))" using assms by (simp add: grants_ok_def)
  have ids: "\<forall>(rid, g') \<in> set (AList.update (rq_ID req) g (acc_grants acc)). g_RequestID g' = rid"
    using set_update_subset [of "rq_ID req" g "acc_grants acc"] g(2) assms
    unfolding grants_ok_def by blast
  show ?thesis
    unfolding grants_ok_def g(1)
    using assms ids d
    by (simp add: grants_ok_def distinct_update sum_update g(3,4) grantFor_sel(2,3) [OF assms]
        split: option.splits)
qed

lemma acc_ok_fold_token: "acc_ok cid acc \<Longrightarrow> acc_ok cid (fold_token kind req c acc)"
  by (simp add: acc_ok_def grants_ok_fold_token)

lemma acc_ok_new: "acc_ok cid (new_accumulator cid)"
  by (simp add: acc_ok_def grants_ok_def new_accumulator_def)

lemma acc_ok_accumulator: "inv_ok i \<Longrightarrow> acc_ok cid (accumulator cid i)"
  by (auto simp: accumulator_def inv_ok_def acc_ok_new dest!: map_of_SomeD split: option.splits)

lemma inv_ok_update: "inv_ok i \<Longrightarrow> cid \<noteq> [] \<Longrightarrow> acc_ok cid acc \<Longrightarrow> inv_ok (AList.update cid acc i)"
  using set_update_subset [of cid acc i] by (fastforce simp: inv_ok_def distinct_update)

lemma inv_ok_addToken: "inv_ok i \<Longrightarrow> inv_ok (addToken kind req i)"
  by (auto simp: addToken_def intro!: inv_ok_update acc_ok_fold_token acc_ok_accumulator
      split: option.splits)

lemma inv_ok_addRegistration:
  assumes "inv_ok i"
  shows "inv_ok (addRegistration c i)"
proof (cases "cl_ID c = []")
  case False
  then show ?thesis
    using acc_ok_accumulator [OF assms, of "cl_ID c"] assms
    by (auto simp: addRegistration_def Let_def acc_ok_def grants_ok_def intro!: inv_ok_update)
qed (use assms in \<open>simp add: addRegistration_def\<close>)

definition add_records :: "(tokenKind \<times> Request) list \<Rightarrow> Client list \<Rightarrow> inventory" where
  "add_records ts cs = fold addRegistration cs (fold (\<lambda>(kind, req). addToken kind req) ts newInventory)"

lemma inv_ok_fold_tokens: "inv_ok i \<Longrightarrow> inv_ok (fold (\<lambda>(kind, req). addToken kind req) ts i)"
  by (induction ts arbitrary: i) (auto simp: inv_ok_addToken split: prod.splits)

lemma inv_ok_fold_regs: "inv_ok i \<Longrightarrow> inv_ok (fold addRegistration cs i)"
  by (induction cs arbitrary: i) (auto simp: inv_ok_addRegistration)

lemma inv_ok_add_records: "inv_ok (add_records ts cs)"
  unfolding add_records_def newInventory_def
  by (intro inv_ok_fold_regs inv_ok_fold_tokens) (simp add: inv_ok_def)

section \<open>What a row counts\<close>

definition tokens_of :: "tokenKind \<Rightarrow> string \<Rightarrow> (tokenKind \<times> Request) list \<Rightarrow> int" where
  "tokens_of kind cid ts = int (length (filter (\<lambda>(k, r). k = kind \<and> of_client cid r) ts))"

lemma accumulator_update [simp]:
  "accumulator cid (AList.update cid' acc i) = (if cid = cid' then acc else accumulator cid i)"
  by (simp add: accumulator_def update_conv')

lemma accumulator_addToken:
  "accumulator cid (addToken kind req i) =
     (case rq_Client req of
        Some c \<Rightarrow> if cl_ID c = cid \<and> cid \<noteq> [] then fold_token kind req c (accumulator cid i)
                 else accumulator cid i
      | None \<Rightarrow> accumulator cid i)"
  by (auto simp: addToken_def split: option.splits)

lemma addToken_counts:
  assumes "cid \<noteq> []"
  shows "cg_AccessTokens (acc_row (accumulator cid (addToken kind req i))) =
      cg_AccessTokens (acc_row (accumulator cid i)) + of_bool (kind = accessTokenKind \<and> of_client cid req)"
    and "cg_RefreshTokens (acc_row (accumulator cid (addToken kind req i))) =
      cg_RefreshTokens (acc_row (accumulator cid i)) + of_bool (kind = refreshTokenKind \<and> of_client cid req)"
    and "cg_Registered (acc_row (accumulator cid (addToken kind req i))) =
      cg_Registered (acc_row (accumulator cid i))"
    and "acc_grants (accumulator cid (addToken kind req i)) = [] \<longleftrightarrow>
      acc_grants (accumulator cid i) = [] \<and> \<not> of_client cid req"
  using assms by (auto simp: accumulator_addToken of_client_def split: option.splits if_splits)

lemma addToken_dom:
  "map_of (addToken kind req i) cid \<noteq> None \<longleftrightarrow> map_of i cid \<noteq> None \<or> (cid \<noteq> [] \<and> of_client cid req)"
  by (auto simp: addToken_def of_client_def update_conv' split: option.splits if_splits)

lemma tokens_of_simps [simp]:
  "tokens_of kind cid [] = 0"
  "tokens_of kind cid ((k, r) # ts) = of_bool (k = kind \<and> of_client cid r) + tokens_of kind cid ts"
  by (simp_all add: tokens_of_def)

abbreviation fold_tokens :: "(tokenKind \<times> Request) list \<Rightarrow> inventory \<Rightarrow> inventory" where
  "fold_tokens \<equiv> fold (\<lambda>(kind, req). addToken kind req)"

lemma fold_tokens_counts:
  assumes "cid \<noteq> []"
  shows "cg_AccessTokens (acc_row (accumulator cid (fold_tokens ts i))) =
      cg_AccessTokens (acc_row (accumulator cid i)) + tokens_of accessTokenKind cid ts"
    and "cg_RefreshTokens (acc_row (accumulator cid (fold_tokens ts i))) =
      cg_RefreshTokens (acc_row (accumulator cid i)) + tokens_of refreshTokenKind cid ts"
    and "cg_Registered (acc_row (accumulator cid (fold_tokens ts i))) =
      cg_Registered (acc_row (accumulator cid i))"
    and "acc_grants (accumulator cid (fold_tokens ts i)) = [] \<longleftrightarrow>
      acc_grants (accumulator cid i) = [] \<and> \<not> (\<exists>(k, r) \<in> set ts. of_client cid r)"
  by (induction ts arbitrary: i) (auto simp: addToken_counts [OF assms])

lemma fold_tokens_dom:
  "map_of (fold_tokens ts i) cid \<noteq> None \<longleftrightarrow>
     map_of i cid \<noteq> None \<or> (cid \<noteq> [] \<and> (\<exists>(k, r) \<in> set ts. of_client cid r))"
proof (induction ts arbitrary: i)
  case (Cons t ts)
  then show ?case using addToken_dom [of "fst t" "snd t" i cid] by (cases t) auto
qed simp

lemma addRegistration_counts:
  "cg_AccessTokens (acc_row (accumulator cid (addRegistration c i))) = cg_AccessTokens (acc_row (accumulator cid i))"
  "cg_RefreshTokens (acc_row (accumulator cid (addRegistration c i))) = cg_RefreshTokens (acc_row (accumulator cid i))"
  "acc_grants (accumulator cid (addRegistration c i)) = acc_grants (accumulator cid i)"
  by (simp_all add: addRegistration_def Let_def)

lemma fold_regs_counts:
  "cg_AccessTokens (acc_row (accumulator cid (fold addRegistration cs i))) = cg_AccessTokens (acc_row (accumulator cid i))"
  "cg_RefreshTokens (acc_row (accumulator cid (fold addRegistration cs i))) = cg_RefreshTokens (acc_row (accumulator cid i))"
  "acc_grants (accumulator cid (fold addRegistration cs i)) = acc_grants (accumulator cid i)"
  by (induction cs arbitrary: i) (simp_all add: addRegistration_counts)

lemma fold_regs_other:
  "cid \<notin> cl_ID ` set cs \<Longrightarrow> accumulator cid (fold addRegistration cs i) = accumulator cid i"
  by (induction cs arbitrary: i) (auto simp: addRegistration_def Let_def)

lemma fold_regs_registered:
  assumes "distinct (map cl_ID cs)" and "c \<in> set cs" and "cl_ID c \<noteq> []"
  shows "cg_Registered (acc_row (accumulator (cl_ID c) (fold addRegistration cs i)))"
    and "cg_ExpiresAt (acc_row (accumulator (cl_ID c) (fold addRegistration cs i))) = cl_ExpiresAt c"
  using assms
  by (induction cs arbitrary: i) (auto simp: fold_regs_other addRegistration_def Let_def)

lemma fold_regs_dom:
  "map_of (fold addRegistration cs i) cid \<noteq> None \<longleftrightarrow>
     map_of i cid \<noteq> None \<or> (cid \<noteq> [] \<and> (\<exists>c \<in> set cs. cl_ID c = cid))"
  by (induction cs arbitrary: i) (auto simp: addRegistration_def Let_def update_conv')

section \<open>Rows\<close>

lemma row_of_sel [simp]:
  "cg_ClientID (row_of acc) = cg_ClientID (acc_row acc)"
  "cg_Origin (row_of acc) = cg_Origin (acc_row acc)"
  "cg_AccessTokens (row_of acc) = cg_AccessTokens (acc_row acc)"
  "cg_RefreshTokens (row_of acc) = cg_RefreshTokens (acc_row acc)"
  "cg_LastActivity (row_of acc) = cg_LastActivity (acc_row acc)"
  "cg_Grants (row_of acc) = sortedGrants (acc_grants acc)"
  by (simp_all add: row_of_def Let_def split: list.splits)

definition listed :: "time \<Rightarrow> clientAccumulator \<Rightarrow> bool" where
  "listed now acc \<longleftrightarrow> \<not> (acc_grants acc = [] \<and> isExpiredRegistration now acc)"

lemma set_rows: "set (rows now i) = {row_of acc |cid acc. (cid, acc) \<in> set i \<and> listed now acc}"
  by (force simp: rows_def listed_def)

lemma mem_accumulator:
  "inv_ok i \<Longrightarrow> (cid, acc) \<in> set i \<longleftrightarrow> map_of i cid \<noteq> None \<and> acc = accumulator cid i"
  by (auto simp: inv_ok_def accumulator_def)

lemma row_ids_distinct:
  assumes "inv_ok i"
  shows "distinct (map cg_ClientID (map (row_of \<circ> snd) (filter P i)))"
proof -
  have "map cg_ClientID (map (row_of \<circ> snd) (filter P i)) = map fst (filter P i)"
    using assms by (auto simp: inv_ok_def acc_ok_def)
  moreover have "distinct (map fst (filter P i))"
    using assms by (simp add: inv_ok_def distinct_map_filter)
  ultimately show ?thesis by metis
qed

lemma strict_sorted_rows:
  assumes "inv_ok i"
  shows "sorted_wrt (<) (map row_key (rows now i))"
proof -
  let ?l = "map (row_of \<circ> snd) (filter (\<lambda>(_, acc). \<not> (acc_grants acc = [] \<and> isExpiredRegistration now acc)) i)"
  have "distinct (map cg_ClientID ?l)"
    by (rule row_ids_distinct [OF assms])
  then have "distinct ?l" and "inj_on cg_ClientID (set ?l)"
    by (simp_all only: distinct_map)
  then have "distinct (rows now i)" and "inj_on row_key (set (rows now i))"
    unfolding rows_def row_key_def set_sort distinct_sort by (auto intro: inj_onI dest: inj_onD)
  then have "distinct (map row_key (rows now i))"
    by (simp only: distinct_map)
  then show ?thesis by (simp add: strict_sorted_iff rows_def)
qed

lemma sum_sortedGrants:
  fixes f :: "Grant \<Rightarrow> int"
  shows "(\<Sum>g\<leftarrow>sortedGrants gs. f g) = (\<Sum>g\<leftarrow>gs. f (snd g))"
proof -
  have "mset (map f (sortedGrants gs)) = mset (map (f \<circ> snd) gs)"
    by (simp add: sortedGrants_def multiset.map_comp)
  then have "sum_list (map f (sortedGrants gs)) = sum_list (map (f \<circ> snd) gs)"
    by (metis sum_mset_sum_list)
  then show ?thesis by (simp add: comp_def)
qed

lemma rows_order:
  assumes "inv_ok i" and "mset i = mset j"
  shows "rows now i = rows now j"
  unfolding rows_def
proof (rule sort_key_perm)
  show "mset (map (row_of \<circ> snd) (filter P i)) = mset (map (row_of \<circ> snd) (filter P j))" for P
    using assms(2) by (simp add: mset_filter)
  have "inj_on cg_ClientID (set (map (row_of \<circ> snd) (filter P i)))" for P
    using row_ids_distinct [OF assms(1), of P] by (simp only: distinct_map)
  then have "inj_on row_key (set (map (row_of \<circ> snd) (filter P i)))" for P
    unfolding row_key_def inj_on_def by (metis prod.inject)
  then show "inj_on row_key (set (map (row_of \<circ> snd)
      (filter (\<lambda>(_, acc). \<not> (acc_grants acc = [] \<and> isExpiredRegistration now acc)) i)))" .
qed

lemma accumulator_nil [simp]:
  "cg_AccessTokens (acc_row (accumulator cid newInventory)) = 0"
  "cg_RefreshTokens (acc_row (accumulator cid newInventory)) = 0"
  "acc_grants (accumulator cid newInventory) = []"
  "cg_Registered (acc_row (accumulator cid newInventory)) = False"
  "map_of newInventory cid = None"
  by (simp_all add: newInventory_def accumulator_def new_accumulator_def)

lemma listed_add_records:
  assumes "distinct (map cl_ID cs)" and "cid \<noteq> []"
  shows "listed now (accumulator cid (add_records ts cs)) \<longleftrightarrow>
    (\<exists>(k, r) \<in> set ts. of_client cid r) \<or> (\<forall>c \<in> set cs. cl_ID c = cid \<longrightarrow> \<not> client_expired now c)"
proof (cases "\<exists>c \<in> set cs. cl_ID c = cid")
  case True
  then obtain c where c: "c \<in> set cs" "cl_ID c = cid" by blast
  have u: "c' = c" if "c' \<in> set cs" "cl_ID c' = cid" for c'
    using assms(1) c that by (auto simp: distinct_map dest: inj_onD)
  have "(\<forall>c \<in> set cs. cl_ID c = cid \<longrightarrow> \<not> client_expired now c) \<longleftrightarrow> \<not> client_expired now c"
    using c u by blast
  then show ?thesis
    using fold_regs_registered [OF assms(1) c(1), of "fold_tokens ts newInventory"] c(2) assms(2)
    by (auto simp: listed_def add_records_def isExpiredRegistration_def fold_regs_counts
        fold_tokens_counts client_expired_def)
next
  case False
  then have *: "accumulator cid (add_records ts cs) = accumulator cid (fold_tokens ts newInventory)"
    by (auto simp: add_records_def intro!: fold_regs_other)
  show ?thesis
    using False assms(2) unfolding *
    by (auto simp: listed_def isExpiredRegistration_def fold_tokens_counts)
qed

text \<open>A client has a row exactly when it holds something.\<close>

lemma complete_rows:
  assumes "distinct (map cl_ID cs)"
  shows "cid \<in> cg_ClientID ` set (rows now (add_records ts cs)) \<longleftrightarrow>
    cid \<noteq> [] \<and> ((\<exists>(k, r) \<in> set ts. of_client cid r) \<or>
      (\<exists>c \<in> set cs. cl_ID c = cid \<and> \<not> client_expired now c))"
proof -
  let ?i = "add_records ts cs"
  have ok: "inv_ok ?i" by (rule inv_ok_add_records)
  have id: "cg_ClientID (acc_row (accumulator c ?i)) = c" for c
    using acc_ok_accumulator [OF ok] by (simp add: acc_ok_def)
  have "cid \<in> cg_ClientID ` set (rows now ?i) \<longleftrightarrow> map_of ?i cid \<noteq> None \<and> listed now (accumulator cid ?i)"
  proof
    assume "cid \<in> cg_ClientID ` set (rows now ?i)"
    then obtain c where "cid = cg_ClientID (row_of (accumulator c ?i))" "map_of ?i c \<noteq> None"
      "listed now (accumulator c ?i)"
      by (auto simp: set_rows mem_accumulator [OF ok])
    then show "map_of ?i cid \<noteq> None \<and> listed now (accumulator cid ?i)" by (simp add: id)
  next
    assume a: "map_of ?i cid \<noteq> None \<and> listed now (accumulator cid ?i)"
    then have "row_of (accumulator cid ?i) \<in> set (rows now ?i)"
      unfolding set_rows using mem_accumulator [OF ok, of cid "accumulator cid ?i"] by blast
    then have "cg_ClientID (row_of (accumulator cid ?i)) \<in> cg_ClientID ` set (rows now ?i)"
      by (rule imageI)
    then show "cid \<in> cg_ClientID ` set (rows now ?i)" by (simp only: row_of_sel id)
  qed
  also have "map_of ?i cid \<noteq> None \<longleftrightarrow>
      cid \<noteq> [] \<and> ((\<exists>(k, r) \<in> set ts. of_client cid r) \<or> (\<exists>c \<in> set cs. cl_ID c = cid))"
    unfolding add_records_def fold_regs_dom fold_tokens_dom by auto
  finally have e: "cid \<in> cg_ClientID ` set (rows now ?i) \<longleftrightarrow>
      (cid \<noteq> [] \<and> ((\<exists>(k, r) \<in> set ts. of_client cid r) \<or> (\<exists>c \<in> set cs. cl_ID c = cid)))
      \<and> listed now (accumulator cid ?i)" .
  have u: "c' = c" if "c' \<in> set cs" "c \<in> set cs" "cl_ID c' = cl_ID c" for c c'
    using assms that by (auto simp: distinct_map dest: inj_onD)
  show ?thesis
  proof (cases "cid = []")
    case False
    show ?thesis unfolding e listed_add_records [OF assms False] using u False by blast
  qed (use e in simp)
qed

definition demo_client :: "string \<Rightarrow> time \<Rightarrow> Client" where
  "demo_client cid t =
     \<lparr>cl_ID = cid, cl_Secret = [], cl_RotatedSecrets = [], cl_RedirectURIs = [], cl_GrantTypes = [],
      cl_ResponseTypes = [], cl_Scopes = [], cl_Audience = [], cl_Public = True, cl_Name = [],
      cl_CreatedAt = 0, cl_ExpiresAt = t\<rparr>"

definition demo_request :: "string \<Rightarrow> string \<Rightarrow> time \<Rightarrow> Request" where
  "demo_request rid cid t =
     \<lparr>rq_ID = rid, rq_RequestedAt = t, rq_Client = Some (demo_client cid 0), rq_RequestedScope = [],
      rq_GrantedScope = [], rq_Form = [], rq_RequestedAudience = [], rq_GrantedAudience = [],
      rq_RotatedAt = 0, rq_SessionData = NoData, rq_Label = []\<rparr>"

text \<open>
  Every row tells the truth.  The rows come in strictly increasing order of
  \<open>(- last activity, client ID)\<close>, so newest first and no client twice, and a row's token counts
  are exactly the numbers of stored access and refresh token records of that client, which its
  grants partition.
\<close>

theorem listing_exact:
  "sorted_wrt (<) (map row_key (rows now (add_records ts cs))) \<and>
   list_all (\<lambda>r. cg_AccessTokens r = tokens_of accessTokenKind (cg_ClientID r) ts \<and>
       cg_RefreshTokens r = tokens_of refreshTokenKind (cg_ClientID r) ts \<and>
       (\<Sum>g\<leftarrow>cg_Grants r. g_AccessTokens g) = cg_AccessTokens r \<and>
       (\<Sum>g\<leftarrow>cg_Grants r. g_RefreshTokens g) = cg_RefreshTokens r \<and>
       cg_Origin r = originOf (cg_ClientID r)) (rows now (add_records ts cs))"
proof (intro conjI)
  let ?i = "add_records ts cs"
  have ok: "inv_ok ?i" by (rule inv_ok_add_records)
  show "sorted_wrt (<) (map row_key (rows now ?i))" by (rule strict_sorted_rows [OF ok])
  have "cg_AccessTokens r = tokens_of accessTokenKind (cg_ClientID r) ts \<and>
       cg_RefreshTokens r = tokens_of refreshTokenKind (cg_ClientID r) ts \<and>
       (\<Sum>g\<leftarrow>cg_Grants r. g_AccessTokens g) = cg_AccessTokens r \<and>
       (\<Sum>g\<leftarrow>cg_Grants r. g_RefreshTokens g) = cg_RefreshTokens r \<and>
       cg_Origin r = originOf (cg_ClientID r)" if "r \<in> set (rows now ?i)" for r
  proof -
    obtain cid acc where r: "r = row_of acc" and m: "(cid, acc) \<in> set ?i"
      using \<open>r \<in> _\<close> by (auto simp: set_rows)
    have a: "acc = accumulator cid ?i" and k: "acc_ok cid acc" "cid \<noteq> []"
      using m ok mem_accumulator [OF ok, of cid acc] by (auto simp: inv_ok_def)
    have "cg_AccessTokens (acc_row acc) = tokens_of accessTokenKind cid ts"
      "cg_RefreshTokens (acc_row acc) = tokens_of refreshTokenKind cid ts"
      unfolding a add_records_def by (simp_all add: fold_regs_counts fold_tokens_counts k(2))
    then show ?thesis using k(1) by (simp add: r acc_ok_def grants_ok_def sum_sortedGrants)
  qed
  then show "list_all (\<lambda>r. cg_AccessTokens r = tokens_of accessTokenKind (cg_ClientID r) ts \<and>
       cg_RefreshTokens r = tokens_of refreshTokenKind (cg_ClientID r) ts \<and>
       (\<Sum>g\<leftarrow>cg_Grants r. g_AccessTokens g) = cg_AccessTokens r \<and>
       (\<Sum>g\<leftarrow>cg_Grants r. g_RefreshTokens g) = cg_RefreshTokens r \<and>
       cg_Origin r = originOf (cg_ClientID r)) (rows now ?i)"
    by (simp add: list_all_iff)
qed

end
