(* ===== verification/Keys.thy ===== *)
theory Keys
  imports Web
begin

text \<open>
  \<^verbatim>\<open>pkg/keys\<close>: the signing key set, its key directory and manifest, rotation with a retiring
  window, and the signer's choice of the verification key.

  Cryptography is not modelled: \<open>'p key_lib\<close> holds key generation, PEM and PKCS#8 coding and the
  fingerprint as parameters, with what the code relies on in the locale \<open>key_library\<close>.  A file
  holds the content that was written to it or is \<open>Torn\<close>.  Every system call takes one entry of
  \<open>ke_faults\<close>, and \<open>ke_trace\<close> records every directory state between two system calls, so that
  a statement about all states of the trace is a statement about a crash at any point.
  (The order of system calls is what is modelled, not a loss of unsynced pages.)
\<close>

section \<open>Algorithms and keys\<close>

definition AlgRS256 :: string where "AlgRS256 = ''RS256''"
definition AlgES256 :: string where "AlgES256 = ''ES256''"

definition ParseAlg :: "string \<Rightarrow> string result" where
  "ParseAlg s =
     (if to_upper s = AlgRS256 then Inr AlgRS256
      else if to_upper s = AlgES256 then Inr AlgES256
      else Inl (ErrMsg ''unsupported key algorithm''))"

text \<open>An RSA key carries its modulus and exponent, an EC key its curve and uncompressed point.\<close>

datatype privkey =
    RSAPriv nat nat string
  | ECPriv string string string
  | OtherSigner string
  | NotASigner

datatype pubkey = RSAPub nat nat | ECPub string string | OtherPub string

fun Public :: "privkey \<Rightarrow> pubkey" where
  "Public (RSAPriv n e d) = RSAPub n e"
| "Public (ECPriv curve point d) = ECPub curve point"
| "Public (OtherSigner s) = OtherPub s"
| "Public NotASigner = OtherPub []"

definition minRSAModulusBits :: nat where "minRSAModulusBits = 2048"

text \<open>\<open>big.Int.BitLen() < b\<close> is \<open>n < 2 ^ (b - 1)\<close>.\<close>

fun algForKey :: "privkey \<Rightarrow> string result" where
  "algForKey (RSAPriv n e d) =
     (if n < 2 ^ (minRSAModulusBits - 1) then Inl (ErrMsg ''RSA key too small'') else Inr AlgRS256)"
| "algForKey (ECPriv curve point d) =
     (if curve \<noteq> ''P-256'' then Inl (ErrMsg ''unsupported ECDSA curve'') else Inr AlgES256)"
| "algForKey _ = Inl (ErrMsg ''unsupported private key type'')"

text \<open>\<open>kl_generate\<close> is given the entropy it consumes; \<open>None\<close> is a failing generator.\<close>

record 'p key_lib =
  kl_generate :: "string \<Rightarrow> string \<Rightarrow> privkey option"
  kl_pem_block :: "'p \<Rightarrow> string option"
  kl_parse_pkcs8 :: "string \<Rightarrow> privkey option"
  kl_encode_pem :: "privkey \<Rightarrow> 'p option"
  kl_pkix :: "pubkey \<Rightarrow> string option"
  kl_sha256_8 :: "string \<Rightarrow> string"

definition KeyID :: "'p key_lib \<Rightarrow> pubkey \<Rightarrow> string result" where
  "KeyID L pub =
     (case kl_pkix L pub of
        None \<Rightarrow> Inl (ErrMsg ''failed to marshal public key'')
      | Some bytes \<Rightarrow> Inr (kl_sha256_8 L bytes))"

definition GeneratePrivateKey :: "'p key_lib \<Rightarrow> string \<Rightarrow> string \<Rightarrow> privkey result" where
  "GeneratePrivateKey L alg entropy =
     (if alg = AlgRS256 \<or> alg = AlgES256 then
        (case kl_generate L alg entropy of None \<Rightarrow> Inl (ErrMsg ''rand'') | Some k \<Rightarrow> Inr k)
      else Inl (ErrMsg ''unsupported key algorithm''))"

definition ParsePrivateKeyPEM :: "'p key_lib \<Rightarrow> 'p \<Rightarrow> privkey result" where
  "ParsePrivateKeyPEM L pem =
     (case kl_pem_block L pem of
        None \<Rightarrow> Inl (ErrMsg ''failed to decode PEM block'')
      | Some block \<Rightarrow>
          (case kl_parse_pkcs8 L block of
             None \<Rightarrow> Inl (ErrMsg ''failed to parse private key'')
           | Some NotASigner \<Rightarrow> Inl (ErrMsg ''unsupported private key type'')
           | Some key \<Rightarrow> (case algForKey key of Inl e \<Rightarrow> Inl e | Inr _ \<Rightarrow> Inr key)))"

definition MarshalPrivateKeyPEM :: "'p key_lib \<Rightarrow> privkey \<Rightarrow> 'p result" where
  "MarshalPrivateKeyPEM L key =
     (case kl_encode_pem L key of
        None \<Rightarrow> Inl (ErrMsg ''failed to marshal private key'')
      | Some pem \<Rightarrow> Inr pem)"

record SigningKey =
  sk_Kid :: string
  sk_Alg :: string
  sk_Key :: privkey

section \<open>The JWK form\<close>

record JWK =
  jwk_Kty :: string
  jwk_Use :: string
  jwk_Kid :: string
  jwk_Alg :: string
  jwk_N :: string
  jwk_E :: string
  jwk_Crv :: string
  jwk_X :: string
  jwk_Y :: string

text \<open>\<open>big.Int.Bytes\<close> and \<open>base64.RawURLEncoding\<close>.\<close>

fun be_bytes :: "nat \<Rightarrow> nat list" where
  "be_bytes n = (if n = 0 then [] else be_bytes (n div 256) @ [n mod 256])"

declare be_bytes.simps [simp del]

definition b64_alphabet :: string where
  "b64_alphabet = ''ABCDEFGHIJKLMNOPQRSTUVWXYZabcdefghijklmnopqrstuvwxyz0123456789-_''"

definition b64_char :: "nat \<Rightarrow> char" where
  "b64_char n = b64_alphabet ! (n mod 64)"

fun b64_rawurl :: "nat list \<Rightarrow> string" where
  "b64_rawurl [] = []"
| "b64_rawurl [a] = [b64_char (a div 4), b64_char ((a mod 4) * 16)]"
| "b64_rawurl [a, b] =
     [b64_char (a div 4), b64_char ((a mod 4) * 16 + b div 16), b64_char ((b mod 16) * 4)]"
| "b64_rawurl (a # b # c # s) =
     b64_char (a div 4) # b64_char ((a mod 4) * 16 + b div 16) #
     b64_char ((b mod 16) * 4 + c div 64) # b64_char c # b64_rawurl s"

definition publicJWK :: "SigningKey \<Rightarrow> JWK result" where
  "publicJWK key =
     (let jwk = \<lparr>jwk_Kty = [], jwk_Use = ''sig'', jwk_Kid = sk_Kid key, jwk_Alg = sk_Alg key,
            jwk_N = [], jwk_E = [], jwk_Crv = [], jwk_X = [], jwk_Y = []\<rparr>
      in case Public (sk_Key key) of
           RSAPub n e \<Rightarrow> Inr (jwk\<lparr>jwk_Kty := ''RSA'', jwk_N := b64_rawurl (be_bytes n),
               jwk_E := b64_rawurl (be_bytes e)\<rparr>)
         | ECPub curve raw \<Rightarrow>
             (let byteLen = (256 + 7) div 8
              in if length raw \<noteq> 1 + 2 * byteLen \<or> byte (raw ! 0) \<noteq> 4
                 then Inl (ErrMsg ''unexpected EC point encoding'')
                 else Inr (jwk\<lparr>jwk_Kty := ''EC'', jwk_Crv := ''P-256'',
                   jwk_X := b64_rawurl (map byte (take byteLen (drop 1 raw))),
                   jwk_Y := b64_rawurl (map byte (drop (1 + byteLen) raw))\<rparr>))
         | OtherPub _ \<Rightarrow> Inl (ErrMsg ''unsupported public key type''))"

section \<open>The key directory\<close>

record manifestRetiring =
  mr_Kid :: string
  mr_NotAfter :: time

record manifest =
  mf_Active :: string
  mf_ActiveSince :: time
  mf_Retiring :: "manifestRetiring list"

datatype kfile = KeyFile string | ManifestFile | ManifestTmp | LegacyFile

datatype 'p content = PemFile 'p | ManifestJson manifest | Torn

type_synonym 'p dir = "kfile \<rightharpoonup> 'p content"

datatype fault = Works | Refused | TornWrite

record 'p keyenv =
  ke_files :: "'p dir"
  ke_faults :: "fault list"
  ke_entropy :: "string list"
  ke_trace :: "'p dir list"

definition fault_of :: "'p keyenv \<Rightarrow> fault" where
  "fault_of e = (case ke_faults e of [] \<Rightarrow> Works | f # _ \<Rightarrow> f)"

definition next_call :: "'p keyenv \<Rightarrow> 'p keyenv" where
  "next_call e = e\<lparr>ke_faults := tl (ke_faults e)\<rparr>"

text \<open>A change of the directory that a crash may reveal.\<close>

definition commit :: "'p dir \<Rightarrow> 'p keyenv \<Rightarrow> 'p keyenv" where
  "commit d e = e\<lparr>ke_files := d, ke_trace := ke_trace e @ [d]\<rparr>"

definition fs_read :: "kfile \<Rightarrow> ('p content, 'p keyenv) act" where
  "fs_read p e =
     ((if fault_of e \<noteq> Works then Inl ErrCommit
       else case ke_files e p of None \<Rightarrow> Inl ErrNotFound | Some c \<Rightarrow> Inr c), next_call e)"

text \<open>\<open>os.WriteFile\<close>: truncate, then write; a refused open changes nothing.\<close>

definition fs_write :: "kfile \<Rightarrow> 'p content \<Rightarrow> (unit, 'p keyenv) act" where
  "fs_write p c e =
     (let torn = (ke_files e)(p \<mapsto> Torn)
      in case fault_of e of
           Works \<Rightarrow> (Inr (), commit ((ke_files e)(p \<mapsto> c)) (commit torn (next_call e)))
         | Refused \<Rightarrow> (Inl ErrCommit, next_call e)
         | TornWrite \<Rightarrow> (Inl ErrCommit, commit torn (next_call e)))"

definition fs_remove :: "kfile \<Rightarrow> (unit, 'p keyenv) act" where
  "fs_remove p e =
     (if fault_of e \<noteq> Works then (Inl ErrCommit, next_call e)
      else if ke_files e p = None then (Inl ErrNotFound, next_call e)
      else (Inr (), commit ((ke_files e)(p := None)) (next_call e)))"

text \<open>The atomic rename.\<close>

definition fs_rename :: "kfile \<Rightarrow> kfile \<Rightarrow> (unit, 'p keyenv) act" where
  "fs_rename p q e =
     (if fault_of e \<noteq> Works \<or> ke_files e p = None then (Inl ErrCommit, next_call e)
      else (Inr (), commit ((ke_files e)(q := ke_files e p, p := None)) (next_call e)))"

definition fs_call :: "(unit, 'p keyenv) act" where
  "fs_call e = ((if fault_of e \<noteq> Works then Inl ErrCommit else Inr ()), next_call e)"

definition take_entropy :: "'p keyenv \<Rightarrow> string \<times> 'p keyenv" where
  "take_entropy e =
     (case ke_entropy e of [] \<Rightarrow> ([], e) | s # ss \<Rightarrow> (s, e\<lparr>ke_entropy := ss\<rparr>))"

definition SavePrivateKey :: "'p key_lib \<Rightarrow> kfile \<Rightarrow> privkey \<Rightarrow> (unit, 'p keyenv) act" where
  "SavePrivateKey L p key e =
     (case MarshalPrivateKeyPEM L key of
        Inl x \<Rightarrow> (Inl x, e)
      | Inr pem \<Rightarrow> fs_write p (PemFile pem) e)"

definition readManifest :: "(manifest, 'p keyenv) act" where
  "readManifest e =
     (case fs_read ManifestFile e of
        (Inl x, e') \<Rightarrow> (Inl x, e')
      | (Inr (ManifestJson mf), e') \<Rightarrow> (Inr mf, e')
      | (Inr _, e') \<Rightarrow> (Inl ErrDecode, e'))"

section \<open>The manager\<close>

record retiredKey =
  rk_Key :: SigningKey
  rk_NotAfter :: time

record Config =
  kc_Alg :: string
  kc_LegacyKeyPath :: bool   \<comment> \<open>\<open>LegacyKeyPath != ""\<close>; the file is \<open>LegacyFile\<close>\<close>
  kc_RotationInterval :: duration
  kc_RetireWindow :: duration

record Manager =
  m_cfg :: Config
  m_active :: SigningKey
  m_since :: time
  m_retiring :: "retiredKey list"
  m_static :: bool

definition manifest_of :: "Manager \<Rightarrow> manifest" where
  "manifest_of m =
     \<lparr>mf_Active = sk_Kid (m_active m), mf_ActiveSince = m_since m,
      mf_Retiring = map (\<lambda>r. \<lparr>mr_Kid = sk_Kid (rk_Key r), mr_NotAfter = rk_NotAfter r\<rparr>) (m_retiring m)\<rparr>"

text \<open>The failure paths of \<open>writeManifest\<close>: the temporary file goes, best effort.\<close>

definition abandon_tmp :: "'p keyenv \<Rightarrow> 'p keyenv" where
  "abandon_tmp e = snd (fs_remove ManifestTmp e)"

definition writeManifest :: "Manager \<Rightarrow> (unit, 'p keyenv) act" where
  "writeManifest m e =
     (if fault_of e \<noteq> Works then (Inl ErrCommit, next_call e)
      else
        (let e1 = commit ((ke_files e)(ManifestTmp \<mapsto> Torn)) (next_call e)
         in case fs_write ManifestTmp (ManifestJson (manifest_of m)) e1 of
              (Inl x, e2) \<Rightarrow> (Inl x, abandon_tmp e2)
            | (Inr _, e2) \<Rightarrow>
                (case fs_call e2 of
                   (Inl x, e3) \<Rightarrow> (Inl x, abandon_tmp e3)
                 | (Inr _, e3) \<Rightarrow>
                     (case fs_call e3 of
                        (Inl x, e4) \<Rightarrow> (Inl x, abandon_tmp e4)
                      | (Inr _, e4) \<Rightarrow>
                          (case fs_rename ManifestTmp ManifestFile e4 of
                             (Inl x, e5) \<Rightarrow> (Inl x, abandon_tmp e5)
                           | (Inr _, e5) \<Rightarrow> (Inr (), e5))))))"

definition loadKey :: "'p key_lib \<Rightarrow> string \<Rightarrow> (SigningKey, 'p keyenv) act" where
  "loadKey L kid e =
     (if kid = [] then (Inl (ErrMsg ''key manifest contains an empty kid''), e)
      else
        (case fs_read (KeyFile kid) e of
           (Inl x, e') \<Rightarrow> (Inl x, e')
         | (Inr c, e') \<Rightarrow>
             (res_bind (case c of PemFile pem \<Rightarrow> ParsePrivateKeyPEM L pem | _ \<Rightarrow> Inl ErrDecode) (\<lambda>key.
              res_bind (algForKey key) (\<lambda>alg.
              res_bind (KeyID L (Public key)) (\<lambda>fingerprint.
              if fingerprint \<noteq> kid then Inl (ErrMsg ''key file does not match its manifest kid'')
              else Inr \<lparr>sk_Kid = kid, sk_Alg = alg, sk_Key = key\<rparr>))), e')))"

fun load_retiring :: "'p key_lib \<Rightarrow> manifestRetiring list \<Rightarrow> (retiredKey list, 'p keyenv) act" where
  "load_retiring L [] e = (Inr [], e)"
| "load_retiring L (r # rs) e =
     (case loadKey L (mr_Kid r) e of
        (Inl x, e') \<Rightarrow> (Inl x, e')
      | (Inr key, e') \<Rightarrow>
          (case load_retiring L rs e' of
             (Inl x, e'') \<Rightarrow> (Inl x, e'')
           | (Inr ks, e'') \<Rightarrow> (Inr (\<lparr>rk_Key = key, rk_NotAfter = mr_NotAfter r\<rparr> # ks), e'')))"

definition load :: "'p key_lib \<Rightarrow> Config \<Rightarrow> time \<Rightarrow> (Manager, 'p keyenv) act" where
  "load L cfg now e =
     (case readManifest e of
        (Inl x, e1) \<Rightarrow> (Inl x, e1)
      | (Inr mf, e1) \<Rightarrow>
          (case loadKey L (mf_Active mf) e1 of
             (Inl x, e2) \<Rightarrow> (Inl x, e2)
           | (Inr active, e2) \<Rightarrow>
               (case load_retiring L (mf_Retiring mf) e2 of
                  (Inl x, e3) \<Rightarrow> (Inl x, e3)
                | (Inr retiring, e3) \<Rightarrow>
                    (Inr \<lparr>m_cfg = cfg, m_active = active,
                       m_since = (if time_is_zero (mf_ActiveSince mf) then now else mf_ActiveSince mf),
                       m_retiring = retiring, m_static = False\<rparr>, e3))))"

text \<open>Generate a key of the configured algorithm and save it under its kid.\<close>

definition new_key :: "'p key_lib \<Rightarrow> Config \<Rightarrow> (SigningKey, 'p keyenv) act" where
  "new_key L cfg e =
     (case take_entropy e of (entropy, e1) \<Rightarrow>
        (case GeneratePrivateKey L (kc_Alg cfg) entropy of
           Inl x \<Rightarrow> (Inl x, e1)
         | Inr key \<Rightarrow>
             (case KeyID L (Public key) of
                Inl x \<Rightarrow> (Inl x, e1)
              | Inr kid \<Rightarrow>
                  (case SavePrivateKey L (KeyFile kid) key e1 of
                     (Inl x, e2) \<Rightarrow> (Inl x, e2)
                   | (Inr _, e2) \<Rightarrow>
                       (Inr \<lparr>sk_Kid = kid, sk_Alg = kc_Alg cfg, sk_Key = key\<rparr>, e2)))))"

definition adoptLegacyKey :: "'p key_lib \<Rightarrow> Config \<Rightarrow> 'p content \<Rightarrow> time \<Rightarrow> (Manager, 'p keyenv) act" where
  "adoptLegacyKey L cfg legacy now e =
     (case res_bind (case legacy of PemFile pem \<Rightarrow> ParsePrivateKeyPEM L pem | _ \<Rightarrow> Inl ErrDecode) (\<lambda>key.
           res_bind (algForKey key) (\<lambda>alg.
           res_bind (KeyID L (Public key)) (\<lambda>kid.
             Inr \<lparr>sk_Kid = kid, sk_Alg = alg, sk_Key = key\<rparr>))) of
        Inl x \<Rightarrow> (Inl x, e)
      | Inr sk \<Rightarrow>
          (case fs_write (KeyFile (sk_Kid sk)) legacy e of
             (Inl x, e1) \<Rightarrow> (Inl x, e1)
           | (Inr _, e1) \<Rightarrow>
               (let m = \<lparr>m_cfg = cfg, m_active = sk, m_since = now, m_retiring = [], m_static = False\<rparr>
                in case writeManifest m e1 of
                     (Inl x, e2) \<Rightarrow> (Inl x, e2)
                   | (Inr _, e2) \<Rightarrow> (Inr m, e2))))"

definition initialize_fresh :: "'p key_lib \<Rightarrow> Config \<Rightarrow> time \<Rightarrow> (Manager, 'p keyenv) act" where
  "initialize_fresh L cfg now e =
     (case new_key L cfg e of
        (Inl x, e1) \<Rightarrow> (Inl x, e1)
      | (Inr sk, e1) \<Rightarrow>
          (let m = \<lparr>m_cfg = cfg, m_active = sk, m_since = now, m_retiring = [], m_static = False\<rparr>
           in case writeManifest m e1 of
                (Inl x, e2) \<Rightarrow> (Inl x, e2)
              | (Inr _, e2) \<Rightarrow> (Inr m, e2)))"

definition initialize :: "'p key_lib \<Rightarrow> Config \<Rightarrow> time \<Rightarrow> (Manager, 'p keyenv) act" where
  "initialize L cfg now e =
     (if kc_LegacyKeyPath cfg then
        (case fs_read LegacyFile e of
           (Inr legacy, e1) \<Rightarrow> adoptLegacyKey L cfg legacy now e1
         | (Inl ErrNotFound, e1) \<Rightarrow> initialize_fresh L cfg now e1
         | (Inl x, e1) \<Rightarrow> (Inl x, e1))
      else initialize_fresh L cfg now e)"

section \<open>Rotation and sweeping\<close>

definition rotateLocked :: "'p key_lib \<Rightarrow> time \<Rightarrow> Manager \<Rightarrow> 'p keyenv \<Rightarrow> unit result \<times> Manager \<times> 'p keyenv" where
  "rotateLocked L now m e =
     (if m_static m then (Inl (ErrMsg ''key rotation is not available''), m, e)
      else
        (case new_key L (m_cfg m) e of
           (Inl x, e1) \<Rightarrow> (Inl x, m, e1)
         | (Inr sk, e1) \<Rightarrow>
             (let m' = m\<lparr>m_active := sk, m_since := now,
                     m_retiring := m_retiring m @
                       [\<lparr>rk_Key = m_active m, rk_NotAfter = now + kc_RetireWindow (m_cfg m)\<rparr>]\<rparr>
              in case writeManifest m' e1 of
                   (Inl x, e2) \<Rightarrow> (Inl x, m, e2)
                 | (Inr _, e2) \<Rightarrow> (Inr (), m', e2))))"

fun remove_keys :: "retiredKey list \<Rightarrow> 'p keyenv \<Rightarrow> 'p keyenv" where
  "remove_keys [] e = e"
| "remove_keys (r # rs) e = remove_keys rs (snd (fs_remove (KeyFile (sk_Kid (rk_Key r))) e))"

definition sweepLocked :: "time \<Rightarrow> Manager \<Rightarrow> 'p keyenv \<Rightarrow> unit result \<times> Manager \<times> 'p keyenv" where
  "sweepLocked now m e =
     (let kept = filter (\<lambda>r. now < rk_NotAfter r) (m_retiring m);
          expired = filter (\<lambda>r. \<not> now < rk_NotAfter r) (m_retiring m)
      in if expired = [] then (Inr (), m, e)
         else
           (let m' = m\<lparr>m_retiring := kept\<rparr>
            in case writeManifest m' e of
                 (Inl x, e1) \<Rightarrow> (Inl x, m, e1)
               | (Inr _, e1) \<Rightarrow> (Inr (), m', remove_keys expired e1)))"

definition Maintain :: "'p key_lib \<Rightarrow> time \<Rightarrow> Manager \<Rightarrow> 'p keyenv \<Rightarrow> unit result \<times> Manager \<times> 'p keyenv" where
  "Maintain L now m e =
     (if m_static m then (Inr (), m, e)
      else
        (let rotationDue = (kc_RotationInterval (m_cfg m) > 0 \<and>
               \<not> now < m_since m + kc_RotationInterval (m_cfg m));
             algSwitched = (sk_Alg (m_active m) \<noteq> kc_Alg (m_cfg m))
         in if rotationDue \<or> algSwitched then
              (case rotateLocked L now m e of
                 (Inl x, m1, e1) \<Rightarrow> (Inl x, m1, e1)
               | (Inr _, m1, e1) \<Rightarrow> sweepLocked now m1 e1)
            else sweepLocked now m e))"

definition Rotate :: "'p key_lib \<Rightarrow> time \<Rightarrow> Manager \<Rightarrow> 'p keyenv \<Rightarrow> unit result \<times> Manager \<times> 'p keyenv" where
  "Rotate L now m e = rotateLocked L now m e"

definition NewManager :: "'p key_lib \<Rightarrow> Config \<Rightarrow> time \<Rightarrow> (Manager, 'p keyenv) act" where
  "NewManager L cfg now e =
     (case ParseAlg (kc_Alg cfg) of
        Inl x \<Rightarrow> (Inl x, e)
      | Inr _ \<Rightarrow>
          (case fs_call e of
             (Inl x, e0) \<Rightarrow> (Inl x, e0)
           | (Inr _, e0) \<Rightarrow>
               (case (case fs_read ManifestFile e0 of
                        (Inr _, e1) \<Rightarrow> load L cfg now e1
                      | (Inl ErrNotFound, e1) \<Rightarrow> initialize L cfg now e1
                      | (Inl x, e1) \<Rightarrow> (Inl x, e1)) of
                  (Inl x, e2) \<Rightarrow> (Inl x, e2)
                | (Inr m, e2) \<Rightarrow>
                    (case Maintain L now m e2 of
                       (Inl x, _, e3) \<Rightarrow> (Inl x, e3)
                     | (Inr _, m', e3) \<Rightarrow> (Inr m', e3)))))"

definition NewStaticManager :: "'p key_lib \<Rightarrow> privkey \<Rightarrow> string \<Rightarrow> time \<Rightarrow> Manager result" where
  "NewStaticManager L key alg now =
     res_bind (algForKey key) (\<lambda>keyAlg.
     if keyAlg \<noteq> alg then Inl (ErrMsg ''KEY_ALG does not match the provided private key'')
     else res_bind (KeyID L (Public key)) (\<lambda>kid.
       Inr \<lparr>m_cfg = \<lparr>kc_Alg = alg, kc_LegacyKeyPath = False, kc_RotationInterval = 0, kc_RetireWindow = 0\<rparr>,
            m_active = \<lparr>sk_Kid = kid, sk_Alg = alg, sk_Key = key\<rparr>, m_since = now,
            m_retiring = [], m_static = True\<rparr>))"

section \<open>Verification keys\<close>

definition VerificationKey :: "Manager \<Rightarrow> string \<Rightarrow> (pubkey \<times> string) option" where
  "VerificationKey m kid =
     (if kid = [] then None
      else if kid = sk_Kid (m_active m) then Some (Public (sk_Key (m_active m)), sk_Alg (m_active m))
      else
        (case filter (\<lambda>r. kid = sk_Kid (rk_Key r)) (m_retiring m) of
           [] \<Rightarrow> None
         | r # _ \<Rightarrow> Some (Public (sk_Key (rk_Key r)), sk_Alg (rk_Key r))))"

fun jwk_list :: "SigningKey list \<Rightarrow> JWK list result" where
  "jwk_list [] = Inr []"
| "jwk_list (k # ks) =
     res_bind (publicJWK k) (\<lambda>j. res_bind (jwk_list ks) (\<lambda>js. Inr (j # js)))"

definition PublicJWKs :: "Manager \<Rightarrow> JWK list result" where
  "PublicJWKs m = jwk_list (m_active m # map rk_Key (m_retiring m))"

text \<open>A parsed but unverified token: its method and \<open>kid\<close> header, and the segments.\<close>

record jwt_token =
  jt_Method :: string
  jt_Kid :: "string option"
  jt_Raw :: string

definition decode_key :: "Manager \<Rightarrow> jwt_token \<Rightarrow> pubkey result" where
  "decode_key m t =
     (let kid = (case jt_Kid t of None \<Rightarrow> [] | Some k \<Rightarrow> k)
      in case VerificationKey m kid of
           None \<Rightarrow> Inl (ErrMsg ''token references an unknown signing key'')
         | Some (pub, alg) \<Rightarrow>
             if jt_Method t \<noteq> alg then Inl (ErrMsg ''token algorithm does not match the signing key'')
             else Inr pub)"

definition GetSignature :: "string \<Rightarrow> string result" where
  "GetSignature token =
     (let parts = split_char token (CHR ''.'')
      in if length parts \<noteq> 3 then Inl (ErrMsg ''header, body and signature must all be set'')
         else Inr (parts ! 2))"

text \<open>\<open>parse\<close> is \<open>jwt.ParseWithClaims\<close> of fosite: it reads the token, asks for the key and checks
  the signature.\<close>

definition Decode :: "Manager \<Rightarrow> (string \<Rightarrow> (jwt_token \<Rightarrow> pubkey result) \<Rightarrow> 'c result) \<Rightarrow> string \<Rightarrow> 'c result" where
  "Decode m parse token = parse token (decode_key m)"

definition Validate :: "Manager \<Rightarrow> (string \<Rightarrow> (jwt_token \<Rightarrow> pubkey result) \<Rightarrow> 'c result) \<Rightarrow> string \<Rightarrow> string result" where
  "Validate m parse token = res_bind (Decode m parse token) (\<lambda>_. GetSignature token)"

end
