(* ===== verification/Pages.thy ===== *)
theory Pages
  imports World Query Inventory Keys
begin

text \<open>
  What the handlers of \<^verbatim>\<open>pkg/auth\<close> and \<^verbatim>\<open>pkg/idp\<close> receive and answer: the HTTP request, the
  data of every page template and JSON document, and the decoding of UTF-8 text.  HTML
  templates are not modelled beyond the data they are given.
\<close>

section \<open>Requests\<close>

record HttpRequest =
  in_Method :: string
  in_URL :: string
  in_Path :: string
  in_Query :: url_values
  in_PostForm :: url_values
  in_FormError :: bool
  in_Header :: "(string \<times> string list) list"
  in_ClientIP :: string
  in_Body :: string

text \<open>\<open>c.GetHeader\<close> (on a canonical name), \<open>c.Query\<close>, \<open>c.PostForm\<close>.\<close>

definition GetHeader :: "HttpRequest \<Rightarrow> string \<Rightarrow> string" where
  "GetHeader req k = values_Get (in_Header req) k"

definition c_Query :: "HttpRequest \<Rightarrow> string \<Rightarrow> string" where
  "c_Query req k = values_Get (in_Query req) k"

definition PostForm :: "HttpRequest \<Rightarrow> string \<Rightarrow> string" where
  "PostForm req k = values_Get (in_PostForm req) k"

section \<open>Text\<close>

text \<open>The runes of a byte string as \<open>range\<close> reads them: an invalid byte yields U+FFFD.\<close>

definition cont :: "nat \<Rightarrow> bool" where "cont b \<longleftrightarrow> 128 \<le> b \<and> b < 192"

fun decode_rune :: "nat list \<Rightarrow> nat \<times> nat" where
  "decode_rune [] = (0, 0)"
| "decode_rune (a # s) =
     (if a < 128 then (a, 1)
      else if 194 \<le> a \<and> a < 224 then
        (case s of b # _ \<Rightarrow> if cont b then ((a - 192) * 64 + (b - 128), 2) else (65533, 1)
         | _ \<Rightarrow> (65533, 1))
      else if 224 \<le> a \<and> a < 240 then
        (case s of b # c # _ \<Rightarrow>
             if cont b \<and> cont c \<and> (a = 224 \<longrightarrow> 160 \<le> b) \<and> (a = 237 \<longrightarrow> b < 160)
             then ((a - 224) * 4096 + (b - 128) * 64 + (c - 128), 3) else (65533, 1)
         | _ \<Rightarrow> (65533, 1))
      else if 240 \<le> a \<and> a < 245 then
        (case s of b # c # d # _ \<Rightarrow>
             if cont b \<and> cont c \<and> cont d \<and> (a = 240 \<longrightarrow> 144 \<le> b) \<and> (a = 244 \<longrightarrow> b < 144)
             then ((a - 240) * 262144 + (b - 128) * 4096 + (c - 128) * 64 + (d - 128), 4)
             else (65533, 1)
         | _ \<Rightarrow> (65533, 1))
      else (65533, 1))"

lemma decode_rune_step: "0 < snd (decode_rune (a # s))"
  by (auto split: list.splits)

function decode_runes :: "nat list \<Rightarrow> runes" where
  "decode_runes bs =
     (if bs = [] then [] else fst (decode_rune bs) # decode_runes (drop (snd (decode_rune bs)) bs))"
  by pat_completeness auto
termination
proof (relation "measure length")
  fix bs :: "nat list" assume "bs \<noteq> []"
  then show "(drop (snd (decode_rune bs)) bs, bs) \<in> measure length"
    using decode_rune_step by (cases bs) (simp_all del: decode_rune.simps)
qed simp

declare decode_runes.simps [simp del]

definition utf8_runes :: "string \<Rightarrow> runes" where
  "utf8_runes s = decode_runes (map byte s)"

lemma utf8_runes_Nil [simp]: "utf8_runes [] = []"
  by (simp add: utf8_runes_def decode_runes.simps)

lemma utf8_runes_ascii: "list_all (\<lambda>c. byte c < 128) s \<Longrightarrow> utf8_runes s = map byte s"
proof (induction s)
  case (Cons c s)
  then show ?case by (simp add: utf8_runes_def decode_runes.simps [of "byte c # _"])
qed simp

section \<open>The data of the pages\<close>

record grantView =
  gv_RequestID :: string
  gv_Label :: runes
  gv_RequestedAt :: time
  gv_LastActivity :: time
  gv_Scopes :: "string list"
  gv_AccessTokens :: int
  gv_RefreshTokens :: int

record clientView =
  cv_ClientID :: string
  cv_Label :: runes
  cv_IsCIMD :: bool
  cv_Registered :: bool
  cv_ExpiresAt :: time
  cv_RedirectHosts :: "string list"
  cv_Scopes :: "string list"
  cv_Grants :: "grantView list"
  cv_AccessTokens :: int
  cv_RefreshTokens :: int
  cv_FirstActivity :: time
  cv_LastActivity :: time

record credentialView =
  crv_ID :: string
  crv_Name :: string
  crv_CreatedAt :: time
  crv_LastUsedAt :: time

record loginTemplateData =
  lt_Providers :: "(string \<times> string) list" \<comment> \<open>name and start URL\<close>
  lt_HasPassword :: bool
  lt_PasswordError :: string
  lt_PasskeyAvailable :: bool
  lt_CSRFToken :: string

record settingsTemplateData =
  st_Username :: string
  st_Credentials :: "credentialView list"
  st_HasPassword :: bool
  st_PasswordLoginDisabled :: bool
  st_PasswordLoginActive :: bool
  st_Message :: string
  st_CSRFToken :: string
  st_Clients :: "clientView list"
  st_ConfirmRevokeAll :: bool
  st_Version :: string

record consentTemplateData =
  ct_ClientID :: string
  ct_RedirectURI :: string
  ct_Scopes :: "string list"
  ct_CSRFToken :: string
  ct_ConnectionName :: runes
  ct_LoopbackOnly :: bool

record registrationResponse =
  rr_ClientID :: string
  rr_ClientSecret :: string
  rr_RedirectURIs :: "string list"
  rr_ClientName :: runes
  rr_GrantTypes :: "string list"
  rr_ResponseTypes :: "string list"
  rr_TokenEndpointAuthMethod :: string
  rr_RegistrationClientURI :: string
  rr_ClientIDIssuedAt :: int
  rr_ClientSecretExpiresAt :: int

record authorizationServerResponse =
  as_Issuer :: string
  as_AuthorizationEndpoint :: string
  as_TokenEndpoint :: string
  as_RegistrationEndpoint :: string
  as_JWKSURI :: string
  as_IntrospectionEndpoint :: string
  as_RevocationEndpoint :: string
  as_ScopesSupported :: "string list"
  as_ResponseTypesSupported :: "string list"
  as_ResponseModesSupported :: "string list"
  as_GrantTypesSupported :: "string list"
  as_TokenEndpointAuthMethodsSupported :: "string list"
  as_CodeChallengeMethodsSupported :: "string list"
  as_IssParameterSupported :: bool
  as_ClientIDMetadataDocumentSupported :: bool

datatype page =
    LoginPage loginTemplateData
  | UnauthorizedPage string string
  | ErrorPage string
  | SettingsPage settingsTemplateData
  | ConsentPage consentTemplateData
  | RegisteredDoc registrationResponse
  | MetadataDoc authorizationServerResponse
  | JWKSDoc "JWK list"
  | CeremonyOptions string \<comment> \<open>the options document of a WebAuthn library call\<close>
  | LibraryBody string \<comment> \<open>a body written by fosite\<close>
  | EmptyBody

type_synonym reply = "page response"

text \<open>Unix seconds of an instant (1970 is 62135596800 s after Go's zero time).\<close>

definition Unix :: "time \<Rightarrow> int" where
  "Unix t = t div second - 62135596800"

end
