(* ===== verification/Csrf.thy ===== *)
theory Csrf
  imports Pages
begin

text \<open>
  The guards every state-changing route stands behind: \<^verbatim>\<open>pkg/auth/csrf.go\<close>, \<open>RequireAuth\<close> of
  \<^verbatim>\<open>login.go\<close> and \<open>renderError\<close> of \<^verbatim>\<open>render.go\<close>.  \<open>subtle.ConstantTimeCompare\<close> is equality.
  A type assertion that panics is answered by the recovery middleware with 500 and an empty
  body (\<open>panic_reply\<close>).
\<close>

definition SessionKeyAuthorized :: string where "SessionKeyAuthorized = ''authorized''"
definition SessionKeyRedirectURL :: string where "SessionKeyRedirectURL = ''redirect_url''"
definition SessionKeyOAuthState :: string where "SessionKeyOAuthState = ''oauth_state''"
definition SessionKeyUserID :: string where "SessionKeyUserID = ''user_id''"
definition SessionKeyUserInfo :: string where "SessionKeyUserInfo = ''user_info''"
definition SessionKeyCSRF :: string where "SessionKeyCSRF = ''csrf_token''"
definition sessionKeyWebAuthnLogin :: string where "sessionKeyWebAuthnLogin = ''webauthn_login''"
definition sessionKeyWebAuthnRegistration :: string where
  "sessionKeyWebAuthnRegistration = ''webauthn_registration''"
definition sessionKeyAuthorizeRequestIDs :: string where
  "sessionKeyAuthorizeRequestIDs = ''idp_authorize_request_ids''"

lemmas session_key_defs = SessionKeyAuthorized_def SessionKeyRedirectURL_def SessionKeyOAuthState_def
  SessionKeyUserID_def SessionKeyUserInfo_def SessionKeyCSRF_def sessionKeyWebAuthnLogin_def
  sessionKeyWebAuthnRegistration_def sessionKeyAuthorizeRequestIDs_def

lemma session_keys_distinct [simp]:
  "distinct [SessionKeyAuthorized, SessionKeyRedirectURL, SessionKeyOAuthState, SessionKeyUserID,
     SessionKeyUserInfo, SessionKeyCSRF, sessionKeyWebAuthnLogin, sessionKeyWebAuthnRegistration,
     sessionKeyAuthorizeRequestIDs]"
  by (simp add: session_key_defs)

definition LoginEndpoint :: string where "LoginEndpoint = ''/.auth/login''"

definition CSRFFieldName :: string where "CSRFFieldName = ''csrf_token''"
definition CSRFHeaderName :: string where "CSRFHeaderName = ''X-Csrf-Token''" \<comment> \<open>canonical form\<close>

definition renderError :: "err \<Rightarrow> reply" where
  "renderError e = Body 500 (ErrorPage ''An unexpected error occurred. Please try again.'')"

definition panic_reply :: reply where "panic_reply = Body 500 EmptyBody"

definition EnsureCSRFToken :: "rand_source \<Rightarrow> 's world \<Rightarrow> string result \<times> 's world" where
  "EnsureCSRFToken src w =
     (case sess_string w SessionKeyCSRF of
        Some token \<Rightarrow> if token \<noteq> [] then (Inr token, w)
          else (case GenerateCSRFToken src w of
                  (Inl e, w') \<Rightarrow> (Inl e, w')
                | (Inr t, w') \<Rightarrow> (Inr t, sess_set SessionKeyCSRF (SStr t) w'))
      | None \<Rightarrow> (case GenerateCSRFToken src w of
                  (Inl e, w') \<Rightarrow> (Inl e, w')
                | (Inr t, w') \<Rightarrow> (Inr t, sess_set SessionKeyCSRF (SStr t) w')))"

definition validCSRF :: "'a web_scheme \<Rightarrow> string \<Rightarrow> bool" where
  "validCSRF w submitted =
     (case sess_string w SessionKeyCSRF of
        None \<Rightarrow> False
      | Some stored \<Rightarrow> if stored = [] then False else stored = submitted)"

definition RequireCSRF :: "HttpRequest \<Rightarrow> 's world \<Rightarrow> reply option \<times> 's world" where
  "RequireCSRF req w =
     (let submitted = GetHeader req CSRFHeaderName;
          submitted = (if submitted = [] then PostForm req CSRFFieldName else submitted)
      in if \<not> validCSRF w submitted then (Some (Json 403 [(''error'', ''invalid CSRF token'')]), w)
         else (None, w))"

definition RequireAuth :: "HttpRequest \<Rightarrow> 's world \<Rightarrow> reply option \<times> 's world" where
  "RequireAuth req w =
     (case sess_get w SessionKeyAuthorized of
        None \<Rightarrow>
          (let w1 = sess_set SessionKeyRedirectURL (SStr (in_URL req)) w
           in (case sess_save w1 of
                 (False, w2) \<Rightarrow> (Some (renderError ErrCommit), w2)
               | (True, w2) \<Rightarrow> (Some (Redirect 302 LoginEndpoint), w2)))
      | Some (SBool b) \<Rightarrow>
          if \<not> b then (Some (Json 401 [(''error'', ''Unauthorized'')]), w) else (None, w)
      | Some (SStr _) \<Rightarrow> (Some panic_reply, w))"

section \<open>Handlers and routes\<close>

type_synonym 's handler = "HttpRequest \<Rightarrow> 's world \<Rightarrow> reply option \<times> 's world"

text \<open>A route: method, pattern, and for the value of its parameter the chain of handlers.\<close>

type_synonym 's route = "string \<times> string \<times> (string \<Rightarrow> 's handler list)"

definition withRateLimit :: "'s handler option \<Rightarrow> 's handler list \<Rightarrow> 's handler list" where
  "withRateLimit lim handlers = (case lim of None \<Rightarrow> handlers | Some h \<Rightarrow> h # handlers)"

definition endpoint :: "(HttpRequest \<Rightarrow> 's world \<Rightarrow> reply \<times> 's world) \<Rightarrow> 's handler" where
  "endpoint h req = final_handler (h req)"

text \<open>Serving a request on a route: the chain runs with the value of the route parameter.\<close>

definition serve :: "(string \<Rightarrow> 's handler list) \<Rightarrow> string \<Rightarrow> HttpRequest \<Rightarrow> 's world \<Rightarrow> reply option \<times> 's world" where
  "serve chain param req w = run_chain (map (\<lambda>h. h req) (chain param)) w"

section \<open>Facts\<close>

definition authorized :: "'a web_scheme \<Rightarrow> bool" where
  "authorized w \<longleftrightarrow> sess w SessionKeyAuthorized = Some (SBool True)"

definition submitted_token :: "HttpRequest \<Rightarrow> string" where
  "submitted_token req =
     (if GetHeader req CSRFHeaderName = [] then PostForm req CSRFFieldName
      else GetHeader req CSRFHeaderName)"

lemma RequireAuth_pass: "RequireAuth req w = (None, w') \<Longrightarrow> authorized w \<and> w' = w"
  by (auto simp: RequireAuth_def authorized_def sess_get_def Let_def
      split: option.splits sval.splits if_splits prod.splits bool.splits)

lemma RequireAuth_authorized: "authorized w \<Longrightarrow> RequireAuth req w = (None, w)"
  by (simp add: RequireAuth_def authorized_def sess_get_def)

lemma RequireCSRF_pass:
  "RequireCSRF req w = (None, w') \<Longrightarrow>
     w' = w \<and> submitted_token req \<noteq> [] \<and> sess w SessionKeyCSRF = Some (SStr (submitted_token req))"
  by (auto simp: RequireCSRF_def validCSRF_def submitted_token_def sess_string_def Let_def
      split: option.splits if_splits sval.splits)

lemma RequireCSRF_ok:
  "sess w SessionKeyCSRF = Some (SStr (submitted_token req)) \<Longrightarrow> submitted_token req \<noteq> [] \<Longrightarrow>
     RequireCSRF req w = (None, w)"
  by (auto simp: RequireCSRF_def validCSRF_def submitted_token_def sess_string_def Let_def)

lemma RequireCSRF_stop: "RequireCSRF req w = (Some r, w') \<Longrightarrow> w' = w \<and> r = Json 403 [(''error'', ''invalid CSRF token'')]"
  by (auto simp: RequireCSRF_def Let_def split: if_splits)

text \<open>A request that the session guard stops changes only the session.\<close>

lemma RequireAuth_stop: "RequireAuth req w = (Some r, w') \<Longrightarrow> \<not> authorized w \<and> repo w' = repo w"
  by (auto simp: RequireAuth_def authorized_def sess_get_def sess_set_def Let_def sess_save_def
      split: option.splits sval.splits if_splits prod.splits bool.splits list.splits)

lemma EnsureCSRFToken_ok:
  assumes "EnsureCSRFToken src w = (Inr t, w')"
  shows "sess w' SessionKeyCSRF = Some (SStr t)" and "repo w' = repo w" and "cookie w' = cookie w"
    and "\<And>k. k \<noteq> SessionKeyCSRF \<Longrightarrow> sess w' k = sess w k"
  using assms
  by (auto simp: EnsureCSRFToken_def GenerateCSRFToken_def rand_hex_def sess_set_def sess_string_def
      split: option.splits if_splits sval.splits)

lemma EnsureCSRFToken_repo: "repo (snd (EnsureCSRFToken src w)) = repo w"
  by (auto simp: EnsureCSRFToken_def GenerateCSRFToken_def rand_hex_def sess_set_def split: option.splits)

text \<open>What a served form carries passes the guard on the next request of the same browser.\<close>

lemma csrf_form_accepted:
  assumes "EnsureCSRFToken src w = (Inr t, w1)" and "sess_save w1 = (True, w2)" and "t \<noteq> []"
    and "sess w3 = cookie w2" and "submitted_token req = t"
  shows "RequireCSRF req w3 = (None, w3)"
  using EnsureCSRFToken_ok(1) [OF assms(1)] sess_save_ok [OF assms(2)] assms(3-5)
  by (intro RequireCSRF_ok) simp_all

lemma guarded_chain:
  assumes "run_chain [RequireAuth req, RequireCSRF req, endpoint h req] w = (r, w')"
  obtains "\<not> (authorized w \<and> submitted_token req \<noteq> [] \<and> sess w SessionKeyCSRF = Some (SStr (submitted_token req)))"
      and "repo w' = repo w"
  | x where "authorized w" and "submitted_token req \<noteq> []"
      and "sess w SessionKeyCSRF = Some (SStr (submitted_token req))" and "h req w = (x, w')" and "r = Some x"
proof (cases "RequireAuth req w")
  case (Pair ra w1)
  show thesis
  proof (cases ra)
    case (Some x)
    then show thesis
      using assms Pair RequireAuth_stop [of req w x w1] that(1) by auto
  next
    case None
    then have a: "authorized w" "w1 = w" using RequireAuth_pass Pair by blast+
    obtain rc w2 where c: "RequireCSRF req w = (rc, w2)" by fastforce
    show thesis
    proof (cases rc)
      case (Some x)
      then have "w2 = w" "\<not> (submitted_token req \<noteq> [] \<and> sess w SessionKeyCSRF = Some (SStr (submitted_token req)))"
        using RequireCSRF_stop RequireCSRF_ok c by (blast, fastforce)
      then show thesis
        using assms Pair None a c Some that(1) by auto
    next
      case None2: None
      then show thesis
        using RequireCSRF_pass [of req w w2] assms Pair None a c that(2)
        by (auto simp: endpoint_def final_handler_def split: prod.splits)
    qed
  qed
qed

end
