(* ===== verification/Loopback.thy ===== *)
theory Loopback
  imports Pages
begin

text \<open>
  \<^verbatim>\<open>pkg/idp/loopback.go\<close> and \<^verbatim>\<open>pkg/idp/client_source.go\<close>: the redirect URIs a client may use.
  \<open>P\<close> is \<open>url.Parse\<close>, \<open>parse_ip\<close> is \<open>net.ParseIP\<close>.
\<close>

section \<open>Loopback redirects\<close>

definition loopbackHost :: string where "loopbackHost = ''localhost''"

definition matchesLoopbackHostPort :: "url_parser \<Rightarrow> string \<Rightarrow> string \<Rightarrow> bool" where
  "matchesLoopbackHostPort P registered requested =
     (case P registered of
        None \<Rightarrow> False
      | Some reg \<Rightarrow>
          (case P requested of
             None \<Rightarrow> False
           | Some req \<Rightarrow>
               if u_Scheme reg \<noteq> ''http'' \<or> u_Scheme req \<noteq> ''http'' then False
               else if \<not> equal_fold_ascii (Hostname reg) loopbackHost \<or>
                       \<not> equal_fold_ascii (Hostname req) loopbackHost then False
               else u_Path reg = u_Path req \<and> u_RawQuery reg = u_RawQuery req))"

definition expandLoopbackRedirects :: "url_parser \<Rightarrow> string list \<Rightarrow> string \<Rightarrow> string list" where
  "expandLoopbackRedirects P registered requested =
     (if requested = [] then registered
      else if list_ex (\<lambda>candidate. candidate = requested) registered then registered
      else if list_ex (\<lambda>candidate. matchesLoopbackHostPort P candidate requested) registered
        then registered @ [requested]
      else registered)"

text \<open>\<open>net.IP.IsLoopback\<close> on a 4- or 16-byte address.\<close>

definition To4 :: "nat list \<Rightarrow> nat list option" where
  "To4 ip =
     (if length ip = 4 then Some ip
      else if length ip = 16 \<and> take 12 ip = replicate 10 0 @ [255, 255] then Some (drop 12 ip)
      else None)"

definition ip_IsLoopback :: "nat list \<Rightarrow> bool" where
  "ip_IsLoopback ip =
     (case To4 ip of Some ip4 \<Rightarrow> hd ip4 = 127 | None \<Rightarrow> ip = replicate 15 0 @ [1])"

definition isLoopbackRedirect :: "url_parser \<Rightarrow> (string \<Rightarrow> nat list option) \<Rightarrow> string \<Rightarrow> bool" where
  "isLoopbackRedirect P parse_ip raw =
     (case P raw of
        None \<Rightarrow> False
      | Some u \<Rightarrow>
          if u_Scheme u \<noteq> ''http'' then False
          else
            (let host = Hostname u
             in if equal_fold_ascii host loopbackHost then True
                else (case parse_ip host of None \<Rightarrow> False | Some ip \<Rightarrow> ip_IsLoopback ip)))"

definition allRedirectsLoopback :: "url_parser \<Rightarrow> (string \<Rightarrow> nat list option) \<Rightarrow> string list \<Rightarrow> bool" where
  "allRedirectsLoopback P parse_ip uris =
     (if uris = [] then False else list_all (isLoopbackRedirect P parse_ip) uris)"

section \<open>The client source\<close>

text \<open>
  \<open>hasResolver\<close> is \<open>s.resolver \<noteq> nil\<close>.  \<open>requested\<close> is the redirect URI stashed in the context,
  empty outside the authorize path.  \<open>clock\<close> is \<open>now\<close> for the repository and the three clock
  readings of the resolver.
\<close>

record 's clientSource =
  cs_clients :: "'s DynamicClientStorage"
  cs_hasResolver :: bool
  cs_net :: net_env
  cs_order :: "(string \<times> cacheEntry) list \<Rightarrow> (string \<times> cacheEntry) list"
  cs_externalURL :: string

definition cimd_Resolve ::
  "'s clientSource \<Rightarrow> time \<Rightarrow> string \<Rightarrow> 's world \<Rightarrow> CimdClient result \<times> 's world" where
  "cimd_Resolve s now cid w =
     (case Resolve (cs_net s) (cs_order s) (now, now, now) cid (cimd w) of
        ((res, dialed), r) \<Rightarrow> (res, w\<lparr>cimd := r\<rparr>))"

definition client_of_document :: "string \<Rightarrow> CimdClient \<Rightarrow> FClient" where
  "client_of_document externalURL doc =
     \<lparr>fc_ID = cc_ClientID doc, fc_Secret = [], fc_RotatedSecrets = [],
      fc_RedirectURIs = cc_RedirectURIs doc, fc_GrantTypes = cc_GrantTypes doc,
      fc_ResponseTypes = cc_ResponseTypes doc, fc_Scopes = fields_of (cc_Scope doc),
      fc_Audience = [externalURL], fc_Public = True\<rparr>"

definition lookupClient ::
  "'s clientSource \<Rightarrow> time \<Rightarrow> string \<Rightarrow> 's world \<Rightarrow> FClient result \<times> 's world" where
  "lookupClient s now cid w =
     (if \<not> cs_hasResolver s \<or> \<not> has_prefix cid ''https://'' then
        (ask_repo (ds_GetClient (cs_clients s) cid now) w, w)
      else
        (case cimd_Resolve s now cid w of
           (Inl _, w') \<Rightarrow> (Inl ErrNotFound, w')
         | (Inr doc, w') \<Rightarrow> (Inr (client_of_document (cs_externalURL s) doc), w')))"

definition source_GetClient ::
  "'s clientSource \<Rightarrow> string \<Rightarrow> time \<Rightarrow> string \<Rightarrow> 's world \<Rightarrow> FClient result \<times> 's world" where
  "source_GetClient s requested now cid w =
     (case lookupClient s now cid w of
        (Inl e, w') \<Rightarrow> (Inl e, w')
      | (Inr client, w') \<Rightarrow>
          if requested = [] then (Inr client, w')
          else
            (let expanded = expandLoopbackRedirects (ne_url (cs_net s)) (fc_RedirectURIs client) requested
             in if length expanded = length (fc_RedirectURIs client) then (Inr client, w')
                else (Inr (client\<lparr>fc_RedirectURIs := expanded\<rparr>), w')))"

section \<open>Facts\<close>

lemma expand_disj:
  "expandLoopbackRedirects P uris raw = uris \<or>
   expandLoopbackRedirects P uris raw = uris @ [raw] \<and> raw \<noteq> [] \<and> raw \<notin> set uris \<and>
     (\<exists>c \<in> set uris. matchesLoopbackHostPort P c raw)"
  by (auto simp: expandLoopbackRedirects_def list_ex_iff)

lemma fold_loopbackHost: "fold_ascii loopbackHost = loopbackHost"
  by (simp add: loopbackHost_def lower_byte_def)

lemma matchesLoopback_props:
  "matchesLoopbackHostPort P reg req \<longleftrightarrow>
     (\<exists>u v. P reg = Some u \<and> P req = Some v \<and> u_Scheme u = ''http'' \<and> u_Scheme v = ''http'' \<and>
        fold_ascii (Hostname u) = loopbackHost \<and> fold_ascii (Hostname v) = loopbackHost \<and>
        u_Path u = u_Path v \<and> u_RawQuery u = u_RawQuery v)"
  unfolding matchesLoopbackHostPort_def equal_fold_ascii_def fold_loopbackHost
  by (cases "P reg"; cases "P req") (simp_all, argo)

text \<open>A redirect URI that was admitted only by the expansion is a port variant of a registered one.\<close>

definition port_variant :: "url_parser \<Rightarrow> string \<Rightarrow> string \<Rightarrow> bool" where
  "port_variant P reg req \<longleftrightarrow>
     (\<exists>u v. P reg = Some u \<and> P req = Some v \<and> u_Scheme u = ''http'' \<and> u_Scheme v = ''http'' \<and>
        fold_ascii (Hostname u) = ''localhost'' \<and> fold_ascii (Hostname v) = ''localhost'' \<and>
        u_Path u = u_Path v \<and> u_RawQuery u = u_RawQuery v)"

lemma matches_port_variant: "matchesLoopbackHostPort P reg req = port_variant P reg req"
  by (simp add: matchesLoopback_props port_variant_def loopbackHost_def)

lemma lookupClient_frame:
  "lookupClient s now cid w = (r, w') \<Longrightarrow>
     repo w' = repo w \<and> sess w' = sess w \<and> cookie w' = cookie w \<and> save_faults w' = save_faults w"
  by (auto simp: lookupClient_def cimd_Resolve_def split: if_splits prod.splits sum.splits)

lemma source_GetClient_lookup:
  assumes "source_GetClient s requested now cid w = (Inr c, w')"
  obtains c0 where "lookupClient s now cid w = (Inr c0, w')"
    and "c = c0 \<or> (requested \<noteq> [] \<and> c = c0\<lparr>fc_RedirectURIs := fc_RedirectURIs c0 @ [requested]\<rparr> \<and>
      (\<exists>reg \<in> set (fc_RedirectURIs c0). port_variant (ne_url (cs_net s)) reg requested))"
proof -
  obtain r w1 where l: "lookupClient s now cid w = (r, w1)" by fastforce
  with assms obtain c0 where r: "r = Inr c0" and w1: "w1 = w'"
    by (cases r) (auto simp: source_GetClient_def Let_def split: if_splits)
  from expand_disj [of "ne_url (cs_net s)" "fc_RedirectURIs c0" requested]
  have "c = c0 \<or> (requested \<noteq> [] \<and> c = c0\<lparr>fc_RedirectURIs := fc_RedirectURIs c0 @ [requested]\<rparr> \<and>
      (\<exists>reg \<in> set (fc_RedirectURIs c0). port_variant (ne_url (cs_net s)) reg requested))"
  proof (elim disjE conjE)
    assume "expandLoopbackRedirects (ne_url (cs_net s)) (fc_RedirectURIs c0) requested = fc_RedirectURIs c0"
    then show ?thesis using assms by (simp add: source_GetClient_def l r split: if_splits)
  next
    assume "expandLoopbackRedirects (ne_url (cs_net s)) (fc_RedirectURIs c0) requested =
        fc_RedirectURIs c0 @ [requested]"
      and "requested \<noteq> []" and "\<exists>c \<in> set (fc_RedirectURIs c0). matchesLoopbackHostPort (ne_url (cs_net s)) c requested"
    then show ?thesis
      using assms by (simp add: source_GetClient_def l r matches_port_variant)
  qed
  with l r w1 that show thesis by blast
qed

end
