(* ===== verification/IdpSession.thy ===== *)
theory IdpSession
  imports Csrf Loopback
begin

text \<open>
  \<^verbatim>\<open>pkg/idp/session.go\<close>, and what the program uses of fosite: its errors, requests and the
  operations of \<open>fosite.OAuth2Provider\<close>, which are parameters of the handlers.
\<close>

section \<open>Sessions\<close>

definition NewJWTSession ::
  "rand_source \<Rightarrow> time \<Rightarrow> string \<Rightarrow> string \<Rightarrow> string \<Rightarrow> (string \<times> json) list option \<Rightarrow>
     's world \<Rightarrow> Session result \<times> 's world" where
  "NewJWTSession src now iss subject clientID userInfo w =
     (case GenerateJTI src w of
        (Inl e, w') \<Rightarrow> (Inl e, w')
      | (Inr jti, w') \<Rightarrow>
          (let extra = (case userInfo of None \<Rightarrow> [] | Some ui \<Rightarrow> [(''userinfo'', JObj ui)]);
               extra = (if clientID \<noteq> [] then extra @ [(''client_id'', JStr clientID)] else extra)
           in (Inr \<lparr>s_Username = subject, s_Subject = subject, s_ExpiresAt = [],
                 s_JWTClaims = \<lparr>jc_Issuer = iss, jc_Subject = subject, jc_JTI = jti, jc_Audience = [],
                   jc_ExpiresAt = 0, jc_IssuedAt = now, jc_NotBefore = now, jc_Extra = extra\<rparr>,
                 s_HeaderExtra = [], s_Label = []\<rparr>, w')))"

text \<open>\<open>Clone\<close>; a nil receiver yields nil.  A failed read keeps the old identifier.\<close>

definition Clone :: "rand_source \<Rightarrow> Session option \<Rightarrow> 's world \<Rightarrow> Session option \<times> 's world" where
  "Clone src s w =
     (case s of
        None \<Rightarrow> (None, w)
      | Some s \<Rightarrow>
          (let clone = \<lparr>s_Username = s_Username s, s_Subject = s_Subject s, s_ExpiresAt = s_ExpiresAt s,
                 s_JWTClaims = \<lparr>jc_Issuer = jc_Issuer (s_JWTClaims s),
                   jc_Subject = jc_Subject (s_JWTClaims s), jc_JTI = jc_JTI (s_JWTClaims s),
                   jc_Audience = jc_Audience (s_JWTClaims s), jc_ExpiresAt = jc_ExpiresAt (s_JWTClaims s),
                   jc_IssuedAt = jc_IssuedAt (s_JWTClaims s), jc_NotBefore = jc_NotBefore (s_JWTClaims s),
                   jc_Extra = jc_Extra (s_JWTClaims s)\<rparr>,
                 s_HeaderExtra = [], s_Label = s_Label s\<rparr>;
               (r, w') = GenerateJTI src w;
               clone = (case r of Inr jti \<Rightarrow> clone\<lparr>s_JWTClaims := (s_JWTClaims clone)\<lparr>jc_JTI := jti\<rparr>\<rparr>
                 | Inl _ \<Rightarrow> clone);
               clone = clone\<lparr>s_HeaderExtra := s_HeaderExtra s\<rparr>
           in (Some clone, w')))"

lemma Clone_Some:
  "Clone src (Some s) w =
     (case GenerateJTI src w of
        (Inr jti, w') \<Rightarrow> (Some (s\<lparr>s_JWTClaims := (s_JWTClaims s)\<lparr>jc_JTI := jti\<rparr>\<rparr>), w')
      | (Inl _, w') \<Rightarrow> (Some s, w'))"
  by (simp add: Clone_def Let_def split: prod.splits sum.splits)

lemma NewJWTSession_state: "NewJWTSession src now i s c u w = (r, w') \<Longrightarrow> w' = w\<lparr>draws := Suc (draws w)\<rparr>"
  by (auto simp: NewJWTSession_def GenerateJTI_def Let_def dest: rand_hex_state split: prod.splits sum.splits)

section \<open>fosite\<close>

record RFC6749Error =
  fe_Error :: string
  fe_Description :: string
  fe_Code :: int

definition ErrServerError :: RFC6749Error where
  "ErrServerError = \<lparr>fe_Error = ''server_error'', fe_Description = [], fe_Code = 500\<rparr>"

definition ErrInvalidRequest :: RFC6749Error where
  "ErrInvalidRequest = \<lparr>fe_Error = ''invalid_request'', fe_Description = [], fe_Code = 400\<rparr>"

record FAccessRequest = FRequest +
  fa_GrantTypes :: "string list"

text \<open>What a call writes: status, \<open>Location\<close> (empty when absent), body.\<close>

record wire =
  w_Status :: int
  w_Location :: string
  w_Body :: string

type_synonym params = "(string \<times> string) list"
type_synonym 's client_lookup = "string \<Rightarrow> 's world \<Rightarrow> FClient result \<times> 's world"

record 's OAuth2Provider =
  op_NewAuthorizeRequest :: "'s client_lookup \<Rightarrow> time \<Rightarrow> HttpRequest \<Rightarrow> 's world \<Rightarrow>
     (FAuthorizeRequest \<times> RFC6749Error option) \<times> 's world"
  op_NewAuthorizeResponse :: "time \<Rightarrow> FAuthorizeRequest \<Rightarrow> Session \<Rightarrow> 's world \<Rightarrow>
     (RFC6749Error + params) \<times> 's world"
  op_NewAccessRequest :: "'s client_lookup \<Rightarrow> time \<Rightarrow> HttpRequest \<Rightarrow> Session \<Rightarrow> 's world \<Rightarrow>
     (FAccessRequest \<times> RFC6749Error option) \<times> 's world"
  op_NewAccessResponse :: "time \<Rightarrow> FAccessRequest \<Rightarrow> 's world \<Rightarrow> (RFC6749Error + params) \<times> 's world"
  op_NewIntrospectionRequest :: "'s client_lookup \<Rightarrow> time \<Rightarrow> HttpRequest \<Rightarrow> Session \<Rightarrow> 's world \<Rightarrow>
     (RFC6749Error + string) \<times> 's world"
  op_NewRevocationRequest :: "'s client_lookup \<Rightarrow> time \<Rightarrow> HttpRequest \<Rightarrow> 's world \<Rightarrow>
     RFC6749Error option \<times> 's world"
  op_ErrorToRFC6749Error :: "err \<Rightarrow> RFC6749Error"
  op_GrantScope :: "string \<Rightarrow> FAuthorizeRequest \<Rightarrow> FAuthorizeRequest"
  op_GrantAudience :: "string \<Rightarrow> FAuthorizeRequest \<Rightarrow> FAuthorizeRequest"
  op_AddParameter :: "string \<Rightarrow> string \<Rightarrow> params \<Rightarrow> params"
  op_WriteAuthorizeError :: "FAuthorizeRequest option \<Rightarrow> RFC6749Error \<Rightarrow> wire"
  op_WriteAuthorizeResponse :: "FAuthorizeRequest \<Rightarrow> params \<Rightarrow> wire"
  op_WriteAccessError :: "FAccessRequest option \<Rightarrow> RFC6749Error \<Rightarrow> wire"
  op_WriteAccessResponse :: "FAccessRequest \<Rightarrow> params \<Rightarrow> wire"
  op_WriteIntrospectionError :: "RFC6749Error \<Rightarrow> wire"
  op_WriteIntrospectionResponse :: "string \<Rightarrow> wire"
  op_WriteRevocationResponse :: "RFC6749Error option \<Rightarrow> wire"

definition wire_reply :: "wire \<Rightarrow> reply" where
  "wire_reply w =
     (if w_Location w = [] then Body (w_Status w) (LibraryBody (w_Body w))
      else Redirect (w_Status w) (w_Location w))"

end
