(* ===== verification/Idp.thy ===== *)
theory Idp
  imports IdpSession
begin

text \<open>
  \<^verbatim>\<open>pkg/idp\<close>: the handlers of the authorization server.  \<^verbatim>\<open>authorize.go\<close>, \<^verbatim>\<open>consent.go\<close>,
  \<^verbatim>\<open>register.go\<close>, \<^verbatim>\<open>token.go\<close>, \<^verbatim>\<open>metadata.go\<close> and the router of \<^verbatim>\<open>idp.go\<close>.

  \<open>idp_env\<close> holds the library functions the handlers call; \<open>IDPRouter\<close> is the Go struct, with
  its repository as the interface records of \<open>Repository\<close>.
\<close>

section \<open>The router\<close>

record 's IDPRouter =
  a_repo_ar :: "'s AuthorizeRequestStorage"
  a_source :: "'s clientSource"
  a_keys :: Manager
  a_externalURL :: string
  a_provider :: "'s OAuth2Provider"
  a_oidcDiscoveryMirror :: bool
  a_refreshEnabled :: bool
  a_cimdEnabled :: bool
  a_dcrEnabled :: bool
  a_dcrClientTTL :: duration
  a_dcrMaxClients :: int
  a_tokenRateLimit :: "(HttpRequest \<Rightarrow> 's world \<Rightarrow> reply option \<times> 's world) option"
  a_registerRateLimit :: "(HttpRequest \<Rightarrow> 's world \<Rightarrow> reply option \<times> 's world) option"
  a_authorizeRateLimit :: "(HttpRequest \<Rightarrow> 's world \<Rightarrow> reply option \<times> 's world) option"

record registrationRequest =
  rg_ClientName :: runes
  rg_GrantTypes :: "string list"
  rg_ResponseTypes :: "string list"
  rg_TokenEndpointAuthMethod :: string
  rg_Scope :: string
  rg_RedirectURIs :: "string list"

record idp_env =
  ie_rand :: rand_source
  ie_unparse :: "url \<Rightarrow> string"
  ie_ids_marshal :: "string list \<Rightarrow> string"
  ie_ids_unmarshal :: "string \<Rightarrow> string list option"
  ie_userinfo :: "string \<Rightarrow> (string \<times> json) list option"
  ie_bind :: "string \<Rightarrow> registrationRequest option"
  ie_hash :: "string \<Rightarrow> string option"
  ie_join_path :: "string \<Rightarrow> string \<Rightarrow> string option"

abbreviation a_P :: "'s IDPRouter \<Rightarrow> url_parser" where
  "a_P a \<equiv> ne_url (cs_net (a_source a))"

definition repo_GetClient :: "'s IDPRouter \<Rightarrow> string \<Rightarrow> time \<Rightarrow> 's client_lookup" where
  "repo_GetClient a requested now = source_GetClient (a_source a) requested now"

definition AuthorizationEndpoint :: string where "AuthorizationEndpoint = ''/.idp/auth''"
definition AuthorizationReturnEndpoint :: string where "AuthorizationReturnEndpoint = ''/.idp/auth/:ar_id''"
definition TokenEndpoint :: string where "TokenEndpoint = ''/.idp/token''"
definition IntrospectionEndpoint :: string where "IntrospectionEndpoint = ''/.idp/introspect''"
definition RevocationEndpoint :: string where "RevocationEndpoint = ''/.idp/revoke''"
definition RegistrationEndpoint :: string where "RegistrationEndpoint = ''/.idp/register''"
definition OauthAuthorizationServerEndpoint :: string where
  "OauthAuthorizationServerEndpoint = ''/.well-known/oauth-authorization-server''"
definition OIDCDiscoveryEndpoint :: string where
  "OIDCDiscoveryEndpoint = ''/.well-known/openid-configuration''"
definition JWKSEndpoint :: string where "JWKSEndpoint = ''/.well-known/jwks.json''"

section \<open>The authorize endpoint\<close>

definition errInvalidTarget :: RFC6749Error where
  "errInvalidTarget =
     \<lparr>fe_Error = ''invalid_target'',
      fe_Description = ''The requested resource is not served by this authorization server.'',
      fe_Code = 400\<rparr>"

definition validateResource :: "string \<Rightarrow> string list \<Rightarrow> RFC6749Error option" where
  "validateResource externalURL resources =
     (if list_ex (\<lambda>resource. resource \<noteq> [] \<and> trim_suffix resource ''/'' \<noteq> externalURL) resources
      then Some errInvalidTarget else None)"

text \<open>\<open>issRedirectWriter.WriteHeader\<close>, on what fosite is about to send.\<close>

definition iss_WriteHeader :: "url_parser \<Rightarrow> (url \<Rightarrow> string) \<Rightarrow> string \<Rightarrow> wire \<Rightarrow> wire" where
  "iss_WriteHeader P unparse issuer w =
     (if 300 \<le> w_Status w \<and> w_Status w < 400 then
        (if w_Location w \<noteq> [] then
           (case P (w_Location w) of
              None \<Rightarrow> w
            | Some u \<Rightarrow>
                (let q = ParseQuery (u_RawQuery u)
                 in if values_Get q ''iss'' = [] then
                      w\<lparr>w_Location := unparse (u\<lparr>u_RawQuery := Encode (values_Set ''iss'' issuer q)\<rparr>)\<rparr>
                    else w))
         else w)
      else w)"

definition writeAuthorizeError ::
  "idp_env \<Rightarrow> 's IDPRouter \<Rightarrow> FAuthorizeRequest option \<Rightarrow> RFC6749Error \<Rightarrow> reply" where
  "writeAuthorizeError E a ar e =
     wire_reply (iss_WriteHeader (a_P a) (ie_unparse E) (a_externalURL a)
       (op_WriteAuthorizeError (a_provider a) ar e))"

definition authorizeRequestIDs :: "idp_env \<Rightarrow> 'a web_scheme \<Rightarrow> string list" where
  "authorizeRequestIDs E w =
     (case sess_string w sessionKeyAuthorizeRequestIDs of
        None \<Rightarrow> []
      | Some value \<Rightarrow> if value = [] then []
          else (case ie_ids_unmarshal E value of None \<Rightarrow> [] | Some ids \<Rightarrow> ids))"

definition hasAuthorizeRequestID :: "idp_env \<Rightarrow> 'a web_scheme \<Rightarrow> string \<Rightarrow> bool" where
  "hasAuthorizeRequestID E w arID \<longleftrightarrow> list_ex (\<lambda>id. id = arID) (authorizeRequestIDs E w)"

definition addAuthorizeRequestID :: "idp_env \<Rightarrow> string \<Rightarrow> 'a web_scheme \<Rightarrow> 'a web_scheme" where
  "addAuthorizeRequestID E arID w =
     (let ids = authorizeRequestIDs E w
      in if hasAuthorizeRequestID E w arID then w
         else sess_set sessionKeyAuthorizeRequestIDs (SStr (ie_ids_marshal E (ids @ [arID]))) w)"

definition removeAuthorizeRequestID :: "idp_env \<Rightarrow> string \<Rightarrow> 'a web_scheme \<Rightarrow> 'a web_scheme" where
  "removeAuthorizeRequestID E arID w =
     (let remaining = filter (\<lambda>id. id \<noteq> arID) (authorizeRequestIDs E w)
      in if remaining = [] then sess_delete sessionKeyAuthorizeRequestIDs w
         else sess_set sessionKeyAuthorizeRequestIDs (SStr (ie_ids_marshal E remaining)) w)"

text \<open>\<open>strings.ReplaceAll(AuthorizationReturnEndpoint, ":ar_id", id)\<close>.\<close>

definition authorization_return_url :: "string \<Rightarrow> string" where
  "authorization_return_url arID = AuthorizationEndpoint @ ''/'' @ arID"

definition handleAuth_bound ::
  "idp_env \<Rightarrow> 's IDPRouter \<Rightarrow> time \<Rightarrow> HttpRequest \<Rightarrow> 's world \<Rightarrow> reply \<times> 's world" where
  "handleAuth_bound E a now req w =
     (let requested = c_Query req ''redirect_uri''
      in (case op_NewAuthorizeRequest (a_provider a) (repo_GetClient a requested now) now req w of
            ((ar, Some e), w1) \<Rightarrow> (writeAuthorizeError E a (Some ar) e, w1)
          | ((ar, None), w1) \<Rightarrow>
              (case validateResource (a_externalURL a) (values_All (in_Query req) ''resource'') of
                 Some e \<Rightarrow> (writeAuthorizeError E a (Some ar) e, w1)
               | None \<Rightarrow>
                   (case on_repo (as_CreateAuthorizeRequest (a_repo_ar a) ar) w1 of
                      (Inl _, w2) \<Rightarrow> (writeAuthorizeError E a (Some ar) ErrServerError, w2)
                    | (Inr _, w2) \<Rightarrow>
                        (case sess_save (addAuthorizeRequestID E (fr_ID ar) w2) of
                           (False, w3) \<Rightarrow>
                             (writeAuthorizeError E a (Some ar) ErrServerError,
                              snd (on_repo (as_DeleteAuthorizeRequest (a_repo_ar a) (fr_ID ar)) w3))
                         | (True, w3) \<Rightarrow> (Redirect 302 (authorization_return_url (fr_ID ar)), w3))))))"

definition handleAuth ::
  "idp_env \<Rightarrow> 's IDPRouter \<Rightarrow> time \<Rightarrow> HttpRequest \<Rightarrow> 's world \<Rightarrow> reply \<times> 's world" where
  "handleAuth E a now req w =
     (if c_Query req ''state'' = [] then
        (case GenerateState (ie_rand E) w of
           (Inl _, w1) \<Rightarrow> (writeAuthorizeError E a None ErrServerError, w1)
         | (Inr state, w1) \<Rightarrow>
             handleAuth_bound E a now
               (req\<lparr>in_Query := ParseQuery (Encode (values_Set ''state'' state (in_Query req)))\<rparr>) w1)
      else handleAuth_bound E a now req w)"

section \<open>Consent\<close>

definition maxLabelLength :: nat where "maxLabelLength = 64"

definition IsControl :: "nat \<Rightarrow> bool" where
  "IsControl r \<longleftrightarrow> r < 32 \<or> (127 \<le> r \<and> r < 160)"

definition IsSpace :: "nat \<Rightarrow> bool" where
  "IsSpace r \<longleftrightarrow> (9 \<le> r \<and> r \<le> 13) \<or> r = 32 \<or> r = 133 \<or> r = 160 \<or> r = 5760 \<or>
     (8192 \<le> r \<and> r \<le> 8202) \<or> r = 8232 \<or> r = 8233 \<or> r = 8239 \<or> r = 8287 \<or> r = 12288"

definition TrimSpace :: "runes \<Rightarrow> runes" where
  "TrimSpace rs = rev (dropWhile IsSpace (rev (dropWhile IsSpace rs)))"

definition sanitizeLabel :: "runes \<Rightarrow> runes" where
  "sanitizeLabel raw =
     (let cleaned = TrimSpace (filter (\<lambda>r. \<not> IsControl r) raw)
      in if length cleaned > maxLabelLength then TrimSpace (take maxLabelLength cleaned) else cleaned)"

definition declaredClientName ::
  "'s IDPRouter \<Rightarrow> time \<Rightarrow> string \<Rightarrow> 's world \<Rightarrow> runes \<times> 's world" where
  "declaredClientName a now clientID w =
     (if has_prefix clientID ''https://'' then
        (if \<not> cs_hasResolver (a_source a) then ([], w)
         else (case cimd_Resolve (a_source a) now clientID w of
                 (Inl _, w') \<Rightarrow> ([], w')
               | (Inr doc, w') \<Rightarrow> (cc_ClientName doc, w')))
      else (case ask_repo (ds_GetClientName (cs_clients (a_source a)) clientID now) w of
              Inl _ \<Rightarrow> ([], w)
            | Inr name \<Rightarrow> (name, w)))"

definition handleAuthorizationReturnForm ::
  "idp_env \<Rightarrow> 's IDPRouter \<Rightarrow> time \<Rightarrow> string \<Rightarrow> HttpRequest \<Rightarrow> 's world \<Rightarrow> reply \<times> 's world" where
  "handleAuthorizationReturnForm E a now arID req w =
     (if \<not> hasAuthorizeRequestID E w arID then
        (Json 403 [(''error'', ''invalid authorization session'')], w)
      else (case ask_repo (as_GetAuthorizeRequest (a_repo_ar a) arID) w of
          Inl e \<Rightarrow> (if e = ErrPanic then panic_reply else Json 500 [(''error'', ''server_error'')], w)
        | Inr ar \<Rightarrow>
            (case EnsureCSRFToken (ie_rand E) w of
               (Inl _, w1) \<Rightarrow> (Json 500 [(''error'', ''server_error'')], w1)
             | (Inr csrfToken, w1) \<Rightarrow>
                 (case sess_save w1 of
                    (False, w2) \<Rightarrow> (Json 500 [(''error'', ''server_error'')], w2)
                  | (True, w2) \<Rightarrow>
                      (case declaredClientName a now (fc_ID (fr_Client ar)) w2 of
                         (name, w3) \<Rightarrow>
                           (Body 200 (ConsentPage
                              \<lparr>ct_ClientID = fc_ID (fr_Client ar),
                               ct_RedirectURI = far_RedirectURI ar,
                               ct_Scopes = fr_RequestedScope ar,
                               ct_CSRFToken = csrfToken,
                               ct_ConnectionName = sanitizeLabel name,
                               ct_LoopbackOnly = allRedirectsLoopback (a_P a) (ne_ip (cs_net (a_source a)))
                                 (fc_RedirectURIs (fr_Client ar))\<rparr>), w3))))))"

definition grantRequested :: "'s IDPRouter \<Rightarrow> FAuthorizeRequest \<Rightarrow> FAuthorizeRequest" where
  "grantRequested a ar =
     op_GrantAudience (a_provider a) (a_externalURL a)
       (fold (op_GrantScope (a_provider a)) (fr_RequestedScope ar) ar)"

definition approvedSession ::
  "idp_env \<Rightarrow> 's IDPRouter \<Rightarrow> time \<Rightarrow> HttpRequest \<Rightarrow> FAuthorizeRequest \<Rightarrow> 's world \<Rightarrow>
     Session result \<times> 's world" where
  "approvedSession E a now req ar w =
     (let subject = (case sess_string w SessionKeyUserID of
            Some userID \<Rightarrow> if userID \<noteq> [] then userID else ''user'' | None \<Rightarrow> ''user'');
          userInfo = (case sess_string w SessionKeyUserInfo of
            Some s \<Rightarrow> if s \<noteq> [] then ie_userinfo E s else None | None \<Rightarrow> None)
      in (case NewJWTSession (ie_rand E) now (a_externalURL a) subject (fc_ID (fr_Client ar)) userInfo w of
            (Inl e, w') \<Rightarrow> (Inl e, w')
          | (Inr s, w') \<Rightarrow>
              (Inr (s\<lparr>s_Label := sanitizeLabel (utf8_runes (PostForm req ''connection_name''))\<rparr>), w')))"

text \<open>The body of the consent POST between the load and the deferred delete.\<close>

definition return_body ::
  "idp_env \<Rightarrow> 's IDPRouter \<Rightarrow> time \<Rightarrow> string \<Rightarrow> HttpRequest \<Rightarrow> FAuthorizeRequest \<Rightarrow> 's world \<Rightarrow>
     reply \<times> 's world" where
  "return_body E a now arID req ar0 w =
     (let ar = grantRequested a ar0
      in (case approvedSession E a now req ar w of
            (Inl e, w1) \<Rightarrow>
              (writeAuthorizeError E a (Some ar) (op_ErrorToRFC6749Error (a_provider a) e), w1)
          | (Inr jwtSession, w1) \<Rightarrow>
              (case op_NewAuthorizeResponse (a_provider a) now ar jwtSession w1 of
                 (Inl e, w2) \<Rightarrow> (writeAuthorizeError E a (Some ar) e, w2)
               | (Inr response, w2) \<Rightarrow>
                   (let response = op_AddParameter (a_provider a) ''iss'' (a_externalURL a) response
                    in (case sess_save (removeAuthorizeRequestID E arID w2) of
                          (False, w3) \<Rightarrow> (writeAuthorizeError E a (Some ar) ErrServerError, w3)
                        | (True, w3) \<Rightarrow>
                            (wire_reply (op_WriteAuthorizeResponse (a_provider a) ar response), w3))))))"

definition handleAuthorizationReturn ::
  "idp_env \<Rightarrow> 's IDPRouter \<Rightarrow> time \<Rightarrow> string \<Rightarrow> HttpRequest \<Rightarrow> 's world \<Rightarrow> reply \<times> 's world" where
  "handleAuthorizationReturn E a now arID req w =
     (if \<not> hasAuthorizeRequestID E w arID then
        (Json 403 [(''error'', ''invalid authorization session'')], w)
      else (case ask_repo (as_GetAuthorizeRequest (a_repo_ar a) arID) w of
          Inl e \<Rightarrow> (if e = ErrPanic then panic_reply else Json 500 [(''error'', ''Internal Server Error'')], w)
        | Inr ar \<Rightarrow>
            (case return_body E a now arID req ar w of
               (r, w1) \<Rightarrow> (r, snd (on_repo (as_DeleteAuthorizeRequest (a_repo_ar a) arID) w1)))))"

section \<open>Registration\<close>

definition supportedAuthMethods :: "string list" where
  "supportedAuthMethods = [''none'', ''client_secret_basic'', ''client_secret_post'']"

text \<open>The Go function fills defaults into the request it is given and returns an error code and
  a description; the result here is the error pair or the completed request.\<close>

definition validateRegistration ::
  "url_parser \<Rightarrow> registrationRequest \<Rightarrow> (string \<times> string) + registrationRequest" where
  "validateRegistration P req =
     (if rg_RedirectURIs req = [] then Inl (''invalid_redirect_uri'', ''redirect_uris must not be empty'')
      else (case List.find (\<lambda>u. ValidateRedirectURI P u \<noteq> Inr ()) (rg_RedirectURIs req) of
          Some u \<Rightarrow> Inl (''invalid_redirect_uri'',
            (case ValidateRedirectURI P u of Inl (ErrMsg m) \<Rightarrow> m | _ \<Rightarrow> []))
        | None \<Rightarrow>
            (let req1 = (if rg_TokenEndpointAuthMethod req = []
                   then req\<lparr>rg_TokenEndpointAuthMethod := ''client_secret_basic''\<rparr> else req)
             in if rg_TokenEndpointAuthMethod req1 \<notin> set supportedAuthMethods then
                  Inl (''invalid_client_metadata'', ''unsupported token_endpoint_auth_method'')
                else
                  (let req2 = (if rg_GrantTypes req1 = []
                         then req1\<lparr>rg_GrantTypes := [''authorization_code'']\<rparr> else req1)
                   in (case List.find (\<lambda>g. \<not> IsSupportedGrantType g) (rg_GrantTypes req2) of
                         Some g \<Rightarrow> Inl (''invalid_client_metadata'', ''unsupported grant_type: '' @ g)
                       | None \<Rightarrow>
                           (let req3 = (if rg_ResponseTypes req2 = []
                                  then req2\<lparr>rg_ResponseTypes := [''code'']\<rparr> else req2)
                            in (case List.find (\<lambda>r. \<not> IsSupportedResponseType r) (rg_ResponseTypes req3) of
                                  Some r \<Rightarrow> Inl (''invalid_client_metadata'', ''unsupported response_type: '' @ r)
                                | None \<Rightarrow> Inr req3)))))))"

text \<open>The credentials of a new client: \<open>None\<close> stands for the 500 answer.\<close>

definition new_secret :: "idp_env \<Rightarrow> bool \<Rightarrow> 's world \<Rightarrow> (string \<times> string) option \<times> 's world" where
  "new_secret E isPublic w =
     (if isPublic then (Some ([], []), w)
      else (case GenerateClientSecret (ie_rand E) w of
              (Inl _, w1) \<Rightarrow> (None, w1)
            | (Inr clientSecret, w1) \<Rightarrow>
                (case ie_hash E clientSecret of
                   None \<Rightarrow> (None, w1)
                 | Some hashedSecret \<Rightarrow> (Some (clientSecret, hashedSecret), w1))))"

definition server_error :: reply where
  "server_error = Json 500 [(''error'', ''server_error'')]"

definition registered_client ::
  "string \<Rightarrow> string \<Rightarrow> string \<Rightarrow> registrationRequest \<Rightarrow> bool \<Rightarrow> FClient" where
  "registered_client externalURL clientID hashedSecret rg isPublic =
     \<lparr>fc_ID = clientID, fc_Secret = hashedSecret, fc_RotatedSecrets = [],
      fc_RedirectURIs = rg_RedirectURIs rg, fc_GrantTypes = rg_GrantTypes rg,
      fc_ResponseTypes = rg_ResponseTypes rg, fc_Scopes = fields_of (rg_Scope rg),
      fc_Audience = [externalURL], fc_Public = isPublic\<rparr>"

text \<open>\<open>clk k\<close> is the \<open>k\<close>-th reading of the clock in the handler.\<close>

definition handleRegister_valid ::
  "idp_env \<Rightarrow> 's IDPRouter \<Rightarrow> (nat \<Rightarrow> time) \<Rightarrow> HttpRequest \<Rightarrow> registrationRequest \<Rightarrow> 's world \<Rightarrow>
     reply \<times> 's world" where
  "handleRegister_valid E a clk req rg w =
     (case GenerateClientID (ie_rand E) w of
        (Inl _, w1) \<Rightarrow> (server_error, w1)
      | (Inr clientID, w1) \<Rightarrow>
          (let isPublic = (rg_TokenEndpointAuthMethod rg = ''none'')
           in (case new_secret E isPublic w1 of
                 (None, w2) \<Rightarrow> (server_error, w2)
               | (Some (clientSecret, hashedSecret), w2) \<Rightarrow>
                   (let client = registered_client (a_externalURL a) clientID hashedSecret rg isPublic;
                        expiresAt = (if 0 < a_dcrClientTTL a then clk 0 + a_dcrClientTTL a else 0)
                    in (case on_repo (ds_RegisterClient (cs_clients (a_source a))
                            \<lparr>cr_Client = client, cr_Name = rg_ClientName rg, cr_ExpiresAt = expiresAt,
                             cr_MaxClients = a_dcrMaxClients a\<rparr> (clk 1) (clk 2)) w2 of
                          (Inl e, w3) \<Rightarrow>
                            (if e = ErrClientCapReached then
                               Json 503 [(''error'', ''temporarily_unavailable''),
                                 (''error_description'', ''client registration is temporarily unavailable'')]
                             else server_error, w3)
                        | (Inr _, w3) \<Rightarrow>
                            (let w4 = authevent_Log Register
                                   [(''client_id'', FStr clientID), (''client_ip'', FStr (in_ClientIP req))] w3
                             in (case ie_join_path E RegistrationEndpoint clientID of
                                   None \<Rightarrow> (server_error, w4)
                                 | Some uri \<Rightarrow>
                                     (Body 201 (RegisteredDoc
                                        \<lparr>rr_ClientID = clientID,
                                         rr_ClientSecret = (if isPublic then [] else clientSecret),
                                         rr_RedirectURIs = rg_RedirectURIs rg,
                                         rr_ClientName = rg_ClientName rg,
                                         rr_GrantTypes = rg_GrantTypes rg,
                                         rr_ResponseTypes = rg_ResponseTypes rg,
                                         rr_TokenEndpointAuthMethod = rg_TokenEndpointAuthMethod rg,
                                         rr_RegistrationClientURI = uri,
                                         rr_ClientIDIssuedAt = Unix (clk 3),
                                         rr_ClientSecretExpiresAt =
                                           (if \<not> isPublic \<and> \<not> time_is_zero expiresAt then Unix expiresAt else 0)\<rparr>),
                                      w4))))))))"

definition handleRegister ::
  "idp_env \<Rightarrow> 's IDPRouter \<Rightarrow> (nat \<Rightarrow> time) \<Rightarrow> HttpRequest \<Rightarrow> 's world \<Rightarrow> reply \<times> 's world" where
  "handleRegister E a clk req w =
     (case ie_bind E (in_Body req) of
        None \<Rightarrow> (Json 400 [(''error'', ''invalid_request''),
           (''error_description'', ''request body must be valid JSON'')], w)
      | Some rg0 \<Rightarrow>
          (case validateRegistration (a_P a) rg0 of
             Inl (errCode, errDesc) \<Rightarrow>
               (Json 400 [(''error'', errCode), (''error_description'', errDesc)], w)
           | Inr rg \<Rightarrow> handleRegister_valid E a clk req rg w))"

section \<open>Tokens\<close>

definition tokenIssuedFields :: "HttpRequest \<Rightarrow> FAccessRequest \<Rightarrow> (string \<times> fval) list" where
  "tokenIssuedFields req request =
     [(''client_id'', FStr (fc_ID (fr_Client request))), (''grant_types'', FStrs (fa_GrantTypes request)),
      (''client_ip'', FStr (in_ClientIP req))] @
     (case fr_Session request of
        Some s \<Rightarrow> if s_Label s \<noteq> [] then [(''label'', FRunes (s_Label s))] else []
      | None \<Rightarrow> [])"

definition touch_client ::
  "'s IDPRouter \<Rightarrow> time \<Rightarrow> string \<Rightarrow> 's world \<Rightarrow> 's world" where
  "touch_client a now clientID w =
     (if 0 < a_dcrClientTTL a then
        (if \<not> has_prefix clientID ''https://'' then
           snd (on_repo (ds_TouchClient (cs_clients (a_source a)) clientID (now + a_dcrClientTTL a)) w)
         else w)
      else w)"

definition handleToken ::
  "idp_env \<Rightarrow> 's IDPRouter \<Rightarrow> time \<Rightarrow> HttpRequest \<Rightarrow> 's world \<Rightarrow> reply \<times> 's world" where
  "handleToken E a now req w =
     (let prov = a_provider a
      in (case NewJWTSession (ie_rand E) now [] [] [] None w of
            (Inl _, w1) \<Rightarrow> (wire_reply (op_WriteAccessError prov None ErrServerError), w1)
          | (Inr session, w1) \<Rightarrow>
              (if in_FormError req then (wire_reply (op_WriteAccessError prov None ErrInvalidRequest), w1)
               else (case validateResource (a_externalURL a) (values_All (in_PostForm req) ''resource'') of
                   Some e \<Rightarrow> (wire_reply (op_WriteAccessError prov None e), w1)
                 | None \<Rightarrow>
                     (case op_NewAccessRequest prov (repo_GetClient a [] now) now req session w1 of
                        ((accessRequest, Some e), w2) \<Rightarrow>
                          (wire_reply (op_WriteAccessError prov (Some accessRequest) e), w2)
                      | ((accessRequest, None), w2) \<Rightarrow>
                          (case op_NewAccessResponse prov now accessRequest w2 of
                             (Inl e, w3) \<Rightarrow>
                               (wire_reply (op_WriteAccessError prov (Some accessRequest) e), w3)
                           | (Inr response, w3) \<Rightarrow>
                               (let w4 = touch_client a now (fc_ID (fr_Client accessRequest)) w3;
                                    w5 = authevent_Log TokenIssued (tokenIssuedFields req accessRequest) w4
                                in (wire_reply (op_WriteAccessResponse prov accessRequest response), w5))))))))"

definition handleIntrospect ::
  "idp_env \<Rightarrow> 's IDPRouter \<Rightarrow> time \<Rightarrow> HttpRequest \<Rightarrow> 's world \<Rightarrow> reply \<times> 's world" where
  "handleIntrospect E a now req w =
     (let prov = a_provider a
      in (case NewJWTSession (ie_rand E) now [] [] [] None w of
            (Inl _, w1) \<Rightarrow> (wire_reply (op_WriteIntrospectionError prov ErrServerError), w1)
          | (Inr session, w1) \<Rightarrow>
              (case op_NewIntrospectionRequest prov (repo_GetClient a [] now) now req session w1 of
                 (Inl e, w2) \<Rightarrow> (wire_reply (op_WriteIntrospectionError prov e), w2)
               | (Inr ir, w2) \<Rightarrow> (wire_reply (op_WriteIntrospectionResponse prov ir), w2))))"

text \<open>The error of \<open>NewRevocationRequest\<close> is given as \<open>ErrorToRFC6749Error\<close> converts it.\<close>

definition handleRevoke ::
  "'s IDPRouter \<Rightarrow> time \<Rightarrow> HttpRequest \<Rightarrow> 's world \<Rightarrow> reply \<times> 's world" where
  "handleRevoke a now req w =
     (case op_NewRevocationRequest (a_provider a) (repo_GetClient a [] now) now req w of
        (Some e, w1) \<Rightarrow>
          if fe_Code e = 503 \<or> fe_Code e = 500 then
            (Json 503 [(''error'', ''temporarily_unavailable'')], w1)
          else (wire_reply (op_WriteRevocationResponse (a_provider a) (Some e)), w1)
      | (None, w1) \<Rightarrow>
          (wire_reply (op_WriteRevocationResponse (a_provider a) None),
           authevent_Log Revoked [(''client_ip'', FStr (in_ClientIP req))] w1))"

section \<open>Metadata\<close>

definition handleOauthAuthorizationServer :: "idp_env \<Rightarrow> 's IDPRouter \<Rightarrow> reply" where
  "handleOauthAuthorizationServer E a =
     (let j = ie_join_path E (a_externalURL a)
      in (case (j AuthorizationEndpoint, j TokenEndpoint,
              if a_dcrEnabled a then j RegistrationEndpoint else Some [],
              j JWKSEndpoint, j IntrospectionEndpoint, j RevocationEndpoint) of
            (Some authorizationEndpoint, Some tokenEndpoint, Some registrationEndpoint,
             Some jwksURI, Some introspectionEndpoint, Some revocationEndpoint) \<Rightarrow>
              Body 200 (MetadataDoc
                \<lparr>as_Issuer = a_externalURL a, as_AuthorizationEndpoint = authorizationEndpoint,
                 as_TokenEndpoint = tokenEndpoint, as_RegistrationEndpoint = registrationEndpoint,
                 as_JWKSURI = jwksURI, as_IntrospectionEndpoint = introspectionEndpoint,
                 as_RevocationEndpoint = revocationEndpoint, as_ScopesSupported = [],
                 as_ResponseTypesSupported = [''code''], as_ResponseModesSupported = [''query''],
                 as_GrantTypesSupported = [''authorization_code''] @
                   (if a_refreshEnabled a then [''refresh_token''] else []),
                 as_TokenEndpointAuthMethodsSupported =
                   [''client_secret_basic'', ''client_secret_post'', ''none''],
                 as_CodeChallengeMethodsSupported = [''S256''], as_IssParameterSupported = True,
                 as_ClientIDMetadataDocumentSupported = a_cimdEnabled a\<rparr>)
          | _ \<Rightarrow> server_error))"

definition handleJWKS :: "'s IDPRouter \<Rightarrow> reply" where
  "handleJWKS a =
     (case PublicJWKs (a_keys a) of
        Inl _ \<Rightarrow> server_error
      | Inr keySet \<Rightarrow> Body 200 (JWKSDoc keySet))"

section \<open>Routes\<close>

definition idp_SetupRoutes :: "idp_env \<Rightarrow> 's IDPRouter \<Rightarrow> (nat \<Rightarrow> time) \<Rightarrow> 's route list" where
  "idp_SetupRoutes E a clk =
     [(''GET'', AuthorizationEndpoint,
        \<lambda>_. withRateLimit (a_authorizeRateLimit a) [endpoint (handleAuth E a (clk 0))]),
      (''GET'', AuthorizationReturnEndpoint,
        \<lambda>ar_id. [RequireAuth, endpoint (handleAuthorizationReturnForm E a (clk 0) ar_id)]),
      (''POST'', AuthorizationReturnEndpoint,
        \<lambda>ar_id. [RequireAuth, RequireCSRF, endpoint (handleAuthorizationReturn E a (clk 0) ar_id)]),
      (''POST'', TokenEndpoint,
        \<lambda>_. withRateLimit (a_tokenRateLimit a) [endpoint (handleToken E a (clk 0))]),
      (''POST'', IntrospectionEndpoint, \<lambda>_. [endpoint (handleIntrospect E a (clk 0))]),
      (''POST'', RevocationEndpoint, \<lambda>_. [endpoint (handleRevoke a (clk 0))])] @
     (if a_dcrEnabled a then
        [(''POST'', RegistrationEndpoint,
           \<lambda>_. withRateLimit (a_registerRateLimit a) [endpoint (handleRegister E a clk)])]
      else []) @
     [(''GET'', OauthAuthorizationServerEndpoint,
        \<lambda>_. [endpoint (\<lambda>_ w. (handleOauthAuthorizationServer E a, w))])] @
     (if a_oidcDiscoveryMirror a then
        [(''GET'', OIDCDiscoveryEndpoint,
           \<lambda>_. [endpoint (\<lambda>_ w. (handleOauthAuthorizationServer E a, w))])]
      else []) @
     [(''GET'', JWKSEndpoint, \<lambda>_. [endpoint (\<lambda>_ w. (handleJWKS a, w))])]"

section \<open>Construction\<close>

definition defaultAccessTokenTTL :: duration where "defaultAccessTokenTTL = hour"
definition defaultAuthCodeTTL :: duration where "defaultAuthCodeTTL = 10 * minute"

record fosite_config =
  fz_GlobalSecret :: string
  fz_AccessTokenLifespan :: duration
  fz_AuthorizeCodeLifespan :: duration
  fz_RefreshTokenLifespan :: duration
  fz_RefreshTokenScopes :: "string list"
  fz_AccessTokenIssuer :: string
  fz_EnforcePKCE :: bool
  fz_EnforcePKCEForPublicClients :: bool
  fz_EnablePKCEPlainChallengeMethod :: bool

datatype factory =
  OAuth2AuthorizeExplicit | OAuth2TokenIntrospection | OAuth2PKCE | OAuth2TokenRevocation |
  OAuth2RefreshTokenGrant

record 's idp_Config =
  ic_Repo_ar :: "'s AuthorizeRequestStorage"
  ic_Repo_clients :: "'s DynamicClientStorage"
  ic_Keys :: Manager
  ic_ExternalURL :: string
  ic_Secret :: string
  ic_OIDCDiscoveryMirror :: bool
  ic_AccessTokenTTL :: duration
  ic_AuthCodeTTL :: duration
  ic_RefreshTokenTTL :: duration
  ic_CIMDResolver :: bool \<comment> \<open>\<open>CIMDResolver \<noteq> nil\<close>\<close>
  ic_DCREnabled :: bool
  ic_DCRClientTTL :: duration
  ic_DCRMaxClients :: int
  ic_TokenRateLimit :: "'s handler option"
  ic_RegisterRateLimit :: "'s handler option"
  ic_AuthorizeRateLimit :: "'s handler option"

definition fosite_Config :: "'s idp_Config \<Rightarrow> fosite_config" where
  "fosite_Config cfg =
     \<lparr>fz_GlobalSecret = ic_Secret cfg,
      fz_AccessTokenLifespan =
        (if ic_AccessTokenTTL cfg = 0 then defaultAccessTokenTTL else ic_AccessTokenTTL cfg),
      fz_AuthorizeCodeLifespan =
        (if ic_AuthCodeTTL cfg = 0 then defaultAuthCodeTTL else ic_AuthCodeTTL cfg),
      fz_RefreshTokenLifespan = ic_RefreshTokenTTL cfg, fz_RefreshTokenScopes = [],
      fz_AccessTokenIssuer = ic_ExternalURL cfg, fz_EnforcePKCE = True,
      fz_EnforcePKCEForPublicClients = True, fz_EnablePKCEPlainChallengeMethod = False\<rparr>"

definition factories :: "bool \<Rightarrow> factory list" where
  "factories refreshEnabled =
     [OAuth2AuthorizeExplicit, OAuth2TokenIntrospection, OAuth2PKCE, OAuth2TokenRevocation] @
     (if refreshEnabled then [OAuth2RefreshTokenGrant] else [])"

text \<open>\<open>compose.Compose\<close> is a parameter.\<close>

definition NewIDPRouter ::
  "(fosite_config \<Rightarrow> 's clientSource \<Rightarrow> factory list \<Rightarrow> 's OAuth2Provider) \<Rightarrow> net_env \<Rightarrow>
     ((string \<times> cacheEntry) list \<Rightarrow> (string \<times> cacheEntry) list) \<Rightarrow> 's idp_Config \<Rightarrow> 's IDPRouter" where
  "NewIDPRouter compose N order cfg =
     (let refreshEnabled = (0 < ic_RefreshTokenTTL cfg);
          storage = \<lparr>cs_clients = ic_Repo_clients cfg, cs_hasResolver = ic_CIMDResolver cfg, cs_net = N,
            cs_order = order, cs_externalURL = ic_ExternalURL cfg\<rparr>
      in \<lparr>a_repo_ar = ic_Repo_ar cfg, a_source = storage, a_keys = ic_Keys cfg,
          a_externalURL = ic_ExternalURL cfg,
          a_provider = compose (fosite_Config cfg) storage (factories refreshEnabled),
          a_oidcDiscoveryMirror = ic_OIDCDiscoveryMirror cfg, a_refreshEnabled = refreshEnabled,
          a_cimdEnabled = ic_CIMDResolver cfg, a_dcrEnabled = ic_DCREnabled cfg,
          a_dcrClientTTL = ic_DCRClientTTL cfg, a_dcrMaxClients = ic_DCRMaxClients cfg,
          a_tokenRateLimit = ic_TokenRateLimit cfg, a_registerRateLimit = ic_RegisterRateLimit cfg,
          a_authorizeRateLimit = ic_AuthorizeRateLimit cfg\<rparr>)"

end
