(* ===== verification/Kvs.thy ===== *)
theory Kvs
  imports Inventory
begin

text \<open>
  \<^verbatim>\<open>pkg/repository/kvs.go\<close> and \<^verbatim>\<open>kvs_inventory.go\<close>: the bbolt backend.

  The bucket of bbolt is not part of the repository; it enters as the record \<open>'b bolt\<close> of the
  bucket operations the code calls, with the documented laws in the locale \<open>bolt_bucket\<close>: puts
  and deletes update one key, and a cursor that seeks a key walks the entries from there in
  byte order.  A put or a delete may fail.  \<open>'b kvs\<close> is the repository: the committed bucket and
  the outcome of the coming commits (\<open>True\<close>: the commit fails).  A read-write transaction
  works on a copy of the bucket; an error of its body, or of the commit, discards the copy.
\<close>

section \<open>The bucket\<close>

record 'b bolt =
  bk_get :: "'b \<Rightarrow> string \<Rightarrow> doc option"
  bk_put :: "'b \<Rightarrow> string \<Rightarrow> doc \<Rightarrow> 'b result"
  bk_delete :: "'b \<Rightarrow> string \<Rightarrow> 'b result"
  bk_seek :: "'b \<Rightarrow> string \<Rightarrow> (string \<times> doc) list"

record 'b kvs =
  kv_bucket :: 'b
  kv_faults :: "bool list"

definition db_update :: "('b \<Rightarrow> ('a \<times> 'b) result) \<Rightarrow> ('a, 'b kvs) act" where
  "db_update f st =
     (case f (kv_bucket st) of
        Inl e \<Rightarrow> (Inl e, st)
      | Inr (x, b) \<Rightarrow>
          (case kv_faults st of
             True # fs \<Rightarrow> (Inl ErrCommit, st\<lparr>kv_faults := fs\<rparr>)
           | _ \<Rightarrow> (Inr x, st\<lparr>kv_bucket := b, kv_faults := tl (kv_faults st)\<rparr>)))"

definition db_view :: "('b \<Rightarrow> 'a result) \<Rightarrow> ('a, 'b kvs) query" where
  "db_view f st = f (kv_bucket st)"

text \<open>A transaction body that only changes the bucket.\<close>

definition txn_unit :: "'b result \<Rightarrow> (unit \<times> 'b) result" where
  "txn_unit r = res_bind r (\<lambda>b. Inr ((), b))"

section \<open>Single records\<close>

definition kvs_create :: "'b bolt \<Rightarrow> string \<Rightarrow> doc \<Rightarrow> (unit, 'b kvs) act" where
  "kvs_create B key value = db_update (\<lambda>b. txn_unit (bk_put B b key value))"

definition kvs_get :: "'b bolt \<Rightarrow> string \<Rightarrow> (doc \<Rightarrow> 'a result) \<Rightarrow> ('a, 'b kvs) query" where
  "kvs_get B key unmarshal = db_view (\<lambda>b.
     case bk_get B b key of None \<Rightarrow> Inl ErrNotFound | Some data \<Rightarrow> unmarshal data)"

definition kvs_delete :: "'b bolt \<Rightarrow> string \<Rightarrow> (unit, 'b kvs) act" where
  "kvs_delete B key = db_update (\<lambda>b. txn_unit (bk_delete B b key))"

definition kvs_update :: "'b bolt \<Rightarrow> string \<Rightarrow> doc \<Rightarrow> (unit, 'b kvs) act" where
  "kvs_update B key value = db_update (\<lambda>b.
     case bk_get B b key of None \<Rightarrow> Inl ErrNotFound | Some _ \<Rightarrow> txn_unit (bk_put B b key value))"

section \<open>Key families\<close>

definition accessTokenPrefix :: string where "accessTokenPrefix = ''access_token-''"
definition refreshTokenPrefix :: string where "refreshTokenPrefix = ''refresh_token-''"
definition authorizeCodePrefix :: string where "authorizeCodePrefix = ''authorize_code-''"
definition pkceRequestPrefix :: string where "pkceRequestPrefix = ''pkce_request-''"
definition authorizeRequestPrefix :: string where "authorizeRequestPrefix = ''authorize_request-''"
definition clientPrefix :: string where "clientPrefix = ''client-''"
definition kvsUserKey :: string where "kvsUserKey = ''user-record''"
definition kvsSchemaVersionKey :: string where "kvsSchemaVersionKey = ''meta-schema_version''"
definition credentialPrefix :: string where "credentialPrefix = ''webauthn_credential-''"

lemmas prefix_defs = accessTokenPrefix_def refreshTokenPrefix_def authorizeCodePrefix_def
  pkceRequestPrefix_def authorizeRequestPrefix_def clientPrefix_def kvsUserKey_def
  kvsSchemaVersionKey_def credentialPrefix_def

fun family_prefix :: "family \<Rightarrow> string" where
  "family_prefix AccessToken = accessTokenPrefix"
| "family_prefix RefreshToken = refreshTokenPrefix"
| "family_prefix AuthorizeCode = authorizeCodePrefix"
| "family_prefix PkceRequest = pkceRequestPrefix"
| "family_prefix AuthorizeReq = authorizeRequestPrefix"
| "family_prefix ClientReg = clientPrefix"
| "family_prefix UserRec = kvsUserKey"
| "family_prefix Credential = credentialPrefix"
| "family_prefix Meta = kvsSchemaVersionKey"

definition sessionPrefixes :: "string list" where
  "sessionPrefixes = [accessTokenPrefix, refreshTokenPrefix, authorizeCodePrefix, pkceRequestPrefix]"

section \<open>Sessions\<close>

definition kvs_get_request :: "'b bolt \<Rightarrow> string \<Rightarrow> Session option \<Rightarrow> (FRequest, 'b kvs) query" where
  "kvs_get_request B key sess st =
     res_bind (kvs_get B key dec_request st) (\<lambda>req. load_request req sess)"

definition kvs_CreateAuthorizeCodeSession :: "'b bolt \<Rightarrow> string \<Rightarrow> FRequest \<Rightarrow> (unit, 'b kvs) act" where
  "kvs_CreateAuthorizeCodeSession B code q =
     kvs_create B (''authorize_code-'' @ code) (DRequest (FromFositeReq q))"

definition kvs_GetAuthorizeCodeSession :: "'b bolt \<Rightarrow> string \<Rightarrow> Session option \<Rightarrow> (FRequest, 'b kvs) query" where
  "kvs_GetAuthorizeCodeSession B code = kvs_get_request B (''authorize_code-'' @ code)"

definition kvs_InvalidateAuthorizeCodeSession :: "'b bolt \<Rightarrow> string \<Rightarrow> (unit, 'b kvs) act" where
  "kvs_InvalidateAuthorizeCodeSession B code = kvs_delete B (''authorize_code-'' @ code)"

definition kvs_CreateAccessTokenSession :: "'b bolt \<Rightarrow> string \<Rightarrow> FRequest \<Rightarrow> (unit, 'b kvs) act" where
  "kvs_CreateAccessTokenSession B signature q =
     kvs_create B (''access_token-'' @ signature) (DRequest (FromFositeReq q))"

definition kvs_GetAccessTokenSession :: "'b bolt \<Rightarrow> string \<Rightarrow> Session option \<Rightarrow> (FRequest, 'b kvs) query" where
  "kvs_GetAccessTokenSession B signature = kvs_get_request B (''access_token-'' @ signature)"

definition kvs_DeleteAccessTokenSession :: "'b bolt \<Rightarrow> string \<Rightarrow> (unit, 'b kvs) act" where
  "kvs_DeleteAccessTokenSession B signature = kvs_delete B (''access_token-'' @ signature)"

text \<open>The access signature that comes with a refresh token is not stored.\<close>

definition kvs_CreateRefreshTokenSession ::
  "'b bolt \<Rightarrow> string \<Rightarrow> string \<Rightarrow> FRequest \<Rightarrow> (unit, 'b kvs) act" where
  "kvs_CreateRefreshTokenSession B signature accessSignature q =
     kvs_create B (''refresh_token-'' @ signature) (DRequest (FromFositeReq q))"

definition kvs_GetRefreshTokenSession :: "'b bolt \<Rightarrow> string \<Rightarrow> Session option \<Rightarrow> (FRequest, 'b kvs) query" where
  "kvs_GetRefreshTokenSession B signature = kvs_get_request B (''refresh_token-'' @ signature)"

definition kvs_DeleteRefreshTokenSession :: "'b bolt \<Rightarrow> string \<Rightarrow> (unit, 'b kvs) act" where
  "kvs_DeleteRefreshTokenSession B signature = kvs_delete B (''refresh_token-'' @ signature)"

definition kvs_RotateRefreshToken :: "'b bolt \<Rightarrow> string \<Rightarrow> string \<Rightarrow> time \<Rightarrow> (unit, 'b kvs) act" where
  "kvs_RotateRefreshToken B requestID signature now st =
     (case kvs_get B (''refresh_token-'' @ signature) dec_request st of
        Inl e \<Rightarrow> (Inl e, st)
      | Inr req \<Rightarrow>
          kvs_update B (''refresh_token-'' @ signature) (DRequest (req\<lparr>rq_RotatedAt := now\<rparr>)) st)"

definition kvs_CreatePKCERequestSession :: "'b bolt \<Rightarrow> string \<Rightarrow> FRequest \<Rightarrow> (unit, 'b kvs) act" where
  "kvs_CreatePKCERequestSession B signature q =
     kvs_create B (''pkce_request-'' @ signature) (DRequest (FromFositeReq q))"

definition kvs_GetPKCERequestSession :: "'b bolt \<Rightarrow> string \<Rightarrow> Session option \<Rightarrow> (FRequest, 'b kvs) query" where
  "kvs_GetPKCERequestSession B signature = kvs_get_request B (''pkce_request-'' @ signature)"

definition kvs_DeletePKCERequestSession :: "'b bolt \<Rightarrow> string \<Rightarrow> (unit, 'b kvs) act" where
  "kvs_DeletePKCERequestSession B signature = kvs_delete B (''pkce_request-'' @ signature)"

section \<open>Scans\<close>

text \<open>\<open>cursor.Seek(prefix)\<close>, then \<open>Next\<close> while the key has the prefix.\<close>

definition cursor_prefix :: "'b bolt \<Rightarrow> 'b \<Rightarrow> string \<Rightarrow> (string \<times> doc) list" where
  "cursor_prefix B b p = takeWhile (\<lambda>(k, _). has_prefix k p) (bk_seek B b p)"

definition delete_keys :: "'b bolt \<Rightarrow> string list \<Rightarrow> 'b \<Rightarrow> 'b result" where
  "delete_keys B ks b = fold_res (\<lambda>k b. bk_delete B b k) ks b"

definition deleteMatching :: "'b bolt \<Rightarrow> string \<Rightarrow> (Request \<Rightarrow> bool) \<Rightarrow> (unit, 'b kvs) act" where
  "deleteMatching B p match = db_update (\<lambda>b.
     let stale = map fst (filter
           (\<lambda>(_, v). case dec_request v of Inl _ \<Rightarrow> False | Inr req \<Rightarrow> match req) (cursor_prefix B b p))
     in txn_unit (delete_keys B stale b))"

definition kvs_RevokeRefreshToken :: "'b bolt \<Rightarrow> string \<Rightarrow> (unit, 'b kvs) act" where
  "kvs_RevokeRefreshToken B requestID = deleteMatching B ''refresh_token-'' (\<lambda>r. rq_ID r = requestID)"

definition kvs_RevokeAccessToken :: "'b bolt \<Rightarrow> string \<Rightarrow> (unit, 'b kvs) act" where
  "kvs_RevokeAccessToken B requestID = deleteMatching B ''access_token-'' (\<lambda>r. rq_ID r = requestID)"

text \<open>The last transaction of the sweep: undecodable authorize requests go, too.\<close>

definition ar_stale :: "time \<Rightarrow> doc \<Rightarrow> bool" where
  "ar_stale codeBefore v =
     (case dec_authorize v of
        Inl _ \<Rightarrow> True
      | Inr ar \<Rightarrow> (case ar_Request ar of None \<Rightarrow> True | Some r \<Rightarrow> rq_RequestedAt r < codeBefore))"

definition sweepAuthorizeRequests :: "'b bolt \<Rightarrow> time \<Rightarrow> (unit, 'b kvs) act" where
  "sweepAuthorizeRequests B codeBefore = db_update (\<lambda>b.
     let stale = map fst (filter (\<lambda>(_, v). ar_stale codeBefore v) (cursor_prefix B b ''authorize_request-''))
     in txn_unit (delete_keys B stale b))"

fun sweep_cutoffs :: "'b bolt \<Rightarrow> (string \<times> time) list \<Rightarrow> (unit, 'b kvs) act" where
  "sweep_cutoffs B [] st = (Inr (), st)"
| "sweep_cutoffs B ((p, before) # cs) st =
     (case deleteMatching B p (\<lambda>r. rq_RequestedAt r < before) st of
        (Inl e, st') \<Rightarrow> (Inl e, st')
      | (Inr _, st') \<Rightarrow> sweep_cutoffs B cs st')"

definition kvs_DeleteExpiredSessions :: "'b bolt \<Rightarrow> time \<Rightarrow> time \<Rightarrow> time \<Rightarrow> (unit, 'b kvs) act" where
  "kvs_DeleteExpiredSessions B accessBefore refreshBefore codeBefore st =
     (case sweep_cutoffs B [(''access_token-'', accessBefore), (''refresh_token-'', refreshBefore),
           (''authorize_code-'', codeBefore), (''pkce_request-'', codeBefore)] st of
        (Inl e, st') \<Rightarrow> (Inl e, st')
      | (Inr _, st') \<Rightarrow> sweepAuthorizeRequests B codeBefore st')"

definition kvs_EnsureSchemaVersion :: "'b bolt \<Rightarrow> int \<Rightarrow> (unit, 'b kvs) act" where
  "kvs_EnsureSchemaVersion B version st =
     (case kvs_get B kvsSchemaVersionKey dec_version st of
        Inl ErrNotFound \<Rightarrow> kvs_create B kvsSchemaVersionKey (DVersion version) st
      | Inl e \<Rightarrow> (Inl e, st)
      | Inr stored \<Rightarrow>
          if stored > version then (Inl (ErrSchemaNewer stored version), st)
          else if stored < version then kvs_update B kvsSchemaVersionKey (DVersion version) st
          else (Inr (), st))"

section \<open>Clients\<close>

definition countNonExpiredClients :: "'b bolt \<Rightarrow> 'b \<Rightarrow> time \<Rightarrow> int" where
  "countNonExpiredClients B b now =
     int (length (filter (\<lambda>(_, v). client_counts now v) (cursor_prefix B b ''client-'')))"

definition kvs_RegisterClient :: "'b bolt \<Rightarrow> ClientRegistration \<Rightarrow> time \<Rightarrow> time \<Rightarrow> (unit, 'b kvs) act" where
  "kvs_RegisterClient B g created now =
     (let client = (FromFositeClient (cr_Client g))
            \<lparr>cl_Name := cr_Name g, cl_CreatedAt := created, cl_ExpiresAt := cr_ExpiresAt g\<rparr>;
          key = ''client-'' @ fc_ID (cr_Client g)
      in db_update (\<lambda>b.
           if cr_MaxClients g > 0 \<and> bk_get B b key = None \<and>
              countNonExpiredClients B b now \<ge> cr_MaxClients g
           then Inl ErrClientCapReached
           else txn_unit (bk_put B b key (DClient client))))"

definition kvs_GetClient :: "'b bolt \<Rightarrow> string \<Rightarrow> time \<Rightarrow> (FClient, 'b kvs) query" where
  "kvs_GetClient B cid now st =
     res_bind (kvs_get B (''client-'' @ cid) dec_client st) (\<lambda>c.
       if client_expired now c then Inl ErrNotFound else Inr (ToFositeClient c))"

definition kvs_GetClientName :: "'b bolt \<Rightarrow> string \<Rightarrow> time \<Rightarrow> (runes, 'b kvs) query" where
  "kvs_GetClientName B cid now st =
     (case kvs_get B (''client-'' @ cid) dec_client st of
        Inl ErrNotFound \<Rightarrow> Inr []
      | Inl e \<Rightarrow> Inl e
      | Inr c \<Rightarrow> if client_expired now c then Inr [] else Inr (cl_Name c))"

definition kvs_TouchClient :: "'b bolt \<Rightarrow> string \<Rightarrow> time \<Rightarrow> (unit, 'b kvs) act" where
  "kvs_TouchClient B cid expiresAt st =
     (case kvs_get B (''client-'' @ cid) dec_client st of
        Inl e \<Rightarrow> (Inl e, st)
      | Inr c \<Rightarrow>
          if time_is_zero (cl_ExpiresAt c) then (Inr (), st)
          else kvs_update B (''client-'' @ cid) (DClient (c\<lparr>cl_ExpiresAt := expiresAt\<rparr>)) st)"

definition kvs_CountClients :: "'b bolt \<Rightarrow> time \<Rightarrow> (int, 'b kvs) query" where
  "kvs_CountClients B now = db_view (\<lambda>b. Inr (countNonExpiredClients B b now))"

definition kvs_DeleteExpiredClients :: "'b bolt \<Rightarrow> time \<Rightarrow> (unit, 'b kvs) act" where
  "kvs_DeleteExpiredClients B now = db_update (\<lambda>b.
     let stale = map fst (filter
           (\<lambda>(_, v). case dec_client v of Inl _ \<Rightarrow> False | Inr c \<Rightarrow> client_expired now c)
           (cursor_prefix B b ''client-''))
     in txn_unit (delete_keys B stale b))"

definition kvs_ClientAssertionJWTValid :: "string \<Rightarrow> (unit, 'b kvs) query" where
  "kvs_ClientAssertionJWTValid jti st = Inl ErrNotImplemented"

definition kvs_SetClientAssertionJWT :: "string \<Rightarrow> time \<Rightarrow> (unit, 'b kvs) act" where
  "kvs_SetClientAssertionJWT jti expiry st = (Inl ErrNotImplemented, st)"

section \<open>Authorize requests, the operator, passkeys\<close>

definition kvs_CreateAuthorizeRequest :: "'b bolt \<Rightarrow> FAuthorizeRequest \<Rightarrow> (unit, 'b kvs) act" where
  "kvs_CreateAuthorizeRequest B q =
     kvs_create B (''authorize_request-'' @ fr_ID q) (DAuthorize (FromFositeAuthorizeRequest q))"

definition kvs_GetAuthorizeRequest ::
  "'b bolt \<Rightarrow> (string \<Rightarrow> string option) \<Rightarrow> string \<Rightarrow> (FAuthorizeRequest, 'b kvs) query" where
  "kvs_GetAuthorizeRequest B reparse requestID st =
     res_bind (kvs_get B (''authorize_request-'' @ requestID) dec_authorize st)
       (ToFositeAuthorizeRequest reparse)"

definition kvs_DeleteAuthorizeRequest :: "'b bolt \<Rightarrow> string \<Rightarrow> (unit, 'b kvs) act" where
  "kvs_DeleteAuthorizeRequest B requestID = kvs_delete B (''authorize_request-'' @ requestID)"

definition kvs_GetUser :: "'b bolt \<Rightarrow> (User, 'b kvs) query" where
  "kvs_GetUser B = kvs_get B kvsUserKey dec_user"

definition kvs_CreateUser :: "'b bolt \<Rightarrow> User \<Rightarrow> (unit, 'b kvs) act" where
  "kvs_CreateUser B u = kvs_create B kvsUserKey (DUser u)"

definition kvs_UpdateUser :: "'b bolt \<Rightarrow> User \<Rightarrow> (unit, 'b kvs) act" where
  "kvs_UpdateUser B u = kvs_update B kvsUserKey (DUser u)"

definition kvs_AddWebAuthnCredential :: "'b bolt \<Rightarrow> WebAuthnCredential \<Rightarrow> (unit, 'b kvs) act" where
  "kvs_AddWebAuthnCredential B c = kvs_create B (''webauthn_credential-'' @ wc_ID c) (DCredential c)"

text \<open>\<open>sort.Slice\<close> leaves the order of passkeys with equal creation times open; here it is stable.\<close>

definition kvs_ListWebAuthnCredentials :: "'b bolt \<Rightarrow> string \<Rightarrow> (WebAuthnCredential list, 'b kvs) query" where
  "kvs_ListWebAuthnCredentials B userID = db_view (\<lambda>b.
     res_bind (fold_res (\<lambda>(_, v) acc. res_bind (dec_credential v) (\<lambda>c.
         Inr (if wc_UserID c = userID then acc @ [c] else acc)))
       (cursor_prefix B b ''webauthn_credential-'') [])
     (\<lambda>cs. Inr (sort_key wc_CreatedAt cs)))"

definition kvs_UpdateWebAuthnCredential :: "'b bolt \<Rightarrow> WebAuthnCredential \<Rightarrow> (unit, 'b kvs) act" where
  "kvs_UpdateWebAuthnCredential B c = kvs_update B (''webauthn_credential-'' @ wc_ID c) (DCredential c)"

definition kvs_DeleteWebAuthnCredential :: "'b bolt \<Rightarrow> string \<Rightarrow> (unit, 'b kvs) act" where
  "kvs_DeleteWebAuthnCredential B cid = kvs_delete B (''webauthn_credential-'' @ cid)"

section \<open>The client list and the kill switches\<close>

definition scanPrefix ::
  "'b bolt \<Rightarrow> 'b \<Rightarrow> string \<Rightarrow> (string \<Rightarrow> doc \<Rightarrow> 'x \<Rightarrow> 'x result) \<Rightarrow> 'x \<Rightarrow> 'x result" where
  "scanPrefix B b p fn = fold_res (\<lambda>(k, v). fn k v) (cursor_prefix B b p)"

definition scanRequests ::
  "'b bolt \<Rightarrow> 'b \<Rightarrow> string \<Rightarrow> (string \<Rightarrow> Request \<Rightarrow> 'x \<Rightarrow> 'x result) \<Rightarrow> 'x \<Rightarrow> 'x result" where
  "scanRequests B b p fn = scanPrefix B b p (\<lambda>k v x. res_bind (dec_request v) (\<lambda>r. fn k r x))"

definition scanAuthorizeRequests ::
  "'b bolt \<Rightarrow> 'b \<Rightarrow> (string \<Rightarrow> AuthorizeRequest \<Rightarrow> 'x \<Rightarrow> 'x result) \<Rightarrow> 'x \<Rightarrow> 'x result" where
  "scanAuthorizeRequests B b fn =
     scanPrefix B b authorizeRequestPrefix (\<lambda>k v x. res_bind (dec_authorize v) (\<lambda>a. fn k a x))"

definition scanClients ::
  "'b bolt \<Rightarrow> 'b \<Rightarrow> (string \<Rightarrow> Client \<Rightarrow> 'x \<Rightarrow> 'x result) \<Rightarrow> 'x \<Rightarrow> 'x result" where
  "scanClients B b fn = scanPrefix B b clientPrefix (\<lambda>k v x. res_bind (dec_client v) (\<lambda>c. fn k c x))"

definition kvs_ListClientGrants :: "'b bolt \<Rightarrow> time \<Rightarrow> (ClientGrants list, 'b kvs) query" where
  "kvs_ListClientGrants B now st =
     res_bind (db_view (\<lambda>b.
         res_bind (scanRequests B b accessTokenPrefix (\<lambda>_ r i. Inr (addToken accessTokenKind r i)) newInventory) (\<lambda>i.
         res_bind (scanRequests B b refreshTokenPrefix (\<lambda>_ r i. Inr (addToken refreshTokenKind r i)) i) (\<lambda>i.
         scanClients B b (\<lambda>_ c i. Inr (addRegistration c i)) i))) st)
     (\<lambda>i. Inr (rows now i))"

definition allClientKeys :: "'b bolt \<Rightarrow> 'b \<Rightarrow> string list result" where
  "allClientKeys B b = scanClients B b (\<lambda>k _ ks. Inr (ks @ [k])) []"

definition staleRecords ::
  "'b bolt \<Rightarrow> 'b \<Rightarrow> (Request \<Rightarrow> bool) \<Rightarrow> ('b \<Rightarrow> string list result) option \<Rightarrow> string list result" where
  "staleRecords B b match selectClients =
     res_bind (fold_res (\<lambda>p. scanRequests B b p (\<lambda>k r ks. Inr (if match r then ks @ [k] else ks)))
         sessionPrefixes []) (\<lambda>stale.
     res_bind (scanAuthorizeRequests B b (\<lambda>k a ks.
         Inr (case ar_Request a of None \<Rightarrow> ks | Some r \<Rightarrow> if match r then ks @ [k] else ks)) stale) (\<lambda>stale.
     case selectClients of
       None \<Rightarrow> Inr stale
     | Some select \<Rightarrow> res_bind (select b) (\<lambda>ks. Inr (stale @ ks))))"

definition revoke ::
  "'b bolt \<Rightarrow> (Request \<Rightarrow> bool) \<Rightarrow> ('b \<Rightarrow> string list result) option \<Rightarrow> (int, 'b kvs) act" where
  "revoke B match selectClients = db_update (\<lambda>b.
     res_bind (staleRecords B b match selectClients) (\<lambda>stale.
     res_bind (delete_keys B stale b) (\<lambda>b'. Inr (int (length stale), b'))))"

definition kvs_RevokeClient :: "'b bolt \<Rightarrow> string \<Rightarrow> (int, 'b kvs) act" where
  "kvs_RevokeClient B clientID =
     revoke B (of_client clientID)
       (Some (\<lambda>b. Inr (case bk_get B b (clientPrefix @ clientID) of
          None \<Rightarrow> [] | Some _ \<Rightarrow> [clientPrefix @ clientID])))"

definition kvs_RevokeGrant :: "'b bolt \<Rightarrow> string \<Rightarrow> (int, 'b kvs) act" where
  "kvs_RevokeGrant B requestID = revoke B (\<lambda>r. rq_ID r = requestID) None"

definition kvs_RevokeAll :: "'b bolt \<Rightarrow> (int, 'b kvs) act" where
  "kvs_RevokeAll B = revoke B (\<lambda>_. True) (Some (allClientKeys B))"

end
