(* ===== verification/KvsStore.thy ===== *)
theory KvsStore
  imports Kvs
begin

text \<open>
  The bbolt backend implements the abstract store: \<open>kview\<close> reads the bucket as record families,
  every operation of \<open>Kvs\<close> is an all-or-nothing write of the corresponding abstract change, and
  the backend thereby meets the contracts of \<open>Repository\<close> (the sublocale at the end).  The
  bucket laws are assumed in \<open>bolt_bucket\<close> and hold of the reference bucket \<open>ref_bolt\<close>, a
  sorted association list.
\<close>

section \<open>The laws of a bucket\<close>

locale bolt_bucket =
  fixes B :: "'b bolt"
  assumes get_put: "bk_put B b k d = Inr b' \<Longrightarrow> bk_get B b' = (bk_get B b)(k \<mapsto> d)"
    and get_delete: "bk_delete B b k = Inr b' \<Longrightarrow> bk_get B b' = (bk_get B b)(k := None)"
    and seek_entries: "map_of (bk_seek B b p) = bk_get B b |` {k. p \<le> k}"
    and seek_order: "sorted_wrt (<) (map fst (bk_seek B b p))"

subsection \<open>A reference bucket\<close>

text \<open>As bbolt, it refuses an empty key and a key of more than 32768 bytes.\<close>

definition ref_get :: "(string \<times> doc) list \<Rightarrow> string \<Rightarrow> doc option" where
  "ref_get b k = map_of b k"

definition ref_put :: "(string \<times> doc) list \<Rightarrow> string \<Rightarrow> doc \<Rightarrow> (string \<times> doc) list result" where
  "ref_put b k d =
     (if k = [] \<or> 32768 < length k then Inl ErrCommit
      else Inr (filter (\<lambda>(j, _). j < k) b @ (k, d) # filter (\<lambda>(j, _). k < j) b))"

definition ref_delete :: "(string \<times> doc) list \<Rightarrow> string \<Rightarrow> (string \<times> doc) list result" where
  "ref_delete b k = Inr (filter (\<lambda>(j, _). j \<noteq> k) b)"

definition ref_seek :: "(string \<times> doc) list \<Rightarrow> string \<Rightarrow> (string \<times> doc) list" where
  "ref_seek b p = filter (\<lambda>(k, _). p \<le> k) b"

text \<open>Only sorted lists are buckets.\<close>

definition sorted_bucket :: "(string \<times> doc) list \<Rightarrow> bool" where
  "sorted_bucket b \<longleftrightarrow> sorted_wrt (<) (map fst b)"

typedef ref_bucket = "{b :: (string \<times> doc) list. sorted_bucket b}"
  by (rule exI [of _ "[]"]) (simp add: sorted_bucket_def)

setup_lifting type_definition_ref_bucket

lemma sorted_bucket_filter: "sorted_bucket b \<Longrightarrow> sorted_bucket (filter P b)"
  by (induction b) (auto simp: sorted_bucket_def)

lemma sorted_bucket_put:
  "sorted_bucket b \<Longrightarrow> sorted_bucket (filter (\<lambda>(j, _). j < k) b @ (k, d) # filter (\<lambda>(j, _). k < j) b)"
  by (auto simp: sorted_bucket_def sorted_wrt_append sorted_wrt_map sorted_wrt_filter)

lift_definition rb_empty :: ref_bucket is "[]" by (simp add: sorted_bucket_def)

lift_definition rb_get :: "ref_bucket \<Rightarrow> string \<Rightarrow> doc option" is ref_get .

lift_definition rb_insert :: "ref_bucket \<Rightarrow> string \<Rightarrow> doc \<Rightarrow> ref_bucket" is
  "\<lambda>b k d. filter (\<lambda>(j, _). j < k) b @ (k, d) # filter (\<lambda>(j, _). k < j) b"
  by (rule sorted_bucket_put)

lift_definition rb_remove :: "ref_bucket \<Rightarrow> string \<Rightarrow> ref_bucket" is
  "\<lambda>b k. filter (\<lambda>(j, _). j \<noteq> k) b"
  by (rule sorted_bucket_filter)

lift_definition rb_seek :: "ref_bucket \<Rightarrow> string \<Rightarrow> (string \<times> doc) list" is ref_seek .

definition ref_bolt :: "ref_bucket bolt" where
  "ref_bolt =
     \<lparr>bk_get = rb_get,
      bk_put = (\<lambda>b k d. if k = [] \<or> 32768 < length k then Inl ErrCommit else Inr (rb_insert b k d)),
      bk_delete = (\<lambda>b k. Inr (rb_remove b k)),
      bk_seek = rb_seek\<rparr>"

lemma rb_get_empty [simp]: "rb_get rb_empty k = None"
  by transfer (simp add: ref_get_def)

lemma rb_get_insert [simp]: "rb_get (rb_insert b k d) j = (if j = k then Some d else rb_get b j)"
  by transfer (auto simp: ref_get_def map_of_filter_key map_add_def restrict_map_def split: option.splits)

lemma rb_get_remove [simp]: "rb_get (rb_remove b k) j = (if j = k then None else rb_get b j)"
  by transfer (auto simp: ref_get_def map_of_filter_key restrict_map_def)

lemma rb_seek_entries: "map_of (rb_seek b p) = rb_get b |` {k. p \<le> k}"
  by transfer (auto simp: ref_seek_def ref_get_def map_of_filter_key restrict_map_def fun_eq_iff)

lemma rb_seek_order: "sorted_wrt (<) (map fst (rb_seek b p))"
  by transfer (simp add: ref_seek_def sorted_bucket_filter [unfolded sorted_bucket_def] sorted_bucket_def)

lemma rb_seek_simps [simp]:
  "rb_seek rb_empty p = []"
  by transfer (simp add: ref_seek_def)

interpretation reference: bolt_bucket ref_bolt
  by unfold_locales
     (auto simp: ref_bolt_def rb_seek_entries rb_seek_order fun_eq_iff split: if_splits)

section \<open>The bucket as a store\<close>

definition bview :: "'b bolt \<Rightarrow> 'b \<Rightarrow> store" where
  "bview B b f k = bk_get B b (family_prefix f @ k)"

definition kview :: "'b bolt \<Rightarrow> 'b kvs \<Rightarrow> store" where
  "kview B st = bview B (kv_bucket st)"

text \<open>No two families share a key.\<close>

lemma family_prefix_inject: "family_prefix f @ k = family_prefix g @ j \<longleftrightarrow> f = g \<and> k = j"
  by (cases f; cases g) (auto simp: prefix_defs)

lemma has_prefix_family: "has_prefix (family_prefix f @ k) (family_prefix g) \<longleftrightarrow> f = g"
  by (auto elim!: has_prefixE simp: family_prefix_inject)

lemma prefix_of_family:
  "''access_token-'' = family_prefix AccessToken" "''refresh_token-'' = family_prefix RefreshToken"
  "''authorize_code-'' = family_prefix AuthorizeCode" "''pkce_request-'' = family_prefix PkceRequest"
  "''authorize_request-'' = family_prefix AuthorizeReq" "''client-'' = family_prefix ClientReg"
  "''webauthn_credential-'' = family_prefix Credential"
  "accessTokenPrefix = family_prefix AccessToken" "refreshTokenPrefix = family_prefix RefreshToken"
  "authorizeCodePrefix = family_prefix AuthorizeCode" "pkceRequestPrefix = family_prefix PkceRequest"
  "authorizeRequestPrefix = family_prefix AuthorizeReq" "clientPrefix = family_prefix ClientReg"
  "kvsUserKey = family_prefix UserRec @ []" "kvsSchemaVersionKey = family_prefix Meta @ []"
  by (simp_all add: prefix_defs)

declare family_prefix.simps [simp del]

lemma db_update_writes:
  assumes "\<And>x b. f (kv_bucket st) = Inr (x, b) \<Longrightarrow> bview B b = g (bview B (kv_bucket st))"
  shows "writes (kview B) st (db_update f st) g"
  using assms
  by (auto simp: db_update_def writes_def kview_def split: sum.splits list.splits bool.splits prod.splits)

lemma db_update_result:
  "db_update f st = (Inr x, st') \<Longrightarrow> f (kv_bucket st) = Inr (x, kv_bucket st')"
  by (auto simp: db_update_def split: sum.splits list.splits bool.splits prod.splits)

lemma writes_cong: "writes v s rs f \<Longrightarrow> (\<And>x s'. rs = (Inr x, s') \<Longrightarrow> f (v s) = g (v s)) \<Longrightarrow> writes v s rs g"
  by (auto simp: writes_def split: sum.splits prod.splits)

lemma writes_refl: "(\<And>x. r = Inr x \<Longrightarrow> f (v s) = v s) \<Longrightarrow> writes v s (r, s) f"
  by (auto simp: writes_def split: sum.splits)

context bolt_bucket begin

lemma bview_put: "bk_put B b (family_prefix f @ k) d = Inr b' \<Longrightarrow> bview B b' = spec_put f k d (bview B b)"
  by (auto simp: fun_eq_iff bview_def spec_put_def get_put family_prefix_inject)

lemma bview_delete: "bk_delete B b (family_prefix f @ k) = Inr b' \<Longrightarrow> bview B b' = spec_delete f k (bview B b)"
  by (auto simp: fun_eq_iff bview_def spec_delete_def get_delete family_prefix_inject)

lemma create_writes: "writes (kview B) st (kvs_create B (family_prefix f @ k) d st) (spec_put f k d)"
  unfolding kvs_create_def
  by (rule db_update_writes) (auto simp: txn_unit_def res_bind_Inr bview_put)

lemma delete_writes: "writes (kview B) st (kvs_delete B (family_prefix f @ k) st) (spec_delete f k)"
  unfolding kvs_delete_def
  by (rule db_update_writes) (auto simp: txn_unit_def res_bind_Inr bview_delete)

lemma update_writes: "writes (kview B) st (kvs_update B (family_prefix f @ k) d st) (spec_put f k d)"
  unfolding kvs_update_def
  by (rule db_update_writes) (auto simp: txn_unit_def res_bind_Inr bview_put split: option.splits)

lemma get_view: "kvs_get B (family_prefix f @ k) dec st = res_bind (get_doc (kview B st) f k) dec"
  by (simp add: kvs_get_def db_view_def get_doc_def kview_def bview_def split: option.splits)

lemma get_request_view:
  "kvs_get_request B (family_prefix f @ k) sess st = spec_request (kview B st) f k sess"
  by (simp add: kvs_get_request_def get_view spec_request_def res_bind_def split: sum.splits)

subsection \<open>Cursor walks\<close>

lemma seek_prefix_closed:
  "sorted_wrt (\<lambda>x y. has_prefix (fst y) p \<longrightarrow> has_prefix (fst x) p) (bk_seek B b p)"
proof -
  have ge: "p \<le> k" if "(k, v) \<in> set (bk_seek B b p)" for k v
  proof -
    have "distinct (map fst (bk_seek B b p))"
      using seek_order strict_sorted_iff by blast
    then have "map_of (bk_seek B b p) k = Some v" using that by simp
    then show ?thesis by (simp add: seek_entries restrict_map_def split: if_splits)
  qed
  have "sorted_wrt (\<lambda>x y. fst x < fst y) (bk_seek B b p)"
    using seek_order by (simp add: sorted_wrt_map)
  then show ?thesis
  proof (rule sorted_wrt_mono_rel [rotated])
    fix x y assume *: "x \<in> set (bk_seek B b p)" "y \<in> set (bk_seek B b p)" "fst x < fst y"
    have "p \<le> fst x" using ge [of "fst x" "snd x"] *(1) by simp
    then show "has_prefix (fst y) p \<longrightarrow> has_prefix (fst x) p"
      using has_prefix_convex [of p "fst x" "fst y"] *(3) by (meson less_imp_le)
  qed
qed

lemma cursor_filter: "cursor_prefix B b p = filter (\<lambda>(k, _). has_prefix k p) (bk_seek B b p)"
  unfolding cursor_prefix_def
  by (rule takeWhile_eq_filter_down)
     (rule sorted_wrt_mono_rel [OF _ seek_prefix_closed], auto split: prod.splits)

lemma cursor_distinct: "distinct (map fst (cursor_prefix B b p))"
proof -
  have "distinct (map fst (bk_seek B b p))" using seek_order strict_sorted_iff by blast
  then show ?thesis unfolding cursor_filter by (rule distinct_map_filter)
qed

lemma cursor_map_of: "map_of (cursor_prefix B b p) = bk_get B b |` {k. has_prefix k p}"
  unfolding cursor_filter map_of_filter_key
  by (auto simp: seek_entries restrict_map_def fun_eq_iff has_prefix_le)

lemma cursor_set:
  "set (cursor_prefix B b (family_prefix f)) = {(family_prefix f @ k, d) |k d. bview B b f k = Some d}"
proof -
  have "(j, d) \<in> set (cursor_prefix B b (family_prefix f)) \<longleftrightarrow>
      has_prefix j (family_prefix f) \<and> bk_get B b j = Some d" for j d
    using cursor_distinct [of b "family_prefix f"]
    by (subst map_of_eq_Some_distinct [symmetric]) (auto simp: cursor_map_of restrict_map_def split: if_splits)
  then show ?thesis by (auto simp: bview_def elim!: has_prefixE)
qed

lemma delete_keys_get: "delete_keys B ks b = Inr b' \<Longrightarrow> bk_get B b' = bk_get B b |` (- set ks)"
  by (induction ks arbitrary: b)
     (auto simp: delete_keys_def res_bind_Inr get_delete restrict_map_def fun_eq_iff)

lemma bview_delete_keys:
  assumes "delete_keys B ks b = Inr b'"
  shows "bview B b' f k = (if family_prefix f @ k \<in> set ks then None else bview B b f k)"
  using delete_keys_get [OF assms] by (simp add: bview_def restrict_map_def)

lemma hits_mem:
  "family_prefix g @ k \<in> set (map fst (filter (\<lambda>(k, v). P v) (cursor_prefix B b (family_prefix f)))) \<longleftrightarrow>
     g = f \<and> (\<exists>d. bview B b f k = Some d \<and> P d)"
  by (auto simp: cursor_set family_prefix_inject image_iff)

text \<open>Delete the entries of a family that satisfy \<open>P\<close>.\<close>

lemma drop_writes:
  "writes (kview B) st
     (db_update (\<lambda>b. let stale = map fst (filter (\<lambda>(_, v). P v) (cursor_prefix B b (family_prefix f)))
        in txn_unit (delete_keys B stale b)) st)
     (spec_drop f (\<lambda>_. P))"
proof (rule db_update_writes)
  fix x b
  let ?b = "kv_bucket st"
  let ?ks = "map fst (filter (\<lambda>(_, v). P v) (cursor_prefix B ?b (family_prefix f)))"
  assume "(let stale = ?ks in txn_unit (delete_keys B stale ?b)) = Inr (x, b)"
  then have d: "delete_keys B ?ks ?b = Inr b" by (auto simp: txn_unit_def res_bind_Inr)
  have m: "family_prefix g @ k \<in> set ?ks \<longleftrightarrow> g = f \<and> (\<exists>v. bview B ?b f k = Some v \<and> P v)" for g k
    by (rule hits_mem)
  show "bview B b = spec_drop f (\<lambda>_. P) (bview B ?b)"
    by (auto simp: fun_eq_iff bview_delete_keys [OF d] m spec_drop_def simp del: set_map split: option.splits)
qed

end

section \<open>Collecting scans\<close>

lemma fold_collect:
  "fold_res (\<lambda>(k, v) ks. res_bind (dec v) (\<lambda>r. Inr (if m r then ks @ [k] else ks))) xs ks0 = Inr ks \<longleftrightarrow>
     (\<forall>(k, v) \<in> set xs. \<exists>r. dec v = Inr r) \<and>
     ks = ks0 @ map fst (filter (\<lambda>(k, v). case dec v of Inl _ \<Rightarrow> False | Inr r \<Rightarrow> m r) xs)"
proof (induction xs arbitrary: ks0)
  case (Cons x xs)
  obtain k v where x: "x = (k, v)" by fastforce
  show ?case by (cases "dec v") (auto simp: x Cons.IH)
qed auto

lemma fold_all:
  "fold_res (\<lambda>(k, v) ks. res_bind (dec v) (\<lambda>_. Inr (ks @ [k]))) xs ks0 = Inr ks \<Longrightarrow> ks = ks0 @ map fst xs"
proof (induction xs arbitrary: ks0)
  case (Cons x xs)
  obtain k v where x: "x = (k, v)" by fastforce
  show ?case using Cons.IH [of "ks0 @ [k]"] Cons.prems by (auto simp: x res_bind_Inr)
qed simp

definition ar_match :: "(Request \<Rightarrow> bool) \<Rightarrow> AuthorizeRequest \<Rightarrow> bool" where
  "ar_match m a = (case ar_Request a of None \<Rightarrow> False | Some r \<Rightarrow> m r)"

lemma scan_ar_eq:
  "scanAuthorizeRequests B b (\<lambda>k a ks.
      Inr (case ar_Request a of None \<Rightarrow> ks | Some r \<Rightarrow> if m r then ks @ [k] else ks)) ks0 =
   fold_res (\<lambda>(k, v) ks. res_bind (dec_authorize v) (\<lambda>a. Inr (if ar_match m a then ks @ [k] else ks)))
     (cursor_prefix B b (family_prefix AuthorizeReq)) ks0"
  unfolding scanAuthorizeRequests_def scanPrefix_def prefix_of_family
  by (intro arg_cong2 [of _ _ _ _ "\<lambda>f xs. fold_res f xs ks0"] ext refl)
     (auto simp: ar_match_def res_bind_def split: sum.splits option.splits prod.splits)

text \<open>The keys a revoke of \<open>m\<close> has to delete in one session family.\<close>

definition session_hits :: "'b bolt \<Rightarrow> 'b \<Rightarrow> (Request \<Rightarrow> bool) \<Rightarrow> family \<Rightarrow> string list" where
  "session_hits B b m f =
     map fst (filter (\<lambda>(k, v). case dec_request v of Inl _ \<Rightarrow> False | Inr r \<Rightarrow> m r)
       (cursor_prefix B b (family_prefix f)))"

definition ar_hits :: "'b bolt \<Rightarrow> 'b \<Rightarrow> (Request \<Rightarrow> bool) \<Rightarrow> string list" where
  "ar_hits B b m =
     map fst (filter (\<lambda>(k, v). case dec_authorize v of Inl _ \<Rightarrow> False | Inr a \<Rightarrow> ar_match m a)
       (cursor_prefix B b (family_prefix AuthorizeReq)))"

lemma scan_sessions_eq:
  "fold_res (\<lambda>p. scanRequests B b p (\<lambda>k r ks. Inr (if m r then ks @ [k] else ks))) (map family_prefix fs) ks0 =
     Inr ks \<Longrightarrow> ks = ks0 @ concat (map (session_hits B b m) fs)"
proof (induction fs arbitrary: ks0)
  case (Cons f fs)
  obtain js where j: "scanRequests B b (family_prefix f) (\<lambda>k r ks. Inr (if m r then ks @ [k] else ks)) ks0 = Inr js"
    and rest: "fold_res (\<lambda>p. scanRequests B b p (\<lambda>k r ks. Inr (if m r then ks @ [k] else ks)))
      (map family_prefix fs) js = Inr ks"
    using Cons.prems by (auto simp: res_bind_Inr)
  have "js = ks0 @ session_hits B b m f"
    using j unfolding scanRequests_def scanPrefix_def fold_collect session_hits_def by simp
  with Cons.IH [OF rest] show ?case by simp
qed simp

lemma sessionPrefixes_eq: "sessionPrefixes = map family_prefix session_families"
  by (simp add: sessionPrefixes_def session_families_def family_prefix.simps)

lemma staleRecords_eq:
  assumes "staleRecords B b m sel = Inr ks"
  shows "ks = concat (map (session_hits B b m) session_families) @ ar_hits B b m @
    (case sel of None \<Rightarrow> [] | Some select \<Rightarrow> projr (select b))"
    and "sel = Some select \<Longrightarrow> \<exists>js. select b = Inr js"
  using assms
  by (auto simp: staleRecords_def sessionPrefixes_eq res_bind_Inr scan_ar_eq fold_collect ar_hits_def
      dest!: scan_sessions_eq split: option.splits)

text \<open>The registrations a selector picks: exactly the stored ones with a key in \<open>Q\<close>.\<close>

definition selects :: "'b bolt \<Rightarrow> ('b \<Rightarrow> string list result) option \<Rightarrow> (string \<Rightarrow> bool) \<Rightarrow> bool" where
  "selects B sel Q \<longleftrightarrow>
     (case sel of
        None \<Rightarrow> \<forall>k. \<not> Q k
      | Some select \<Rightarrow> \<forall>b ks. select b = Inr ks \<longrightarrow> distinct ks \<and>
          set ks = {family_prefix ClientReg @ k |k. Q k \<and> bview B b ClientReg k \<noteq> None})"

context bolt_bucket begin

lemma session_hits_mem:
  "family_prefix g @ k \<in> set (session_hits B b m f) \<longleftrightarrow>
     g = f \<and> (\<exists>d. bview B b f k = Some d \<and> (case dec_request d of Inl _ \<Rightarrow> False | Inr r \<Rightarrow> m r))"
  unfolding session_hits_def by (rule hits_mem)

lemma ar_hits_mem:
  "family_prefix g @ k \<in> set (ar_hits B b m) \<longleftrightarrow>
     g = AuthorizeReq \<and> (\<exists>d. bview B b AuthorizeReq k = Some d \<and>
       (case dec_authorize d of Inl _ \<Rightarrow> False | Inr a \<Rightarrow> ar_match m a))"
  unfolding ar_hits_def by (rule hits_mem)

lemma stale_mem:
  assumes "staleRecords B b m sel = Inr ks" and "selects B sel Q"
  shows "family_prefix f @ k \<in> set ks \<longleftrightarrow> (\<exists>d. bview B b f k = Some d \<and> revoke_hits m Q f k d)"
proof -
  have reg: "family_prefix f @ k \<in> set (case sel of None \<Rightarrow> [] | Some select \<Rightarrow> projr (select b)) \<longleftrightarrow>
      f = ClientReg \<and> Q k \<and> bview B b ClientReg k \<noteq> None"
  proof (cases sel)
    case None
    then show ?thesis using assms(2) by (simp add: selects_def)
  next
    case (Some select)
    then obtain js where js: "select b = Inr js" using staleRecords_eq(2) [OF assms(1)] by blast
    then have "set js = {family_prefix ClientReg @ k |k. Q k \<and> bview B b ClientReg k \<noteq> None}"
      using assms(2) Some by (simp add: selects_def)
    then show ?thesis by (auto simp: Some js family_prefix_inject)
  qed
  have "family_prefix f @ k \<in> set ks \<longleftrightarrow>
      (\<exists>g \<in> set session_families. family_prefix f @ k \<in> set (session_hits B b m g)) \<or>
      family_prefix f @ k \<in> set (ar_hits B b m) \<or>
      family_prefix f @ k \<in> set (case sel of None \<Rightarrow> [] | Some select \<Rightarrow> projr (select b))"
    unfolding staleRecords_eq(1) [OF assms(1)] set_append set_concat set_map by blast
  also have "\<dots> \<longleftrightarrow> (\<exists>d. bview B b f k = Some d \<and> revoke_hits m Q f k d)"
    unfolding session_hits_mem ar_hits_mem reg
    by (cases f) (auto simp: revoke_hits_def session_families_def ar_match_def split: sum.splits)
  finally show ?thesis .
qed

lemma revoke_writes:
  assumes "selects B sel Q"
  shows "writes (kview B) st (revoke B m sel st) (spec_revoke m Q)"
  unfolding revoke_def
proof (rule db_update_writes)
  fix x b
  assume "res_bind (staleRecords B (kv_bucket st) m sel) (\<lambda>stale.
     res_bind (delete_keys B stale (kv_bucket st)) (\<lambda>b'. Inr (int (length stale), b'))) = Inr (x, b)"
  then obtain ks where ks: "staleRecords B (kv_bucket st) m sel = Inr ks"
    and d: "delete_keys B ks (kv_bucket st) = Inr b"
    by (auto simp: res_bind_Inr)
  show "bview B b = spec_revoke m Q (bview B (kv_bucket st))"
    by (auto simp: fun_eq_iff bview_delete_keys [OF d] stale_mem [OF ks assms] spec_revoke_def
        split: option.splits)
qed

lemma selects_client:
  "selects B (Some (\<lambda>b. Inr (case bk_get B b (clientPrefix @ cid) of
      None \<Rightarrow> [] | Some _ \<Rightarrow> [clientPrefix @ cid]))) (\<lambda>k. k = cid)"
  by (auto simp: selects_def prefix_of_family bview_def split: option.splits)

lemma selects_none: "selects B None (\<lambda>_. False)"
  by (simp add: selects_def)

lemma selects_all: "selects B (Some (allClientKeys B)) (\<lambda>_. True)"
proof -
  have *: "ks = map fst (cursor_prefix B b (family_prefix ClientReg))" if "allClientKeys B b = Inr ks" for b ks
    using fold_all [of dec_client "cursor_prefix B b (family_prefix ClientReg)" "[]" ks] that
    by (simp add: allClientKeys_def scanClients_def scanPrefix_def prefix_of_family)
  show ?thesis
    unfolding selects_def option.case
    by (intro allI impI) (auto dest!: * simp: cursor_distinct cursor_set image_iff)
qed

end

section \<open>The backend meets the contracts\<close>

text \<open>The bbolt implementation of the interfaces of \<open>Repository\<close>.\<close>

fun kvs_ss_create :: "'b bolt \<Rightarrow> family \<Rightarrow> string \<Rightarrow> FRequest \<Rightarrow> (unit, 'b kvs) act" where
  "kvs_ss_create B AuthorizeCode k q st = kvs_CreateAuthorizeCodeSession B k q st"
| "kvs_ss_create B AccessToken k q st = kvs_CreateAccessTokenSession B k q st"
| "kvs_ss_create B RefreshToken k q st = kvs_CreateRefreshTokenSession B k [] q st"
| "kvs_ss_create B PkceRequest k q st = kvs_CreatePKCERequestSession B k q st"
| "kvs_ss_create B _ k q st = (Inl ErrNotImplemented, st)"

fun kvs_ss_get :: "'b bolt \<Rightarrow> family \<Rightarrow> string \<Rightarrow> Session option \<Rightarrow> (FRequest, 'b kvs) query" where
  "kvs_ss_get B AuthorizeCode k sess st = kvs_GetAuthorizeCodeSession B k sess st"
| "kvs_ss_get B AccessToken k sess st = kvs_GetAccessTokenSession B k sess st"
| "kvs_ss_get B RefreshToken k sess st = kvs_GetRefreshTokenSession B k sess st"
| "kvs_ss_get B PkceRequest k sess st = kvs_GetPKCERequestSession B k sess st"
| "kvs_ss_get B _ k sess st = Inl ErrNotImplemented"

fun kvs_ss_delete :: "'b bolt \<Rightarrow> family \<Rightarrow> string \<Rightarrow> (unit, 'b kvs) act" where
  "kvs_ss_delete B AuthorizeCode k st = kvs_InvalidateAuthorizeCodeSession B k st"
| "kvs_ss_delete B AccessToken k st = kvs_DeleteAccessTokenSession B k st"
| "kvs_ss_delete B RefreshToken k st = kvs_DeleteRefreshTokenSession B k st"
| "kvs_ss_delete B PkceRequest k st = kvs_DeletePKCERequestSession B k st"
| "kvs_ss_delete B _ k st = (Inl ErrNotImplemented, st)"

definition kvs_SessionStorage :: "'b bolt \<Rightarrow> 'b kvs SessionStorage" where
  "kvs_SessionStorage B =
     \<lparr>ss_create = kvs_ss_create B, ss_get = kvs_ss_get B, ss_delete = kvs_ss_delete B,
      ss_RotateRefreshToken = kvs_RotateRefreshToken B,
      ss_RevokeRefreshToken = kvs_RevokeRefreshToken B,
      ss_RevokeAccessToken = kvs_RevokeAccessToken B\<rparr>"

definition kvs_DynamicClientStorage :: "'b bolt \<Rightarrow> 'b kvs DynamicClientStorage" where
  "kvs_DynamicClientStorage B =
     \<lparr>ds_GetClient = kvs_GetClient B, ds_RegisterClient = kvs_RegisterClient B,
      ds_GetClientName = kvs_GetClientName B, ds_TouchClient = kvs_TouchClient B,
      ds_CountClients = kvs_CountClients B\<rparr>"

definition kvs_AuthorizeRequestStorage ::
  "'b bolt \<Rightarrow> (string \<Rightarrow> string option) \<Rightarrow> 'b kvs AuthorizeRequestStorage" where
  "kvs_AuthorizeRequestStorage B reparse =
     \<lparr>as_CreateAuthorizeRequest = kvs_CreateAuthorizeRequest B,
      as_GetAuthorizeRequest = kvs_GetAuthorizeRequest B reparse,
      as_DeleteAuthorizeRequest = kvs_DeleteAuthorizeRequest B\<rparr>"

definition kvs_UserStorage :: "'b bolt \<Rightarrow> 'b kvs UserStorage" where
  "kvs_UserStorage B =
     \<lparr>us_GetUser = kvs_GetUser B, us_CreateUser = kvs_CreateUser B, us_UpdateUser = kvs_UpdateUser B,
      us_AddWebAuthnCredential = kvs_AddWebAuthnCredential B,
      us_ListWebAuthnCredentials = kvs_ListWebAuthnCredentials B,
      us_UpdateWebAuthnCredential = kvs_UpdateWebAuthnCredential B,
      us_DeleteWebAuthnCredential = kvs_DeleteWebAuthnCredential B\<rparr>"

definition kvs_MaintenanceStorage :: "'b bolt \<Rightarrow> 'b kvs MaintenanceStorage" where
  "kvs_MaintenanceStorage B =
     \<lparr>ms_DeleteExpiredSessions = kvs_DeleteExpiredSessions B,
      ms_EnsureSchemaVersion = kvs_EnsureSchemaVersion B,
      ms_DeleteExpiredClients = kvs_DeleteExpiredClients B\<rparr>"

definition kvs_InventoryStorage :: "'b bolt \<Rightarrow> 'b kvs InventoryStorage" where
  "kvs_InventoryStorage B =
     \<lparr>is_RevokeClient = kvs_RevokeClient B, is_RevokeGrant = kvs_RevokeGrant B,
      is_RevokeAll = kvs_RevokeAll B\<rparr>"

lemmas kvs_session_defs =
  kvs_CreateAuthorizeCodeSession_def kvs_GetAuthorizeCodeSession_def
  kvs_InvalidateAuthorizeCodeSession_def kvs_CreateAccessTokenSession_def
  kvs_GetAccessTokenSession_def kvs_DeleteAccessTokenSession_def
  kvs_CreateRefreshTokenSession_def kvs_GetRefreshTokenSession_def
  kvs_DeleteRefreshTokenSession_def kvs_CreatePKCERequestSession_def
  kvs_GetPKCERequestSession_def kvs_DeletePKCERequestSession_def

lemma session_family_cases:
  assumes "f \<in> set session_families"
  obtains "f = AccessToken" | "f = RefreshToken" | "f = AuthorizeCode" | "f = PkceRequest"
  using assms by (auto simp: session_families_def)

context bolt_bucket begin

lemma list_credentials_view:
  assumes "kvs_ListWebAuthnCredentials B uid st = Inr cs"
  shows "set cs = {c. \<exists>k. kview B st Credential k = Some (DCredential c) \<and> wc_UserID c = uid}"
proof -
  have *: "fold_res (\<lambda>(_, v) acc. res_bind (dec_credential v) (\<lambda>c.
         Inr (if wc_UserID c = uid then acc @ [c] else acc))) xs ys = Inr zs \<Longrightarrow>
      set zs = set ys \<union> {c. \<exists>k. (k, DCredential c) \<in> set xs \<and> wc_UserID c = uid}" for xs ys zs
  proof (induction xs arbitrary: ys)
    case (Cons x xs)
    obtain k v where x: "x = (k, v)" by fastforce
    obtain c where v: "v = DCredential c" using Cons.prems by (auto simp: x res_bind_Inr)
    show ?case using Cons.IH [of "if wc_UserID c = uid then ys @ [c] else ys"] Cons.prems
      by (auto simp: x v)
  qed simp
  show ?thesis
    using assms
    by (auto simp: kvs_ListWebAuthnCredentials_def db_view_def res_bind_Inr prefix_of_family
        cursor_set kview_def dest!: *)
qed

lemma touch_writes:
  "writes (kview B) st (kvs_TouchClient B cid t st)
    (\<lambda>V. case V ClientReg cid of
       Some (DClient c) \<Rightarrow>
         if time_is_zero (cl_ExpiresAt c) then V
         else spec_put ClientReg cid (DClient (c\<lparr>cl_ExpiresAt := t\<rparr>)) V
     | _ \<Rightarrow> V)"
proof (cases "kvs_get B (family_prefix ClientReg @ cid) dec_client st")
  case (Inl e)
  then show ?thesis by (simp add: kvs_TouchClient_def prefix_of_family writes_def)
next
  case (Inr c)
  then have c: "kview B st ClientReg cid = Some (DClient c)"
    by (auto simp: get_view res_bind_Inr get_doc_def split: option.splits)
  show ?thesis
  proof (cases "time_is_zero (cl_ExpiresAt c)")
    case True
    then show ?thesis using Inr c by (simp add: kvs_TouchClient_def prefix_of_family writes_def)
  next
    case False
    then show ?thesis using Inr c
      by (auto simp: kvs_TouchClient_def prefix_of_family intro!: writes_cong [OF update_writes])
  qed
qed

lemma register_writes:
  "writes (kview B) st (kvs_RegisterClient B g created now st)
    (spec_put ClientReg (fc_ID (cr_Client g))
      (DClient ((FromFositeClient (cr_Client g))
        \<lparr>cl_Name := cr_Name g, cl_CreatedAt := created, cl_ExpiresAt := cr_ExpiresAt g\<rparr>)))"
  unfolding kvs_RegisterClient_def Let_def prefix_of_family
  by (rule db_update_writes) (auto simp: txn_unit_def res_bind_Inr bview_put split: if_splits)

end

sublocale bolt_bucket \<subseteq>
  repository "kvs_SessionStorage B" "kvs_AuthorizeRequestStorage B reparse"
    "kvs_DynamicClientStorage B" "kvs_UserStorage B" "kvs_InventoryStorage B" "kview B" reparse
  for reparse :: "string \<Rightarrow> string option"
proof (unfold_locales, goal_cases)
  case (1 f k sess s)
  then show ?case
    by (elim session_family_cases)
       (simp_all add: kvs_SessionStorage_def kvs_session_defs prefix_of_family get_request_view)
next
  case (2 f s k q)
  then show ?case
    by (elim session_family_cases)
       (simp_all add: kvs_SessionStorage_def kvs_session_defs prefix_of_family create_writes)
next
  case (3 f s k)
  then show ?case
    by (elim session_family_cases)
       (simp_all add: kvs_SessionStorage_def kvs_session_defs prefix_of_family delete_writes)
next
  case (4 k s)
  then show ?case
    by (auto simp: kvs_AuthorizeRequestStorage_def kvs_GetAuthorizeRequest_def prefix_of_family get_view
        res_bind_def split: sum.splits)
next
  case (5 s q)
  then show ?case
    by (simp add: kvs_AuthorizeRequestStorage_def kvs_CreateAuthorizeRequest_def prefix_of_family create_writes)
next
  case (6 s k)
  then show ?case
    by (simp add: kvs_AuthorizeRequestStorage_def kvs_DeleteAuthorizeRequest_def prefix_of_family delete_writes)
next
  case (7 cid now s)
  then show ?case
    by (auto simp: kvs_DynamicClientStorage_def kvs_GetClient_def spec_client_def prefix_of_family get_view
        res_bind_def split: sum.splits)
next
  case (8 s cid t)
  then show ?case by (simp add: kvs_DynamicClientStorage_def touch_writes)
next
  case (9 s g created now)
  then show ?case by (simp add: kvs_DynamicClientStorage_def register_writes)
next
  case (10 s)
  then show ?case by (simp add: kvs_UserStorage_def kvs_GetUser_def prefix_of_family(14) get_view del: append_Nil2)
next
  case (11 s u)
  then show ?case by (simp add: kvs_UserStorage_def kvs_CreateUser_def prefix_of_family(14) create_writes del: append_Nil2)
next
  case (12 s u)
  then show ?case by (simp add: kvs_UserStorage_def kvs_UpdateUser_def prefix_of_family(14) update_writes del: append_Nil2)
next
  case (13 s k)
  then show ?case
    by (simp add: kvs_UserStorage_def kvs_DeleteWebAuthnCredential_def prefix_of_family delete_writes)
next
  case (14 uid s cs)
  then show ?case by (simp add: kvs_UserStorage_def list_credentials_view)
next
  case (15 s cid)
  then show ?case
    by (simp add: kvs_InventoryStorage_def kvs_RevokeClient_def revoke_writes [OF selects_client])
next
  case (16 s rid)
  then show ?case
    by (simp add: kvs_InventoryStorage_def kvs_RevokeGrant_def revoke_writes [OF selects_none])
next
  case (17 s)
  then show ?case
    by (simp add: kvs_InventoryStorage_def kvs_RevokeAll_def revoke_writes [OF selects_all])
qed

end
