(* ===== verification/KvsProps.thy ===== *)
theory KvsProps
  imports KvsStore
begin

text \<open>
  What the bbolt backend promises: atomic and complete revocation, the registration cap, exact
  sweeping, the schema guard, and the typing invariant of every reachable store.
\<close>

section \<open>Evaluation on the reference bucket\<close>

lift_definition rb_list :: "ref_bucket \<Rightarrow> (string \<times> doc) list" is "\<lambda>b. b" .

lemma rb_list_simps [simp]:
  "rb_list rb_empty = []"
  "rb_list (rb_insert b k d) =
     filter (\<lambda>(j, _). j < k) (rb_list b) @ (k, d) # filter (\<lambda>(j, _). k < j) (rb_list b)"
  "rb_list (rb_remove b k) = filter (\<lambda>(j, _). j \<noteq> k) (rb_list b)"
  by (transfer, simp)+

lemma rb_seek_list: "rb_seek b p = filter (\<lambda>(k, _). p \<le> k) (rb_list b)"
  by transfer (simp add: ref_seek_def)

definition empty_kvs :: "ref_bucket kvs" where
  "empty_kvs = \<lparr>kv_bucket = rb_empty, kv_faults = []\<rparr>"

lemmas kvs_eval = db_update_def db_view_def txn_unit_def kvs_create_def kvs_get_def kvs_delete_def
  kvs_update_def ref_bolt_def cursor_prefix_def rb_seek_list delete_keys_def prefix_defs
  less_char_def less_eq_char_def

section \<open>Revocation\<close>

lemma subsets_disjoint:
  "A \<subseteq> X \<Longrightarrow> C \<subseteq> Y \<Longrightarrow> D \<subseteq> Z \<Longrightarrow> X \<inter> Y = {} \<Longrightarrow> X \<inter> Z = {} \<Longrightarrow> A \<inter> (C \<union> D) = {}"
  by blast

lemma family_ranges: "f \<noteq> g \<Longrightarrow> range ((@) (family_prefix f)) \<inter> range ((@) (family_prefix g)) = {}"
  by (auto simp: family_prefix_inject)

context bolt_bucket begin

lemma stale_distinct:
  assumes "staleRecords B b m sel = Inr ks" and "selects B sel Q"
  shows "distinct ks"
proof -
  have d: "distinct (session_hits B b m f)" for f
    unfolding session_hits_def using cursor_distinct by (rule distinct_map_filter)
  have sub: "set (session_hits B b m f) \<subseteq> range ((@) (family_prefix f))" for f
    by (auto simp: session_hits_def cursor_set)
  have disj: "set (session_hits B b m f) \<inter> set (session_hits B b m g) = {}" if "f \<noteq> g" for f g
    using sub [of f] sub [of g] family_ranges [OF that] by blast
  have ar: "distinct (ar_hits B b m)" "set (ar_hits B b m) \<subseteq> range ((@) (family_prefix AuthorizeReq))"
    unfolding ar_hits_def using cursor_distinct [of b "family_prefix AuthorizeReq"]
    by (auto simp: cursor_set intro: distinct_map_filter)
  let ?r = "case sel of None \<Rightarrow> [] | Some select \<Rightarrow> projr (select b)"
  have r: "distinct ?r \<and> set ?r \<subseteq> range ((@) (family_prefix ClientReg))"
  proof (cases sel)
    case (Some select)
    then obtain js where "select b = Inr js" using staleRecords_eq(2) [OF assms(1)] by blast
    then show ?thesis using assms(2) Some by (auto simp: selects_def)
  qed simp
  have arr: "set (ar_hits B b m) \<inter> set ?r = {}"
    using ar(2) r family_ranges [of AuthorizeReq ClientReg] by blast
  have ses: "set (session_hits B b m f) \<inter> (set (ar_hits B b m) \<union> set ?r) = {}" if "f \<in> set session_families" for f
  proof -
    have "f \<noteq> AuthorizeReq" "f \<noteq> ClientReg" using that by (auto simp: session_families_def)
    then have "range ((@) (family_prefix f)) \<inter> range ((@) (family_prefix AuthorizeReq)) = {}"
      "range ((@) (family_prefix f)) \<inter> range ((@) (family_prefix ClientReg)) = {}"
      using family_ranges by blast+
    then show ?thesis by (rule subsets_disjoint [OF sub [of f] ar(2) conjunct2 [OF r]])
  qed
  have "distinct (concat (map (session_hits B b m) session_families))"
    by (simp add: session_families_def d disj Int_Un_distrib)
  moreover have "distinct (ar_hits B b m @ ?r)"
    unfolding distinct_append using ar(1) r arr by blast
  moreover have "set (concat (map (session_hits B b m) session_families)) \<inter> set (ar_hits B b m @ ?r) = {}"
    unfolding set_append set_concat set_map using ses by blast
  ultimately show ?thesis
    unfolding staleRecords_eq(1) [OF assms(1)] distinct_append [of "concat _"] by blast
qed

lemma revoke_count:
  assumes "revoke B m sel st = (Inr n, st')" and "selects B sel Q"
  shows "n = int (card {(f, k). kview B st f k \<noteq> None \<and> kview B st' f k = None})"
proof -
  obtain ks where ks: "staleRecords B (kv_bucket st) m sel = Inr ks" and n: "n = int (length ks)"
    using assms(1) unfolding revoke_def by (auto dest!: db_update_result simp: res_bind_Inr)
  have v: "kview B st' = spec_revoke m Q (kview B st)"
    using revoke_writes [OF assms(2), of st m] assms(1) by (simp add: writes_def)
  let ?S = "{(f, k). kview B st f k \<noteq> None \<and> kview B st' f k = None}"
  have mem: "(f, k) \<in> ?S \<longleftrightarrow> family_prefix f @ k \<in> set ks" for f k
    unfolding stale_mem [OF ks assms(2)] v
    by (auto simp: spec_revoke_def kview_def split: option.splits)
  have sub: "set ks \<subseteq> (\<lambda>(f, k). family_prefix f @ k) ` UNIV"
  proof -
    have "set (session_hits B (kv_bucket st) m f) \<subseteq> range ((@) (family_prefix f))" for f
      by (auto simp: session_hits_def cursor_set)
    moreover have "set (ar_hits B (kv_bucket st) m) \<subseteq> range ((@) (family_prefix AuthorizeReq))"
      by (auto simp: ar_hits_def cursor_set)
    moreover have "set (case sel of None \<Rightarrow> [] | Some select \<Rightarrow> projr (select (kv_bucket st)))
        \<subseteq> range ((@) (family_prefix ClientReg))"
    proof (cases sel)
      case (Some select)
      then obtain js where "select (kv_bucket st) = Inr js" using staleRecords_eq(2) [OF ks] by blast
      then show ?thesis using assms(2) Some by (auto simp: selects_def)
    qed simp
    ultimately show ?thesis
      unfolding staleRecords_eq(1) [OF ks] set_append set_concat set_map by fastforce
  qed
  have inj: "inj (\<lambda>(f, k). family_prefix f @ k)"
    by (auto intro!: injI simp: family_prefix_inject)
  have "(\<lambda>(f, k). family_prefix f @ k) ` ?S = set ks"
  proof
    show "(\<lambda>(f, k). family_prefix f @ k) ` ?S \<subseteq> set ks" by (auto simp flip: mem)
    show "set ks \<subseteq> (\<lambda>(f, k). family_prefix f @ k) ` ?S"
    proof
      fix x assume x: "x \<in> set ks"
      with sub obtain f k where "x = family_prefix f @ k" by auto
      with x mem show "x \<in> (\<lambda>(f, k). family_prefix f @ k) ` ?S" by force
    qed
  qed
  moreover have "card ((\<lambda>(f, k). family_prefix f @ k) ` ?S) = card ?S"
    by (rule card_image) (rule inj_on_subset [OF inj subset_UNIV])
  ultimately have "card ?S = card (set ks)" by simp
  then show ?thesis using n stale_distinct [OF ks assms(2)] by (simp add: distinct_card)
qed

lemma revoke_error: "revoke B m sel st = (Inl e, st') \<Longrightarrow> kv_bucket st' = kv_bucket st"
  by (auto simp: revoke_def db_update_def split: sum.splits prod.splits list.splits bool.splits)

end

text \<open>
  C6: the kill switch is complete, exact and atomic.  If \<open>RevokeClient\<close> reports success, then no
  access token, refresh token, authorization code, PKCE session or pending authorize request of
  the client is left and its registration is gone; every other record is as it was; and the
  reported number is the number of records that disappeared.  If it reports an error, the bucket
  is unchanged.
\<close>

theorem revoke_client_exact:
  assumes "bolt_bucket B" and "kvs_RevokeClient B cid st = (r, st')"
  shows "case r of
      Inl _ \<Rightarrow> kv_bucket st' = kv_bucket st
    | Inr n \<Rightarrow>
        kview B st' = spec_revoke (of_client cid) (\<lambda>k. k = cid) (kview B st) \<and>
        (\<forall>f k q. f \<in> set session_families \<longrightarrow> kview B st' f k = Some (DRequest q) \<longrightarrow> \<not> of_client cid q) \<and>
        (\<forall>k a q. kview B st' AuthorizeReq k = Some (DAuthorize a) \<longrightarrow> ar_Request a = Some q \<longrightarrow>
           \<not> of_client cid q) \<and>
        kview B st' ClientReg cid = None \<and>
        n = int (card {(f, k). kview B st f k \<noteq> None \<and> kview B st' f k = None})"
proof (cases r)
  case (Inl e)
  then show ?thesis
    using assms(2) bolt_bucket.revoke_error [OF assms(1)] by (simp add: kvs_RevokeClient_def)
next
  case (Inr n)
  note sel = bolt_bucket.selects_client [OF assms(1), of cid]
  have v: "kview B st' = spec_revoke (of_client cid) (\<lambda>k. k = cid) (kview B st)"
    using assms(2) Inr bolt_bucket.revoke_writes [OF assms(1) sel, of st "of_client cid"]
    by (simp add: kvs_RevokeClient_def writes_def)
  have c: "n = int (card {(f, k). kview B st f k \<noteq> None \<and> kview B st' f k = None})"
    by (rule bolt_bucket.revoke_count [OF assms(1) _ sel])
       (use assms(2) Inr in \<open>simp add: kvs_RevokeClient_def\<close>)
  show ?thesis
    unfolding Inr sum.case
    by (intro conjI v c)
       (auto simp: v spec_revoke_def revoke_hits_def session_families_def split: option.splits if_splits)
qed

definition demo_kvs :: "ref_bucket kvs" where
  "demo_kvs = \<lparr>kv_bucket = rb_insert (rb_insert rb_empty ''access_token-s'' (DRequest (demo_request ''r'' ''a'' 3)))
     ''client-a'' (DClient (demo_client ''a'' 5)), kv_faults = []\<rparr>"

lemma demo_revoke: "fst (kvs_RevokeClient ref_bolt ''a'' demo_kvs) = Inr 2"
  by (simp add: kvs_RevokeClient_def revoke_def kvs_eval demo_kvs_def staleRecords_def sessionPrefixes_def
      scanRequests_def scanAuthorizeRequests_def scanPrefix_def of_client_code demo_request_def demo_client_def)

theorem revoke_client_exact_witness:
  "\<exists>st'. kvs_RevokeClient ref_bolt ''a'' demo_kvs = (Inr 2, st') \<and> kview ref_bolt st' ClientReg ''a'' = None \<and>
     2 = int (card {(f, k). kview ref_bolt demo_kvs f k \<noteq> None \<and> kview ref_bolt st' f k = None})"
proof (cases "kvs_RevokeClient ref_bolt ''a'' demo_kvs")
  case (Pair r st')
  then have r: "r = Inr 2" using demo_revoke by simp
  show ?thesis
    using revoke_client_exact [OF reference.bolt_bucket_axioms Pair] Pair
    unfolding r sum.case by blast
qed

section \<open>The registration cap\<close>

context bolt_bucket begin

lemma count_card:
  "countNonExpiredClients B b now = int (card {k. \<exists>d. bview B b ClientReg k = Some d \<and> client_counts now d})"
proof -
  let ?xs = "filter (\<lambda>(_, v). client_counts now v) (cursor_prefix B b (family_prefix ClientReg))"
  have d: "distinct (map fst ?xs)" using cursor_distinct by (rule distinct_map_filter)
  have "set (map fst ?xs) = (@) (family_prefix ClientReg) `
      {k. \<exists>d. bview B b ClientReg k = Some d \<and> client_counts now d}"
    by (force simp: cursor_set)
  then have "card (set (map fst ?xs)) = card {k. \<exists>d. bview B b ClientReg k = Some d \<and> client_counts now d}"
    by (simp only:) (intro card_image inj_onI, simp)
  then show ?thesis
    using distinct_card [OF d] by (simp add: countNonExpiredClients_def prefix_of_family)
qed

lemma finite_counted: "finite {k. \<exists>d. bview B b ClientReg k = Some d \<and> client_counts now d}"
proof (rule finite_imageD)
  show "inj_on ((@) (family_prefix ClientReg)) {k. \<exists>d. bview B b ClientReg k = Some d \<and> client_counts now d}"
    by (simp add: inj_on_def)
  show "finite ((@) (family_prefix ClientReg) ` {k. \<exists>d. bview B b ClientReg k = Some d \<and> client_counts now d})"
  proof (rule finite_subset)
    show "(@) (family_prefix ClientReg) ` {k. \<exists>d. bview B b ClientReg k = Some d \<and> client_counts now d}
        \<subseteq> fst ` set (cursor_prefix B b (family_prefix ClientReg))"
      by (force simp: cursor_set)
    show "finite (fst ` set (cursor_prefix B b (family_prefix ClientReg)))"
      by (rule finite_imageI) (rule List.finite_set)
  qed
qed

lemma count_put:
  assumes "bview B b' = spec_put ClientReg k d (bview B b)"
  shows "countNonExpiredClients B b' now \<le> countNonExpiredClients B b now + 1"
proof -
  let ?N = "\<lambda>b. {k. \<exists>d. bview B b ClientReg k = Some d \<and> client_counts now d}"
  have "?N b' \<subseteq> insert k (?N b)" by (auto simp: assms spec_put_def split: if_splits)
  then have "card (?N b') \<le> card (insert k (?N b))"
    by (rule card_mono [rotated]) (simp add: finite_counted)
  also have "\<dots> \<le> Suc (card (?N b))" by (simp add: card_insert_if finite_counted)
  finally show ?thesis by (simp add: count_card)
qed

end

text \<open>
  The registration cap is decided inside the write transaction.  With a cap \<open>m > 0\<close>, a new
  identifier and at least \<open>m\<close> registrations that have not expired, \<open>RegisterClient\<close> answers
  \<open>ErrClientCapReached\<close> and changes nothing; and whenever a new identifier is accepted, at most
  \<open>m\<close> registrations that have not expired are stored afterwards.
\<close>

theorem register_cap:
  assumes "bolt_bucket B" and "0 < cr_MaxClients g"
    and "kview B st ClientReg (fc_ID (cr_Client g)) = None"
    and "kvs_RegisterClient B g created now st = (r, st')"
  shows "(cr_MaxClients g \<le> countNonExpiredClients B (kv_bucket st) now \<longrightarrow>
      r = Inl ErrClientCapReached \<and> st' = st) \<and>
    (r = Inr () \<longrightarrow> countNonExpiredClients B (kv_bucket st') now \<le> cr_MaxClients g)"
proof -
  have new: "bk_get B (kv_bucket st) (''client-'' @ fc_ID (cr_Client g)) = None"
    using assms(3) by (simp add: kview_def bview_def prefix_of_family)
  have full: "r = Inl ErrClientCapReached \<and> st' = st"
    if "cr_MaxClients g \<le> countNonExpiredClients B (kv_bucket st) now"
    using assms(2,4) new that by (simp add: kvs_RegisterClient_def db_update_def Let_def)
  have "countNonExpiredClients B (kv_bucket st') now \<le> cr_MaxClients g" if "r = Inr ()"
  proof -
    have "countNonExpiredClients B (kv_bucket st) now < cr_MaxClients g"
      using full that by fastforce
    moreover obtain k d where "kview B st' = spec_put ClientReg k d (kview B st)"
      by (rule that, rule writes_ok [OF _ \<open>r = Inr ()\<close>])
         (use bolt_bucket.register_writes [OF assms(1), of st g created now] assms(4) in simp)
    ultimately show ?thesis
      using bolt_bucket.count_put [OF assms(1), of "kv_bucket st'" k d "kv_bucket st" now]
      by (simp add: kview_def)
  qed
  with full show ?thesis by blast
qed

definition demo_fclient :: "string \<Rightarrow> FClient" where
  "demo_fclient cid =
     \<lparr>fc_ID = cid, fc_Secret = [], fc_RotatedSecrets = [], fc_RedirectURIs = [], fc_GrantTypes = [],
      fc_ResponseTypes = [], fc_Scopes = [], fc_Audience = [], fc_Public = True\<rparr>"

definition demo_registration :: "string \<Rightarrow> ClientRegistration" where
  "demo_registration cid =
     \<lparr>cr_Client = demo_fclient cid, cr_Name = [], cr_ExpiresAt = 9, cr_MaxClients = 1\<rparr>"

theorem register_cap_witness:
  "kvs_RegisterClient ref_bolt (demo_registration ''b'') 2 2 demo_kvs = (Inl ErrClientCapReached, demo_kvs)"
proof (cases "kvs_RegisterClient ref_bolt (demo_registration ''b'') 2 2 demo_kvs")
  case (Pair r st')
  have "kview ref_bolt demo_kvs ClientReg (fc_ID (cr_Client (demo_registration ''b''))) = None"
    by (simp add: demo_registration_def demo_fclient_def demo_kvs_def kview_def bview_def
        family_prefix.simps ref_bolt_def prefix_defs)
  moreover have "countNonExpiredClients ref_bolt (kv_bucket demo_kvs) 2 = 1"
    by (simp add: countNonExpiredClients_def kvs_eval demo_kvs_def client_counts_def demo_client_def)
  ultimately show ?thesis
    using register_cap [OF reference.bolt_bucket_axioms _ _ Pair] Pair
    by (simp add: demo_registration_def)
qed

section \<open>The schema guard\<close>

text \<open>
  A store of a newer gateway is refused untouched, and afterwards the recorded version is the
  supported one.  \<open>EnsureSchemaVersion\<close> succeeds only if the stored version was absent or not
  newer, and then the store records exactly \<open>version\<close> and is otherwise unchanged; it fails
  without a change when the stored version is newer.
\<close>

theorem schema_guard:
  assumes "bolt_bucket B" and "kvs_EnsureSchemaVersion B version st = (r, st')"
  shows "case r of
      Inr _ \<Rightarrow> kview B st' = spec_put Meta [] (DVersion version) (kview B st) \<and>
        (\<forall>w. kview B st Meta [] = Some (DVersion w) \<longrightarrow> w \<le> version)
    | Inl _ \<Rightarrow> kview B st' = kview B st \<and>
        (\<forall>w. kview B st Meta [] = Some (DVersion w) \<longrightarrow> version < w \<longrightarrow>
           r = Inl (ErrSchemaNewer w version) \<and> st' = st)"
proof -
  have g: "kvs_get B kvsSchemaVersionKey dec_version st = res_bind (get_doc (kview B st) Meta []) dec_version"
    using bolt_bucket.get_view [OF assms(1), of Meta "[]"] by (simp add: family_prefix.simps)
  have c: "writes (kview B) st (kvs_create B kvsSchemaVersionKey d st) (spec_put Meta [] d)" for d
    using bolt_bucket.create_writes [OF assms(1), of st Meta "[]" d] by (simp add: family_prefix.simps)
  have u: "writes (kview B) st (kvs_update B kvsSchemaVersionKey d st) (spec_put Meta [] d)" for d
    using bolt_bucket.update_writes [OF assms(1), of st Meta "[]" d] by (simp add: family_prefix.simps)
  show ?thesis
  proof (cases "kview B st Meta []")
    case None
    then have "kvs_EnsureSchemaVersion B version st = kvs_create B kvsSchemaVersionKey (DVersion version) st"
      by (simp add: kvs_EnsureSchemaVersion_def g get_doc_def)
    then show ?thesis
      using c [of "DVersion version"] assms(2) None by (auto simp: writes_def split: sum.splits)
  next
    case (Some d)
    show ?thesis
    proof (cases "dec_version d")
      case (Inl e)
      then have e: "e = ErrDecode" by (cases d) auto
      then have "r = Inl ErrDecode" "st' = st"
        using assms(2) Some Inl by (auto simp: kvs_EnsureSchemaVersion_def g get_doc_def)
      then show ?thesis using Some Inl by auto
    next
      case (Inr w)
      then have d: "d = DVersion w" by simp
      have s: "spec_put Meta [] (DVersion w) (kview B st) = kview B st"
        using Some d by (auto simp: spec_put_def fun_eq_iff)
      show ?thesis
        using assms(2) u [of "DVersion version"] Some Inr d s
        by (auto simp: kvs_EnsureSchemaVersion_def g get_doc_def writes_def
            split: if_splits sum.splits)
    qed
  qed
qed

theorem schema_guard_witness:
  "\<exists>st'. kvs_EnsureSchemaVersion ref_bolt 1 empty_kvs = (Inr (), st') \<and>
     kview ref_bolt st' Meta [] = Some (DVersion 1)"
proof (cases "kvs_EnsureSchemaVersion ref_bolt 1 empty_kvs")
  case (Pair r st')
  have "r = Inr ()"
    using Pair by (simp add: kvs_EnsureSchemaVersion_def kvs_eval empty_kvs_def)
  with Pair schema_guard [OF reference.bolt_bucket_axioms Pair] show ?thesis
    by (simp add: spec_put_def)
qed

section \<open>Sweeping\<close>

text \<open>The records a sweep takes: sessions requested before the cutoff of their family, and
  authorize requests that are undecodable or requested before the code cutoff.\<close>

definition session_stale :: "time \<Rightarrow> doc \<Rightarrow> bool" where
  "session_stale before d =
     (case dec_request d of Inl _ \<Rightarrow> False | Inr r \<Rightarrow> rq_RequestedAt r < before)"

definition cutoff_of :: "time \<Rightarrow> time \<Rightarrow> time \<Rightarrow> family \<Rightarrow> time" where
  "cutoff_of a rf c f = (if f = AccessToken then a else if f = RefreshToken then rf else c)"

definition sweep_stale :: "time \<Rightarrow> time \<Rightarrow> time \<Rightarrow> family \<Rightarrow> doc \<Rightarrow> bool" where
  "sweep_stale a rf c f d =
     (if f \<in> set session_families then session_stale (cutoff_of a rf c f) d
      else f = AuthorizeReq \<and> ar_stale c d)"

definition spec_sweep :: "time \<Rightarrow> time \<Rightarrow> time \<Rightarrow> store \<Rightarrow> store" where
  "spec_sweep a rf c V =
     (\<lambda>f k. case V f k of None \<Rightarrow> None | Some d \<Rightarrow> if sweep_stale a rf c f d then None else Some d)"

text \<open>A partial sweep: some stale records are gone, nothing else has changed.\<close>

definition sweep_partial :: "time \<Rightarrow> time \<Rightarrow> time \<Rightarrow> store \<Rightarrow> store \<Rightarrow> bool" where
  "sweep_partial a rf c V W \<longleftrightarrow>
     (\<forall>f k. W f k = V f k \<or> (W f k = None \<and> (\<exists>d. V f k = Some d \<and> sweep_stale a rf c f d)))"

lemma sweep_partial_refl: "sweep_partial a rf c V V"
  by (simp add: sweep_partial_def)

lemma sweep_partial_drop:
  assumes "sweep_partial a rf c V W" and "\<And>d. P d \<Longrightarrow> sweep_stale a rf c f d"
  shows "sweep_partial a rf c V (spec_drop f (\<lambda>_. P) W)"
proof -
  have "spec_drop f (\<lambda>_. P) W g k = V g k \<or>
      spec_drop f (\<lambda>_. P) W g k = None \<and> (\<exists>d. V g k = Some d \<and> sweep_stale a rf c g d)" for g k
  proof (cases "W g k")
    case None
    then have "V g k = None \<or> (\<exists>d. V g k = Some d \<and> sweep_stale a rf c g d)"
      using assms(1) by (metis sweep_partial_def)
    then show ?thesis using None by (auto simp: spec_drop_def)
  next
    case (Some d)
    then have "V g k = Some d" using assms(1) by (metis option.distinct(1) sweep_partial_def)
    then show ?thesis using Some assms(2) by (auto simp: spec_drop_def split: if_splits)
  qed
  then show ?thesis by (simp add: sweep_partial_def)
qed

context bolt_bucket begin

lemma deleteMatching_writes:
  "writes (kview B) st (deleteMatching B (family_prefix f) (\<lambda>r. rq_RequestedAt r < before) st)
     (spec_drop f (\<lambda>_. session_stale before))"
  unfolding deleteMatching_def session_stale_def by (rule drop_writes)

lemma sweepAuthorizeRequests_writes:
  "writes (kview B) st (sweepAuthorizeRequests B c st) (spec_drop AuthorizeReq (\<lambda>_. ar_stale c))"
  unfolding sweepAuthorizeRequests_def prefix_of_family by (rule drop_writes)

lemma sweep_cutoffs_spec:
  assumes "sweep_cutoffs B (map (\<lambda>f. (family_prefix f, cutf f)) fs) st = (r, st')"
    and "sweep_partial a rf c V (kview B st)"
    and "\<And>f d. f \<in> set fs \<Longrightarrow> session_stale (cutf f) d \<Longrightarrow> sweep_stale a rf c f d"
  shows "sweep_partial a rf c V (kview B st') \<and>
    (r = Inr () \<longrightarrow> kview B st' = fold (\<lambda>f. spec_drop f (\<lambda>_. session_stale (cutf f))) fs (kview B st))"
  using assms
proof (induction fs arbitrary: st)
  case (Cons f fs)
  obtain r1 st1 where m: "deleteMatching B (family_prefix f) (\<lambda>r. rq_RequestedAt r < cutf f) st = (r1, st1)"
    by fastforce
  have w: "writes (kview B) st (r1, st1) (spec_drop f (\<lambda>_. session_stale (cutf f)))"
    using deleteMatching_writes [of st f "cutf f"] m by simp
  have p: "sweep_partial a rf c V (kview B st1)"
    using writes_disj [OF w] Cons.prems(2) sweep_partial_drop [OF Cons.prems(2), of "session_stale (cutf f)" f]
      Cons.prems(3) [of f] by auto
  show ?case
  proof (cases r1)
    case (Inl e)
    then show ?thesis using Cons.prems(1) m p by auto
  next
    case (Inr u)
    then show ?thesis
      using Cons.IH [of st1] Cons.prems(1,3) m p writes_ok [OF w] by auto
  qed
qed simp

lemma sweep_spec:
  assumes "kvs_DeleteExpiredSessions B a rf c st = (r, st')"
  shows "sweep_partial a rf c (kview B st) (kview B st') \<and>
    (r = Inr () \<longrightarrow> kview B st' = spec_sweep a rf c (kview B st))"
proof -
  let ?cuts = "[(''access_token-'', a), (''refresh_token-'', rf), (''authorize_code-'', c), (''pkce_request-'', c)]"
  have cuts: "?cuts = map (\<lambda>f. (family_prefix f, cutoff_of a rf c f)) session_families"
    by (simp add: session_families_def cutoff_of_def prefix_of_family)
  obtain r1 st1 where s: "sweep_cutoffs B ?cuts st = (r1, st1)" by fastforce
  have 1: "sweep_partial a rf c (kview B st) (kview B st1) \<and>
    (r1 = Inr () \<longrightarrow> kview B st1 =
       fold (\<lambda>f. spec_drop f (\<lambda>_. session_stale (cutoff_of a rf c f))) session_families (kview B st))"
    by (rule sweep_cutoffs_spec [OF s [unfolded cuts] sweep_partial_refl]) (simp add: sweep_stale_def)
  show ?thesis
  proof (cases r1)
    case (Inl e)
    then show ?thesis using 1 assms s by (auto simp: kvs_DeleteExpiredSessions_def)
  next
    case (Inr u)
    then have s2: "sweepAuthorizeRequests B c st1 = (r, st')"
      using assms s by (simp add: kvs_DeleteExpiredSessions_def)
    have w: "writes (kview B) st1 (r, st') (spec_drop AuthorizeReq (\<lambda>_. ar_stale c))"
      using sweepAuthorizeRequests_writes [of st1 c] s2 by simp
    have p: "sweep_partial a rf c (kview B st) (kview B st')"
      using writes_disj [OF w] 1 sweep_partial_drop [of a rf c _ "kview B st1" "ar_stale c" AuthorizeReq]
      by (auto simp: sweep_stale_def session_families_def)
    have "kview B st' = spec_sweep a rf c (kview B st)" if "r = Inr ()"
    proof -
      have "kview B st' = spec_drop AuthorizeReq (\<lambda>_. ar_stale c)
          (fold (\<lambda>f. spec_drop f (\<lambda>_. session_stale (cutoff_of a rf c f))) session_families (kview B st))"
        using 1 Inr writes_ok [OF w that] by simp
      also have "\<dots> = spec_sweep a rf c (kview B st)"
      proof (intro ext)
        fix f k
        show "spec_drop AuthorizeReq (\<lambda>_. ar_stale c)
            (fold (\<lambda>f. spec_drop f (\<lambda>_. session_stale (cutoff_of a rf c f))) session_families (kview B st)) f k =
          spec_sweep a rf c (kview B st) f k"
          by (cases f; cases "kview B st f k")
             (simp_all add: session_families_def spec_drop_def spec_sweep_def sweep_stale_def cutoff_of_def)
      qed
      finally show ?thesis .
    qed
    with p show ?thesis by blast
  qed
qed

end

text \<open>
  C27: sweeping is exact.  A successful \<open>DeleteExpiredSessions\<close> leaves precisely the records that
  are not past the cutoff of their family.  A sweep that fails half-way has removed only records
  that were past it, so no live token, code or pending request is ever lost.
\<close>

theorem sweep_exact:
  assumes "bolt_bucket B" and "kvs_DeleteExpiredSessions B a rf c st = (r, st')"
  shows "sweep_partial a rf c (kview B st) (kview B st') \<and>
    (r = Inr () \<longrightarrow> kview B st' = spec_sweep a rf c (kview B st))"
  by (rule bolt_bucket.sweep_spec [OF assms])

theorem sweep_exact_witness:
  "\<exists>st'. kvs_DeleteExpiredSessions ref_bolt 4 4 4 demo_kvs = (Inr (), st') \<and>
     kview ref_bolt st' AccessToken ''s'' = None \<and> kview ref_bolt st' ClientReg ''a'' \<noteq> None"
proof (cases "kvs_DeleteExpiredSessions ref_bolt 4 4 4 demo_kvs")
  case (Pair r st')
  have "fst (kvs_DeleteExpiredSessions ref_bolt 4 4 4 demo_kvs) = Inr ()"
    by (simp add: kvs_DeleteExpiredSessions_def deleteMatching_def sweepAuthorizeRequests_def kvs_eval
        demo_kvs_def demo_request_def demo_client_def)
  then have "r = Inr ()" using Pair by simp
  then have "kview ref_bolt st' = spec_sweep 4 4 4 (kview ref_bolt demo_kvs)"
    using sweep_exact [OF reference.bolt_bucket_axioms Pair] by simp
  moreover have "kview ref_bolt demo_kvs AccessToken ''s'' = Some (DRequest (demo_request ''r'' ''a'' 3))"
    "kview ref_bolt demo_kvs ClientReg ''a'' = Some (DClient (demo_client ''a'' 5))"
    by (simp_all add: demo_kvs_def kview_def bview_def family_prefix.simps ref_bolt_def prefix_defs)
  ultimately show ?thesis
    using Pair \<open>r = Inr ()\<close>
    by (simp add: spec_sweep_def sweep_stale_def session_families_def cutoff_of_def session_stale_def
        demo_request_def)
qed

section \<open>Reachable stores\<close>

text \<open>One repository call, with any arguments and any outcome, as a step of the backend.\<close>

inductive kvs_step :: "'b bolt \<Rightarrow> 'b kvs \<Rightarrow> 'b kvs \<Rightarrow> bool" for B where
  CreateSession: "f \<in> set session_families \<Longrightarrow> kvs_step B st (snd (kvs_ss_create B f k q st))"
| DeleteSession: "f \<in> set session_families \<Longrightarrow> kvs_step B st (snd (kvs_ss_delete B f k st))"
| RotateRefreshToken: "kvs_step B st (snd (kvs_RotateRefreshToken B rid k now st))"
| RevokeRefreshToken: "kvs_step B st (snd (kvs_RevokeRefreshToken B rid st))"
| RevokeAccessToken: "kvs_step B st (snd (kvs_RevokeAccessToken B rid st))"
| DeleteExpiredSessions: "kvs_step B st (snd (kvs_DeleteExpiredSessions B a rf c st))"
| EnsureSchemaVersion: "kvs_step B st (snd (kvs_EnsureSchemaVersion B version st))"
| RegisterClient: "kvs_step B st (snd (kvs_RegisterClient B g created now st))"
| TouchClient: "kvs_step B st (snd (kvs_TouchClient B cid t st))"
| DeleteExpiredClients: "kvs_step B st (snd (kvs_DeleteExpiredClients B now st))"
| CreateAuthorizeRequest: "kvs_step B st (snd (kvs_CreateAuthorizeRequest B ar st))"
| DeleteAuthorizeRequest: "kvs_step B st (snd (kvs_DeleteAuthorizeRequest B rid st))"
| CreateUser: "kvs_step B st (snd (kvs_CreateUser B u st))"
| UpdateUser: "kvs_step B st (snd (kvs_UpdateUser B u st))"
| AddWebAuthnCredential: "kvs_step B st (snd (kvs_AddWebAuthnCredential B w st))"
| UpdateWebAuthnCredential: "kvs_step B st (snd (kvs_UpdateWebAuthnCredential B w st))"
| DeleteWebAuthnCredential: "kvs_step B st (snd (kvs_DeleteWebAuthnCredential B wid st))"
| RevokeClient: "kvs_step B st (snd (kvs_RevokeClient B cid st))"
| RevokeGrant: "kvs_step B st (snd (kvs_RevokeGrant B rid st))"
| RevokeAll: "kvs_step B st (snd (kvs_RevokeAll B st))"

inductive kvs_reachable :: "'b bolt \<Rightarrow> 'b kvs \<Rightarrow> bool" for B where
  start: "(\<And>k. bk_get B (kv_bucket st) k = None) \<Longrightarrow> kvs_reachable B st"
| step: "kvs_reachable B st \<Longrightarrow> kvs_step B st st' \<Longrightarrow> kvs_reachable B st'"

text \<open>Every family holds its own documents, and a registration is stored under its own ID.\<close>

definition store_ok :: "store \<Rightarrow> bool" where
  "store_ok V \<longleftrightarrow> typed V \<and> (\<forall>k c. V ClientReg k = Some (DClient c) \<longrightarrow> cl_ID c = k)"

lemma store_ok_client_id: "store_ok V \<Longrightarrow> V ClientReg k = Some (DClient c) \<Longrightarrow> cl_ID c = k"
  by (simp add: store_ok_def)

lemma store_ok_shrink: "store_ok V \<Longrightarrow> (\<And>f k d. W f k = Some d \<Longrightarrow> V f k = Some d) \<Longrightarrow> store_ok W"
  unfolding store_ok_def using typed_mono [of V W] by blast

lemma store_ok_put:
  assumes "store_ok V" and "doc_ok f d" and "\<And>c. f = ClientReg \<Longrightarrow> d = DClient c \<Longrightarrow> cl_ID c = k"
  shows "store_ok (spec_put f k d V)"
  using assms typed_put [of V f d k] by (auto simp: store_ok_def spec_put_def split: if_splits)

lemma store_ok_writes:
  "writes (kview B) st rs f \<Longrightarrow> store_ok (kview B st) \<Longrightarrow>
     (store_ok (kview B st) \<Longrightarrow> store_ok (f (kview B st))) \<Longrightarrow> store_ok (kview B (snd rs))"
  by (auto simp: writes_def split: prod.splits sum.splits)

lemma store_ok_delete: "store_ok V \<Longrightarrow> store_ok (spec_delete f k V)"
  by (erule store_ok_shrink) (auto simp: spec_delete_def split: if_splits)

lemma store_ok_drop: "store_ok V \<Longrightarrow> store_ok (spec_drop f P V)"
  by (erule store_ok_shrink) (auto simp: spec_drop_def split: if_splits option.splits)

lemma store_ok_revoke: "store_ok V \<Longrightarrow> store_ok (spec_revoke P Q V)"
  by (erule store_ok_shrink) (auto simp: spec_revoke_def split: if_splits option.splits)

lemma store_ok_partial: "store_ok V \<Longrightarrow> sweep_partial a rf c V W \<Longrightarrow> store_ok W"
  by (erule store_ok_shrink) (metis option.distinct(1) sweep_partial_def)

context bolt_bucket begin

lemma rotate_ok:
  assumes "store_ok (kview B st)"
  shows "store_ok (kview B (snd (kvs_RotateRefreshToken B rid k now st)))"
proof (cases "kvs_get B (family_prefix RefreshToken @ k) dec_request st")
  case (Inl e)
  then show ?thesis using assms by (simp add: kvs_RotateRefreshToken_def prefix_of_family)
next
  case (Inr r)
  then have "kview B st RefreshToken k = Some (DRequest r)"
    by (auto simp: get_view res_bind_Inr get_doc_def split: option.splits)
  then have "doc_ok RefreshToken (DRequest r)" using assms unfolding store_ok_def typed_def by blast
  then have "doc_ok RefreshToken (DRequest (r\<lparr>rq_RotatedAt := now\<rparr>))" by simp
  with assms have "store_ok (spec_put RefreshToken k (DRequest (r\<lparr>rq_RotatedAt := now\<rparr>)) (kview B st))"
    by (intro store_ok_put) auto
  then show ?thesis
    using Inr assms store_ok_writes [OF update_writes assms]
    by (simp add: kvs_RotateRefreshToken_def prefix_of_family)
qed

lemma touch_ok:
  assumes "store_ok (kview B st)"
  shows "store_ok (kview B (snd (kvs_TouchClient B cid t st)))"
  by (rule store_ok_writes [OF touch_writes assms])
     (auto split: option.splits doc.splits intro!: store_ok_put dest: store_ok_client_id)

lemma schema_ok:
  assumes "store_ok (kview B st)"
  shows "store_ok (kview B (snd (kvs_EnsureSchemaVersion B version st)))"
proof (cases "kvs_EnsureSchemaVersion B version st")
  case (Pair r st')
  then show ?thesis
    using schema_guard [OF bolt_bucket_axioms Pair] assms
    by (auto split: sum.splits intro: store_ok_put)
qed

lemma step_store_ok: "kvs_step B st st' \<Longrightarrow> store_ok (kview B st) \<Longrightarrow> store_ok (kview B st')"
proof (induction rule: kvs_step.induct)
  case (CreateSession f st k q)
  have "writes (kview B) st (kvs_ss_create B f k q st) (spec_put f k (DRequest (FromFositeReq q)))"
    using create_session [OF CreateSession(1)] by (simp add: kvs_SessionStorage_def)
  then show ?case
    by (rule store_ok_writes [OF _ CreateSession(2)])
       (use CreateSession in \<open>auto intro!: store_ok_put doc_ok_FromFositeReq simp del: doc_ok.simps\<close>)
next
  case (DeleteSession f st k)
  have "writes (kview B) st (kvs_ss_delete B f k st) (spec_delete f k)"
    using delete_session [OF DeleteSession(1)] by (simp add: kvs_SessionStorage_def)
  then show ?case by (rule store_ok_writes [OF _ DeleteSession(2)]) (rule store_ok_delete)
next
  case (DeleteExpiredSessions st a rf c)
  obtain r st' where *: "kvs_DeleteExpiredSessions B a rf c st = (r, st')" by fastforce
  then show ?case using sweep_spec [OF *] store_ok_partial [OF DeleteExpiredSessions(1)] by auto
next
  case (RevokeRefreshToken st rid)
  show ?case
    unfolding kvs_RevokeRefreshToken_def deleteMatching_def prefix_of_family
    by (rule store_ok_writes [OF drop_writes RevokeRefreshToken(1)]) (rule store_ok_drop)
next
  case (RevokeAccessToken st rid)
  show ?case
    unfolding kvs_RevokeAccessToken_def deleteMatching_def prefix_of_family
    by (rule store_ok_writes [OF drop_writes RevokeAccessToken(1)]) (rule store_ok_drop)
next
  case (RegisterClient st g created now)
  show ?case
    by (rule store_ok_writes [OF register_writes RegisterClient(1)])
       (auto intro!: store_ok_put simp: FromFositeClient_def)
next
  case (DeleteExpiredClients st now)
  show ?case
    unfolding kvs_DeleteExpiredClients_def prefix_of_family
    by (rule store_ok_writes [OF drop_writes DeleteExpiredClients(1)]) (rule store_ok_drop)
next
  case (CreateAuthorizeRequest st ar)
  show ?case
    unfolding kvs_CreateAuthorizeRequest_def prefix_of_family
    by (rule store_ok_writes [OF create_writes CreateAuthorizeRequest(1)])
       (auto intro!: store_ok_put doc_ok_FromFositeAuthorizeRequest simp del: doc_ok.simps)
next
  case (DeleteAuthorizeRequest st rid)
  show ?case
    unfolding kvs_DeleteAuthorizeRequest_def prefix_of_family
    by (rule store_ok_writes [OF delete_writes DeleteAuthorizeRequest(1)]) (rule store_ok_delete)
next
  case (CreateUser st u)
  show ?case
    unfolding kvs_CreateUser_def prefix_of_family
    by (rule store_ok_writes [OF create_writes CreateUser(1)]) (auto intro!: store_ok_put)
next
  case (UpdateUser st u)
  show ?case
    unfolding kvs_UpdateUser_def prefix_of_family
    by (rule store_ok_writes [OF update_writes UpdateUser(1)]) (auto intro!: store_ok_put)
next
  case (AddWebAuthnCredential st w)
  show ?case
    unfolding kvs_AddWebAuthnCredential_def prefix_of_family
    by (rule store_ok_writes [OF create_writes AddWebAuthnCredential(1)]) (auto intro!: store_ok_put)
next
  case (UpdateWebAuthnCredential st w)
  show ?case
    unfolding kvs_UpdateWebAuthnCredential_def prefix_of_family
    by (rule store_ok_writes [OF update_writes UpdateWebAuthnCredential(1)]) (auto intro!: store_ok_put)
next
  case (DeleteWebAuthnCredential st wid)
  show ?case
    unfolding kvs_DeleteWebAuthnCredential_def prefix_of_family
    by (rule store_ok_writes [OF delete_writes DeleteWebAuthnCredential(1)]) (rule store_ok_delete)
next
  case (RevokeClient st cid)
  show ?case
    unfolding kvs_RevokeClient_def
    by (rule store_ok_writes [OF revoke_writes [OF selects_client] RevokeClient(1)]) (rule store_ok_revoke)
next
  case (RevokeGrant st rid)
  show ?case
    unfolding kvs_RevokeGrant_def
    by (rule store_ok_writes [OF revoke_writes [OF selects_none] RevokeGrant(1)]) (rule store_ok_revoke)
next
  case (RevokeAll st)
  show ?case
    unfolding kvs_RevokeAll_def
    by (rule store_ok_writes [OF revoke_writes [OF selects_all] RevokeAll(1)]) (rule store_ok_revoke)
qed (simp_all add: rotate_ok touch_ok schema_ok)

lemma reachable_store_ok: "kvs_reachable B st \<Longrightarrow> store_ok (kview B st)"
proof (induction rule: kvs_reachable.induct)
  case (start st)
  then show ?case by (simp add: store_ok_def typed_def kview_def bview_def)
qed (rule step_store_ok)

end

section \<open>Listing and revoking in reachable stores\<close>

lemma fold_scan:
  assumes "\<forall>(k, v) \<in> set xs. \<exists>r. dec v = Inr r"
  shows "fold_res (\<lambda>(k, v) x. res_bind (dec v) (\<lambda>r. Inr (g r x))) xs x0 =
    Inr (fold g (map (projr \<circ> dec \<circ> snd) xs) x0)"
  using assms by (induction xs arbitrary: x0) auto

definition stored_requests :: "'b bolt \<Rightarrow> 'b \<Rightarrow> family \<Rightarrow> Request list" where
  "stored_requests B b f = map (projr \<circ> dec_request \<circ> snd) (cursor_prefix B b (family_prefix f))"

definition stored_clients :: "'b bolt \<Rightarrow> 'b \<Rightarrow> Client list" where
  "stored_clients B b = map (projr \<circ> dec_client \<circ> snd) (cursor_prefix B b (family_prefix ClientReg))"

definition stored_tokens :: "'b bolt \<Rightarrow> 'b \<Rightarrow> (tokenKind \<times> Request) list" where
  "stored_tokens B b =
     map (Pair accessTokenKind) (stored_requests B b AccessToken) @
     map (Pair refreshTokenKind) (stored_requests B b RefreshToken)"

context bolt_bucket begin

lemma store_ok_decodes:
  assumes "store_ok (bview B b)"
  shows "f \<in> set session_families \<Longrightarrow>
      \<forall>(k, v) \<in> set (cursor_prefix B b (family_prefix f)). \<exists>r. dec_request v = Inr r"
    and "\<forall>(k, v) \<in> set (cursor_prefix B b (family_prefix ClientReg)). \<exists>r. dec_client v = Inr r"
    and "\<forall>(k, v) \<in> set (cursor_prefix B b (family_prefix AuthorizeReq)). \<exists>r. dec_authorize v = Inr r"
proof -
  have d: "doc_ok f v" if "(k, v) \<in> set (cursor_prefix B b (family_prefix f))" for f k v
    using that assms unfolding store_ok_def typed_def by (auto simp: cursor_set)
  have "\<exists>r. v = DRequest r" if "doc_ok f v" "f \<in> set session_families" for f v
    using that by (cases v; cases f) (auto simp: session_families_def)
  then show "f \<in> set session_families \<Longrightarrow>
      \<forall>(k, v) \<in> set (cursor_prefix B b (family_prefix f)). \<exists>r. dec_request v = Inr r"
    using d by fastforce
  have "\<exists>r. v = DClient r" if "doc_ok ClientReg v" for v
    using that by (cases v) (auto simp: session_families_def)
  then show "\<forall>(k, v) \<in> set (cursor_prefix B b (family_prefix ClientReg)). \<exists>r. dec_client v = Inr r"
    using d by fastforce
  have "\<exists>r. v = DAuthorize r" if "doc_ok AuthorizeReq v" for v
    using that by (cases v) (auto simp: session_families_def)
  then show "\<forall>(k, v) \<in> set (cursor_prefix B b (family_prefix AuthorizeReq)). \<exists>r. dec_authorize v = Inr r"
    using d by fastforce
qed

lemma stored_requests_mem:
  assumes "store_ok (bview B b)" and "f \<in> set session_families"
  shows "r \<in> set (stored_requests B b f) \<longleftrightarrow> (\<exists>k. bview B b f k = Some (DRequest r))"
proof -
  have "\<exists>r. d = DRequest r" if "bview B b f k = Some d" for k d
    using store_ok_decodes(1) [OF assms] that by (fastforce simp: cursor_set)
  then show ?thesis by (force simp: stored_requests_def cursor_set)
qed

lemma stored_clients_mem:
  assumes "store_ok (bview B b)"
  shows "c \<in> set (stored_clients B b) \<longleftrightarrow> bview B b ClientReg (cl_ID c) = Some (DClient c)"
proof -
  have "\<exists>c. d = DClient c \<and> cl_ID c = k" if "bview B b ClientReg k = Some d" for k d
    using store_ok_decodes(2) [OF assms] that store_ok_client_id [OF assms] by (fastforce simp: cursor_set)
  then show ?thesis by (force simp: stored_clients_def cursor_set)
qed

lemma stored_clients_distinct:
  assumes "store_ok (bview B b)"
  shows "distinct (map cl_ID (stored_clients B b))"
proof -
  have key: "k = family_prefix ClientReg @ cl_ID (projr (dec_client v))"
    if "(k, v) \<in> set (cursor_prefix B b (family_prefix ClientReg))" for k v
  proof -
    have "\<exists>r. dec_client v = Inr r" using bspec [OF store_ok_decodes(2) [OF assms] that] by simp
    then obtain c where "v = DClient c" by auto
    then show ?thesis using that store_ok_client_id [OF assms] by (auto simp: cursor_set)
  qed
  have "map fst (cursor_prefix B b (family_prefix ClientReg)) =
      map (\<lambda>c. family_prefix ClientReg @ cl_ID c) (stored_clients B b)"
    unfolding stored_clients_def map_map by (rule map_cong) (use key in auto)
  then have "distinct (map (\<lambda>c. family_prefix ClientReg @ cl_ID c) (stored_clients B b))"
    using cursor_distinct by metis
  then show ?thesis by (simp add: distinct_map inj_on_def)
qed

lemma list_grants_ok:
  assumes "store_ok (kview B st)"
  shows "kvs_ListClientGrants B now st =
    Inr (rows now (add_records (stored_tokens B (kv_bucket st)) (stored_clients B (kv_bucket st))))"
proof -
  have ok: "store_ok (bview B (kv_bucket st))" using assms by (simp add: kview_def)
  have s: "AccessToken \<in> set session_families" "RefreshToken \<in> set session_families"
    by (simp_all add: session_families_def)
  have scan: "scanRequests B (kv_bucket st) (family_prefix f) (\<lambda>_ r i. Inr (addToken kind r i)) i =
      Inr (fold (addToken kind) (stored_requests B (kv_bucket st) f) i)" if "f \<in> set session_families" for f kind i
    unfolding scanRequests_def scanPrefix_def stored_requests_def
    by (rule fold_scan) (rule store_ok_decodes(1) [OF ok that])
  have clients: "scanClients B (kv_bucket st) (\<lambda>_ c i. Inr (addRegistration c i)) i =
      Inr (fold addRegistration (stored_clients B (kv_bucket st)) i)" for i
    unfolding scanClients_def scanPrefix_def stored_clients_def prefix_of_family
    by (rule fold_scan) (rule store_ok_decodes(2) [OF ok])
  have f: "fold (\<lambda>(kind, req). addToken kind req) (map (Pair kind) rs) i = fold (addToken kind) rs i" for kind rs i
    by (induction rs arbitrary: i) auto
  show ?thesis
    unfolding kvs_ListClientGrants_def db_view_def prefix_of_family scan [OF s(1)] scan [OF s(2)] clients
      res_bind_simps add_records_def stored_tokens_def fold_append o_apply f ..
qed

lemma fold_collect_ok:
  "\<forall>(k, v) \<in> set xs. \<exists>r. dec v = Inr r \<Longrightarrow>
   \<exists>ks. fold_res (\<lambda>(k, v) ks. res_bind (dec v) (\<lambda>r. Inr (if m r then ks @ [k] else ks))) xs ks0 = Inr ks"
  using fold_collect [of dec m xs ks0] by blast

lemma stale_ok:
  assumes "store_ok (bview B b)" and "\<And>select. sel = Some select \<Longrightarrow> \<exists>js. select b = Inr js"
  shows "\<exists>ks. staleRecords B b m sel = Inr ks"
proof -
  have s: "\<exists>ks. scanRequests B b (family_prefix f) (\<lambda>k r ks. Inr (if m r then ks @ [k] else ks)) ks0 = Inr ks"
    if "f \<in> set session_families" for f ks0
    unfolding scanRequests_def scanPrefix_def
    by (rule fold_collect_ok) (rule store_ok_decodes(1) [OF assms(1) that])
  have "\<exists>ks. fold_res (\<lambda>p. scanRequests B b p (\<lambda>k r ks. Inr (if m r then ks @ [k] else ks)))
      (map family_prefix fs) ks0 = Inr ks" if "set fs \<subseteq> set session_families" for fs ks0
    using that
  proof (induction fs arbitrary: ks0)
    case (Cons f fs)
    from s [of f ks0] Cons.prems obtain js where
      "scanRequests B b (family_prefix f) (\<lambda>k r ks. Inr (if m r then ks @ [k] else ks)) ks0 = Inr js" by auto
    then show ?case using Cons.IH [of js] Cons.prems by simp
  qed simp
  then obtain js where j: "fold_res (\<lambda>p. scanRequests B b p (\<lambda>k r ks. Inr (if m r then ks @ [k] else ks)))
      sessionPrefixes [] = Inr js" unfolding sessionPrefixes_eq by blast
  obtain ks where k: "scanAuthorizeRequests B b (\<lambda>k a ks.
      Inr (case ar_Request a of None \<Rightarrow> ks | Some r \<Rightarrow> if m r then ks @ [k] else ks)) js = Inr ks"
    unfolding scan_ar_eq using fold_collect_ok [OF store_ok_decodes(3) [OF assms(1)]] by blast
  show ?thesis using assms(2) by (cases sel) (auto simp: staleRecords_def j k)
qed

lemma all_client_keys_ok:
  assumes "store_ok (bview B b)"
  shows "\<exists>js. allClientKeys B b = Inr js"
proof -
  have "allClientKeys B b = fold_res (\<lambda>(k, v) ks. res_bind (dec_client v) (\<lambda>r. Inr (if True then ks @ [k] else ks)))
      (cursor_prefix B b (family_prefix ClientReg)) []"
    by (simp add: allClientKeys_def scanClients_def scanPrefix_def prefix_of_family)
  then show ?thesis
    using fold_collect_ok [OF store_ok_decodes(2) [OF assms], of "\<lambda>_. True" "[]"] by simp
qed

end

text \<open>
  C11: no reachable store is poisoned.  Whatever sequence of repository calls, failed commits
  included, led to the store, every family holds only its own documents, registrations sit under
  their own ID, and the scans of all three kill switches decode every record: a revoke can only
  fail because the bucket refuses a delete or the commit.
\<close>

theorem reachable_not_poisoned:
  assumes "bolt_bucket B" and "kvs_reachable B st"
  shows "store_ok (kview B st) \<and>
    (\<exists>ks. staleRecords B (kv_bucket st) m None = Inr ks) \<and>
    (\<exists>ks. staleRecords B (kv_bucket st) m (Some (allClientKeys B)) = Inr ks) \<and>
    (\<exists>ks. staleRecords B (kv_bucket st) m (Some (\<lambda>b. Inr (case bk_get B b (clientPrefix @ cid) of
        None \<Rightarrow> [] | Some _ \<Rightarrow> [clientPrefix @ cid]))) = Inr ks)"
proof -
  have ok: "store_ok (kview B st)" by (rule bolt_bucket.reachable_store_ok [OF assms])
  then have b: "store_ok (bview B (kv_bucket st))" by (simp add: kview_def)
  show ?thesis
    by (intro conjI ok bolt_bucket.stale_ok [OF assms(1) b])
       (use bolt_bucket.all_client_keys_ok [OF assms(1) b] in auto)
qed

lemma empty_reachable: "kvs_reachable ref_bolt empty_kvs"
  by (rule kvs_reachable.start) (simp add: empty_kvs_def ref_bolt_def)

theorem reachable_not_poisoned_witness:
  "store_ok (kview ref_bolt (snd (kvs_RegisterClient ref_bolt (demo_registration ''b'') 2 2 empty_kvs)))"
  using reachable_not_poisoned [OF reference.bolt_bucket_axioms
      kvs_reachable.step [OF empty_reachable kvs_step.RegisterClient]] by blast

lemma two_families:
  "(\<exists>f k r. (f = a \<or> f = b) \<and> V f k = Some (D r) \<and> Q r) \<longleftrightarrow>
     (\<exists>r. (\<exists>k. V a k = Some (D r)) \<and> Q r) \<or> (\<exists>r. (\<exists>k. V b k = Some (D r)) \<and> Q r)"
  by blast

text \<open>
  C28: the operator sees every client that holds access.  In every reachable store
  \<open>ListClientGrants\<close> succeeds, and a client has a row exactly if it has an identifier and some
  stored access or refresh token names it, or its registration is stored and has not expired.
\<close>

theorem list_grants_complete:
  assumes "bolt_bucket B" and "kvs_reachable B st"
  shows "\<exists>rs. kvs_ListClientGrants B now st = Inr rs \<and>
    (\<forall>cid. cid \<in> cg_ClientID ` set rs \<longleftrightarrow> cid \<noteq> [] \<and>
      ((\<exists>f k r. (f = AccessToken \<or> f = RefreshToken) \<and> kview B st f k = Some (DRequest r) \<and> of_client cid r) \<or>
       (\<exists>c. kview B st ClientReg cid = Some (DClient c) \<and> \<not> client_expired now c)))"
proof -
  have ok: "store_ok (kview B st)" by (rule bolt_bucket.reachable_store_ok [OF assms])
  then have b: "store_ok (bview B (kv_bucket st))" by (simp add: kview_def)
  let ?ts = "stored_tokens B (kv_bucket st)" and ?cs = "stored_clients B (kv_bucket st)"
  have m: "r \<in> set (stored_requests B (kv_bucket st) AccessToken) \<longleftrightarrow>
      (\<exists>k. kview B st AccessToken k = Some (DRequest r))"
    "r \<in> set (stored_requests B (kv_bucket st) RefreshToken) \<longleftrightarrow>
      (\<exists>k. kview B st RefreshToken k = Some (DRequest r))" for r
    using bolt_bucket.stored_requests_mem [OF assms(1) b, of _ r]
    by (simp_all add: session_families_def kview_def)
  have "(\<exists>(k, r) \<in> set ?ts. of_client cid r) \<longleftrightarrow>
      (\<exists>r. r \<in> set (stored_requests B (kv_bucket st) AccessToken) \<and> of_client cid r) \<or>
      (\<exists>r. r \<in> set (stored_requests B (kv_bucket st) RefreshToken) \<and> of_client cid r)" for cid
    by (auto simp: stored_tokens_def)
  then have t: "(\<exists>(k, r) \<in> set ?ts. of_client cid r) \<longleftrightarrow>
      (\<exists>f k r. (f = AccessToken \<or> f = RefreshToken) \<and> kview B st f k = Some (DRequest r) \<and> of_client cid r)" for cid
    unfolding m two_families .
  have c: "(\<exists>c \<in> set ?cs. cl_ID c = cid \<and> \<not> client_expired now c) \<longleftrightarrow>
      (\<exists>c. kview B st ClientReg cid = Some (DClient c) \<and> \<not> client_expired now c)" for cid
  proof -
    have "c \<in> set ?cs \<longleftrightarrow> kview B st ClientReg (cl_ID c) = Some (DClient c)" for c
      using bolt_bucket.stored_clients_mem [OF assms(1) b] by (simp add: kview_def)
    then show ?thesis unfolding Bex_def using store_ok_client_id [OF ok] by blast
  qed
  have e: "cid \<in> cg_ClientID ` set (rows now (add_records ?ts ?cs)) \<longleftrightarrow> cid \<noteq> [] \<and>
      ((\<exists>f k r. (f = AccessToken \<or> f = RefreshToken) \<and> kview B st f k = Some (DRequest r) \<and> of_client cid r) \<or>
       (\<exists>c. kview B st ClientReg cid = Some (DClient c) \<and> \<not> client_expired now c))" for cid
    unfolding complete_rows [OF bolt_bucket.stored_clients_distinct [OF assms(1) b]] t c ..
  show ?thesis
    by (rule exI [of _ "rows now (add_records ?ts ?cs)"])
       (intro conjI allI e bolt_bucket.list_grants_ok [OF assms(1) ok])
qed

theorem list_grants_complete_witness:
  "\<exists>rs. kvs_ListClientGrants ref_bolt 7 empty_kvs = Inr rs \<and> ''a'' \<notin> cg_ClientID ` set rs"
proof -
  have "kview ref_bolt empty_kvs f k = None" for f k
    by (simp add: kview_def bview_def empty_kvs_def ref_bolt_def)
  then show ?thesis
    using list_grants_complete [OF reference.bolt_bucket_axioms empty_reachable, of 7] by auto
qed

end
