(* ===== verification/KeysProps.thy ===== *)
theory KeysProps
  imports Keys
begin

text \<open>
  The key directory survives a crash at any point, a restart finds the key set of the running
  process, a rotated-out key verifies until its window closes, and the published key set is the
  set of keys the verifier accepts.
\<close>

section \<open>The cryptographic library\<close>

locale key_library =
  fixes L :: "'p key_lib"
  assumes encode_parse: "algForKey key = Inr alg \<Longrightarrow> kl_encode_pem L key = Some pem \<Longrightarrow>
      ParsePrivateKeyPEM L pem = Inr key"
    and generate_alg: "alg = AlgRS256 \<or> alg = AlgES256 \<Longrightarrow> kl_generate L alg entropy = Some key \<Longrightarrow>
      algForKey key = Inr alg"
    and fingerprint: "kl_sha256_8 L bytes \<noteq> []"

text \<open>A library for witnesses: keys that carry their entropy.\<close>

definition ref_generate :: "string \<Rightarrow> string \<Rightarrow> privkey option" where
  "ref_generate alg s =
     (if alg = AlgES256 then Some (ECPriv ''P-256'' s s) else Some (RSAPriv (2 ^ 2047) 65537 s))"

definition ref_encode :: "privkey \<Rightarrow> string option" where
  "ref_encode k =
     (case k of
        ECPriv c p d \<Rightarrow> if c = ''P-256'' \<and> p = d then Some (CHR ''E'' # d) else None
      | RSAPriv n e d \<Rightarrow> if n = 2 ^ 2047 \<and> e = 65537 then Some (CHR ''R'' # d) else None
      | _ \<Rightarrow> None)"

definition ref_parse :: "string \<Rightarrow> privkey option" where
  "ref_parse s =
     (case s of
        [] \<Rightarrow> None
      | t # d \<Rightarrow> if t = CHR ''E'' then Some (ECPriv ''P-256'' d d)
          else if t = CHR ''R'' then Some (RSAPriv (2 ^ 2047) 65537 d) else None)"

definition ref_lib :: "string key_lib" where
  "ref_lib =
     \<lparr>kl_generate = ref_generate, kl_pem_block = Some, kl_parse_pkcs8 = ref_parse,
      kl_encode_pem = ref_encode,
      kl_pkix = (\<lambda>p. case p of ECPub c s \<Rightarrow> Some s | RSAPub n e \<Rightarrow> Some ''rsa'' | OtherPub s \<Rightarrow> None),
      kl_sha256_8 = (\<lambda>b. CHR ''k'' # b)\<rparr>"

interpretation reference_keys: key_library ref_lib
  by unfold_locales
     (auto simp: ref_lib_def ref_generate_def ref_encode_def ref_parse_def ParsePrivateKeyPEM_def
       minRSAModulusBits_def AlgRS256_def AlgES256_def split: privkey.splits if_splits)

section \<open>File system steps\<close>

lemma next_call_sel [simp]:
  "ke_files (next_call e) = ke_files e" "ke_trace (next_call e) = ke_trace e"
  "ke_entropy (next_call e) = ke_entropy e"
  by (simp_all add: next_call_def)

lemma commit_sel [simp]:
  "ke_files (commit d e) = d" "ke_trace (commit d e) = ke_trace e @ [d]"
  "ke_entropy (commit d e) = ke_entropy e" "ke_faults (commit d e) = ke_faults e"
  by (simp_all add: commit_def)

lemma fs_read_sel [simp]:
  "ke_files (snd (fs_read p e)) = ke_files e" "ke_trace (snd (fs_read p e)) = ke_trace e"
  "ke_entropy (snd (fs_read p e)) = ke_entropy e"
  by (simp_all add: fs_read_def)

lemma fs_call_sel [simp]:
  "ke_files (snd (fs_call e)) = ke_files e" "ke_trace (snd (fs_call e)) = ke_trace e"
  "ke_entropy (snd (fs_call e)) = ke_entropy e"
  by (simp_all add: fs_call_def)

text \<open>\<open>grows e e' D\<close>: between \<open>e\<close> and \<open>e'\<close> only directory states in \<open>D\<close> were visible.\<close>

definition grows :: "'p keyenv \<Rightarrow> 'p keyenv \<Rightarrow> ('p dir \<Rightarrow> bool) \<Rightarrow> bool" where
  "grows e e' D \<longleftrightarrow> (\<exists>ds. ke_trace e' = ke_trace e @ ds \<and> (\<forall>d \<in> set ds. D d))"

lemma grows_refl: "ke_trace e' = ke_trace e \<Longrightarrow> grows e e' D"
  by (simp add: grows_def)

lemma grows_trans: "grows e e' D \<Longrightarrow> grows e' e'' D \<Longrightarrow> grows e e'' D"
  by (fastforce simp: grows_def)

lemma grows_mono: "grows e e' D \<Longrightarrow> (\<And>d. D d \<Longrightarrow> D' d) \<Longrightarrow> grows e e' D'"
  by (auto simp: grows_def)

lemma grows_commit: "grows e e' D \<Longrightarrow> D d \<Longrightarrow> ke_trace e'' = ke_trace e' @ [d] \<Longrightarrow> grows e e'' D"
  by (auto simp: grows_def)

lemma fs_remove_cases:
  "(ke_files (snd (fs_remove p e)) = ke_files e \<and> ke_trace (snd (fs_remove p e)) = ke_trace e) \<or>
   (ke_files (snd (fs_remove p e)) = (ke_files e)(p := None) \<and>
    ke_trace (snd (fs_remove p e)) = ke_trace e @ [(ke_files e)(p := None)])"
  by (simp add: fs_remove_def)

lemma fs_remove_entropy [simp]: "ke_entropy (snd (fs_remove p e)) = ke_entropy e"
  by (simp add: fs_remove_def)

lemma fs_write_cases:
  assumes "fs_write p c e = (r, e')"
  shows "grows e e' (\<lambda>d. \<exists>t. d = (ke_files e)(p := t)) \<and> (\<exists>t. ke_files e' = (ke_files e)(p := t)) \<and>
    (r = Inr () \<longrightarrow> ke_files e' = (ke_files e)(p \<mapsto> c)) \<and> ke_entropy e' = ke_entropy e"
proof (cases "fault_of e")
  case Refused
  then have "ke_files e' = (ke_files e)(p := ke_files e p)" using assms by (auto simp: fs_write_def)
  then show ?thesis using assms Refused by (auto simp: fs_write_def grows_def simp del: fun_upd_triv)
qed (use assms in \<open>auto simp: fs_write_def grows_def Let_def\<close>)

section \<open>Writing the manifest\<close>

text \<open>The directory apart from the temporary manifest.\<close>

definition tmp_variant :: "'p dir \<Rightarrow> 'p dir \<Rightarrow> bool" where
  "tmp_variant d0 d \<longleftrightarrow> (\<exists>t. d = d0(ManifestTmp := t))"

lemma tmp_variant_refl: "tmp_variant d d"
  unfolding tmp_variant_def by (rule exI [of _ "d ManifestTmp"]) simp

lemma tmp_variant_upd: "tmp_variant d0 d \<Longrightarrow> tmp_variant d0 (d(ManifestTmp := t))"
  by (auto simp: tmp_variant_def)

definition with_manifest :: "Manager \<Rightarrow> 'p dir \<Rightarrow> 'p dir" where
  "with_manifest m d = d(ManifestFile \<mapsto> ManifestJson (manifest_of m))"

text \<open>All states so far differ from \<open>d0\<close> in the temporary file only.\<close>

definition tmp_only :: "'p dir \<Rightarrow> 'p keyenv \<Rightarrow> 'p keyenv \<Rightarrow> bool" where
  "tmp_only d0 e e' \<longleftrightarrow> grows e e' (tmp_variant d0) \<and> tmp_variant d0 (ke_files e') \<and> ke_entropy e' = ke_entropy e"

lemma tmp_only_abandon:
  assumes "tmp_only d0 e e'"
  shows "tmp_only d0 e (abandon_tmp e')"
  using fs_remove_cases [of ManifestTmp e'] assms tmp_variant_upd [of d0 "ke_files e'" None]
  by (auto simp: tmp_only_def abandon_tmp_def intro: grows_commit grows_trans [OF _ grows_refl])

lemma tmp_only_call: "tmp_only d0 e e' \<Longrightarrow> fs_call e' = (r, e'') \<Longrightarrow> tmp_only d0 e e''"
  using fs_call_sel [of e'] by (auto simp: tmp_only_def intro: grows_trans [OF _ grows_refl])

lemma writeManifest_spec:
  assumes "writeManifest m e = (r, e')"
  shows "case r of
      Inl _ \<Rightarrow> tmp_only (ke_files e) e e'
    | Inr _ \<Rightarrow> grows e e' (\<lambda>d. tmp_variant (ke_files e) d \<or> tmp_variant (with_manifest m (ke_files e)) d) \<and>
        tmp_variant (with_manifest m (ke_files e)) (ke_files e') \<and> ke_entropy e' = ke_entropy e"
proof -
  let ?d0 = "ke_files e"
  have lift: ?thesis if "r = Inl x" "tmp_only ?d0 e e'" for x
    using that by simp
  show ?thesis
  proof (cases "fault_of e = Works")
    case False
    then have "r = Inl ErrCommit" "e' = next_call e" using assms by (auto simp: writeManifest_def)
    then show ?thesis by (intro lift) (auto simp: tmp_only_def tmp_variant_refl grows_refl)
  next
    case True
    let ?e1 = "commit (?d0(ManifestTmp \<mapsto> Torn)) (next_call e)"
    have t1: "tmp_only ?d0 e ?e1"
      by (auto simp: tmp_only_def tmp_variant_def grows_def)
    obtain r2 e2 where w: "fs_write ManifestTmp (ManifestJson (manifest_of m)) ?e1 = (r2, e2)" by fastforce
    have t2: "tmp_only ?d0 e e2"
    proof -
      have "grows ?e1 e2 (tmp_variant ?d0)"
        by (rule grows_mono [OF conjunct1 [OF fs_write_cases [OF w]]]) (auto simp: tmp_variant_def)
      moreover have "tmp_variant ?d0 (ke_files e2)"
        using fs_write_cases [OF w] by (auto simp: tmp_variant_def)
      ultimately show ?thesis
        using t1 fs_write_cases [OF w] by (auto simp: tmp_only_def intro: grows_trans)
    qed
    show ?thesis
    proof (cases r2)
      case (Inl x)
      then have "r = Inl x" "e' = abandon_tmp e2"
        using assms True w by (auto simp: writeManifest_def Let_def)
      then show ?thesis by (intro lift) (auto intro: tmp_only_abandon t2)
    next
      case (Inr u)
      have c: "ke_files e2 = ?d0(ManifestTmp \<mapsto> ManifestJson (manifest_of m))"
        using fs_write_cases [OF w] Inr by auto
      obtain r3 e3 where s: "fs_call e2 = (r3, e3)" by fastforce
      obtain r4 e4 where cl: "fs_call e3 = (r4, e4)" by fastforce
      have t3: "tmp_only ?d0 e e3" and t4: "tmp_only ?d0 e e4"
        using tmp_only_call [OF t2 s] tmp_only_call [OF _ cl] by auto
      have f4: "ke_files e4 = ke_files e2"
        using fs_call_sel(1) [of e2] fs_call_sel(1) [of e3] s cl by simp
      obtain r5 e5 where rn: "fs_rename ManifestTmp ManifestFile e4 = (r5, e5)" by fastforce
      show ?thesis
      proof (cases "\<exists>x. r3 = Inl x \<or> r4 = Inl x")
        case True
        then obtain x where "r = Inl x" "e' = abandon_tmp e3 \<or> e' = abandon_tmp e4"
          using assms \<open>fault_of e = Works\<close> w Inr s cl by (auto simp: writeManifest_def Let_def split: sum.splits)
        then show ?thesis by (intro lift) (auto intro: tmp_only_abandon t3 t4)
      next
        case False
        then obtain u3 u4 where r34: "r3 = Inr u3" "r4 = Inr u4" by (meson old.sum.exhaust)
        show ?thesis
        proof (cases r5)
          case (Inl x)
          have "tmp_only ?d0 e e5"
            using t4 rn Inl by (auto simp: fs_rename_def tmp_only_def split: if_splits intro: grows_trans [OF _ grows_refl])
          moreover have "r = Inl x" "e' = abandon_tmp e5"
            using assms \<open>fault_of e = Works\<close> w Inr s cl rn r34 Inl by (auto simp: writeManifest_def Let_def)
          ultimately show ?thesis by (intro lift) (auto intro: tmp_only_abandon)
        next
          case (Inr u5)
          have e': "r = Inr ()" "e' = e5"
            using assms \<open>fault_of e = Works\<close> w \<open>r2 = Inr u\<close> s cl rn r34 Inr by (auto simp: writeManifest_def Let_def)
          let ?new = "?d0(ManifestFile \<mapsto> ManifestJson (manifest_of m), ManifestTmp := None)"
          have "e5 = commit ?new (next_call e4)"
            using rn Inr by (auto simp: fs_rename_def f4 c split: if_splits intro!: arg_cong2 [of _ _ _ _ commit])
          moreover have "tmp_variant (with_manifest m ?d0) ?new"
            by (auto simp: tmp_variant_def with_manifest_def)
          moreover have "grows e e4 (\<lambda>d. tmp_variant ?d0 d \<or> tmp_variant (with_manifest m ?d0) d)"
            using t4 by (auto simp: tmp_only_def intro: grows_mono)
          ultimately show ?thesis
            using e' t4 by (auto simp: tmp_only_def intro: grows_commit)
        qed
      qed
    qed
  qed
qed

section \<open>The directory holds the key set\<close>

definition keys_of :: "Manager \<Rightarrow> SigningKey list" where
  "keys_of m = m_active m # map rk_Key (m_retiring m)"

definition kids_of :: "Manager \<Rightarrow> string list" where
  "kids_of m = map sk_Kid (keys_of m)"

definition key_ok :: "'p key_lib \<Rightarrow> 'p dir \<Rightarrow> SigningKey \<Rightarrow> bool" where
  "key_ok L d sk \<longleftrightarrow>
     (\<exists>pem. d (KeyFile (sk_Kid sk)) = Some (PemFile pem) \<and> ParsePrivateKeyPEM L pem = Inr (sk_Key sk)) \<and>
     algForKey (sk_Key sk) = Inr (sk_Alg sk) \<and> KeyID L (Public (sk_Key sk)) = Inr (sk_Kid sk) \<and>
     sk_Kid sk \<noteq> []"

text \<open>The manifest describes \<open>m\<close> and every key it names is on disk.\<close>

definition synced :: "'p key_lib \<Rightarrow> 'p dir \<Rightarrow> Manager \<Rightarrow> bool" where
  "synced L d m \<longleftrightarrow>
     d ManifestFile = Some (ManifestJson (manifest_of m)) \<and> list_all (key_ok L d) (keys_of m)"

text \<open>The keys that still have to verify at \<open>now\<close>.\<close>

definition live_keys :: "time \<Rightarrow> Manager \<Rightarrow> SigningKey list" where
  "live_keys now m = m_active m # map rk_Key (filter (\<lambda>r. now < rk_NotAfter r) (m_retiring m))"

lemma live_subset: "set (live_keys now m) \<subseteq> set (keys_of m)"
  by (auto simp: live_keys_def keys_of_def)

lemma key_ok_upd: "key_ok L d sk \<Longrightarrow> p \<noteq> KeyFile (sk_Kid sk) \<Longrightarrow> key_ok L (d(p := c)) sk"
  by (simp add: key_ok_def)

lemma synced_upd:
  "synced L d m \<Longrightarrow> p \<noteq> ManifestFile \<Longrightarrow> p \<notin> KeyFile ` set (kids_of m) \<Longrightarrow> synced L (d(p := c)) m"
  by (auto simp: synced_def list_all_iff kids_of_def intro: key_ok_upd)

lemma synced_tmp: "tmp_variant d0 d \<Longrightarrow> synced L d0 m \<Longrightarrow> synced L d m"
  by (auto simp: tmp_variant_def intro: synced_upd)

lemma synced_with_manifest:
  "list_all (key_ok L d) (keys_of m) \<Longrightarrow> synced L (with_manifest m d) m"
  by (auto simp: synced_def with_manifest_def list_all_iff intro: key_ok_upd)

lemma writeManifest_synced:
  assumes "writeManifest m' e = (r, e')" and "synced L (ke_files e) m"
    and "list_all (key_ok L (ke_files e)) (keys_of m')"
  shows "case r of
      Inl _ \<Rightarrow> grows e e' (\<lambda>d. synced L d m) \<and> synced L (ke_files e') m
    | Inr _ \<Rightarrow> grows e e' (\<lambda>d. synced L d m \<or> synced L d m') \<and> synced L (ke_files e') m'"
  using writeManifest_spec [OF assms(1)] assms(2) synced_with_manifest [OF assms(3)]
  by (auto simp: tmp_only_def split: sum.splits intro: grows_mono synced_tmp)

section \<open>Rotation\<close>

text \<open>The kid of the key that would be generated next.\<close>

definition next_kid :: "'p key_lib \<Rightarrow> Config \<Rightarrow> 'p keyenv \<Rightarrow> string option" where
  "next_kid L cfg e =
     (case GeneratePrivateKey L (kc_Alg cfg) (fst (take_entropy e)) of
        Inl _ \<Rightarrow> None
      | Inr key \<Rightarrow> (case KeyID L (Public key) of Inl _ \<Rightarrow> None | Inr kid \<Rightarrow> Some kid))"

definition fresh :: "'p key_lib \<Rightarrow> Manager \<Rightarrow> 'p keyenv \<Rightarrow> bool" where
  "fresh L m e \<longleftrightarrow> (case next_kid L (m_cfg m) e of None \<Rightarrow> True | Some kid \<Rightarrow> kid \<notin> set (kids_of m))"

lemma take_entropy_sel [simp]:
  "ke_files (snd (take_entropy e)) = ke_files e" "ke_trace (snd (take_entropy e)) = ke_trace e"
  by (simp_all add: take_entropy_def split: list.splits)

definition good :: "'p key_lib \<Rightarrow> Manager \<Rightarrow> 'p keyenv \<Rightarrow> bool" where
  "good L m e \<longleftrightarrow> synced L (ke_files e) m \<and> distinct (kids_of m) \<and> \<not> m_static m"

definition rotated :: "SigningKey \<Rightarrow> time \<Rightarrow> Manager \<Rightarrow> Manager" where
  "rotated sk now m = m\<lparr>m_active := sk, m_since := now,
     m_retiring := m_retiring m @ [\<lparr>rk_Key = m_active m, rk_NotAfter = now + kc_RetireWindow (m_cfg m)\<rparr>]\<rparr>"

lemma rotated_sel [simp]:
  "set (keys_of (rotated sk now m)) = insert sk (set (keys_of m))"
  "set (kids_of (rotated sk now m)) = insert (sk_Kid sk) (set (kids_of m))"
  "m_cfg (rotated sk now m) = m_cfg m" "m_static (rotated sk now m) = m_static m"
  "m_active (rotated sk now m) = sk"
  "m_retiring (rotated sk now m) =
     m_retiring m @ [\<lparr>rk_Key = m_active m, rk_NotAfter = now + kc_RetireWindow (m_cfg m)\<rparr>]"
  by (auto simp: rotated_def keys_of_def kids_of_def)

lemma distinct_rotated:
  "distinct (kids_of m) \<Longrightarrow> sk_Kid sk \<notin> set (kids_of m) \<Longrightarrow> distinct (kids_of (rotated sk now m))"
  by (auto simp: kids_of_def keys_of_def)

context key_library begin

lemma new_key_spec:
  assumes "new_key L (m_cfg m) e = (r, e')" and "good L m e" and "fresh L m e"
  shows "grows e e' (\<lambda>d. synced L d m) \<and> synced L (ke_files e') m \<and>
    (\<forall>sk. r = Inr sk \<longrightarrow> sk_Kid sk \<notin> set (kids_of m) \<and> key_ok L (ke_files e') sk)"
proof -
  obtain entropy e1 where t: "take_entropy e = (entropy, e1)" by fastforce
  have e1: "ke_files e1 = ke_files e" "ke_trace e1 = ke_trace e"
    using take_entropy_sel [of e] by (simp_all add: t)
  have s: "synced L (ke_files e) m" using assms(2) by (simp add: good_def)
  have keep: ?thesis if "e' = e1" "r = Inl x" for x
    using that e1 s by (simp add: grows_refl)
  show ?thesis
  proof (cases "GeneratePrivateKey L (kc_Alg (m_cfg m)) entropy")
    case (Inl x)
    then show ?thesis using assms(1) t by (intro keep) (auto simp: new_key_def)
  next
    case key: (Inr key)
    show ?thesis
    proof (cases "KeyID L (Public key)")
      case (Inl x)
      then show ?thesis using assms(1) t key by (intro keep) (auto simp: new_key_def)
    next
      case kid: (Inr kid)
      have f: "kid \<notin> set (kids_of m)"
        using assms(3) by (simp add: fresh_def next_kid_def t key kid)
      have alg: "algForKey key = Inr (kc_Alg (m_cfg m))"
        using key by (auto simp: GeneratePrivateKey_def split: if_splits option.splits intro: generate_alg)
      have ne: "kid \<noteq> []"
        using kid fingerprint by (auto simp: KeyID_def split: option.splits)
      show ?thesis
      proof (cases "MarshalPrivateKeyPEM L key")
        case (Inl x)
        then show ?thesis using assms(1) t key kid
          by (intro keep) (auto simp: new_key_def SavePrivateKey_def)
      next
        case (Inr pem)
        obtain r2 e2 where w: "fs_write (KeyFile kid) (PemFile pem) e1 = (r2, e2)" by fastforce
        have r: "e' = e2" "r = (case r2 of Inl x \<Rightarrow> Inl x
            | Inr _ \<Rightarrow> Inr \<lparr>sk_Kid = kid, sk_Alg = kc_Alg (m_cfg m), sk_Key = key\<rparr>)"
          using assms(1) t key kid Inr w by (auto simp: new_key_def SavePrivateKey_def split: sum.splits)
        have keyfile: "synced L ((ke_files e)(KeyFile kid := c)) m" for c
          using s f by (intro synced_upd) auto
        have p: "ParsePrivateKeyPEM L pem = Inr key"
          using Inr encode_parse [OF alg] by (auto simp: MarshalPrivateKeyPEM_def split: option.splits)
        have "grows e1 e2 (\<lambda>d. synced L d m)"
          by (rule grows_mono [OF conjunct1 [OF fs_write_cases [OF w]]]) (use keyfile e1 in auto)
        then have g: "grows e e2 (\<lambda>d. synced L d m)" using e1 by (simp add: grows_def)
        have fin: "synced L (ke_files e2) m"
          using fs_write_cases [OF w] keyfile e1 by auto
        have "key_ok L (ke_files e2) sk \<and> sk_Kid sk \<notin> set (kids_of m)" if "r = Inr sk" for sk
        proof -
          have r2: "r2 = Inr ()" using that r(2) by (cases r2) auto
          then have sk: "sk = \<lparr>sk_Kid = kid, sk_Alg = kc_Alg (m_cfg m), sk_Key = key\<rparr>"
            using that r(2) by simp
          have "ke_files e2 = (ke_files e1)(KeyFile kid \<mapsto> PemFile pem)"
            using fs_write_cases [OF w] r2 by blast
          then show ?thesis using p alg kid ne f by (simp add: sk key_ok_def)
        qed
        then show ?thesis using g fin r(1) by blast
      qed
    qed
  qed
qed

lemma rotate_spec:
  assumes "rotateLocked L now m e = (r, m', e')" and "good L m e" and "fresh L m e"
  shows "grows e e' (\<lambda>d. synced L d m \<or> synced L d m') \<and> good L m' e' \<and>
    (case r of Inl _ \<Rightarrow> m' = m
     | Inr _ \<Rightarrow> \<exists>sk. m' = rotated sk now m \<and> sk_Kid sk \<notin> set (kids_of m))"
proof -
  have st: "\<not> m_static m" and s: "synced L (ke_files e) m" using assms(2) by (simp_all add: good_def)
  obtain r1 e1 where n: "new_key L (m_cfg m) e = (r1, e1)" by fastforce
  note n_spec = new_key_spec [OF n assms(2,3)]
  show ?thesis
  proof (cases r1)
    case (Inl x)
    then have "r = Inl x" "m' = m" "e' = e1" using assms(1) n st by (auto simp: rotateLocked_def)
    then show ?thesis using n_spec assms(2) by (auto simp: good_def intro: grows_mono)
  next
    case (Inr sk)
    have sk: "sk_Kid sk \<notin> set (kids_of m)" "key_ok L (ke_files e1) sk" using n_spec Inr by auto
    let ?m = "rotated sk now m"
    have ok: "list_all (key_ok L (ke_files e1)) (keys_of ?m)"
      using sk n_spec by (auto simp: list_all_iff synced_def)
    obtain r2 e2 where w: "writeManifest ?m e1 = (r2, e2)" by fastforce
    note w_spec = writeManifest_synced [OF w conjunct1 [OF conjunct2 [OF n_spec]] ok]
    have res: "e' = e2" "(r, m') = (case r2 of Inl x \<Rightarrow> (Inl x, m) | Inr _ \<Rightarrow> (Inr (), ?m))"
      using assms(1) n st Inr w by (auto simp: rotateLocked_def rotated_def Let_def split: sum.splits)
    have d: "distinct (kids_of m)" using assms(2) by (simp add: good_def)
    show ?thesis
    proof (cases r2)
      case (Inl x)
      then have "r = Inl x" "m' = m" using res(2) by auto
      moreover have "grows e e2 (\<lambda>d. synced L d m)"
        using n_spec w_spec Inl by (auto intro: grows_trans)
      ultimately show ?thesis
        using w_spec Inl res(1) d st by (auto simp: good_def intro: grows_mono)
    next
      case (Inr u)
      then have "r = Inr ()" "m' = ?m" using res(2) by auto
      moreover have "grows e e2 (\<lambda>d. synced L d m \<or> synced L d ?m)"
      proof (rule grows_trans)
        show "grows e e1 (\<lambda>d. synced L d m \<or> synced L d ?m)"
          by (rule grows_mono [OF conjunct1 [OF n_spec]]) simp
        show "grows e1 e2 (\<lambda>d. synced L d m \<or> synced L d ?m)" using w_spec Inr by simp
      qed
      ultimately show ?thesis
        using w_spec Inr res(1) sk(1) distinct_rotated [OF d sk(1)] st by (auto simp: good_def)
    qed
  qed
qed

end

section \<open>Sweeping and maintenance\<close>

definition swept :: "time \<Rightarrow> Manager \<Rightarrow> Manager" where
  "swept now m = m\<lparr>m_retiring := filter (\<lambda>r. now < rk_NotAfter r) (m_retiring m)\<rparr>"

lemma swept_sel [simp]:
  "keys_of (swept now m) = live_keys now m" "m_static (swept now m) = m_static m"
  "m_cfg (swept now m) = m_cfg m" "m_active (swept now m) = m_active m"
  "m_retiring (swept now m) = filter (\<lambda>r. now < rk_NotAfter r) (m_retiring m)"
  by (simp_all add: swept_def keys_of_def live_keys_def)

lemma distinct_swept: "distinct (kids_of m) \<Longrightarrow> distinct (kids_of (swept now m))"
  by (auto simp: kids_of_def live_keys_def keys_of_def distinct_map_filter)

lemma expired_not_live:
  assumes "distinct (kids_of m)" and "r \<in> set (m_retiring m)" and "\<not> now < rk_NotAfter r"
  shows "sk_Kid (rk_Key r) \<notin> set (kids_of (swept now m))"
proof -
  have "sk_Kid (rk_Key r) \<noteq> sk_Kid (rk_Key r')" if "r' \<in> set (m_retiring m)" "now < rk_NotAfter r'" for r'
  proof
    assume "sk_Kid (rk_Key r) = sk_Kid (rk_Key r')"
    moreover have "inj_on (\<lambda>r. sk_Kid (rk_Key r)) (set (m_retiring m))"
      using assms(1) by (simp add: kids_of_def keys_of_def distinct_map comp_inj_on_iff [symmetric] comp_def)
    ultimately have "r = r'" using assms(2) that(1) by (auto dest: inj_onD)
    then show False using assms(3) that(2) by simp
  qed
  moreover have "sk_Kid (rk_Key r) \<noteq> sk_Kid (m_active m)"
    using assms(1,2) by (force simp: kids_of_def keys_of_def)
  ultimately show ?thesis by (auto simp: kids_of_def live_keys_def)
qed

lemma remove_keys_spec:
  "synced L (ke_files e) m \<Longrightarrow> (\<And>r. r \<in> set rs \<Longrightarrow> sk_Kid (rk_Key r) \<notin> set (kids_of m)) \<Longrightarrow>
   grows e (remove_keys rs e) (\<lambda>d. synced L d m) \<and> synced L (ke_files (remove_keys rs e)) m"
proof (induction rs arbitrary: e)
  case Nil
  then show ?case by (simp add: grows_refl)
next
  case (Cons r rs)
  let ?e1 = "snd (fs_remove (KeyFile (sk_Kid (rk_Key r))) e)"
  have u: "synced L ((ke_files e)(KeyFile (sk_Kid (rk_Key r)) := None)) m"
    using Cons.prems by (intro synced_upd) auto
  have g: "grows e ?e1 (\<lambda>d. synced L d m)" and s: "synced L (ke_files ?e1) m"
    using fs_remove_cases [of "KeyFile (sk_Kid (rk_Key r))" e] u Cons.prems(1) by (auto simp: grows_def)
  show ?case using Cons.IH [OF s] Cons.prems(2) g by (auto intro: grows_trans)
qed

lemma sweep_locked_spec:
  assumes "sweepLocked now m e = (r, m', e')" and "good L m e"
  shows "grows e e' (\<lambda>d. synced L d m \<or> synced L d m') \<and> good L m' e' \<and>
    (case r of Inl _ \<Rightarrow> m' = m | Inr _ \<Rightarrow> m' = swept now m)"
proof -
  have g: "synced L (ke_files e) m" "distinct (kids_of m)" "\<not> m_static m"
    using assms(2) by (simp_all add: good_def)
  let ?ex = "filter (\<lambda>r. \<not> now < rk_NotAfter r) (m_retiring m)"
  show ?thesis
  proof (cases "?ex = []")
    case True
    then have "filter (\<lambda>r. now < rk_NotAfter r) (m_retiring m) = m_retiring m"
      by (auto simp: filter_empty_conv filter_id_conv)
    then have "swept now m = m" by (simp add: swept_def)
    then show ?thesis using True assms by (auto simp: sweepLocked_def Let_def good_def grows_refl)
  next
    case False
    obtain r1 e1 where w: "writeManifest (swept now m) e = (r1, e1)" by fastforce
    have ok: "list_all (key_ok L (ke_files e)) (keys_of (swept now m))"
      using g(1) live_subset [of now m] by (auto simp: synced_def list_all_iff)
    note ws = writeManifest_synced [OF w g(1) ok]
    have res: "(r, m', e') = (case r1 of Inl x \<Rightarrow> (Inl x, m, e1) | Inr _ \<Rightarrow> (Inr (), swept now m, remove_keys ?ex e1))"
      using assms(1) False w by (auto simp: sweepLocked_def Let_def swept_def split: sum.splits)
    show ?thesis
    proof (cases r1)
      case (Inl x)
      then show ?thesis using res ws g by (auto simp: good_def intro: grows_mono)
    next
      case (Inr u)
      have rm: "grows e1 (remove_keys ?ex e1) (\<lambda>d. synced L d (swept now m)) \<and>
          synced L (ke_files (remove_keys ?ex e1)) (swept now m)"
        by (rule remove_keys_spec) (use ws Inr expired_not_live [OF g(2)] in auto)
      have "grows e (remove_keys ?ex e1) (\<lambda>d. synced L d m \<or> synced L d (swept now m))"
      proof (rule grows_trans)
        show "grows e e1 (\<lambda>d. synced L d m \<or> synced L d (swept now m))" using ws Inr by simp
        show "grows e1 (remove_keys ?ex e1) (\<lambda>d. synced L d m \<or> synced L d (swept now m))"
          by (rule grows_mono [OF conjunct1 [OF rm]]) simp
      qed
      then show ?thesis using res Inr rm distinct_swept [OF g(2)] g(3) by (auto simp: good_def)
    qed
  qed
qed

text \<open>\<open>m'\<close> still has every key of \<open>m\<close> that has to verify at \<open>now\<close>.\<close>

definition covers :: "time \<Rightarrow> Manager \<Rightarrow> Manager \<Rightarrow> bool" where
  "covers now m m' \<longleftrightarrow> set (live_keys now m) \<subseteq> set (keys_of m')"

lemma covers_refl: "covers now m m"
  using live_subset by (simp add: covers_def)

lemma covers_rotated: "covers now m (rotated sk now m)"
  using live_subset [of now m] by (auto simp: covers_def)

lemma covers_swept: "covers now m (swept now m)"
  by (simp add: covers_def)

lemma covers_rotated_swept: "0 < kc_RetireWindow (m_cfg m) \<Longrightarrow> covers now m (swept now (rotated sk now m))"
  by (auto simp: covers_def live_keys_def)

text \<open>A directory from which a start finds every key that has to verify.\<close>

definition recoverable :: "'p key_lib \<Rightarrow> time \<Rightarrow> Manager \<Rightarrow> 'p dir \<Rightarrow> bool" where
  "recoverable L now m d \<longleftrightarrow> (\<exists>m'. synced L d m' \<and> covers now m m')"

context key_library begin

lemma rotate_recoverable:
  assumes "rotateLocked L now m e = (r, m', e')" and "good L m e" and "fresh L m e"
  shows "grows e e' (recoverable L now m) \<and> good L m' e' \<and> covers now m m'"
proof -
  note * = rotate_spec [OF assms]
  have c: "covers now m m'" using * by (auto simp: covers_refl covers_rotated split: sum.splits)
  have "grows e e' (recoverable L now m)"
    by (rule grows_mono [OF conjunct1 [OF *]]) (use c covers_refl in \<open>auto simp: recoverable_def\<close>)
  with * c show ?thesis by blast
qed

lemma maintain_recoverable:
  assumes "Maintain L now m e = (r, m', e')" and "good L m e" and "fresh L m e"
    and "0 < kc_RetireWindow (m_cfg m)"
  shows "grows e e' (recoverable L now m) \<and> good L m' e' \<and> covers now m m'"
proof -
  have st: "\<not> m_static m" using assms(2) by (simp add: good_def)
  show ?thesis
  proof (cases "(kc_RotationInterval (m_cfg m) > 0 \<and> \<not> now < m_since m + kc_RotationInterval (m_cfg m)) \<or>
      sk_Alg (m_active m) \<noteq> kc_Alg (m_cfg m)")
    case False
    then have sw: "sweepLocked now m e = (r, m', e')" using assms(1) st by (auto simp: Maintain_def Let_def)
    note * = sweep_locked_spec [OF sw assms(2)]
    have c: "covers now m m'" using * by (auto simp: covers_refl covers_swept split: sum.splits)
    have "grows e e' (recoverable L now m)"
      by (rule grows_mono [OF conjunct1 [OF *]]) (use c covers_refl in \<open>auto simp: recoverable_def\<close>)
    with * c show ?thesis by blast
  next
    case True
    obtain r1 m1 e1 where ro: "rotateLocked L now m e = (r1, m1, e1)" by (metis prod_cases3)
    note rr = rotate_recoverable [OF ro assms(2,3)]
    note rs = rotate_spec [OF ro assms(2,3)]
    show ?thesis
    proof (cases r1)
      case (Inl x)
      then have "m' = m1" "e' = e1" using assms(1) st True ro by (auto simp: Maintain_def Let_def)
      then show ?thesis using rr by simp
    next
      case (Inr u)
      obtain sk where m1: "m1 = rotated sk now m" using rs Inr by auto
      have sw: "sweepLocked now m1 e1 = (r, m', e')"
        using assms(1) st True ro Inr by (auto simp: Maintain_def Let_def)
      note * = sweep_locked_spec [OF sw conjunct1 [OF conjunct2 [OF rr]]]
      have c: "covers now m m'"
        using * m1 covers_rotated covers_rotated_swept [OF assms(4)] by (auto split: sum.splits)
      have "grows e1 e' (recoverable L now m)"
        by (rule grows_mono [OF conjunct1 [OF *]]) (use c rr in \<open>auto simp: recoverable_def\<close>)
      with * c rr show ?thesis by (auto intro: grows_trans)
    qed
  qed
qed

end

section \<open>Restart\<close>

lemma loadKey_ok:
  assumes "key_ok L (ke_files e) sk" and "ke_faults e = []"
  shows "loadKey L (sk_Kid sk) e = (Inr sk, e)"
  using assms by (auto simp: loadKey_def key_ok_def fs_read_def fault_of_def next_call_def)

lemma load_retiring_ok:
  assumes "ke_faults e = []" and "\<forall>r \<in> set rs. key_ok L (ke_files e) (rk_Key r)"
  shows "load_retiring L (map (\<lambda>r. \<lparr>mr_Kid = sk_Kid (rk_Key r), mr_NotAfter = rk_NotAfter r\<rparr>) rs) e = (Inr rs, e)"
  using assms by (induction rs) (simp_all add: loadKey_ok)

lemma load_synced:
  assumes "synced L (ke_files e) m" and "ke_faults e = []"
  shows "load L cfg now e =
    (Inr (m\<lparr>m_cfg := cfg, m_since := (if time_is_zero (m_since m) then now else m_since m), m_static := False\<rparr>), e)"
proof -
  have "readManifest e = (Inr (manifest_of m), e)"
    using assms by (simp add: readManifest_def fs_read_def fault_of_def next_call_def synced_def)
  then show ?thesis
    using assms
    by (simp add: load_def manifest_of_def loadKey_ok synced_def keys_of_def list_all_iff load_retiring_ok)
qed

section \<open>Properties\<close>

text \<open>
  The key directory survives a crash at any point of a maintenance pass.  Take a manager
  whose directory matches it, distinct kids, a fresh next kid and a positive retiring window.
  Whatever system calls fail, every directory state that becomes visible during \<open>Maintain\<close> is
  one from which a manifest with all its key files can be loaded, and the loaded set contains
  every key that must verify at that time; and afterwards the directory matches the manager again.
\<close>

theorem maintain_crash_safe:
  assumes "key_library L" and "good L m e" and "fresh L m e" and "0 < kc_RetireWindow (m_cfg m)"
    and "Maintain L now m e = (r, m', e')"
  shows "\<exists>ds. ke_trace e' = ke_trace e @ ds \<and> list_all (recoverable L now m) (ds @ [ke_files e']) \<and>
    good L m' e'"
proof -
  note * = key_library.maintain_recoverable [OF assms(1,5,2,3,4)]
  have "recoverable L now m (ke_files e')" using * by (auto simp: recoverable_def good_def)
  with * show ?thesis by (auto simp: grows_def list_all_iff)
qed

text \<open>
  C16: a rotation is all or nothing in memory and crash safe on disk.  If \<open>Rotate\<close> reports an error,
  the manager is unchanged; otherwise the new key is active, the previous one is last in the
  retiring list with \<open>NotAfter = now + RetireWindow\<close>; and every visible directory state can be
  loaded and covers the keys that must verify.
\<close>

theorem rotate_crash_safe:
  assumes "key_library L" and "good L m e" and "fresh L m e" and "Rotate L now m e = (r, m', e')"
  shows "(case r of
        Inl _ \<Rightarrow> m' = m
      | Inr _ \<Rightarrow> sk_Kid (m_active m') \<notin> set (kids_of m) \<and> m_since m' = now \<and>
          m_retiring m' = m_retiring m @
            [\<lparr>rk_Key = m_active m, rk_NotAfter = now + kc_RetireWindow (m_cfg m)\<rparr>]) \<and>
    (\<exists>ds. ke_trace e' = ke_trace e @ ds \<and> list_all (recoverable L now m) (ds @ [ke_files e'])) \<and>
    good L m' e'"
proof -
  have ro: "rotateLocked L now m e = (r, m', e')" using assms(4) by (simp add: Rotate_def)
  note rs = key_library.rotate_spec [OF assms(1) ro assms(2,3)]
  note rr = key_library.rotate_recoverable [OF assms(1) ro assms(2,3)]
  have "recoverable L now m (ke_files e')" using rr by (auto simp: recoverable_def good_def)
  with rr rs show ?thesis by (auto simp: grows_def list_all_iff rotated_def split: sum.splits)
qed

text \<open>
  C32: a restart finds the running key set.  After a maintenance pass, loading the directory it
  left yields exactly the active key and the retiring keys, with their deadlines, that the
  process held in memory.
\<close>

theorem restart_equivalent:
  assumes "key_library L" and "good L m e" and "fresh L m e" and "0 < kc_RetireWindow (m_cfg m)"
    and "Maintain L now m e = (r, m', e')" and "ke_files f = ke_files e'" and "ke_faults f = []"
  shows "\<exists>m''. load L cfg later f = (Inr m'', f) \<and> m_active m'' = m_active m' \<and>
    m_retiring m'' = m_retiring m' \<and> (\<forall>kid. VerificationKey m'' kid = VerificationKey m' kid)"
proof -
  have "synced L (ke_files f) m'"
    using key_library.maintain_recoverable [OF assms(1,5,2,3,4)] assms(6) by (simp add: good_def)
  then show ?thesis by (simp add: load_synced assms(7) VerificationKey_def)
qed

section \<open>Verification over time\<close>

text \<open>A run of maintenance passes and manual rotations at given times; each takes the result of the
  previous one, whether it failed or not.\<close>

datatype key_event = OpMaintain time | OpRotate time

fun op_time :: "key_event \<Rightarrow> time" where
  "op_time (OpMaintain t) = t"
| "op_time (OpRotate t) = t"

fun key_op :: "'p key_lib \<Rightarrow> key_event \<Rightarrow> Manager \<times> 'p keyenv \<Rightarrow> Manager \<times> 'p keyenv" where
  "key_op L (OpMaintain t) (m, e) = snd (Maintain L t m e)"
| "key_op L (OpRotate t) (m, e) = snd (Rotate L t m e)"

fun key_run :: "'p key_lib \<Rightarrow> key_event list \<Rightarrow> Manager \<times> 'p keyenv \<Rightarrow> Manager \<times> 'p keyenv" where
  "key_run L [] s = s"
| "key_run L (a # as) s = key_run L as (key_op L a s)"

text \<open>Every generated key has a kid of its own.\<close>

fun fresh_run :: "'p key_lib \<Rightarrow> key_event list \<Rightarrow> Manager \<times> 'p keyenv \<Rightarrow> bool" where
  "fresh_run L [] s = True"
| "fresh_run L (a # as) (m, e) = (fresh L m e \<and> fresh_run L as (key_op L a (m, e)))"

text \<open>\<open>sk\<close> verifies at least until \<open>until\<close>.\<close>

definition held :: "SigningKey \<Rightarrow> time \<Rightarrow> Manager \<Rightarrow> bool" where
  "held sk until m \<longleftrightarrow>
     sk = m_active m \<or> (\<exists>r \<in> set (m_retiring m). rk_Key r = sk \<and> until \<le> rk_NotAfter r)"

lemma filter_head: "filter P xs = y # ys \<Longrightarrow> y \<in> set xs \<and> P y"
  by (induction xs) (auto split: if_splits)

lemma held_rotated:
  "held sk until m \<Longrightarrow> until \<le> now + kc_RetireWindow (m_cfg m) \<Longrightarrow> held sk until (rotated new now m)"
  by (auto simp: held_def)

lemma held_swept: "held sk until m \<Longrightarrow> now < until \<Longrightarrow> held sk until (swept now m)"
  by (auto simp: held_def)

lemma held_verifies:
  assumes "held sk until m" and "distinct (kids_of m)" and "sk_Kid sk \<noteq> []"
  shows "VerificationKey m (sk_Kid sk) = Some (Public (sk_Key sk), sk_Alg sk)"
proof (cases "sk = m_active m")
  case True
  then show ?thesis using assms(3) by (simp add: VerificationKey_def)
next
  case False
  then obtain r where r: "r \<in> set (m_retiring m)" "rk_Key r = sk" using assms(1) by (auto simp: held_def)
  have d: "distinct (map (\<lambda>r. sk_Kid (rk_Key r)) (m_retiring m))" "sk_Kid (m_active m) \<notin> (\<lambda>r. sk_Kid (rk_Key r)) ` set (m_retiring m)"
    using assms(2) by (simp_all add: kids_of_def keys_of_def comp_def image_image)
  have ne: "sk_Kid sk \<noteq> sk_Kid (m_active m)" using d(2) r by force
  have inj: "r' = r" if "r' \<in> set (m_retiring m)" "sk_Kid (rk_Key r') = sk_Kid sk" for r'
    using d(1) r that by (auto simp: distinct_map dest: inj_onD)
  have "r \<in> set (filter (\<lambda>r. sk_Kid sk = sk_Kid (rk_Key r)) (m_retiring m))" using r by simp
  then obtain r' rs where f: "filter (\<lambda>r. sk_Kid sk = sk_Kid (rk_Key r)) (m_retiring m) = r' # rs"
    by (cases "filter (\<lambda>r. sk_Kid sk = sk_Kid (rk_Key r)) (m_retiring m)") auto
  then have "r' \<in> set (m_retiring m)" "sk_Kid (rk_Key r') = sk_Kid sk"
    using filter_head [OF f] by simp_all
  then have "r' = r" by (rule inj)
  then show ?thesis using f r(2) ne assms(3) by (simp add: VerificationKey_def)
qed

context key_library begin

lemma key_op_held:
  assumes "key_op L a (m, e) = (m', e')" and "good L m e" and "fresh L m e"
    and "0 < kc_RetireWindow (m_cfg m)" and "op_time a < until" and "until \<le> op_time a + kc_RetireWindow (m_cfg m)"
    and "held sk until m"
  shows "good L m' e' \<and> m_cfg m' = m_cfg m \<and> held sk until m'"
proof -
  have rot: "good L m1 e1 \<and> m_cfg m1 = m_cfg m \<and> held sk until m1"
    if "rotateLocked L (op_time a) m e = (r, m1, e1)" for r m1 e1
    using rotate_spec [OF that assms(2,3)] held_rotated [OF assms(7,6)] assms(7)
    by (auto split: sum.splits)
  have sw: "good L m2 e2 \<and> m_cfg m2 = m_cfg m1 \<and> held sk until m2"
    if "sweepLocked (op_time a) m1 e1 = (r, m2, e2)" "good L m1 e1" "held sk until m1" for r m1 e1 m2 e2
  proof -
    note * = sweep_locked_spec [OF that(1,2)]
    show ?thesis using * held_swept [OF that(3) assms(5)] that(3) by (cases r) auto
  qed
  have st: "\<not> m_static m" using assms(2) by (simp add: good_def)
  show ?thesis
  proof (cases a)
    case (OpRotate t)
    obtain r1 m1 e1 where ro: "rotateLocked L t m e = (r1, m1, e1)" by (metis prod_cases3)
    then have "m' = m1" "e' = e1" using assms(1) OpRotate by (simp_all add: Rotate_def)
    moreover have "rotateLocked L (op_time a) m e = (r1, m1, e1)" using ro OpRotate by simp
    ultimately show ?thesis using rot by blast
  next
    case (OpMaintain t)
    show ?thesis
    proof (cases "(kc_RotationInterval (m_cfg m) > 0 \<and> \<not> t < m_since m + kc_RotationInterval (m_cfg m)) \<or>
        sk_Alg (m_active m) \<noteq> kc_Alg (m_cfg m)")
      case False
      then have "snd (sweepLocked t m e) = (m', e')"
        using assms(1) st OpMaintain by (auto simp: Maintain_def Let_def)
      then obtain r2 where "sweepLocked (op_time a) m e = (r2, m', e')"
        using OpMaintain by (cases "sweepLocked t m e") auto
      from sw [OF this assms(2,7)] show ?thesis .
    next
      case True
      obtain r1 m1 e1 where ro: "rotateLocked L t m e = (r1, m1, e1)" by (metis prod_cases3)
      have h: "good L m1 e1 \<and> m_cfg m1 = m_cfg m \<and> held sk until m1" using rot ro OpMaintain by simp
      show ?thesis
      proof (cases r1)
        case (Inl x)
        then show ?thesis using assms(1) st True ro OpMaintain h by (auto simp: Maintain_def Let_def)
      next
        case (Inr u)
        then have "snd (sweepLocked t m1 e1) = (m', e')"
          using assms(1) st True ro OpMaintain by (auto simp: Maintain_def Let_def)
        then obtain r2 where "sweepLocked (op_time a) m1 e1 = (r2, m', e')"
          using OpMaintain by (cases "sweepLocked t m1 e1") auto
        from sw [OF this] h show ?thesis by simp
      qed
    qed
  qed
qed

lemma key_run_held:
  assumes "key_run L as (m, e) = (m', e')" and "good L m e" and "fresh_run L as (m, e)"
    and "0 < kc_RetireWindow (m_cfg m)" and "held sk until m"
    and "\<forall>a \<in> set as. op_time a < until \<and> until \<le> op_time a + kc_RetireWindow (m_cfg m)"
  shows "good L m' e' \<and> held sk until m'"
  using assms
proof (induction as arbitrary: m e)
  case (Cons a as)
  obtain m1 e1 where s: "key_op L a (m, e) = (m1, e1)" by fastforce
  have h: "good L m1 e1 \<and> m_cfg m1 = m_cfg m \<and> held sk until m1"
    using Cons.prems by (intro key_op_held [OF s]) auto
  show ?case using Cons.IH [of m1 e1] Cons.prems s h by simp
qed simp

end

text \<open>
  A key verifies for its whole retiring window.  Let \<open>sk\<close> be the active key at time \<open>t\<close>.  Then
  after any run of maintenance passes and rotations at times in \<open>[t, t + RetireWindow)\<close>, failing or
  not, the kid of \<open>sk\<close> still resolves to the public key and algorithm of \<open>sk\<close>.  With
  \<open>RetireWindow = ACCESS_TOKEN_TTL + 2 * CLOCK_SKEW\<close> no token outlives its key.
\<close>

theorem retired_key_verifies:
  assumes "key_library L" and "good L m e" and "fresh_run L as (m, e)"
    and "0 < kc_RetireWindow (m_cfg m)" and "key_run L as (m, e) = (m', e')"
    and "\<forall>a \<in> set as. t \<le> op_time a \<and> op_time a < t + kc_RetireWindow (m_cfg m)"
  shows "VerificationKey m' (sk_Kid (m_active m)) =
    Some (Public (sk_Key (m_active m)), sk_Alg (m_active m))"
proof -
  have h: "good L m' e' \<and> held (m_active m) (t + kc_RetireWindow (m_cfg m)) m'"
    using assms(6) by (intro key_library.key_run_held [OF assms(1,5,2,3,4)]) (auto simp: held_def)
  have "sk_Kid (m_active m) \<noteq> []"
    using assms(2) by (simp add: good_def synced_def keys_of_def key_ok_def)
  then show ?thesis using h held_verifies by (auto simp: good_def)
qed

lemma publicJWK_kid: "publicJWK k = Inr j \<Longrightarrow> jwk_Kid j = sk_Kid k"
  by (auto simp: publicJWK_def Let_def split: pubkey.splits if_splits)

lemma jwk_list_kids: "jwk_list ks = Inr js \<Longrightarrow> map jwk_Kid js = map sk_Kid ks"
  by (induction ks arbitrary: js) (auto simp: res_bind_Inr publicJWK_kid)

lemma VerificationKey_kids: "VerificationKey m kid \<noteq> None \<longleftrightarrow> kid \<noteq> [] \<and> kid \<in> set (kids_of m)"
proof (cases "filter (\<lambda>r. kid = sk_Kid (rk_Key r)) (m_retiring m)")
  case Nil
  then have "kid \<notin> (\<lambda>r. sk_Kid (rk_Key r)) ` set (m_retiring m)" by (auto simp: filter_empty_conv)
  then show ?thesis using Nil by (simp add: VerificationKey_def kids_of_def keys_of_def image_image)
next
  case (Cons r rs)
  then have "r \<in> set (m_retiring m)" "kid = sk_Kid (rk_Key r)" using filter_head [OF Cons] by simp_all
  then have "kid \<in> (\<lambda>r. sk_Kid (rk_Key r)) ` set (m_retiring m)" by blast
  then show ?thesis using Cons by (simp add: VerificationKey_def kids_of_def keys_of_def image_image)
qed

text \<open>
  The published key set is the accepted one.  When \<open>PublicJWKs\<close> succeeds, the kids of the
  document are those of the active and the retiring keys in order, and a non-empty kid resolves
  to a verification key exactly when it is among them.
\<close>

theorem jwks_exact:
  assumes "PublicJWKs m = Inr js"
  shows "map jwk_Kid js = kids_of m \<and>
    (\<forall>kid. VerificationKey m kid \<noteq> None \<longleftrightarrow> kid \<noteq> [] \<and> kid \<in> jwk_Kid ` set js)"
proof -
  have k: "map jwk_Kid js = kids_of m"
    using jwk_list_kids [OF assms [unfolded PublicJWKs_def]] by (simp add: kids_of_def keys_of_def)
  have "jwk_Kid ` set js = set (kids_of m)" by (metis k list.set_map)
  then show ?thesis using k VerificationKey_kids by simp
qed

text \<open>
  A token is only ever checked against the key it names, with that key's algorithm.  The key
  the signer hands to the verifier is the public key of an active or retiring key whose kid is
  the token's non-empty \<open>kid\<close> header and whose algorithm is the token's method; an unknown kid,
  a missing kid and an algorithm mismatch fail closed.
\<close>

theorem decode_key_bound:
  assumes "decode_key m t = Inr pub"
  shows "\<exists>sk. jt_Kid t = Some (sk_Kid sk) \<and> sk_Kid sk \<noteq> [] \<and> sk \<in> set (keys_of m) \<and>
    jt_Method t = sk_Alg sk \<and> pub = Public (sk_Key sk)"
proof -
  obtain kid where k: "jt_Kid t = Some kid" "kid \<noteq> []"
    using assms by (cases "jt_Kid t") (auto simp: decode_key_def VerificationKey_def split: if_splits)
  obtain alg where v: "VerificationKey m kid = Some (pub, alg)" "jt_Method t = alg"
    using assms k by (auto simp: decode_key_def split: option.splits if_splits)
  show ?thesis
  proof (cases "kid = sk_Kid (m_active m)")
    case True
    then show ?thesis using v k by (intro exI [of _ "m_active m"]) (auto simp: VerificationKey_def keys_of_def)
  next
    case False
    then obtain r rs where f: "filter (\<lambda>r. kid = sk_Kid (rk_Key r)) (m_retiring m) = r # rs"
      using v k by (auto simp: VerificationKey_def split: list.splits)
    then have "r \<in> set (m_retiring m)" "kid = sk_Kid (rk_Key r)"
      using filter_head [OF f] by simp_all
    then show ?thesis using v k f False
      by (intro exI [of _ "rk_Key r"]) (auto simp: VerificationKey_def keys_of_def)
  qed
qed

section \<open>Witnesses\<close>

definition demo_key :: "string \<Rightarrow> SigningKey" where
  "demo_key s = \<lparr>sk_Kid = CHR ''k'' # s, sk_Alg = AlgES256, sk_Key = ECPriv ''P-256'' s s\<rparr>"

definition demo_manager :: Manager where
  "demo_manager =
     \<lparr>m_cfg = \<lparr>kc_Alg = AlgES256, kc_LegacyKeyPath = False, kc_RotationInterval = 10, kc_RetireWindow = 5\<rparr>,
      m_active = demo_key ''a'', m_since = 1, m_retiring = [], m_static = False\<rparr>"

definition demo_env :: "string keyenv" where
  "demo_env =
     \<lparr>ke_files = [KeyFile ''ka'' \<mapsto> PemFile ''Ea'', ManifestFile \<mapsto> ManifestJson (manifest_of demo_manager)],
      ke_faults = [], ke_entropy = [''b''], ke_trace = []\<rparr>"

lemma demo_good: "good ref_lib demo_manager demo_env"
  by (simp add: good_def synced_def demo_env_def demo_manager_def demo_key_def keys_of_def kids_of_def
      key_ok_def ParsePrivateKeyPEM_def ref_lib_def ref_parse_def KeyID_def)

lemma demo_fresh: "fresh ref_lib demo_manager demo_env"
  by (simp add: fresh_def next_kid_def demo_env_def demo_manager_def demo_key_def kids_of_def keys_of_def
      take_entropy_def GeneratePrivateKey_def KeyID_def ref_lib_def ref_generate_def)

theorem maintain_crash_safe_witness:
  "\<exists>r m' e'. Maintain ref_lib 11 demo_manager demo_env = (r, m', e') \<and> good ref_lib m' e'"
proof (cases "Maintain ref_lib 11 demo_manager demo_env")
  case (fields r m' e')
  have "0 < kc_RetireWindow (m_cfg demo_manager)" by (simp add: demo_manager_def)
  from maintain_crash_safe [OF reference_keys.key_library_axioms demo_good demo_fresh this fields]
  show ?thesis using fields by blast
qed

theorem rotate_crash_safe_witness:
  "\<exists>m' e'. Rotate ref_lib 11 demo_manager demo_env = (Inr (), m', e') \<and>
     m_retiring m' = [\<lparr>rk_Key = demo_key ''a'', rk_NotAfter = 16\<rparr>]"
proof (cases "Rotate ref_lib 11 demo_manager demo_env")
  case (fields r m' e')
  have "r = Inr ()"
    using fields
    by (simp add: Rotate_def rotateLocked_def new_key_def demo_manager_def demo_env_def take_entropy_def
        GeneratePrivateKey_def KeyID_def ref_lib_def ref_generate_def SavePrivateKey_def MarshalPrivateKeyPEM_def
        ref_encode_def fs_write_def fault_of_def next_call_def commit_def writeManifest_def fs_call_def
        fs_rename_def Let_def)
  then show ?thesis
    using rotate_crash_safe [OF reference_keys.key_library_axioms demo_good demo_fresh fields] fields
    by (simp add: demo_manager_def)
qed

theorem restart_equivalent_witness:
  "\<exists>r m' e'. Maintain ref_lib 2 demo_manager demo_env = (r, m', e') \<and>
     (\<exists>m''. load ref_lib (m_cfg demo_manager) 3 (e'\<lparr>ke_faults := []\<rparr>) = (Inr m'', e'\<lparr>ke_faults := []\<rparr>) \<and>
        m_active m'' = m_active m')"
proof (cases "Maintain ref_lib 2 demo_manager demo_env")
  case (fields r m' e')
  have "0 < kc_RetireWindow (m_cfg demo_manager)" by (simp add: demo_manager_def)
  from restart_equivalent [OF reference_keys.key_library_axioms demo_good demo_fresh this fields,
      of "e'\<lparr>ke_faults := []\<rparr>" "m_cfg demo_manager" 3]
  show ?thesis using fields by auto
qed

theorem retired_key_verifies_witness:
  "\<exists>m' e'. key_run ref_lib [OpRotate 11] (demo_manager, demo_env) = (m', e') \<and>
     VerificationKey m' ''ka'' = Some (ECPub ''P-256'' ''a'', AlgES256)"
proof (cases "key_run ref_lib [OpRotate 11] (demo_manager, demo_env)")
  case (Pair m' e')
  have "fresh_run ref_lib [OpRotate 11] (demo_manager, demo_env)" using demo_fresh by simp
  moreover have "0 < kc_RetireWindow (m_cfg demo_manager)" by (simp add: demo_manager_def)
  moreover have "\<forall>a \<in> set [OpRotate 11]. 10 \<le> op_time a \<and> op_time a < 10 + kc_RetireWindow (m_cfg demo_manager)"
    by (simp add: demo_manager_def)
  ultimately have "VerificationKey m' (sk_Kid (m_active demo_manager)) =
      Some (Public (sk_Key (m_active demo_manager)), sk_Alg (m_active demo_manager))"
    by (rule retired_key_verifies [OF reference_keys.key_library_axioms demo_good _ _ Pair])
  then show ?thesis using Pair by (simp add: demo_manager_def demo_key_def)
qed

definition demo_rsa_key :: SigningKey where
  "demo_rsa_key = \<lparr>sk_Kid = ''kr'', sk_Alg = AlgRS256, sk_Key = RSAPriv 5 3 []\<rparr>"

theorem jwks_exact_witness:
  "\<exists>js. PublicJWKs (demo_manager\<lparr>m_active := demo_rsa_key\<rparr>) = Inr js \<and> map jwk_Kid js = [''kr'']"
proof (cases "PublicJWKs (demo_manager\<lparr>m_active := demo_rsa_key\<rparr>)")
  case (Inl x)
  then show ?thesis
    by (simp add: PublicJWKs_def demo_manager_def demo_rsa_key_def publicJWK_def Let_def)
next
  case (Inr js)
  then show ?thesis
    using jwks_exact [OF Inr] by (simp add: kids_of_def keys_of_def demo_manager_def demo_rsa_key_def)
qed

theorem decode_key_bound_witness:
  "\<exists>sk. sk_Kid sk = ''ka'' \<and> sk \<in> set (keys_of demo_manager) \<and> sk_Alg sk = AlgES256"
proof -
  have "decode_key demo_manager \<lparr>jt_Method = AlgES256, jt_Kid = Some ''ka'', jt_Raw = []\<rparr> = Inr (ECPub ''P-256'' ''a'')"
    by (simp add: decode_key_def VerificationKey_def demo_manager_def demo_key_def)
  from decode_key_bound [OF this] show ?thesis by auto
qed

end
