(* ===== verification/IdpProps.thy ===== *)
theory IdpProps
  imports Idp KvsProps KeysProps
begin

text \<open>
  Properties of the authorization server over the bbolt backend.  The locale \<open>oauth2_provider\<close>
  states what the handlers rely on of fosite; \<open>ref_provider\<close> is an instance that serves the
  authorize step from the same store.
\<close>

section \<open>The contract of fosite\<close>

text \<open>A literal-IP loopback redirect may differ in its port (RFC 8252, section 7.3).\<close>

definition ip_port_variant ::
  "url_parser \<Rightarrow> (string \<Rightarrow> nat list option) \<Rightarrow> string \<Rightarrow> string \<Rightarrow> bool" where
  "ip_port_variant P parse_ip reg req \<longleftrightarrow>
     (\<exists>u v ip. P reg = Some u \<and> P req = Some v \<and> u_Scheme u = ''http'' \<and> u_Scheme v = ''http'' \<and>
        parse_ip (Hostname u) = Some ip \<and> ip_IsLoopback ip \<and> Hostname v = Hostname u \<and>
        u_Path u = u_Path v \<and> u_RawQuery u = u_RawQuery v)"

text \<open>Everything of the world that a client lookup and an authorize request leave alone.\<close>

definition same_request_state :: "'s world \<Rightarrow> 's world \<Rightarrow> bool" where
  "same_request_state w w' \<longleftrightarrow>
     repo w' = repo w \<and> sess w' = sess w \<and> cookie w' = cookie w \<and> save_faults w' = save_faults w"

locale oauth2_provider =
  fixes prov :: "'s OAuth2Provider" and v :: "'s \<Rightarrow> store" and P :: url_parser
    and parse_ip :: "string \<Rightarrow> nat list option" and reparse :: "string \<Rightarrow> string option"
  assumes redirect_registered:
      "op_NewAuthorizeRequest prov look now req w = ((ar, None), w') \<Longrightarrow>
       \<exists>w1 w2 raw. look (c_Query req ''client_id'') w1 = (Inr (fr_Client ar), w2) \<and>
         same_request_state w w1 \<and> reparse raw = Some (far_RedirectURI ar) \<and>
         (raw \<in> set (fc_RedirectURIs (fr_Client ar)) \<or>
          (\<exists>reg \<in> set (fc_RedirectURIs (fr_Client ar)). ip_port_variant P parse_ip reg raw))"
    and authorize_request_reads:
      "(\<And>cid u. same_request_state u (snd (look cid u))) \<Longrightarrow>
       same_request_state w (snd (op_NewAuthorizeRequest prov look now req w))"
    and authorize_response_writes:
      "op_NewAuthorizeResponse prov now ar s w = (r, w') \<Longrightarrow>
       sess w' = sess w \<and> cookie w' = cookie w \<and> save_faults w' = save_faults w \<and>
       (\<forall>f k. f \<noteq> AuthorizeCode \<and> f \<noteq> PkceRequest \<longrightarrow> v (repo w') f k = v (repo w) f k)"

subsection \<open>An instance\<close>

definition ref_authorize_request :: "HttpRequest \<Rightarrow> FClient \<Rightarrow> time \<Rightarrow> FAuthorizeRequest" where
  "ref_authorize_request req c now =
     \<lparr>fr_ID = c_Query req ''state'', fr_RequestedAt = now, fr_Client = c,
      fr_RequestedScope = fields_of (c_Query req ''scope''), fr_GrantedScope = [], fr_Form = in_Query req,
      fr_Session = None, fr_RequestedAudience = [], fr_GrantedAudience = [],
      far_ResponseTypes = [''code''], far_RedirectURI = c_Query req ''redirect_uri'',
      far_State = c_Query req ''state'', far_HandledResponseTypes = [], far_ResponseMode = [],
      far_DefaultResponseMode = []\<rparr>"

definition ref_provider :: "(string \<Rightarrow> string option) \<Rightarrow> ref_bucket kvs OAuth2Provider" where
  "ref_provider reparse =
     \<lparr>op_NewAuthorizeRequest = (\<lambda>look now req w.
        case look (c_Query req ''client_id'') w of
          (Inl _, w1) \<Rightarrow> ((ref_authorize_request req (demo_fclient []) now, Some ErrInvalidRequest), w1)
        | (Inr c, w1) \<Rightarrow>
            if c_Query req ''redirect_uri'' \<in> set (fc_RedirectURIs c) \<and>
               reparse (c_Query req ''redirect_uri'') = Some (c_Query req ''redirect_uri'')
            then ((ref_authorize_request req c now, None), w1)
            else ((ref_authorize_request req c now, Some ErrInvalidRequest), w1)),
      op_NewAuthorizeResponse = (\<lambda>now ar s w.
        case on_repo (kvs_CreateAuthorizeCodeSession ref_bolt (jc_JTI (s_JWTClaims s))
               (FRequest.truncate (ar\<lparr>fr_Session := Some s\<rparr>))) w of
          (Inl _, w1) \<Rightarrow> (Inl ErrServerError, w1)
        | (Inr _, w1) \<Rightarrow> (Inr [(''code'', jc_JTI (s_JWTClaims s)), (''state'', far_State ar)], w1)),
      op_NewAccessRequest = (\<lambda>look now req s w.
        ((FRequest.extend (FRequest.truncate (ref_authorize_request req (demo_fclient []) now)) \<lparr>fa_GrantTypes = []\<rparr>,
          Some ErrInvalidRequest), w)),
      op_NewAccessResponse = (\<lambda>now ar w. (Inl ErrServerError, w)),
      op_NewIntrospectionRequest = (\<lambda>look now req s w. (Inl ErrInvalidRequest, w)),
      op_NewRevocationRequest = (\<lambda>look now req w. (Some ErrServerError, w)),
      op_ErrorToRFC6749Error = (\<lambda>_. ErrServerError),
      op_GrantScope = (\<lambda>s ar. ar\<lparr>fr_GrantedScope := List.insert s (fr_GrantedScope ar)\<rparr>),
      op_GrantAudience = (\<lambda>s ar. ar\<lparr>fr_GrantedAudience := List.insert s (fr_GrantedAudience ar)\<rparr>),
      op_AddParameter = (\<lambda>k x ps. ps @ [(k, x)]),
      op_WriteAuthorizeError = (\<lambda>ar e. \<lparr>w_Status = fe_Code e, w_Location = [], w_Body = fe_Error e\<rparr>),
      op_WriteAuthorizeResponse = (\<lambda>ar ps.
        \<lparr>w_Status = 303, w_Location = far_RedirectURI ar @ ''?'' @ Encode (map (\<lambda>(k, x). (k, [x])) ps), w_Body = []\<rparr>),
      op_WriteAccessError = (\<lambda>ar e. \<lparr>w_Status = fe_Code e, w_Location = [], w_Body = fe_Error e\<rparr>),
      op_WriteAccessResponse = (\<lambda>ar ps. \<lparr>w_Status = 200, w_Location = [], w_Body = []\<rparr>),
      op_WriteIntrospectionError = (\<lambda>e. \<lparr>w_Status = fe_Code e, w_Location = [], w_Body = fe_Error e\<rparr>),
      op_WriteIntrospectionResponse = (\<lambda>b. \<lparr>w_Status = 200, w_Location = [], w_Body = b\<rparr>),
      op_WriteRevocationResponse = (\<lambda>_. \<lparr>w_Status = 200, w_Location = [], w_Body = []\<rparr>)\<rparr>"

lemma on_repo_frame:
  "on_repo f w = (r, w') \<Longrightarrow> sess w' = sess w \<and> cookie w' = cookie w \<and> save_faults w' = save_faults w \<and>
     auth_log w' = auth_log w \<and> draws w' = draws w \<and> f (repo w) = (r, repo w')"
  by (auto simp: on_repo_def split: prod.splits)

lemma ref_response_view:
  "kvs_CreateAuthorizeCodeSession ref_bolt k q st = (r, st') \<Longrightarrow> f \<noteq> AuthorizeCode \<Longrightarrow>
     kview ref_bolt st' f j = kview ref_bolt st f j"
  using reference.create_session [of AuthorizeCode st k q]
  by (cases r) (auto simp: session_families_def kvs_SessionStorage_def writes_def spec_put_def)

interpretation reference_provider:
  oauth2_provider "ref_provider reparse" "kview ref_bolt" P parse_ip reparse for P parse_ip reparse
proof (unfold_locales, goal_cases)
  case (1 look now req w ar w')
  obtain r w1 where l: "look (c_Query req ''client_id'') w = (r, w1)" by fastforce
  with 1 have "\<exists>c. r = Inr c \<and> c_Query req ''redirect_uri'' \<in> set (fc_RedirectURIs c) \<and>
      reparse (c_Query req ''redirect_uri'') = Some (c_Query req ''redirect_uri'') \<and>
      ar = ref_authorize_request req c now"
    by (cases r) (auto simp: ref_provider_def split: if_splits)
  with l show ?case
    by (intro exI [of _ w] exI [of _ w1] exI [of _ "c_Query req ''redirect_uri''"])
       (auto simp: ref_authorize_request_def same_request_state_def)
next
  case (2 look w now req)
  then show ?case
    by (auto simp: ref_provider_def split: prod.splits sum.splits) (metis snd_conv)+
next
  case (3 now ar s w r w')
  then show ?case
    by (auto simp: ref_provider_def dest: on_repo_frame ref_response_view split: prod.splits sum.splits)
qed

section \<open>The consent POST\<close>

definition forbidden_session :: reply where
  "forbidden_session = Json 403 [(''error'', ''invalid authorization session'')]"

definition load_failed :: reply where
  "load_failed = Json 500 [(''error'', ''Internal Server Error'')]"

lemma handleAuthorizationReturn_cases:
  assumes "handleAuthorizationReturn E a now arID req w = (r, w')"
  obtains "w' = w" and "r \<in> {forbidden_session, load_failed, panic_reply}"
      and "\<not> hasAuthorizeRequestID E w arID \<or> (\<exists>e. ask_repo (as_GetAuthorizeRequest (a_repo_ar a) arID) w = Inl e)"
  | ar w1 where "hasAuthorizeRequestID E w arID"
      and "ask_repo (as_GetAuthorizeRequest (a_repo_ar a) arID) w = Inr ar"
      and "return_body E a now arID req ar w = (r, w1)"
      and "w' = snd (on_repo (as_DeleteAuthorizeRequest (a_repo_ar a) arID) w1)"
proof (cases "hasAuthorizeRequestID E w arID")
  case False
  with assms that(1) show thesis
    by (simp add: handleAuthorizationReturn_def forbidden_session_def)
next
  case has: True
  show thesis
  proof (cases "ask_repo (as_GetAuthorizeRequest (a_repo_ar a) arID) w")
    case (Inl e)
    with has assms that(1) show thesis
      by (auto simp: handleAuthorizationReturn_def load_failed_def split: if_splits)
  next
    case (Inr ar)
    with has assms that(2) show thesis
      by (auto simp: handleAuthorizationReturn_def split: prod.splits)
  qed
qed

lemma approvedSession_state:
  "approvedSession E a now req ar w = (r, w1) \<Longrightarrow> w1 = w\<lparr>draws := Suc (draws w)\<rparr>"
  by (auto simp: approvedSession_def Let_def dest: NewJWTSession_state split: prod.splits sum.splits)

lemma removeAuthorizeRequestID_repo [simp]: "repo (removeAuthorizeRequestID E arID w) = repo w"
  by (simp add: removeAuthorizeRequestID_def Let_def sess_delete_def sess_set_def)

lemma sess_save_repo: "sess_save w = (ok, w') \<Longrightarrow> repo w' = repo w"
  using sess_save_cases [of w] by auto

context oauth2_provider begin

text \<open>Between the load and the deferred delete only codes and PKCE records are written.\<close>

lemma return_body_view:
  assumes "return_body E a now arID req ar w = (r, w')" and "a_provider a = prov"
    and "f \<noteq> AuthorizeCode" and "f \<noteq> PkceRequest"
  shows "v (repo w') f k = v (repo w) f k"
proof -
  obtain s w1 where ap: "approvedSession E a now req (grantRequested a ar) w = (s, w1)" by fastforce
  have w1: "repo w1 = repo w" using approvedSession_state [OF ap] by simp
  show ?thesis
  proof (cases s)
    case (Inl e)
    then show ?thesis using assms(1) ap w1 by (simp add: return_body_def)
  next
    case (Inr js)
    obtain x w2 where resp: "op_NewAuthorizeResponse prov now (grantRequested a ar) js w1 = (x, w2)"
      by fastforce
    have w2: "v (repo w2) f k = v (repo w) f k"
      using authorize_response_writes [OF resp] assms(3,4) w1 by simp
    have "repo w' = repo w2"
      using assms(1,2) ap Inr resp
      by (cases x) (auto simp: return_body_def Let_def dest: sess_save_repo split: prod.splits bool.splits)
    with w2 show ?thesis by simp
  qed
qed

end

text \<open>What the consent relies on of the store: a pending request that is found is stored, and creating
  and deleting one is all or nothing.  A lookup may fail, but of an absent request not by a panic.\<close>

locale pending_storage =
  fixes A :: "'s AuthorizeRequestStorage" and v :: "'s \<Rightarrow> store"
  assumes pending_found: "as_GetAuthorizeRequest A k s = Inr q \<Longrightarrow> v s AuthorizeReq k \<noteq> None"
    and pending_absent: "v s AuthorizeReq k = None \<Longrightarrow> as_GetAuthorizeRequest A k s \<noteq> Inl ErrPanic"
    and pending_created: "writes v s (as_CreateAuthorizeRequest A q s)
      (spec_put AuthorizeReq (fr_ID q) (DAuthorize (FromFositeAuthorizeRequest q)))"
    and pending_deleted: "writes v s (as_DeleteAuthorizeRequest A k s) (spec_delete AuthorizeReq k)"
begin

lemma delete_view:
  assumes "on_repo (as_DeleteAuthorizeRequest A k) w = (r, w')" and "(f, j) \<noteq> (AuthorizeReq, k)"
  shows "v (repo w') f j = v (repo w) f j"
  using pending_deleted [of "repo w" k] on_repo_frame [OF assms(1)] assms(2)
  by (cases r) (auto simp: writes_def spec_delete_def)

lemma delete_gone:
  "on_repo (as_DeleteAuthorizeRequest A k) w = (Inr (), w') \<Longrightarrow> v (repo w') AuthorizeReq k = None"
  using pending_deleted [of "repo w" k] on_repo_frame [of "as_DeleteAuthorizeRequest A k" w "Inr ()" w']
  by (simp add: writes_def spec_delete_def)

lemma delete_error:
  "on_repo (as_DeleteAuthorizeRequest A k) w = (Inl e, w') \<Longrightarrow> v (repo w') = v (repo w)"
  using pending_deleted [of "repo w" k] on_repo_frame [of "as_DeleteAuthorizeRequest A k" w "Inl e" w']
  by (simp add: writes_def)

lemma create_view:
  "on_repo (as_CreateAuthorizeRequest A ar) w = (Inr (), w') \<Longrightarrow>
     v (repo w') = spec_put AuthorizeReq (fr_ID ar) (DAuthorize (FromFositeAuthorizeRequest ar)) (v (repo w))"
  using pending_created [of "repo w" ar] on_repo_frame [of "as_CreateAuthorizeRequest A ar" w "Inr ()" w']
  by (simp add: writes_def)

lemma create_error:
  "on_repo (as_CreateAuthorizeRequest A ar) w = (Inl e, w') \<Longrightarrow> v (repo w') = v (repo w)"
  using pending_created [of "repo w" ar] on_repo_frame [of "as_CreateAuthorizeRequest A ar" w "Inl e" w']
  by (simp add: writes_def)

end

sublocale authorize_request_storage \<subseteq> pending: pending_storage A v
  by unfold_locales (auto simp: get_ar get_doc_def create_ar delete_ar split: option.splits)

context bolt_bucket begin

lemma kvs_pending: "pending_storage (kvs_AuthorizeRequestStorage B reparse) (kview B)"
  by (rule pending.pending_storage_axioms)

end

lemma consent_route:
  "(''POST'', AuthorizationReturnEndpoint, chain) \<in> set (idp_SetupRoutes E a clk) \<Longrightarrow>
     chain = (\<lambda>ar_id. [RequireAuth, RequireCSRF, endpoint (handleAuthorizationReturn E a (clk 0) ar_id)])"
  by (auto simp: idp_SetupRoutes_def AuthorizationReturnEndpoint_def TokenEndpoint_def RegistrationEndpoint_def
      IntrospectionEndpoint_def RevocationEndpoint_def split: if_splits)

text \<open>
  C4: what a consent POST may change, and who can make it do so.  Take the route that
  \<open>SetupRoutes\<close> registers for \<open>POST /.idp/auth/:ar_id\<close> and any request on it.  If any record of the
  store differs afterwards, the browser held a logged-in session, it submitted that session's CSRF
  token, the session was the one the authorization request is bound to, and the request was
  pending; and the changed record is an authorization code, its PKCE record, or the pending
  request itself.  Registrations, tokens, accounts and other pending requests are out of reach.
\<close>

theorem consent_post_exact:
  assumes "pending_storage A v" and "oauth2_provider (a_provider a) v P parse_ip reparse"
    and "a_repo_ar a = A"
    and "(''POST'', AuthorizationReturnEndpoint, chain) \<in> set (idp_SetupRoutes E a clk)"
    and "serve chain arID req w = (r, w')"
    and "v (repo w') f k \<noteq> v (repo w) f k"
  shows "authorized w \<and> submitted_token req \<noteq> [] \<and>
    sess w SessionKeyCSRF = Some (SStr (submitted_token req)) \<and>
    arID \<in> set (authorizeRequestIDs E w) \<and> v (repo w) AuthorizeReq arID \<noteq> None \<and>
    (f = AuthorizeCode \<or> f = PkceRequest \<or> f = AuthorizeReq \<and> k = arID)"
proof -
  have "run_chain [RequireAuth req, RequireCSRF req,
      endpoint (handleAuthorizationReturn E a (clk 0) arID) req] w = (r, w')"
    using assms(5) unfolding serve_def consent_route [OF assms(4)] by simp
  then show ?thesis
  proof (cases rule: guarded_chain)
    case 1
    then show ?thesis using assms(6) by simp
  next
    case (2 x)
    from 2(4) show ?thesis
    proof (cases rule: handleAuthorizationReturn_cases)
      case 1
      then show ?thesis using assms(6) by simp
    next
      case (2 ar w1)
      have has: "arID \<in> set (authorizeRequestIDs E w)"
        using 2(1) by (auto simp: hasAuthorizeRequestID_def list_ex_iff)
      have pend: "v (repo w) AuthorizeReq arID \<noteq> None"
        using 2(2) pending_storage.pending_found [OF assms(1), of arID "repo w"]
        by (auto simp: ask_repo_def assms(3))
      have "f = AuthorizeCode \<or> f = PkceRequest \<or> f = AuthorizeReq \<and> k = arID"
      proof (rule ccontr)
        assume no: "\<not> ?thesis"
        obtain d where d: "on_repo (as_DeleteAuthorizeRequest A arID) w1 = (d, w')"
          using 2(4) by (cases "on_repo (as_DeleteAuthorizeRequest A arID) w1") (simp add: assms(3))
        have "v (repo w') f k = v (repo w1) f k"
          using pending_storage.delete_view [OF assms(1) d] no by blast
        also have "\<dots> = v (repo w) f k"
          using oauth2_provider.return_body_view [OF assms(2) 2(3) refl] no by blast
        finally show False using assms(6) by simp
      qed
      with has pend \<open>authorized w\<close> \<open>submitted_token req \<noteq> []\<close>
        \<open>sess w SessionKeyCSRF = Some (SStr (submitted_token req))\<close> show ?thesis by blast
    qed
  qed
qed

subsection \<open>The id list in the cookie\<close>

text \<open>What the code relies on of \<open>encoding/json\<close> for the list of request ids in the session.\<close>

locale ids_codec =
  fixes E :: idp_env
  assumes decode_encode: "ie_ids_unmarshal E (ie_ids_marshal E ids) = Some ids"
    and encode_nonempty: "ie_ids_marshal E ids \<noteq> []"
begin

lemma ids_after_set:
  "authorizeRequestIDs E (sess_set sessionKeyAuthorizeRequestIDs (SStr (ie_ids_marshal E ids)) w) = ids"
  by (simp add: authorizeRequestIDs_def sess_string_def sess_set_def decode_encode encode_nonempty)

lemma ids_after_add:
  "set (authorizeRequestIDs E (addAuthorizeRequestID E k w)) = insert k (set (authorizeRequestIDs E w))"
  by (auto simp: addAuthorizeRequestID_def Let_def ids_after_set hasAuthorizeRequestID_def list_ex_iff)

lemma ids_after_remove:
  "set (authorizeRequestIDs E (removeAuthorizeRequestID E k w)) = set (authorizeRequestIDs E w) - {k}"
proof (cases "filter (\<lambda>id. id \<noteq> k) (authorizeRequestIDs E w) = []")
  case True
  have "removeAuthorizeRequestID E k w = sess_delete sessionKeyAuthorizeRequestIDs w"
    unfolding removeAuthorizeRequestID_def Let_def True by simp
  then have "authorizeRequestIDs E (removeAuthorizeRequestID E k w) = []"
    by (simp add: authorizeRequestIDs_def sess_delete_def sess_string_def)
  with True show ?thesis by (auto simp: filter_empty_conv)
next
  case False
  then show ?thesis by (simp add: removeAuthorizeRequestID_def Let_def ids_after_set set_diff_eq)
qed

end

definition ref_ids_marshal :: "string list \<Rightarrow> string" where
  "ref_ids_marshal ids = ''['' @ concat (map (\<lambda>x. QueryEscape x @ '','') ids)"

definition ref_ids_unmarshal :: "string \<Rightarrow> string list option" where
  "ref_ids_unmarshal s = those (map QueryUnescape (butlast (split_char (tl s) (CHR '',''))))"

lemma comma_reserved: "\<not> unreserved (CHR '','')" "CHR '','' \<notin> set (QueryEscape x)"
  by (simp_all add: unreserved_def escape_nin)

lemma split_terminated:
  "\<forall>x \<in> set xs. c \<notin> set x \<Longrightarrow> split_char (concat (map (\<lambda>x. x @ [c]) xs)) c = xs @ [[]]"
  by (induction xs) (simp_all add: split_char_append)

lemma those_unescape: "those (map (QueryUnescape \<circ> QueryEscape) xs) = Some xs"
  by (induction xs) (simp_all add: unescape_escape)

lemma ref_ids_round: "ref_ids_unmarshal (ref_ids_marshal ids) = Some ids"
proof -
  have "split_char (concat (map (\<lambda>x. x @ '','') (map QueryEscape ids))) (CHR '','') = map QueryEscape ids @ [[]]"
    by (rule split_terminated) (auto simp: comma_reserved)
  then have "split_char (concat (map (\<lambda>x. QueryEscape x @ '','') ids)) (CHR '','') = map QueryEscape ids @ [[]]"
    by (simp add: comp_def)
  then show ?thesis
    by (simp add: ref_ids_unmarshal_def ref_ids_marshal_def those_unescape)
qed

subsection \<open>A concrete gateway\<close>

definition demo_parse :: url_parser where
  "demo_parse s =
     (if s = ''https://c/cb'' then
        Some \<lparr>u_Scheme = ''https'', u_User = None, u_Host = ''c'', u_Path = ''/cb'', u_RawQuery = [], u_Fragment = []\<rparr>
      else None)"

definition idp_demo_net :: net_env where
  "idp_demo_net =
     \<lparr>ne_url = demo_parse, ne_split = (\<lambda>_. None), ne_ip = (\<lambda>_. None), ne_json = (\<lambda>_. None),
      ne_do = (\<lambda>_ _. (FetchError, []))\<rparr>"

definition demo_idp_env :: idp_env where
  "demo_idp_env =
     \<lparr>ie_rand = (\<lambda>i n. Some ''0''), ie_unparse = u_Path, ie_ids_marshal = ref_ids_marshal,
      ie_ids_unmarshal = ref_ids_unmarshal, ie_userinfo = (\<lambda>_. None),
      ie_bind = (\<lambda>_. Some \<lparr>rg_ClientName = [65], rg_GrantTypes = [], rg_ResponseTypes = [],
        rg_TokenEndpointAuthMethod = ''none'', rg_Scope = ''s'', rg_RedirectURIs = [''https://c/cb'']\<rparr>),
      ie_hash = Some, ie_join_path = (\<lambda>b p. Some (b @ ''/'' @ p))\<rparr>"

definition demo_source :: "ref_bucket kvs clientSource" where
  "demo_source =
     \<lparr>cs_clients = kvs_DynamicClientStorage ref_bolt, cs_hasResolver = False, cs_net = idp_demo_net,
      cs_order = id, cs_externalURL = ''https://g''\<rparr>"

definition demo_router :: "ref_bucket kvs IDPRouter" where
  "demo_router =
     \<lparr>a_repo_ar = kvs_AuthorizeRequestStorage ref_bolt Some, a_source = demo_source, a_keys = demo_manager,
      a_externalURL = ''https://g'', a_provider = ref_provider Some, a_oidcDiscoveryMirror = False,
      a_refreshEnabled = True, a_cimdEnabled = False, a_dcrEnabled = True, a_dcrClientTTL = 5,
      a_dcrMaxClients = 3, a_tokenRateLimit = None, a_registerRateLimit = None, a_authorizeRateLimit = None\<rparr>"

definition demo_get :: "url_values \<Rightarrow> HttpRequest" where
  "demo_get q =
     \<lparr>in_Method = ''GET'', in_URL = ''/'', in_Path = ''/'', in_Query = q, in_PostForm = [], in_FormError = False,
      in_Header = [], in_ClientIP = ''1.1.1.1'', in_Body = []\<rparr>"

definition demo_post :: "url_values \<Rightarrow> HttpRequest" where
  "demo_post f = (demo_get [])\<lparr>in_Method := ''POST'', in_PostForm := f\<rparr>"

definition demo_ar :: FAuthorizeRequest where
  "demo_ar = ref_authorize_request (demo_get [(''state'', [''r'']), (''redirect_uri'', [''https://c/cb''])])
     (demo_fclient ''a'') 3"

definition demo_world :: "(string \<rightharpoonup> sval) \<Rightarrow> 's \<Rightarrow> 's world" where
  "demo_world s st =
     \<lparr>sess = s, cookie = s, save_faults = [], auth_log = [], repo = st, draws = 0, lockout = None,
      cimd = \<lparr>r_cfg = \<lparr>cfg_FetchTimeout = 1, cfg_MaxSize = 1, cfg_CacheTTL = 1, cfg_NegativeTTL = 1\<rparr>,
              r_cache = []\<rparr>\<rparr>"

definition demo_pending :: "ref_bucket kvs" where
  "demo_pending =
     \<lparr>kv_bucket = rb_insert rb_empty ''authorize_request-r'' (DAuthorize (FromFositeAuthorizeRequest demo_ar)),
      kv_faults = []\<rparr>"

definition demo_session :: "string \<rightharpoonup> sval" where
  "demo_session =
     [SessionKeyAuthorized \<mapsto> SBool True, SessionKeyCSRF \<mapsto> SStr ''t'', SessionKeyUserID \<mapsto> SStr ''u'',
      sessionKeyAuthorizeRequestIDs \<mapsto> SStr ''[r,'']"

abbreviation demo_consent :: HttpRequest where
  "demo_consent \<equiv> demo_post [(CSRFFieldName, [''t''])]"

lemmas demo_defs = demo_parse_def idp_demo_net_def demo_idp_env_def demo_source_def demo_router_def
  demo_get_def demo_post_def demo_ar_def demo_world_def demo_pending_def demo_session_def
  session_key_defs CSRFFieldName_def CSRFHeaderName_def

interpretation demo_codec: ids_codec demo_idp_env
  by (unfold_locales; simp add: demo_idp_env_def ref_ids_round; simp add: ref_ids_marshal_def)

lemma demo_ids: "ref_ids_unmarshal ''[r,'' = Some [''r'']"
  by (simp add: ref_ids_unmarshal_def)

lemma demo_has: "hasAuthorizeRequestID demo_idp_env (demo_world demo_session st) ''r''"
  by (simp add: hasAuthorizeRequestID_def authorizeRequestIDs_def demo_defs sess_string_def demo_ids)

lemma demo_guard:
  "RequireAuth demo_consent (demo_world demo_session st) = (None, demo_world demo_session st)"
  "RequireCSRF demo_consent (demo_world demo_session st) = (None, demo_world demo_session st)"
  by (rule RequireAuth_authorized, simp add: authorized_def demo_defs)
     (rule RequireCSRF_ok, simp_all add: submitted_token_def demo_defs GetHeader_def PostForm_def values_Get_def)

lemma demo_load:
  "ask_repo (as_GetAuthorizeRequest (a_repo_ar demo_router) ''r'') (demo_world s demo_pending) =
     Inr (demo_ar\<lparr>fr_Session := None\<rparr>)"
  by (simp add: ask_repo_def demo_router_def kvs_AuthorizeRequestStorage_def kvs_GetAuthorizeRequest_def
      kvs_eval demo_world_def demo_pending_def ToFosite_FromFosite_AuthorizeRequest)

lemma demo_approved:
  "\<exists>s. approvedSession demo_idp_env demo_router now demo_consent ar (demo_world demo_session st) =
     (Inr s, (demo_world demo_session st)\<lparr>draws := 1\<rparr>) \<and> jc_JTI (s_JWTClaims s) = hex_encode ''0''"
  by (simp add: approvedSession_def NewJWTSession_def GenerateJTI_def rand_hex_def Let_def demo_idp_env_def)
     (simp add: demo_world_def)

lemma demo_body:
  "\<exists>d r w'. return_body demo_idp_env demo_router now ''r'' demo_consent ar (demo_world demo_session demo_pending) = (r, w') \<and>
     repo w' = \<lparr>kv_bucket = rb_insert (kv_bucket demo_pending) (authorizeCodePrefix @ hex_encode ''0'') d, kv_faults = []\<rparr>"
proof -
  obtain s where s: "approvedSession demo_idp_env demo_router now demo_consent (grantRequested demo_router ar)
      (demo_world demo_session demo_pending) = (Inr s, (demo_world demo_session demo_pending)\<lparr>draws := 1\<rparr>)"
    and j: "jc_JTI (s_JWTClaims s) = hex_encode ''0''"
    using demo_approved by blast
  have p: "a_provider demo_router = ref_provider Some" by (simp add: demo_router_def)
  show ?thesis
    unfolding return_body_def Let_def s p
    by (simp add: ref_provider_def on_repo_def kvs_CreateAuthorizeCodeSession_def kvs_eval j
        demo_world_def demo_pending_def removeAuthorizeRequestID_def authorizeRequestIDs_def sess_string_def
        demo_session_def session_key_defs demo_idp_env_def sess_delete_def sess_save_def hex_encode_def Let_def demo_ids) (rule exI, rule refl)
qed

lemma demo_return:
  "\<exists>r w'. handleAuthorizationReturn demo_idp_env demo_router now ''r'' demo_consent (demo_world demo_session demo_pending) = (r, w') \<and>
     kview ref_bolt (repo w') AuthorizeReq ''r'' = None \<and>
     kview ref_bolt (repo w') AuthorizeCode (hex_encode ''0'') \<noteq> None"
proof -
  obtain d r w1 where b: "return_body demo_idp_env demo_router now ''r'' demo_consent (demo_ar\<lparr>fr_Session := None\<rparr>)
      (demo_world demo_session demo_pending) = (r, w1)"
    and w1: "repo w1 = \<lparr>kv_bucket = rb_insert (kv_bucket demo_pending) (authorizeCodePrefix @ hex_encode ''0'') d, kv_faults = []\<rparr>"
    using demo_body by blast
  have a: "as_DeleteAuthorizeRequest (a_repo_ar demo_router) = kvs_DeleteAuthorizeRequest ref_bolt"
    by (simp add: demo_router_def kvs_AuthorizeRequestStorage_def)
  have "handleAuthorizationReturn demo_idp_env demo_router now ''r'' demo_consent (demo_world demo_session demo_pending) =
      (r, snd (on_repo (kvs_DeleteAuthorizeRequest ref_bolt ''r'') w1))"
    unfolding handleAuthorizationReturn_def demo_load by (simp add: demo_has b a)
  then show ?thesis
    by (simp add: on_repo_def w1 kvs_DeleteAuthorizeRequest_def kvs_eval kview_def bview_def family_prefix.simps)
qed

theorem consent_post_exact_witness:
  "\<exists>chain r w'. (''POST'', AuthorizationReturnEndpoint, chain) \<in> set (idp_SetupRoutes demo_idp_env demo_router (\<lambda>_. 9)) \<and>
     serve chain ''r'' demo_consent (demo_world demo_session demo_pending) = (r, w') \<and>
     kview ref_bolt (repo w') AuthorizeReq ''r'' \<noteq>
       kview ref_bolt (repo (demo_world demo_session demo_pending)) AuthorizeReq ''r'' \<and>
     ''r'' \<in> set (authorizeRequestIDs demo_idp_env (demo_world demo_session demo_pending))"
proof -
  let ?chain = "\<lambda>ar_id. [RequireAuth, RequireCSRF, endpoint (handleAuthorizationReturn demo_idp_env demo_router 9 ar_id)]"
  let ?w = "demo_world demo_session demo_pending"
  obtain r w' where h: "handleAuthorizationReturn demo_idp_env demo_router 9 ''r'' demo_consent ?w = (r, w')"
    and n: "kview ref_bolt (repo w') AuthorizeReq ''r'' = None"
    using demo_return by blast
  have route: "(''POST'', AuthorizationReturnEndpoint, ?chain) \<in> set (idp_SetupRoutes demo_idp_env demo_router (\<lambda>_. 9))"
    by (simp add: idp_SetupRoutes_def)
  have run: "serve ?chain ''r'' demo_consent ?w = (Some r, w')"
    by (simp add: serve_def demo_guard endpoint_def final_handler_def h)
  have diff: "kview ref_bolt (repo w') AuthorizeReq ''r'' \<noteq> kview ref_bolt (repo ?w) AuthorizeReq ''r''"
    unfolding n by (simp add: demo_world_def demo_pending_def kview_def bview_def family_prefix.simps
        ref_bolt_def prefix_defs)
  have prov: "oauth2_provider (a_provider demo_router) (kview ref_bolt) demo_parse (\<lambda>_. None) Some"
    using reference_provider.oauth2_provider_axioms by (simp add: demo_router_def)
  have store: "a_repo_ar demo_router = kvs_AuthorizeRequestStorage ref_bolt Some" by (simp add: demo_router_def)
  show ?thesis
    using consent_post_exact [OF bolt_bucket.kvs_pending [OF reference.bolt_bucket_axioms] prov store route run diff] route run diff by blast
qed

section \<open>One decision per authorization request\<close>

text \<open>The consent POST got past the session check and the load, and its deferred delete succeeded.\<close>

definition consent_deleted :: "idp_env \<Rightarrow> 's IDPRouter \<Rightarrow> time \<Rightarrow> string \<Rightarrow> HttpRequest \<Rightarrow> 's world \<Rightarrow> bool" where
  "consent_deleted E a now arID req w \<longleftrightarrow>
     hasAuthorizeRequestID E w arID \<and>
     (case ask_repo (as_GetAuthorizeRequest (a_repo_ar a) arID) w of
        Inl _ \<Rightarrow> False
      | Inr ar \<Rightarrow> fst (on_repo (as_DeleteAuthorizeRequest (a_repo_ar a) arID)
          (snd (return_body E a now arID req ar w))) = Inr ())"

text \<open>A request that is gone is refused, and a decided one is gone.\<close>

context pending_storage begin

lemma gone_refused:
  assumes "v (repo w) AuthorizeReq arID = None" and "a_repo_ar a = A"
    and "handleAuthorizationReturn E a now arID req w = (r, w')"
  shows "w' = w \<and> (r = forbidden_session \<or> r = load_failed)"
proof -
  obtain e where "ask_repo (as_GetAuthorizeRequest (a_repo_ar a) arID) w = Inl e" and "e \<noteq> ErrPanic"
    using pending_found [of arID "repo w"] pending_absent [of "repo w" arID] assms(1,2)
    by (cases "as_GetAuthorizeRequest A arID (repo w)") (auto simp: ask_repo_def)
  then show ?thesis
    using assms(3) by (auto simp: handleAuthorizationReturn_def forbidden_session_def load_failed_def split: if_splits)
qed

lemma decided_gone:
  assumes "a_repo_ar a = A" and "handleAuthorizationReturn E a now arID req w = (r, w')"
    and "consent_deleted E a now arID req w"
  shows "v (repo w') AuthorizeReq arID = None"
  using assms(2)
proof (cases rule: handleAuthorizationReturn_cases)
  case 1
  then show ?thesis using assms(3) by (auto simp: consent_deleted_def)
next
  case (2 ar wm)
  then have "on_repo (as_DeleteAuthorizeRequest A arID) wm = (Inr (), w')"
    using assms(1,3) by (cases "on_repo (as_DeleteAuthorizeRequest A arID) wm") (simp add: consent_deleted_def)
  then show ?thesis by (rule delete_gone)
qed

end

text \<open>
  An authorization request is decided once.  After a consent POST that reached the store and
  whose deferred delete succeeded, whether it issued a code or failed in between, every later POST
  for the same request is answered 403 or 500 and changes nothing at all: from any browser, with
  any session (an old cookie that still lists the request included) and any form.
\<close>

theorem consent_single_use:
  assumes "pending_storage A v" and "a_repo_ar a = A"
    and "handleAuthorizationReturn E a now arID req w = (r1, w1)"
    and "consent_deleted E a now arID req w" and "repo w2 = repo w1"
    and "handleAuthorizationReturn E a now' arID req' w2 = (r2, w3)"
  shows "w3 = w2 \<and> (r2 = forbidden_session \<or> r2 = load_failed)"
proof -
  have "v (repo w2) AuthorizeReq arID = None"
    using pending_storage.decided_gone [OF assms(1-4)] assms(5) by simp
  from pending_storage.gone_refused [OF assms(1) this assms(2,6)] show ?thesis .
qed

lemma demo_deleted: "consent_deleted demo_idp_env demo_router 9 ''r'' demo_consent (demo_world demo_session demo_pending)"
proof -
  obtain d r w1 where b: "return_body demo_idp_env demo_router 9 ''r'' demo_consent (demo_ar\<lparr>fr_Session := None\<rparr>)
      (demo_world demo_session demo_pending) = (r, w1)"
    and w1: "repo w1 = \<lparr>kv_bucket = rb_insert (kv_bucket demo_pending) (authorizeCodePrefix @ hex_encode ''0'') d, kv_faults = []\<rparr>"
    using demo_body by blast
  have a: "as_DeleteAuthorizeRequest (a_repo_ar demo_router) = kvs_DeleteAuthorizeRequest ref_bolt"
    by (simp add: demo_router_def kvs_AuthorizeRequestStorage_def)
  show ?thesis
    unfolding consent_deleted_def demo_load
    by (simp add: demo_has b a on_repo_def w1 kvs_DeleteAuthorizeRequest_def kvs_eval)
qed

theorem consent_single_use_witness:
  "\<exists>w1 w2 r2. repo w2 = repo w1 \<and> sess w2 = demo_session \<and>
     snd (handleAuthorizationReturn demo_idp_env demo_router 9 ''r'' demo_consent (demo_world demo_session demo_pending)) = w1 \<and>
     handleAuthorizationReturn demo_idp_env demo_router 10 ''r'' demo_consent w2 = (r2, w2) \<and>
     (r2 = forbidden_session \<or> r2 = load_failed)"
proof -
  obtain r1 w1 where h: "handleAuthorizationReturn demo_idp_env demo_router 9 ''r'' demo_consent
      (demo_world demo_session demo_pending) = (r1, w1)" by fastforce
  define w2 where "w2 = demo_world demo_session (repo w1)"
  then have w2: "repo w2 = repo w1" "sess w2 = demo_session" by (simp_all add: demo_world_def)
  obtain r2 w3 where h2: "handleAuthorizationReturn demo_idp_env demo_router 10 ''r'' demo_consent w2 = (r2, w3)"
    by fastforce
  have store: "a_repo_ar demo_router = kvs_AuthorizeRequestStorage ref_bolt Some" by (simp add: demo_router_def)
  show ?thesis
    using consent_single_use [OF bolt_bucket.kvs_pending [OF reference.bolt_bucket_axioms] store h demo_deleted w2(1) h2] h h2 w2
    by (intro exI [of _ w1] exI [of _ w2] exI [of _ r2]) simp
qed

section \<open>Connection names\<close>

lemma dropWhile_hd: "takeWhile P (dropWhile P xs) = []"
  by (induction xs) auto

lemma TrimSpace_right: "takeWhile IsSpace (rev (TrimSpace xs)) = []"
  by (simp add: TrimSpace_def dropWhile_hd)

lemma dropWhile_id: "takeWhile P xs = [] \<Longrightarrow> dropWhile P xs = xs"
  by (cases xs) (auto split: if_splits)

lemma TrimSpace_left: "takeWhile IsSpace (TrimSpace xs) = []"
proof (cases "TrimSpace xs")
  case (Cons y ys)
  define zs where "zs = dropWhile IsSpace xs"
  have "rev (y # ys) = dropWhile IsSpace (rev zs)"
    using Cons by (simp add: TrimSpace_def zs_def)
  then have "rev zs = takeWhile IsSpace (rev zs) @ rev (y # ys)"
    by (metis takeWhile_dropWhile_id)
  then have "zs = y # ys @ rev (takeWhile IsSpace (rev zs))"
    by (metis rev_append rev_rev_ident append_Cons)
  then have "\<not> IsSpace y"
    using dropWhile_hd [of IsSpace xs] by (metis zs_def list.distinct(1) takeWhile.simps(2))
  then show ?thesis by (simp add: Cons)
qed simp

lemma TrimSpace_id: "takeWhile IsSpace xs = [] \<Longrightarrow> takeWhile IsSpace (rev xs) = [] \<Longrightarrow> TrimSpace xs = xs"
  by (simp add: TrimSpace_def dropWhile_id)

lemma subseq_TrimSpace: "subseq (TrimSpace xs) xs"
proof -
  have "suffix (dropWhile IsSpace xs) xs" by (rule suffix_dropWhile)
  moreover have "prefix (TrimSpace xs) (dropWhile IsSpace xs)"
    using suffix_dropWhile [of IsSpace "rev (dropWhile IsSpace xs)"]
    by (simp add: TrimSpace_def suffix_to_prefix)
  ultimately show ?thesis
    by (meson prefix_imp_subseq suffix_imp_subseq subseq_order.trans)
qed

lemma subseq_memb: "subseq xs ys \<Longrightarrow> x \<in> set xs \<Longrightarrow> x \<in> set ys"
  using list_emb_set [of "(=)" xs ys x] by auto

lemma sanitizeLabel_cases:
  obtains xs where "sanitizeLabel raw = TrimSpace xs" and "subseq xs raw" and "filter IsControl xs = []"
    and "length (TrimSpace xs) \<le> maxLabelLength"
proof -
  define c where "c = TrimSpace (filter (\<lambda>r. \<not> IsControl r) raw)"
  have c: "subseq c raw" "filter IsControl c = []"
    unfolding c_def using subseq_TrimSpace [of "filter (\<lambda>r. \<not> IsControl r) raw"]
    by (meson subseq_filter_left subseq_order.trans)
       (auto simp: filter_empty_conv dest!: subseq_memb [OF subseq_TrimSpace])
  show thesis
  proof (cases "maxLabelLength < length c")
    case True
    have "length (TrimSpace (take maxLabelLength c)) \<le> maxLabelLength"
      using list_emb_length [OF subseq_TrimSpace [of "take maxLabelLength c"]] by simp
    with True c show thesis
      by (intro that [of "take maxLabelLength c"])
         (auto simp: sanitizeLabel_def Let_def filter_empty_conv simp flip: c_def
            intro: subseq_order.trans [OF prefix_imp_subseq [OF take_is_prefix]] dest: in_set_takeD)
  next
    case False
    have "TrimSpace c = c"
      unfolding c_def by (rule TrimSpace_id [OF TrimSpace_left TrimSpace_right])
    with False c show thesis
      by (intro that [of c]) (simp_all add: sanitizeLabel_def Let_def flip: c_def)
  qed
qed

text \<open>
  A connection name is clean wherever it goes.  For every submitted or declared name the stored
  label has at most 64 runes, no control character, no white space at either end, is cut out of
  the input without reordering, and cleaning it again changes nothing.
\<close>

theorem label_clean:
  "length (sanitizeLabel raw) \<le> 64 \<and> filter IsControl (sanitizeLabel raw) = [] \<and>
   takeWhile IsSpace (sanitizeLabel raw) = [] \<and> takeWhile IsSpace (rev (sanitizeLabel raw)) = [] \<and>
   subseq (sanitizeLabel raw) raw \<and> sanitizeLabel (sanitizeLabel raw) = sanitizeLabel raw"
proof -
  obtain xs where x: "sanitizeLabel raw = TrimSpace xs" "subseq xs raw" "filter IsControl xs = []"
      "length (TrimSpace xs) \<le> maxLabelLength"
    using sanitizeLabel_cases by blast
  have ctl: "filter IsControl (TrimSpace xs) = []"
    using x(3) by (auto simp: filter_empty_conv dest: subseq_memb [OF subseq_TrimSpace])
  have keep: "filter (\<lambda>r. \<not> IsControl r) (TrimSpace xs) = TrimSpace xs"
    using ctl by (auto simp: filter_id_conv filter_empty_conv)
  have "TrimSpace (TrimSpace xs) = TrimSpace xs"
    by (rule TrimSpace_id [OF TrimSpace_left TrimSpace_right])
  then have "sanitizeLabel (TrimSpace xs) = TrimSpace xs"
    using x(4) by (simp add: sanitizeLabel_def Let_def keep)
  with x ctl show ?thesis
    using subseq_TrimSpace [of xs] TrimSpace_left [of xs] TrimSpace_right [of xs]
    by (auto simp: maxLabelLength_def intro: subseq_order.trans)
qed

end
