(* ===== verification/AuthorizeProps.thy ===== *)
theory AuthorizeProps
  imports IdpProps
begin

text \<open>
  Properties of the authorize endpoint and of dynamic registration: the issuer on redirects, the
  redirect URI and session binding of a pending request, and what a registration may contain.
\<close>

section \<open>The issuer on redirects\<close>

text \<open>
  A client can always tell which server redirected it (RFC 9207).  When fosite redirects to a URL
  that parses, the client that follows it finds an \<open>iss\<close> parameter: the gateway's issuer, unless
  fosite already set one; every other parameter of the redirect keeps its values, and status and
  body are as fosite wrote them.  The hypothesis on \<open>unparse\<close> is that \<open>URL.String\<close> puts an encoded
  query where \<open>url.Parse\<close> reads it back.
\<close>

theorem iss_redirect:
  assumes "\<And>u m. \<exists>u'. P (unparse (u\<lparr>u_RawQuery := Encode m\<rparr>)) = Some u' \<and> u_RawQuery u' = Encode m"
    and "300 \<le> w_Status w" and "w_Status w < 400" and "w_Location w \<noteq> []"
    and "P (w_Location w) = Some u"
    and "iss_WriteHeader P unparse issuer w = w'"
  shows "w_Status w' = w_Status w \<and> w_Body w' = w_Body w \<and>
    (\<exists>u'. P (w_Location w') = Some u' \<and>
       values_Get (ParseQuery (u_RawQuery u')) ''iss'' =
         (if values_Get (ParseQuery (u_RawQuery u)) ''iss'' = [] then issuer
          else values_Get (ParseQuery (u_RawQuery u)) ''iss'') \<and>
       (\<forall>k. k \<noteq> ''iss'' \<longrightarrow>
          values_All (ParseQuery (u_RawQuery u')) k = values_All (ParseQuery (u_RawQuery u)) k))"
proof (cases "values_Get (ParseQuery (u_RawQuery u)) ''iss'' = []")
  case False
  then have "w' = w" using assms(2-6) by (simp add: iss_WriteHeader_def)
  with False assms(5) show ?thesis by auto
next
  case True
  let ?m = "values_Set ''iss'' issuer (ParseQuery (u_RawQuery u))"
  obtain u' where u': "P (unparse (u\<lparr>u_RawQuery := Encode ?m\<rparr>)) = Some u'" "u_RawQuery u' = Encode ?m"
    using assms(1) by blast
  have w': "w' = w\<lparr>w_Location := unparse (u\<lparr>u_RawQuery := Encode ?m\<rparr>)\<rparr>"
    using True assms(2-6) by (simp add: iss_WriteHeader_def Let_def)
  have all: "values_All (ParseQuery (Encode ?m)) k = values_All ?m k" for k
    by (rule Parse_Encode [OF distinct_Set [OF distinct_Parse]])
  have "values_Get (ParseQuery (Encode ?m)) ''iss'' = issuer"
    by (simp only: values_Get_All all values_Set_All) simp
  with True u' show ?thesis
    by (auto simp: w' all values_Set_All)
qed

text \<open>A parser and printer of bare queries.\<close>

definition query_url :: "string \<Rightarrow> url" where
  "query_url q = \<lparr>u_Scheme = [], u_User = None, u_Host = [], u_Path = [], u_RawQuery = q, u_Fragment = []\<rparr>"

theorem iss_redirect_witness:
  "\<exists>u'. Some (query_url (w_Location
      (iss_WriteHeader (\<lambda>s. Some (query_url s)) u_RawQuery ''i'' \<lparr>w_Status = 303, w_Location = ''a=b'', w_Body = []\<rparr>))) = Some u' \<and>
     values_Get (ParseQuery (u_RawQuery u')) ''iss'' = ''i'' \<and> values_All (ParseQuery (u_RawQuery u')) ''a'' = [''b'']"
proof -
  have d: "values_All (ParseQuery ''a=b'') ''a'' = [''b'']" "values_Get (ParseQuery ''a=b'') ''iss'' = []"
    by (simp_all add: ParseQuery_def parse_pairs_def cut_char_def values_Add_def values_All_def values_Get_def
        List.map_filter_simps)
  show ?thesis
    using iss_redirect [of "\<lambda>s. Some (query_url s)" u_RawQuery "\<lparr>w_Status = 303, w_Location = ''a=b'', w_Body = []\<rparr>"
        "query_url ''a=b''" "''i''", OF _ _ _ _ _ refl] d
    by (simp add: query_url_def)
qed

section \<open>Pending authorization requests\<close>

lemma source_GetClient_state: "same_request_state w (snd (source_GetClient s requested now cid w))"
proof -
  obtain r w' where "lookupClient s now cid w = (r, w')" by fastforce
  then show ?thesis
    using lookupClient_frame [of s now cid w r w']
    by (cases r) (auto simp: source_GetClient_def same_request_state_def Let_def)
qed

text \<open>The redirect URIs a client may use: a registered one, or one that differs from a registered
  loopback URI in the port.\<close>

definition redirect_allowed :: "url_parser \<Rightarrow> (string \<Rightarrow> nat list option) \<Rightarrow> string list \<Rightarrow> string \<Rightarrow> bool" where
  "redirect_allowed P parse_ip uris raw \<longleftrightarrow>
     raw \<in> set uris \<or> (\<exists>reg \<in> set uris. port_variant P reg raw \<or> ip_port_variant P parse_ip reg raw)"

definition cookie_lists :: "idp_env \<Rightarrow> 'a web_scheme \<Rightarrow> string \<Rightarrow> bool" where
  "cookie_lists E w arID \<longleftrightarrow> arID \<in> set (authorizeRequestIDs E (w\<lparr>sess := cookie w\<rparr>))"

context ids_codec begin

lemma add_binds:
  assumes "sess_save (addAuthorizeRequestID E arID w) = (True, w')"
  shows "cookie_lists E w' arID"
proof -
  have "cookie w' = sess (addAuthorizeRequestID E arID w)"
    using sess_save_ok [OF assms] by simp
  then show ?thesis
    using ids_after_add [of arID w] by (simp add: cookie_lists_def authorizeRequestIDs_def sess_string_def)
qed

end

lemma addAuthorizeRequestID_frame [simp]:
  "repo (addAuthorizeRequestID E arID w) = repo w"
  "save_faults (addAuthorizeRequestID E arID w) = save_faults w"
  by (simp_all add: addAuthorizeRequestID_def sess_set_def Let_def)

context oauth2_provider begin

lemma new_request_allowed:
  assumes "op_NewAuthorizeRequest prov (source_GetClient s requested now) now req w = ((ar, None), w1)"
    and "P = ne_url (cs_net s)" and "\<And>h. fold_ascii h = ''localhost'' \<Longrightarrow> parse_ip h = None"
  shows "\<exists>c0 raw w2 w3. lookupClient s now (c_Query req ''client_id'') w2 = (Inr c0, w3) \<and> repo w2 = repo w \<and>
    fc_ID (fr_Client ar) = fc_ID c0 \<and> reparse raw = Some (far_RedirectURI ar) \<and>
    redirect_allowed P parse_ip (fc_RedirectURIs c0) raw"
proof -
  obtain w2 w3 raw where look: "source_GetClient s requested now (c_Query req ''client_id'') w2 = (Inr (fr_Client ar), w3)"
    and w2: "same_request_state w w2" and raw: "reparse raw = Some (far_RedirectURI ar)"
    and ok: "raw \<in> set (fc_RedirectURIs (fr_Client ar)) \<or>
      (\<exists>reg \<in> set (fc_RedirectURIs (fr_Client ar)). ip_port_variant P parse_ip reg raw)"
    using redirect_registered [OF assms(1)] by blast
  obtain c0 where c0: "lookupClient s now (c_Query req ''client_id'') w2 = (Inr c0, w3)"
    and c: "fr_Client ar = c0 \<or> (requested \<noteq> [] \<and>
      fr_Client ar = c0\<lparr>fc_RedirectURIs := fc_RedirectURIs c0 @ [requested]\<rparr> \<and>
      (\<exists>reg \<in> set (fc_RedirectURIs c0). port_variant P reg requested))"
    using source_GetClient_lookup [OF look] assms(2) by blast
  have no_ip: "\<not> ip_port_variant P parse_ip requested raw" if "port_variant P reg requested" for reg
    using that assms(3) by (auto simp: port_variant_def ip_port_variant_def)
  have "redirect_allowed P parse_ip (fc_RedirectURIs c0) raw"
    using c ok no_ip by (elim disjE conjE) (auto simp: redirect_allowed_def)
  moreover have "fc_ID (fr_Client ar) = fc_ID c0"
    using c by auto
  ultimately show ?thesis
    using c0 w2 raw by (auto simp: same_request_state_def)
qed

end

text \<open>The only way the authorize endpoint leaves a new record behind.\<close>

lemma handleAuth_bound_new:
  assumes "pending_storage A v" and "oauth2_provider (a_provider a) v P parse_ip reparse"
    and "a_repo_ar a = A"
    and "handleAuth_bound E a now req w = (r, w')"
    and "v (repo w') f k = Some d" and "v (repo w) f k \<noteq> Some d"
  obtains ar w1 w2 where
      "op_NewAuthorizeRequest (a_provider a) (source_GetClient (a_source a) (c_Query req ''redirect_uri'') now) now req w =
        ((ar, None), w1)"
    and "validateResource (a_externalURL a) (values_All (in_Query req) ''resource'') = None"
    and "f = AuthorizeReq" and "k = fr_ID ar" and "d = DAuthorize (FromFositeAuthorizeRequest ar)"
    and "save_faults w2 = save_faults w"
    and "fst (sess_save (addAuthorizeRequestID E k w2)) \<longrightarrow>
      r = Redirect 302 (authorization_return_url k) \<and> sess_save (addAuthorizeRequestID E k w2) = (True, w')"
proof -
  let ?look = "source_GetClient (a_source a) (c_Query req ''redirect_uri'') now"
  obtain ar oe w1 where n: "op_NewAuthorizeRequest (a_provider a) ?look now req w = ((ar, oe), w1)"
    by (metis prod.exhaust)
  have same: "same_request_state w w1"
    using oauth2_provider.authorize_request_reads [OF assms(2), of ?look w now req] n source_GetClient_state
    by (metis snd_conv)
  then have w1: "repo w1 = repo w" "save_faults w1 = save_faults w"
    by (simp_all add: same_request_state_def)
  note h = assms(4) [unfolded handleAuth_bound_def Let_def repo_GetClient_def n prod.case assms(3)]
  have changed: "repo w' \<noteq> repo w" using assms(5,6) by auto
  have oe: "oe = None" using h changed w1 by (cases oe) auto
  have res: "validateResource (a_externalURL a) (values_All (in_Query req) ''resource'') = None"
    using h changed w1 oe by (cases "validateResource (a_externalURL a) (values_All (in_Query req) ''resource'')") auto
  obtain rc w2 where c: "on_repo (as_CreateAuthorizeRequest A ar) w1 = (rc, w2)" by fastforce
  note h2 = h [unfolded oe res c prod.case option.case]
  have rc: "rc = Inr ()"
    using h2 assms(5,6) pending_storage.create_error [OF assms(1), of ar w1 _ w2] c w1 by (cases rc) auto
  have view: "v (repo w2) = spec_put AuthorizeReq (fr_ID ar) (DAuthorize (FromFositeAuthorizeRequest ar)) (v (repo w))"
    using pending_storage.create_view [OF assms(1), of ar w1 w2] c rc w1 by simp
  have sf: "save_faults w2 = save_faults w" using on_repo_frame [OF c] w1 by simp
  obtain ok w3 where s: "sess_save (addAuthorizeRequestID E (fr_ID ar) w2) = (ok, w3)" by fastforce
  have r3: "repo w3 = repo w2" using sess_save_repo [OF s] by simp
  note h3 = h2 [unfolded rc s prod.case sum.case]
  have end_view: "v (repo w') f k = Some d \<Longrightarrow> v (repo w2) f k = Some d"
  proof (cases ok)
    case False
    obtain rd where "on_repo (as_DeleteAuthorizeRequest A (fr_ID ar)) w3 = (rd, w')"
      using h3 False by (cases "on_repo (as_DeleteAuthorizeRequest A (fr_ID ar)) w3") auto
    then have "v (repo w') j i = v (repo w2) j i" if "(j, i) \<noteq> (AuthorizeReq, fr_ID ar)" for j i
      using pending_storage.delete_view [OF assms(1) _ that] r3 by metis
    moreover have "v (repo w') AuthorizeReq (fr_ID ar) \<in> {None, v (repo w2) AuthorizeReq (fr_ID ar)}"
    proof (cases rd)
      case (Inl e)
      then show ?thesis
        using pending_storage.delete_error [OF assms(1), of "fr_ID ar" w3 e w']
          \<open>on_repo (as_DeleteAuthorizeRequest A (fr_ID ar)) w3 = (rd, w')\<close> r3 by simp
    next
      case (Inr u)
      then show ?thesis
        using pending_storage.delete_gone [OF assms(1), of "fr_ID ar" w3 w']
          \<open>on_repo (as_DeleteAuthorizeRequest A (fr_ID ar)) w3 = (rd, w')\<close> by simp
    qed
    moreover assume "v (repo w') f k = Some d"
    ultimately show ?thesis by (cases "(f, k) = (AuthorizeReq, fr_ID ar)") auto
  next
    case True
    moreover assume "v (repo w') f k = Some d"
    ultimately show ?thesis using h3 r3 by simp
  qed
  with assms(5,6) view have "f = AuthorizeReq" "k = fr_ID ar" "d = DAuthorize (FromFositeAuthorizeRequest ar)"
    by (auto simp: spec_put_def split: if_splits)
  moreover from this have "fst (sess_save (addAuthorizeRequestID E k w2)) \<longrightarrow>
      r = Redirect 302 (authorization_return_url k) \<and> sess_save (addAuthorizeRequestID E k w2) = (True, w')"
    using h3 s by (cases ok) simp_all
  ultimately show thesis
    using that n oe res sf by blast
qed

lemma with_state_query:
  assumes "distinct (map fst (in_Query req))" and "k \<noteq> ''state''"
  shows "values_All (in_Query (req\<lparr>in_Query := ParseQuery (Encode (values_Set ''state'' x (in_Query req)))\<rparr>)) k =
      values_All (in_Query req) k"
  using assms by (simp add: Parse_Encode distinct_Set values_Set_All)

lemma sess_save_ok_iff: "fst (sess_save w) \<longleftrightarrow> take 1 (save_faults w) \<noteq> [True]"
  by (auto simp: sess_save_def split: list.splits bool.splits)

text \<open>\<open>handleAuth\<close> is \<open>handleAuth_bound\<close> on a request that differs at most in its state.\<close>

lemma handleAuth_bound_form:
  assumes "handleAuth E a now req w = (r, w')" and "distinct (map fst (in_Query req))"
    and "repo w' \<noteq> repo w"
  obtains req1 w1 where "handleAuth_bound E a now req1 w1 = (r, w')" and "repo w1 = repo w"
    and "save_faults w1 = save_faults w" and "\<And>k. k \<noteq> ''state'' \<Longrightarrow> values_All (in_Query req1) k = values_All (in_Query req) k"
proof (cases "c_Query req ''state'' = []")
  case False
  then show thesis using assms(1) that [of req w] by (simp add: handleAuth_def)
next
  case True
  obtain g w1 where g: "GenerateState (ie_rand E) w = (g, w1)" by fastforce
  have w1: "w1 = w\<lparr>draws := Suc (draws w)\<rparr>"
    using g unfolding GenerateState_def by (rule rand_hex_state)
  show thesis
  proof (cases g)
    case (Inl e)
    then show thesis using assms(1,3) True g w1 by (auto simp: handleAuth_def)
  next
    case (Inr x)
    then have "handleAuth_bound E a now (req\<lparr>in_Query := ParseQuery (Encode (values_Set ''state'' x (in_Query req)))\<rparr>) w1 = (r, w')"
      using assms(1) True g by (simp add: handleAuth_def)
    then show thesis
      by (rule that) (simp_all add: w1 with_state_query [OF assms(2), simplified])
  qed
qed


subsection \<open>A request that arrives\<close>

definition demo_cb_client :: Client where
  "demo_cb_client = (FromFositeClient (demo_fclient ''a''))\<lparr>cl_RedirectURIs := [''https://c/cb'']\<rparr>"

definition demo_registered :: "ref_bucket kvs" where
  "demo_registered = \<lparr>kv_bucket = rb_insert rb_empty ''client-a'' (DClient demo_cb_client), kv_faults = []\<rparr>"

abbreviation demo_authorize :: HttpRequest where
  "demo_authorize \<equiv> demo_get [(''client_id'', [''a'']), (''redirect_uri'', [''https://c/cb'']), (''state'', [''r''])]"

lemma demo_authorize_query:
  "c_Query demo_authorize ''client_id'' = ''a''" "c_Query demo_authorize ''redirect_uri'' = ''https://c/cb''"
  "c_Query demo_authorize ''state'' = ''r''" "values_All (in_Query demo_authorize) ''resource'' = []"
  by (simp_all add: c_Query_def values_Get_def values_All_def demo_get_def)

lemma demo_lookup:
  "source_GetClient demo_source ''https://c/cb'' now ''a'' (demo_world s demo_registered) =
     (Inr (ToFositeClient demo_cb_client), demo_world s demo_registered)"
  by (simp add: source_GetClient_def lookupClient_def demo_source_def ask_repo_def kvs_DynamicClientStorage_def
      kvs_GetClient_def kvs_eval demo_world_def demo_registered_def demo_cb_client_def demo_fclient_def
      expandLoopbackRedirects_def FromFositeClient_def ToFositeClient_def client_expired_def Let_def)

lemma demo_new_request:
  "op_NewAuthorizeRequest (ref_provider Some) (source_GetClient demo_source ''https://c/cb'' now) now demo_authorize
     (demo_world s demo_registered) =
   ((ref_authorize_request demo_authorize (ToFositeClient demo_cb_client) now, None), demo_world s demo_registered)"
  by (simp add: ref_provider_def demo_authorize_query demo_lookup)
     (simp add: demo_cb_client_def ToFositeClient_def)

lemma demo_authorize_run:
  "\<exists>d r w'. handleAuth demo_idp_env demo_router 9 demo_authorize (demo_world Map.empty demo_registered) = (r, w') \<and>
     kview ref_bolt (repo w') AuthorizeReq ''r'' = Some d"
proof -
  have st: "a_provider demo_router = ref_provider Some" "a_source demo_router = demo_source"
    "as_CreateAuthorizeRequest (a_repo_ar demo_router) = kvs_CreateAuthorizeRequest ref_bolt"
    by (simp_all add: demo_router_def kvs_AuthorizeRequestStorage_def)
  have res: "validateResource u [] = None" for u
    by (simp add: validateResource_def)
  have ne: "c_Query demo_authorize ''state'' \<noteq> []"
    unfolding demo_authorize_query by simp
  have run: "handleAuth demo_idp_env demo_router 9 demo_authorize (demo_world Map.empty demo_registered) =
      handleAuth_bound demo_idp_env demo_router 9 demo_authorize (demo_world Map.empty demo_registered)"
    unfolding handleAuth_def if_not_P [OF ne] ..
  show ?thesis
    unfolding run handleAuth_bound_def Let_def repo_GetClient_def st demo_authorize_query demo_new_request
      prod.case option.case res
    by (simp add: on_repo_def kvs_CreateAuthorizeRequest_def kvs_eval demo_world_def demo_registered_def
        ref_authorize_request_def demo_authorize_query addAuthorizeRequestID_def authorizeRequestIDs_def
        hasAuthorizeRequestID_def sess_string_def sess_set_def sess_save_def kview_def bview_def family_prefix.simps)
qed


section \<open>Registration\<close>

lemma validateRegistration_ok:
  assumes "validateRegistration P rg0 = Inr rg"
  shows "rg_RedirectURIs rg = rg_RedirectURIs rg0 \<and> rg_RedirectURIs rg \<noteq> [] \<and>
    list_all (\<lambda>u. ValidateRedirectURI P u = Inr ()) (rg_RedirectURIs rg) \<and>
    rg_GrantTypes rg \<noteq> [] \<and> list_all IsSupportedGrantType (rg_GrantTypes rg) \<and>
    rg_ResponseTypes rg \<noteq> [] \<and> list_all IsSupportedResponseType (rg_ResponseTypes rg) \<and>
    rg_TokenEndpointAuthMethod rg \<in> set supportedAuthMethods \<and> rg_ClientName rg = rg_ClientName rg0"
  using assms
  by (auto simp: validateRegistration_def Let_def list_all_iff find_None_iff split: if_splits option.splits)

lemma new_secret_state: "new_secret E pub w = (x, w') \<Longrightarrow> repo w' = repo w"
  by (auto simp: new_secret_def GenerateClientSecret_def dest: rand_hex_state
      split: if_splits prod.splits sum.splits option.splits)

lemma new_secret_ok:
  "new_secret E pub w = (Some (s, h), w') \<Longrightarrow> if pub then s = [] \<and> h = [] else ie_hash E s = Some h"
  by (auto simp: new_secret_def split: if_splits prod.splits sum.splits option.splits)

lemma GenerateClientID_state: "GenerateClientID src w = (x, w') \<Longrightarrow> repo w' = repo w"
  by (auto simp: GenerateClientID_def dest: rand_hex_state)

text \<open>The record of a validated registration.\<close>

definition stored_client :: "'s IDPRouter \<Rightarrow> (nat \<Rightarrow> time) \<Rightarrow> registrationRequest \<Rightarrow> string \<Rightarrow> string \<Rightarrow> Client" where
  "stored_client a clk rg cid hashed =
     (FromFositeClient (registered_client (a_externalURL a) cid hashed rg
        (rg_TokenEndpointAuthMethod rg = ''none'')))
     \<lparr>cl_Name := rg_ClientName rg, cl_CreatedAt := clk 1,
      cl_ExpiresAt := (if 0 < a_dcrClientTTL a then clk 0 + a_dcrClientTTL a else 0)\<rparr>"

text \<open>What a registration relies on of the store: it is stored under its identifier or not at all.\<close>

locale registry =
  fixes D :: "'s DynamicClientStorage" and v :: "'s \<Rightarrow> store"
  assumes stores_registration: "writes v s (ds_RegisterClient D g created now s)
      (spec_put ClientReg (fc_ID (cr_Client g))
        (DClient ((FromFositeClient (cr_Client g))
          \<lparr>cl_Name := cr_Name g, cl_CreatedAt := created, cl_ExpiresAt := cr_ExpiresAt g\<rparr>)))"

sublocale dynamic_client_storage \<subseteq> registry D v
  by unfold_locales (rule register_client)

context bolt_bucket begin

lemma kvs_registry: "registry (kvs_DynamicClientStorage B) (kview B)"
  by (rule registry_axioms)

end

lemma handleRegister_valid_new:
  assumes "registry D v" and "cs_clients (a_source a) = D"
    and "handleRegister_valid E a clk req rg w = (r, w')"
    and "v (repo w') f k = Some d" and "v (repo w) f k \<noteq> Some d"
  obtains secret hashed doc where "f = ClientReg" and "d = DClient (stored_client a clk rg k hashed)"
    and "if rg_TokenEndpointAuthMethod rg = ''none'' then secret = [] \<and> hashed = [] else ie_hash E secret = Some hashed"
    and "r = server_error \<or>
      r = Body 201 (RegisteredDoc doc) \<and> rr_ClientID doc = k \<and> rr_ClientSecret doc = secret \<and>
      rr_RedirectURIs doc = rg_RedirectURIs rg"
proof -
  let ?pub = "rg_TokenEndpointAuthMethod rg = ''none''"
  obtain g w1 where g: "GenerateClientID (ie_rand E) w = (g, w1)" by fastforce
  have w1: "repo w1 = repo w" by (rule GenerateClientID_state [OF g])
  obtain cid where cid: "g = Inr cid"
    using assms(3-5) g w1 by (cases g) (auto simp: handleRegister_valid_def)
  obtain ns w2 where ns: "new_secret E ?pub w1 = (ns, w2)" by fastforce
  have w2: "repo w2 = repo w" using new_secret_state [OF ns] w1 by simp
  note h = assms(3) [unfolded handleRegister_valid_def g cid prod.case sum.case Let_def ns]
  obtain secret hashed where sh: "ns = Some (secret, hashed)"
    using h assms(4,5) w2 by (cases ns) auto
  have ok: "if ?pub then secret = [] \<and> hashed = [] else ie_hash E secret = Some hashed"
    using new_secret_ok [of E ?pub w1 secret hashed w2] ns sh by simp
  let ?reg = "\<lparr>cr_Client = registered_client (a_externalURL a) cid hashed rg ?pub, cr_Name = rg_ClientName rg,
      cr_ExpiresAt = (if 0 < a_dcrClientTTL a then clk 0 + a_dcrClientTTL a else 0), cr_MaxClients = a_dcrMaxClients a\<rparr>"
  obtain rr w3 where rr: "on_repo (ds_RegisterClient D ?reg (clk 1) (clk 2)) w2 = (rr, w3)" by fastforce
  note h2 = h [unfolded sh option.case prod.case assms(2) rr]
  have wr: "writes v (repo w2) (ds_RegisterClient D ?reg (clk 1) (clk 2) (repo w2))
      (spec_put ClientReg cid (DClient (stored_client a clk rg cid hashed)))"
    using registry.stores_registration [OF assms(1), of "repo w2" ?reg "clk 1" "clk 2"]
    by (simp add: stored_client_def registered_client_def)
  have r3: "ds_RegisterClient D ?reg (clk 1) (clk 2) (repo w2) = (rr, repo w3)"
    using on_repo_frame [OF rr] by blast
  have rrok: "rr = Inr ()"
    using h2 assms(4,5) w2 wr r3 by (cases rr) (auto simp: writes_def)
  have view: "v (repo w3) = spec_put ClientReg cid (DClient (stored_client a clk rg cid hashed)) (v (repo w))"
    using wr r3 rrok w2 by (simp add: writes_def)
  note h3 = h2 [unfolded rrok sum.case]
  have w': "repo w' = repo w3" and res: "r = server_error \<or> (\<exists>doc. r = Body 201 (RegisteredDoc doc) \<and> rr_ClientID doc = cid \<and>
      rr_ClientSecret doc = secret \<and> rr_RedirectURIs doc = rg_RedirectURIs rg)"
    using h3 ok by (cases "ie_join_path E RegistrationEndpoint cid"; auto simp: authevent_Log_def)+
  have "f = ClientReg" "k = cid" "d = DClient (stored_client a clk rg cid hashed)"
    using assms(4,5) view w' by (auto simp: spec_put_def split: if_splits)
  with ok res show thesis using that by blast
qed


lemma demo_register_run:
  "\<exists>d. fst (handleRegister demo_idp_env demo_router (\<lambda>_. 9) (demo_post []) (demo_world Map.empty empty_kvs)) \<noteq> server_error \<and>
     kview ref_bolt (repo (snd (handleRegister demo_idp_env demo_router (\<lambda>_. 9) (demo_post []) (demo_world Map.empty empty_kvs))))
       ClientReg (hex_encode ''0'') = Some d"
  by (simp add: handleRegister_def demo_idp_env_def demo_router_def demo_source_def idp_demo_net_def
      validateRegistration_def demo_parse_def ValidateRedirectURI_def supportedAuthMethods_def IsSupportedGrantType_def
      IsSupportedResponseType_def supportedGrantTypes_def supportedResponseTypes_def)
     (simp add: handleRegister_valid_def GenerateClientID_def rand_hex_def demo_world_def empty_kvs_def new_secret_def
      on_repo_def kvs_DynamicClientStorage_def kvs_RegisterClient_def kvs_eval countNonExpiredClients_def
      registered_client_def authevent_Log_def kview_def bview_def family_prefix.simps server_error_def
      hex_encode_def Let_def)


end
