(* ===== verification/Header.thy ===== *)
theory Header
  imports Query
begin

text \<open>
  \<open>http.Header\<close> of the Go standard library: a map from canonical names to lists of values.
\<close>

type_synonym header = url_values

text \<open>The bytes of a token of RFC 7230 (digits, letters and \<open>!#$%&'*+-.^_`|~\<close>), as \<open>validHeaderFieldByte\<close> has them.\<close>

definition field_byte :: "char \<Rightarrow> bool" where
  "field_byte c \<longleftrightarrow>
     is_digit c \<or> (65 \<le> byte c \<and> byte c \<le> 90) \<or> (97 \<le> byte c \<and> byte c \<le> 122) \<or>
     byte c \<in> {33, 35, 36, 37, 38, 39, 42, 43, 45, 46, 94, 95, 96, 124, 126}"

fun canon :: "bool \<Rightarrow> string \<Rightarrow> string" where
  "canon up [] = []"
| "canon up (c # s) = (if up then upper_byte c else lower_byte c) # canon (c = CHR ''-'') s"

text \<open>\<open>textproto.CanonicalMIMEHeaderKey\<close>: a name with other bytes is left as it is.\<close>

definition CanonicalHeaderKey :: "string \<Rightarrow> string" where
  "CanonicalHeaderKey s = (if list_all field_byte s then canon True s else s)"

definition hdr_Values :: "header \<Rightarrow> string \<Rightarrow> string list" where
  "hdr_Values h k = (case map_of h (CanonicalHeaderKey k) of None \<Rightarrow> [] | Some vs \<Rightarrow> vs)"

definition hdr_Get :: "header \<Rightarrow> string \<Rightarrow> string" where
  "hdr_Get h k = (case hdr_Values h k of [] \<Rightarrow> [] | v # _ \<Rightarrow> v)"

definition hdr_Del :: "string \<Rightarrow> header \<Rightarrow> header" where
  "hdr_Del k h = filter (\<lambda>(j, _). j \<noteq> CanonicalHeaderKey k) h"

definition hdr_Set :: "string \<Rightarrow> string \<Rightarrow> header \<Rightarrow> header" where
  "hdr_Set k v h = hdr_Del k h @ [(CanonicalHeaderKey k, [v])]"

definition hdr_Add :: "string \<Rightarrow> string \<Rightarrow> header \<Rightarrow> header" where
  "hdr_Add k v h = hdr_Del k h @ [(CanonicalHeaderKey k, hdr_Values h k @ [v])]"

lemma map_of_hdr_Del: "map_of (hdr_Del k h) j = (if j = CanonicalHeaderKey k then None else map_of h j)"
  unfolding hdr_Del_def by (induction h) auto

text \<open>Each update changes the values of one canonical name.\<close>

lemma hdr_Values_updates [simp]:
  "hdr_Values (hdr_Del k h) j = (if CanonicalHeaderKey j = CanonicalHeaderKey k then [] else hdr_Values h j)"
  "hdr_Values (hdr_Set k v h) j = (if CanonicalHeaderKey j = CanonicalHeaderKey k then [v] else hdr_Values h j)"
  "hdr_Values (hdr_Add k v h) j =
     (if CanonicalHeaderKey j = CanonicalHeaderKey k then hdr_Values h j @ [v] else hdr_Values h j)"
  by (auto simp: hdr_Values_def hdr_Set_def hdr_Add_def map_of_hdr_Del map_add_def split: option.splits)

lemma hdr_Values_Add_all:
  "hdr_Values (fold (hdr_Add k) vs h) j =
     (if CanonicalHeaderKey j = CanonicalHeaderKey k then hdr_Values h j @ vs else hdr_Values h j)"
  by (induction vs arbitrary: h) auto

lemma byte_case:
  "byte (upper_byte c) = (if 97 \<le> byte c \<and> byte c \<le> 122 then byte c - 32 else byte c)"
  "byte (lower_byte c) = (if 65 \<le> byte c \<and> byte c \<le> 90 then byte c + 32 else byte c)"
proof -
  have "(byte c - 32) mod 256 = byte c - 32" if "byte c \<le> 122" using that by (intro mod_less) linarith
  then show "byte (upper_byte c) = (if 97 \<le> byte c \<and> byte c \<le> 122 then byte c - 32 else byte c)"
    by (auto simp: upper_byte_def)
  have "(byte c + 32) mod 256 = byte c + 32" if "byte c \<le> 90" using that by (intro mod_less) linarith
  then show "byte (lower_byte c) = (if 65 \<le> byte c \<and> byte c \<le> 90 then byte c + 32 else byte c)"
    by (auto simp: lower_byte_def)
qed

lemma canon_idem: "canon up (canon up s) = canon up s"
proof -
  have inj: "x = y \<longleftrightarrow> byte x = byte y" for x y :: char by simp
  have u: "upper_byte (upper_byte c) = upper_byte c" "lower_byte (lower_byte c) = lower_byte c" for c
    unfolding inj byte_case by auto
  have d: "(upper_byte c = CHR ''-'') = (c = CHR ''-'')" "(lower_byte c = CHR ''-'') = (c = CHR ''-'')" for c
    unfolding inj byte_case by auto
  show ?thesis by (induction s arbitrary: up) (auto simp: u d)
qed

lemma field_byte_letter:
  "65 \<le> byte c \<and> byte c \<le> 90 \<Longrightarrow> field_byte c" "97 \<le> byte c \<and> byte c \<le> 122 \<Longrightarrow> field_byte c"
  unfolding field_byte_def by blast+

lemma field_byte_case: "field_byte (upper_byte c) = field_byte c" "field_byte (lower_byte c) = field_byte c"
proof -
  show "field_byte (upper_byte c) = field_byte c"
  proof (cases "97 \<le> byte c \<and> byte c \<le> 122")
    case True
    then have "65 \<le> byte (upper_byte c) \<and> byte (upper_byte c) \<le> 90" by (simp add: byte_case) linarith
    with True show ?thesis by (simp only: field_byte_letter)
  next
    case False
    then have "upper_byte c = c" by (simp only: upper_byte_def if_False)
    then show ?thesis by simp
  qed
  show "field_byte (lower_byte c) = field_byte c"
  proof (cases "65 \<le> byte c \<and> byte c \<le> 90")
    case True
    then have "97 \<le> byte (lower_byte c) \<and> byte (lower_byte c) \<le> 122" by (simp add: byte_case)
    with True show ?thesis by (simp only: field_byte_letter)
  next
    case False
    then have "lower_byte c = c" by (simp only: lower_byte_def if_False)
    then show ?thesis by simp
  qed
qed

lemma field_bytes_canon: "list_all field_byte (canon up s) = list_all field_byte s"
  by (induction s arbitrary: up) (auto simp: field_byte_case)

lemma CanonicalHeaderKey_idem [simp]: "CanonicalHeaderKey (CanonicalHeaderKey s) = CanonicalHeaderKey s"
  by (simp add: CanonicalHeaderKey_def field_bytes_canon canon_idem)

end
