(* ===== verification/Transparent.thy ===== *)
theory Transparent
  imports Netip Pages Header
begin

text \<open>
  \<^verbatim>\<open>pkg/backend/transparent.go\<close>: the HTTP backend.  \<open>netip.ParsePrefix\<close>, \<open>netip.ParseAddr\<close>,
  \<open>Prefix.String\<close>, \<open>net.SplitHostPort\<close> and \<open>URL.Parse\<close> are parameters, as is the base
  transport: \<open>base i req\<close> is the answer of the \<open>i\<close>-th call.  The header of the request the
  reverse proxy sends is computed from the inbound one by \<open>rewrite_header\<close>.
\<close>

section \<open>Trusted proxies\<close>

text \<open>An address and its zone.\<close>

type_synonym zoned = "addr \<times> string"

record net_lib =
  nl_ParsePrefix :: "string \<Rightarrow> pfx option"
  nl_ParseAddr :: "string \<Rightarrow> zoned option"
  nl_PrefixString :: "pfx \<Rightarrow> string"
  nl_SplitHostPort :: "string \<Rightarrow> (string \<times> string) option"

text \<open>\<open>netip.PrefixFrom (addr, addr.BitLen ())\<close>, which drops the zone.\<close>

definition host_prefix :: "addr \<Rightarrow> pfx" where
  "host_prefix a = (case a of V4 w \<Rightarrow> P4 w 32 | V6 w \<Rightarrow> P6 w 128)"

fun ParseTrustedProxies :: "net_lib \<Rightarrow> string list \<Rightarrow> pfx list result" where
  "ParseTrustedProxies N [] = Inr []"
| "ParseTrustedProxies N (entry # es) =
     (case nl_ParsePrefix N entry of
        Some q \<Rightarrow> res_bind (ParseTrustedProxies N es) (\<lambda>ps. Inr (q # ps))
      | None \<Rightarrow>
          (case nl_ParseAddr N entry of
             None \<Rightarrow> Inl (ErrMsg ''invalid trusted proxy entry'')
           | Some (a, _) \<Rightarrow>
               res_bind (ParseTrustedProxies N es) (\<lambda>ps. Inr (host_prefix (Unmap a) # ps))))"

definition NormalizeTrustedProxies :: "net_lib \<Rightarrow> string list \<Rightarrow> string list result" where
  "NormalizeTrustedProxies N es =
     res_bind (ParseTrustedProxies N es) (\<lambda>prefixes. Inr (map (nl_PrefixString N) prefixes))"

record TransparentBackend =
  tb_url :: url
  tb_trusted :: "pfx list"

definition NewTransparentBackend :: "net_lib \<Rightarrow> url \<Rightarrow> string list \<Rightarrow> TransparentBackend result" where
  "NewTransparentBackend N u trusted =
     res_bind (ParseTrustedProxies N trusted) (\<lambda>trn. Inr \<lparr>tb_url = u, tb_trusted = trn\<rparr>)"

text \<open>\<open>Prefix.Contains\<close>: an address with a zone is in no prefix.  \<open>Unmap\<close> of a mapped address
  drops its zone.\<close>

definition isTrusted :: "net_lib \<Rightarrow> TransparentBackend \<Rightarrow> string \<Rightarrow> bool" where
  "isTrusted N p hostport0 =
     (let hostport = (case nl_SplitHostPort N hostport0 of Some (host, _) \<Rightarrow> host | None \<Rightarrow> hostport0)
      in case nl_ParseAddr N hostport of
           None \<Rightarrow> False
         | Some (ip, zone) \<Rightarrow>
             (let zone' = (if Unmap ip = ip then zone else [])
              in list_ex (\<lambda>q. zone' = [] \<and> Contains q (Unmap ip)) (tb_trusted p)))"

section \<open>Following redirects\<close>

record hop =
  h_Method :: string
  h_URL :: url
  h_Host :: string
  h_Header :: header
  h_Body :: "string option"
  h_ContentLength :: int

record upstream_response =
  ur_StatusCode :: int
  ur_Header :: header

type_synonym transport = "nat \<Rightarrow> hop \<Rightarrow> upstream_response result"

definition maxBackendRedirects :: nat where "maxBackendRedirects = 10"
definition maxRedirectReplayBody :: nat where "maxRedirectReplayBody = 4 * 1024 * 1024"

definition ErrMaxRedirects :: err where
  "ErrMaxRedirects = ErrMsg ''backend exceeded maximum redirects (10)''"

definition next_hop :: "url \<Rightarrow> string option \<Rightarrow> hop \<Rightarrow> hop" where
  "next_hop newURL bodyBytes req =
     (case bodyBytes of
        None \<Rightarrow> req\<lparr>h_URL := newURL, h_Host := u_Host newURL\<rparr>
      | Some b \<Rightarrow> req\<lparr>h_URL := newURL, h_Host := u_Host newURL, h_Body := Some b, h_ContentLength := int (length b)\<rparr>)"

text \<open>The loop, with the number of rounds left; the second component lists the requests sent.\<close>

fun follow ::
  "transport \<Rightarrow> (url \<Rightarrow> string \<Rightarrow> url option) \<Rightarrow> string \<Rightarrow> string option \<Rightarrow> nat \<Rightarrow> nat \<Rightarrow> hop \<Rightarrow>
     upstream_response result \<times> hop list" where
  "follow base resolve targetHost bodyBytes 0 i req = (Inl ErrMaxRedirects, [])"
| "follow base resolve targetHost bodyBytes (Suc n) i req =
     (case base i req of
        Inl e \<Rightarrow> (Inl e, [req])
      | Inr resp \<Rightarrow>
          if ur_StatusCode resp \<noteq> 307 \<and> ur_StatusCode resp \<noteq> 308 then (Inr resp, [req])
          else (let location = hdr_Get (ur_Header resp) ''Location''
            in if location = [] then (Inr resp, [req])
               else (case resolve (h_URL req) location of
                  None \<Rightarrow> (Inr resp, [req])
                | Some newURL \<Rightarrow>
                    if u_Host newURL \<noteq> [] \<and> u_Host newURL \<noteq> targetHost then (Inr resp, [req])
                    else (case follow base resolve targetHost bodyBytes n (Suc i) (next_hop newURL bodyBytes req) of
                            (r, hs) \<Rightarrow> (r, req # hs)))))"

definition RoundTrip ::
  "transport \<Rightarrow> (url \<Rightarrow> string \<Rightarrow> url option) \<Rightarrow> string \<Rightarrow> bool \<Rightarrow> hop \<Rightarrow> upstream_response result \<times> hop list" where
  "RoundTrip base resolve targetHost read_fails req =
     (case h_Body req of
        None \<Rightarrow> follow base resolve targetHost None (Suc maxBackendRedirects) 0 req
      | Some b \<Rightarrow>
          if read_fails then (Inl (ErrMsg ''failed to read request body''), [])
          else if length b > maxRedirectReplayBody then (base 0 req, [req])
          else follow base resolve targetHost (Some b) (Suc maxBackendRedirects) 0 req)"

section \<open>The forwarding headers\<close>

record peer =
  pe_RemoteAddr :: string
  pe_Host :: string
  pe_TLS :: bool

text \<open>\<open>pr.Out.Header[k] = vs\<close> for a canonical name.\<close>

definition hdr_Put :: "string \<Rightarrow> string list \<Rightarrow> header \<Rightarrow> header" where
  "hdr_Put k vs h = hdr_Del k h @ [(CanonicalHeaderKey k, vs)]"

text \<open>\<open>httputil.ProxyRequest.SetXForwarded\<close>.\<close>

definition SetXForwarded :: "net_lib \<Rightarrow> peer \<Rightarrow> header \<Rightarrow> header" where
  "SetXForwarded N pe h =
     (let h1 = (case nl_SplitHostPort N (pe_RemoteAddr pe) of
                  None \<Rightarrow> hdr_Del ''X-Forwarded-For'' h
                | Some (clientIP, _) \<Rightarrow>
                    (let prior = hdr_Values h ''X-Forwarded-For''
                     in hdr_Set ''X-Forwarded-For''
                          (if prior \<noteq> [] then join prior '', '' @ '', '' @ clientIP else clientIP) h))
      in hdr_Set ''X-Forwarded-Proto'' (if pe_TLS pe then ''https'' else ''http'')
           (hdr_Set ''X-Forwarded-Host'' (pe_Host pe) h1))"

definition restore_header :: "header \<Rightarrow> string \<Rightarrow> header \<Rightarrow> header" where
  "restore_header inbound k h = (if hdr_Get inbound k \<noteq> [] then hdr_Set k (hdr_Get inbound k) h else h)"

text \<open>The \<open>Rewrite\<close> function on the headers: \<open>inbound\<close> is \<open>pr.In.Header\<close>, \<open>out\<close> is
  \<open>pr.Out.Header\<close> as the reverse proxy hands it over.\<close>

definition rewrite_header :: "net_lib \<Rightarrow> TransparentBackend \<Rightarrow> peer \<Rightarrow> header \<Rightarrow> header \<Rightarrow> header" where
  "rewrite_header N p pe inbound out =
     (let trusted = isTrusted N p (pe_RemoteAddr pe);
          out1 = (if trusted then hdr_Put ''X-Forwarded-For'' (hdr_Values inbound ''X-Forwarded-For'') out
                  else hdr_Del ''X-Forwarded-Port'' (hdr_Del ''X-Forwarded-Proto''
                    (hdr_Del ''X-Forwarded-Host'' (hdr_Del ''X-Forwarded-For'' out))));
          out2 = SetXForwarded N pe out1
      in if trusted then
           restore_header inbound ''X-Forwarded-Port'' (restore_header inbound ''X-Forwarded-Proto''
             (restore_header inbound ''X-Forwarded-Host'' out2))
         else out2)"

section \<open>The redirect loop\<close>

lemma follow_spec:
  assumes "follow base resolve target body n i req = (r, hs)" and "h_Body req = body"
  shows "length hs \<le> n" and "hs \<noteq> [] \<Longrightarrow> hd hs = req"
    and "\<forall>h \<in> set hs. h_Method h = h_Method req \<and> h_Header h = h_Header req \<and> h_Body h = body"
    and "\<forall>h \<in> set (tl hs). u_Host (h_URL h) \<in> {target, []} \<and> h_Host h = u_Host (h_URL h)"
    and "r = (if length hs = n \<and> (n = 0 \<or> r = Inl ErrMaxRedirects) then Inl ErrMaxRedirects
      else base (i + length hs - 1) (last hs))"
proof -
  have "length hs \<le> n \<and> (hs \<noteq> [] \<longrightarrow> hd hs = req) \<and>
      (\<forall>h \<in> set hs. h_Method h = h_Method req \<and> h_Header h = h_Header req \<and> h_Body h = body) \<and>
      (\<forall>h \<in> set (tl hs). u_Host (h_URL h) \<in> {target, []} \<and> h_Host h = u_Host (h_URL h)) \<and>
      (hs = [] \<longrightarrow> n = 0) \<and>
      r = (if length hs = n \<and> (n = 0 \<or> r = Inl ErrMaxRedirects) then Inl ErrMaxRedirects
        else base (i + length hs - 1) (last hs))"
    using assms
  proof (induction n arbitrary: i req r hs)
    case (Suc n)
    show ?case
    proof (cases "\<exists>resp newURL. base i req = Inr resp \<and> (ur_StatusCode resp = 307 \<or> ur_StatusCode resp = 308) \<and>
        hdr_Get (ur_Header resp) ''Location'' \<noteq> [] \<and>
        resolve (h_URL req) (hdr_Get (ur_Header resp) ''Location'') = Some newURL \<and>
        u_Host newURL \<in> {target, []}")
      case True
      then obtain resp newURL hs' where
        rec: "follow base resolve target body n (Suc i) (next_hop newURL body req) = (r, hs')"
        and hs: "hs = req # hs'" and host: "u_Host newURL \<in> {target, []}"
        using Suc.prems(1) by (auto simp: Let_def split: if_splits prod.splits)
      have same: "h_Method (next_hop newURL body req) = h_Method req" "h_Header (next_hop newURL body req) = h_Header req"
        "h_Body (next_hop newURL body req) = body" "h_URL (next_hop newURL body req) = newURL"
        "h_Host (next_hop newURL body req) = u_Host newURL"
        using Suc.prems(2) by (auto simp: next_hop_def split: option.splits)
      note IH = Suc.IH [OF rec same(3)]
      have tail: "\<forall>h \<in> set hs'. u_Host (h_URL h) \<in> {target, []} \<and> h_Host h = u_Host (h_URL h)"
      proof (cases hs')
        case (Cons h t)
        then show ?thesis using IH host same by auto
      qed simp
      have res: "r = (if length hs = Suc n \<and> (Suc n = 0 \<or> r = Inl ErrMaxRedirects) then Inl ErrMaxRedirects
          else base (i + length hs - 1) (last hs))"
        using IH by (auto simp: hs)
      show ?thesis using IH tail same res Suc.prems(2) by (auto simp: hs)
    next
      case False
      then have "r = base i req \<and> hs = [req]"
        using Suc.prems(1) by (auto simp: Let_def split: sum.splits option.splits if_splits)
      then show ?thesis using Suc.prems(2) by auto
    qed
  qed simp
  then show "length hs \<le> n" and "hs \<noteq> [] \<Longrightarrow> hd hs = req"
    and "\<forall>h \<in> set hs. h_Method h = h_Method req \<and> h_Header h = h_Header req \<and> h_Body h = body"
    and "\<forall>h \<in> set (tl hs). u_Host (h_URL h) \<in> {target, []} \<and> h_Host h = u_Host (h_URL h)"
    and "r = (if length hs = n \<and> (n = 0 \<or> r = Inl ErrMaxRedirects) then Inl ErrMaxRedirects
      else base (i + length hs - 1) (last hs))" by blast+
qed

end
