(* ===== verification/Oidc.thy ===== *)
theory Oidc
  imports Pages
begin

text \<open>
  \<^verbatim>\<open>pkg/auth/interface.go\<close> and \<^verbatim>\<open>oidc.go\<close>: the external login provider and its allow-list.
  Parameters (\<open>oidc_lib\<close>): the glob compiler, JSON pointers, the HTTP and OAuth 2 client.  A
  compiled pattern is its match function.
\<close>

record Provider =
  p_Name :: string
  p_Type :: string
  p_RedirectURL :: string
  p_AuthURL :: string
  p_AuthCodeURL :: "string \<Rightarrow> string result"
  p_Exchange :: "HttpRequest \<Rightarrow> string \<Rightarrow> string result"
  p_Authorization :: "string \<Rightarrow> (bool \<times> string \<times> (string \<times> json) list option) result"

definition OIDCAuthEndpoint :: string where "OIDCAuthEndpoint = ''/.auth/oidc''"
definition OIDCCallbackEndpoint :: string where "OIDCCallbackEndpoint = ''/.auth/oidc/callback''"

definition ErrNoAllowList :: err where
  "ErrNoAllowList = ErrMsg ''OIDC login is configured without an allow-list''"

definition ErrInvalidGlobPattern :: err where "ErrInvalidGlobPattern = ErrMsg ''invalid glob pattern''"

type_synonym glob = "string \<Rightarrow> bool"

record oidc_lib =
  ol_glob :: "string \<Rightarrow> glob option"
  ol_pointer :: "json \<Rightarrow> string \<Rightarrow> json option"
  ol_get :: "string \<Rightarrow> (int \<times> string) result"
  ol_discovery :: "string \<Rightarrow> (string \<times> string \<times> string) option"
    \<comment> \<open>authorization, token and userinfo endpoint of a discovery document\<close>
  ol_join_path :: "string \<Rightarrow> string \<Rightarrow> string option"
  ol_auth_code_url :: "string \<Rightarrow> string \<Rightarrow> string"
  ol_exchange :: "string \<Rightarrow> string \<Rightarrow> string result"
  ol_userinfo :: "string \<Rightarrow> string \<Rightarrow> (int \<times> string) result"
  ol_json :: "string \<Rightarrow> json option"

record oidcProvider =
  o_providerName :: string
  o_userInfoURL :: string
  o_userIDField :: string
  o_authEndpoint :: string
  o_tokenEndpoint :: string
  o_redirectURL :: string
  o_allowedUsers :: "string list"
  o_allowedUsersGlob :: "glob list"
  o_allowedAttributes :: "(string \<times> string list) list"
  o_allowedAttributesGlob :: "(string \<times> glob list) list"

section \<open>The allow-list\<close>

fun compileGlobs :: "oidc_lib \<Rightarrow> string list \<Rightarrow> glob list result" where
  "compileGlobs L [] = Inr []"
| "compileGlobs L (pattern # patterns) =
     (if pattern = [] then compileGlobs L patterns
      else (case ol_glob L pattern of
              None \<Rightarrow> Inl ErrInvalidGlobPattern
            | Some g \<Rightarrow> res_bind (compileGlobs L patterns) (\<lambda>gs. Inr (g # gs))))"

fun compileAttributes :: "oidc_lib \<Rightarrow> (string \<times> string list) list \<Rightarrow> (string \<times> glob list) list result" where
  "compileAttributes L [] = Inr []"
| "compileAttributes L ((key, patterns) # rest) =
     res_bind (compileGlobs L patterns) (\<lambda>compiled.
       res_bind (compileAttributes L rest) (\<lambda>m.
         Inr (if compiled \<noteq> [] then (key, compiled) # m else m)))"

definition hasAllowRule :: "oidcProvider \<Rightarrow> bool" where
  "hasAllowRule p \<longleftrightarrow>
     (if o_allowedUsers p \<noteq> [] \<or> o_allowedUsersGlob p \<noteq> [] \<or> o_allowedAttributesGlob p \<noteq> [] then True
      else list_ex (\<lambda>(_, values). values \<noteq> []) (o_allowedAttributes p))"

definition matchAttributeValue :: "json \<Rightarrow> string list \<Rightarrow> bool" where
  "matchAttributeValue attrValue allowedValues =
     (case attrValue of
        JStr v \<Rightarrow> v \<in> set allowedValues
      | JArr items \<Rightarrow> list_ex (\<lambda>item. case item of JStr s \<Rightarrow> s \<in> set allowedValues | _ \<Rightarrow> False) items
      | _ \<Rightarrow> False)"

definition matchAttributeGlob :: "json \<Rightarrow> glob list \<Rightarrow> bool" where
  "matchAttributeGlob attrValue globs =
     (case attrValue of
        JStr v \<Rightarrow> list_ex (\<lambda>g. g v) globs
      | JArr items \<Rightarrow> list_ex (\<lambda>item. case item of JStr s \<Rightarrow> list_ex (\<lambda>g. g s) globs | _ \<Rightarrow> False) items
      | _ \<Rightarrow> False)"

definition isAllowed :: "oidc_lib \<Rightarrow> oidcProvider \<Rightarrow> json \<Rightarrow> string \<Rightarrow> bool" where
  "isAllowed L p userInfo userID =
     (if userID \<in> set (o_allowedUsers p) then True
      else if list_ex (\<lambda>g. g userID) (o_allowedUsersGlob p) then True
      else if list_ex (\<lambda>(key, allowedValues). case ol_pointer L userInfo key of
             Some attrValue \<Rightarrow> matchAttributeValue attrValue allowedValues | None \<Rightarrow> False)
           (o_allowedAttributes p) then True
      else if list_ex (\<lambda>(key, globs). case ol_pointer L userInfo key of
             Some attrValue \<Rightarrow> matchAttributeGlob attrValue globs | None \<Rightarrow> False)
           (o_allowedAttributesGlob p) then True
      else False)"

section \<open>The provider\<close>

definition is_2xx :: "int \<Rightarrow> bool" where
  "is_2xx status \<longleftrightarrow> 200 \<le> status \<and> status < 300"

definition oidc_Exchange :: "oidc_lib \<Rightarrow> oidcProvider \<Rightarrow> HttpRequest \<Rightarrow> string \<Rightarrow> string result" where
  "oidc_Exchange L p req state =
     (if c_Query req ''state'' \<noteq> state then Inl (ErrMsg ''invalid OAuth state'')
      else ol_exchange L (o_tokenEndpoint p) (c_Query req ''code''))"

definition oidc_Authorization ::
  "oidc_lib \<Rightarrow> oidcProvider \<Rightarrow> string \<Rightarrow> (bool \<times> string \<times> (string \<times> json) list option) result" where
  "oidc_Authorization L p token =
     (case ol_userinfo L token (o_userInfoURL p) of
        Inl e \<Rightarrow> Inl e
      | Inr (status, body) \<Rightarrow>
          if \<not> is_2xx status then Inl (ErrMsg ''userinfo request failed'')
          else (case ol_json L body of
              None \<Rightarrow> Inl ErrDecode
            | Some obj \<Rightarrow>
                (case obj of
                   JObj userInfoMap \<Rightarrow>
                     (case ol_pointer L obj (o_userIDField p) of
                        None \<Rightarrow> Inl (ErrMsg ''pointer'')
                      | Some v \<Rightarrow>
                          (case v of
                             JStr userID \<Rightarrow> Inr (isAllowed L p obj userID, userID, Some userInfoMap)
                           | _ \<Rightarrow> Inl (ErrMsg ''user ID field is not a string'')))
                 | _ \<Rightarrow> Inl (ErrMsg ''userinfo response is not a JSON object''))))"

definition provider_of :: "oidc_lib \<Rightarrow> oidcProvider \<Rightarrow> Provider" where
  "provider_of L p =
     \<lparr>p_Name = o_providerName p, p_Type = ''oidc'', p_RedirectURL = OIDCCallbackEndpoint,
      p_AuthURL = OIDCAuthEndpoint,
      p_AuthCodeURL = (\<lambda>state. Inr (ol_auth_code_url L (o_authEndpoint p) state)),
      p_Exchange = oidc_Exchange L p, p_Authorization = oidc_Authorization L p\<rparr>"

record oidc_settings =
  os_configurationURL :: string
  os_userIDField :: string
  os_providerName :: string
  os_externalURL :: string
  os_allowedUsers :: "string list"
  os_allowedUsersGlob :: "string list"
  os_allowedAttributes :: "(string \<times> string list) list"
  os_allowedAttributesGlob :: "(string \<times> string list) list"

definition NewOIDCProvider :: "oidc_lib \<Rightarrow> oidc_settings \<Rightarrow> oidcProvider result" where
  "NewOIDCProvider L s =
     res_bind (compileGlobs L (os_allowedUsersGlob s)) (\<lambda>compiledGlobs.
     res_bind (compileAttributes L (os_allowedAttributesGlob s)) (\<lambda>compiledAttributeGlobs.
       (let provider = \<lparr>o_providerName = os_providerName s, o_userInfoURL = [],
              o_userIDField = os_userIDField s, o_authEndpoint = [], o_tokenEndpoint = [],
              o_redirectURL = [], o_allowedUsers = os_allowedUsers s,
              o_allowedUsersGlob = compiledGlobs, o_allowedAttributes = os_allowedAttributes s,
              o_allowedAttributesGlob = compiledAttributeGlobs\<rparr>
        in if \<not> hasAllowRule provider then Inl ErrNoAllowList
           else res_bind (ol_get L (os_configurationURL s)) (\<lambda>(status, body).
             if \<not> is_2xx status then Inl (ErrMsg ''OIDC configuration request failed'')
             else (case ol_discovery L body of
                 None \<Rightarrow> Inl ErrDecode
               | Some (authEndpoint, tokenEndpoint, userInfo) \<Rightarrow>
                   (case ol_join_path L (os_externalURL s) OIDCCallbackEndpoint of
                      None \<Rightarrow> Inl (ErrMsg ''join'')
                    | Some redirectURL \<Rightarrow>
                        Inr (provider\<lparr>o_userInfoURL := userInfo, o_authEndpoint := authEndpoint,
                          o_tokenEndpoint := tokenEndpoint, o_redirectURL := redirectURL\<rparr>)))))))"

section \<open>Who is let in\<close>

text \<open>The specification: some rule of the four lists names the identity.\<close>

definition strings_of :: "json \<Rightarrow> string set" where
  "strings_of j = (case j of JStr s \<Rightarrow> {s} | JArr js \<Rightarrow> {s. JStr s \<in> set js} | _ \<Rightarrow> {})"

definition rule_admits :: "oidc_lib \<Rightarrow> oidcProvider \<Rightarrow> json \<Rightarrow> string \<Rightarrow> bool" where
  "rule_admits L p userInfo userID \<longleftrightarrow>
     userID \<in> set (o_allowedUsers p) \<or> (\<exists>g \<in> set (o_allowedUsersGlob p). g userID) \<or>
     (\<exists>key values v s. (key, values) \<in> set (o_allowedAttributes p) \<and> ol_pointer L userInfo key = Some v \<and>
        s \<in> strings_of v \<and> s \<in> set values) \<or>
     (\<exists>key globs v s g. (key, globs) \<in> set (o_allowedAttributesGlob p) \<and> ol_pointer L userInfo key = Some v \<and>
        s \<in> strings_of v \<and> g \<in> set globs \<and> g s)"

lemma case_JStr: "(case j of JStr s \<Rightarrow> Q s | _ \<Rightarrow> False) \<longleftrightarrow> (\<exists>s. j = JStr s \<and> Q s)"
  by (cases j) auto

lemma case_Some: "(case x of Some v \<Rightarrow> Q v | None \<Rightarrow> False) \<longleftrightarrow> (\<exists>v. x = Some v \<and> Q v)"
  by (cases x) auto

lemma matchAttributeValue_iff: "matchAttributeValue v vals \<longleftrightarrow> (\<exists>s \<in> strings_of v. s \<in> set vals)"
  unfolding matchAttributeValue_def strings_of_def list_ex_iff case_JStr by (cases v) auto

lemma matchAttributeGlob_iff: "matchAttributeGlob v gs \<longleftrightarrow> (\<exists>s \<in> strings_of v. \<exists>g \<in> set gs. g s)"
  unfolding matchAttributeGlob_def strings_of_def list_ex_iff case_JStr by (cases v) auto

lemma attr_rule:
  "list_ex (\<lambda>(key, vals). case ol_pointer L userInfo key of Some v \<Rightarrow> M v vals | None \<Rightarrow> False) xs \<longleftrightarrow>
     (\<exists>key vals v. (key, vals) \<in> set xs \<and> ol_pointer L userInfo key = Some v \<and> M v vals)"
  unfolding list_ex_iff case_Some by auto

definition attr_admits :: "oidc_lib \<Rightarrow> (json \<Rightarrow> 'v \<Rightarrow> bool) \<Rightarrow> json \<Rightarrow> (string \<times> 'v) list \<Rightarrow> bool" where
  "attr_admits L M userInfo xs \<longleftrightarrow>
     (\<exists>key vals v. (key, vals) \<in> set xs \<and> ol_pointer L userInfo key = Some v \<and> M v vals)"

lemma attr_admits_value:
  "attr_admits L matchAttributeValue userInfo xs \<longleftrightarrow>
     (\<exists>key vals v s. (key, vals) \<in> set xs \<and> ol_pointer L userInfo key = Some v \<and> s \<in> strings_of v \<and> s \<in> set vals)"
  unfolding attr_admits_def matchAttributeValue_iff
  by (rule iffI; elim exE conjE bexE; intro exI conjI bexI; assumption)

lemma attr_admits_glob:
  "attr_admits L matchAttributeGlob userInfo xs \<longleftrightarrow>
     (\<exists>key gs v s g. (key, gs) \<in> set xs \<and> ol_pointer L userInfo key = Some v \<and> s \<in> strings_of v \<and> g \<in> set gs \<and> g s)"
  unfolding attr_admits_def matchAttributeGlob_iff
  by (rule iffI; elim exE conjE bexE; intro exI conjI bexI; assumption)

lemma isAllowed_iff: "isAllowed L p userInfo userID \<longleftrightarrow> rule_admits L p userInfo userID"
proof -
  have or4: "(if A then True else if B then True else if C then True else if D then True else False) \<longleftrightarrow>
      A \<or> B \<or> C \<or> D" for A B C D
    by simp
  show ?thesis
    unfolding isAllowed_def or4 attr_rule attr_admits_def [symmetric]
    unfolding rule_admits_def attr_admits_value attr_admits_glob list_ex_iff ..
qed

lemma hasAllowRule_admits:
  assumes "rule_admits L p userInfo userID" shows "hasAllowRule p"
proof -
  have "values \<noteq> []" if "s \<in> set values" for s :: string and "values" using that by auto
  with assms show ?thesis
    unfolding rule_admits_def hasAllowRule_def list_ex_iff by (elim disjE exE conjE bexE) auto
qed

end
