(* ===== verification/AuthRouter.thy ===== *)
theory AuthRouter
  imports Csrf Loopback Oidc
begin

text \<open>
  \<^verbatim>\<open>pkg/auth/auth.go\<close> and \<^verbatim>\<open>render.go\<close>: the router of the login surface, its construction and
  what it renders.

  \<open>auth_env\<close> holds the functions of libraries: \<open>bcrypt\<close>, the URL and IP parsers,
  \<open>encoding/json\<close> on the types of go-webauthn, and the constructor of the relying party.
  \<open>webauthn\<close> is a configured relying party; an operation that draws a challenge gets the
  number of the draw.  A method called on a nil interface panics, which is the result
  \<open>ErrPanic\<close>.
\<close>

section \<open>The library of the passkey ceremonies\<close>

record wa_credential =
  wac_ID :: string \<comment> \<open>raw bytes\<close>
  wac_SignCount :: nat
  wac_CloneWarning :: bool

record wa_session =
  wad_Challenge :: string
  wad_UserID :: string

record webAuthnUser =
  wu_user :: User
  wu_credentials :: "wa_credential list"

record webauthn =
  wa_BeginDiscoverableLogin :: "nat \<Rightarrow> (string \<times> wa_session) result"
  wa_FinishDiscoverableLogin ::
    "(string \<Rightarrow> string \<Rightarrow> webAuthnUser result) \<Rightarrow> wa_session \<Rightarrow> HttpRequest \<Rightarrow> time \<Rightarrow> wa_credential result"
  wa_BeginRegistration :: "nat \<Rightarrow> webAuthnUser \<Rightarrow> string list \<Rightarrow> (string \<times> wa_session) result"
  wa_FinishRegistration :: "webAuthnUser \<Rightarrow> wa_session \<Rightarrow> HttpRequest \<Rightarrow> time \<Rightarrow> wa_credential result"
  wa_Descriptor :: "wa_credential \<Rightarrow> string"

record auth_env =
  ae_rand :: rand_source
  ae_bcrypt :: "string \<Rightarrow> string \<Rightarrow> bool" \<comment> \<open>hash, password\<close>
  ae_url :: url_parser
  ae_ip :: "string \<Rightarrow> nat list option"
  ae_webauthn_New :: "string \<Rightarrow> string list \<Rightarrow> webauthn result" \<comment> \<open>RPID, RPOrigins\<close>
  ae_cred_marshal :: "wa_credential \<Rightarrow> string option"
  ae_cred_unmarshal :: "string \<Rightarrow> wa_credential option"
  ae_session_marshal :: "wa_session \<Rightarrow> string option"
  ae_session_unmarshal :: "string \<Rightarrow> wa_session option"
  ae_userinfo_marshal :: "(string \<times> json) list \<Rightarrow> string option"

section \<open>The router\<close>

record 's AuthRouter =
  au_passwordHash :: "string list"
  au_providers :: "Provider list"
  au_noProviderAutoSelect :: bool
  au_userInfoFields :: "string list"
  au_users :: "'s UserStorage option"
  au_clients :: "('s InventoryStorage \<times> (time \<Rightarrow> (ClientGrants list, 's) query)) option"
    \<comment> \<open>the revocations and \<open>ListClientGrants\<close>\<close>
  au_webAuthn :: "webauthn option"
  au_loginRateLimit :: "'s handler option"
  au_version :: string

record 's auth_Config =
  uc_PasswordHashes :: "string list"
  uc_NoProviderAutoSelect :: bool
  uc_UserInfoFields :: "string list"
  uc_Providers :: "Provider list"
  uc_Users :: "'s UserStorage option"
  uc_Clients :: "('s InventoryStorage \<times> (time \<Rightarrow> (ClientGrants list, 's) query)) option"
  uc_ExternalURL :: string
  uc_LoginRateLimit :: "'s handler option"
  uc_Version :: string

definition LogoutEndpoint :: string where "LogoutEndpoint = ''/.auth/logout''"
definition WebAuthnLoginBeginEndpoint :: string where
  "WebAuthnLoginBeginEndpoint = ''/.auth/webauthn/login/begin''"
definition WebAuthnLoginFinishEndpoint :: string where
  "WebAuthnLoginFinishEndpoint = ''/.auth/webauthn/login/finish''"
definition WebAuthnRegisterBeginEndpoint :: string where
  "WebAuthnRegisterBeginEndpoint = ''/.auth/webauthn/register/begin''"
definition WebAuthnRegisterFinishEndpoint :: string where
  "WebAuthnRegisterFinishEndpoint = ''/.auth/webauthn/register/finish''"
definition SettingsEndpoint :: string where "SettingsEndpoint = ''/.auth/settings''"
definition SettingsPasswordEndpoint :: string where
  "SettingsPasswordEndpoint = ''/.auth/settings/password''"
definition SettingsCredentialDeleteEndpoint :: string where
  "SettingsCredentialDeleteEndpoint = ''/.auth/settings/credentials/delete''"
definition SettingsClientRevokeEndpoint :: string where
  "SettingsClientRevokeEndpoint = ''/.auth/settings/clients/revoke''"
definition SettingsGrantRevokeEndpoint :: string where
  "SettingsGrantRevokeEndpoint = ''/.auth/settings/clients/grants/revoke''"
definition SettingsRevokeAllEndpoint :: string where
  "SettingsRevokeAllEndpoint = ''/.auth/settings/clients/revoke-all''"
definition PasswordUserID :: string where "PasswordUserID = ''password_user''"
definition defaultUsername :: string where "defaultUsername = ''admin''"

lemmas auth_endpoint_defs = LoginEndpoint_def LogoutEndpoint_def WebAuthnLoginBeginEndpoint_def
  WebAuthnLoginFinishEndpoint_def WebAuthnRegisterBeginEndpoint_def WebAuthnRegisterFinishEndpoint_def
  SettingsEndpoint_def SettingsPasswordEndpoint_def SettingsCredentialDeleteEndpoint_def
  SettingsClientRevokeEndpoint_def SettingsGrantRevokeEndpoint_def SettingsRevokeAllEndpoint_def

text \<open>A passkey is bound to a domain name: an IP address is refused before the library sees it.\<close>

definition ErrInvalidRelyingPartyHost :: err where
  "ErrInvalidRelyingPartyHost = ErrMsg ''EXTERNAL_URL has a host that cannot be used for passkeys''"

definition newWebAuthn :: "auth_env \<Rightarrow> string \<Rightarrow> webauthn result" where
  "newWebAuthn E externalURL =
     (case ae_url E externalURL of
        None \<Rightarrow> Inl (ErrMsg ''failed to parse external URL for WebAuthn'')
      | Some parsed \<Rightarrow>
          (let host = Hostname parsed
           in if ae_ip E host \<noteq> None then Inl ErrInvalidRelyingPartyHost
              else (case ae_webauthn_New E host [externalURL] of
                      Inl _ \<Rightarrow> Inl ErrInvalidRelyingPartyHost
                    | Inr relyingParty \<Rightarrow> Inr relyingParty)))"

text \<open>The embedded templates always parse; a nil logger is replaced by a silent one.\<close>

definition NewAuthRouter :: "auth_env \<Rightarrow> 's auth_Config \<Rightarrow> 's AuthRouter result" where
  "NewAuthRouter E cfg =
     (let router = \<lparr>au_passwordHash = uc_PasswordHashes cfg, au_providers = uc_Providers cfg,
            au_noProviderAutoSelect = uc_NoProviderAutoSelect cfg,
            au_userInfoFields = uc_UserInfoFields cfg, au_users = uc_Users cfg,
            au_clients = uc_Clients cfg, au_webAuthn = None,
            au_loginRateLimit = uc_LoginRateLimit cfg, au_version = uc_Version cfg\<rparr>
      in if uc_Users cfg \<noteq> None then
           (if uc_Clients cfg = None then Inl (ErrMsg ''auth: Clients is required when Users is set'')
            else (case newWebAuthn E (uc_ExternalURL cfg) of
                    Inl e \<Rightarrow> Inl e
                  | Inr webAuthn \<Rightarrow> Inr (router\<lparr>au_webAuthn := Some webAuthn\<rparr>)))
         else Inr router)"

text \<open>A method of a nil interface.\<close>

definition nil_UserStorage :: "'s UserStorage" where
  "nil_UserStorage =
     \<lparr>us_GetUser = (\<lambda>_. Inl ErrPanic), us_CreateUser = (\<lambda>_ s. (Inl ErrPanic, s)),
      us_UpdateUser = (\<lambda>_ s. (Inl ErrPanic, s)), us_AddWebAuthnCredential = (\<lambda>_ s. (Inl ErrPanic, s)),
      us_ListWebAuthnCredentials = (\<lambda>_ _. Inl ErrPanic),
      us_UpdateWebAuthnCredential = (\<lambda>_ s. (Inl ErrPanic, s)),
      us_DeleteWebAuthnCredential = (\<lambda>_ s. (Inl ErrPanic, s))\<rparr>"

definition nil_InventoryStorage :: "'s InventoryStorage" where
  "nil_InventoryStorage =
     \<lparr>is_RevokeClient = (\<lambda>_ s. (Inl ErrPanic, s)), is_RevokeGrant = (\<lambda>_ s. (Inl ErrPanic, s)),
      is_RevokeAll = (\<lambda>s. (Inl ErrPanic, s))\<rparr>"

definition users :: "'s AuthRouter \<Rightarrow> 's UserStorage" where
  "users a = (case au_users a of None \<Rightarrow> nil_UserStorage | Some U \<Rightarrow> U)"

definition clients :: "'s AuthRouter \<Rightarrow> 's InventoryStorage" where
  "clients a = (case au_clients a of None \<Rightarrow> nil_InventoryStorage | Some (I, _) \<Rightarrow> I)"

definition ListClientGrants :: "'s AuthRouter \<Rightarrow> time \<Rightarrow> (ClientGrants list, 's) query" where
  "ListClientGrants a now = (case au_clients a of None \<Rightarrow> (\<lambda>_. Inl ErrPanic) | Some (_, q) \<Rightarrow> q now)"

section \<open>Rendering\<close>

definition hasPasskeys :: "'s AuthRouter \<Rightarrow> 's world \<Rightarrow> bool" where
  "hasPasskeys a w =
     (if au_webAuthn a = None \<or> au_users a = None then False
      else (case ask_repo (us_GetUser (users a)) w of
              Inl _ \<Rightarrow> False
            | Inr user \<Rightarrow>
                (case ask_repo (us_ListWebAuthnCredentials (users a) (u_ID user)) w of
                   Inl _ \<Rightarrow> False
                 | Inr credentials \<Rightarrow> length credentials > 0)))"

definition renderLogin :: "auth_env \<Rightarrow> 's AuthRouter \<Rightarrow> string \<Rightarrow> 's world \<Rightarrow> reply \<times> 's world" where
  "renderLogin E a passwordError w =
     (case EnsureCSRFToken (ae_rand E) w of
        (Inl e, w1) \<Rightarrow> (renderError e, w1)
      | (Inr csrfToken, w1) \<Rightarrow>
          (case sess_save w1 of
             (False, w2) \<Rightarrow> (renderError ErrCommit, w2)
           | (True, w2) \<Rightarrow>
               (Body (if passwordError \<noteq> [] then 400 else 200)
                  (LoginPage \<lparr>lt_Providers = map (\<lambda>p. (p_Name p, p_AuthURL p)) (au_providers a),
                     lt_HasPassword = (length (au_passwordHash a) > 0),
                     lt_PasswordError = passwordError,
                     lt_PasskeyAvailable = hasPasskeys a w2,
                     lt_CSRFToken = csrfToken\<rparr>), w2)))"

definition renderUnauthorized :: "string \<Rightarrow> string \<Rightarrow> reply" where
  "renderUnauthorized userID providerName = Body 403 (UnauthorizedPage userID providerName)"

definition filterUserInfo :: "(string \<times> json) list \<Rightarrow> string list \<Rightarrow> (string \<times> json) list" where
  "filterUserInfo m keys =
     concat (map (\<lambda>k. case map_of m k of None \<Rightarrow> [] | Some v \<Rightarrow> [(k, v)]) (remdups keys))"

lemma map_of_filterUserInfo:
  "map_of (filterUserInfo m keys) k = (if k \<in> set keys then map_of m k else None)"
proof -
  have "map_of (concat (map (\<lambda>k. case map_of m k of None \<Rightarrow> [] | Some v \<Rightarrow> [(k, v)]) ks)) k =
      (if k \<in> set ks then map_of m k else None)" for ks
    by (induction ks) (auto split: option.splits)
  from this [of "remdups keys"] show ?thesis by (simp add: filterUserInfo_def)
qed

lemma renderLogin_repo: "repo (snd (renderLogin E a m w)) = repo w"
  by (simp add: renderLogin_def sess_save_def EnsureCSRFToken_def GenerateCSRFToken_def rand_hex_def
      sess_set_def split: prod.splits sum.splits option.splits list.splits bool.splits)

text \<open>Rendering the login page never authorizes: all it writes is the CSRF token.\<close>

lemma renderLogin_frame:
  assumes "renderLogin E a m w = (r, w')"
  shows "lockout w' = lockout w" and "auth_log w' = auth_log w"
    and "k \<noteq> SessionKeyCSRF \<Longrightarrow> sess w' k = sess w k"
    and "k \<noteq> SessionKeyCSRF \<Longrightarrow> cookie w' k = cookie w k \<or> cookie w' k = sess w k"
    and "\<And>s t. r \<noteq> Redirect s t"
  using assms
  by (auto simp: renderLogin_def sess_save_def EnsureCSRFToken_def GenerateCSRFToken_def rand_hex_def
      sess_set_def renderError_def split: prod.splits sum.splits option.splits list.splits bool.splits if_splits)

lemma NewAuthRouter_complete:
  assumes "NewAuthRouter E cfg = Inr a"
  shows "au_webAuthn a = None \<longleftrightarrow> au_users a = None"
    and "au_users a \<noteq> None \<Longrightarrow> au_clients a \<noteq> None"
  using assms by (auto simp: NewAuthRouter_def Let_def split: if_splits sum.splits)

end
