(* ===== verification/Parse.thy ===== *)
theory Parse
  imports Oidc Query "HOL-Library.AList"
begin

text \<open>
  \<^verbatim>\<open>parse.go\<close> and \<^verbatim>\<open>env.go\<close>: the list syntax of the settings, the strict parsers of the
  OIDC allow-lists and the typed environment lookups.  The environment is a function from names to
  values, empty when unset, and \<open>time.ParseDuration\<close> is a parameter.
\<close>

section \<open>Splitting\<close>

definition splitCSV :: "string \<Rightarrow> string list" where
  "splitCSV s = (if s = [] then [] else map trim_space (split_char s (CHR '','')))"

text \<open>The loop of \<open>splitWithEscapes\<close>: what is left of \<open>s\<close>, the builder, and the flag.  An empty
  delimiter, which no caller passes, would make the Go loop run for ever.\<close>

function (sequential) split_escaped :: "string \<Rightarrow> string \<Rightarrow> string \<Rightarrow> bool \<Rightarrow> string list" where
  "split_escaped delimiter [] current escaped = [trim_space current]"
| "split_escaped delimiter (c # s) current escaped =
     (if escaped then split_escaped delimiter s (current @ [c]) False
      else if c = CHR 0x5C \<and> s \<noteq> [] then
        (if has_prefix s delimiter then split_escaped delimiter s current True
         else split_escaped delimiter s (current @ [c]) False)
      else if has_prefix (c # s) delimiter then
        trim_space current # split_escaped delimiter (drop (length delimiter - 1) s) [] False
      else split_escaped delimiter s (current @ [c]) False)"
  by pat_completeness auto
termination by (relation "measure (\<lambda>(_, s, _, _). length s)") auto

definition splitWithEscapes :: "string \<Rightarrow> string \<Rightarrow> string list" where
  "splitWithEscapes s delimiter = (if s = [] then [] else split_escaped delimiter s [] False)"

definition splitEscapedCSV :: "string \<Rightarrow> string list" where
  "splitEscapedCSV s = splitWithEscapes s '',''"

section \<open>The allow-lists\<close>

definition errEmptyAllowList :: err where
  "errEmptyAllowList = ErrMsg ''is set but contains no entry''"

definition parseAllowList :: "string \<Rightarrow> (string \<Rightarrow> string list) \<Rightarrow> string list result" where
  "parseAllowList raw split =
     (if raw = [] then Inr []
      else (let entries = filter (\<lambda>entry. entry \<noteq> []) (map trim_space (split raw))
            in if length entries = 0 then Inl errEmptyAllowList else Inr entries))"

text \<open>One entry: \<open>None\<close> for a blank one, which is dropped.\<close>

definition attribute_entry :: "string \<Rightarrow> (string \<times> string) option result" where
  "attribute_entry part0 =
     (let part = trim_space part0
      in if part = [] then Inr None
         else (case cut_char part (CHR ''='') of (k, v, found) \<Rightarrow>
           (let key = trim_space k; val = trim_space v
            in if \<not> found then Inl (ErrMsg ''has an entry without ='')
               else if \<not> has_prefix key ''/'' then
                 Inl (ErrMsg ''has an entry whose key is not a JSON pointer starting with /'')
               else if val = [] then Inl (ErrMsg ''has an entry without a value'')
               else Inr (Some (key, val)))))"

definition parseAttributeMap :: "string \<Rightarrow> (string \<times> string list) list result" where
  "parseAttributeMap s =
     (if s = [] then Inr []
      else res_bind (fold_res (\<lambda>part result. res_bind (attribute_entry part) (\<lambda>e.
               Inr (case e of None \<Rightarrow> result | Some (k, v) \<Rightarrow> values_Add k v result)))
             (splitWithEscapes s '','') [])
           (\<lambda>result. if length result = 0 then Inl errEmptyAllowList else Inr result))"

record oidcAllowListSettings =
  as_Users :: string
  as_UsersGlob :: string
  as_Attributes :: string
  as_AttributesGlob :: string

record oidcAllowLists =
  al_Users :: "string list"
  al_UsersGlob :: "string list"
  al_Attributes :: "(string \<times> string list) list"
  al_AttributesGlob :: "(string \<times> string list) list"

text \<open>The wrapped error names the setting; \<open>named\<close> keeps the name and drops the text.\<close>

definition named :: "string \<Rightarrow> 'a result \<Rightarrow> 'a result" where
  "named setting r = (case r of Inl _ \<Rightarrow> Inl (ErrMsg setting) | Inr x \<Rightarrow> Inr x)"

lemma named_Inr [simp]: "named n r = Inr x \<longleftrightarrow> r = Inr x"
  by (cases r) (simp_all add: named_def)

definition parse_allow_lists :: "oidcAllowListSettings \<Rightarrow> oidcAllowLists result" where
  "parse_allow_lists s =
     res_bind (named ''OIDC_ALLOWED_USERS'' (parseAllowList (as_Users s) splitCSV)) (\<lambda>us.
     res_bind (named ''OIDC_ALLOWED_USERS_GLOB'' (parseAllowList (as_UsersGlob s) splitEscapedCSV)) (\<lambda>gs.
     res_bind (named ''OIDC_ALLOWED_ATTRIBUTES'' (parseAttributeMap (as_Attributes s))) (\<lambda>attrs.
     res_bind (named ''OIDC_ALLOWED_ATTRIBUTES_GLOB'' (parseAttributeMap (as_AttributesGlob s))) (\<lambda>ags.
       Inr \<lparr>al_Users = us, al_UsersGlob = gs, al_Attributes = attrs, al_AttributesGlob = ags\<rparr>))))"

section \<open>The header mapping\<close>

definition mapping_entry :: "string \<Rightarrow> (string \<times> string) option" where
  "mapping_entry part0 =
     (let part = trim_space part0
      in if part = [] then None
         else (case last_index part (CHR '':'') of
                 None \<Rightarrow> None
               | Some colonIdx \<Rightarrow>
                   (let pointer = trim_space (take colonIdx part);
                        header = trim_space (drop (colonIdx + 1) part)
                    in if pointer \<noteq> [] \<and> header \<noteq> [] then Some (pointer, header) else None)))"

definition parseHeaderMapping :: "string \<Rightarrow> (string \<times> string) list" where
  "parseHeaderMapping s =
     (if s = [] then []
      else fold (\<lambda>part result. case mapping_entry part of
             None \<Rightarrow> result | Some (pointer, header) \<Rightarrow> AList.update pointer header result)
           (splitWithEscapes s '','') [])"

section \<open>The environment\<close>

type_synonym environment = "string \<Rightarrow> string"

definition getEnvWithDefault :: "environment \<Rightarrow> string \<Rightarrow> string \<Rightarrow> string" where
  "getEnvWithDefault env key defaultValue = (if env key \<noteq> [] then env key else defaultValue)"

definition getEnvBoolWithDefault :: "environment \<Rightarrow> string \<Rightarrow> bool \<Rightarrow> bool result" where
  "getEnvBoolWithDefault env key defaultValue =
     (let val = env key
      in if val = [] then Inr defaultValue
         else if equal_fold_ascii val ''true'' \<or> val = ''1'' then Inr True
         else if equal_fold_ascii val ''false'' \<or> val = ''0'' then Inr False
         else Inl ErrPanic)"

definition getEnvDurationWithDefault ::
  "(string \<Rightarrow> duration option) \<Rightarrow> environment \<Rightarrow> string \<Rightarrow> duration \<Rightarrow> duration result" where
  "getEnvDurationWithDefault parse_duration env key defaultValue =
     (let val = env key
      in if val = [] then Inr defaultValue
         else (case parse_duration val of None \<Rightarrow> Inl ErrPanic | Some d \<Rightarrow> Inr d))"

definition getEnvIntWithDefault :: "environment \<Rightarrow> string \<Rightarrow> int \<Rightarrow> int result" where
  "getEnvIntWithDefault env key defaultValue =
     (let val = env key
      in if val = [] then Inr defaultValue
         else (case atoi val of None \<Rightarrow> Inl ErrPanic | Some n \<Rightarrow> Inr n))"

text \<open>\<open>strconv.ParseInt\<close> in base 10 with 64 bits accepts what \<open>strconv.Atoi\<close> accepts.\<close>

definition getEnvInt64WithDefault :: "environment \<Rightarrow> string \<Rightarrow> int \<Rightarrow> int result" where
  "getEnvInt64WithDefault env key defaultValue =
     (let val = env key
      in if val = [] then Inr defaultValue
         else (case atoi val of None \<Rightarrow> Inl ErrPanic | Some n \<Rightarrow> Inr n))"

end
