(* ===== verification/Config.thy ===== *)
theory Config
  imports Transparent AuthRouter Keys Parse
begin

text \<open>
  \<^verbatim>\<open>pkg/mcp-proxy/main.go\<close> and \<^verbatim>\<open>config.go\<close>: the configuration of the gateway, its validation
  at start-up and the small decisions derived from it.
\<close>

section \<open>The configuration\<close>

record mcp_Config =
  mc_Listen :: string
  mc_TLSListen :: string
  mc_AutoTLS :: bool
  mc_TLSHost :: string
  mc_TLSDirectoryURL :: string
  mc_TLSAcceptTOS :: bool
  mc_TLSCertFile :: string
  mc_TLSKeyFile :: string
  mc_DataPath :: string
  mc_RepositoryBackend :: string
  mc_RepositoryDSN :: string
  mc_ExternalURL :: string
  mc_OIDCConfigurationURL :: string
  mc_OIDCClientID :: string
  mc_OIDCClientSecret :: string
  mc_OIDCScopes :: "string list"
  mc_OIDCUserIDField :: string
  mc_OIDCProviderName :: string
  mc_OIDCAllowedUsers :: "string list"
  mc_OIDCAllowedUsersGlob :: "string list"
  mc_OIDCAllowedAttributes :: "(string \<times> string list) list"
  mc_OIDCAllowedAttributesGlob :: "(string \<times> string list) list"
  mc_NoProviderAutoSelect :: bool
  mc_Password :: string
  mc_PasswordHash :: string
  mc_TrustedProxies :: "string list"
  mc_ProxyHeaders :: "string list"
  mc_ProxyBearerToken :: string
  mc_ForwardAuthorizationHeader :: bool
  mc_ProxyTargets :: "string list"
  mc_HTTPStreamingOnly :: bool
  mc_HeaderMapping :: "(string \<times> string) list"
  mc_HeaderMappingBase :: string
  mc_OriginCheckEnabled :: bool
  mc_OIDCDiscoveryMirror :: bool
  mc_ClockSkew :: duration
  mc_AccessTokenTTL :: duration
  mc_AuthCodeTTL :: duration
  mc_RefreshTokenTTL :: duration
  mc_CIMDEnabled :: bool
  mc_CIMDFetchTimeout :: duration
  mc_CIMDMaxSize :: int
  mc_CIMDCacheTTL :: duration
  mc_DCREnabled :: bool
  mc_DCRClientTTL :: duration
  mc_DCRMaxClients :: int
  mc_KeyAlg :: string
  mc_KeyRotationInterval :: duration
  mc_RateLimitRegister :: string
  mc_RateLimitToken :: string
  mc_RateLimitLogin :: string
  mc_RateLimitAuthorize :: string
  mc_LoginLockoutThreshold :: int
  mc_LoginLockoutDuration :: duration

definition maxClockSkew :: duration where "maxClockSkew = 5 * minute"
definition sweepInterval :: duration where "sweepInterval = 5 * minute"

section \<open>Validation\<close>

text \<open>Go visits the four rate limits in an arbitrary order, which only decides which of them an
  error names.\<close>

definition valid_rate :: "string \<Rightarrow> unit result" where
  "valid_rate val = (if val = [] then Inr () else res_bind (ParseLimit val) (\<lambda>_. Inr ()))"

definition validateTTLs :: "mcp_Config \<Rightarrow> unit result" where
  "validateTTLs cfg =
     (if mc_AccessTokenTTL cfg < minute \<or> mc_AccessTokenTTL cfg > 24 * hour then
        Inl (ErrMsg ''access token TTL must be between 1m and 24h'')
      else if mc_AuthCodeTTL cfg < 30 * second \<or> mc_AuthCodeTTL cfg > hour then
        Inl (ErrMsg ''auth code TTL must be between 30s and 1h'')
      else if mc_RefreshTokenTTL cfg \<noteq> 0 \<and> (mc_RefreshTokenTTL cfg < hour \<or> mc_RefreshTokenTTL cfg > 365 * 24 * hour) then
        Inl (ErrMsg ''refresh token TTL must be 0 (disabled) or between 1h and 8760h'')
      else if mc_CIMDEnabled cfg \<and> (mc_CIMDFetchTimeout cfg < second \<or> mc_CIMDFetchTimeout cfg > minute) then
        Inl (ErrMsg ''CIMD fetch timeout must be between 1s and 1m'')
      else if mc_CIMDEnabled cfg \<and> (mc_CIMDMaxSize cfg < 1024 \<or> mc_CIMDMaxSize cfg > 1024 * 1024) then
        Inl (ErrMsg ''CIMD max document size must be between 1KiB and 1MiB'')
      else if mc_CIMDEnabled cfg \<and> (mc_CIMDCacheTTL cfg < minute \<or> mc_CIMDCacheTTL cfg > 24 * hour) then
        Inl (ErrMsg ''CIMD cache TTL must be between 1m and 24h'')
      else if \<not> mc_CIMDEnabled cfg \<and> \<not> mc_DCREnabled cfg then
        Inl (ErrMsg ''at least one client registration mechanism (CIMD or DCR) must be enabled'')
      else if mc_DCRClientTTL cfg \<noteq> 0 \<and> mc_DCRClientTTL cfg < hour then
        Inl (ErrMsg ''DCR client TTL must be 0 (no expiry) or at least 1h'')
      else if mc_DCRMaxClients cfg < 0 then Inl (ErrMsg ''DCR client cap must not be negative'')
      else res_bind (ParseAlg (mc_KeyAlg cfg)) (\<lambda>_.
        if mc_KeyRotationInterval cfg \<noteq> 0 \<and> mc_KeyRotationInterval cfg < hour then
          Inl (ErrMsg ''key rotation interval must be 0 (disabled) or at least 1h'')
        else
          res_bind (valid_rate (mc_RateLimitRegister cfg)) (\<lambda>_.
          res_bind (valid_rate (mc_RateLimitToken cfg)) (\<lambda>_.
          res_bind (valid_rate (mc_RateLimitLogin cfg)) (\<lambda>_.
          res_bind (valid_rate (mc_RateLimitAuthorize cfg)) (\<lambda>_.
            if mc_LoginLockoutThreshold cfg < 0 then
              Inl (ErrMsg ''login lockout threshold must not be negative'')
            else if mc_LoginLockoutThreshold cfg > 0 \<and>
                (mc_LoginLockoutDuration cfg < minute \<or> mc_LoginLockoutDuration cfg > 24 * hour) then
              Inl (ErrMsg ''login lockout duration must be between 1m and 24h'')
            else Inr ()))))))"

definition parseLimit :: "string \<Rightarrow> Limit" where
  "parseLimit val =
     (if val = [] then Limit_zero
      else (case ParseLimit val of Inl _ \<Rightarrow> Limit_zero | Inr l \<Rightarrow> l))"

definition resolveTLSMode :: "mcp_Config \<Rightarrow> bool result" where
  "resolveTLSMode cfg =
     (if (mc_TLSCertFile cfg = []) \<noteq> (mc_TLSKeyFile cfg = []) then
        Inl (ErrMsg ''both TLS certificate and key files must be provided together'')
      else
        (let manualTLS = (mc_TLSCertFile cfg \<noteq> [] \<and> mc_TLSKeyFile cfg \<noteq> [])
         in if manualTLS \<and> mc_TLSHost cfg \<noteq> [] then
              Inl (ErrMsg ''tlsHost cannot be used when TLS certificate and key files are provided'')
            else if \<not> manualTLS \<and> \<not> mc_AutoTLS cfg \<and> mc_TLSHost cfg \<noteq> [] then
              Inl (ErrMsg ''tlsHost requires automatic TLS'')
            else Inr manualTLS))"

record resolvedConfig =
  rc_Config :: mcp_Config
  rc_issuerURL :: url
  rc_issuer :: string
  rc_trustedProxies :: "string list"
  rc_manualTLS :: bool

text \<open>The defaults for zero values.\<close>

definition with_defaults :: "mcp_Config \<Rightarrow> mcp_Config" where
  "with_defaults cfg =
     (let cfg = (if mc_AccessTokenTTL cfg = 0 then cfg\<lparr>mc_AccessTokenTTL := hour\<rparr> else cfg);
          cfg = (if mc_AuthCodeTTL cfg = 0 then cfg\<lparr>mc_AuthCodeTTL := 10 * minute\<rparr> else cfg)
      in if mc_KeyAlg cfg = [] then cfg\<lparr>mc_KeyAlg := AlgRS256\<rparr> else cfg)"

definition resolveConfig :: "url_parser \<Rightarrow> (url \<Rightarrow> string) \<Rightarrow> net_lib \<Rightarrow> mcp_Config \<Rightarrow> resolvedConfig result" where
  "resolveConfig P unparse N cfg0 =
     (case P (mc_ExternalURL cfg0) of
        None \<Rightarrow> Inl (ErrMsg ''failed to parse external URL'')
      | Some u \<Rightarrow>
          if u_Scheme u \<noteq> ''http'' \<and> u_Scheme u \<noteq> ''https'' then
            Inl (ErrMsg ''external URL must use http or https'')
          else if u_Host u = [] then Inl (ErrMsg ''external URL must be absolute'')
          else if u_Path u \<noteq> [] \<and> u_Path u \<noteq> ''/'' then Inl (ErrMsg ''external URL must not have a path'')
          else if u_RawQuery u \<noteq> [] \<or> u_Fragment u \<noteq> [] then
            Inl (ErrMsg ''external URL must not have a query or fragment'')
          else
            (let issuerURL = u\<lparr>u_Path := []\<rparr>
             in if mc_ClockSkew cfg0 < 0 \<or> mc_ClockSkew cfg0 > maxClockSkew then
                  Inl (ErrMsg ''clock skew must be between 0 and 5m'')
                else
                  (let cfg = with_defaults cfg0
                   in res_bind (validateTTLs cfg) (\<lambda>_.
                      res_bind (named ''invalid TRUSTED_PROXIES'' (NormalizeTrustedProxies N (mc_TrustedProxies cfg))) (\<lambda>ps.
                      res_bind (resolveTLSMode cfg) (\<lambda>manualTLS.
                        Inr \<lparr>rc_Config = cfg, rc_issuerURL = issuerURL, rc_issuer = unparse issuerURL,
                          rc_trustedProxies = ps, rc_manualTLS = manualTLS\<rparr>))))))"

definition refreshSweepTTL :: "resolvedConfig \<Rightarrow> duration" where
  "refreshSweepTTL rc =
     (if mc_RefreshTokenTTL (rc_Config rc) = 0 then mc_AccessTokenTTL (rc_Config rc)
      else mc_RefreshTokenTTL (rc_Config rc))"

section \<open>Derived decisions\<close>

definition sessionCookieSecure :: "url \<Rightarrow> bool \<Rightarrow> bool" where
  "sessionCookieSecure externalURL servesTLS \<longleftrightarrow> u_Scheme externalURL = ''https'' \<or> servesTLS"

definition isLoopbackHost :: "net_lib \<Rightarrow> string \<Rightarrow> bool" where
  "isLoopbackHost N hostname =
     (let lower = to_lower hostname
      in if lower = ''localhost'' \<or> has_suffix lower ''.localhost'' then True
         else (case nl_ParseAddr N hostname of None \<Rightarrow> False | Some (a, _) \<Rightarrow> IsLoopback (Unmap a)))"

text \<open>Whether \<open>warnPlainHTTPIssuer\<close> logs.\<close>

definition warnPlainHTTPIssuer :: "net_lib \<Rightarrow> url \<Rightarrow> bool" where
  "warnPlainHTTPIssuer N externalURL \<longleftrightarrow>
     \<not> (u_Scheme externalURL \<noteq> ''http'' \<or> isLoopbackHost N (Hostname externalURL))"

definition hasEnrolledPasskey :: "'s UserStorage \<Rightarrow> 's \<Rightarrow> bool" where
  "hasEnrolledPasskey U s =
     (case us_GetUser U s of
        Inl _ \<Rightarrow> False
      | Inr user \<Rightarrow> (case us_ListWebAuthnCredentials U (u_ID user) s of Inl _ \<Rightarrow> False | Inr cs \<Rightarrow> length cs > 0))"

text \<open>The set of keys, in the order they are first seen; Go returns them in an arbitrary order.\<close>

definition pointer_key :: "string \<Rightarrow> string" where
  "pointer_key pointer = takeWhile (\<lambda>c. c \<noteq> CHR ''/'') (trim_prefix pointer ''/'')"

definition userInfoFieldsFromConfig :: "string \<Rightarrow> (string \<times> string) list \<Rightarrow> string list" where
  "userInfoFieldsFromConfig oidcUserIDField headerMapping =
     filter (\<lambda>k. k \<noteq> []) (rev (remdups (rev (pointer_key oidcUserIDField # map (pointer_key \<circ> fst) headerMapping))))"

text \<open>The plain HTTP listener while TLS serves: the probe, or a redirect to https.\<close>

datatype fallback = FallbackHealthy | FallbackRedirect int string

definition httpFallbackHandler :: "string \<Rightarrow> string \<Rightarrow> string \<Rightarrow> string \<Rightarrow> string \<Rightarrow> fallback" where
  "httpFallbackHandler meth path host urlHost requestURI =
     (if path = ''/healthz'' \<and> meth = ''GET'' then FallbackHealthy
      else FallbackRedirect 301 (''https://'' @ (if host = [] then urlHost else host) @ requestURI))"

section \<open>What an accepted configuration guarantees\<close>

lemma with_defaults_sel:
  "mc_ClockSkew (with_defaults cfg) = mc_ClockSkew cfg"
  "mc_TrustedProxies (with_defaults cfg) = mc_TrustedProxies cfg"
  "mc_AccessTokenTTL (with_defaults cfg) = (if mc_AccessTokenTTL cfg = 0 then hour else mc_AccessTokenTTL cfg)"
  by (simp_all add: with_defaults_def Let_def)

lemma validateTTLs_ranges:
  assumes "validateTTLs cfg = Inr ()"
  shows "minute \<le> mc_AccessTokenTTL cfg \<and> mc_AccessTokenTTL cfg \<le> 24 * hour"
    and "30 * second \<le> mc_AuthCodeTTL cfg \<and> mc_AuthCodeTTL cfg \<le> hour"
    and "mc_RefreshTokenTTL cfg = 0 \<or> hour \<le> mc_RefreshTokenTTL cfg \<and> mc_RefreshTokenTTL cfg \<le> 365 * 24 * hour"
    and "mc_CIMDEnabled cfg \<or> mc_DCREnabled cfg"
    and "\<exists>alg. ParseAlg (mc_KeyAlg cfg) = Inr alg"
  using assms by (auto simp: validateTTLs_def res_bind_Inr split: if_splits)

lemma resolveConfig_Inr:
  assumes "resolveConfig P unparse N cfg = Inr rc"
  shows "rc_Config rc = with_defaults cfg" and "validateTTLs (rc_Config rc) = Inr ()"
    and "0 \<le> mc_ClockSkew (rc_Config rc) \<and> mc_ClockSkew (rc_Config rc) \<le> 5 * minute"
    and "rc_issuer rc = unparse (rc_issuerURL rc)"
    and "u_Path (rc_issuerURL rc) = []" and "u_Host (rc_issuerURL rc) \<noteq> []"
    and "u_Scheme (rc_issuerURL rc) \<in> {''http'', ''https''}"
    and "u_RawQuery (rc_issuerURL rc) = []" and "u_Fragment (rc_issuerURL rc) = []"
    and "NormalizeTrustedProxies N (mc_TrustedProxies cfg) = Inr (rc_trustedProxies rc)"
  using assms
  by (auto simp: resolveConfig_def Let_def res_bind_Inr maxClockSkew_def with_defaults_sel
      split: option.splits if_splits)

end
