(* ===== verification/Login.thy ===== *)
theory Login
  imports AuthRouter
begin

text \<open>
  \<^verbatim>\<open>pkg/auth/login.go\<close> and the provider routes of \<^verbatim>\<open>routes.go\<close>: the password login with its
  lockout, the bootstrap of the operator account, the post-login redirect, the OIDC callback.
  \<open>clk k\<close> is the \<open>k\<close>-th reading of the clock in the handler.
\<close>

section \<open>The redirect target\<close>

definition safeRedirectTarget :: "string \<Rightarrow> string" where
  "safeRedirectTarget stored =
     (if \<not> has_prefix stored ''/'' \<or> has_prefix stored ''//'' \<or> has_prefix stored (''/'' @ [CHR 0x5C])
      then ''/'' else stored)"

definition takeRedirectTarget :: "'a web_scheme \<Rightarrow> string \<times> 'a web_scheme" where
  "takeRedirectTarget w =
     (case sess_string w SessionKeyRedirectURL of
        None \<Rightarrow> (''/'', w)
      | Some stored \<Rightarrow>
          if stored = [] then (''/'', w)
          else (safeRedirectTarget stored, sess_delete SessionKeyRedirectURL w))"

section \<open>The password login\<close>

definition lockoutKey :: string where "lockoutKey = ''operator''"

definition handleLogin :: "auth_env \<Rightarrow> 's AuthRouter \<Rightarrow> HttpRequest \<Rightarrow> 's world \<Rightarrow> reply \<times> 's world" where
  "handleLogin E a req w =
     (if \<not> au_noProviderAutoSelect a \<and> length (au_passwordHash a) = 0 \<and> length (au_providers a) = 1
      then (Redirect 302 (p_AuthURL (au_providers a ! 0)), w)
      else renderLogin E a [] w)"

definition loginFailed ::
  "auth_env \<Rightarrow> 's AuthRouter \<Rightarrow> HttpRequest \<Rightarrow> string \<Rightarrow> 's world \<Rightarrow> reply \<times> 's world" where
  "loginFailed E a req method w =
     renderLogin E a ''Invalid password''
       (authevent_Log LoginFail [(''method'', FStr method), (''client_ip'', FStr (in_ClientIP req))] w)"

definition ensureUser :: "auth_env \<Rightarrow> 's AuthRouter \<Rightarrow> time \<Rightarrow> 's world \<Rightarrow> (User \<times> nat) result \<times> 's world" where
  "ensureUser E a now w =
     (case ask_repo (us_GetUser (users a)) w of
        Inl e \<Rightarrow>
          if e = ErrNotFound then
            (case GenerateUserID (ae_rand E) w of
               (Inl e1, w1) \<Rightarrow> (Inl e1, w1)
             | (Inr uid, w1) \<Rightarrow>
                 (let user = \<lparr>u_ID = uid, u_Username = defaultUsername, u_PasswordLoginDisabled = False,
                        u_CreatedAt = now\<rparr>
                  in (case on_repo (us_CreateUser (users a) user) w1 of
                        (Inl e2, w2) \<Rightarrow> (Inl e2, w2)
                      | (Inr _, w2) \<Rightarrow> (Inr (user, 0), w2))))
          else (Inl e, w)
      | Inr user \<Rightarrow>
          (case ask_repo (us_ListWebAuthnCredentials (users a) (u_ID user)) w of
             Inl e \<Rightarrow> (Inl e, w)
           | Inr credentials \<Rightarrow> (Inr (user, length credentials), w)))"

definition isPasswordLoginActive :: "'s AuthRouter \<Rightarrow> User \<Rightarrow> nat \<Rightarrow> bool" where
  "isPasswordLoginActive a user passkeyCount =
     (if length (au_passwordHash a) = 0 then False
      else \<not> u_PasswordLoginDisabled user \<or> passkeyCount = 0)"

text \<open>Every configured hash is compared, without an early exit.\<close>

definition password_valid :: "auth_env \<Rightarrow> 's AuthRouter \<Rightarrow> string \<Rightarrow> bool" where
  "password_valid E a password =
     fold (\<lambda>hash isValid. if ae_bcrypt E hash password then True else isValid) (au_passwordHash a) False"

text \<open>The end of a successful login: lockout reset, event, session, redirect.\<close>

definition login_complete ::
  "HttpRequest \<Rightarrow> string \<Rightarrow> 's world \<Rightarrow> reply \<times> 's world" where
  "login_complete req subject w =
     (let w1 = w\<lparr>lockout := Reset lockoutKey (lockout w)\<rparr>;
          w2 = authevent_Log LoginOK
            [(''method'', FStr ''password''), (''client_ip'', FStr (in_ClientIP req))] w1;
          w3 = sess_set SessionKeyUserID (SStr subject) (sess_set SessionKeyAuthorized (SBool True) w2)
      in (case takeRedirectTarget w3 of
            (redirectTarget, w4) \<Rightarrow>
              (case sess_save w4 of
                 (False, w5) \<Rightarrow> (renderError ErrCommit, w5)
               | (True, w5) \<Rightarrow> (Redirect 302 redirectTarget, w5))))"

definition handleLoginPost ::
  "auth_env \<Rightarrow> 's AuthRouter \<Rightarrow> (nat \<Rightarrow> time) \<Rightarrow> HttpRequest \<Rightarrow> 's world \<Rightarrow> reply \<times> 's world" where
  "handleLoginPost E a clk req w =
     (let password = PostForm req ''password'';
          isValid = password_valid E a password;
          now = clk 0
      in if \<not> isValid \<or> Locked (lockout w) lockoutKey now then
           loginFailed E a req ''password''
             (if \<not> isValid then w\<lparr>lockout := Fail lockoutKey now (lockout w)\<rparr> else w)
         else if au_users a \<noteq> None then
           (case ensureUser E a (clk 1) w of
              (Inl e, w1) \<Rightarrow> (renderError e, w1)
            | (Inr (user, passkeyCount), w1) \<Rightarrow>
                if \<not> isPasswordLoginActive a user passkeyCount then loginFailed E a req ''password'' w1
                else login_complete req (u_ID user) w1)
         else login_complete req PasswordUserID w)"

definition handleLogout :: "HttpRequest \<Rightarrow> 's world \<Rightarrow> reply \<times> 's world" where
  "handleLogout req w =
     (case sess_save (sess_clear w) of
        (False, w1) \<Rightarrow> (renderError ErrCommit, w1)
      | (True, w1) \<Rightarrow> (Redirect 302 LoginEndpoint, w1))"

section \<open>The provider routes\<close>

text \<open>The callback of a login provider; \<open>state.(string)\<close> panics on a value of another type.\<close>

definition store_userinfo ::
  "auth_env \<Rightarrow> 's AuthRouter \<Rightarrow> (string \<times> json) list option \<Rightarrow> 's world \<Rightarrow> 's world" where
  "store_userinfo E a userInfo w =
     (case userInfo of
        None \<Rightarrow> w
      | Some m \<Rightarrow>
          (let m' = (if length (au_userInfoFields a) > 0 then filterUserInfo m (au_userInfoFields a) else m)
           in (case ae_userinfo_marshal E m' of
                 None \<Rightarrow> w
               | Some userInfoJSON \<Rightarrow> sess_set SessionKeyUserInfo (SStr userInfoJSON) w)))"

definition handleCallback ::
  "auth_env \<Rightarrow> 's AuthRouter \<Rightarrow> Provider \<Rightarrow> HttpRequest \<Rightarrow> 's world \<Rightarrow> reply \<times> 's world" where
  "handleCallback E a provider req w =
     (case sess_get w SessionKeyOAuthState of
        None \<Rightarrow> (renderError (ErrMsg ''OAuth state is missing''), w)
      | Some (SBool _) \<Rightarrow> (panic_reply, w)
      | Some (SStr state) \<Rightarrow>
          (case p_Exchange provider req state of
             Inl e \<Rightarrow> (renderError e, w)
           | Inr token \<Rightarrow>
               (case p_Authorization provider token of
                  Inl e \<Rightarrow> (renderError e, w)
                | Inr (ok, user, userInfo) \<Rightarrow>
                    if \<not> ok then (renderUnauthorized user (p_Name provider), w)
                    else
                      (let w1 = sess_set SessionKeyUserID (SStr user)
                             (sess_set SessionKeyAuthorized (SBool True) w);
                           w2 = store_userinfo E a userInfo w1
                       in (case takeRedirectTarget w2 of
                             (redirectTarget, w3) \<Rightarrow>
                               (case sess_save w3 of
                                  (False, w4) \<Rightarrow> (renderError ErrCommit, w4)
                                | (True, w4) \<Rightarrow> (Redirect 302 redirectTarget, w4)))))))"

definition handleProviderAuth ::
  "auth_env \<Rightarrow> Provider \<Rightarrow> HttpRequest \<Rightarrow> 's world \<Rightarrow> reply \<times> 's world" where
  "handleProviderAuth E provider req w =
     (case GenerateState (ae_rand E) w of
        (Inl e, w1) \<Rightarrow> (renderError e, w1)
      | (Inr state, w1) \<Rightarrow>
          (case p_AuthCodeURL provider state of
             Inl e \<Rightarrow> (renderError e, w1)
           | Inr url \<Rightarrow>
               (case sess_save (sess_set SessionKeyOAuthState (SStr state) w1) of
                  (False, w2) \<Rightarrow> (renderError ErrCommit, w2)
                | (True, w2) \<Rightarrow> (Redirect 302 url, w2))))"

end
