(* ===== verification/Passkeys.thy ===== *)
theory Passkeys
  imports Login
begin

text \<open>
  \<^verbatim>\<open>pkg/auth/webauthn.go\<close>: the passkey ceremonies.  go-webauthn is the record \<open>webauthn\<close> of
  parameters; the pending state of a ceremony rides the cookie session.
\<close>

definition credential_id :: "wa_credential \<Rightarrow> string" where
  "credential_id credential = b64_rawurl (map byte (wac_ID credential))"

fun decode_credentials :: "auth_env \<Rightarrow> WebAuthnCredential list \<Rightarrow> wa_credential list result" where
  "decode_credentials E [] = Inr []"
| "decode_credentials E (record # records) =
     (case ae_cred_unmarshal E (wc_Credential record) of
        None \<Rightarrow> Inl ErrDecode
      | Some credential \<Rightarrow> res_bind (decode_credentials E records) (\<lambda>cs. Inr (credential # cs)))"

definition loadWebAuthnUser ::
  "auth_env \<Rightarrow> 's AuthRouter \<Rightarrow> 's world \<Rightarrow> (webAuthnUser \<times> WebAuthnCredential list) result" where
  "loadWebAuthnUser E a w =
     res_bind (ask_repo (us_GetUser (users a)) w) (\<lambda>user.
     res_bind (ask_repo (us_ListWebAuthnCredentials (users a) (u_ID user)) w) (\<lambda>records.
     res_bind (decode_credentials E records) (\<lambda>credentials.
       Inr (\<lparr>wu_user = user, wu_credentials = credentials\<rparr>, records))))"

section \<open>The pending ceremony\<close>

definition storeCeremony :: "auth_env \<Rightarrow> string \<Rightarrow> wa_session \<Rightarrow> 'a web_scheme \<Rightarrow> unit result \<times> 'a web_scheme" where
  "storeCeremony E key data w =
     (case ae_session_marshal E data of
        None \<Rightarrow> (Inl (ErrMsg ''failed to encode WebAuthn session data''), w)
      | Some payload \<Rightarrow>
          (case sess_save (sess_set key (SStr payload) w) of
             (False, w1) \<Rightarrow> (Inl ErrCommit, w1)
           | (True, w1) \<Rightarrow> (Inr (), w1)))"

definition takeCeremony :: "auth_env \<Rightarrow> string \<Rightarrow> 'a web_scheme \<Rightarrow> wa_session result \<times> 'a web_scheme" where
  "takeCeremony E key w =
     (case sess_string w key of
        None \<Rightarrow> (Inl (ErrMsg ''no pending WebAuthn ceremony''), w)
      | Some raw \<Rightarrow>
          if raw = [] then (Inl (ErrMsg ''no pending WebAuthn ceremony''), w)
          else (case sess_save (sess_delete key w) of
                  (False, w1) \<Rightarrow> (Inl ErrCommit, w1)
                | (True, w1) \<Rightarrow>
                    (case ae_session_unmarshal E raw of
                       None \<Rightarrow> (Inl ErrDecode, w1)
                     | Some data \<Rightarrow> (Inr data, w1))))"

text \<open>An operation of the relying party that draws a challenge.\<close>

definition with_draw :: "(nat \<Rightarrow> 'r) \<Rightarrow> 's world \<Rightarrow> 'r \<times> 's world" where
  "with_draw f w = (f (draws w), w\<lparr>draws := Suc (draws w)\<rparr>)"

definition login_failed_json :: "int \<Rightarrow> reply" where
  "login_failed_json status = Json status [(''error'', ''passkey login failed'')]"

definition registration_failed_json :: "int \<Rightarrow> reply" where
  "registration_failed_json status = Json status [(''error'', ''passkey registration failed'')]"

section \<open>Login\<close>

definition handleWebAuthnLoginBegin ::
  "auth_env \<Rightarrow> 's AuthRouter \<Rightarrow> HttpRequest \<Rightarrow> 's world \<Rightarrow> reply \<times> 's world" where
  "handleWebAuthnLoginBegin E a req w =
     (case loadWebAuthnUser E a w of
        Inl e \<Rightarrow> (if e = ErrPanic then panic_reply
                  else Json 400 [(''error'', ''passkey login is not available'')], w)
      | Inr (user, _) \<Rightarrow>
          if length (wu_credentials user) = 0 then
            (Json 400 [(''error'', ''passkey login is not available'')], w)
          else (case au_webAuthn a of
              None \<Rightarrow> (panic_reply, w)
            | Some W \<Rightarrow>
                (case with_draw (wa_BeginDiscoverableLogin W) w of
                   (Inl _, w1) \<Rightarrow> (login_failed_json 500, w1)
                 | (Inr (options, sessionData), w1) \<Rightarrow>
                     (case storeCeremony E sessionKeyWebAuthnLogin sessionData w1 of
                        (Inl _, w2) \<Rightarrow> (login_failed_json 500, w2)
                      | (Inr _, w2) \<Rightarrow> (Body 200 (CeremonyOptions options), w2)))))"

fun persistUsedCredential_in ::
  "auth_env \<Rightarrow> 's AuthRouter \<Rightarrow> time \<Rightarrow> WebAuthnCredential list \<Rightarrow> wa_credential \<Rightarrow> (unit, 's) act" where
  "persistUsedCredential_in E a now [] credential s = (Inl (ErrMsg ''assertion credential is not registered''), s)"
| "persistUsedCredential_in E a now (record # records) credential s =
     (if wc_ID record \<noteq> credential_id credential then persistUsedCredential_in E a now records credential s
      else (case ae_cred_marshal E credential of
              None \<Rightarrow> (Inl (ErrMsg ''failed to encode passkey credential''), s)
            | Some payload \<Rightarrow>
                us_UpdateWebAuthnCredential (users a)
                  (record\<lparr>wc_Credential := payload, wc_LastUsedAt := now\<rparr>) s))"

definition persistUsedCredential ::
  "auth_env \<Rightarrow> 's AuthRouter \<Rightarrow> time \<Rightarrow> WebAuthnCredential list \<Rightarrow> wa_credential \<Rightarrow>
     's world \<Rightarrow> unit result \<times> 's world" where
  "persistUsedCredential E a now records credential =
     on_repo (persistUsedCredential_in E a now records credential)"

definition passkey_denied :: "HttpRequest \<Rightarrow> 's world \<Rightarrow> reply \<times> 's world" where
  "passkey_denied req w =
     (login_failed_json 401,
      authevent_Log LoginFail [(''method'', FStr ''passkey''), (''client_ip'', FStr (in_ClientIP req))] w)"

text \<open>The user lookup given to the library: the handle of the assertion must be the operator's.\<close>

definition discoverable_handler :: "webAuthnUser \<Rightarrow> string \<Rightarrow> string \<Rightarrow> webAuthnUser result" where
  "discoverable_handler user rawID userHandle =
     (if userHandle \<noteq> u_ID (wu_user user) then
        Inl (ErrMsg ''user handle does not match the operator account'')
      else Inr user)"

definition passkey_session ::
  "HttpRequest \<Rightarrow> string \<Rightarrow> 's world \<Rightarrow> reply \<times> 's world" where
  "passkey_session req uid w =
     (case takeRedirectTarget (sess_set SessionKeyUserID (SStr uid)
             (sess_set SessionKeyAuthorized (SBool True) w)) of
        (redirectURL, w1) \<Rightarrow>
          (case sess_save w1 of
             (False, w2) \<Rightarrow> passkey_denied req w2
           | (True, w2) \<Rightarrow>
               (Json 200 [(''redirect'', redirectURL)],
                authevent_Log LoginOK
                  [(''method'', FStr ''passkey''), (''client_ip'', FStr (in_ClientIP req))] w2)))"

definition handleWebAuthnLoginFinish ::
  "auth_env \<Rightarrow> 's AuthRouter \<Rightarrow> (nat \<Rightarrow> time) \<Rightarrow> HttpRequest \<Rightarrow> 's world \<Rightarrow> reply \<times> 's world" where
  "handleWebAuthnLoginFinish E a clk req w =
     (case takeCeremony E sessionKeyWebAuthnLogin w of
        (Inl _, w1) \<Rightarrow> passkey_denied req w1
      | (Inr sessionData, w1) \<Rightarrow>
          (case loadWebAuthnUser E a w1 of
             Inl e \<Rightarrow> if e = ErrPanic then (panic_reply, w1) else passkey_denied req w1
           | Inr (user, records) \<Rightarrow>
               (case au_webAuthn a of
                  None \<Rightarrow> (panic_reply, w1)
                | Some W \<Rightarrow>
                    (case wa_FinishDiscoverableLogin W (discoverable_handler user) sessionData req (clk 0) of
                       Inl _ \<Rightarrow> passkey_denied req w1
                     | Inr credential \<Rightarrow>
                         if wac_CloneWarning credential then passkey_denied req w1
                         else (case persistUsedCredential E a (clk 1) records credential w1 of
                                 (Inl _, w2) \<Rightarrow> passkey_denied req w2
                               | (Inr _, w2) \<Rightarrow> passkey_session req (u_ID (wu_user user)) w2)))))"

section \<open>Registration\<close>

definition forbidden_reply :: reply where
  "forbidden_reply = Json 403 [(''error'', ''passkey management requires the gateway's own login'')]"

text \<open>\<open>Inl\<close> is the answer the guard has already given.\<close>

definition requireOwnUser ::
  "auth_env \<Rightarrow> 's AuthRouter \<Rightarrow> 's world \<Rightarrow> reply + (webAuthnUser \<times> WebAuthnCredential list)" where
  "requireOwnUser E a w =
     (case loadWebAuthnUser E a w of
        Inl e \<Rightarrow> Inl (if e = ErrPanic then panic_reply else forbidden_reply)
      | Inr (user, records) \<Rightarrow>
          (let sessionUserID = (case sess_string w SessionKeyUserID of Some s \<Rightarrow> s | None \<Rightarrow> [])
           in if sessionUserID \<noteq> u_ID (wu_user user) then Inl forbidden_reply
              else Inr (user, records)))"

definition handleWebAuthnRegisterBegin ::
  "auth_env \<Rightarrow> 's AuthRouter \<Rightarrow> HttpRequest \<Rightarrow> 's world \<Rightarrow> reply \<times> 's world" where
  "handleWebAuthnRegisterBegin E a req w =
     (case requireOwnUser E a w of
        Inl r \<Rightarrow> (r, w)
      | Inr (user, _) \<Rightarrow>
          (case au_webAuthn a of
             None \<Rightarrow> (panic_reply, w)
           | Some W \<Rightarrow>
               (let exclusions = map (wa_Descriptor W) (wu_credentials user)
                in (case with_draw (\<lambda>i. wa_BeginRegistration W i user exclusions) w of
                      (Inl _, w1) \<Rightarrow> (registration_failed_json 500, w1)
                    | (Inr (options, sessionData), w1) \<Rightarrow>
                        (case storeCeremony E sessionKeyWebAuthnRegistration sessionData w1 of
                           (Inl _, w2) \<Rightarrow> (registration_failed_json 500, w2)
                         | (Inr _, w2) \<Rightarrow> (Body 200 (CeremonyOptions options), w2))))))"

definition maxCredentialNameLength :: nat where "maxCredentialNameLength = 64"

definition handleWebAuthnRegisterFinish ::
  "auth_env \<Rightarrow> 's AuthRouter \<Rightarrow> (nat \<Rightarrow> time) \<Rightarrow> HttpRequest \<Rightarrow> 's world \<Rightarrow> reply \<times> 's world" where
  "handleWebAuthnRegisterFinish E a clk req w =
     (case requireOwnUser E a w of
        Inl r \<Rightarrow> (r, w)
      | Inr (user, _) \<Rightarrow>
          (case takeCeremony E sessionKeyWebAuthnRegistration w of
             (Inl _, w1) \<Rightarrow> (registration_failed_json 400, w1)
           | (Inr sessionData, w1) \<Rightarrow>
               (case au_webAuthn a of
                  None \<Rightarrow> (panic_reply, w1)
                | Some W \<Rightarrow>
                    (case wa_FinishRegistration W user sessionData req (clk 0) of
                       Inl _ \<Rightarrow> (registration_failed_json 400, w1)
                     | Inr credential \<Rightarrow>
                         (let name = c_Query req ''name'';
                              name = (if length name > maxCredentialNameLength
                                      then take maxCredentialNameLength name else name)
                          in (case ae_cred_marshal E credential of
                                None \<Rightarrow> (registration_failed_json 500, w1)
                              | Some payload \<Rightarrow>
                                  (let record = \<lparr>wc_ID = credential_id credential,
                                         wc_UserID = u_ID (wu_user user), wc_Name = name,
                                         wc_Credential = payload, wc_CreatedAt = clk 1,
                                         wc_LastUsedAt = 0\<rparr>
                                   in (case on_repo (us_AddWebAuthnCredential (users a) record) w1 of
                                         (Inl _, w2) \<Rightarrow> (registration_failed_json 500, w2)
                                       | (Inr _, w2) \<Rightarrow> (Json 200 [(''ok'', ''true'')], w2)))))))))"

end
