(* ===== verification/Settings.thy ===== *)
theory Settings
  imports Passkeys
begin

text \<open>
  \<^verbatim>\<open>pkg/auth/settings.go\<close> and \<^verbatim>\<open>clients.go\<close>: the settings page, the password fallback, the
  client list and the operator's kill switches.
\<close>

section \<open>The view model\<close>

definition settingsMessages :: "(string \<times> string) list" where
  "settingsMessages =
     [(''saved'', ''Settings saved.''),
      (''deleted'', ''Passkey deleted.''),
      (''need_passkey'', ''Register a passkey before disabling the password login.''),
      (''error'', ''The change could not be saved.''),
      (''revoked'', ''Access revoked. The client must authorize again to return.''),
      (''revoked_all'', ''Every client's access revoked. Your own login is untouched.''),
      (''revoke_failed'', ''The revoke failed. Nothing was changed.'')]"

definition settings_message :: "string \<Rightarrow> string" where
  "settings_message code = (case map_of settingsMessages code of Some t \<Rightarrow> t | None \<Rightarrow> [])"

definition credentialViews :: "WebAuthnCredential list \<Rightarrow> credentialView list" where
  "credentialViews records =
     map (\<lambda>r. \<lparr>crv_ID = wc_ID r, crv_Name = wc_Name r, crv_CreatedAt = wc_CreatedAt r,
        crv_LastUsedAt = wc_LastUsedAt r\<rparr>) records"

definition grantViews :: "Grant list \<Rightarrow> grantView list" where
  "grantViews grants =
     map (\<lambda>g. \<lparr>gv_RequestID = g_RequestID g, gv_Label = g_Label g, gv_RequestedAt = g_RequestedAt g,
        gv_LastActivity = g_LastActivity g, gv_Scopes = g_Scopes g,
        gv_AccessTokens = g_AccessTokens g, gv_RefreshTokens = g_RefreshTokens g\<rparr>) grants"

definition redirectHosts :: "url_parser \<Rightarrow> string list \<Rightarrow> string list" where
  "redirectHosts P uris =
     sorted_list_of_set (set (concat (map (\<lambda>raw. case P raw of
        None \<Rightarrow> [] | Some u \<Rightarrow> if u_Host u = [] then [] else [u_Host u]) uris)))"

definition clientView_of :: "url_parser \<Rightarrow> ClientGrants \<Rightarrow> clientView" where
  "clientView_of P row =
     \<lparr>cv_ClientID = cg_ClientID row, cv_Label = cg_Label row,
      cv_IsCIMD = (cg_Origin row = OriginCIMD), cv_Registered = cg_Registered row,
      cv_ExpiresAt = cg_ExpiresAt row, cv_RedirectHosts = redirectHosts P (cg_RedirectURIs row),
      cv_Scopes = cg_Scopes row, cv_Grants = grantViews (cg_Grants row),
      cv_AccessTokens = cg_AccessTokens row, cv_RefreshTokens = cg_RefreshTokens row,
      cv_FirstActivity = cg_FirstActivity row, cv_LastActivity = cg_LastActivity row\<rparr>"

definition clientViews :: "auth_env \<Rightarrow> 's AuthRouter \<Rightarrow> time \<Rightarrow> 's world \<Rightarrow> clientView list result" where
  "clientViews E a now w =
     res_bind (ask_repo (ListClientGrants a now) w) (\<lambda>rs. Inr (map (clientView_of (ae_url E)) rs))"

definition server_abort :: reply where "server_abort = Body 500 EmptyBody"

definition handleSettings ::
  "auth_env \<Rightarrow> 's AuthRouter \<Rightarrow> time \<Rightarrow> HttpRequest \<Rightarrow> 's world \<Rightarrow> reply \<times> 's world" where
  "handleSettings E a now req w =
     (case requireOwnUser E a w of
        Inl r \<Rightarrow> (r, w)
      | Inr (user, records) \<Rightarrow>
          (case clientViews E a now w of
             Inl e \<Rightarrow> (if e = ErrPanic then panic_reply else renderError e, w)
           | Inr cs \<Rightarrow>
               (case EnsureCSRFToken (ae_rand E) w of
                  (Inl _, w1) \<Rightarrow> (server_abort, w1)
                | (Inr csrfToken, w1) \<Rightarrow>
                    (case sess_save w1 of
                       (False, w2) \<Rightarrow> (server_abort, w2)
                     | (True, w2) \<Rightarrow>
                         (Body 200 (SettingsPage
                            \<lparr>st_Username = u_Username (wu_user user),
                             st_Credentials = credentialViews records,
                             st_HasPassword = (length (au_passwordHash a) > 0),
                             st_PasswordLoginDisabled = u_PasswordLoginDisabled (wu_user user),
                             st_PasswordLoginActive =
                               isPasswordLoginActive a (wu_user user) (length records),
                             st_Message = settings_message (c_Query req ''msg''),
                             st_CSRFToken = csrfToken, st_Clients = cs,
                             st_ConfirmRevokeAll = (c_Query req ''confirm'' = ''revoke_all''),
                             st_Version = au_version a\<rparr>), w2)))))"

definition settings_redirect :: "string \<Rightarrow> reply" where
  "settings_redirect msg =
     Redirect 302 (if msg = [] then SettingsEndpoint else SettingsEndpoint @ ''?msg='' @ msg)"

definition handleSettingsPassword ::
  "auth_env \<Rightarrow> 's AuthRouter \<Rightarrow> HttpRequest \<Rightarrow> 's world \<Rightarrow> reply \<times> 's world" where
  "handleSettingsPassword E a req w =
     (case requireOwnUser E a w of
        Inl r \<Rightarrow> (r, w)
      | Inr (user, records) \<Rightarrow>
          (let disable = (PostForm req ''disabled'' = ''true'')
           in if disable \<and> length records = 0 then (settings_redirect ''need_passkey'', w)
              else (case on_repo (us_UpdateUser (users a)
                        ((wu_user user)\<lparr>u_PasswordLoginDisabled := disable\<rparr>)) w of
                      (Inl _, w1) \<Rightarrow> (settings_redirect ''error'', w1)
                    | (Inr _, w1) \<Rightarrow> (settings_redirect ''saved'', w1))))"

definition handleSettingsCredentialDelete ::
  "auth_env \<Rightarrow> 's AuthRouter \<Rightarrow> HttpRequest \<Rightarrow> 's world \<Rightarrow> reply \<times> 's world" where
  "handleSettingsCredentialDelete E a req w =
     (case requireOwnUser E a w of
        Inl r \<Rightarrow> (r, w)
      | Inr (_, records) \<Rightarrow>
          (let id' = PostForm req ''id''
           in if list_ex (\<lambda>record. wc_ID record = id') records then
                (case on_repo (us_DeleteWebAuthnCredential (users a) id') w of
                   (Inl _, w1) \<Rightarrow> (settings_redirect ''error'', w1)
                 | (Inr _, w1) \<Rightarrow> (settings_redirect ''deleted'', w1))
              else (settings_redirect [], w)))"

section \<open>Revocation\<close>

record revokeEvent =
  re_scope :: string
  re_subject :: string
  re_label :: runes
  re_records :: int

definition logRevoke :: "HttpRequest \<Rightarrow> revokeEvent \<Rightarrow> 'a web_scheme \<Rightarrow> 'a web_scheme" where
  "logRevoke req event =
     authevent_Log Revoked
       ([(''actor'', FStr ''operator''), (''scope'', FStr (re_scope event)),
         (''records'', FInt (re_records event)), (''client_ip'', FStr (in_ClientIP req))] @
        (if re_subject event \<noteq> [] then [(''subject'', FStr (re_subject event))] else []) @
        (if re_label event \<noteq> [] then [(''label'', FRunes (re_label event))] else []))"

fun label_in :: "ClientGrants list \<Rightarrow> string \<Rightarrow> string \<Rightarrow> runes" where
  "label_in [] clientID requestID = []"
| "label_in (row # rs) clientID requestID =
     (if clientID \<noteq> [] \<and> cg_ClientID row = clientID then cg_Label row
      else (case List.find (\<lambda>g. requestID \<noteq> [] \<and> g_RequestID g = requestID) (cg_Grants row) of
              Some g \<Rightarrow> g_Label g
            | None \<Rightarrow> label_in rs clientID requestID))"

text \<open>Best effort: a failed listing yields no label.  \<open>Inl\<close> stands for a panic of the listing.\<close>

definition labelOf :: "'s AuthRouter \<Rightarrow> time \<Rightarrow> string \<Rightarrow> string \<Rightarrow> 's world \<Rightarrow> runes result" where
  "labelOf a now clientID requestID w =
     (case ask_repo (ListClientGrants a now) w of
        Inl e \<Rightarrow> if e = ErrPanic then Inl ErrPanic else Inr []
      | Inr rs \<Rightarrow> Inr (label_in rs clientID requestID))"

text \<open>The part the two single revocations share: read the name, revoke, record the event.\<close>

definition revoke_labelled ::
  "HttpRequest \<Rightarrow> string \<Rightarrow> string \<Rightarrow> runes result \<Rightarrow> (int, 's) act \<Rightarrow> 's world \<Rightarrow> reply \<times> 's world" where
  "revoke_labelled req scope subject label revoke_it w =
     (case label of
        Inl _ \<Rightarrow> (panic_reply, w)
      | Inr name \<Rightarrow>
          (case on_repo revoke_it w of
             (Inl e, w1) \<Rightarrow> (if e = ErrPanic then panic_reply else settings_redirect ''revoke_failed'', w1)
           | (Inr deleted, w1) \<Rightarrow>
               (settings_redirect ''revoked'',
                logRevoke req \<lparr>re_scope = scope, re_subject = subject, re_label = name,
                  re_records = deleted\<rparr> w1)))"

definition handleSettingsClientRevoke ::
  "auth_env \<Rightarrow> 's AuthRouter \<Rightarrow> time \<Rightarrow> HttpRequest \<Rightarrow> 's world \<Rightarrow> reply \<times> 's world" where
  "handleSettingsClientRevoke E a now req w =
     (case requireOwnUser E a w of
        Inl r \<Rightarrow> (r, w)
      | Inr _ \<Rightarrow>
          (let clientID = PostForm req ''client_id''
           in if clientID = [] then (settings_redirect [], w)
              else revoke_labelled req ''client'' clientID (labelOf a now clientID [] w)
                     (is_RevokeClient (clients a) clientID) w))"

definition handleSettingsGrantRevoke ::
  "auth_env \<Rightarrow> 's AuthRouter \<Rightarrow> time \<Rightarrow> HttpRequest \<Rightarrow> 's world \<Rightarrow> reply \<times> 's world" where
  "handleSettingsGrantRevoke E a now req w =
     (case requireOwnUser E a w of
        Inl r \<Rightarrow> (r, w)
      | Inr _ \<Rightarrow>
          (let requestID = PostForm req ''request_id''
           in if requestID = [] then (settings_redirect [], w)
              else revoke_labelled req ''grant'' requestID (labelOf a now [] requestID w)
                     (is_RevokeGrant (clients a) requestID) w))"

definition handleSettingsRevokeAll ::
  "auth_env \<Rightarrow> 's AuthRouter \<Rightarrow> HttpRequest \<Rightarrow> 's world \<Rightarrow> reply \<times> 's world" where
  "handleSettingsRevokeAll E a req w =
     (case requireOwnUser E a w of
        Inl r \<Rightarrow> (r, w)
      | Inr _ \<Rightarrow>
          (case on_repo (is_RevokeAll (clients a)) w of
             (Inl e, w1) \<Rightarrow> (if e = ErrPanic then panic_reply else settings_redirect ''revoke_failed'', w1)
           | (Inr deleted, w1) \<Rightarrow>
               (settings_redirect ''revoked_all'',
                logRevoke req \<lparr>re_scope = ''all'', re_subject = [], re_label = [],
                  re_records = deleted\<rparr> w1)))"

section \<open>The route table of \<open>SetupRoutes\<close>\<close>

definition auth_SetupRoutes :: "auth_env \<Rightarrow> 's AuthRouter \<Rightarrow> (nat \<Rightarrow> time) \<Rightarrow> 's route list" where
  "auth_SetupRoutes E a clk =
     [(''GET'', LoginEndpoint, \<lambda>_. [endpoint (handleLogin E a)]),
      (''POST'', LoginEndpoint,
        \<lambda>_. withRateLimit (au_loginRateLimit a) [RequireCSRF, endpoint (handleLoginPost E a clk)]),
      (''GET'', LogoutEndpoint, \<lambda>_. [endpoint handleLogout])] @
     (if au_webAuthn a \<noteq> None then
        [(''POST'', WebAuthnLoginBeginEndpoint,
           \<lambda>_. withRateLimit (au_loginRateLimit a) [RequireCSRF, endpoint (handleWebAuthnLoginBegin E a)]),
         (''POST'', WebAuthnLoginFinishEndpoint,
           \<lambda>_. withRateLimit (au_loginRateLimit a)
             [RequireCSRF, endpoint (handleWebAuthnLoginFinish E a clk)]),
         (''POST'', WebAuthnRegisterBeginEndpoint,
           \<lambda>_. [RequireAuth, RequireCSRF, endpoint (handleWebAuthnRegisterBegin E a)]),
         (''POST'', WebAuthnRegisterFinishEndpoint,
           \<lambda>_. [RequireAuth, RequireCSRF, endpoint (handleWebAuthnRegisterFinish E a clk)]),
         (''GET'', SettingsEndpoint, \<lambda>_. [RequireAuth, endpoint (handleSettings E a (clk 0))]),
         (''POST'', SettingsPasswordEndpoint,
           \<lambda>_. [RequireAuth, RequireCSRF, endpoint (handleSettingsPassword E a)]),
         (''POST'', SettingsCredentialDeleteEndpoint,
           \<lambda>_. [RequireAuth, RequireCSRF, endpoint (handleSettingsCredentialDelete E a)]),
         (''POST'', SettingsClientRevokeEndpoint,
           \<lambda>_. [RequireAuth, RequireCSRF, endpoint (handleSettingsClientRevoke E a (clk 0))]),
         (''POST'', SettingsGrantRevokeEndpoint,
           \<lambda>_. [RequireAuth, RequireCSRF, endpoint (handleSettingsGrantRevoke E a (clk 0))]),
         (''POST'', SettingsRevokeAllEndpoint,
           \<lambda>_. [RequireAuth, RequireCSRF, endpoint (handleSettingsRevokeAll E a)])]
      else []) @
     concat (map (\<lambda>provider.
       [(''GET'', p_RedirectURL provider, \<lambda>_. [endpoint (handleCallback E a provider)]),
        (''GET'', p_AuthURL provider, \<lambda>_. [endpoint (handleProviderAuth E provider)])])
       (au_providers a))"

end
