(* ===== verification/Proxy.thy ===== *)
theory Proxy
  imports Csrf Header
begin

text \<open>
  \<^verbatim>\<open>pkg/proxy/proxy.go\<close>: the protected resource.  A request reaches the upstream only through
  \<open>handleProxy\<close>.  Parameters: \<open>jwt.ParseWithClaims\<close> (\<open>pc_Parse\<close>), which asks the key function
  of the code for a key, and JSON pointers (\<open>pc_Pointer\<close>).  Go iterates over the header mapping
  in an arbitrary order, which is the argument \<open>order\<close>.
\<close>

text \<open>The options the code gives to the JWT parser.\<close>

record jwt_options =
  jo_Issuer :: string
  jo_Audience :: string
  jo_ExpirationRequired :: bool
  jo_Leeway :: duration

type_synonym claims = "(string \<times> json) list"

type_synonym jwt_parser =
  "string \<Rightarrow> (jwt_token \<Rightarrow> pubkey result) \<Rightarrow> jwt_options \<Rightarrow> time \<Rightarrow> claims result"

record 's proxy_Config =
  pc_ExternalURL :: string
  pc_VerificationKey :: "(string \<Rightarrow> (pubkey \<times> string) option) option"
  pc_ProxyHeaders :: header
  pc_HTTPStreamingOnly :: bool
  pc_ForwardAuthorizationHeader :: bool
  pc_HeaderMapping :: "(string \<times> string) list" \<comment> \<open>JSON pointer and header name\<close>
  pc_HeaderMappingBase :: string
  pc_ClockSkew :: duration
  pc_TokenActive :: "(string \<Rightarrow> (unit, 's) query) option"
  pc_Parse :: jwt_parser
  pc_Pointer :: "json \<Rightarrow> string \<Rightarrow> json option"

definition NewProxyRouter :: "'s proxy_Config \<Rightarrow> 's proxy_Config result" where
  "NewProxyRouter cfg =
     (if pc_VerificationKey cfg = None then Inl (ErrMsg ''proxy config requires a verification key lookup'')
      else Inr (cfg\<lparr>pc_ExternalURL := trim_suffix (pc_ExternalURL cfg) ''/''\<rparr>))"

definition OauthProtectedResourceEndpoint :: string where
  "OauthProtectedResourceEndpoint = ''/.well-known/oauth-protected-resource''"

definition jwksPath :: string where "jwksPath = ''/.well-known/jwks.json''"

record protectedResourceResponse =
  pr_Resource :: string
  pr_AuthorizationServers :: "string list"
  pr_JWKSURI :: string
  pr_BearerMethodsSupported :: "string list"
  pr_ScopesSupported :: "string list"
  pr_ResourceName :: string

definition handleProtectedResource :: "'s proxy_Config \<Rightarrow> protectedResourceResponse" where
  "handleProtectedResource p =
     \<lparr>pr_Resource = pc_ExternalURL p, pr_AuthorizationServers = [pc_ExternalURL p],
      pr_JWKSURI = pc_ExternalURL p @ jwksPath, pr_BearerMethodsSupported = [''header''],
      pr_ScopesSupported = [], pr_ResourceName = ''mcp-oauth-gateway''\<rparr>"

section \<open>Refusals\<close>

text \<open>\<open>Unauthorized\<close> carries the challenge header, \<open>Forwarded\<close> the request as the upstream gets it.\<close>

datatype proxy_outcome =
    Unauthorized string "(string \<times> string) list"
  | Refused int "(string \<times> string) list"
  | Panicked
  | Forwarded HttpRequest

text \<open>The verb \<open>%q\<close> on printable ASCII text.\<close>

definition quoted :: "string \<Rightarrow> string" where
  "quoted s = [CHR 0x22] @ concat (map (\<lambda>c. if c = CHR 0x22 \<or> c = CHR 0x5C then [CHR 0x5C, c] else [c]) s) @ [CHR 0x22]"

definition abortUnauthorized :: "'s proxy_Config \<Rightarrow> string \<Rightarrow> string \<Rightarrow> proxy_outcome" where
  "abortUnauthorized p errorCode description =
     (let challenge = ''Bearer resource_metadata='' @ quoted (pc_ExternalURL p @ OauthProtectedResourceEndpoint)
      in if errorCode \<noteq> [] then
           Unauthorized (challenge @ '', error='' @ quoted errorCode @ '', error_description='' @ quoted description)
             [(''error'', errorCode), (''error_description'', description)]
         else Unauthorized challenge [(''error'', ''unauthorized'')])"

definition reservedPrefixes :: "string list" where
  "reservedPrefixes = [''/.idp/'', ''/.auth/'', ''/.well-known/'']"

section \<open>Streaming requests\<close>

definition media_type_of :: "string \<Rightarrow> string" where
  "media_type_of value =
     (let mediaType = trim_space (to_lower value)
      in case cut_char mediaType (CHR '';'') of
           (before, _, found) \<Rightarrow> if found then trim_space before else mediaType)"

definition isSSEGetRequest :: "HttpRequest \<Rightarrow> bool" where
  "isSSEGetRequest r =
     (if in_Method r \<noteq> ''GET'' then False
      else (let accept = hdr_Get (in_Header r) ''Accept''
            in if accept = [] then False
               else list_ex (\<lambda>value. media_type_of value = ''text/event-stream'')
                      (split_char accept (CHR '',''))))"

section \<open>The headers of the upstream request\<close>

text \<open>\<open>fmt.Sprintf("%v", v)\<close> on a decoded JSON value.\<close>

fun sprint :: "json \<Rightarrow> string" where
  "sprint JNull = ''<nil>''"
| "sprint (JBool b) = (if b then ''true'' else ''false'')"
| "sprint (JNum s) = s"
| "sprint (JStr s) = s"
| "sprint (JArr js) = ''['' @ join (map sprint js) '' '' @ '']''"
| "sprint (JObj m) = ''map['' @
     join (map (\<lambda>(k, s). k @ '':'' @ s) (sort_key fst (map (\<lambda>(k, v). (k, sprint v)) m))) '' '' @ '']''"

definition mapped_value :: "json \<Rightarrow> string" where
  "mapped_value v =
     (case v of
        JStr s \<Rightarrow> s
      | JArr items \<Rightarrow> join (concat (map (\<lambda>item. case item of JStr s \<Rightarrow> [s] | _ \<Rightarrow> []) items)) '',''
      | _ \<Rightarrow> sprint v)"

definition mapping_source :: "'s proxy_Config \<Rightarrow> claims \<Rightarrow> json option" where
  "mapping_source p cs =
     (if pc_HeaderMappingBase p \<noteq> ''/'' then
        (case pc_Pointer p (JObj cs) (pc_HeaderMappingBase p) of
           None \<Rightarrow> None
         | Some val \<Rightarrow> if val = JNull then None else Some val)
      else Some (JObj cs))"

definition set_mapped :: "'s proxy_Config \<Rightarrow> json \<Rightarrow> string \<times> string \<Rightarrow> header \<Rightarrow> header" where
  "set_mapped p source m h =
     (case pc_Pointer p source (fst m) of None \<Rightarrow> h | Some v \<Rightarrow> hdr_Set (snd m) (mapped_value v) h)"

definition map_headers ::
  "'s proxy_Config \<Rightarrow> ((string \<times> string) list \<Rightarrow> (string \<times> string) list) \<Rightarrow> claims \<Rightarrow> header \<Rightarrow> header" where
  "map_headers p order cs h =
     (if length (pc_HeaderMapping p) > 0 then
        (case mapping_source p cs of
           None \<Rightarrow> h
         | Some source \<Rightarrow> fold (set_mapped p source) (order (pc_HeaderMapping p)) h)
      else h)"

definition inject_header :: "string \<times> string list \<Rightarrow> header \<Rightarrow> header" where
  "inject_header kv h = fold (hdr_Add (fst kv)) (snd kv) (hdr_Del (fst kv) h)"

definition upstream_header ::
  "'s proxy_Config \<Rightarrow> ((string \<times> string) list \<Rightarrow> (string \<times> string) list) \<Rightarrow> claims \<Rightarrow> header \<Rightarrow> header" where
  "upstream_header p order cs h =
     (let h1 = (if \<not> pc_ForwardAuthorizationHeader p then hdr_Del ''Authorization'' h else h);
          h2 = fold (\<lambda>(_, headerName). hdr_Del headerName) (pc_HeaderMapping p) h1;
          h3 = fold inject_header (pc_ProxyHeaders p) h2
      in map_headers p order cs h3)"

section \<open>The handler\<close>

text \<open>The key function given to the parser.\<close>

definition proxy_key :: "'s proxy_Config \<Rightarrow> jwt_token \<Rightarrow> pubkey result" where
  "proxy_key p token =
     (let kid = (case jt_Kid token of None \<Rightarrow> [] | Some k \<Rightarrow> k)
      in case pc_VerificationKey p of
           None \<Rightarrow> Inl ErrPanic
         | Some lookup \<Rightarrow>
             (case lookup kid of
                None \<Rightarrow> Inl (ErrMsg ''token references an unknown signing key'')
              | Some (pub, alg) \<Rightarrow>
                  if jt_Method token \<noteq> alg then Inl (ErrMsg ''unexpected signing method'') else Inr pub))"

definition parse_options :: "'s proxy_Config \<Rightarrow> jwt_options" where
  "parse_options p =
     \<lparr>jo_Issuer = pc_ExternalURL p, jo_Audience = pc_ExternalURL p, jo_ExpirationRequired = True,
      jo_Leeway = pc_ClockSkew p\<rparr>"

text \<open>The revocation check: \<open>None\<close> when the token is active.\<close>

definition check_active :: "'s proxy_Config \<Rightarrow> string \<Rightarrow> 's \<Rightarrow> proxy_outcome option" where
  "check_active p bearerToken s =
     (case pc_TokenActive p of
        None \<Rightarrow> None
      | Some active \<Rightarrow>
          (case active bearerToken s of
             Inr _ \<Rightarrow> None
           | Inl e \<Rightarrow>
               if e = ErrPanic then Some Panicked
               else if e = ErrTokenInactive then
                 Some (abortUnauthorized p ''invalid_token'' ''the access token has been revoked'')
               else Some (Refused 503 [(''error'', ''temporarily_unavailable'')])))"

definition handleProxy ::
  "'s proxy_Config \<Rightarrow> ((string \<times> string) list \<Rightarrow> (string \<times> string) list) \<Rightarrow> time \<Rightarrow> HttpRequest \<Rightarrow> 's \<Rightarrow>
     proxy_outcome" where
  "handleProxy p order now req s =
     (if list_ex (has_prefix (in_Path req)) reservedPrefixes then Refused 404 [(''error'', ''not_found'')]
      else
        (let authHeader = hdr_Get (in_Header req) ''Authorization''
         in if \<not> has_prefix authHeader ''Bearer '' then abortUnauthorized p [] []
            else
              (let bearerToken = trim_prefix authHeader ''Bearer ''
               in (case pc_Parse p bearerToken (proxy_key p) (parse_options p) now of
                     Inl _ \<Rightarrow> abortUnauthorized p ''invalid_token'' ''the access token is invalid or expired''
                   | Inr cs \<Rightarrow>
                       (case check_active p bearerToken s of
                          Some out \<Rightarrow> out
                        | None \<Rightarrow>
                            if pc_HTTPStreamingOnly p \<and> isSSEGetRequest req then
                              Refused 405 [(''error'',
                                ''SSE (GET) streaming is not supported by this backend; use POST-based HTTP streaming instead'')]
                            else
                              Forwarded (req\<lparr>in_Header := upstream_header p order cs (in_Header req)\<rparr>))))))"

text \<open>\<open>tokenActiveChecker\<close> of \<^verbatim>\<open>pkg/mcp-proxy/router.go\<close>.\<close>

definition tokenActiveChecker :: "'s SessionStorage \<Rightarrow> string \<Rightarrow> (unit, 's) query" where
  "tokenActiveChecker R rawToken s =
     (let parts = split_char rawToken (CHR ''.'')
      in if length parts \<noteq> 3 then Inl ErrTokenInactive
         else (case ss_get R AccessToken (parts ! 2) None s of
                 Inl e \<Rightarrow> if e = ErrNotFound then Inl ErrTokenInactive else Inl e
               | Inr _ \<Rightarrow> Inr ()))"

end
