(* ===== verification/Startup.thy ===== *)
theory Startup
  imports Config Settings Idp Proxy
begin

text \<open>
  \<^verbatim>\<open>pkg/mcp-proxy/deps.go\<close>, \<^verbatim>\<open>router.go\<close>, \<^verbatim>\<open>cookie.go\<close>, \<^verbatim>\<open>sweeper.go\<close> and
  \<^verbatim>\<open>pkg/utils/keys.go\<close>: what the gateway opens and builds before it serves, and the expiry
  sweep.  Parameters: HKDF, base64, bcrypt, and the results of opening the store and the upstream.
\<close>

section \<open>The session secret\<close>

definition SecretSize :: nat where "SecretSize = 32"

text \<open>The secret file (\<open>None\<close> when absent) and which system calls succeed.\<close>

record secret_env =
  se_file :: "string option"
  se_stat_ok :: bool
  se_entropy :: "string option" \<comment> \<open>32 bytes, or a failed read\<close>
  se_write_ok :: bool
  se_read_ok :: bool

definition LoadOrGenerateSecret :: "secret_env \<Rightarrow> string result \<times> secret_env" where
  "LoadOrGenerateSecret e =
     (if \<not> se_stat_ok e then (Inl (ErrMsg ''failed to stat secret file''), e)
      else (case se_file e of
          None \<Rightarrow>
            (case se_entropy e of
               None \<Rightarrow> (Inl (ErrMsg ''failed to generate secret''), e)
             | Some secret \<Rightarrow>
                 if \<not> se_write_ok e then (Inl (ErrMsg ''failed to save secret''), e)
                 else (Inr secret, e\<lparr>se_file := Some secret\<rparr>))
        | Some secret \<Rightarrow>
            if \<not> se_read_ok e then (Inl (ErrMsg ''failed to read secret file''), e) else (Inr secret, e)))"

definition SecretFromBase64 :: "(string \<Rightarrow> string option) \<Rightarrow> string \<Rightarrow> string result" where
  "SecretFromBase64 decode encoded =
     (case decode encoded of
        None \<Rightarrow> Inl (ErrMsg ''failed to decode base64 secret'')
      | Some secret \<Rightarrow>
          if length secret \<noteq> SecretSize then Inl (ErrMsg ''decoded secret must be exactly 32 bytes'')
          else Inr secret)"

definition loadSessionSecret ::
  "(string \<Rightarrow> string option) \<Rightarrow> environment \<Rightarrow> secret_env \<Rightarrow> string result \<times> secret_env" where
  "loadSessionSecret decode env e =
     (if env ''AUTH_HMAC_SECRET'' \<noteq> [] then
        (named ''failed to parse AUTH_HMAC_SECRET environment variable''
           (SecretFromBase64 decode (env ''AUTH_HMAC_SECRET'')), e)
      else (case LoadOrGenerateSecret e of
              (r, e') \<Rightarrow> (named ''failed to load or generate secret'' r, e')))"

text \<open>A secret that was stored is not checked for its length, unlike one from the environment.\<close>

lemma stored_secret_unchecked:
  "LoadOrGenerateSecret \<lparr>se_file = Some [], se_stat_ok = True, se_entropy = None, se_write_ok = True, se_read_ok = True\<rparr> =
     (Inr [], \<lparr>se_file = Some [], se_stat_ok = True, se_entropy = None, se_write_ok = True, se_read_ok = True\<rparr>)"
  by (simp add: LoadOrGenerateSecret_def)

section \<open>The session cookie\<close>

definition cookieKeyLen :: nat where "cookieKeyLen = 32"
definition cookieAuthInfo :: string where "cookieAuthInfo = ''mcp-oauth-gateway session cookie auth key v1''"
definition cookieEncInfo :: string where "cookieEncInfo = ''mcp-oauth-gateway session cookie encryption key v1''"

text \<open>\<open>hkdf secret info n\<close> is \<open>hkdf.Key\<close> with SHA-256 and no salt.\<close>

type_synonym hkdf = "string \<Rightarrow> string \<Rightarrow> nat \<Rightarrow> string option"

definition deriveCookieKeys :: "hkdf \<Rightarrow> string \<Rightarrow> (string \<times> string) result" where
  "deriveCookieKeys hkdf secret =
     (case hkdf secret cookieAuthInfo cookieKeyLen of
        None \<Rightarrow> Inl (ErrMsg ''derive cookie auth key'')
      | Some authKey \<Rightarrow>
          (case hkdf secret cookieEncInfo cookieKeyLen of
             None \<Rightarrow> Inl (ErrMsg ''derive cookie encryption key'')
           | Some encKey \<Rightarrow> Inr (authKey, encKey)))"

record cookie_store =
  ck_AuthKey :: string
  ck_EncKey :: string
  ck_Path :: string
  ck_MaxAge :: int
  ck_HttpOnly :: bool
  ck_Secure :: bool
  ck_SameSiteLax :: bool

definition newSessionStore :: "hkdf \<Rightarrow> resolvedConfig \<Rightarrow> string \<Rightarrow> cookie_store result" where
  "newSessionStore hkdf rc secret =
     (case deriveCookieKeys hkdf secret of
        Inl _ \<Rightarrow> Inl (ErrMsg ''failed to derive session cookie keys'')
      | Inr (authKey, encKey) \<Rightarrow>
          Inr \<lparr>ck_AuthKey = authKey, ck_EncKey = encKey, ck_Path = ''/'', ck_MaxAge = 600, ck_HttpOnly = True,
            ck_Secure = sessionCookieSecure (rc_issuerURL rc)
              (rc_manualTLS rc \<or> mc_TLSHost (rc_Config rc) \<noteq> []),
            ck_SameSiteLax = True\<rparr>)"

section \<open>Dependencies\<close>

text \<open>The operations of one \<open>repository.Repository\<close>.\<close>

record 's repo_ops =
  ro_sessions :: "'s SessionStorage"
  ro_requests :: "'s AuthorizeRequestStorage"
  ro_clients :: "'s DynamicClientStorage"
  ro_users :: "'s UserStorage"
  ro_inventory :: "'s InventoryStorage"
  ro_ListClientGrants :: "time \<Rightarrow> (ClientGrants list, 's) query"
  ro_maintenance :: "'s MaintenanceStorage"

text \<open>\<open>strings.SplitN (header, ":", 2)\<close> has two parts exactly when there is a colon.\<close>

fun buildProxyHeaders_from :: "string list \<Rightarrow> header \<Rightarrow> header result" where
  "buildProxyHeaders_from [] headers = Inr headers"
| "buildProxyHeaders_from (h # hs) headers =
     (case cut_char h (CHR '':'') of (n, v, found) \<Rightarrow>
        if \<not> found \<or> trim_space n = [] \<or> trim_space v = [] then Inl (ErrMsg ''invalid proxy header format'')
        else buildProxyHeaders_from hs (hdr_Add (trim_space n) (trim_space v) headers))"

definition buildProxyHeaders :: "resolvedConfig \<Rightarrow> header result" where
  "buildProxyHeaders rc =
     res_bind (buildProxyHeaders_from (mc_ProxyHeaders (rc_Config rc)) []) (\<lambda>headers.
       Inr (if mc_ProxyBearerToken (rc_Config rc) \<noteq> []
            then hdr_Set ''Authorization'' (''Bearer '' @ mc_ProxyBearerToken (rc_Config rc)) headers
            else headers))"

definition newCIMDResolver :: "resolvedConfig \<Rightarrow> Resolver option" where
  "newCIMDResolver rc =
     (if \<not> mc_CIMDEnabled (rc_Config rc) then None
      else Some (NewResolver \<lparr>cfg_FetchTimeout = mc_CIMDFetchTimeout (rc_Config rc),
        cfg_MaxSize = mc_CIMDMaxSize (rc_Config rc), cfg_CacheTTL = mc_CIMDCacheTTL (rc_Config rc),
        cfg_NegativeTTL = 0\<rparr>))"

text \<open>Which store \<open>openRepository\<close> opens, and the schema check on the opened one.\<close>

datatype store_choice = LocalStore | SqliteStore string

definition repository_choice :: "resolvedConfig \<Rightarrow> store_choice result" where
  "repository_choice rc =
     (let n = to_lower (mc_RepositoryBackend (rc_Config rc))
      in if n = [] \<or> n = ''local'' then Inr LocalStore
         else if n = ''sqlite'' then
           (if mc_RepositoryDSN (rc_Config rc) = [] then
              Inl (ErrMsg ''repository DSN must be provided for sqlite backend'')
            else Inr (SqliteStore (mc_RepositoryDSN (rc_Config rc))))
         else Inl (ErrMsg ''unsupported repository backend''))"

definition openRepository ::
  "(store_choice \<Rightarrow> ('s repo_ops \<times> 's) result) \<Rightarrow> resolvedConfig \<Rightarrow> ('s repo_ops \<times> 's) result" where
  "openRepository open_store rc =
     res_bind (repository_choice rc) (\<lambda>c.
     res_bind (named ''failed to create repository'' (open_store c)) (\<lambda>(R, s).
       (case ms_EnsureSchemaVersion (ro_maintenance R) SchemaVersion s of
          (Inl _, _) \<Rightarrow> Inl (ErrMsg ''schema version check failed'')
        | (Inr _, s') \<Rightarrow> Inr (R, s'))))"

definition retireWindow :: "resolvedConfig \<Rightarrow> duration" where
  "retireWindow rc = mc_AccessTokenTTL (rc_Config rc) + 2 * mc_ClockSkew (rc_Config rc)"

text \<open>\<open>env_key\<close> is \<open>JWT_PRIVATE_KEY\<close>, \<open>None\<close> when it is empty.\<close>

definition openKeyManager ::
  "'p key_lib \<Rightarrow> 'p option \<Rightarrow> resolvedConfig \<Rightarrow> time \<Rightarrow> (Manager, 'p keyenv) act" where
  "openKeyManager L env_key rc now e =
     (case ParseAlg (mc_KeyAlg (rc_Config rc)) of
        Inl x \<Rightarrow> (Inl x, e)
      | Inr keyAlg \<Rightarrow>
          (case env_key of
             Some pem \<Rightarrow>
               (res_bind (named ''failed to parse JWT_PRIVATE_KEY environment variable'' (ParsePrivateKeyPEM L pem))
                  (\<lambda>key. NewStaticManager L key keyAlg now), e)
           | None \<Rightarrow>
               (case NewManager L \<lparr>kc_Alg = keyAlg, kc_LegacyKeyPath = True,
                    kc_RotationInterval = mc_KeyRotationInterval (rc_Config rc), kc_RetireWindow = retireWindow rc\<rparr> now e of
                  (r, e') \<Rightarrow> (named ''failed to initialize signing keys'' r, e'))))"

section \<open>Commands\<close>

text \<open>The \<open>rotate-key\<close> command of \<^verbatim>\<open>rotatekey.go\<close>: the new and the previous key and the end of
  its window, as printed.  It reads the same settings as the gateway.\<close>

record rotateKeyOptions =
  rk_keyAlg :: string
  rk_accessTokenTTL :: duration
  rk_clockSkew :: duration

definition rotateKey ::
  "'p key_lib \<Rightarrow> 'p option \<Rightarrow> rotateKeyOptions \<Rightarrow> time \<Rightarrow> (SigningKey \<times> SigningKey \<times> time, 'p keyenv) act" where
  "rotateKey L env_key opts now e =
     (if env_key \<noteq> None then
        (Inl (ErrMsg ''key rotation is not available with an externally provided key (JWT_PRIVATE_KEY)''), e)
      else (case ParseAlg (rk_keyAlg opts) of
          Inl x \<Rightarrow> (Inl x, e)
        | Inr alg \<Rightarrow>
            if rk_accessTokenTTL opts < minute \<or> rk_accessTokenTTL opts > 24 * hour then
              (Inl (ErrMsg ''access token TTL must be between 1m and 24h''), e)
            else if rk_clockSkew opts < 0 \<or> rk_clockSkew opts > 5 * minute then
              (Inl (ErrMsg ''clock skew must be between 0 and 5m''), e)
            else
              (let window = rk_accessTokenTTL opts + 2 * rk_clockSkew opts
               in case NewManager L \<lparr>kc_Alg = alg, kc_LegacyKeyPath = True, kc_RotationInterval = 0,
                    kc_RetireWindow = window\<rparr> now e of
                  (Inl x, e1) \<Rightarrow> (Inl x, e1)
                | (Inr m, e1) \<Rightarrow>
                    (case Rotate L now m e1 of
                       (Inl x, _, e2) \<Rightarrow> (Inl x, e2)
                     | (Inr _, m', e2) \<Rightarrow> (Inr (m_active m', m_active m, now + window), e2)))))"

text \<open>\<open>healthURL\<close> of \<^verbatim>\<open>healthcheck.go\<close>; \<open>net.JoinHostPort\<close> brackets a host with a colon.\<close>

definition healthURL :: "net_lib \<Rightarrow> string \<Rightarrow> string result" where
  "healthURL N listen =
     (case nl_SplitHostPort N listen of
        None \<Rightarrow> Inl (ErrMsg ''invalid listen address'')
      | Some (h, port) \<Rightarrow>
          (let host = (if h = [] \<or> h = ''0.0.0.0'' \<or> h = ''::'' then ''127.0.0.1'' else h)
           in Inr (''http://'' @ (if CHR '':'' \<in> set host then ''['' @ host @ '']'' else host) @ '':'' @ port @ ''/healthz'')))"

section \<open>Opening everything\<close>

text \<open>The order of the side effects: the result, and whether an opened store is left open.\<close>

definition openDependencies ::
  "unit result \<Rightarrow> string result \<Rightarrow> unit result \<Rightarrow> header result \<Rightarrow> ('s repo_ops \<times> 's) result \<Rightarrow> Manager result \<Rightarrow>
     (string \<times> header \<times> 's repo_ops \<times> 's \<times> Manager) result \<times> bool" where
  "openDependencies mkdir secret upstream headers opened key_manager =
     (case res_bind mkdir (\<lambda>_. res_bind secret (\<lambda>sec. res_bind upstream (\<lambda>_. res_bind headers (\<lambda>hs. Inr (sec, hs))))) of
        Inl e \<Rightarrow> (Inl e, False)
      | Inr (sec, hs) \<Rightarrow>
          (case opened of
             Inl e \<Rightarrow> (Inl e, False)
           | Inr (R, s) \<Rightarrow>
               (case key_manager of
                  Inl e \<Rightarrow> (Inl e, False)
                | Inr m \<Rightarrow> (Inr (sec, hs, R, s, m), True))))"

section \<open>The sweeper\<close>

record 'l limiters =
  li_register :: "'l Limiter option"
  li_token :: "'l Limiter option"
  li_login :: "'l Limiter option"
  li_authorize :: "'l Limiter option"
  li_lockout :: "Lockout option"

definition newLimiters :: "mcp_Config \<Rightarrow> 'l limiters" where
  "newLimiters cfg =
     \<lparr>li_register = NewLimiter (parseLimit (mc_RateLimitRegister cfg)),
      li_token = NewLimiter (parseLimit (mc_RateLimitToken cfg)),
      li_login = NewLimiter (parseLimit (mc_RateLimitLogin cfg)),
      li_authorize = NewLimiter (parseLimit (mc_RateLimitAuthorize cfg)),
      li_lockout = NewLockout (mc_LoginLockoutThreshold cfg) (mc_LoginLockoutDuration cfg)\<rparr>"

record ('s, 'l, 'p) sweep_state =
  sw_store :: 's
  sw_keys :: Manager
  sw_env :: "'p keyenv"
  sw_limiters :: "'l limiters"

text \<open>Every call runs, whatever the ones before it returned.\<close>

definition sweep ::
  "'s MaintenanceStorage \<Rightarrow> 'p key_lib \<Rightarrow> resolvedConfig \<Rightarrow> time \<Rightarrow> ('s, 'l, 'p) sweep_state \<Rightarrow> ('s, 'l, 'p) sweep_state" where
  "sweep M L rc now d =
     (let margin = mc_ClockSkew (rc_Config rc);
          s1 = snd (ms_DeleteExpiredSessions M (now - mc_AccessTokenTTL (rc_Config rc) - margin)
                 (now - refreshSweepTTL rc - margin) (now - mc_AuthCodeTTL (rc_Config rc) - margin) (sw_store d));
          s2 = snd (ms_DeleteExpiredClients M now s1)
      in case Maintain L now (sw_keys d) (sw_env d) of
           (_, m, e) \<Rightarrow>
             d\<lparr>sw_store := s2, sw_keys := m, sw_env := e,
               sw_limiters := \<lparr>li_register = Limiter_Sweep now (li_register (sw_limiters d)),
                 li_token = Limiter_Sweep now (li_token (sw_limiters d)),
                 li_login = Limiter_Sweep now (li_login (sw_limiters d)),
                 li_authorize = Limiter_Sweep now (li_authorize (sw_limiters d)),
                 li_lockout = Lockout_Sweep now (li_lockout (sw_limiters d))\<rparr>\<rparr>)"

section \<open>The routers\<close>

definition buildOIDCProviders :: "oidc_lib \<Rightarrow> resolvedConfig \<Rightarrow> Provider list result" where
  "buildOIDCProviders OL rc =
     (let cfg = rc_Config rc
      in if mc_OIDCConfigurationURL cfg = [] \<or> mc_OIDCClientID cfg = [] \<or> mc_OIDCClientSecret cfg = [] then Inr []
         else (case NewOIDCProvider OL
             \<lparr>os_configurationURL = mc_OIDCConfigurationURL cfg, os_userIDField = mc_OIDCUserIDField cfg,
              os_providerName = mc_OIDCProviderName cfg, os_externalURL = rc_issuer rc,
              os_allowedUsers = mc_OIDCAllowedUsers cfg, os_allowedUsersGlob = mc_OIDCAllowedUsersGlob cfg,
              os_allowedAttributes = mc_OIDCAllowedAttributes cfg,
              os_allowedAttributesGlob = mc_OIDCAllowedAttributesGlob cfg\<rparr> of
             Inl _ \<Rightarrow> Inl (ErrMsg ''failed to create OIDC provider'')
           | Inr p \<Rightarrow> Inr [provider_of OL p]))"

text \<open>\<open>bcrypt.GenerateFromPassword\<close> is a parameter; it refuses passwords of more than 72 bytes.\<close>

definition buildPasswordHashes :: "(string \<Rightarrow> string option) \<Rightarrow> resolvedConfig \<Rightarrow> string list result" where
  "buildPasswordHashes bcrypt rc =
     res_bind (if mc_Password (rc_Config rc) \<noteq> [] then
                 (case bcrypt (mc_Password (rc_Config rc)) of
                    None \<Rightarrow> Inl (ErrMsg ''failed to generate password hash'') | Some h \<Rightarrow> Inr [h])
               else Inr [])
       (\<lambda>hashes. Inr (if mc_PasswordHash (rc_Config rc) \<noteq> [] then hashes @ [mc_PasswordHash (rc_Config rc)] else hashes))"

record 's dependencies =
  dp_secret :: string
  dp_repo :: "'s repo_ops"
  dp_keys :: Manager
  dp_proxyHeaders :: header
  dp_loginLimit :: "'s handler option"
  dp_tokenLimit :: "'s handler option"
  dp_registerLimit :: "'s handler option"
  dp_authorizeLimit :: "'s handler option"
  dp_version :: string

definition newAuthRouter ::
  "auth_env \<Rightarrow> oidc_lib \<Rightarrow> (string \<Rightarrow> string option) \<Rightarrow> resolvedConfig \<Rightarrow> 's dependencies \<Rightarrow> 's \<Rightarrow> 's AuthRouter result" where
  "newAuthRouter E OL bcrypt rc deps s =
     res_bind (buildOIDCProviders OL rc) (\<lambda>providers.
     res_bind (buildPasswordHashes bcrypt rc) (\<lambda>passwordHashes.
       if length passwordHashes = 0 \<and> length providers = 0 \<and> \<not> hasEnrolledPasskey (ro_users (dp_repo deps)) s then
         Inl (ErrMsg ''no authentication backend configured'')
       else NewAuthRouter E
         \<lparr>uc_PasswordHashes = passwordHashes, uc_NoProviderAutoSelect = mc_NoProviderAutoSelect (rc_Config rc),
          uc_UserInfoFields = userInfoFieldsFromConfig (mc_OIDCUserIDField (rc_Config rc)) (mc_HeaderMapping (rc_Config rc)),
          uc_Providers = providers, uc_Users = Some (ro_users (dp_repo deps)),
          uc_Clients = Some (ro_inventory (dp_repo deps), ro_ListClientGrants (dp_repo deps)),
          uc_ExternalURL = rc_issuer rc, uc_LoginRateLimit = dp_loginLimit deps, uc_Version = dp_version deps\<rparr>))"

definition newIDPConfig :: "resolvedConfig \<Rightarrow> 's dependencies \<Rightarrow> 's idp_Config" where
  "newIDPConfig rc deps =
     \<lparr>ic_Repo_ar = ro_requests (dp_repo deps), ic_Repo_clients = ro_clients (dp_repo deps), ic_Keys = dp_keys deps,
      ic_ExternalURL = rc_issuer rc, ic_Secret = dp_secret deps,
      ic_OIDCDiscoveryMirror = mc_OIDCDiscoveryMirror (rc_Config rc),
      ic_AccessTokenTTL = mc_AccessTokenTTL (rc_Config rc), ic_AuthCodeTTL = mc_AuthCodeTTL (rc_Config rc),
      ic_RefreshTokenTTL = mc_RefreshTokenTTL (rc_Config rc), ic_CIMDResolver = (newCIMDResolver rc \<noteq> None),
      ic_DCREnabled = mc_DCREnabled (rc_Config rc), ic_DCRClientTTL = mc_DCRClientTTL (rc_Config rc),
      ic_DCRMaxClients = mc_DCRMaxClients (rc_Config rc), ic_TokenRateLimit = dp_tokenLimit deps,
      ic_RegisterRateLimit = dp_registerLimit deps, ic_AuthorizeRateLimit = dp_authorizeLimit deps\<rparr>"

definition newProxySurface ::
  "jwt_parser \<Rightarrow> (json \<Rightarrow> string \<Rightarrow> json option) \<Rightarrow> resolvedConfig \<Rightarrow> 's dependencies \<Rightarrow> 's proxy_Config result" where
  "newProxySurface parse pointer rc deps =
     NewProxyRouter
       \<lparr>pc_ExternalURL = rc_issuer rc, pc_VerificationKey = Some (VerificationKey (dp_keys deps)),
        pc_ProxyHeaders = dp_proxyHeaders deps, pc_HTTPStreamingOnly = mc_HTTPStreamingOnly (rc_Config rc),
        pc_ForwardAuthorizationHeader = mc_ForwardAuthorizationHeader (rc_Config rc),
        pc_HeaderMapping = mc_HeaderMapping (rc_Config rc), pc_HeaderMappingBase = mc_HeaderMappingBase (rc_Config rc),
        pc_ClockSkew = mc_ClockSkew (rc_Config rc),
        pc_TokenActive = Some (tokenActiveChecker (ro_sessions (dp_repo deps))), pc_Parse = parse, pc_Pointer = pointer\<rparr>"

end
