(* ===== verification/Gateway.thy ===== *)
theory Gateway
  imports Startup
begin

text \<open>
  \<^verbatim>\<open>pkg/mcp-proxy/origin.go\<close> and \<open>buildRouter\<close> of \<^verbatim>\<open>router.go\<close>: the assembled gateway and how it
  answers a request.  gin's matching of a path against a pattern is a parameter (\<open>mtch\<close>: the value
  of the route parameter, empty for a literal pattern); a request without a route runs through the
  middleware registered last, the proxy.
\<close>

section \<open>The origin check\<close>

definition default_port :: "string \<Rightarrow> string \<Rightarrow> bool" where
  "default_port scheme port \<longleftrightarrow> scheme = ''https'' \<and> port = ''443'' \<or> scheme = ''http'' \<and> port = ''80''"

definition host_port :: "string \<Rightarrow> string \<Rightarrow> string" where
  "host_port host port =
     (let host = (if CHR '':'' \<in> set host then ''['' @ host @ '']'' else host)
      in if port \<noteq> [] then host @ '':'' @ port else host)"

definition normalizeOrigin :: "url_parser \<Rightarrow> string \<Rightarrow> string" where
  "normalizeOrigin P raw =
     (if raw = [] \<or> raw = ''null'' then []
      else (case P raw of
          None \<Rightarrow> []
        | Some u \<Rightarrow>
            if u_Host u = [] then []
            else (let scheme = to_lower (u_Scheme u)
              in if scheme \<noteq> ''http'' \<and> scheme \<noteq> ''https'' then []
                 else (let host = to_lower (Hostname u)
                   in if host = [] then []
                      else scheme @ ''://'' @ host_port host (if default_port scheme (Port u) then [] else Port u)))))"

definition requireSameOrigin :: "url_parser \<Rightarrow> string \<Rightarrow> 's handler" where
  "requireSameOrigin P expected req w =
     (let origin = GetHeader req ''Origin''
      in if origin = [] then (None, w)
         else (let got = normalizeOrigin P origin
           in if got \<noteq> [] \<and> got = expected then (None, w)
              else (Some (Json 403 [(''error'', ''forbidden'')]), w)))"

section \<open>The assembled gateway\<close>

record 's gateway =
  gw_origin :: "string option" \<comment> \<open>the expected origin, when the check is on\<close>
  gw_cookies :: cookie_store
  gw_routes :: "(nat \<Rightarrow> time) \<Rightarrow> 's route list"
  gw_proxy :: "'s proxy_Config"

text \<open>The parameters of the build that stand for libraries.\<close>

record 's build_env =
  be_P :: url_parser
  be_auth :: auth_env
  be_idp :: idp_env
  be_oidc :: oidc_lib
  be_bcrypt :: "string \<Rightarrow> string option"
  be_hkdf :: hkdf
  be_compose :: "fosite_config \<Rightarrow> 's clientSource \<Rightarrow> factory list \<Rightarrow> 's OAuth2Provider"
  be_net :: net_env
  be_order :: "(string \<times> cacheEntry) list \<Rightarrow> (string \<times> cacheEntry) list"
  be_parse :: jwt_parser
  be_pointer :: "json \<Rightarrow> string \<Rightarrow> json option"
  be_trust :: "string list \<Rightarrow> unit result" \<comment> \<open>\<open>gin.SetTrustedProxies\<close>\<close>

definition buildRouter :: "'s build_env \<Rightarrow> resolvedConfig \<Rightarrow> 's dependencies \<Rightarrow> 's \<Rightarrow> 's gateway result" where
  "buildRouter V rc deps s =
     res_bind (newAuthRouter (be_auth V) (be_oidc V) (be_bcrypt V) rc deps s) (\<lambda>authRouter.
       (let idpRouter = NewIDPRouter (be_compose V) (be_net V) (be_order V) (newIDPConfig rc deps)
        in res_bind (newProxySurface (be_parse V) (be_pointer V) rc deps) (\<lambda>proxyRouter.
           res_bind (be_trust V (rc_trustedProxies rc)) (\<lambda>_.
           res_bind (newSessionStore (be_hkdf V) rc (dp_secret deps)) (\<lambda>store.
             Inr \<lparr>gw_origin = (if mc_OriginCheckEnabled (rc_Config rc)
                    then Some (normalizeOrigin (be_P V) (rc_issuer rc)) else None),
                  gw_cookies = store,
                  gw_routes = (\<lambda>clk. auth_SetupRoutes (be_auth V) authRouter clk @
                    idp_SetupRoutes (be_idp V) idpRouter clk),
                  gw_proxy = proxyRouter\<rparr>)))))"

datatype gw_answer =
    Healthy
  | Handled reply
  | Resource protectedResourceResponse
  | Proxied proxy_outcome

fun find_route ::
  "(string \<Rightarrow> string \<Rightarrow> string option) \<Rightarrow> string \<Rightarrow> string \<Rightarrow> 's route list \<Rightarrow> ((string \<Rightarrow> 's handler list) \<times> string) option" where
  "find_route mtch meth path [] = None"
| "find_route mtch meth path ((m, pattern, chain) # rs) =
     (case mtch pattern path of
        Some param \<Rightarrow> if m = meth then Some (chain, param) else find_route mtch meth path rs
      | None \<Rightarrow> find_route mtch meth path rs)"

definition with_session :: "'s world \<Rightarrow> 's world" where
  "with_session w = w\<lparr>sess := cookie w\<rparr>"

text \<open>The routes, behind the session middleware.\<close>

definition serve_routes ::
  "(string \<Rightarrow> string \<Rightarrow> string option) \<Rightarrow> 's gateway \<Rightarrow> (nat \<Rightarrow> time) \<Rightarrow>
     ((string \<times> string) list \<Rightarrow> (string \<times> string) list) \<Rightarrow> HttpRequest \<Rightarrow> 's world \<Rightarrow> gw_answer \<times> 's world" where
  "serve_routes mtch G clk order req w =
     (case find_route mtch (in_Method req) (in_Path req) (gw_routes G clk) of
        Some (chain, param) \<Rightarrow>
          (case serve chain param req w of
             (Some r, w1) \<Rightarrow> (Handled r, w1)
           | (None, w1) \<Rightarrow> (Handled (Body 200 EmptyBody), w1))
      | None \<Rightarrow>
          if in_Method req = ''GET'' \<and> in_Path req = OauthProtectedResourceEndpoint
          then (Resource (handleProtectedResource (gw_proxy G)), w)
          else (Proxied (handleProxy (gw_proxy G) order (clk 0) req (repo w)), w))"

definition serve_gateway ::
  "url_parser \<Rightarrow> (string \<Rightarrow> string \<Rightarrow> string option) \<Rightarrow> 's gateway \<Rightarrow> (nat \<Rightarrow> time) \<Rightarrow>
     ((string \<times> string) list \<Rightarrow> (string \<times> string) list) \<Rightarrow> HttpRequest \<Rightarrow> 's world \<Rightarrow> gw_answer \<times> 's world" where
  "serve_gateway P mtch G clk order req w =
     (if in_Method req = ''GET'' \<and> in_Path req = ''/healthz'' then (Healthy, w)
      else (case (case gw_origin G of None \<Rightarrow> (None, w) | Some expected \<Rightarrow> requireSameOrigin P expected req w) of
              (Some r, w1) \<Rightarrow> (Handled r, w1)
            | (None, w1) \<Rightarrow> serve_routes mtch G clk order req (with_session w1)))"

section \<open>Origins\<close>

text \<open>The specification: scheme, host and effective port, as a browser compares origins.\<close>

definition origin_key :: "url \<Rightarrow> string \<times> string \<times> string" where
  "origin_key u =
     (to_lower (u_Scheme u), to_lower (Hostname u),
      if Port u \<noteq> [] then Port u else if to_lower (u_Scheme u) = ''https'' then ''443'' else ''80'')"

definition usable_origin :: "url_parser \<Rightarrow> string \<Rightarrow> url \<Rightarrow> bool" where
  "usable_origin P raw u \<longleftrightarrow>
     raw \<noteq> [] \<and> raw \<noteq> ''null'' \<and> P raw = Some u \<and> u_Host u \<noteq> [] \<and>
     to_lower (u_Scheme u) \<in> {''http'', ''https''} \<and> to_lower (Hostname u) \<noteq> []"

definition same_origin :: "url_parser \<Rightarrow> string \<Rightarrow> string \<Rightarrow> bool" where
  "same_origin P raw raw' \<longleftrightarrow>
     (\<exists>u v. usable_origin P raw u \<and> usable_origin P raw' v \<and> origin_key u = origin_key v)"

lemma colon_digit: "is_digit c \<Longrightarrow> c \<noteq> CHR '':''" "is_digit c \<Longrightarrow> c \<noteq> CHR '']''"
  by (auto simp: is_digit_def)

lemma append_colon_inject:
  assumes "CHR '':'' \<notin> set p" and "CHR '':'' \<notin> set q" and "a @ CHR '':'' # p = b @ CHR '':'' # q"
  shows "a = b \<and> p = q"
proof -
  have "p = q"
  proof -
    have rev: "rev p @ CHR '':'' # rev a = rev q @ CHR '':'' # rev b"
      using arg_cong [OF assms(3), of rev] by simp
    have "takeWhile (\<lambda>c. c \<noteq> CHR '':'') (rev p @ CHR '':'' # rev a) = rev p"
      "takeWhile (\<lambda>c. c \<noteq> CHR '':'') (rev q @ CHR '':'' # rev b) = rev q"
      using assms(1,2) by (auto simp: takeWhile_tail)
    with rev have "rev p = rev q" by simp
    then show ?thesis by simp
  qed
  with assms(3) show ?thesis by simp
qed

lemma host_port_inject:
  assumes "list_all is_digit p" and "list_all is_digit q" and "host_port h p = host_port g q"
  shows "h = g \<and> p = q"
proof -
  have np: "CHR '':'' \<notin> set p" "CHR '':'' \<notin> set q"
    using assms(1,2) colon_digit(1) by (auto simp: list_all_iff)
  have lst: "\<not> (x @ '']'' = y @ CHR '':'' # r)" if "list_all is_digit r" "r \<noteq> []" for x y r :: string
  proof
    assume "x @ '']'' = y @ CHR '':'' # r"
    then have "last (y @ CHR '':'' # r) = CHR '']''" by (metis last_snoc)
    then have "last r = CHR '']''" using that(2) by simp
    moreover have "is_digit (last r)" using that by (simp add: list_all_iff)
    ultimately show False using colon_digit(2) by blast
  qed
  consider "p = []" "q = []" | "p = []" "q \<noteq> []" | "p \<noteq> []" "q = []" | "p \<noteq> []" "q \<noteq> []" by blast
  then show ?thesis
  proof cases
    case 1
    then show ?thesis using assms(3) by (auto simp: host_port_def split: if_splits)
  next
    case 2
    have hp: "host_port g q = (if CHR '':'' \<in> set g then ''['' @ g @ '']'' else g) @ CHR '':'' # q"
      using 2 by (simp add: host_port_def)
    show ?thesis
    proof (cases "CHR '':'' \<in> set h")
      case True
      then have "(''['' @ h) @ '']'' = (if CHR '':'' \<in> set g then ''['' @ g @ '']'' else g) @ CHR '':'' # q"
        using 2 assms(3) hp by (simp add: host_port_def)
      then show ?thesis using lst [OF assms(2) 2(2)] by blast
    next
      case False
      then have "h = (if CHR '':'' \<in> set g then ''['' @ g @ '']'' else g) @ CHR '':'' # q"
        using 2 assms(3) hp by (simp add: host_port_def)
      then have "CHR '':'' \<in> set h" by simp
      with False show ?thesis by blast
    qed
  next
    case 3
    have hp: "host_port h p = (if CHR '':'' \<in> set h then ''['' @ h @ '']'' else h) @ CHR '':'' # p"
      using 3 by (simp add: host_port_def)
    show ?thesis
    proof (cases "CHR '':'' \<in> set g")
      case True
      then have "(''['' @ g) @ '']'' = (if CHR '':'' \<in> set h then ''['' @ h @ '']'' else h) @ CHR '':'' # p"
        using 3 assms(3) hp by (simp add: host_port_def)
      then show ?thesis using lst [OF assms(1) 3(1)] by blast
    next
      case False
      then have "g = (if CHR '':'' \<in> set h then ''['' @ h @ '']'' else h) @ CHR '':'' # p"
        using 3 assms(3) hp by (simp add: host_port_def)
      then have "CHR '':'' \<in> set g" by simp
      with False show ?thesis by blast
    qed
  next
    case 4
    let ?b = "\<lambda>h. if CHR '':'' \<in> set h then ''['' @ h @ '']'' else h"
    have "?b h @ CHR '':'' # p = ?b g @ CHR '':'' # q" using 4 assms(3) by (simp add: host_port_def)
    from append_colon_inject [OF np this] have eq: "?b h = ?b g" and pq: "p = q" by blast+
    have "h = g"
    proof (cases "CHR '':'' \<in> set h")
      case True
      with eq show ?thesis by (cases "CHR '':'' \<in> set g") auto
    next
      case False
      with eq show ?thesis by (cases "CHR '':'' \<in> set g") auto
    qed
    with pq show ?thesis by blast
  qed
qed

lemma host_port_iff:
  "list_all is_digit p \<Longrightarrow> list_all is_digit q \<Longrightarrow> host_port h p = host_port g q \<longleftrightarrow> h = g \<and> p = q"
  using host_port_inject by blast

lemma Port_digits: "list_all is_digit (Port u)"
proof (cases "last_index (u_Host u) (CHR '':'')")
  case None
  then show ?thesis by (simp add: Port_def splitHostPort_def)
next
  case (Some i)
  show ?thesis
  proof (cases "validOptionalPort (drop i (u_Host u))")
    case True
    then have "list_all is_digit (drop (Suc i) (u_Host u))"
      by (cases "drop i (u_Host u)") (simp_all add: validOptionalPort_def drop_Suc tl_drop [symmetric])
    then show ?thesis using Some True by (simp add: Port_def splitHostPort_def)
  qed (use Some in \<open>simp add: Port_def splitHostPort_def\<close>)
qed

lemma normalizeOrigin_usable:
  "normalizeOrigin P raw \<noteq> [] \<longleftrightarrow> (\<exists>u. usable_origin P raw u)"
  by (auto simp: normalizeOrigin_def usable_origin_def Let_def split: option.splits)

lemma normalizeOrigin_eq:
  "usable_origin P raw u \<Longrightarrow> normalizeOrigin P raw =
     to_lower (u_Scheme u) @ ''://'' @ host_port (to_lower (Hostname u))
       (if default_port (to_lower (u_Scheme u)) (Port u) then [] else Port u)"
  by (auto simp: normalizeOrigin_def usable_origin_def Let_def)

lemma scheme_inject:
  "s \<in> {''http'', ''https''} \<Longrightarrow> t \<in> {''http'', ''https''} \<Longrightarrow>
     s @ ''://'' @ x = t @ ''://'' @ y \<longleftrightarrow> s = t \<and> x = y"
  by (elim insertE emptyE) simp_all

lemma default_inject:
  "d \<noteq> [] \<Longrightarrow> (if p = d then [] else p) = (if q = d then [] else q) \<longleftrightarrow>
     (if p \<noteq> [] then p else d) = (if q \<noteq> [] then q else d)"
  by auto

lemma default_port_eq:
  "s \<in> {''http'', ''https''} \<Longrightarrow> default_port s p \<longleftrightarrow> p = (if s = ''https'' then ''443'' else ''80'')"
  by (elim insertE emptyE) (simp_all add: default_port_def)

lemma port_key:
  assumes "s \<in> {''http'', ''https''}"
  shows "(if default_port s p then [] else p) = (if default_port s q then [] else q) \<longleftrightarrow>
    (if p \<noteq> [] then p else if s = ''https'' then ''443'' else ''80'') =
    (if q \<noteq> [] then q else if s = ''https'' then ''443'' else ''80'')"
  unfolding default_port_eq [OF assms] by (rule default_inject) simp

lemma normalizeOrigin_key:
  assumes "usable_origin P raw u" and "usable_origin P raw' v"
  shows "normalizeOrigin P raw = normalizeOrigin P raw' \<longleftrightarrow> origin_key u = origin_key v"
proof -
  let ?p = "\<lambda>u. if default_port (to_lower (u_Scheme u)) (Port u) then [] else Port u"
  have scheme: "to_lower (u_Scheme u) \<in> {''http'', ''https''}" "to_lower (u_Scheme v) \<in> {''http'', ''https''}"
    using assms by (auto simp: usable_origin_def)
  have digits: "list_all is_digit (?p u)" "list_all is_digit (?p v)" using Port_digits by simp_all
  have "normalizeOrigin P raw = normalizeOrigin P raw' \<longleftrightarrow>
      to_lower (u_Scheme u) = to_lower (u_Scheme v) \<and>
      host_port (to_lower (Hostname u)) (?p u) = host_port (to_lower (Hostname v)) (?p v)"
    unfolding normalizeOrigin_eq [OF assms(1)] normalizeOrigin_eq [OF assms(2)] by (rule scheme_inject [OF scheme])
  also have "\<dots> \<longleftrightarrow> to_lower (u_Scheme u) = to_lower (u_Scheme v) \<and>
      to_lower (Hostname u) = to_lower (Hostname v) \<and> ?p u = ?p v"
    unfolding host_port_iff [OF digits] by (rule refl)
  also have "\<dots> \<longleftrightarrow> origin_key u = origin_key v"
  proof (cases "to_lower (u_Scheme u) = to_lower (u_Scheme v)")
    case True
    show ?thesis unfolding origin_key_def prod.inject True port_key [OF scheme(2)] by (rule refl)
  next
    case False
    then show ?thesis unfolding origin_key_def prod.inject by blast
  qed
  finally show ?thesis .
qed

lemma requireSameOrigin_exact:
  "requireSameOrigin P (normalizeOrigin P issuer) req w =
     (if GetHeader req ''Origin'' = [] \<or> same_origin P (GetHeader req ''Origin'') issuer then (None, w)
      else (Some (Json 403 [(''error'', ''forbidden'')]), w))"
proof -
  have "normalizeOrigin P o1 \<noteq> [] \<and> normalizeOrigin P o1 = normalizeOrigin P issuer \<longleftrightarrow> same_origin P o1 issuer" for o1
  proof
    assume a: "normalizeOrigin P o1 \<noteq> [] \<and> normalizeOrigin P o1 = normalizeOrigin P issuer"
    then obtain u v where "usable_origin P o1 u" "usable_origin P issuer v"
      using normalizeOrigin_usable by metis
    with a normalizeOrigin_key show "same_origin P o1 issuer" unfolding same_origin_def by blast
  next
    assume "same_origin P o1 issuer"
    then show "normalizeOrigin P o1 \<noteq> [] \<and> normalizeOrigin P o1 = normalizeOrigin P issuer"
      unfolding same_origin_def using normalizeOrigin_usable normalizeOrigin_key by metis
  qed
  then show ?thesis by (auto simp: requireSameOrigin_def Let_def)
qed

end
