(* ===== verification/LoginProps.thy ===== *)
theory LoginProps
  imports Settings
begin

text \<open>
  Who gets an authorized session.  Each property is an equivalence about the cookie the browser
  leaves with: authorized afterwards exactly if it was before or the login of this request was
  accepted, with what acceptance means spelled out.
\<close>

section \<open>Saving\<close>

definition save_ok :: "'a web_scheme \<Rightarrow> bool" where
  "save_ok w \<longleftrightarrow> take 1 (save_faults w) \<noteq> [True]"

lemma sess_save_eq:
  "sess_save w = (save_ok w, if save_ok w then w\<lparr>cookie := sess w, save_faults := tl (save_faults w)\<rparr>
     else w\<lparr>save_faults := tl (save_faults w)\<rparr>)"
  by (auto simp: sess_save_def save_ok_def split: list.splits bool.splits)

lemma save_ok_sess [simp]: "save_ok (w\<lparr>sess := x\<rparr>) = save_ok w"
  by (simp add: save_ok_def)

definition cookie_authorized :: "'a web_scheme \<Rightarrow> bool" where
  "cookie_authorized w \<longleftrightarrow> cookie w SessionKeyAuthorized = Some (SBool True)"

lemma session_keys_ne [simp]:
  "SessionKeyRedirectURL \<noteq> SessionKeyAuthorized" "SessionKeyRedirectURL \<noteq> SessionKeyUserID"
  "SessionKeyAuthorized \<noteq> SessionKeyUserID" "SessionKeyCSRF \<noteq> SessionKeyAuthorized"
  "SessionKeyUserInfo \<noteq> SessionKeyAuthorized" "SessionKeyUserInfo \<noteq> SessionKeyUserID"
  "SessionKeyUserID \<noteq> SessionKeyAuthorized" "SessionKeyUserID \<noteq> SessionKeyRedirectURL"
  "SessionKeyAuthorized \<noteq> SessionKeyRedirectURL" "SessionKeyAuthorized \<noteq> SessionKeyCSRF"
  "SessionKeyAuthorized \<noteq> SessionKeyUserInfo" "SessionKeyRedirectURL \<noteq> SessionKeyUserInfo"
  "SessionKeyUserInfo \<noteq> SessionKeyRedirectURL" "sessionKeyWebAuthnLogin \<noteq> SessionKeyAuthorized"
  "SessionKeyAuthorized \<noteq> sessionKeyWebAuthnLogin" "sessionKeyWebAuthnLogin \<noteq> SessionKeyRedirectURL"
  "SessionKeyRedirectURL \<noteq> sessionKeyWebAuthnLogin" "SessionKeyUserID \<noteq> sessionKeyWebAuthnLogin"
  "sessionKeyWebAuthnLogin \<noteq> SessionKeyUserID" "SessionKeyUserID \<noteq> SessionKeyUserInfo"
  by (simp_all add: session_key_defs)

section \<open>The redirect after a login\<close>

text \<open>A path of this origin: one slash, and no second one that a browser reads as a host.\<close>

definition local_path :: "string \<Rightarrow> bool" where
  "local_path t \<longleftrightarrow> (\<exists>r. t = CHR 0x2F # r \<and> (r = [] \<or> (hd r \<noteq> CHR 0x2F \<and> hd r \<noteq> CHR 0x5C)))"

lemma local_path_safe: "local_path (safeRedirectTarget t)"
proof (cases t)
  case (Cons c r)
  then show ?thesis
    by (cases r) (auto simp: safeRedirectTarget_def local_path_def)
qed (simp add: safeRedirectTarget_def local_path_def)

lemma safe_local_path: "local_path t \<Longrightarrow> safeRedirectTarget t = t"
proof -
  assume "local_path t"
  then obtain r where t: "t = CHR 0x2F # r" and r: "r = [] \<or> (hd r \<noteq> CHR 0x2F \<and> hd r \<noteq> CHR 0x5C)"
    by (auto simp: local_path_def)
  then show ?thesis by (cases r) (auto simp: safeRedirectTarget_def)
qed

lemma takeRedirectTarget_spec:
  assumes "takeRedirectTarget w = (t, w')"
  shows "local_path t"
    and "\<And>k. k \<noteq> SessionKeyRedirectURL \<Longrightarrow> sess w' k = sess w k" and "cookie w' = cookie w"
    and "save_faults w' = save_faults w" and "auth_log w' = auth_log w"
    and "sess w SessionKeyRedirectURL = Some (SStr u) \<Longrightarrow> u \<noteq> [] \<Longrightarrow>
           t = safeRedirectTarget u \<and> sess w' SessionKeyRedirectURL = None"
  using assms local_path_safe [of "case sess w SessionKeyRedirectURL of Some (SStr s) \<Rightarrow> s | _ \<Rightarrow> []"]
  by (auto simp: takeRedirectTarget_def sess_string_def sess_delete_def local_path_def
      split: option.splits if_splits sval.splits)

lemma takeRedirectTarget_repo:
  "takeRedirectTarget w = (t, w') \<Longrightarrow> repo w' = repo w \<and> lockout w' = lockout w" for w :: "'s world"
  by (auto simp: takeRedirectTarget_def sess_delete_def split: option.splits if_splits)

section \<open>The end of a login\<close>

lemma login_complete_spec:
  assumes "login_complete req subject w = (r, w')"
  shows "(\<exists>t. r = Redirect 302 t \<and> local_path t) \<longleftrightarrow> save_ok w"
    and "\<not> save_ok w \<Longrightarrow> r = renderError ErrCommit \<and> cookie w' = cookie w"
    and "save_ok w \<Longrightarrow> cookie_authorized w' \<and> cookie w' SessionKeyUserID = Some (SStr subject)"
    and "repo w' = repo w" and "lockout w' = Reset lockoutKey (lockout w)"
    and "sess w SessionKeyRedirectURL = Some (SStr u) \<Longrightarrow> u \<noteq> [] \<Longrightarrow> save_ok w \<Longrightarrow>
           r = Redirect 302 (safeRedirectTarget u) \<and> cookie w' SessionKeyRedirectURL = None"
proof -
  define w3 where "w3 = sess_set SessionKeyUserID (SStr subject) (sess_set SessionKeyAuthorized (SBool True)
    (authevent_Log LoginOK [(''method'', FStr ''password''), (''client_ip'', FStr (in_ClientIP req))]
      (w\<lparr>lockout := Reset lockoutKey (lockout w)\<rparr>)))"
  obtain t w4 where t: "takeRedirectTarget w3 = (t, w4)" by fastforce
  have w3: "sess w3 SessionKeyAuthorized = Some (SBool True)" "sess w3 SessionKeyUserID = Some (SStr subject)"
    "sess w3 SessionKeyRedirectURL = sess w SessionKeyRedirectURL" "cookie w3 = cookie w" "repo w3 = repo w"
    "save_faults w3 = save_faults w" "lockout w3 = Reset lockoutKey (lockout w)"
    by (simp_all add: w3_def web_simps)
  note T = takeRedirectTarget_spec [OF t]
  have ok: "save_ok w4 = save_ok w" using T(4) w3 by (simp add: save_ok_def)
  have run: "login_complete req subject w =
      (if save_ok w then (Redirect 302 t, w4\<lparr>cookie := sess w4, save_faults := tl (save_faults w4)\<rparr>)
       else (renderError ErrCommit, w4\<lparr>save_faults := tl (save_faults w4)\<rparr>))"
    by (simp add: login_complete_def w3_def [symmetric] t sess_save_eq ok)
  show "(\<exists>t. r = Redirect 302 t \<and> local_path t) \<longleftrightarrow> save_ok w"
    and "\<not> save_ok w \<Longrightarrow> r = renderError ErrCommit \<and> cookie w' = cookie w"
    and "save_ok w \<Longrightarrow> cookie_authorized w' \<and> cookie w' SessionKeyUserID = Some (SStr subject)"
    and "repo w' = repo w" and "lockout w' = Reset lockoutKey (lockout w)"
    and "sess w SessionKeyRedirectURL = Some (SStr u) \<Longrightarrow> u \<noteq> [] \<Longrightarrow> save_ok w \<Longrightarrow>
           r = Redirect 302 (safeRedirectTarget u) \<and> cookie w' SessionKeyRedirectURL = None"
    using assms run T w3 takeRedirectTarget_repo [OF t] takeRedirectTarget_spec(6) [OF t, of u]
    by (auto simp: renderError_def cookie_authorized_def split: if_splits)
qed

lemma ensureUser_frame:
  assumes "ensureUser E a now w = (r, w')"
  shows "sess w' = sess w" and "cookie w' = cookie w" and "save_faults w' = save_faults w"
    and "lockout w' = lockout w" and "auth_log w' = auth_log w"
  using assms
  by (auto simp: ensureUser_def on_repo_def ask_repo_def GenerateUserID_def rand_hex_def Let_def
      split: sum.splits prod.splits option.splits if_splits)

lemma password_valid_iff: "password_valid E a pw \<longleftrightarrow> (\<exists>h \<in> set (au_passwordHash a). ae_bcrypt E h pw)"
proof -
  have "fold (\<lambda>hash isValid. if ae_bcrypt E hash pw then True else isValid) hs b \<longleftrightarrow>
      (\<exists>h \<in> set hs. ae_bcrypt E h pw) \<or> b" for hs b
    by (induction hs arbitrary: b) auto
  then show ?thesis by (simp add: password_valid_def)
qed

section \<open>The password login\<close>

definition csrf_ok :: "HttpRequest \<Rightarrow> 'a web_scheme \<Rightarrow> bool" where
  "csrf_ok req w \<longleftrightarrow> submitted_token req \<noteq> [] \<and> sess w SessionKeyCSRF = Some (SStr (submitted_token req))"

lemma RequireCSRF_eq:
  "RequireCSRF req w =
     (if csrf_ok req w then None else Some (Json 403 [(''error'', ''invalid CSRF token'')]), w)"
proof (cases "csrf_ok req w")
  case True
  then show ?thesis using RequireCSRF_ok [of w req] by (simp add: csrf_ok_def)
next
  case False
  obtain r w' where r: "RequireCSRF req w = (r, w')" by fastforce
  with False show ?thesis
    using RequireCSRF_pass [of req w w'] RequireCSRF_stop [of req w _ w'] by (cases r) (auto simp: csrf_ok_def)
qed

text \<open>The subject of an accepted password: \<open>None\<close> when the password is refused.\<close>

definition password_subject ::
  "auth_env \<Rightarrow> 's AuthRouter \<Rightarrow> (nat \<Rightarrow> time) \<Rightarrow> HttpRequest \<Rightarrow> 's world \<Rightarrow> string option" where
  "password_subject E a clk req w =
     (if (\<exists>h \<in> set (au_passwordHash a). ae_bcrypt E h (PostForm req ''password'')) \<and>
         \<not> Locked (lockout w) lockoutKey (clk 0) then
        (if au_users a = None then Some PasswordUserID
         else (case fst (ensureUser E a (clk 1) w) of
                 Inl _ \<Rightarrow> None
               | Inr (user, n) \<Rightarrow>
                   if \<not> u_PasswordLoginDisabled user \<or> n = 0 then Some (u_ID user) else None))
      else None)"

lemma password_subject_eq:
  "password_subject E a clk req w =
     (if password_valid E a (PostForm req ''password'') \<and> \<not> Locked (lockout w) lockoutKey (clk 0) then
        (if au_users a = None then Some PasswordUserID
         else (case fst (ensureUser E a (clk 1) w) of
                 Inl _ \<Rightarrow> None
               | Inr (user, n) \<Rightarrow>
                   if isPasswordLoginActive a user n then Some (u_ID user) else None))
      else None)"
proof -
  have "isPasswordLoginActive a user n \<longleftrightarrow> \<not> u_PasswordLoginDisabled user \<or> n = 0"
    if "password_valid E a (PostForm req ''password'')" for user n
    using that by (auto simp: password_valid_iff isPasswordLoginActive_def)
  then show ?thesis
    unfolding password_subject_def password_valid_iff [symmetric] by (auto split: sum.splits)
qed

lemma loginFailed_frame:
  assumes "loginFailed E a req m w = (r, w')" and "sess w = cookie w"
  shows "cookie_authorized w' \<longleftrightarrow> cookie_authorized w" and "r \<noteq> Redirect s t"
proof -
  obtain u where u: "renderLogin E a ''Invalid password'' u = (r, w')" "sess u = sess w" "cookie u = cookie w"
    using assms(1) by (simp add: loginFailed_def authevent_Log_def)
  have "cookie w' SessionKeyAuthorized = cookie u SessionKeyAuthorized \<or>
      cookie w' SessionKeyAuthorized = sess u SessionKeyAuthorized"
    by (rule renderLogin_frame(4) [OF u(1)]) simp
  then show "cookie_authorized w' \<longleftrightarrow> cookie_authorized w"
    using assms(2) u by (simp add: cookie_authorized_def)
  show "r \<noteq> Redirect s t" by (rule renderLogin_frame(5) [OF u(1)])
qed

lemma handleLoginPost_cases:
  assumes h: "handleLoginPost E a clk req w = (r, w')" and same: "sess w = cookie w"
  shows "case password_subject E a clk req w of
      None \<Rightarrow> (\<forall>s t. r \<noteq> Redirect s t) \<and> (cookie_authorized w' \<longleftrightarrow> cookie_authorized w)
    | Some subject \<Rightarrow> \<exists>w1. login_complete req subject w1 = (r, w') \<and> sess w1 = sess w \<and>
        cookie w1 = cookie w \<and> save_faults w1 = save_faults w"
proof -
  note H = h [unfolded handleLoginPost_def Let_def]
  consider (refused) "\<not> password_valid E a (PostForm req ''password'') \<or> Locked (lockout w) lockoutKey (clk 0)"
    | (nostore) "password_valid E a (PostForm req ''password'')" "\<not> Locked (lockout w) lockoutKey (clk 0)"
        "au_users a = None"
    | (store) "password_valid E a (PostForm req ''password'')" "\<not> Locked (lockout w) lockoutKey (clk 0)"
        "au_users a \<noteq> None" by blast
  then show ?thesis
  proof cases
    case refused
    define u where "u = (if \<not> password_valid E a (PostForm req ''password'')
      then w\<lparr>lockout := Fail lockoutKey (clk 0) (lockout w)\<rparr> else w)"
    have u: "loginFailed E a req ''password'' u = (r, w')" "sess u = sess w" "cookie u = cookie w"
      using H refused by (simp_all add: u_def split: if_splits)
    have "password_subject E a clk req w = None" using refused by (auto simp: password_subject_eq)
    then show ?thesis
      using loginFailed_frame [OF u(1)] same u(2,3) by (simp add: cookie_authorized_def)
  next
    case nostore
    then show ?thesis using H by (auto simp: password_subject_eq)
  next
    case store
    obtain x w1 where e: "ensureUser E a (clk 1) w = (x, w1)" by fastforce
    note F = ensureUser_frame [OF e]
    show ?thesis
    proof (cases x)
      case (Inl err)
      then show ?thesis
        using store H e F by (auto simp: password_subject_eq renderError_def cookie_authorized_def)
    next
      case (Inr un)
      obtain user n where un: "un = (user, n)" by fastforce
      show ?thesis
      proof (cases "isPasswordLoginActive a user n")
        case True
        then show ?thesis using store H e F Inr un by (auto simp: password_subject_eq)
      next
        case False
        then have l: "loginFailed E a req ''password'' w1 = (r, w')" using store H e Inr un by simp
        have "password_subject E a clk req w = None" using store e Inr un False by (auto simp: password_subject_eq)
        then show ?thesis
          using loginFailed_frame [OF l] F same by (simp add: cookie_authorized_def)
      qed
    qed
  qed
qed


text \<open>
  Why a login was refused: a wrong password, a locked account, or a password fallback the
  operator has switched off.
\<close>

definition login_refused :: "auth_env \<Rightarrow> 's AuthRouter \<Rightarrow> (nat \<Rightarrow> time) \<Rightarrow> HttpRequest \<Rightarrow> 's world \<Rightarrow> bool" where
  "login_refused E a clk req w \<longleftrightarrow>
     \<not> password_valid E a (PostForm req ''password'') \<or> Locked (lockout w) lockoutKey (clk 0) \<or>
     (\<exists>U user creds. au_users a = Some U \<and> us_GetUser U (repo w) = Inr user \<and>
        us_ListWebAuthnCredentials U (u_ID user) (repo w) = Inr creds \<and>
        \<not> isPasswordLoginActive a user (length creds))"

text \<open>The login page reads neither the lockout nor the request.\<close>

lemma hasPasskeys_cong: "repo w' = repo w \<Longrightarrow> hasPasskeys a w' = hasPasskeys a w"
  by (simp add: hasPasskeys_def ask_repo_def split: sum.splits)

lemma lockout_auth_log:
  "w\<lparr>lockout := L, auth_log := evs\<rparr> = w\<lparr>auth_log := evs, lockout := L\<rparr>" for w :: "'s world"
  by (cases w) simp

lemma EnsureCSRFToken_lockout:
  "EnsureCSRFToken src (w\<lparr>lockout := L\<rparr>) =
     (fst (EnsureCSRFToken src w), (snd (EnsureCSRFToken src w))\<lparr>lockout := L\<rparr>)"
  by (simp add: EnsureCSRFToken_def GenerateCSRFToken_def rand_hex_def sess_set_def sess_string_def
      split: option.splits sval.splits)

lemma renderLogin_lockout:
  "renderLogin E a m (w\<lparr>lockout := L\<rparr>) =
     (fst (renderLogin E a m w), (snd (renderLogin E a m w))\<lparr>lockout := L\<rparr>)"
proof -
  obtain x w1 where e: "EnsureCSRFToken (ae_rand E) w = (x, w1)" by fastforce
  have ok: "save_ok (w1\<lparr>lockout := L\<rparr>) = save_ok w1" by (simp add: save_ok_def)
  have keys: "hasPasskeys a (w1\<lparr>lockout := L, cookie := c, save_faults := f\<rparr>) =
      hasPasskeys a (w1\<lparr>cookie := c, save_faults := f\<rparr>)" for c f
    by (rule hasPasskeys_cong) simp
  show ?thesis
    by (cases x) (simp_all add: renderLogin_def EnsureCSRFToken_lockout e sess_save_eq ok keys)
qed

text \<open>
  C38: no oracle.  Whatever the reason a login was refused for, a wrong password, a right one on a
  locked account, a right one while the fallback is off, the answer, the cookie, the recorded
  event and the repository are the same.
\<close>

theorem login_refusal_uniform:
  assumes "login_refused E a clk req w" and "login_refused E a clk' req' w"
    and "in_ClientIP req' = in_ClientIP req"
    and "handleLoginPost E a clk req w = (r, u)" and "handleLoginPost E a clk' req' w = (r', u')"
  shows "r' = r \<and> cookie u' = cookie u \<and> auth_log u' = auth_log u \<and> repo u' = repo u"
proof -
  have key: "fst (handleLoginPost E a clk q w) = fst (loginFailed E a req ''password'' w) \<and>
      (\<exists>L. snd (handleLoginPost E a clk q w) = (snd (loginFailed E a req ''password'' w))\<lparr>lockout := L\<rparr>)"
    if "login_refused E a clk q w" and ip: "in_ClientIP q = in_ClientIP req" for clk q
  proof -
    have same: "loginFailed E a q ''password'' x = loginFailed E a req ''password'' x" for x
      by (simp add: loginFailed_def ip)
    have lock: "loginFailed E a req ''password'' (w\<lparr>lockout := L\<rparr>) =
        (fst (loginFailed E a req ''password'' w), (snd (loginFailed E a req ''password'' w))\<lparr>lockout := L\<rparr>)" for L
      using renderLogin_lockout [of E a "''Invalid password''" L "authevent_Log LoginFail
        [(''method'', FStr ''password''), (''client_ip'', FStr (in_ClientIP req))] w"]
      by (simp add: loginFailed_def authevent_Log_def lockout_auth_log)
    have frame: "snd (loginFailed E a req ''password'' w) =
        (snd (loginFailed E a req ''password'' w))\<lparr>lockout := lockout w\<rparr>"
      using arg_cong [OF lock [of "lockout w"], of snd] by simp
    show ?thesis
    proof (cases "\<not> password_valid E a (PostForm q ''password'') \<or> Locked (lockout w) lockoutKey (clk 0)")
      case True
      then show ?thesis
        using lock frame unfolding handleLoginPost_def Let_def same by (auto split: if_splits)
    next
      case False
      with that(1) obtain U user creds where "au_users a = Some U" "us_GetUser U (repo w) = Inr user"
        "us_ListWebAuthnCredentials U (u_ID user) (repo w) = Inr creds"
        "\<not> isPasswordLoginActive a user (length creds)" by (auto simp: login_refused_def)
      then have "handleLoginPost E a clk q w = loginFailed E a req ''password'' w"
        using False same by (simp add: handleLoginPost_def ensureUser_def ask_repo_def users_def)
      then show ?thesis using frame by auto
    qed
  qed
  obtain L L' where "fst (handleLoginPost E a clk req w) = fst (handleLoginPost E a clk' req' w)"
    "snd (handleLoginPost E a clk req w) = (snd (loginFailed E a req ''password'' w))\<lparr>lockout := L\<rparr>"
    "snd (handleLoginPost E a clk' req' w) = (snd (loginFailed E a req ''password'' w))\<lparr>lockout := L'\<rparr>"
    using key [OF assms(1)] key [OF assms(2,3)] by auto
  then show ?thesis using assms(4,5) by simp
qed

text \<open>
  C37: after the login the operator is back where the session guard stopped them, if that is a
  path of this origin, and never on another origin.  The stored target is used once.
\<close>

theorem login_returns_to_page:
  assumes "RequireAuth req w = (Some (Redirect 302 LoginEndpoint), w1)" and "in_URL req \<noteq> []"
    and "sess w2 = cookie w1"
    and "handleLoginPost E a clk req2 w2 = (Redirect s t, w3)"
    and "sess w2 = cookie w2"
  shows "s = 302 \<and> t = (if local_path (in_URL req) then in_URL req else ''/'') \<and>
    cookie w3 SessionKeyRedirectURL = None"
proof -
  have stored: "sess w2 SessionKeyRedirectURL = Some (SStr (in_URL req))"
    using assms(1,3)
    by (auto simp: RequireAuth_def sess_save_eq sess_set_def Let_def renderError_def panic_reply_def
        split: option.splits sval.splits if_splits)
  obtain subject x where x: "login_complete req2 subject x = (Redirect s t, w3)" "sess x = sess w2"
    using handleLoginPost_cases [OF assms(4,5)] by (auto split: option.splits)
  note L = login_complete_spec [OF x(1)]
  have ok: "save_ok x" using L(2) by (auto simp: renderError_def)
  have r: "Redirect s t = (Redirect 302 (safeRedirectTarget (in_URL req)) :: reply)"
    and gone: "cookie w3 SessionKeyRedirectURL = None"
    using L(6) [of "in_URL req"] stored x(2) assms(2) ok by simp_all
  have "safeRedirectTarget u = u \<or> safeRedirectTarget u = ''/''" for u by (simp add: safeRedirectTarget_def)
  then have "safeRedirectTarget (in_URL req) = (if local_path (in_URL req) then in_URL req else ''/'')"
    using safe_local_path [of "in_URL req"] local_path_safe [of "in_URL req"] by metis
  with r gone show ?thesis by simp
qed

section \<open>A concrete login\<close>

definition demo_auth_env :: auth_env where
  "demo_auth_env =
     \<lparr>ae_rand = (\<lambda>i n. Some (replicate n (CHR ''r''))), ae_bcrypt = (\<lambda>h p. h = ''#'' @ p),
      ae_url = (\<lambda>_. None), ae_ip = (\<lambda>_. None), ae_webauthn_New = (\<lambda>_ _. Inl ErrPanic),
      ae_cred_marshal = (\<lambda>c. Some (wac_ID c)), ae_cred_unmarshal =
        (\<lambda>s. Some \<lparr>wac_ID = s, wac_SignCount = 0, wac_CloneWarning = False\<rparr>),
      ae_session_marshal = (\<lambda>d. Some (CHR ''.'' # wad_Challenge d)),
      ae_session_unmarshal = (\<lambda>s. Some \<lparr>wad_Challenge = tl s, wad_UserID = []\<rparr>),
      ae_userinfo_marshal = (\<lambda>_. None)\<rparr>"

definition demo_auth_router :: "unit AuthRouter" where
  "demo_auth_router =
     \<lparr>au_passwordHash = [''#pw''], au_providers = [], au_noProviderAutoSelect = False,
      au_userInfoFields = [], au_users = None, au_clients = None, au_webAuthn = None,
      au_loginRateLimit = None, au_version = []\<rparr>"

definition demo_browser :: "(string \<rightharpoonup> sval) \<Rightarrow> 's \<Rightarrow> Lockout option \<Rightarrow> 's world" where
  "demo_browser session st lock =
     \<lparr>sess = session, cookie = session, save_faults = [], auth_log = [], repo = st, draws = 0,
      lockout = lock, cimd = NewResolver demo_cfg\<rparr>"

definition demo_form :: "(string \<times> string list) list \<Rightarrow> HttpRequest" where
  "demo_form form =
     \<lparr>in_Method = ''POST'', in_URL = ''/'', in_Path = ''/'', in_Query = [], in_PostForm = form,
      in_FormError = False, in_Header = [], in_ClientIP = ''192.0.2.1'', in_Body = []\<rparr>"

definition demo_csrf :: "string \<rightharpoonup> sval" where
  "demo_csrf = [SessionKeyCSRF \<mapsto> SStr ''t'', SessionKeyRedirectURL \<mapsto> SStr ''/mcp'']"

lemma demo_form_sel [simp]:
  "PostForm (demo_form form) k = values_Get form k" "GetHeader (demo_form form) k = []"
  "in_ClientIP (demo_form form) = ''192.0.2.1''"
  by (simp_all add: demo_form_def PostForm_def GetHeader_def values_Get_def)


definition demo_locked :: "Lockout option" where
  "demo_locked = Some \<lparr>threshold = 1, lock_duration = 60,
     entries = [lockoutKey \<mapsto> \<lparr>failures = 1, lockedUntil = 60, lastFailure = 0\<rparr>]\<rparr>"

theorem login_refusal_uniform_witness:
  "let w = demo_browser demo_csrf () demo_locked;
       post = handleLoginPost demo_auth_env demo_auth_router (\<lambda>_. 0)
   in fst (post (demo_form [(''password'', [''pw''])]) w) = fst (post (demo_form [(''password'', [''no''])]) w) \<and>
      auth_log (snd (post (demo_form [(''password'', [''pw''])]) w)) =
        auth_log (snd (post (demo_form [(''password'', [''no''])]) w))"
proof -
  let ?w = "demo_browser demo_csrf () demo_locked"
  have "login_refused demo_auth_env demo_auth_router (\<lambda>_. 0) (demo_form f) ?w" for f
    by (simp add: login_refused_def demo_browser_def demo_locked_def Locked_def)
  then show ?thesis
    using login_refusal_uniform [of demo_auth_env demo_auth_router "\<lambda>_. 0" "demo_form [(''password'', [''no''])]" ?w
      "\<lambda>_. 0" "demo_form [(''password'', [''pw''])]", OF _ _ _ prod.collapse [symmetric] prod.collapse [symmetric]]
    by (simp add: Let_def)
qed

theorem login_returns_to_page_witness:
  "\<exists>w1 w3. RequireAuth ((demo_form [])\<lparr>in_URL := ''/.auth/settings''\<rparr>) (demo_browser Map.empty () None) =
        (Some (Redirect 302 LoginEndpoint), w1) \<and>
      handleLoginPost demo_auth_env demo_auth_router (\<lambda>_. 0) (demo_form [(''password'', [''pw''])])
        (demo_browser (cookie w1) () None) = (Redirect 302 ''/.auth/settings'', w3)"
proof -
  let ?req = "(demo_form [])\<lparr>in_URL := ''/.auth/settings''\<rparr>"
  let ?w = "demo_browser Map.empty () None :: unit world"
  obtain w1 where w1: "RequireAuth ?req ?w = (Some (Redirect 302 LoginEndpoint), w1)"
    by (simp add: RequireAuth_def demo_browser_def sess_get_def sess_set_def sess_save_def Let_def)
  let ?w2 = "demo_browser (cookie w1) () None :: unit world"
  let ?form = "demo_form [(''password'', [''pw''])]"
  obtain r w3 where c: "login_complete ?form PasswordUserID ?w2 = (r, w3)" by fastforce
  have "save_ok ?w2" by (simp add: save_ok_def demo_browser_def)
  with login_complete_spec(1) [OF c] obtain s t where "r = Redirect s t" by auto
  moreover have "handleLoginPost demo_auth_env demo_auth_router (\<lambda>_. 0) ?form ?w2 =
      login_complete ?form PasswordUserID ?w2"
    by (simp add: handleLoginPost_def password_valid_def demo_auth_env_def demo_auth_router_def Locked_def
        values_Get_def) (simp add: demo_browser_def)
  ultimately have run: "handleLoginPost demo_auth_env demo_auth_router (\<lambda>_. 0) ?form ?w2 = (Redirect s t, w3)"
    using c by simp
  have "s = 302 \<and> t = ''/.auth/settings''"
    using login_returns_to_page [OF w1 _ _ run] by (simp add: demo_browser_def local_path_def)
  with w1 run show ?thesis by auto
qed

end
