(* ===== verification/PasskeyProps.thy ===== *)
theory PasskeyProps
  imports LoginProps
begin

text \<open>
  The passkey and the OIDC login: the same equivalence as for the password login, with the
  acceptance of the library and of the allow-list spelled out.
\<close>

section \<open>Passkeys\<close>

lemma loadWebAuthnUser_cong: "repo w' = repo w \<Longrightarrow> loadWebAuthnUser E a w' = loadWebAuthnUser E a w"
  by (simp add: loadWebAuthnUser_def ask_repo_def)

lemma takeCeremony_spec:
  assumes "takeCeremony E key w = (x, w')"
  shows "repo w' = repo w" and "\<And>k. k \<noteq> key \<Longrightarrow> sess w' k = sess w k"
    and "sess w = cookie w \<Longrightarrow> k \<noteq> key \<Longrightarrow> cookie w' k = cookie w k"
    and "x = Inr data \<longleftrightarrow> (\<exists>raw. sess w key = Some (SStr raw) \<and> raw \<noteq> [] \<and> save_ok w \<and>
           ae_session_unmarshal E raw = Some data)"
    and "x = Inr data \<Longrightarrow> save_faults w' = tl (save_faults w) \<and> sess w' key = None \<and> cookie w' key = None"
    and "sess w key = Some (SStr raw) \<Longrightarrow> raw \<noteq> [] \<Longrightarrow> save_ok w \<Longrightarrow> sess w' key = None \<and> cookie w' key = None"
  using assms
  by (auto simp: takeCeremony_def sess_string_def sess_delete_def sess_save_eq
      split: option.splits sval.splits if_splits)

lemma persistUsedCredential_frame:
  assumes "persistUsedCredential E a now rs c w = (x, w')"
  shows "sess w' = sess w" and "cookie w' = cookie w" and "save_faults w' = save_faults w"
    and "persistUsedCredential_in E a now rs c (repo w) = (x, repo w')"
  using assms by (auto simp: persistUsedCredential_def on_repo_def split: prod.splits)

lemma passkey_denied_frame:
  assumes "passkey_denied req w = (r, w')"
  shows "sess w' = sess w" and "cookie w' = cookie w" and "r = login_failed_json 401" and "repo w' = repo w"
  using assms by (auto simp: passkey_denied_def authevent_Log_def)

lemma passkey_session_spec:
  assumes "passkey_session req uid w = (r, w')"
  shows "save_ok w \<Longrightarrow> cookie_authorized w' \<and> cookie w' SessionKeyUserID = Some (SStr uid) \<and>
      (\<exists>t. local_path t \<and> r = Json 200 [(''redirect'', t)])"
    and "\<not> save_ok w \<Longrightarrow> cookie w' = cookie w \<and> r = login_failed_json 401"
    and "repo w' = repo w"
    and "save_ok w \<Longrightarrow> cookie w' sessionKeyWebAuthnLogin = sess w sessionKeyWebAuthnLogin"
proof -
  let ?w = "sess_set SessionKeyUserID (SStr uid) (sess_set SessionKeyAuthorized (SBool True) w)"
  obtain t w1 where t: "takeRedirectTarget ?w = (t, w1)" by fastforce
  note T = takeRedirectTarget_spec [OF t]
  have ok: "save_ok w1 = save_ok w" using T(4) by (simp add: save_ok_def sess_set_def)
  show "save_ok w \<Longrightarrow> cookie_authorized w' \<and> cookie w' SessionKeyUserID = Some (SStr uid) \<and>
      (\<exists>t. local_path t \<and> r = Json 200 [(''redirect'', t)])"
    and "\<not> save_ok w \<Longrightarrow> cookie w' = cookie w \<and> r = login_failed_json 401"
    and "repo w' = repo w"
    and "save_ok w \<Longrightarrow> cookie w' sessionKeyWebAuthnLogin = sess w sessionKeyWebAuthnLogin"
    using assms t T ok takeRedirectTarget_repo [OF t]
    by (auto simp: passkey_session_def sess_save_eq sess_set_def authevent_Log_def cookie_authorized_def
        passkey_denied_def split: if_splits)
qed

text \<open>What an accepted assertion is: a ceremony begun by this browser is pending, the library
  accepts the assertion against it for the operator's handle, the sign count did not regress, and
  the new count is stored.\<close>

definition passkey_accepted ::
  "auth_env \<Rightarrow> 's AuthRouter \<Rightarrow> (nat \<Rightarrow> time) \<Rightarrow> HttpRequest \<Rightarrow> 's world \<Rightarrow> bool" where
  "passkey_accepted E a clk req w \<longleftrightarrow>
     (\<exists>raw data user records W cred.
        sess w sessionKeyWebAuthnLogin = Some (SStr raw) \<and> raw \<noteq> [] \<and>
        ae_session_unmarshal E raw = Some data \<and>
        loadWebAuthnUser E a w = Inr (user, records) \<and> au_webAuthn a = Some W \<and>
        wa_FinishDiscoverableLogin W (discoverable_handler user) data req (clk 0) = Inr cred \<and>
        \<not> wac_CloneWarning cred \<and>
        fst (persistUsedCredential_in E a (clk 1) records cred (repo w)) = Inr ())"

lemma finish_cases:
  assumes h: "handleWebAuthnLoginFinish E a clk req w = (r, w')" and same: "sess w = cookie w"
  shows "cookie_authorized w' \<longleftrightarrow> cookie_authorized w \<or>
      (passkey_accepted E a clk req w \<and> True \<notin> set (take 2 (save_faults w)))"
    and "sess w sessionKeyWebAuthnLogin = Some (SStr raw) \<Longrightarrow> raw \<noteq> [] \<Longrightarrow> save_ok w \<Longrightarrow>
      cookie w' sessionKeyWebAuthnLogin = None"
proof -
  obtain x w1 where x: "takeCeremony E sessionKeyWebAuthnLogin w = (x, w1)" by fastforce
  note T = takeCeremony_spec [OF x]
  have auth1: "cookie_authorized w1 = cookie_authorized w"
    using T(3) [OF same, of SessionKeyAuthorized] by (simp add: cookie_authorized_def)
  have load: "loadWebAuthnUser E a w1 = loadWebAuthnUser E a w" by (rule loadWebAuthnUser_cong [OF T(1)])
  note H = h [unfolded handleWebAuthnLoginFinish_def x prod.case]
  have main: "(cookie_authorized w' \<longleftrightarrow> cookie_authorized w \<or>
        (passkey_accepted E a clk req w \<and> True \<notin> set (take 2 (save_faults w)))) \<and>
      cookie w' sessionKeyWebAuthnLogin = cookie w1 sessionKeyWebAuthnLogin"
    if eq: "cookie_authorized w' = cookie_authorized w1" "\<not> passkey_accepted E a clk req w"
      "cookie w' = cookie w1" using that auth1 by simp
  have goal: "(cookie_authorized w' \<longleftrightarrow> cookie_authorized w \<or>
        (passkey_accepted E a clk req w \<and> True \<notin> set (take 2 (save_faults w)))) \<and>
      cookie w' sessionKeyWebAuthnLogin = cookie w1 sessionKeyWebAuthnLogin"
  proof (cases x)
    case (Inl e)
    then have d: "passkey_denied req w1 = (r, w')" using H by simp
    have "passkey_accepted E a clk req w \<Longrightarrow> \<not> save_ok w"
      using T(4) Inl by (auto simp: passkey_accepted_def)
    moreover have "\<not> save_ok w \<Longrightarrow> True \<in> set (take 2 (save_faults w))"
      by (cases "save_faults w") (auto simp: save_ok_def numeral_2_eq_2)
    ultimately show ?thesis
      using passkey_denied_frame [OF d] auth1 by (auto simp: cookie_authorized_def)
  next
    case (Inr data)
    then obtain raw0 where raw: "sess w sessionKeyWebAuthnLogin = Some (SStr raw0)" "raw0 \<noteq> []" "save_ok w"
      "ae_session_unmarshal E raw0 = Some data" using T(4) by auto
    have faults: "save_faults w1 = tl (save_faults w)" and gone: "sess w1 sessionKeyWebAuthnLogin = None"
      "cookie w1 sessionKeyWebAuthnLogin = None" using T(5) [OF Inr] by auto
    have two: "True \<notin> set (take 2 (save_faults w)) \<longleftrightarrow> save_ok w1"
      using raw(3) faults
      by (cases "save_faults w"; cases "tl (save_faults w)") (auto simp: save_ok_def numeral_2_eq_2)
    have deny: ?thesis if "passkey_denied req w1' = (r, w')" "cookie w1' = cookie w1" "\<not> passkey_accepted E a clk req w" for w1'
      using that passkey_denied_frame [OF that(1)] auth1 by (simp add: cookie_authorized_def)
    note acc = passkey_accepted_def raw
    show ?thesis
    proof (cases "loadWebAuthnUser E a w")
      case (Inl e)
      then have "\<not> passkey_accepted E a clk req w" by (simp add: acc)
      then show ?thesis
        using H Inl load \<open>x = Inr data\<close> deny [of w1] auth1 by (auto split: if_splits)
    next
      case (Inr ur)
      obtain user records where ur: "ur = (user, records)" by fastforce
      show ?thesis
      proof (cases "au_webAuthn a")
        case None
        then show ?thesis using H Inr ur load \<open>x = Inr data\<close> auth1 by (simp add: acc)
      next
        case (Some W)
        show ?thesis
        proof (cases "wa_FinishDiscoverableLogin W (discoverable_handler user) data req (clk 0)")
          case (Inl e)
          then show ?thesis
            using H Inr ur load Some \<open>x = Inr data\<close> deny [of w1] by (simp add: acc)
        next
          case fin: (Inr cred)
          obtain y w2 where p: "persistUsedCredential E a (clk 1) records cred w1 = (y, w2)" by fastforce
          note P = persistUsedCredential_frame [OF p]
          have pin: "fst (persistUsedCredential_in E a (clk 1) records cred (repo w)) = y" using P(4) T(1) by simp
          have acc_iff: "passkey_accepted E a clk req w \<longleftrightarrow> \<not> wac_CloneWarning cred \<and> y = Inr ()"
            using fin Inr ur Some pin by (simp add: acc)
          show ?thesis
          proof (cases "\<not> wac_CloneWarning cred \<and> y = Inr ()")
            case True
            then have s: "passkey_session req (u_ID (wu_user user)) w2 = (r, w')"
              using H Inr ur load Some \<open>x = Inr data\<close> fin p by simp
            have ok: "save_ok w2 = save_ok w1" using P(3) by (simp add: save_ok_def)
            show ?thesis
              using passkey_session_spec [OF s] acc_iff True two ok P(1,2) gone auth1
              by (cases "save_ok w1") (auto simp: cookie_authorized_def)
          next
            case False
            then have "passkey_denied req (if wac_CloneWarning cred then w1 else w2) = (r, w')"
              using H Inr ur load Some \<open>x = Inr data\<close> fin p by (cases y) (auto split: if_splits)
            then show ?thesis by (rule deny) (use P(2) acc_iff False in auto)
          qed
        qed
      qed
    qed
  qed
  then show "cookie_authorized w' \<longleftrightarrow> cookie_authorized w \<or>
      (passkey_accepted E a clk req w \<and> True \<notin> set (take 2 (save_faults w)))" by simp
  show "sess w sessionKeyWebAuthnLogin = Some (SStr raw) \<Longrightarrow> raw \<noteq> [] \<Longrightarrow> save_ok w \<Longrightarrow>
      cookie w' sessionKeyWebAuthnLogin = None" using goal T(6) by simp
qed


section \<open>OIDC\<close>

text \<open>The identity a callback proves: the state of this browser, a code the provider exchanges, a
  userinfo document, and a rule of the allow-list that names the user in it.\<close>

definition oidc_accepted :: "oidc_lib \<Rightarrow> oidcProvider \<Rightarrow> HttpRequest \<Rightarrow> 'a web_scheme \<Rightarrow> string \<Rightarrow> bool" where
  "oidc_accepted L p req w user \<longleftrightarrow>
     (\<exists>state token status body m.
        sess w SessionKeyOAuthState = Some (SStr state) \<and> c_Query req ''state'' = state \<and>
        ol_exchange L (o_tokenEndpoint p) (c_Query req ''code'') = Inr token \<and>
        ol_userinfo L token (o_userInfoURL p) = Inr (status, body) \<and> is_2xx status \<and>
        ol_json L body = Some (JObj m) \<and> ol_pointer L (JObj m) (o_userIDField p) = Some (JStr user) \<and>
        rule_admits L p (JObj m) user)"

lemma authorization_allowed:
  "oidc_Authorization L p token = Inr (True, user, info) \<longleftrightarrow>
     (\<exists>status body m. ol_userinfo L token (o_userInfoURL p) = Inr (status, body) \<and> is_2xx status \<and>
        ol_json L body = Some (JObj m) \<and> ol_pointer L (JObj m) (o_userIDField p) = Some (JStr user) \<and>
        rule_admits L p (JObj m) user \<and> info = Some m)"
  by (auto simp: oidc_Authorization_def isAllowed_iff split: sum.splits option.splits json.splits if_splits)

lemma callback_allowed:
  "oidc_accepted L p req w user \<longleftrightarrow>
     (\<exists>state token info. sess w SessionKeyOAuthState = Some (SStr state) \<and>
        oidc_Exchange L p req state = Inr token \<and> oidc_Authorization L p token = Inr (True, user, info))"
  by (auto simp: oidc_accepted_def oidc_Exchange_def authorization_allowed)

lemma store_userinfo_frame:
  "cookie (store_userinfo E a m w) = cookie w" "save_faults (store_userinfo E a m w) = save_faults w"
  "k \<noteq> SessionKeyUserInfo \<Longrightarrow> sess (store_userinfo E a m w) k = sess w k"
  by (auto simp: store_userinfo_def sess_set_def Let_def split: option.splits)

text \<open>The answer to an allowed callback.\<close>

definition callback_done :: "auth_env \<Rightarrow> 's AuthRouter \<Rightarrow> string \<Rightarrow> (string \<times> json) list option \<Rightarrow> 's world \<Rightarrow> reply \<times> 's world" where
  "callback_done E a user userInfo w =
     (case takeRedirectTarget (store_userinfo E a userInfo (sess_set SessionKeyUserID (SStr user)
             (sess_set SessionKeyAuthorized (SBool True) w))) of
        (t, w3) \<Rightarrow> (case sess_save w3 of
           (False, w4) \<Rightarrow> (renderError ErrCommit, w4) | (True, w4) \<Rightarrow> (Redirect 302 t, w4)))"

lemma callback_done_spec:
  assumes "callback_done E a user info w = (r, w')"
  shows "save_ok w \<Longrightarrow> cookie_authorized w' \<and> cookie w' SessionKeyUserID = Some (SStr user) \<and>
      (\<exists>t. local_path t \<and> r = Redirect 302 t)"
    and "\<not> save_ok w \<Longrightarrow> cookie w' = cookie w \<and> (\<forall>s t. r \<noteq> Redirect s t)"
proof -
  let ?w = "store_userinfo E a info (sess_set SessionKeyUserID (SStr user) (sess_set SessionKeyAuthorized (SBool True) w))"
  obtain t w3 where t: "takeRedirectTarget ?w = (t, w3)" by fastforce
  note T = takeRedirectTarget_spec [OF t]
  have ok: "save_ok w3 = save_ok w" using T(4) by (simp add: save_ok_def store_userinfo_frame sess_set_def)
  have keys: "sess w3 SessionKeyAuthorized = Some (SBool True)" "sess w3 SessionKeyUserID = Some (SStr user)"
    "cookie w3 = cookie w"
    using T(2) [of SessionKeyAuthorized] T(2) [of SessionKeyUserID] T(3)
    by (simp_all add: store_userinfo_frame sess_set_def)
  show "save_ok w \<Longrightarrow> cookie_authorized w' \<and> cookie w' SessionKeyUserID = Some (SStr user) \<and>
      (\<exists>t. local_path t \<and> r = Redirect 302 t)"
    and "\<not> save_ok w \<Longrightarrow> cookie w' = cookie w \<and> (\<forall>s t. r \<noteq> Redirect s t)"
    using assms T(1) keys ok
    by (auto simp: callback_done_def t sess_save_eq cookie_authorized_def renderError_def split: if_splits)
qed

lemma handleCallback_cases:
  assumes "handleCallback E a (provider_of L p) req w = (r, w')"
  shows "((\<forall>user. \<not> oidc_accepted L p req w user) \<and> w' = w \<and> (\<forall>s t. r \<noteq> Redirect s t)) \<or>
    (\<exists>user info. oidc_accepted L p req w user \<and> callback_done E a user info w = (r, w'))"
proof -
  have H: "(case sess w SessionKeyOAuthState of
      None \<Rightarrow> (renderError (ErrMsg ''OAuth state is missing''), w)
    | Some (SBool _) \<Rightarrow> (panic_reply, w)
    | Some (SStr state) \<Rightarrow>
        (case oidc_Exchange L p req state of
           Inl e \<Rightarrow> (renderError e, w)
         | Inr token \<Rightarrow>
             (case oidc_Authorization L p token of
                Inl e \<Rightarrow> (renderError e, w)
              | Inr (ok, user, userInfo) \<Rightarrow>
                  if \<not> ok then (renderUnauthorized user (o_providerName p), w)
                  else callback_done E a user userInfo w))) = (r, w')"
    using assms unfolding handleCallback_def provider_of_def sess_get_def callback_done_def Let_def Provider.simps .
  show ?thesis
  proof (cases "\<exists>state. sess w SessionKeyOAuthState = Some (SStr state)")
    case False
    then show ?thesis
      using H by (auto simp: callback_allowed renderError_def panic_reply_def split: option.splits sval.splits)
  next
    case True
    then obtain state where S: "sess w SessionKeyOAuthState = Some (SStr state)" by blast
    show ?thesis
    proof (cases "oidc_Exchange L p req state")
      case (Inl e)
      then show ?thesis using H S by (auto simp: callback_allowed renderError_def)
    next
      case ex: (Inr token)
      show ?thesis
      proof (cases "oidc_Authorization L p token")
        case (Inl e)
        then show ?thesis using H S ex by (auto simp: callback_allowed renderError_def)
      next
        case (Inr z)
        obtain ok user info where z: "z = (ok, user, info)" by (cases z) auto
        show ?thesis
          using H S ex Inr z by (cases ok) (auto simp: callback_allowed renderUnauthorized_def)
      qed
    qed
  qed
qed

text \<open>
  C9: who an OIDC login lets in.  The callback's cookie is authorized afterwards exactly if it was
  before, or the callback proves an identity that some rule of the allow-list names (a callback
  without this browser's state, an error or a user no rule names never does) and the session
  could be saved; the redirect then stays on this origin.
\<close>

theorem oidc_login_exact:
  assumes "handleCallback E a (provider_of L p) req w = (r, w')" and "sess w = cookie w"
  shows "(cookie_authorized w' \<longleftrightarrow> cookie_authorized w \<or> (save_ok w \<and> (\<exists>user. oidc_accepted L p req w user))) \<and>
    ((\<exists>t. r = Redirect 302 t \<and> local_path t) \<longleftrightarrow> save_ok w \<and> (\<exists>user. oidc_accepted L p req w user)) \<and>
    (\<forall>s t. r = Redirect s t \<longrightarrow>
      (\<exists>user. oidc_accepted L p req w user \<and> cookie w' SessionKeyUserID = Some (SStr user)))"
proof -
  from handleCallback_cases [OF assms(1)] show ?thesis
  proof (elim disjE exE conjE)
    fix user info
    assume u: "oidc_accepted L p req w user" and "callback_done E a user info w = (r, w')"
    note D = callback_done_spec [OF this(2)]
    show ?thesis
      using D u by (cases "save_ok w") (auto simp: cookie_authorized_def)
  qed auto
qed

section \<open>Concrete logins\<close>

text \<open>A user store of one account and its passkeys, and a relying party that accepts the handle of
  the pending challenge.\<close>

definition demo_users :: "(User \<times> WebAuthnCredential list) UserStorage" where
  "demo_users =
     \<lparr>us_GetUser = (\<lambda>(u, cs). Inr u), us_CreateUser = (\<lambda>u (_, cs). (Inr (), u, cs)),
      us_UpdateUser = (\<lambda>u (_, cs). (Inr (), u, cs)),
      us_AddWebAuthnCredential = (\<lambda>c (u, cs). (Inr (), u, cs @ [c])),
      us_ListWebAuthnCredentials = (\<lambda>uid (u, cs). Inr (filter (\<lambda>c. wc_UserID c = uid) cs)),
      us_UpdateWebAuthnCredential = (\<lambda>c (u, cs). (Inr (), u, map (\<lambda>d. if wc_ID d = wc_ID c then c else d) cs)),
      us_DeleteWebAuthnCredential = (\<lambda>k (u, cs). (Inr (), u, filter (\<lambda>c. wc_ID c \<noteq> k) cs))\<rparr>"

definition demo_user :: User where
  "demo_user = \<lparr>u_ID = ''u'', u_Username = ''admin'', u_PasswordLoginDisabled = True, u_CreatedAt = 0\<rparr>"

definition demo_passkey :: WebAuthnCredential where
  "demo_passkey = \<lparr>wc_ID = ''AA'', wc_UserID = ''u'', wc_Name = [], wc_Credential = [CHR 0x00],
     wc_CreatedAt = 0, wc_LastUsedAt = 0\<rparr>"

definition demo_relying_party :: webauthn where
  "demo_relying_party =
     \<lparr>wa_BeginDiscoverableLogin = (\<lambda>i. Inr (''options'', \<lparr>wad_Challenge = ''c'', wad_UserID = []\<rparr>)),
      wa_FinishDiscoverableLogin = (\<lambda>handler data req t. case handler [] ''u'' of
          Inl e \<Rightarrow> Inl e
        | Inr user \<Rightarrow> if PostForm req ''signed'' = wad_Challenge data then
              Inr \<lparr>wac_ID = [CHR 0x00], wac_SignCount = 1, wac_CloneWarning = False\<rparr> else Inl ErrDecode),
      wa_BeginRegistration = (\<lambda>i user exclusions. Inl ErrDecode),
      wa_FinishRegistration = (\<lambda>user data req t. Inl ErrDecode), wa_Descriptor = wac_ID\<rparr>"

definition demo_passkey_router :: "(User \<times> WebAuthnCredential list) AuthRouter" where
  "demo_passkey_router =
     \<lparr>au_passwordHash = [], au_providers = [], au_noProviderAutoSelect = False, au_userInfoFields = [],
      au_users = Some demo_users, au_clients = None, au_webAuthn = Some demo_relying_party,
      au_loginRateLimit = None, au_version = []\<rparr>"

definition demo_pending :: "string \<rightharpoonup> sval" where
  "demo_pending = [SessionKeyCSRF \<mapsto> SStr ''t'', sessionKeyWebAuthnLogin \<mapsto> SStr ''.c'']"

lemma demo_credential_id: "credential_id \<lparr>wac_ID = [CHR 0x00], wac_SignCount = n, wac_CloneWarning = b\<rparr> = ''AA''"
  by (simp add: credential_id_def b64_char_def b64_alphabet_def)

lemma demo_own_user:
  "loadWebAuthnUser demo_auth_env demo_passkey_router (demo_browser s (demo_user, [demo_passkey]) l) =
     Inr (\<lparr>wu_user = demo_user, wu_credentials = [\<lparr>wac_ID = [CHR 0x00], wac_SignCount = 0, wac_CloneWarning = False\<rparr>]\<rparr>,
       [demo_passkey])"
  by (simp add: loadWebAuthnUser_def ask_repo_def demo_passkey_router_def demo_users_def demo_browser_def
      users_def demo_user_def demo_passkey_def demo_auth_env_def)

lemma demo_accepted:
  "passkey_accepted demo_auth_env demo_passkey_router (\<lambda>_. 0)
     (demo_form [(''csrf_token'', [''t'']), (''signed'', [''c''])])
     (demo_browser demo_pending (demo_user, [demo_passkey]) None)"
proof -
  have fin: "wa_FinishDiscoverableLogin demo_relying_party (discoverable_handler \<lparr>wu_user = demo_user, wu_credentials = cs\<rparr>)
      \<lparr>wad_Challenge = ''c'', wad_UserID = []\<rparr> (demo_form [(''csrf_token'', [''t'']), (''signed'', [''c''])]) t =
      Inr \<lparr>wac_ID = [CHR 0x00], wac_SignCount = 1, wac_CloneWarning = False\<rparr>" for cs t
    by (simp add: demo_relying_party_def discoverable_handler_def demo_user_def values_Get_def)
  show ?thesis
    unfolding passkey_accepted_def
    by (rule exI [of _ "''.c''"], rule exI [of _ "\<lparr>wad_Challenge = ''c'', wad_UserID = []\<rparr>"],
        rule exI, rule exI, rule exI [of _ demo_relying_party], rule exI, intro conjI, rule_tac [4] demo_own_user,
        rule_tac [5] fin)
       (auto simp: demo_browser_def demo_pending_def session_key_defs demo_auth_env_def demo_passkey_router_def
         demo_credential_id demo_passkey_def demo_users_def users_def)
qed


definition demo_oidc_lib :: oidc_lib where
  "demo_oidc_lib =
     \<lparr>ol_glob = (\<lambda>_. None), ol_pointer = (\<lambda>j k. case j of JObj m \<Rightarrow> map_of m k | _ \<Rightarrow> None),
      ol_get = (\<lambda>_. Inl ErrDecode), ol_discovery = (\<lambda>_. None), ol_join_path = (\<lambda>_ _. None),
      ol_auth_code_url = (\<lambda>_ _. []), ol_exchange = (\<lambda>_ code. Inr code),
      ol_userinfo = (\<lambda>token _. Inr (200, token)), ol_json = (\<lambda>s. Some (JObj [(''sub'', JStr s)]))\<rparr>"

definition demo_oidc :: oidcProvider where
  "demo_oidc =
     \<lparr>o_providerName = ''idp'', o_userInfoURL = [], o_userIDField = ''sub'', o_authEndpoint = [],
      o_tokenEndpoint = [], o_redirectURL = [], o_allowedUsers = [''eve''], o_allowedUsersGlob = [],
      o_allowedAttributes = [], o_allowedAttributesGlob = []\<rparr>"

definition demo_callback :: "string \<Rightarrow> HttpRequest" where
  "demo_callback code = (demo_form [])\<lparr>in_Query := [(''state'', [''s'']), (''code'', [code])]\<rparr>"

lemma demo_oidc_accepted:
  "oidc_accepted demo_oidc_lib demo_oidc (demo_callback code) (demo_browser [SessionKeyOAuthState \<mapsto> SStr ''s''] () None)
     user \<longleftrightarrow> user = code \<and> code = ''eve''"
  by (auto simp: oidc_accepted_def demo_callback_def demo_browser_def demo_oidc_lib_def demo_oidc_def c_Query_def
      values_Get_def is_2xx_def rule_admits_def)

theorem oidc_login_exact_witness:
  "let w = demo_browser [SessionKeyOAuthState \<mapsto> SStr ''s''] () None;
       callback = (\<lambda>code. handleCallback demo_auth_env demo_auth_router (provider_of demo_oidc_lib demo_oidc)
         (demo_callback code) w)
   in cookie_authorized (snd (callback ''eve'')) \<and> \<not> cookie_authorized (snd (callback ''mallory''))"
proof -
  let ?w = "demo_browser [SessionKeyOAuthState \<mapsto> SStr ''s''] () None"
  have "sess ?w = cookie ?w" "save_ok ?w" "\<not> cookie_authorized ?w"
    by (simp_all add: demo_browser_def save_ok_def cookie_authorized_def session_key_defs)
  moreover have "(\<exists>user. oidc_accepted demo_oidc_lib demo_oidc (demo_callback code) ?w user) \<longleftrightarrow> code = ''eve''" for code
    by (simp add: demo_oidc_accepted)
  ultimately have "cookie_authorized (snd (handleCallback demo_auth_env demo_auth_router
      (provider_of demo_oidc_lib demo_oidc) (demo_callback code) ?w)) \<longleftrightarrow> code = ''eve''" for code
    using conjunct1 [OF oidc_login_exact [OF prod.collapse [symmetric], of ?w demo_auth_env demo_auth_router
        demo_oidc_lib demo_oidc "demo_callback code"]] by simp
  then show ?thesis by (simp add: Let_def)
qed

end
