(* ===== verification/SettingsProps.thy ===== *)
theory SettingsProps
  imports PasskeyProps KvsProps
begin

text \<open>
  The operator's kill switches behind their routes, over the repository contract and, by its
  interpretation, over the bbolt backend; and the password fallback that keeps the operator from
  being locked out.
\<close>

section \<open>The kill switches\<close>

text \<open>What a revocation route is to remove: the requests and the registrations it names.\<close>

definition kill_scope :: "string \<Rightarrow> HttpRequest \<Rightarrow> ((Request \<Rightarrow> bool) \<times> (string \<Rightarrow> bool)) option" where
  "kill_scope ep req =
     (if ep = SettingsClientRevokeEndpoint then
        Some (of_client (PostForm req ''client_id''), \<lambda>k. k = PostForm req ''client_id'')
      else if ep = SettingsGrantRevokeEndpoint then
        Some (\<lambda>r. rq_ID r = PostForm req ''request_id'', \<lambda>_. False)
      else if ep = SettingsRevokeAllEndpoint then Some (\<lambda>_. True, \<lambda>_. True)
      else None)"

definition revoke_done :: "reply \<Rightarrow> bool" where
  "revoke_done r \<longleftrightarrow> r = settings_redirect ''revoked'' \<or> r = settings_redirect ''revoked_all''"

lemma revoke_done_simps [simp]:
  "revoke_done (settings_redirect ''revoked'')" "revoke_done (settings_redirect ''revoked_all'')"
  "\<not> revoke_done (settings_redirect [])" "\<not> revoke_done (settings_redirect ''revoke_failed'')"
  "\<not> revoke_done panic_reply" "\<not> revoke_done (Json n fs)" "\<not> revoke_done (Body n b)"
  by (simp_all add: revoke_done_def settings_redirect_def SettingsEndpoint_def panic_reply_def)

lemma requireOwnUser_reply: "requireOwnUser E a w = Inl r \<Longrightarrow> \<not> revoke_done r"
  by (auto simp: requireOwnUser_def forbidden_reply_def Let_def split: sum.splits if_splits)

lemma revoke_labelled_writes:
  assumes "revoke_labelled req sc subj label act w = (r, w')" and "writes v (repo w) (act (repo w)) g"
  shows "v (repo w') = (if revoke_done r then g (v (repo w)) else v (repo w))"
  using assms
  by (auto simp: revoke_labelled_def on_repo_def writes_def logRevoke_def authevent_Log_def
      split: sum.splits prod.splits if_splits)

context inventory_storage begin

text \<open>Each handler either reports success and has removed exactly its scope, or changes nothing.\<close>

lemma kill_client:
  assumes "clients a = I" and "handleSettingsClientRevoke E a now req w = (r, w')"
  shows "v (repo w') = (if revoke_done r then spec_revoke (of_client (PostForm req ''client_id''))
      (\<lambda>k. k = PostForm req ''client_id'') (v (repo w)) else v (repo w))"
    and "revoke_done r \<Longrightarrow> \<exists>u. requireOwnUser E a w = Inr u"
  using assms revoke_labelled_writes [where act = "is_RevokeClient I (PostForm req ''client_id'')" and w = w,
      OF _ revoke_client]
  by (auto simp: handleSettingsClientRevoke_def Let_def dest: requireOwnUser_reply
      split: sum.splits if_splits)

lemma kill_grant:
  assumes "clients a = I" and "handleSettingsGrantRevoke E a now req w = (r, w')"
  shows "v (repo w') = (if revoke_done r then spec_revoke (\<lambda>q. rq_ID q = PostForm req ''request_id'')
      (\<lambda>_. False) (v (repo w)) else v (repo w))"
    and "revoke_done r \<Longrightarrow> \<exists>u. requireOwnUser E a w = Inr u"
  using assms revoke_labelled_writes [where act = "is_RevokeGrant I (PostForm req ''request_id'')" and w = w,
      OF _ revoke_grant]
  by (auto simp: handleSettingsGrantRevoke_def Let_def dest: requireOwnUser_reply
      split: sum.splits if_splits)

lemma kill_all:
  assumes "clients a = I" and "handleSettingsRevokeAll E a req w = (r, w')"
  shows "v (repo w') = (if revoke_done r then spec_revoke (\<lambda>_. True) (\<lambda>_. True) (v (repo w)) else v (repo w))"
    and "revoke_done r \<Longrightarrow> \<exists>u. requireOwnUser E a w = Inr u"
  using assms revoke_all [of "repo w"]
  by (auto simp: handleSettingsRevokeAll_def on_repo_def writes_def logRevoke_def authevent_Log_def
      dest: requireOwnUser_reply split: sum.splits prod.splits if_splits)

lemma kill_switch:
  assumes "clients a = I" and "kill_scope ep req = Some (P, Q)"
    and "(''POST'', ep, chain) \<in> set (auth_SetupRoutes E a clk)" and "serve chain p req w = (Some r, w')"
  shows "v (repo w') = (if revoke_done r then spec_revoke P Q (v (repo w)) else v (repo w))"
    and "revoke_done r \<Longrightarrow> authorized w \<and> csrf_ok req w \<and> (\<exists>u. requireOwnUser E a w = Inr u)"
proof -
  obtain h where h: "chain p = [RequireAuth, RequireCSRF, endpoint h]"
    and sem: "\<And>r w'. h req w = (r, w') \<Longrightarrow>
      v (repo w') = (if revoke_done r then spec_revoke P Q (v (repo w)) else v (repo w)) \<and>
      (revoke_done r \<longrightarrow> (\<exists>u. requireOwnUser E a w = Inr u))"
  proof -
    consider "ep = SettingsClientRevokeEndpoint" | "ep = SettingsGrantRevokeEndpoint" | "ep = SettingsRevokeAllEndpoint"
      using assms(2) by (auto simp: kill_scope_def split: if_splits)
    then show thesis
    proof cases
      case 1
      then have "chain p = [RequireAuth, RequireCSRF, endpoint (handleSettingsClientRevoke E a (clk 0))]"
        using assms(3) by (auto simp: auth_SetupRoutes_def withRateLimit_def auth_endpoint_defs split: if_splits)
      then show thesis
        by (rule that) (use 1 assms(2) kill_client [OF assms(1)] in \<open>auto simp: kill_scope_def\<close>)
    next
      case 2
      then have "chain p = [RequireAuth, RequireCSRF, endpoint (handleSettingsGrantRevoke E a (clk 0))]"
        using assms(3) by (auto simp: auth_SetupRoutes_def withRateLimit_def auth_endpoint_defs split: if_splits)
      then show thesis
        by (rule that) (use 2 assms(2) kill_grant [OF assms(1)] in \<open>auto simp: kill_scope_def auth_endpoint_defs\<close>)
    next
      case 3
      then have "chain p = [RequireAuth, RequireCSRF, endpoint (handleSettingsRevokeAll E a)]"
        using assms(3) by (auto simp: auth_SetupRoutes_def withRateLimit_def auth_endpoint_defs split: if_splits)
      then show thesis
        by (rule that) (use 3 assms(2) kill_all [OF assms(1)] in \<open>auto simp: kill_scope_def auth_endpoint_defs\<close>)
    qed
  qed
  have run: "run_chain [RequireAuth req, RequireCSRF req, endpoint h req] w = (Some r, w')"
    using assms(4) h by (simp add: serve_def)
  have stop: "\<not> revoke_done r" if "\<not> (authorized w \<and> csrf_ok req w)"
  proof (cases "authorized w")
    case True
    then show ?thesis
      using run that RequireAuth_authorized [OF True, of req] by (auto simp: RequireCSRF_eq)
  next
    case False
    then have "\<exists>x. RequireAuth req w = (Some x, w') \<and> r = x"
      using run RequireAuth_pass [of req w] by (cases "RequireAuth req w"; cases "fst (RequireAuth req w)") auto
    then show ?thesis
      by (auto simp: RequireAuth_def sess_get_def Let_def renderError_def panic_reply_def revoke_done_def
          settings_redirect_def auth_endpoint_defs split: option.splits sval.splits if_splits prod.splits bool.splits)
  qed
  from run have "v (repo w') = (if revoke_done r then spec_revoke P Q (v (repo w)) else v (repo w)) \<and>
      (revoke_done r \<longrightarrow> authorized w \<and> csrf_ok req w \<and> (\<exists>u. requireOwnUser E a w = Inr u))"
  proof (rule guarded_chain)
    assume "\<not> (authorized w \<and> submitted_token req \<noteq> [] \<and> sess w SessionKeyCSRF = Some (SStr (submitted_token req)))"
      and "repo w' = repo w"
    then show ?thesis using stop by (auto simp: csrf_ok_def)
  next
    fix x assume "authorized w" "submitted_token req \<noteq> []"
      "sess w SessionKeyCSRF = Some (SStr (submitted_token req))" "h req w = (x, w')" "Some r = Some x"
    then show ?thesis using sem [of x w'] by (simp add: csrf_ok_def)
  qed
  then show "v (repo w') = (if revoke_done r then spec_revoke P Q (v (repo w)) else v (repo w))"
    and "revoke_done r \<Longrightarrow> authorized w \<and> csrf_ok req w \<and> (\<exists>u. requireOwnUser E a w = Inr u)" by blast+
qed

end

context bolt_bucket begin

lemmas kvs_inventory_contract = inventory_storage_axioms
lemmas kvs_kill_switch = kill_switch
lemmas kvs_user_facts = get_user create_user update_user delete_credential list_credentials

end

text \<open>
  C13: the operator's kill switches, from the route to the store.  A request to one of the three
  revocation routes that is answered with success came from an authorized session of the
  operator's own account with its CSRF token, and the store is the old one without exactly the
  records in the route's scope; with any other answer the store is unchanged.
\<close>

theorem kill_switch_exact:
  assumes "inventory_storage I v" and "au_clients a = Some (I, q)"
    and "kill_scope ep req = Some (P, Q)" and "(''POST'', ep, chain) \<in> set (auth_SetupRoutes E a clk)"
    and "serve chain p req w = (Some r, w')"
  shows "(revoke_done r \<longrightarrow> authorized w \<and> csrf_ok req w \<and> (\<exists>u. requireOwnUser E a w = Inr u) \<and>
      v (repo w') = spec_revoke P Q (v (repo w))) \<and>
    (\<not> revoke_done r \<longrightarrow> v (repo w') = v (repo w))"
proof -
  have "clients a = I" using assms(2) by (simp add: clients_def)
  note K = inventory_storage.kill_switch [OF assms(1) this assms(3-5)]
  show ?thesis using K by auto
qed

section \<open>A concrete revocation\<close>

text \<open>The store of \<open>demo_kvs\<close> with the operator's record, and the operator's browser.\<close>

definition demo_operator_kvs :: "ref_bucket kvs" where
  "demo_operator_kvs = demo_kvs\<lparr>kv_bucket := rb_insert (kv_bucket demo_kvs) kvsUserKey (DUser demo_user)\<rparr>"

definition demo_operator_router :: "ref_bucket kvs AuthRouter" where
  "demo_operator_router =
     \<lparr>au_passwordHash = [], au_providers = [], au_noProviderAutoSelect = False, au_userInfoFields = [],
      au_users = Some (kvs_UserStorage ref_bolt), au_clients = Some (kvs_InventoryStorage ref_bolt, \<lambda>_ _. Inr []),
      au_webAuthn = Some demo_relying_party, au_loginRateLimit = None, au_version = []\<rparr>"

definition demo_operator_session :: "string \<rightharpoonup> sval" where
  "demo_operator_session =
     [SessionKeyCSRF \<mapsto> SStr ''t'', SessionKeyUserID \<mapsto> SStr ''u'', SessionKeyAuthorized \<mapsto> SBool True]"

definition demo_operator_world :: "ref_bucket kvs world" where
  "demo_operator_world = demo_browser demo_operator_session demo_operator_kvs None"

definition demo_revoke_form :: HttpRequest where
  "demo_revoke_form = demo_form [(''csrf_token'', [''t'']), (''client_id'', [''a''])]"

lemma demo_revoke_handled:
  "fst (handleSettingsClientRevoke demo_auth_env demo_operator_router 0 demo_revoke_form demo_operator_world) =
     settings_redirect ''revoked''"
proof -
  have own: "requireOwnUser demo_auth_env demo_operator_router demo_operator_world =
      Inr (\<lparr>wu_user = demo_user, wu_credentials = []\<rparr>, [])"
    by (simp add: requireOwnUser_def loadWebAuthnUser_def ask_repo_def demo_operator_router_def users_def
        kvs_UserStorage_def kvs_GetUser_def kvs_ListWebAuthnCredentials_def kvs_eval demo_operator_world_def
        demo_browser_def demo_operator_kvs_def demo_kvs_def demo_user_def sess_string_def sess_get_def
        demo_operator_session_def session_key_defs)
  have rev: "fst (kvs_RevokeClient ref_bolt ''a'' demo_operator_kvs) = Inr 2"
    by (simp add: kvs_RevokeClient_def revoke_def kvs_eval demo_operator_kvs_def demo_kvs_def staleRecords_def
        sessionPrefixes_def scanRequests_def scanAuthorizeRequests_def scanPrefix_def of_client_code
        demo_request_def demo_client_def)
  have label: "labelOf demo_operator_router 0 ''a'' [] demo_operator_world = Inr []"
    by (simp add: labelOf_def ask_repo_def ListClientGrants_def demo_operator_router_def)
  have act: "is_RevokeClient (clients demo_operator_router) = kvs_RevokeClient ref_bolt"
    "repo demo_operator_world = demo_operator_kvs"
    by (simp_all add: demo_operator_router_def clients_def kvs_InventoryStorage_def demo_operator_world_def
        demo_browser_def)
  have form: "PostForm demo_revoke_form ''client_id'' = ''a''" by (simp add: demo_revoke_form_def values_Get_def)
  show ?thesis
    unfolding handleSettingsClientRevoke_def own form
    using rev by (simp add: Let_def label revoke_labelled_def on_repo_eq act)
qed

lemma demo_revoke_served:
  "\<exists>w'. serve (\<lambda>_. [RequireAuth, RequireCSRF, endpoint (handleSettingsClientRevoke demo_auth_env demo_operator_router 0)])
      [] demo_revoke_form demo_operator_world = (Some (settings_redirect ''revoked''), w')"
proof -
  have "authorized demo_operator_world" "csrf_ok demo_revoke_form demo_operator_world"
    by (simp_all add: authorized_def csrf_ok_def submitted_token_def demo_revoke_form_def CSRFFieldName_def
        values_Get_def demo_operator_world_def demo_browser_def demo_operator_session_def session_key_defs)
  then show ?thesis
    using demo_revoke_handled
    by (cases "handleSettingsClientRevoke demo_auth_env demo_operator_router 0 demo_revoke_form demo_operator_world")
       (simp add: serve_def RequireAuth_authorized RequireCSRF_eq endpoint_def final_handler_def)
qed

lemma demo_revoke_route:
  "kill_scope SettingsClientRevokeEndpoint demo_revoke_form = Some (of_client ''a'', \<lambda>k. k = ''a'')"
  "(''POST'', SettingsClientRevokeEndpoint, \<lambda>_. [RequireAuth, RequireCSRF,
       endpoint (handleSettingsClientRevoke demo_auth_env demo_operator_router 0)]) \<in>
     set (auth_SetupRoutes demo_auth_env demo_operator_router (\<lambda>_. 0))"
  "au_clients demo_operator_router = Some (kvs_InventoryStorage ref_bolt, \<lambda>_ _. Inr [])"
  by (simp_all add: kill_scope_def demo_revoke_form_def values_Get_def auth_SetupRoutes_def demo_operator_router_def)

theorem kill_switch_exact_witness:
  "\<exists>w'. serve (\<lambda>_. [RequireAuth, RequireCSRF,
        endpoint (handleSettingsClientRevoke demo_auth_env demo_operator_router 0)]) [] demo_revoke_form demo_operator_world =
      (Some (settings_redirect ''revoked''), w') \<and>
    kview ref_bolt (repo w') = spec_revoke (of_client ''a'') (\<lambda>k. k = ''a'') (kview ref_bolt demo_operator_kvs)"
proof -
  obtain w' where run: "serve (\<lambda>_. [RequireAuth, RequireCSRF,
      endpoint (handleSettingsClientRevoke demo_auth_env demo_operator_router 0)]) [] demo_revoke_form
      demo_operator_world = (Some (settings_redirect ''revoked''), w')"
    using demo_revoke_served by blast
  from kill_switch_exact [OF bolt_bucket.kvs_inventory_contract [OF reference.bolt_bucket_axioms]
      demo_revoke_route(3,1,2) run] run
  show ?thesis by (auto simp: demo_operator_world_def demo_browser_def)
qed

end
