(* ===== verification/ProxyProps.thy ===== *)
theory ProxyProps
  imports Proxy SettingsProps KeysProps
begin

text \<open>
  What reaches the upstream: only requests with a token that a key of the manager signed for this
  gateway and whose record is still stored, with headers the client cannot choose; and that a
  revocation takes effect at once while a valid token is served until it expires.
\<close>

section \<open>The contract of the JWT parser\<close>

text \<open>The claims an accepted token carries: this issuer, this audience, not expired.\<close>

definition claims_valid :: "(claims \<Rightarrow> time option) \<Rightarrow> jwt_options \<Rightarrow> time \<Rightarrow> claims \<Rightarrow> bool" where
  "claims_valid exp_of opts now cs \<longleftrightarrow>
     map_of cs ''iss'' = Some (JStr (jo_Issuer opts)) \<and>
     (case map_of cs ''aud'' of None \<Rightarrow> False | Some v \<Rightarrow> jo_Audience opts \<in> strings_of v) \<and>
     (case exp_of cs of None \<Rightarrow> \<not> jo_ExpirationRequired opts | Some e \<Rightarrow> now < e + jo_Leeway opts)"

locale jwt_library =
  fixes parse :: jwt_parser and header :: "string \<Rightarrow> jwt_token option" and payload :: "string \<Rightarrow> claims option"
    and sig_ok :: "pubkey \<Rightarrow> string \<Rightarrow> bool" and exp_of :: "claims \<Rightarrow> time option"
  assumes parse_sound: "parse tok keyf opts now = Inr cs \<Longrightarrow>
      \<exists>t pub. header tok = Some t \<and> keyf t = Inr pub \<and> sig_ok pub tok \<and> payload tok = Some cs \<and>
        claims_valid exp_of opts now cs"
    and parse_complete: "header tok = Some t \<Longrightarrow> keyf t = Inr pub \<Longrightarrow> sig_ok pub tok \<Longrightarrow>
      payload tok = Some cs \<Longrightarrow> claims_valid exp_of opts now cs \<Longrightarrow> parse tok keyf opts now = Inr cs"

definition ref_parse ::
  "(string \<Rightarrow> jwt_token option) \<Rightarrow> (string \<Rightarrow> claims option) \<Rightarrow> (pubkey \<Rightarrow> string \<Rightarrow> bool) \<Rightarrow>
     (claims \<Rightarrow> time option) \<Rightarrow> jwt_parser" where
  "ref_parse header payload sig_ok exp_of tok keyf opts now =
     (case header tok of
        None \<Rightarrow> Inl ErrDecode
      | Some t \<Rightarrow> res_bind (keyf t) (\<lambda>pub.
          if \<not> sig_ok pub tok then Inl (ErrMsg ''signature'')
          else (case payload tok of
                  None \<Rightarrow> Inl ErrDecode
                | Some cs \<Rightarrow> if claims_valid exp_of opts now cs then Inr cs else Inl (ErrMsg ''claims''))))"

interpretation reference_jwt: jwt_library "ref_parse header payload sig_ok exp_of" header payload sig_ok exp_of
  for header payload sig_ok exp_of
  by unfold_locales (auto simp: ref_parse_def res_bind_Inr split: option.splits if_splits)

section \<open>What is forwarded\<close>

lemma has_prefix_iff: "has_prefix s p \<longleftrightarrow> (\<exists>r. s = p @ r)"
  by (auto elim: has_prefixE)

lemma trim_prefix_append: "trim_prefix (p @ r) p = r"
  by (simp add: trim_prefix_def)

lemma handleProxy_forwarded:
  "handleProxy p order now req s = Forwarded req' \<longleftrightarrow>
     (\<forall>prefix \<in> set reservedPrefixes. \<not> has_prefix (in_Path req) prefix) \<and>
     (\<exists>tok cs. hdr_Get (in_Header req) ''Authorization'' = ''Bearer '' @ tok \<and>
        pc_Parse p tok (proxy_key p) (parse_options p) now = Inr cs \<and> check_active p tok s = None \<and>
        \<not> (pc_HTTPStreamingOnly p \<and> isSSEGetRequest req) \<and>
        req' = req\<lparr>in_Header := upstream_header p order cs (in_Header req)\<rparr>)"
proof -
  let ?h = "hdr_Get (in_Header req) ''Authorization''"
  have ab: "abortUnauthorized p c d \<noteq> Forwarded x" for c d x by (simp add: abortUnauthorized_def Let_def)
  have ca: "check_active p tok s \<noteq> Some (Forwarded x)" for tok x
    by (auto simp: check_active_def ab split: option.splits sum.splits if_splits)
  note pre = has_prefix_iff [of ?h "''Bearer ''"]
  note trim = trim_prefix_append [of "''Bearer ''"]
  show ?thesis
  proof (cases "list_ex (has_prefix (in_Path req)) reservedPrefixes")
    case True
    then show ?thesis by (auto simp: handleProxy_def list_ex_iff)
  next
    case False
    then have nr: "\<forall>prefix \<in> set reservedPrefixes. \<not> has_prefix (in_Path req) prefix" by (simp add: list_ex_iff)
    show ?thesis
    proof (cases "\<exists>tok. ?h = ''Bearer '' @ tok")
      case None: False
      then have "handleProxy p order now req s = abortUnauthorized p [] []"
        using False unfolding handleProxy_def Let_def pre by (simp only: if_False not_False_eq_True if_True)
      then show ?thesis using None ab by auto
    next
      case True
      then obtain tok where tok: "?h = ''Bearer '' @ tok" by blast
      have uniq: "(\<exists>t cs. ?h = ''Bearer '' @ t \<and> Q t cs) \<longleftrightarrow> (\<exists>cs. Q tok cs)" for Q using tok by auto
      have run: "handleProxy p order now req s =
          (case pc_Parse p tok (proxy_key p) (parse_options p) now of
             Inl _ \<Rightarrow> abortUnauthorized p ''invalid_token'' ''the access token is invalid or expired''
           | Inr cs \<Rightarrow>
               (case check_active p tok s of
                  Some out \<Rightarrow> out
                | None \<Rightarrow>
                    if pc_HTTPStreamingOnly p \<and> isSSEGetRequest req then
                      Refused 405 [(''error'',
                        ''SSE (GET) streaming is not supported by this backend; use POST-based HTTP streaming instead'')]
                    else Forwarded (req\<lparr>in_Header := upstream_header p order cs (in_Header req)\<rparr>)))"
        using False True unfolding handleProxy_def Let_def pre
        by (simp only: if_False not_True_eq_False tok trim)
      show ?thesis
        using nr ab ca unfolding uniq run by (auto split: sum.splits option.splits)
    qed
  qed
qed

text \<open>The wiring of \<open>newProxySurface\<close>: the keys of the manager and the records of the repository.\<close>

definition wired :: "'s proxy_Config \<Rightarrow> Manager \<Rightarrow> 's SessionStorage \<Rightarrow> jwt_parser \<Rightarrow> bool" where
  "wired p m S parse \<longleftrightarrow>
     pc_VerificationKey p = Some (VerificationKey m) \<and> pc_TokenActive p = Some (tokenActiveChecker S) \<and>
     pc_Parse p = parse"

lemma proxy_key_decode:
  "pc_VerificationKey p = Some (VerificationKey m) \<Longrightarrow> proxy_key p t = Inr pub \<longleftrightarrow> decode_key m t = Inr pub"
  by (auto simp: proxy_key_def decode_key_def Let_def split: option.splits if_splits prod.splits)

lemma decode_key_held:
  assumes "decode_key m t = Inr pub"
  shows "\<exists>sk \<in> set (keys_of m). jt_Kid t = Some (sk_Kid sk) \<and> sk_Kid sk \<noteq> [] \<and> jt_Method t = sk_Alg sk \<and>
    pub = Public (sk_Key sk)"
proof -
  obtain kid where k: "jt_Kid t = Some kid" "kid \<noteq> []"
    using assms by (cases "jt_Kid t") (auto simp: decode_key_def VerificationKey_def split: if_splits)
  have v: "VerificationKey m kid = Some (pub, jt_Method t)"
    using assms k by (auto simp: decode_key_def split: option.splits if_splits)
  show ?thesis
  proof (cases "kid = sk_Kid (m_active m)")
    case True
    then show ?thesis using v k by (intro bexI [of _ "m_active m"]) (auto simp: VerificationKey_def keys_of_def)
  next
    case False
    then obtain r rs where "filter (\<lambda>r. kid = sk_Kid (rk_Key r)) (m_retiring m) = r # rs"
      "Public (sk_Key (rk_Key r)) = pub" "sk_Alg (rk_Key r) = jt_Method t"
      using v k(2) by (auto simp: VerificationKey_def split: list.splits)
    then show ?thesis
      using filter_head [of _ "m_retiring m" r rs] k by (intro bexI [of _ "rk_Key r"]) (auto simp: keys_of_def)
  qed
qed

lemma tokenActive_iff:
  "tokenActiveChecker S tok s = Inr () \<longleftrightarrow>
     (\<exists>x y sig q. split_char tok (CHR ''.'') = [x, y, sig] \<and> ss_get S AccessToken sig None s = Inr q)"
proof -
  have three: "length xs = 3 \<longleftrightarrow> (\<exists>x y z. xs = [x, y, z])" for xs :: "string list"
    by (auto simp: length_Suc_conv numeral_3_eq_3)
  show ?thesis by (auto simp: tokenActiveChecker_def Let_def three split: sum.splits)
qed

text \<open>What the proxy relies on of the store: only a stored record is found.\<close>

locale token_lookup =
  fixes S :: "'s SessionStorage" and v :: "'s \<Rightarrow> store"
  assumes lookup: "ss_get S AccessToken k se s = Inr q \<Longrightarrow> v s AccessToken k \<noteq> None"

context bolt_bucket begin

lemma kvs_get_token: "ss_get (kvs_SessionStorage B) AccessToken k sn s = spec_request (kview B s) AccessToken k sn"
  by (rule get_session [where k = k and s = s]) (simp add: session_families_def)

lemma kvs_lookup: "token_lookup (kvs_SessionStorage B) (kview B)"
  by unfold_locales (auto simp: kvs_get_token spec_request_def get_doc_def split: option.splits)

end

sublocale bolt_bucket \<subseteq> tokens: token_lookup "kvs_SessionStorage B" "kview B"
  by (rule kvs_lookup)


text \<open>
  C24: a store that cannot answer never lets a request through.  If the lookup of the token's record
  fails with anything but \<open>not found\<close>, an otherwise valid request is answered 503.
\<close>

theorem proxy_fails_closed:
  assumes "pc_TokenActive p = Some (tokenActiveChecker S)"
    and "hdr_Get (in_Header req) ''Authorization'' = ''Bearer '' @ tok"
    and "split_char tok (CHR ''.'') = [x, y, sig]"
    and "ss_get S AccessToken sig None s = Inl e" and "e \<noteq> ErrNotFound" and "e \<noteq> ErrPanic" and "e \<noteq> ErrTokenInactive"
    and "list_all (\<lambda>prefix. \<not> has_prefix (in_Path req) prefix) reservedPrefixes"
    and "pc_Parse p tok (proxy_key p) (parse_options p) now = Inr cs"
  shows "handleProxy p order now req s = Refused 503 [(''error'', ''temporarily_unavailable'')]"
proof -
  have "check_active p tok s = Some (Refused 503 [(''error'', ''temporarily_unavailable'')])"
    using assms(1,3-7) by (simp add: check_active_def tokenActiveChecker_def)
  moreover have "\<not> list_ex (has_prefix (in_Path req)) reservedPrefixes"
    using assms(8) by (auto simp: list_ex_iff list_all_iff)
  ultimately show ?thesis
    unfolding handleProxy_def Let_def assms(2) has_prefix_iff [of _ "''Bearer ''"] trim_prefix_append assms(9)
    by simp
qed

section \<open>Headers\<close>

text \<open>The mapped values for a header name, in the order of the iteration, and the configured
  values: what the code puts there, whatever the client sent.\<close>

definition mapped_for ::
  "'s proxy_Config \<Rightarrow> ((string \<times> string) list \<Rightarrow> (string \<times> string) list) \<Rightarrow> claims \<Rightarrow> string \<Rightarrow> string list" where
  "mapped_for p order cs j =
     (case mapping_source p cs of
        None \<Rightarrow> []
      | Some source \<Rightarrow>
          concat (map (\<lambda>(pointer, n). if CanonicalHeaderKey n = CanonicalHeaderKey j then
              (case pc_Pointer p source pointer of None \<Rightarrow> [] | Some v \<Rightarrow> [mapped_value v]) else [])
            (order (pc_HeaderMapping p))))"

definition injected_for :: "'s proxy_Config \<Rightarrow> string \<Rightarrow> string list list" where
  "injected_for p j =
     map snd (filter (\<lambda>(k, _). CanonicalHeaderKey k = CanonicalHeaderKey j) (pc_ProxyHeaders p))"

text \<open>The names the client has no say in.\<close>

definition owned :: "'s proxy_Config \<Rightarrow> string \<Rightarrow> bool" where
  "owned p j \<longleftrightarrow> CanonicalHeaderKey j \<in> CanonicalHeaderKey ` (fst ` set (pc_ProxyHeaders p) \<union> snd ` set (pc_HeaderMapping p)) \<or>
     (\<not> pc_ForwardAuthorizationHeader p \<and> CanonicalHeaderKey j = CanonicalHeaderKey ''Authorization'')"

lemma values_del_mapping:
  "hdr_Values (fold (\<lambda>(_, n). hdr_Del n) ms h) j =
     (if CanonicalHeaderKey j \<in> CanonicalHeaderKey ` snd ` set ms then [] else hdr_Values h j)"
  by (induction ms arbitrary: h) auto

lemma values_inject:
  "hdr_Values (inject_header kv h) j = (if CanonicalHeaderKey j = CanonicalHeaderKey (fst kv) then snd kv else hdr_Values h j)"
  by (simp add: inject_header_def hdr_Values_Add_all)

lemma values_inject_all:
  "hdr_Values (fold inject_header hs h) j =
     (case rev (map snd (filter (\<lambda>(k, _). CanonicalHeaderKey k = CanonicalHeaderKey j) hs)) of
        [] \<Rightarrow> hdr_Values h j | vs # _ \<Rightarrow> vs)"
proof (induction hs rule: rev_induct)
  case (snoc kv hs)
  then show ?case by (cases kv) (auto simp: values_inject)
qed simp

lemma values_set_mapped:
  "hdr_Values (fold (set_mapped p source) ms h) j =
     (case rev (concat (map (\<lambda>(pointer, n). if CanonicalHeaderKey n = CanonicalHeaderKey j then
              (case pc_Pointer p source pointer of None \<Rightarrow> [] | Some v \<Rightarrow> [mapped_value v]) else []) ms)) of
        [] \<Rightarrow> hdr_Values h j | v # _ \<Rightarrow> [v])"
proof (induction ms rule: rev_induct)
  case (snoc m ms)
  show ?case
    using snoc by (cases m) (auto simp: set_mapped_def split: option.splits)
qed simp

text \<open>
  C25: the headers of the upstream request, name by name.  The last mapped claim wins, then the
  configured values; a mapped name without a claim and (unless forwarding is on) the client's
  \<open>Authorization\<close> are empty; only a name that is none of these carries what the client sent.  So no
  client can choose a value for a name the gateway owns.
\<close>

theorem upstream_headers_exact:
  assumes "mset (order (pc_HeaderMapping p)) = mset (pc_HeaderMapping p)"
  shows "hdr_Values (upstream_header p order cs h) j =
    (case rev (mapped_for p order cs j) of
       v # _ \<Rightarrow> [v]
     | [] \<Rightarrow> (case rev (injected_for p j) of
           vs # _ \<Rightarrow> vs
         | [] \<Rightarrow> if owned p j then [] else hdr_Values h j))"
proof -
  define h1 where "h1 = (if \<not> pc_ForwardAuthorizationHeader p then hdr_Del ''Authorization'' h else h)"
  define h2 where "h2 = fold (\<lambda>(_, n). hdr_Del n) (pc_HeaderMapping p) h1"
  define h3 where "h3 = fold inject_header (pc_ProxyHeaders p) h2"
  have h2: "hdr_Values h2 j = (if owned p j then [] else hdr_Values h j)" if "injected_for p j = []"
  proof -
    have "CanonicalHeaderKey j \<notin> CanonicalHeaderKey ` fst ` set (pc_ProxyHeaders p)"
      using that by (force simp: injected_for_def filter_empty_conv)
    then show ?thesis
      by (simp add: h2_def values_del_mapping h1_def owned_def image_Un)
  qed
  have h3: "hdr_Values h3 j = (case rev (injected_for p j) of vs # _ \<Rightarrow> vs
      | [] \<Rightarrow> if owned p j then [] else hdr_Values h j)"
    using h2 by (simp add: h3_def values_inject_all injected_for_def split: list.splits)
  have empty: "order (pc_HeaderMapping p) = []" if "pc_HeaderMapping p = []"
    using assms that by (metis mset_zero_iff)
  have "hdr_Values (map_headers p order cs h3) j =
      (case rev (mapped_for p order cs j) of v # _ \<Rightarrow> [v] | [] \<Rightarrow> hdr_Values h3 j)"
  proof (cases "pc_HeaderMapping p = []")
    case True
    have "map_headers p order cs h3 = h3" using True by (simp add: map_headers_def)
    moreover have "mapped_for p order cs j = []"
      unfolding mapped_for_def empty [OF True] by (simp split: option.splits)
    ultimately show ?thesis by simp
  next
    case False
    then show ?thesis
      by (auto simp: map_headers_def mapped_for_def values_set_mapped split: option.splits)
  qed
  then show ?thesis
    using h3 by (simp add: upstream_header_def h1_def h2_def h3_def split: list.splits)
qed

section \<open>Revocation takes effect at once\<close>

lemma revoked_record:
  assumes "V AccessToken sig = Some (DRequest q)" and "P q"
  shows "spec_revoke P Q V AccessToken sig = None"
  using assms by (simp add: spec_revoke_def revoke_hits_def session_families_def)

text \<open>
  The kill switch, end to end.  Once a revocation on the settings page is answered with success,
  every token whose record was in its scope is refused by the proxy: 401, or 404 inside the
  gateway's own namespaces.  A token whose record was not in the scope is checked as before.
\<close>

theorem kill_switch_end_to_end:
  assumes "bolt_bucket B" and "au_clients a = Some (kvs_InventoryStorage B, lst)"
    and "kill_scope ep req = Some (P, Q)" and "(''POST'', ep, chain) \<in> set (auth_SetupRoutes E a clk)"
    and "serve chain pm req w = (Some r, w')" and "revoke_done r"
    and "pc_TokenActive px = Some (tokenActiveChecker (kvs_SessionStorage B))"
    and "split_char tok (CHR ''.'') = [x, y, sig]" and "kview B (repo w) AccessToken sig = Some (DRequest q)"
    and "hdr_Get (in_Header preq) ''Authorization'' = ''Bearer '' @ tok"
  shows "(P q \<longrightarrow> handleProxy px order now preq (repo w') = Refused 404 [(''error'', ''not_found'')] \<or>
      (\<exists>challenge fields. handleProxy px order now preq (repo w') = Unauthorized challenge fields)) \<and>
    (\<not> P q \<longrightarrow> handleProxy px order now preq (repo w') = handleProxy px order now preq (repo w))"
proof -
  have "clients a = kvs_InventoryStorage B" using assms(2) by (simp add: clients_def)
  note K = bolt_bucket.kvs_kill_switch(1) [OF assms(1) this assms(3-5)]
  have v: "kview B (repo w') = spec_revoke P Q (kview B (repo w))" using K assms(6) by simp
  note get = bolt_bucket.kvs_get_token [OF assms(1)]
  note run = handleProxy_def Let_def assms(10) has_prefix_iff [of _ "''Bearer ''"] trim_prefix_append
  have ab: "\<exists>challenge fields. abortUnauthorized px c d = Unauthorized challenge fields" for c d
    by (simp add: abortUnauthorized_def Let_def)
  show ?thesis
  proof (intro conjI impI)
    assume "P q"
    with v assms(9) have "kview B (repo w') AccessToken sig = None" by (simp add: revoked_record)
    then have "check_active px tok (repo w') = Some (abortUnauthorized px ''invalid_token'' ''the access token has been revoked'')"
      using assms(7,8) by (simp add: check_active_def tokenActiveChecker_def get spec_request_absent)
    then show "handleProxy px order now preq (repo w') = Refused 404 [(''error'', ''not_found'')] \<or>
        (\<exists>challenge fields. handleProxy px order now preq (repo w') = Unauthorized challenge fields)"
      using ab unfolding run by (auto split: sum.splits)
  next
    assume "\<not> P q"
    with assms(9) have "kview B (repo w') AccessToken sig = kview B (repo w) AccessToken sig"
      by (simp add: v spec_revoke_def revoke_hits_def session_families_def)
    then have "check_active px tok (repo w') = check_active px tok (repo w)"
      using assms(7,8) by (simp add: check_active_def tokenActiveChecker_def get spec_request_def get_doc_def)
    then show "handleProxy px order now preq (repo w') = handleProxy px order now preq (repo w)"
      unfolding run by (simp split: sum.splits)
  qed
qed

section \<open>A valid token is served\<close>

lemma active_key_verifies:
  assumes "key_library L" and "good L m e" and "fresh_run L as (m, e)"
    and "0 < kc_RetireWindow (m_cfg m)" and "key_run L as (m, e) = (m', e')"
    and "\<forall>a \<in> set as. t \<le> op_time a \<and> op_time a < t + kc_RetireWindow (m_cfg m)"
  shows "VerificationKey m' (sk_Kid (m_active m)) = Some (Public (sk_Key (m_active m)), sk_Alg (m_active m))"
    and "sk_Kid (m_active m) \<noteq> []"
proof -
  have h: "good L m' e' \<and> held (m_active m) (t + kc_RetireWindow (m_cfg m)) m'"
    using assms(6) by (intro key_library.key_run_held [OF assms(1,5,2,3,4)]) (auto simp: held_def)
  show ne: "sk_Kid (m_active m) \<noteq> []"
    using assms(2) by (simp add: good_def synced_def keys_of_def key_ok_def)
  show "VerificationKey m' (sk_Kid (m_active m)) = Some (Public (sk_Key (m_active m)), sk_Alg (m_active m))"
    using h ne held_verifies by (auto simp: good_def)
qed

text \<open>A token this gateway issued at time \<open>t\<close> with the active key of \<open>m\<close>.\<close>

definition issued ::
  "(string \<Rightarrow> jwt_token option) \<Rightarrow> (string \<Rightarrow> claims option) \<Rightarrow> (pubkey \<Rightarrow> string \<Rightarrow> bool) \<Rightarrow> (claims \<Rightarrow> time option) \<Rightarrow>
     string \<Rightarrow> Manager \<Rightarrow> time \<Rightarrow> string \<Rightarrow> claims \<Rightarrow> bool" where
  "issued header payload sig_ok exp_of issuer m expiry tok cs \<longleftrightarrow>
     (\<exists>raw. header tok = Some \<lparr>jt_Method = sk_Alg (m_active m), jt_Kid = Some (sk_Kid (m_active m)), jt_Raw = raw\<rparr>) \<and>
     sig_ok (Public (sk_Key (m_active m))) tok \<and> payload tok = Some cs \<and> exp_of cs = Some expiry \<and>
     map_of cs ''iss'' = Some (JStr issuer) \<and> map_of cs ''aud'' = Some (JArr [JStr issuer])"

lemma issued_forwarded:
  assumes "jwt_library parse header payload sig_ok exp_of" and "wired p m' S parse"
    and "VerificationKey m' (sk_Kid (m_active m)) = Some (Public (sk_Key (m_active m)), sk_Alg (m_active m))"
    and "issued header payload sig_ok exp_of (pc_ExternalURL p) m expiry tok cs"
    and "now < expiry + pc_ClockSkew p"
    and "split_char tok (CHR ''.'') = [x, y, sig]" and "ss_get S AccessToken sig None s = Inr q"
    and "hdr_Get (in_Header req) ''Authorization'' = ''Bearer '' @ tok"
    and "\<not> list_ex (has_prefix (in_Path req)) reservedPrefixes" and "\<not> (pc_HTTPStreamingOnly p \<and> isSSEGetRequest req)"
  shows "handleProxy p order now req s = Forwarded (req\<lparr>in_Header := upstream_header p order cs (in_Header req)\<rparr>)"
proof -
  have W: "pc_VerificationKey p = Some (VerificationKey m')" "pc_Parse p = parse"
    "pc_TokenActive p = Some (tokenActiveChecker S)" using assms(2) by (simp_all add: wired_def)
  obtain raw where h: "header tok = Some \<lparr>jt_Method = sk_Alg (m_active m), jt_Kid = Some (sk_Kid (m_active m)), jt_Raw = raw\<rparr>"
    and sg: "sig_ok (Public (sk_Key (m_active m))) tok" and pl: "payload tok = Some cs"
    and cl: "exp_of cs = Some expiry" "map_of cs ''iss'' = Some (JStr (pc_ExternalURL p))"
      "map_of cs ''aud'' = Some (JArr [JStr (pc_ExternalURL p)])"
    using assms(4) by (auto simp: issued_def)
  have key: "proxy_key p \<lparr>jt_Method = sk_Alg (m_active m), jt_Kid = Some (sk_Kid (m_active m)), jt_Raw = raw\<rparr> =
      Inr (Public (sk_Key (m_active m)))" using assms(3) by (simp add: proxy_key_def W)
  have "claims_valid exp_of (parse_options p) now cs"
    using cl assms(5) by (simp add: claims_valid_def parse_options_def strings_of_def)
  then have parsed: "pc_Parse p tok (proxy_key p) (parse_options p) now = Inr cs"
    unfolding W(2)
    by (rule jwt_library.parse_complete [where header = header and t = "\<lparr>jt_Method = sk_Alg (m_active m),
      jt_Kid = Some (sk_Kid (m_active m)), jt_Raw = raw\<rparr>" and keyf = "proxy_key p" and opts = "parse_options p",
      OF assms(1) h key sg pl])
  have "check_active p tok s = None"
    using W(3) assms(6,7) by (simp add: check_active_def tokenActiveChecker_def)
  with parsed show ?thesis
    unfolding handleProxy_def Let_def assms(8) has_prefix_iff [of _ "''Bearer ''"] trim_prefix_append
    using assms(9,10) by simp
qed

text \<open>
  A token works until it expires, whatever happens to the keys.  Take a token issued at \<open>t\<close> with
  the access token lifetime \<open>ttl\<close>, and let maintenance passes and rotations run, failing or not, at
  any times from \<open>t\<close> to \<open>now\<close>.  With the retire window of \<open>openKeyManager\<close> the proxy forwards the
  request at every \<open>now\<close> before the expiry (plus the clock skew), as long as the record is stored.
\<close>

theorem valid_token_served:
  assumes "key_library L" and "good L m e" and "fresh_run L as (m, e)" and "key_run L as (m, e) = (m', e')"
    and "kc_RetireWindow (m_cfg m) = ttl + 2 * pc_ClockSkew p" and "0 < ttl" and "0 \<le> pc_ClockSkew p"
    and "\<forall>a \<in> set as. t \<le> op_time a \<and> op_time a \<le> now" and "now < t + ttl + pc_ClockSkew p"
    and "jwt_library parse header payload sig_ok exp_of" and "wired p m' S parse"
    and "issued header payload sig_ok exp_of (pc_ExternalURL p) m (t + ttl) tok cs"
    and "split_char tok (CHR ''.'') = [x, y, sig]" and "ss_get S AccessToken sig None s = Inr q"
    and "hdr_Get (in_Header req) ''Authorization'' = ''Bearer '' @ tok"
    and "\<not> list_ex (has_prefix (in_Path req)) reservedPrefixes" and "\<not> (pc_HTTPStreamingOnly p \<and> isSSEGetRequest req)"
  shows "handleProxy p order now req s = Forwarded (req\<lparr>in_Header := upstream_header p order cs (in_Header req)\<rparr>)"
proof -
  have window: "\<forall>a \<in> set as. t \<le> op_time a \<and> op_time a < t + kc_RetireWindow (m_cfg m)"
    using assms(5-9) by auto
  have pos: "0 < kc_RetireWindow (m_cfg m)" using assms(5-7) by simp
  have "now < (t + ttl) + pc_ClockSkew p" using assms(9) by simp
  from issued_forwarded [OF assms(10,11) active_key_verifies(1) [OF assms(1-3) pos assms(4) window] assms(12) this
      assms(13-17)]
  show ?thesis .
qed

section \<open>A concrete gateway\<close>

text \<open>A token that \<open>demo_manager\<close> signed, and a proxy in front of the store of \<open>demo_kvs\<close>.\<close>

definition demo_claims :: claims where
  "demo_claims = [(''iss'', JStr ''https://g''), (''aud'', JArr [JStr ''https://g'']), (''sub'', JStr ''me'')]"

definition demo_jwt :: jwt_parser where
  "demo_jwt = ref_parse
     (\<lambda>tok. if tok = ''h.p.s'' then Some \<lparr>jt_Method = AlgES256, jt_Kid = Some ''ka'', jt_Raw = []\<rparr> else None)
     (\<lambda>tok. Some demo_claims) (\<lambda>pub tok. pub = ECPub ''P-256'' ''a'') (\<lambda>cs. Some 13)"

definition demo_proxy :: "Manager \<Rightarrow> ref_bucket kvs proxy_Config" where
  "demo_proxy m =
     \<lparr>pc_ExternalURL = ''https://g'', pc_VerificationKey = Some (VerificationKey m),
      pc_ProxyHeaders = [(''X-Key'', [''k''])], pc_HTTPStreamingOnly = False, pc_ForwardAuthorizationHeader = False,
      pc_HeaderMapping = [(''/sub'', ''X-User'')], pc_HeaderMappingBase = ''/'', pc_ClockSkew = 1,
      pc_TokenActive = Some (tokenActiveChecker (kvs_SessionStorage ref_bolt)), pc_Parse = demo_jwt,
      pc_Pointer = (\<lambda>j q. case j of JObj fs \<Rightarrow> map_of fs (tl q) | _ \<Rightarrow> None)\<rparr>"

definition demo_bearer :: HttpRequest where
  "demo_bearer = (demo_form [])\<lparr>in_Path := ''/mcp'', in_Header := [(''Authorization'', [''Bearer h.p.s''])]\<rparr>"

lemma demo_wired: "wired (demo_proxy m) m (kvs_SessionStorage ref_bolt) demo_jwt"
  by (simp add: wired_def demo_proxy_def)

lemmas demo_jwt_library = reference_jwt.jwt_library_axioms [of
     "\<lambda>tok. if tok = ''h.p.s'' then Some \<lparr>jt_Method = AlgES256, jt_Kid = Some ''ka'', jt_Raw = []\<rparr> else None"
     "\<lambda>tok. Some demo_claims" "\<lambda>pub tok. pub = ECPub ''P-256'' ''a''" "\<lambda>cs. Some 13", folded demo_jwt_def]

lemma demo_bearer_auth: "hdr_Get (in_Header demo_bearer) ''Authorization'' = ''Bearer '' @ ''h.p.s''"
  by (simp add: demo_bearer_def demo_form_def hdr_Get_def hdr_Values_def CanonicalHeaderKey_def field_byte_def
      lower_byte_def upper_byte_def)

lemma demo_split: "split_char ''h.p.s'' (CHR ''.'') = [''h'', ''p'', ''s'']"
  by simp

lemma demo_bearer_path: "\<not> list_ex (has_prefix (in_Path demo_bearer)) reservedPrefixes"
  by (simp add: demo_bearer_def reservedPrefixes_def)

lemma demo_record:
  "kview ref_bolt demo_kvs AccessToken ''s'' = Some (DRequest (demo_request ''r'' ''a'' 3))"
  by (simp add: kview_def bview_def demo_kvs_def ref_bolt_def family_prefix.simps prefix_defs)

lemma demo_valid: "demo_jwt ''h.p.s'' (proxy_key (demo_proxy demo_manager)) (parse_options (demo_proxy demo_manager)) 12 = Inr demo_claims"
  by (simp add: demo_jwt_def ref_parse_def proxy_key_def demo_proxy_def VerificationKey_def demo_manager_def demo_key_def
      claims_valid_def parse_options_def demo_claims_def strings_of_def)

lemma demo_got: "\<exists>q. ss_get (kvs_SessionStorage ref_bolt) AccessToken ''s'' None demo_kvs = Inr q"
  by (simp add: bolt_bucket.kvs_get_token [OF reference.bolt_bucket_axioms] spec_request_def get_doc_def demo_record
      demo_request_def load_request_def ToFositeReq_def restoreSession_def demo_client_def)

lemma demo_forwarded:
  "handleProxy (demo_proxy demo_manager) id 12 demo_bearer demo_kvs =
     Forwarded (demo_bearer\<lparr>in_Header := upstream_header (demo_proxy demo_manager) id demo_claims (in_Header demo_bearer)\<rparr>)"
proof -
  have "check_active (demo_proxy demo_manager) ''h.p.s'' demo_kvs = None"
    using demo_got by (auto simp: check_active_def demo_proxy_def tokenActiveChecker_def)
  then show ?thesis
    unfolding handleProxy_forwarded
    using demo_bearer_path demo_bearer_auth demo_valid
    by (auto simp: list_ex_iff demo_proxy_def intro!: exI [of _ "''h.p.s''"] exI [of _ demo_claims])
qed


text \<open>A store whose lookups fail.\<close>

definition demo_broken_storage :: "ref_bucket kvs SessionStorage" where
  "demo_broken_storage = (kvs_SessionStorage ref_bolt)\<lparr>ss_get := \<lambda>_ _ _ _. Inl ErrCommit\<rparr>"

theorem proxy_fails_closed_witness:
  "handleProxy ((demo_proxy demo_manager)\<lparr>pc_TokenActive := Some (tokenActiveChecker demo_broken_storage)\<rparr>) id 12
     demo_bearer demo_kvs = Refused 503 [(''error'', ''temporarily_unavailable'')]"
proof -
  let ?p = "(demo_proxy demo_manager)\<lparr>pc_TokenActive := Some (tokenActiveChecker demo_broken_storage)\<rparr>"
  have "proxy_key ?p = proxy_key (demo_proxy demo_manager)" "parse_options ?p = parse_options (demo_proxy demo_manager)"
    by (simp_all add: proxy_key_def parse_options_def fun_eq_iff)
  then have "pc_Parse ?p ''h.p.s'' (proxy_key ?p) (parse_options ?p) 12 = Inr demo_claims"
    using demo_valid by (simp add: demo_proxy_def)
  then show ?thesis
    using demo_bearer_path
    by (intro proxy_fails_closed [OF _ demo_bearer_auth demo_split, where e = ErrCommit and S = demo_broken_storage])
       (simp_all add: demo_broken_storage_def list_ex_iff list_all_iff)
qed

theorem upstream_headers_exact_witness:
  "hdr_Values (upstream_header (demo_proxy demo_manager) id demo_claims
     [(''X-User'', [''root'']), (''X-Key'', [''guess'']), (''Authorization'', [''Bearer h.p.s'']), (''Accept'', [''a''])])
       ''x-user'' = [''me'']"
proof -
  have "mset (id (pc_HeaderMapping (demo_proxy demo_manager))) = mset (pc_HeaderMapping (demo_proxy demo_manager))"
    by simp
  note vals = upstream_headers_exact [where order = id, OF this]
  have "mapped_for (demo_proxy demo_manager) id demo_claims ''x-user'' = [''me'']"
    by (simp add: mapped_for_def mapping_source_def demo_proxy_def demo_claims_def mapped_value_def CanonicalHeaderKey_def
        field_byte_def lower_byte_def upper_byte_def char_of_def bit_0)
  then show ?thesis by (simp add: vals)
qed

theorem kill_switch_end_to_end_witness:
  "\<exists>w'. serve (\<lambda>_. [RequireAuth, RequireCSRF,
        endpoint (handleSettingsClientRevoke demo_auth_env demo_operator_router 0)]) [] demo_revoke_form demo_operator_world =
      (Some (settings_redirect ''revoked''), w') \<and>
    (\<forall>req'. handleProxy (demo_proxy demo_manager) id 12 demo_bearer (repo w') \<noteq> Forwarded req')"
proof -
  obtain w' where run: "serve (\<lambda>_. [RequireAuth, RequireCSRF,
      endpoint (handleSettingsClientRevoke demo_auth_env demo_operator_router 0)]) [] demo_revoke_form
      demo_operator_world = (Some (settings_redirect ''revoked''), w')"
    using demo_revoke_served by blast
  have active: "pc_TokenActive (demo_proxy demo_manager) = Some (tokenActiveChecker (kvs_SessionStorage ref_bolt))"
    by (simp add: demo_proxy_def)
  have rec: "kview ref_bolt (repo demo_operator_world) AccessToken ''s'' = Some (DRequest (demo_request ''r'' ''a'' 3))"
    by (simp add: kview_def bview_def demo_operator_world_def demo_browser_def demo_operator_kvs_def demo_kvs_def
        ref_bolt_def family_prefix.simps prefix_defs)
  have "of_client ''a'' (demo_request ''r'' ''a'' 3)" by (simp add: of_client_code demo_request_def demo_client_def)
  then show ?thesis
    using run kill_switch_end_to_end [OF reference.bolt_bucket_axioms demo_revoke_route(3,1,2) run _ active demo_split rec
      demo_bearer_auth, of id 12] by fastforce
qed

theorem valid_token_served_witness:
  "\<exists>m' e'. key_run ref_lib [OpRotate 11] (demo_manager, demo_env) = (m', e') \<and>
     handleProxy (demo_proxy m') id 12 demo_bearer demo_kvs =
       Forwarded (demo_bearer\<lparr>in_Header := upstream_header (demo_proxy m') id demo_claims (in_Header demo_bearer)\<rparr>)"
proof (cases "key_run ref_lib [OpRotate 11] (demo_manager, demo_env)")
  case (Pair m' e')
  have fresh: "fresh_run ref_lib [OpRotate 11] (demo_manager, demo_env)" using demo_fresh by simp
  obtain q where got: "ss_get (kvs_SessionStorage ref_bolt) AccessToken ''s'' None demo_kvs = Inr q"
    using demo_got by blast
  show ?thesis
    using Pair
    by (intro exI conjI, assumption,
        intro valid_token_served [OF reference_keys.key_library_axioms demo_good fresh Pair _ _ _ _ _ demo_jwt_library
          demo_wired _ demo_split got demo_bearer_auth demo_bearer_path, of 3 10])
       (simp_all add: demo_manager_def demo_proxy_def issued_def demo_key_def demo_claims_def isSSEGetRequest_def
          demo_bearer_def demo_form_def)
qed

end
