(* ===== verification/TransparentProps.thy ===== *)
theory TransparentProps
  imports Transparent
begin

text \<open>
  The HTTP backend: redirects stay on the backend's host and end, an untrusted peer has no say in
  the forwarding headers, and the two consumers of the trusted proxies see the same list.
\<close>

section \<open>Redirects\<close>

definition redirects_home :: "(url \<Rightarrow> string \<Rightarrow> url option) \<Rightarrow> string \<Rightarrow> hop \<Rightarrow> upstream_response result \<Rightarrow> bool" where
  "redirects_home resolve target h answer \<longleftrightarrow>
     (case answer of
        Inl _ \<Rightarrow> False
      | Inr resp \<Rightarrow> (ur_StatusCode resp = 307 \<or> ur_StatusCode resp = 308) \<and>
          hdr_Get (ur_Header resp) ''Location'' \<noteq> [] \<and>
          (case resolve (h_URL h) (hdr_Get (ur_Header resp) ''Location'') of
             None \<Rightarrow> False | Some u \<Rightarrow> u_Host u \<in> {target, []}))"

lemma follow_for_ever:
  assumes "\<And>i h. redirects_home resolve target h (base i h)"
  shows "\<exists>hs. follow base resolve target body n i req = (Inl ErrMaxRedirects, hs) \<and> length hs = n"
proof (induction n arbitrary: i req)
  case (Suc n)
  obtain resp u where "base i req = Inr resp" "ur_StatusCode resp = 307 \<or> ur_StatusCode resp = 308"
    "hdr_Get (ur_Header resp) ''Location'' \<noteq> []"
    "resolve (h_URL req) (hdr_Get (ur_Header resp) ''Location'') = Some u" "u_Host u \<in> {target, []}"
    using assms [of req i] by (auto simp: redirects_home_def split: sum.splits option.splits)
  moreover obtain hs where "follow base resolve target body n (Suc i) (next_hop u body req) = (Inl ErrMaxRedirects, hs)"
    "length hs = n" using Suc by blast
  ultimately show ?case by auto
qed simp

lemma follow_sends: "follow base resolve target body (Suc n) i req = (r, hs) \<Longrightarrow> hs \<noteq> []"
  by (auto simp: Let_def split: sum.splits option.splits if_splits prod.splits)

lemma RoundTrip_cases:
  assumes "RoundTrip base resolve target read_fails req = (r, hs)"
  obtains "follow base resolve target (h_Body req) (Suc maxBackendRedirects) 0 req = (r, hs)"
  | "read_fails" "r = Inl (ErrMsg ''failed to read request body'')" "hs = []"
  | b where "h_Body req = Some b" "length b > maxRedirectReplayBody" "r = base 0 req" "hs = [req]"
proof (cases "h_Body req")
  case None
  then show ?thesis using assms that(1) by (simp add: RoundTrip_def del: follow.simps)
next
  case (Some b)
  consider "read_fails" | "\<not> read_fails" "length b > maxRedirectReplayBody"
    | "\<not> read_fails" "\<not> length b > maxRedirectReplayBody" by blast
  then show ?thesis
  proof cases
    case 1
    then show ?thesis using assms that(2) Some by (simp add: RoundTrip_def del: follow.simps)
  next
    case 2
    then show ?thesis using assms that(3) [OF Some] Some by (simp add: RoundTrip_def del: follow.simps)
  next
    case 3
    then show ?thesis using assms that(1) Some by (simp add: RoundTrip_def del: follow.simps)
  qed
qed

text \<open>
  C17: a followed redirect leaks nothing and ends.  Whatever the backend answers, at most eleven requests
  are sent, all with the method, the header and the body of the first, and all after the first
  to the backend's own host; a response that is returned is the answer to the last of them; a body
  over the cap is sent once.  A backend that redirects to itself for ever costs exactly eleven
  requests and an error.
\<close>

theorem redirects_contained:
  assumes "RoundTrip base resolve target read_fails req = (r, hs)"
  shows "length hs \<le> 11 \<and>
    (\<forall>h \<in> set hs. h_Method h = h_Method req \<and> h_Header h = h_Header req \<and> h_Body h = h_Body req) \<and>
    (\<forall>h \<in> set (tl hs). u_Host (h_URL h) \<in> {target, []} \<and> h_Host h = u_Host (h_URL h)) \<and>
    (\<forall>resp. r = Inr resp \<longrightarrow> hd hs = req \<and> base (length hs - 1) (last hs) = Inr resp) \<and>
    (\<forall>b. h_Body req = Some b \<and> length b > 4194304 \<longrightarrow> length hs \<le> 1) \<and>
    ((\<forall>i h. redirects_home resolve target h (base i h)) \<and> \<not> read_fails \<and>
      (\<forall>b. h_Body req = Some b \<longrightarrow> length b \<le> 4194304) \<longrightarrow> r = Inl ErrMaxRedirects \<and> length hs = 11)"
  using assms
proof (cases rule: RoundTrip_cases)
  case 1
  note F = follow_spec [OF 1 refl]
  have eleven: "Suc maxBackendRedirects = 11" by (simp add: maxBackendRedirects_def)
  have last: "hs \<noteq> [] \<and> base (length hs - 1) (last hs) = Inr resp" if "r = Inr resp" for resp
    using F(5) that follow_sends [OF 1] by (auto simp: ErrMaxRedirects_def split: if_splits)
  have one: "length hs \<le> 1" if "h_Body req = Some b" "length b > 4194304" for b
    using assms that by (auto simp: RoundTrip_def maxRedirectReplayBody_def simp del: follow.simps split: if_splits)
  have ever: "r = Inl ErrMaxRedirects \<and> length hs = 11" if "\<And>i h. redirects_home resolve target h (base i h)"
    using follow_for_ever [where base = base, OF that, where body = "h_Body req" and n = "Suc maxBackendRedirects" and i = 0 and req = req] 1
    by (auto simp: eleven simp del: follow.simps)
  show ?thesis using F(1-4) [unfolded eleven] last one ever by auto
qed (auto simp: maxRedirectReplayBody_def)

definition demo_backend_url :: "string \<Rightarrow> string \<Rightarrow> url" where
  "demo_backend_url scheme host = \<lparr>u_Scheme = scheme, u_User = None, u_Host = host, u_Path = ''/mcp'', u_RawQuery = [], u_Fragment = []\<rparr>"

definition demo_hop :: hop where
  "demo_hop = \<lparr>h_Method = ''POST'', h_URL = demo_backend_url ''https'' ''up'', h_Host = ''up'',
     h_Header = [(''Authorization'', [''Bearer k''])], h_Body = Some ''{}'', h_ContentLength = 2\<rparr>"

definition demo_redirect :: upstream_response where
  "demo_redirect = \<lparr>ur_StatusCode = 307, ur_Header = [(''Location'', [''l''])]\<rparr>"

lemma demo_location: "hdr_Get (ur_Header demo_redirect) ''Location'' = ''l''"
  by (simp add: demo_redirect_def hdr_Get_def hdr_Values_def CanonicalHeaderKey_def field_byte_def lower_byte_def
      upper_byte_def)

theorem redirects_contained_witness:
  "\<exists>hs. RoundTrip (\<lambda>_ _. Inr demo_redirect) (\<lambda>u _. Some (demo_backend_url ''https'' ''up'')) ''up'' False demo_hop = (Inl ErrMaxRedirects, hs) \<and> length hs = 11"
proof (cases "RoundTrip (\<lambda>_ _. Inr demo_redirect) (\<lambda>u _. Some (demo_backend_url ''https'' ''up'')) ''up'' False demo_hop")
  case (Pair r hs)
  have home: "redirects_home (\<lambda>u _. Some (demo_backend_url ''https'' ''up'')) ''up'' h (Inr demo_redirect)" for h
    using demo_location by (simp add: redirects_home_def demo_backend_url_def) (simp add: demo_redirect_def)
  show ?thesis
    using redirects_contained [OF Pair] home Pair by (auto simp: demo_hop_def)
qed

text \<open>The scheme is not compared: from an https backend the loop follows a redirect to plain http on
  the same host, with the header of the request.\<close>

lemma redirect_downgrade_followed:
  "follow (\<lambda>i _. Inr (if i = 0 then demo_redirect else \<lparr>ur_StatusCode = 200, ur_Header = []\<rparr>))
     (\<lambda>_ _. Some (demo_backend_url ''http'' ''up'')) ''up'' None 11 0 demo_hop =
   (Inr \<lparr>ur_StatusCode = 200, ur_Header = []\<rparr>, [demo_hop, demo_hop\<lparr>h_URL := demo_backend_url ''http'' ''up''\<rparr>])"
  using demo_location by (simp add: eval_nat_numeral demo_hop_def demo_backend_url_def next_hop_def) (simp add: demo_redirect_def)

section \<open>The forwarding headers\<close>

definition forwarding :: "string set" where
  "forwarding = {''X-Forwarded-For'', ''X-Forwarded-Host'', ''X-Forwarded-Proto'', ''X-Forwarded-Port''}"

lemma hdr_Values_Put [simp]:
  "hdr_Values (hdr_Put k vs h) j = (if CanonicalHeaderKey j = CanonicalHeaderKey k then vs else hdr_Values h j)"
  by (auto simp: hdr_Values_def hdr_Put_def map_of_hdr_Del map_add_def split: option.splits)

lemma hdr_Values_restore [simp]:
  "hdr_Values (restore_header inbound k h) j =
     (if CanonicalHeaderKey j = CanonicalHeaderKey k \<and> hdr_Get inbound k \<noteq> [] then [hdr_Get inbound k] else hdr_Values h j)"
  by (simp add: restore_header_def)

lemma forwarding_keys [simp]:
  "CanonicalHeaderKey ''X-Forwarded-For'' = ''X-Forwarded-For''"
  "CanonicalHeaderKey ''X-Forwarded-Host'' = ''X-Forwarded-Host''"
  "CanonicalHeaderKey ''X-Forwarded-Proto'' = ''X-Forwarded-Proto''"
  "CanonicalHeaderKey ''X-Forwarded-Port'' = ''X-Forwarded-Port''"
  by (simp_all add: CanonicalHeaderKey_def field_byte_def lower_byte_def upper_byte_def)

definition or_else :: "string \<Rightarrow> string list \<Rightarrow> string list" where
  "or_else v vs = (if v \<noteq> [] then [v] else vs)"

text \<open>
  C26: an untrusted peer cannot choose the forwarding headers.  What the upstream gets under the four names is: from an
  untrusted peer the address of the connection (or nothing, when it has none), the host and the
  protocol of the connection and no port; from a trusted proxy its chain extended by its own
  address, and its host, protocol and port where it sent them.  All other headers pass
  unchanged.
\<close>

theorem forwarding_headers_exact:
  "let out' = rewrite_header N p pe inbound out;
       client = map_option fst (nl_SplitHostPort N (pe_RemoteAddr pe));
       chain = hdr_Values inbound ''X-Forwarded-For'';
       proto = [if pe_TLS pe then ''https'' else ''http'']
   in (if isTrusted N p (pe_RemoteAddr pe) then
         hdr_Values out' ''X-Forwarded-For'' =
           (case client of None \<Rightarrow> [] | Some ip \<Rightarrow> [if chain = [] then ip else join chain '', '' @ '', '' @ ip]) \<and>
         hdr_Values out' ''X-Forwarded-Host'' = or_else (hdr_Get inbound ''X-Forwarded-Host'') [pe_Host pe] \<and>
         hdr_Values out' ''X-Forwarded-Proto'' = or_else (hdr_Get inbound ''X-Forwarded-Proto'') proto \<and>
         hdr_Values out' ''X-Forwarded-Port'' = or_else (hdr_Get inbound ''X-Forwarded-Port'') (hdr_Values out ''X-Forwarded-Port'')
       else
         hdr_Values out' ''X-Forwarded-For'' = (case client of None \<Rightarrow> [] | Some ip \<Rightarrow> [ip]) \<and>
         hdr_Values out' ''X-Forwarded-Host'' = [pe_Host pe] \<and> hdr_Values out' ''X-Forwarded-Proto'' = proto \<and>
         hdr_Values out' ''X-Forwarded-Port'' = []) \<and>
      (CanonicalHeaderKey j \<in> forwarding \<or> hdr_Values out' j = hdr_Values out j)"
proof (cases "isTrusted N p (pe_RemoteAddr pe)")
  case True
  then show ?thesis
    by (auto simp: rewrite_header_def SetXForwarded_def Let_def or_else_def forwarding_def split: option.splits)
next
  case False
  then show ?thesis
    by (auto simp: rewrite_header_def SetXForwarded_def Let_def forwarding_def split: option.splits)
qed

section \<open>One list of trusted proxies\<close>

lemma parse_normalized:
  assumes "\<And>q. nl_ParsePrefix N (nl_PrefixString N q) = Some q"
  shows "ParseTrustedProxies N (map (nl_PrefixString N) ps) = Inr ps"
  by (induction ps) (simp_all add: assms)

text \<open>The backend parses the normalized list to the prefixes of the original one.\<close>

lemma normalize_then_parse:
  assumes "\<And>q. nl_ParsePrefix N (nl_PrefixString N q) = Some q" and "NormalizeTrustedProxies N es = Inr ss"
  shows "ParseTrustedProxies N ss = ParseTrustedProxies N es"
  using assms(2) parse_normalized [OF assms(1)] by (auto simp: NormalizeTrustedProxies_def res_bind_Inr)

lemma trusted_needs_entry: "tb_trusted p = [] \<Longrightarrow> \<not> isTrusted N p hp"
  by (auto simp: isTrusted_def Let_def split: option.splits)

end
