(* ===== verification/GatewayProps.thy ===== *)
theory GatewayProps
  imports Gateway ProxyProps TransparentProps IdpProps
begin

text \<open>
  Properties of the assembled gateway: the origin check comes before everything but the health
  probe, a gateway that starts has the parameters the other properties rely on, and the expiry
  sweep neither takes a token away nor changes any answer of the proxy.
\<close>

section \<open>The origin check\<close>

lemma buildRouter_Inr:
  assumes "buildRouter V rc deps s = Inr G"
  shows "\<exists>a. newAuthRouter (be_auth V) (be_oidc V) (be_bcrypt V) rc deps s = Inr a \<and>
      gw_routes G = (\<lambda>clk. auth_SetupRoutes (be_auth V) a clk @
        idp_SetupRoutes (be_idp V) (NewIDPRouter (be_compose V) (be_net V) (be_order V) (newIDPConfig rc deps)) clk)"
    and "gw_origin G = (if mc_OriginCheckEnabled (rc_Config rc) then Some (normalizeOrigin (be_P V) (rc_issuer rc)) else None)"
    and "newProxySurface (be_parse V) (be_pointer V) rc deps = Inr (gw_proxy G)"
    and "newSessionStore (be_hkdf V) rc (dp_secret deps) = Inr (gw_cookies G)"
  using assms by (auto simp: buildRouter_def Let_def res_bind_Inr)

text \<open>
  C14: the origin check.  With the check on, a request with an \<open>Origin\<close> other than the gateway's own
  (scheme, host without regard to case, effective port) is answered 403 and changes nothing, on every path but
  the health probe; any other request, in particular one without the header, is served as usual.
\<close>

theorem origin_guard_exact:
  assumes "buildRouter V rc deps s = Inr G" and "mc_OriginCheckEnabled (rc_Config rc)"
  shows "serve_gateway (be_P V) mtch G clk order req w =
    (if in_Method req = ''GET'' \<and> in_Path req = ''/healthz'' then (Healthy, w)
     else if GetHeader req ''Origin'' \<noteq> [] \<and> \<not> same_origin (be_P V) (GetHeader req ''Origin'') (rc_issuer rc)
     then (Handled (Json 403 [(''error'', ''forbidden'')]), w)
     else serve_routes mtch G clk order req (with_session w))"
  using assms(2) by (simp add: serve_gateway_def buildRouter_Inr(2) [OF assms(1)] requireSameOrigin_exact)

section \<open>A gateway that starts\<close>

lemma newProxySurface_Inr:
  assumes "newProxySurface parse pointer rc deps = Inr p"
  shows "pc_ClockSkew p = mc_ClockSkew (rc_Config rc)"
    and "wired p (dp_keys deps) (ro_sessions (dp_repo deps)) parse"
    and "pc_ExternalURL p = trim_suffix (rc_issuer rc) ''/''"
    and "pc_HTTPStreamingOnly p = mc_HTTPStreamingOnly (rc_Config rc)"
  using assms by (auto simp: newProxySurface_def NewProxyRouter_def wired_def)

lemma newSessionStore_Inr:
  assumes "newSessionStore hkdf rc secret = Inr ck"
  shows "ck_HttpOnly ck"
    and "ck_Secure ck \<longleftrightarrow> u_Scheme (rc_issuerURL rc) = ''https'' \<or> rc_manualTLS rc \<or> mc_TLSHost (rc_Config rc) \<noteq> []"
  using assms by (auto simp: newSessionStore_def sessionCookieSecure_def split: sum.splits prod.splits)

lemma allow_rule_required:
  assumes "NewOIDCProvider L os = Inr p"
  shows "hasAllowRule p"
proof -
  have frame: "hasAllowRule (x\<lparr>o_userInfoURL := a, o_authEndpoint := b, o_tokenEndpoint := c, o_redirectURL := e\<rparr>) = hasAllowRule x"
    for x a b c e by (simp add: hasAllowRule_def)
  show ?thesis
    using assms unfolding NewOIDCProvider_def Let_def
    by (auto simp: res_bind_Inr frame simp del: oidcProvider.update_defs oidcProvider.simps
        split: if_splits prod.splits option.splits)
qed


section \<open>The sweep\<close>

context bolt_bucket begin

lemma expired_clients_frame:
  assumes "f \<noteq> ClientReg"
  shows "kview B (snd (kvs_DeleteExpiredClients B now s)) f k = kview B s f k"
proof (cases "kvs_DeleteExpiredClients B now s")
  case (Pair r s')
  let ?P = "\<lambda>v. case dec_client v of Inl _ \<Rightarrow> False | Inr c \<Rightarrow> client_expired now c"
  have "writes (kview B) s (r, s') (spec_drop ClientReg (\<lambda>_. ?P))"
    using drop_writes [of s ?P ClientReg] Pair
    unfolding kvs_DeleteExpiredClients_def prefix_of_family by simp
  then show ?thesis using assms Pair by (cases r) (auto simp: writes_def spec_drop_def)
qed

lemma sweep_access:
  "kview B (sw_store (sweep (kvs_MaintenanceStorage B) L rc t d)) AccessToken k = kview B (sw_store d) AccessToken k \<or>
   kview B (sw_store (sweep (kvs_MaintenanceStorage B) L rc t d)) AccessToken k = None \<and>
     (\<exists>q. kview B (sw_store d) AccessToken k = Some (DRequest q) \<and>
       rq_RequestedAt q < t - mc_AccessTokenTTL (rc_Config rc) - mc_ClockSkew (rc_Config rc))"
proof -
  let ?a = "t - mc_AccessTokenTTL (rc_Config rc) - mc_ClockSkew (rc_Config rc)"
  let ?rf = "t - refreshSweepTTL rc - mc_ClockSkew (rc_Config rc)"
  let ?c = "t - mc_AuthCodeTTL (rc_Config rc) - mc_ClockSkew (rc_Config rc)"
  obtain r s1 where s1: "kvs_DeleteExpiredSessions B ?a ?rf ?c (sw_store d) = (r, s1)" by fastforce
  have "sweep_partial ?a ?rf ?c (kview B (sw_store d)) (kview B s1)" using sweep_spec [OF s1] by blast
  then have "kview B s1 AccessToken k = kview B (sw_store d) AccessToken k \<or>
      kview B s1 AccessToken k = None \<and> (\<exists>x. kview B (sw_store d) AccessToken k = Some x \<and> sweep_stale ?a ?rf ?c AccessToken x)"
    by (auto simp: sweep_partial_def)
  moreover have "\<exists>q. x = DRequest q \<and> rq_RequestedAt q < ?a" if "sweep_stale ?a ?rf ?c AccessToken x" for x
    using that by (cases x) (auto simp: sweep_stale_def session_families_def session_stale_def cutoff_of_def)
  moreover have "sw_store (sweep (kvs_MaintenanceStorage B) L rc t d) = snd (kvs_DeleteExpiredClients B t s1)"
    using s1 by (simp add: sweep_def kvs_MaintenanceStorage_def Let_def split: prod.splits)
  ultimately show ?thesis using expired_clients_frame [of AccessToken t s1 k] by auto
qed

end


fun sweep_run ::
  "'s MaintenanceStorage \<Rightarrow> 'p key_lib \<Rightarrow> resolvedConfig \<Rightarrow> time list \<Rightarrow> ('s, 'l, 'p) sweep_state \<Rightarrow> ('s, 'l, 'p) sweep_state" where
  "sweep_run M L rc [] d = d"
| "sweep_run M L rc (t # ts) d = sweep_run M L rc ts (sweep M L rc t d)"

lemma sweep_run_keys:
  "key_run L (map OpMaintain ts) (sw_keys d, sw_env d) = (sw_keys (sweep_run M L rc ts d), sw_env (sweep_run M L rc ts d))"
proof (induction ts arbitrary: d)
  case (Cons t ts)
  have "snd (Maintain L t (sw_keys d) (sw_env d)) = (sw_keys (sweep M L rc t d), sw_env (sweep M L rc t d))"
    by (simp add: sweep_def Let_def split: prod.splits)
  then show ?case using Cons.IH [of "sweep M L rc t d"] by simp
qed simp

context bolt_bucket begin

lemma sweep_run_keeps:
  "kview B (sw_store d) AccessToken k = Some (DRequest q) \<Longrightarrow>
     \<forall>t \<in> set ts. t \<le> rq_RequestedAt q + mc_AccessTokenTTL (rc_Config rc) + mc_ClockSkew (rc_Config rc) \<Longrightarrow>
     kview B (sw_store (sweep_run (kvs_MaintenanceStorage B) L rc ts d)) AccessToken k = Some (DRequest q)"
proof (induction ts arbitrary: d)
  case (Cons t ts)
  have "kview B (sw_store (sweep (kvs_MaintenanceStorage B) L rc t d)) AccessToken k = Some (DRequest q)"
    using sweep_access [of L rc t d k] Cons.prems by auto
  with Cons show ?case by simp
qed simp

end

text \<open>
  A token outlives every maintenance pass.  Take an accepted configuration and a token issued
  at \<open>t\<close> for the configured lifetime, signed by the then active key and stored at \<open>t\<close>.  Let any number of
  sweeps run between \<open>t\<close> and \<open>now\<close>, each deleting expired records, dropping and rotating keys, any
  of its calls failing.  The proxy over the resulting store and keys forwards the request, until
  the token expires.
\<close>

theorem token_survives_sweeps:
  assumes "resolveConfig P unparse N cfg = Inr rc" and "bolt_bucket B" and "key_library L"
    and "jwt_library parse header payload sig_ok exp_of"
    and "good L (sw_keys d) (sw_env d)" and "fresh_run L (map OpMaintain ts) (sw_keys d, sw_env d)"
    and "kc_RetireWindow (m_cfg (sw_keys d)) = retireWindow rc"
    and "\<forall>x \<in> set ts. t \<le> x \<and> x \<le> now"
    and "now < t + mc_AccessTokenTTL (rc_Config rc) + mc_ClockSkew (rc_Config rc)"
    and "d' = sweep_run (kvs_MaintenanceStorage B) L rc ts d"
    and "newProxySurface parse pointer rc (deps\<lparr>dp_keys := sw_keys d'\<rparr>) = Inr p"
    and "ro_sessions (dp_repo deps) = kvs_SessionStorage B"
    and "issued header payload sig_ok exp_of (pc_ExternalURL p) (sw_keys d) (t + mc_AccessTokenTTL (rc_Config rc)) tok cs"
    and "split_char tok (CHR ''.'') = [x, y, sig]"
    and "kview B (sw_store d) AccessToken sig = Some (DRequest q)" and "rq_RequestedAt q = t"
    and "load_request q None = Inr fr"
    and "hdr_Get (in_Header req) ''Authorization'' = ''Bearer '' @ tok"
    and "\<not> list_ex (has_prefix (in_Path req)) reservedPrefixes" and "\<not> (pc_HTTPStreamingOnly p \<and> isSSEGetRequest req)"
  shows "handleProxy p order now req (sw_store d') = Forwarded (req\<lparr>in_Header := upstream_header p order cs (in_Header req)\<rparr>)"
proof -
  note R = resolveConfig_Inr [OF assms(1)]
  have ttl: "0 < mc_AccessTokenTTL (rc_Config rc)" using validateTTLs_ranges(1) [OF R(2)] by (simp add: dur_defs)
  have pos: "0 < kc_RetireWindow (m_cfg (sw_keys d))" using ttl R(3) assms(7) by (simp add: retireWindow_def)
  have skew: "pc_ClockSkew p = mc_ClockSkew (rc_Config rc)"
    and W: "wired p (sw_keys d') (kvs_SessionStorage B) parse"
    using newProxySurface_Inr [OF assms(11)] assms(12) by simp_all
  have run: "key_run L (map OpMaintain ts) (sw_keys d, sw_env d) = (sw_keys d', sw_env d')"
    unfolding assms(10) by (rule sweep_run_keys)
  have window: "\<forall>a \<in> set (map OpMaintain ts). t \<le> op_time a \<and> op_time a < t + kc_RetireWindow (m_cfg (sw_keys d))"
    using assms(7-9) R(3) by (auto simp: retireWindow_def)
  note key = active_key_verifies(1) [OF assms(3,5,6) pos run window]
  have rec: "kview B (sw_store d') AccessToken sig = Some (DRequest q)"
    unfolding assms(10) using assms(8,9,16) by (intro bolt_bucket.sweep_run_keeps [OF assms(2,15)]) auto
  then have got: "ss_get (kvs_SessionStorage B) AccessToken sig None (sw_store d') = Inr fr"
    using assms(17) by (simp add: bolt_bucket.kvs_get_token [OF assms(2)] spec_request_def get_doc_def)
  have "now < t + mc_AccessTokenTTL (rc_Config rc) + pc_ClockSkew p" using assms(9) skew by simp
  from issued_forwarded [OF assms(4) W key assms(13) this assms(14) got assms(18-20)]
  show ?thesis .
qed

section \<open>A concrete gateway\<close>

definition demo_origin_url :: "string \<Rightarrow> url" where
  "demo_origin_url h = \<lparr>u_Scheme = ''https'', u_User = None, u_Host = h, u_Path = [], u_RawQuery = [], u_Fragment = []\<rparr>"

definition demo_P :: url_parser where
  "demo_P s = (if s = ''https://g'' then Some (demo_origin_url ''g'')
     else if s = ''https://e'' then Some (demo_origin_url ''e'') else None)"

definition demo_mcp_config :: mcp_Config where
  "demo_mcp_config =
     \<lparr>mc_Listen = ''h'', mc_TLSListen = ''t'', mc_AutoTLS = False, mc_TLSHost = [], mc_TLSDirectoryURL = [],
      mc_TLSAcceptTOS = False, mc_TLSCertFile = [], mc_TLSKeyFile = [], mc_DataPath = [], mc_RepositoryBackend = [],
      mc_RepositoryDSN = [], mc_ExternalURL = ''https://g'', mc_OIDCConfigurationURL = [], mc_OIDCClientID = [],
      mc_OIDCClientSecret = [], mc_OIDCScopes = [], mc_OIDCUserIDField = [], mc_OIDCProviderName = [], mc_OIDCAllowedUsers = [],
      mc_OIDCAllowedUsersGlob = [], mc_OIDCAllowedAttributes = [], mc_OIDCAllowedAttributesGlob = [],
      mc_NoProviderAutoSelect = False, mc_Password = [], mc_PasswordHash = ''#pw'', mc_TrustedProxies = [],
      mc_ProxyHeaders = [], mc_ProxyBearerToken = [], mc_ForwardAuthorizationHeader = False, mc_ProxyTargets = [],
      mc_HTTPStreamingOnly = False, mc_HeaderMapping = [], mc_HeaderMappingBase = ''/'', mc_OriginCheckEnabled = True,
      mc_OIDCDiscoveryMirror = False, mc_ClockSkew = second, mc_AccessTokenTTL = hour, mc_AuthCodeTTL = 10 * minute,
      mc_RefreshTokenTTL = 0, mc_CIMDEnabled = False, mc_CIMDFetchTimeout = 0, mc_CIMDMaxSize = 0,
      mc_CIMDCacheTTL = 0, mc_DCREnabled = True, mc_DCRClientTTL = 0, mc_DCRMaxClients = 10, mc_KeyAlg = AlgES256,
      mc_KeyRotationInterval = 0, mc_RateLimitRegister = [], mc_RateLimitToken = [], mc_RateLimitLogin = [],
      mc_RateLimitAuthorize = [], mc_LoginLockoutThreshold = 0, mc_LoginLockoutDuration = 0\<rparr>"

definition demo_net_lib :: net_lib where
  "demo_net_lib = \<lparr>nl_ParsePrefix = (\<lambda>_. None), nl_ParseAddr = (\<lambda>_. None), nl_PrefixString = (\<lambda>_. []),
     nl_SplitHostPort = (\<lambda>_. None)\<rparr>"

definition demo_rc :: resolvedConfig where
  "demo_rc = \<lparr>rc_Config = demo_mcp_config, rc_issuerURL = demo_origin_url ''g'', rc_issuer = ''https://g'',
     rc_trustedProxies = [], rc_manualTLS = False\<rparr>"

lemma demo_defaults: "with_defaults demo_mcp_config = demo_mcp_config"
  by (simp add: with_defaults_def Let_def demo_mcp_config_def AlgES256_def dur_defs)

lemma demo_alg: "ParseAlg AlgES256 = Inr AlgES256"
  by (simp add: ParseAlg_def AlgES256_def AlgRS256_def upper_byte_def)

lemma demo_resolved: "resolveConfig demo_P (\<lambda>_. ''https://g'') demo_net_lib demo_mcp_config = Inr demo_rc"
proof -
  have "validateTTLs demo_mcp_config = Inr ()"
    by (simp add: validateTTLs_def demo_mcp_config_def demo_alg valid_rate_def dur_defs)
  moreover have "resolveTLSMode demo_mcp_config = Inr False"
    by (simp add: resolveTLSMode_def demo_mcp_config_def)
  moreover have "mc_ClockSkew demo_mcp_config = second" "mc_TrustedProxies demo_mcp_config = []"
    "mc_ExternalURL demo_mcp_config = ''https://g''" by (simp_all add: demo_mcp_config_def)
  ultimately show ?thesis
    by (simp add: resolveConfig_def demo_P_def demo_origin_url_def demo_rc_def NormalizeTrustedProxies_def named_def
        demo_defaults maxClockSkew_def dur_defs)
qed

definition demo_repo_ops :: "ref_bucket kvs repo_ops" where
  "demo_repo_ops =
     \<lparr>ro_sessions = kvs_SessionStorage ref_bolt, ro_requests = kvs_AuthorizeRequestStorage ref_bolt Some,
      ro_clients = kvs_DynamicClientStorage ref_bolt, ro_users = kvs_UserStorage ref_bolt,
      ro_inventory = kvs_InventoryStorage ref_bolt, ro_ListClientGrants = kvs_ListClientGrants ref_bolt,
      ro_maintenance = kvs_MaintenanceStorage ref_bolt\<rparr>"

definition demo_deps :: "ref_bucket kvs dependencies" where
  "demo_deps =
     \<lparr>dp_secret = replicate 32 (CHR ''s''), dp_repo = demo_repo_ops, dp_keys = demo_manager, dp_proxyHeaders = [],
      dp_loginLimit = None, dp_tokenLimit = None, dp_registerLimit = None, dp_authorizeLimit = None, dp_version = []\<rparr>"

definition demo_build :: "ref_bucket kvs build_env" where
  "demo_build =
     \<lparr>be_P = demo_P,
      be_auth = demo_auth_env\<lparr>ae_url := demo_P, ae_webauthn_New := \<lambda>_ _. Inr demo_relying_party\<rparr>,
      be_idp = demo_idp_env, be_oidc = demo_oidc_lib, be_bcrypt = Some, be_hkdf = (\<lambda>s i n. Some (take n (i @ s))),
      be_compose = (\<lambda>_ _ _. ref_provider Some), be_net = demo_net, be_order = id, be_parse = demo_jwt,
      be_pointer = (\<lambda>j q. None), be_trust = (\<lambda>_. Inr ())\<rparr>"

lemma demo_built: "\<exists>G. buildRouter demo_build demo_rc demo_deps demo_kvs = Inr G"
proof -
  have "mc_PasswordHash (rc_Config demo_rc) = ''#pw''" "mc_Password (rc_Config demo_rc) = []"
    "mc_OIDCConfigurationURL (rc_Config demo_rc) = []"
    by (simp_all add: demo_rc_def demo_mcp_config_def)
  then have "\<exists>a. newAuthRouter (be_auth demo_build) demo_oidc_lib Some demo_rc demo_deps demo_kvs = Inr a"
    by (simp add: newAuthRouter_def buildOIDCProviders_def buildPasswordHashes_def NewAuthRouter_def newWebAuthn_def
        demo_build_def demo_auth_env_def demo_P_def demo_rc_def)
  then show ?thesis
    by (auto simp: buildRouter_def demo_build_def newProxySurface_def NewProxyRouter_def newSessionStore_def
        deriveCookieKeys_def)
qed

theorem origin_guard_exact_witness:
  "\<exists>G. buildRouter demo_build demo_rc demo_deps demo_kvs = Inr G \<and>
     serve_gateway demo_P (\<lambda>_ _. None) G (\<lambda>_. 0) id ((demo_form [])\<lparr>in_Header := [(''Origin'', [''https://e''])]\<rparr>)
       (demo_browser Map.empty demo_kvs None) =
     (Handled (Json 403 [(''error'', ''forbidden'')]), demo_browser Map.empty demo_kvs None)"
proof -
  let ?req = "(demo_form [])\<lparr>in_Header := [(''Origin'', [''https://e''])]\<rparr>"
  obtain G where G: "buildRouter demo_build demo_rc demo_deps demo_kvs = Inr G" using demo_built by blast
  have on: "mc_OriginCheckEnabled (rc_Config demo_rc)" by (simp add: demo_rc_def demo_mcp_config_def)
  have P: "be_P demo_build = demo_P" by (simp add: demo_build_def)
  have origin: "GetHeader ?req ''Origin'' = ''https://e''" "in_Method ?req = ''POST''"
    by (simp_all add: GetHeader_def values_Get_def demo_form_def)
  have "\<not> same_origin demo_P ''https://e'' (rc_issuer demo_rc)"
    by (auto simp: same_origin_def usable_origin_def demo_P_def demo_rc_def origin_key_def demo_origin_url_def
        Hostname_def splitHostPort_def last_index_def lower_byte_def)
  then show ?thesis
    using origin_guard_exact [OF G on, of "\<lambda>_ _. None" "\<lambda>_. 0" id ?req "demo_browser Map.empty demo_kvs None"] G origin
    unfolding P by simp
qed


definition demo_sweep_state :: "Manager \<Rightarrow> (ref_bucket kvs, unit, string) sweep_state" where
  "demo_sweep_state m =
     \<lparr>sw_store = demo_kvs, sw_keys = m, sw_env = demo_env,
      sw_limiters = \<lparr>li_register = None, li_token = None, li_login = None, li_authorize = None, li_lockout = None\<rparr>\<rparr>"

lemma demo_ttl: "mc_AccessTokenTTL (rc_Config demo_rc) = hour" "mc_ClockSkew (rc_Config demo_rc) = second"
  "mc_HTTPStreamingOnly (rc_Config demo_rc) = False"
  by (simp_all add: demo_rc_def demo_mcp_config_def)

lemma demo_only_record:
  "kview ref_bolt demo_kvs AccessToken k = Some (DRequest q) \<Longrightarrow> q = demo_request ''r'' ''a'' 3"
  by (auto simp: kview_def bview_def demo_kvs_def ref_bolt_def family_prefix.simps prefix_defs split: if_splits)


text \<open>A manager with the retire window of the demo configuration, and the tokens of that gateway.\<close>

definition demo_gateway_manager :: Manager where
  "demo_gateway_manager = demo_manager\<lparr>m_cfg := (m_cfg demo_manager)\<lparr>kc_RetireWindow := hour + 2 * second\<rparr>\<rparr>"

lemma demo_gateway_good: "good ref_lib demo_gateway_manager demo_env"
  using demo_good by (simp add: good_def synced_def demo_gateway_manager_def manifest_of_def keys_of_def kids_of_def)

lemma demo_gateway_fresh: "fresh ref_lib demo_gateway_manager demo_env"
proof -
  have "kids_of demo_gateway_manager = kids_of demo_manager" "kc_Alg (m_cfg demo_gateway_manager) = kc_Alg (m_cfg demo_manager)"
    by (simp_all add: demo_gateway_manager_def kids_of_def keys_of_def)
  then show ?thesis using demo_fresh unfolding fresh_def next_kid_def by (simp only:)
qed

definition demo_gateway_jwt :: jwt_parser where
  "demo_gateway_jwt = ref_parse
     (\<lambda>tok. if tok = ''h.p.s'' then Some \<lparr>jt_Method = AlgES256, jt_Kid = Some ''ka'', jt_Raw = []\<rparr> else None)
     (\<lambda>tok. Some demo_claims) (\<lambda>pub tok. pub = ECPub ''P-256'' ''a'') (\<lambda>cs. Some (3 + hour))"

lemmas demo_gateway_jwt_library = reference_jwt.jwt_library_axioms [of
     "\<lambda>tok. if tok = ''h.p.s'' then Some \<lparr>jt_Method = AlgES256, jt_Kid = Some ''ka'', jt_Raw = []\<rparr> else None"
     "\<lambda>tok. Some demo_claims" "\<lambda>pub tok. pub = ECPub ''P-256'' ''a''" "\<lambda>cs. Some (3 + hour)", folded demo_gateway_jwt_def]

lemma demo_loaded: "\<exists>fr. load_request (demo_request ''r'' ''a'' 3) None = Inr fr"
  by (simp add: demo_request_def load_request_def ToFositeReq_def restoreSession_def demo_client_def)

theorem token_survives_sweeps_witness:
  "\<exists>p. newProxySurface demo_gateway_jwt (\<lambda>_ _. None) demo_rc (demo_deps\<lparr>dp_keys := sw_keys (sweep_run
        (kvs_MaintenanceStorage ref_bolt) ref_lib demo_rc [20] (demo_sweep_state demo_gateway_manager))\<rparr>) = Inr p \<and>
     (\<exists>req'. handleProxy p id 30 demo_bearer (sw_store (sweep_run (kvs_MaintenanceStorage ref_bolt) ref_lib demo_rc [20]
        (demo_sweep_state demo_gateway_manager))) = Forwarded req')"
proof -
  let ?d = "demo_sweep_state demo_gateway_manager"
  let ?d' = "sweep_run (kvs_MaintenanceStorage ref_bolt) ref_lib demo_rc [20] ?d"
  obtain p where p: "newProxySurface demo_gateway_jwt (\<lambda>_ _. None) demo_rc (demo_deps\<lparr>dp_keys := sw_keys ?d'\<rparr>) = Inr p"
    by (simp add: newProxySurface_def NewProxyRouter_def)
  have url: "pc_ExternalURL p = ''https://g''" "pc_HTTPStreamingOnly p = False"
    using newProxySurface_Inr(3,4) [OF p]
    by (simp_all add: demo_ttl, simp add: demo_rc_def trim_suffix_def has_suffix_def suffix_to_prefix)
  have d: "sw_keys ?d = demo_gateway_manager" "sw_env ?d = demo_env" "sw_store ?d = demo_kvs"
    by (simp_all add: demo_sweep_state_def)
  obtain fr where fr: "load_request (demo_request ''r'' ''a'' 3) None = Inr fr" using demo_loaded by blast
  have issued: "issued (\<lambda>tok. if tok = ''h.p.s'' then Some \<lparr>jt_Method = AlgES256, jt_Kid = Some ''ka'', jt_Raw = []\<rparr> else None)
      (\<lambda>tok. Some demo_claims) (\<lambda>pub tok. pub = ECPub ''P-256'' ''a'') (\<lambda>cs. Some (3 + hour)) (pc_ExternalURL p)
      (sw_keys ?d) (3 + mc_AccessTokenTTL (rc_Config demo_rc)) ''h.p.s'' demo_claims"
    unfolding d url
    by (simp add: issued_def demo_gateway_manager_def demo_manager_def demo_key_def demo_claims_def demo_ttl)
  have "handleProxy p id 30 demo_bearer (sw_store ?d') =
      Forwarded (demo_bearer\<lparr>in_Header := upstream_header p id demo_claims (in_Header demo_bearer)\<rparr>)"
  proof (rule token_survives_sweeps [OF demo_resolved reference.bolt_bucket_axioms reference_keys.key_library_axioms
        demo_gateway_jwt_library _ _ _ _ _ refl p _ issued demo_split _ _ fr demo_bearer_auth demo_bearer_path])
    show "good ref_lib (sw_keys ?d) (sw_env ?d)" unfolding d by (rule demo_gateway_good)
    show "fresh_run ref_lib (map OpMaintain [20]) (sw_keys ?d, sw_env ?d)" unfolding d by (simp add: demo_gateway_fresh)
    show "kc_RetireWindow (m_cfg (sw_keys ?d)) = retireWindow demo_rc"
      unfolding d by (simp add: demo_gateway_manager_def retireWindow_def demo_ttl)
    show "\<forall>x \<in> set [20]. 3 \<le> x \<and> x \<le> (30 :: time)" by simp
    show "30 < 3 + mc_AccessTokenTTL (rc_Config demo_rc) + mc_ClockSkew (rc_Config demo_rc)"
      by (simp add: demo_ttl dur_defs)
    show "ro_sessions (dp_repo demo_deps) = kvs_SessionStorage ref_bolt" by (simp add: demo_deps_def demo_repo_ops_def)
    show "kview ref_bolt (sw_store ?d) AccessToken ''s'' = Some (DRequest (demo_request ''r'' ''a'' 3))"
      unfolding d by (rule demo_record)
    show "rq_RequestedAt (demo_request ''r'' ''a'' 3) = 3" by (simp add: demo_request_def)
    show "\<not> (pc_HTTPStreamingOnly p \<and> isSSEGetRequest demo_bearer)" by (simp add: url)
  qed
  with p show ?thesis by blast
qed

end
