(* ===== verification/Sql.thy ===== *)
theory Sql
  imports KvsStore
begin

text \<open>
  \<^verbatim>\<open>pkg/repository/sql.go\<close>, \<^verbatim>\<open>sql_sessions.go\<close>, \<^verbatim>\<open>sql_clients.go\<close>, \<^verbatim>\<open>sql_users.go\<close> and
  \<^verbatim>\<open>sql_inventory.go\<close>: the SQLite backend.

  gorm and SQLite are the record \<open>'d gorm\<close> of parameters: one operation per kind of statement the
  code builds, on the tables of the code's row types, with the where-clauses the code writes as a
  datatype.  A statement may fail.  \<open>'d sqldb\<close> is the repository: the committed database and the
  outcome of the coming commits (\<open>True\<close>: the commit fails).  A statement outside a transaction
  commits by itself.  Wrapping an error with \<open>%w\<close> keeps its identity, so it is the error itself.
\<close>

section \<open>Tables\<close>

record authorizeCodeSession =
  acs_Code :: string
  acs_Request :: doc
  acs_CreatedAt :: time
  acs_UpdatedAt :: time

record accessTokenSession =
  ats_Signature :: string
  ats_RequestID :: string
  ats_Request :: doc
  ats_CreatedAt :: time
  ats_UpdatedAt :: time

record refreshTokenSession =
  rts_Signature :: string
  rts_AccessSignature :: string
  rts_RequestID :: string
  rts_Request :: doc
  rts_CreatedAt :: time
  rts_UpdatedAt :: time

record pkceRequestSession =
  pks_Signature :: string
  pks_Request :: doc
  pks_CreatedAt :: time
  pks_UpdatedAt :: time

record authorizeRequestRecord =
  arr_RequestID :: string
  arr_Request :: doc
  arr_CreatedAt :: time
  arr_UpdatedAt :: time

record clientRecord =
  clr_ID :: string
  clr_Client :: doc
  clr_CreatedAt :: time
  clr_UpdatedAt :: time

record schemaVersionRecord =
  svr_ID :: int
  svr_Version :: int

record userRecord =
  usr_ID :: string
  usr_User :: doc
  usr_CreatedAt :: time
  usr_UpdatedAt :: time

record webauthnCredentialRecord =
  wcr_ID :: string
  wcr_UserID :: string
  wcr_Credential :: doc
  wcr_CreatedAt :: time
  wcr_UpdatedAt :: time

datatype row =
    RowCode authorizeCodeSession
  | RowAccess accessTokenSession
  | RowRefresh refreshTokenSession
  | RowPkce pkceRequestSession
  | RowAuthorize authorizeRequestRecord
  | RowClient clientRecord
  | RowVersion schemaVersionRecord
  | RowUser userRecord
  | RowCredential webauthnCredentialRecord

datatype sql_value = VStr string | VInt int

fun row_table :: "row \<Rightarrow> family" where
  "row_table (RowCode _) = AuthorizeCode"
| "row_table (RowAccess _) = AccessToken"
| "row_table (RowRefresh _) = RefreshToken"
| "row_table (RowPkce _) = PkceRequest"
| "row_table (RowAuthorize _) = AuthorizeReq"
| "row_table (RowClient _) = ClientReg"
| "row_table (RowVersion _) = Meta"
| "row_table (RowUser _) = UserRec"
| "row_table (RowCredential _) = Credential"

text \<open>The columns the where-clauses of the code name; gorm writes field names in snake case.\<close>

fun column :: "row \<Rightarrow> string \<Rightarrow> sql_value option" where
  "column (RowCode r) c = (if c = ''code'' then Some (VStr (acs_Code r)) else None)"
| "column (RowAccess r) c =
     (if c = ''signature'' then Some (VStr (ats_Signature r))
      else if c = ''request_id'' then Some (VStr (ats_RequestID r)) else None)"
| "column (RowRefresh r) c =
     (if c = ''signature'' then Some (VStr (rts_Signature r))
      else if c = ''request_id'' then Some (VStr (rts_RequestID r)) else None)"
| "column (RowPkce r) c = (if c = ''signature'' then Some (VStr (pks_Signature r)) else None)"
| "column (RowAuthorize r) c = (if c = ''request_id'' then Some (VStr (arr_RequestID r)) else None)"
| "column (RowClient r) c = (if c = ''id'' then Some (VStr (clr_ID r)) else None)"
| "column (RowVersion r) c = (if c = ''id'' then Some (VInt (svr_ID r)) else None)"
| "column (RowUser r) c = (if c = ''id'' then Some (VStr (usr_ID r)) else None)"
| "column (RowCredential r) c =
     (if c = ''id'' then Some (VStr (wcr_ID r))
      else if c = ''user_id'' then Some (VStr (wcr_UserID r)) else None)"

text \<open>The document of a row.\<close>

fun row_doc :: "row \<Rightarrow> doc" where
  "row_doc (RowCode r) = acs_Request r"
| "row_doc (RowAccess r) = ats_Request r"
| "row_doc (RowRefresh r) = rts_Request r"
| "row_doc (RowPkce r) = pks_Request r"
| "row_doc (RowAuthorize r) = arr_Request r"
| "row_doc (RowClient r) = clr_Client r"
| "row_doc (RowVersion r) = DVersion (svr_Version r)"
| "row_doc (RowUser r) = usr_User r"
| "row_doc (RowCredential r) = wcr_Credential r"

fun row_created :: "row \<Rightarrow> time" where
  "row_created (RowCode r) = acs_CreatedAt r"
| "row_created (RowAccess r) = ats_CreatedAt r"
| "row_created (RowRefresh r) = rts_CreatedAt r"
| "row_created (RowPkce r) = pks_CreatedAt r"
| "row_created (RowAuthorize r) = arr_CreatedAt r"
| "row_created (RowClient r) = clr_CreatedAt r"
| "row_created (RowVersion _) = 0"
| "row_created (RowUser r) = usr_CreatedAt r"
| "row_created (RowCredential r) = wcr_CreatedAt r"

section \<open>Statements\<close>

datatype where_clause =
    WEq string sql_value         \<comment> \<open>\<open>column = ?\<close>\<close>
  | WIn string "string list"     \<comment> \<open>\<open>column IN ?\<close>\<close>
  | WCreatedBefore time          \<comment> \<open>\<open>julianday(created_at) < julianday(?)\<close>\<close>
  | WAll                         \<comment> \<open>no condition, or \<open>1 = 1\<close>\<close>

text \<open>\<open>First\<close> answers \<open>Inr None\<close> for \<open>gorm.ErrRecordNotFound\<close>.  \<open>Find\<close> may be given a column to
  order by.  The flag of \<open>Create\<close> is \<open>clause.OnConflict{UpdateAll: true}\<close>.  \<open>Update\<close> and \<open>Delete\<close>
  report \<open>RowsAffected\<close>.\<close>

record 'd gorm =
  gm_First :: "family \<Rightarrow> where_clause \<Rightarrow> 'd \<Rightarrow> row option result"
  gm_Find :: "family \<Rightarrow> where_clause \<Rightarrow> string option \<Rightarrow> 'd \<Rightarrow> row list result"
  gm_Create :: "bool \<Rightarrow> row \<Rightarrow> 'd \<Rightarrow> 'd result"
  gm_Update :: "family \<Rightarrow> where_clause \<Rightarrow> string \<Rightarrow> doc \<Rightarrow> 'd \<Rightarrow> (int \<times> 'd) result"
  gm_Delete :: "family \<Rightarrow> where_clause \<Rightarrow> 'd \<Rightarrow> (int \<times> 'd) result"

record 'd sqldb =
  sd_db :: 'd
  sd_faults :: "bool list"

text \<open>\<open>db.Transaction\<close>; also a single statement, which is its own transaction.\<close>

definition sql_txn :: "('d \<Rightarrow> ('a \<times> 'd) result) \<Rightarrow> ('a, 'd sqldb) act" where
  "sql_txn f st =
     (case f (sd_db st) of
        Inl e \<Rightarrow> (Inl e, st)
      | Inr (x, d) \<Rightarrow>
          (case sd_faults st of
             True # fs \<Rightarrow> (Inl ErrCommit, st\<lparr>sd_faults := fs\<rparr>)
           | _ \<Rightarrow> (Inr x, st\<lparr>sd_db := d, sd_faults := tl (sd_faults st)\<rparr>)))"

definition sql_create :: "'d gorm \<Rightarrow> bool \<Rightarrow> row \<Rightarrow> (unit, 'd sqldb) act" where
  "sql_create G upsert r = sql_txn (\<lambda>d. txn_unit (gm_Create G upsert r d))"

definition sql_delete :: "'d gorm \<Rightarrow> family \<Rightarrow> where_clause \<Rightarrow> (unit, 'd sqldb) act" where
  "sql_delete G t w = sql_txn (\<lambda>d. res_bind (gm_Delete G t w d) (\<lambda>(n, d'). Inr ((), d')))"

text \<open>An update whose count of affected rows is ignored.\<close>

definition sql_update :: "'d gorm \<Rightarrow> family \<Rightarrow> where_clause \<Rightarrow> string \<Rightarrow> doc \<Rightarrow> (unit, 'd sqldb) act" where
  "sql_update G t w c v = sql_txn (\<lambda>d. res_bind (gm_Update G t w c v d) (\<lambda>(n, d'). Inr ((), d')))"

text \<open>The row of a primary key, \<open>fosite.ErrNotFound\<close> when there is none.\<close>

definition sql_first :: "'d gorm \<Rightarrow> family \<Rightarrow> where_clause \<Rightarrow> (row, 'd sqldb) query" where
  "sql_first G t w st =
     (case gm_First G t w (sd_db st) of
        Inl e \<Rightarrow> Inl e
      | Inr None \<Rightarrow> Inl ErrNotFound
      | Inr (Some r) \<Rightarrow> Inr r)"

section \<open>Opening\<close>

definition sqlite_pragmas :: "string list" where
  "sqlite_pragmas =
     [''PRAGMA busy_timeout = 5000'', ''PRAGMA journal_mode = WAL'',
      ''PRAGMA synchronous = NORMAL'', ''PRAGMA foreign_keys = ON'']"

text \<open>\<open>limit_open\<close> is \<open>db.DB\<close> with \<open>SetMaxOpenConns(1)\<close>.\<close>

definition configureSQLite ::
  "('d \<Rightarrow> 'd result) \<Rightarrow> (string \<Rightarrow> 'd \<Rightarrow> 'd result) \<Rightarrow> 'd \<Rightarrow> 'd result" where
  "configureSQLite limit_open exec db =
     res_bind (limit_open db) (fold_res exec sqlite_pragmas)"

definition NewSQLRepository ::
  "(string \<Rightarrow> 'd result) \<Rightarrow> ('d \<Rightarrow> 'd result) \<Rightarrow> (string \<Rightarrow> 'd \<Rightarrow> 'd result) \<Rightarrow>
     (family list \<Rightarrow> 'd \<Rightarrow> 'd result) \<Rightarrow> string \<Rightarrow> string \<Rightarrow> 'd result" where
  "NewSQLRepository open_db limit_open exec AutoMigrate driver dsn =
     (if driver = [] then Inl (ErrMsg ''driver must not be empty'')
      else if dsn = [] then Inl (ErrMsg ''dsn must not be empty'')
      else if to_lower driver \<noteq> ''sqlite'' then Inl (ErrMsg ''unsupported driver'')
      else res_bind (open_db dsn) (\<lambda>db.
           res_bind (configureSQLite limit_open exec db)
             (AutoMigrate [AuthorizeCode, AccessToken, RefreshToken, ClientReg, PkceRequest, AuthorizeReq,
                Meta, UserRec, Credential])))"

definition sql_EnsureSchemaVersion :: "'d gorm \<Rightarrow> int \<Rightarrow> (unit, 'd sqldb) act" where
  "sql_EnsureSchemaVersion G version st =
     (case gm_First G Meta (WEq ''id'' (VInt 1)) (sd_db st) of
        Inr None \<Rightarrow> sql_create G False (RowVersion \<lparr>svr_ID = 1, svr_Version = version\<rparr>) st
      | Inl e \<Rightarrow> (Inl e, st)
      | Inr (Some r) \<Rightarrow>
          (case dec_version (row_doc r) of
             Inl e \<Rightarrow> (Inl e, st)
           | Inr stored \<Rightarrow>
               if stored > version then (Inl (ErrSchemaNewer stored version), st)
               else if stored < version then
                 sql_update G Meta (WEq ''id'' (VInt 1)) ''version'' (DVersion version) st
               else (Inr (), st)))"

section \<open>Sessions\<close>

definition marshalRequest :: "FRequest \<Rightarrow> doc" where
  "marshalRequest q = DRequest (FromFositeReq q)"

definition unmarshalRequest :: "doc \<Rightarrow> Session option \<Rightarrow> FRequest result" where
  "unmarshalRequest data sess = res_bind (dec_request data) (\<lambda>r. load_request r sess)"

definition marshalAuthorizeRequest :: "FAuthorizeRequest \<Rightarrow> doc" where
  "marshalAuthorizeRequest q = DAuthorize (FromFositeAuthorizeRequest q)"

definition unmarshalAuthorizeRequest :: "(string \<Rightarrow> string option) \<Rightarrow> doc \<Rightarrow> FAuthorizeRequest result" where
  "unmarshalAuthorizeRequest reparse data =
     res_bind (dec_authorize data) (ToFositeAuthorizeRequest reparse)"

definition sql_CreateAuthorizeCodeSession :: "'d gorm \<Rightarrow> string \<Rightarrow> FRequest \<Rightarrow> (unit, 'd sqldb) act" where
  "sql_CreateAuthorizeCodeSession G code q =
     sql_create G True (RowCode
       \<lparr>acs_Code = code, acs_Request = marshalRequest q, acs_CreatedAt = 0, acs_UpdatedAt = 0\<rparr>)"

definition sql_GetAuthorizeCodeSession :: "'d gorm \<Rightarrow> string \<Rightarrow> Session option \<Rightarrow> (FRequest, 'd sqldb) query" where
  "sql_GetAuthorizeCodeSession G code sess st =
     res_bind (sql_first G AuthorizeCode (WEq ''code'' (VStr code)) st)
       (\<lambda>session. unmarshalRequest (row_doc session) sess)"

definition sql_InvalidateAuthorizeCodeSession :: "'d gorm \<Rightarrow> string \<Rightarrow> (unit, 'd sqldb) act" where
  "sql_InvalidateAuthorizeCodeSession G code = sql_delete G AuthorizeCode (WEq ''code'' (VStr code))"

definition sql_CreateAccessTokenSession :: "'d gorm \<Rightarrow> string \<Rightarrow> FRequest \<Rightarrow> (unit, 'd sqldb) act" where
  "sql_CreateAccessTokenSession G signature q =
     sql_create G True (RowAccess
       \<lparr>ats_Signature = signature, ats_RequestID = fr_ID q, ats_Request = marshalRequest q,
        ats_CreatedAt = 0, ats_UpdatedAt = 0\<rparr>)"

definition sql_GetAccessTokenSession :: "'d gorm \<Rightarrow> string \<Rightarrow> Session option \<Rightarrow> (FRequest, 'd sqldb) query" where
  "sql_GetAccessTokenSession G signature sess st =
     res_bind (sql_first G AccessToken (WEq ''signature'' (VStr signature)) st)
       (\<lambda>session. unmarshalRequest (row_doc session) sess)"

definition sql_DeleteAccessTokenSession :: "'d gorm \<Rightarrow> string \<Rightarrow> (unit, 'd sqldb) act" where
  "sql_DeleteAccessTokenSession G signature = sql_delete G AccessToken (WEq ''signature'' (VStr signature))"

definition sql_CreateRefreshTokenSession ::
  "'d gorm \<Rightarrow> string \<Rightarrow> string \<Rightarrow> FRequest \<Rightarrow> (unit, 'd sqldb) act" where
  "sql_CreateRefreshTokenSession G signature accessSignature q =
     sql_create G True (RowRefresh
       \<lparr>rts_Signature = signature, rts_AccessSignature = accessSignature, rts_RequestID = fr_ID q,
        rts_Request = marshalRequest q, rts_CreatedAt = 0, rts_UpdatedAt = 0\<rparr>)"

definition sql_GetRefreshTokenSession :: "'d gorm \<Rightarrow> string \<Rightarrow> Session option \<Rightarrow> (FRequest, 'd sqldb) query" where
  "sql_GetRefreshTokenSession G signature sess st =
     res_bind (sql_first G RefreshToken (WEq ''signature'' (VStr signature)) st)
       (\<lambda>session. unmarshalRequest (row_doc session) sess)"

definition sql_DeleteRefreshTokenSession :: "'d gorm \<Rightarrow> string \<Rightarrow> (unit, 'd sqldb) act" where
  "sql_DeleteRefreshTokenSession G signature = sql_delete G RefreshToken (WEq ''signature'' (VStr signature))"

definition sql_RotateRefreshToken :: "'d gorm \<Rightarrow> string \<Rightarrow> string \<Rightarrow> time \<Rightarrow> (unit, 'd sqldb) act" where
  "sql_RotateRefreshToken G requestID signature now st =
     (case sql_first G RefreshToken (WEq ''signature'' (VStr signature)) st of
        Inl e \<Rightarrow> (Inl e, st)
      | Inr session \<Rightarrow>
          (case dec_request (row_doc session) of
             Inl e \<Rightarrow> (Inl e, st)
           | Inr req \<Rightarrow>
               sql_update G RefreshToken (WEq ''signature'' (VStr signature)) ''request''
                 (DRequest (req\<lparr>rq_RotatedAt := now\<rparr>)) st))"

definition sql_RevokeRefreshToken :: "'d gorm \<Rightarrow> string \<Rightarrow> (unit, 'd sqldb) act" where
  "sql_RevokeRefreshToken G requestID = sql_delete G RefreshToken (WEq ''request_id'' (VStr requestID))"

definition sql_RevokeAccessToken :: "'d gorm \<Rightarrow> string \<Rightarrow> (unit, 'd sqldb) act" where
  "sql_RevokeAccessToken G requestID = sql_delete G AccessToken (WEq ''request_id'' (VStr requestID))"

fun sql_sweeps :: "'d gorm \<Rightarrow> (family \<times> time) list \<Rightarrow> (unit, 'd sqldb) act" where
  "sql_sweeps G [] st = (Inr (), st)"
| "sql_sweeps G ((model, before) # ss) st =
     (case sql_delete G model (WCreatedBefore before) st of
        (Inl e, st') \<Rightarrow> (Inl e, st')
      | (Inr _, st') \<Rightarrow> sql_sweeps G ss st')"

definition sql_DeleteExpiredSessions :: "'d gorm \<Rightarrow> time \<Rightarrow> time \<Rightarrow> time \<Rightarrow> (unit, 'd sqldb) act" where
  "sql_DeleteExpiredSessions G accessBefore refreshBefore codeBefore =
     sql_sweeps G [(AccessToken, accessBefore), (RefreshToken, refreshBefore), (AuthorizeCode, codeBefore),
       (PkceRequest, codeBefore), (AuthorizeReq, codeBefore)]"

definition sql_CreatePKCERequestSession :: "'d gorm \<Rightarrow> string \<Rightarrow> FRequest \<Rightarrow> (unit, 'd sqldb) act" where
  "sql_CreatePKCERequestSession G signature q =
     sql_create G True (RowPkce
       \<lparr>pks_Signature = signature, pks_Request = marshalRequest q, pks_CreatedAt = 0, pks_UpdatedAt = 0\<rparr>)"

definition sql_GetPKCERequestSession :: "'d gorm \<Rightarrow> string \<Rightarrow> Session option \<Rightarrow> (FRequest, 'd sqldb) query" where
  "sql_GetPKCERequestSession G signature sess st =
     res_bind (sql_first G PkceRequest (WEq ''signature'' (VStr signature)) st)
       (\<lambda>session. unmarshalRequest (row_doc session) sess)"

definition sql_DeletePKCERequestSession :: "'d gorm \<Rightarrow> string \<Rightarrow> (unit, 'd sqldb) act" where
  "sql_DeletePKCERequestSession G signature = sql_delete G PkceRequest (WEq ''signature'' (VStr signature))"

definition sql_CreateAuthorizeRequest :: "'d gorm \<Rightarrow> FAuthorizeRequest \<Rightarrow> (unit, 'd sqldb) act" where
  "sql_CreateAuthorizeRequest G q =
     sql_create G True (RowAuthorize
       \<lparr>arr_RequestID = fr_ID q, arr_Request = marshalAuthorizeRequest q, arr_CreatedAt = 0, arr_UpdatedAt = 0\<rparr>)"

definition sql_GetAuthorizeRequest ::
  "'d gorm \<Rightarrow> (string \<Rightarrow> string option) \<Rightarrow> string \<Rightarrow> (FAuthorizeRequest, 'd sqldb) query" where
  "sql_GetAuthorizeRequest G reparse requestID st =
     res_bind (sql_first G AuthorizeReq (WEq ''request_id'' (VStr requestID)) st)
       (\<lambda>record. unmarshalAuthorizeRequest reparse (row_doc record))"

definition sql_DeleteAuthorizeRequest :: "'d gorm \<Rightarrow> string \<Rightarrow> (unit, 'd sqldb) act" where
  "sql_DeleteAuthorizeRequest G requestID = sql_delete G AuthorizeReq (WEq ''request_id'' (VStr requestID))"

section \<open>Clients\<close>

definition countNonExpiredClientRecords :: "'d gorm \<Rightarrow> 'd \<Rightarrow> time \<Rightarrow> int result" where
  "countNonExpiredClientRecords G db now =
     res_bind (gm_Find G ClientReg WAll None db)
       (\<lambda>records. Inr (int (length (filter (\<lambda>r. client_counts now (row_doc r)) records))))"

definition sql_RegisterClient :: "'d gorm \<Rightarrow> ClientRegistration \<Rightarrow> time \<Rightarrow> time \<Rightarrow> (unit, 'd sqldb) act" where
  "sql_RegisterClient G g created now =
     (let client = (FromFositeClient (cr_Client g))
            \<lparr>cl_Name := cr_Name g, cl_CreatedAt := created, cl_ExpiresAt := cr_ExpiresAt g\<rparr>;
          record = RowClient
            \<lparr>clr_ID = fc_ID (cr_Client g), clr_Client = DClient client, clr_CreatedAt = 0, clr_UpdatedAt = 0\<rparr>
      in sql_txn (\<lambda>tx.
           res_bind
             (if cr_MaxClients g > 0 then
                res_bind (gm_First G ClientReg (WEq ''id'' (VStr (fc_ID (cr_Client g)))) tx) (\<lambda>existing.
                  if existing = None then
                    res_bind (countNonExpiredClientRecords G tx now) (\<lambda>count.
                      if count \<ge> cr_MaxClients g then Inl ErrClientCapReached else Inr ())
                  else Inr ())
              else Inr ())
             (\<lambda>_. txn_unit (gm_Create G True record tx))))"

definition getClientModel :: "'d gorm \<Rightarrow> string \<Rightarrow> (Client, 'd sqldb) query" where
  "getClientModel G cid st =
     res_bind (sql_first G ClientReg (WEq ''id'' (VStr cid)) st) (\<lambda>record. dec_client (row_doc record))"

definition sql_GetClientName :: "'d gorm \<Rightarrow> string \<Rightarrow> time \<Rightarrow> (runes, 'd sqldb) query" where
  "sql_GetClientName G cid now st =
     (case getClientModel G cid st of
        Inl ErrNotFound \<Rightarrow> Inr []
      | Inl e \<Rightarrow> Inl e
      | Inr c \<Rightarrow> if client_expired now c then Inr [] else Inr (cl_Name c))"

definition sql_GetClient :: "'d gorm \<Rightarrow> string \<Rightarrow> time \<Rightarrow> (FClient, 'd sqldb) query" where
  "sql_GetClient G cid now st =
     res_bind (getClientModel G cid st) (\<lambda>c.
       if client_expired now c then Inl ErrNotFound else Inr (ToFositeClient c))"

definition sql_TouchClient :: "'d gorm \<Rightarrow> string \<Rightarrow> time \<Rightarrow> (unit, 'd sqldb) act" where
  "sql_TouchClient G cid expiresAt st =
     (case getClientModel G cid st of
        Inl e \<Rightarrow> (Inl e, st)
      | Inr c \<Rightarrow>
          if time_is_zero (cl_ExpiresAt c) then (Inr (), st)
          else sql_update G ClientReg (WEq ''id'' (VStr cid)) ''client''
                 (DClient (c\<lparr>cl_ExpiresAt := expiresAt\<rparr>)) st)"

definition sql_CountClients :: "'d gorm \<Rightarrow> time \<Rightarrow> (int, 'd sqldb) query" where
  "sql_CountClients G now st = countNonExpiredClientRecords G (sd_db st) now"

text \<open>Registrations that do not decode are skipped.\<close>

definition allClientModels :: "'d gorm \<Rightarrow> (Client list, 'd sqldb) query" where
  "allClientModels G st =
     res_bind (gm_Find G ClientReg WAll None (sd_db st)) (\<lambda>records.
       Inr (List.map_filter (\<lambda>r. case dec_client (row_doc r) of Inl _ \<Rightarrow> None | Inr c \<Rightarrow> Some c) records))"

fun sql_delete_clients :: "'d gorm \<Rightarrow> string list \<Rightarrow> (unit, 'd sqldb) act" where
  "sql_delete_clients G [] st = (Inr (), st)"
| "sql_delete_clients G (cid # cids) st =
     (case sql_delete G ClientReg (WEq ''id'' (VStr cid)) st of
        (Inl e, st') \<Rightarrow> (Inl e, st')
      | (Inr _, st') \<Rightarrow> sql_delete_clients G cids st')"

definition sql_DeleteExpiredClients :: "'d gorm \<Rightarrow> time \<Rightarrow> (unit, 'd sqldb) act" where
  "sql_DeleteExpiredClients G now st =
     (case allClientModels G st of
        Inl e \<Rightarrow> (Inl e, st)
      | Inr clients \<Rightarrow> sql_delete_clients G (map cl_ID (filter (client_expired now) clients)) st)"

definition sql_ClientAssertionJWTValid :: "string \<Rightarrow> (unit, 'd sqldb) query" where
  "sql_ClientAssertionJWTValid jti st = Inl ErrNotImplemented"

definition sql_SetClientAssertionJWT :: "string \<Rightarrow> time \<Rightarrow> (unit, 'd sqldb) act" where
  "sql_SetClientAssertionJWT jti expiry st = (Inl ErrNotImplemented, st)"

section \<open>The operator and the passkeys\<close>

definition sql_GetUser :: "'d gorm \<Rightarrow> (User, 'd sqldb) query" where
  "sql_GetUser G st = res_bind (sql_first G UserRec WAll st) (\<lambda>record. dec_user (row_doc record))"

definition sql_CreateUser :: "'d gorm \<Rightarrow> User \<Rightarrow> (unit, 'd sqldb) act" where
  "sql_CreateUser G u =
     sql_create G False (RowUser \<lparr>usr_ID = u_ID u, usr_User = DUser u, usr_CreatedAt = 0, usr_UpdatedAt = 0\<rparr>)"

text \<open>An update that must affect a row.\<close>

definition sql_update_existing ::
  "'d gorm \<Rightarrow> family \<Rightarrow> where_clause \<Rightarrow> string \<Rightarrow> doc \<Rightarrow> (unit, 'd sqldb) act" where
  "sql_update_existing G t w c v st =
     (case sql_txn (gm_Update G t w c v) st of
        (Inl e, st') \<Rightarrow> (Inl e, st')
      | (Inr affected, st') \<Rightarrow> if affected = 0 then (Inl ErrNotFound, st') else (Inr (), st'))"

definition sql_UpdateUser :: "'d gorm \<Rightarrow> User \<Rightarrow> (unit, 'd sqldb) act" where
  "sql_UpdateUser G u = sql_update_existing G UserRec (WEq ''id'' (VStr (u_ID u))) ''user'' (DUser u)"

definition sql_AddWebAuthnCredential :: "'d gorm \<Rightarrow> WebAuthnCredential \<Rightarrow> (unit, 'd sqldb) act" where
  "sql_AddWebAuthnCredential G c =
     sql_create G False (RowCredential
       \<lparr>wcr_ID = wc_ID c, wcr_UserID = wc_UserID c, wcr_Credential = DCredential c,
        wcr_CreatedAt = 0, wcr_UpdatedAt = 0\<rparr>)"

definition sql_UpdateWebAuthnCredential :: "'d gorm \<Rightarrow> WebAuthnCredential \<Rightarrow> (unit, 'd sqldb) act" where
  "sql_UpdateWebAuthnCredential G c =
     sql_update_existing G Credential (WEq ''id'' (VStr (wc_ID c))) ''credential'' (DCredential c)"

definition sql_DeleteWebAuthnCredential :: "'d gorm \<Rightarrow> string \<Rightarrow> (unit, 'd sqldb) act" where
  "sql_DeleteWebAuthnCredential G cid = sql_delete G Credential (WEq ''id'' (VStr cid))"

definition sql_ListWebAuthnCredentials :: "'d gorm \<Rightarrow> string \<Rightarrow> (WebAuthnCredential list, 'd sqldb) query" where
  "sql_ListWebAuthnCredentials G userID st =
     res_bind (gm_Find G Credential (WEq ''user_id'' (VStr userID)) (Some ''created_at'') (sd_db st)) (\<lambda>records.
     fold_res (\<lambda>r cs. res_bind (dec_credential (row_doc r)) (\<lambda>c. Inr (cs @ [c]))) records [])"

section \<open>The client list and the kill switches\<close>

definition allRequests :: "'d gorm \<Rightarrow> family \<Rightarrow> 'd \<Rightarrow> Request list result" where
  "allRequests G t db =
     res_bind (gm_Find G t WAll None db) (\<lambda>records.
     fold_res (\<lambda>r qs. res_bind (dec_request (row_doc r)) (\<lambda>q. Inr (qs @ [q]))) records [])"

definition sql_ListClientGrants :: "'d gorm \<Rightarrow> time \<Rightarrow> (ClientGrants list, 'd sqldb) query" where
  "sql_ListClientGrants G now st =
     (let db = sd_db st
      in res_bind (allRequests G AccessToken db) (\<lambda>accessTokens.
         let i1 = fold (addToken accessTokenKind) accessTokens newInventory
         in res_bind (allRequests G RefreshToken db) (\<lambda>refreshTokens.
         let i2 = fold (addToken refreshTokenKind) refreshTokens i1
         in res_bind (gm_Find G ClientReg WAll None db) (\<lambda>records.
         res_bind (fold_res (\<lambda>r i. res_bind (dec_client (row_doc r)) (\<lambda>c. Inr (addRegistration c i))) records i2)
           (\<lambda>inv. Inr (rows now inv))))))"

record revokeScope =
  rs_clientID :: string
  rs_all :: bool

record sql_sweep =
  sp_model :: family
  sp_column :: string
  sp_keys :: "string list"

text \<open>The key column of a row, which \<open>fields\<close> of the Go code reads.\<close>

definition row_key_of :: "string \<Rightarrow> row \<Rightarrow> string" where
  "row_key_of c r = (case column r c of Some (VStr k) \<Rightarrow> k | _ \<Rightarrow> [])"

definition staleKeys :: "'d gorm \<Rightarrow> family \<Rightarrow> string \<Rightarrow> (Request \<Rightarrow> bool) \<Rightarrow> 'd \<Rightarrow> string list result" where
  "staleKeys G t c match tx =
     res_bind (gm_Find G t WAll None tx) (\<lambda>records.
     fold_res (\<lambda>r stale. res_bind (dec_request (row_doc r)) (\<lambda>req.
         Inr (if match req then stale @ [row_key_of c r] else stale))) records [])"

definition staleAuthorizeRequests :: "'d gorm \<Rightarrow> (Request \<Rightarrow> bool) \<Rightarrow> 'd \<Rightarrow> string list result" where
  "staleAuthorizeRequests G match tx =
     res_bind (gm_Find G AuthorizeReq WAll None tx) (\<lambda>records.
     fold_res (\<lambda>r stale. res_bind (dec_authorize (row_doc r)) (\<lambda>ar.
         Inr (case ar_Request ar of
                None \<Rightarrow> stale
              | Some req \<Rightarrow> if match req then stale @ [row_key_of ''request_id'' r] else stale))) records [])"

definition collectSweeps :: "'d gorm \<Rightarrow> (Request \<Rightarrow> bool) \<Rightarrow> 'd \<Rightarrow> sql_sweep list result" where
  "collectSweeps G match tx =
     res_bind (staleKeys G AccessToken ''signature'' match tx) (\<lambda>accessTokens.
     res_bind (staleKeys G RefreshToken ''signature'' match tx) (\<lambda>refreshTokens.
     res_bind (staleKeys G AuthorizeCode ''code'' match tx) (\<lambda>authorizeCodes.
     res_bind (staleKeys G PkceRequest ''signature'' match tx) (\<lambda>pkceRequests.
     res_bind (staleAuthorizeRequests G match tx) (\<lambda>authorizeRequests.
       Inr [\<lparr>sp_model = AccessToken, sp_column = ''signature'', sp_keys = accessTokens\<rparr>,
            \<lparr>sp_model = RefreshToken, sp_column = ''signature'', sp_keys = refreshTokens\<rparr>,
            \<lparr>sp_model = AuthorizeCode, sp_column = ''code'', sp_keys = authorizeCodes\<rparr>,
            \<lparr>sp_model = PkceRequest, sp_column = ''signature'', sp_keys = pkceRequests\<rparr>,
            \<lparr>sp_model = AuthorizeReq, sp_column = ''request_id'', sp_keys = authorizeRequests\<rparr>])))))"

definition run_sweep :: "'d gorm \<Rightarrow> sql_sweep \<Rightarrow> int \<times> 'd \<Rightarrow> (int \<times> 'd) result" where
  "run_sweep G table x =
     (case x of (deleted, tx) \<Rightarrow>
        if sp_keys table = [] then Inr (deleted, tx)
        else res_bind (gm_Delete G (sp_model table) (WIn (sp_column table) (sp_keys table)) tx)
               (\<lambda>(n, tx'). Inr (deleted + int (length (sp_keys table)), tx')))"

definition deleteRegistrations :: "'d gorm \<Rightarrow> revokeScope \<Rightarrow> 'd \<Rightarrow> (int \<times> 'd) result" where
  "deleteRegistrations G scope tx =
     (if rs_all scope then gm_Delete G ClientReg WAll tx
      else if rs_clientID scope \<noteq> [] then gm_Delete G ClientReg (WEq ''id'' (VStr (rs_clientID scope))) tx
      else Inr (0, tx))"

definition sql_revoke :: "'d gorm \<Rightarrow> (Request \<Rightarrow> bool) \<Rightarrow> revokeScope \<Rightarrow> (int, 'd sqldb) act" where
  "sql_revoke G match scope = sql_txn (\<lambda>tx.
     res_bind (collectSweeps G match tx) (\<lambda>sweeps.
     res_bind (fold_res (run_sweep G) sweeps (0, tx)) (\<lambda>(deleted, tx1).
     res_bind (deleteRegistrations G scope tx1) (\<lambda>(clients, tx2). Inr (deleted + clients, tx2)))))"

definition sql_RevokeClient :: "'d gorm \<Rightarrow> string \<Rightarrow> (int, 'd sqldb) act" where
  "sql_RevokeClient G clientID = sql_revoke G (of_client clientID) \<lparr>rs_clientID = clientID, rs_all = False\<rparr>"

definition sql_RevokeGrant :: "'d gorm \<Rightarrow> string \<Rightarrow> (int, 'd sqldb) act" where
  "sql_RevokeGrant G requestID = sql_revoke G (\<lambda>r. rq_ID r = requestID) \<lparr>rs_clientID = [], rs_all = False\<rparr>"

definition sql_RevokeAll :: "'d gorm \<Rightarrow> (int, 'd sqldb) act" where
  "sql_RevokeAll G = sql_revoke G (\<lambda>_. True) \<lparr>rs_clientID = [], rs_all = True\<rparr>"

end
