(* ===== verification/SqlStore.thy ===== *)
theory SqlStore
  imports Sql
begin

text \<open>
  The SQLite backend implements the abstract store of \<open>Repository\<close>: \<open>sview\<close> reads the tables as
  record families, and a database whose reads do not fail meets the same contracts as the bbolt
  backend (the sublocales at the end).  The laws of the statements are assumed in
  \<open>gorm_database\<close> and hold of \<open>ref_gorm\<close>, a list of rows with distinct keys.

  The operator account is not part of the view: its table is keyed by the account's identifier,
  and what the code relies on, that there is at most one account, is not a law of the database.
\<close>

section \<open>The laws of the statements\<close>

fun pk :: "family \<Rightarrow> string" where
  "pk AuthorizeCode = ''code''"
| "pk AccessToken = ''signature''"
| "pk RefreshToken = ''signature''"
| "pk PkceRequest = ''signature''"
| "pk AuthorizeReq = ''request_id''"
| "pk _ = ''id''"

definition where_holds :: "(time \<Rightarrow> time \<Rightarrow> bool) \<Rightarrow> where_clause \<Rightarrow> row \<Rightarrow> bool" where
  "where_holds julian w r =
     (case w of
        WEq c x \<Rightarrow> column r c = Some x
      | WIn c ks \<Rightarrow> list_ex (\<lambda>k. column r c = Some (VStr k)) ks
      | WCreatedBefore t \<Rightarrow> julian (row_created r) t
      | WAll \<Rightarrow> True)"

text \<open>gorm sets the timestamps of the rows it writes; the laws leave them open.\<close>

fun untimed :: "row \<Rightarrow> row" where
  "untimed (RowCode r) = RowCode (r\<lparr>acs_CreatedAt := 0, acs_UpdatedAt := 0\<rparr>)"
| "untimed (RowAccess r) = RowAccess (r\<lparr>ats_CreatedAt := 0, ats_UpdatedAt := 0\<rparr>)"
| "untimed (RowRefresh r) = RowRefresh (r\<lparr>rts_CreatedAt := 0, rts_UpdatedAt := 0\<rparr>)"
| "untimed (RowPkce r) = RowPkce (r\<lparr>pks_CreatedAt := 0, pks_UpdatedAt := 0\<rparr>)"
| "untimed (RowAuthorize r) = RowAuthorize (r\<lparr>arr_CreatedAt := 0, arr_UpdatedAt := 0\<rparr>)"
| "untimed (RowClient r) = RowClient (r\<lparr>clr_CreatedAt := 0, clr_UpdatedAt := 0\<rparr>)"
| "untimed (RowVersion r) = RowVersion r"
| "untimed (RowUser r) = RowUser (r\<lparr>usr_CreatedAt := 0, usr_UpdatedAt := 0\<rparr>)"
| "untimed (RowCredential r) = RowCredential (r\<lparr>wcr_CreatedAt := 0, wcr_UpdatedAt := 0\<rparr>)"

fun set_column :: "string \<Rightarrow> doc \<Rightarrow> row \<Rightarrow> row" where
  "set_column c v (RowCode r) = RowCode (if c = ''request'' then r\<lparr>acs_Request := v\<rparr> else r)"
| "set_column c v (RowAccess r) = RowAccess (if c = ''request'' then r\<lparr>ats_Request := v\<rparr> else r)"
| "set_column c v (RowRefresh r) = RowRefresh (if c = ''request'' then r\<lparr>rts_Request := v\<rparr> else r)"
| "set_column c v (RowPkce r) = RowPkce (if c = ''request'' then r\<lparr>pks_Request := v\<rparr> else r)"
| "set_column c v (RowAuthorize r) = RowAuthorize (if c = ''request'' then r\<lparr>arr_Request := v\<rparr> else r)"
| "set_column c v (RowClient r) = RowClient (if c = ''client'' then r\<lparr>clr_Client := v\<rparr> else r)"
| "set_column c v (RowVersion r) =
     RowVersion (case v of DVersion n \<Rightarrow> if c = ''version'' then r\<lparr>svr_Version := n\<rparr> else r | _ \<Rightarrow> r)"
| "set_column c v (RowUser r) = RowUser (if c = ''user'' then r\<lparr>usr_User := v\<rparr> else r)"
| "set_column c v (RowCredential r) = RowCredential (if c = ''credential'' then r\<lparr>wcr_Credential := v\<rparr> else r)"

text \<open>\<open>tbl\<close> is the content of the tables, which the operations of \<open>G\<close> read and write.\<close>

locale gorm_database =
  fixes G :: "'d gorm" and tbl :: "'d \<Rightarrow> family \<Rightarrow> sql_value \<rightharpoonup> row"
    and julian :: "time \<Rightarrow> time \<Rightarrow> bool"
  assumes keyed: "tbl d t k = Some r \<Longrightarrow> row_table r = t \<and> column r (pk t) = Some k"
    and finite_table: "finite (dom (tbl d t))"
    and First: "gm_First G t w d = Inr x \<Longrightarrow>
      (case x of
         None \<Rightarrow> \<forall>k r. tbl d t k = Some r \<longrightarrow> \<not> where_holds julian w r
       | Some r \<Rightarrow> where_holds julian w r \<and> (\<exists>k. tbl d t k = Some r))"
    and Find: "gm_Find G t w order d = Inr rs \<Longrightarrow>
      distinct rs \<and> set rs = {r. where_holds julian w r \<and> (\<exists>k. tbl d t k = Some r)}"
    and Create: "gm_Create G upsert r d = Inr d' \<Longrightarrow>
      \<exists>k r'. column r (pk (row_table r)) = Some k \<and> untimed r' = untimed r \<and>
        (\<not> upsert \<longrightarrow> tbl d (row_table r) k = None) \<and>
        tbl d' = (tbl d)(row_table r := (tbl d (row_table r))(k \<mapsto> r'))"
    and Update: "gm_Update G t w c v d = Inr (n, d') \<Longrightarrow>
      n = int (card {k. \<exists>r. tbl d t k = Some r \<and> where_holds julian w r}) \<and>
      (\<exists>upd. (\<forall>r. untimed (upd r) = untimed (set_column c v r)) \<and>
        tbl d' = (tbl d)(t := (\<lambda>k. map_option (\<lambda>r. if where_holds julian w r then upd r else r) (tbl d t k))))"
    and Delete: "gm_Delete G t w d = Inr (n, d') \<Longrightarrow>
      n = int (card {k. \<exists>r. tbl d t k = Some r \<and> where_holds julian w r}) \<and>
      tbl d' = (tbl d)(t := (\<lambda>k. case tbl d t k of
         None \<Rightarrow> None | Some r \<Rightarrow> if where_holds julian w r then None else Some r))"
    and errors: "gm_First G t w d = Inl e \<Longrightarrow> e = ErrCommit" "gm_Find G t w order d = Inl e \<Longrightarrow> e = ErrCommit"
      "gm_Create G upsert r d = Inl e \<Longrightarrow> e = ErrCommit"
      "gm_Update G t w c v d = Inl e \<Longrightarrow> e = ErrCommit" "gm_Delete G t w d = Inl e \<Longrightarrow> e = ErrCommit"

locale reliable_database = gorm_database G tbl julian
  for G :: "'d gorm" and tbl :: "'d \<Rightarrow> family \<Rightarrow> sql_value \<rightharpoonup> row" and julian :: "time \<Rightarrow> time \<Rightarrow> bool" +
  assumes First_total: "\<exists>x. gm_First G t w d = Inr x" and Find_total: "\<exists>rs. gm_Find G t w order d = Inr rs"

section \<open>A reference database\<close>

definition row_id :: "row \<Rightarrow> family \<times> sql_value option" where
  "row_id r = (row_table r, column r (pk (row_table r)))"

typedef ref_db = "{rs :: row list. distinct (map row_id rs)}"
  by (rule exI [of _ "[]"]) simp

setup_lifting type_definition_ref_db

lemma column_pk: "\<exists>k. column r (pk (row_table r)) = Some k"
  by (cases r) auto

definition row_in :: "family \<Rightarrow> (row \<Rightarrow> bool) \<Rightarrow> row \<Rightarrow> bool" where
  "row_in t P r \<longleftrightarrow> row_table r = t \<and> P r"

lemma untimed_sel:
  "row_id (untimed r) = row_id r" "row_table (untimed r) = row_table r" "column (untimed r) c = column r c"
  "row_doc (untimed r) = row_doc r"
  by (cases r; simp add: row_id_def)+

lemma untimed_eq:
  assumes "untimed r = untimed r'"
  shows "row_id r = row_id r'" "row_table r = row_table r'" "column r c = column r' c" "row_doc r = row_doc r'"
  using assms [THEN arg_cong, of row_id] assms [THEN arg_cong, of row_table]
    assms [THEN arg_cong, of "\<lambda>x. column x c"] assms [THEN arg_cong, of row_doc]
  by (simp_all only: untimed_sel)

lemma row_id_set_column: "row_id (set_column c v r) = row_id r"
  by (cases r) (auto simp: row_id_def split: doc.splits)

lift_definition db_empty :: ref_db is "[]" by simp

lift_definition db_rows :: "ref_db \<Rightarrow> row list" is "\<lambda>rs. rs" .

lift_definition db_put :: "row \<Rightarrow> ref_db \<Rightarrow> ref_db" is
  "\<lambda>r rs. filter (\<lambda>x. row_id x \<noteq> row_id r) rs @ [r]"
  by (auto simp: distinct_map_filter)

lift_definition db_change :: "family \<Rightarrow> (row \<Rightarrow> bool) \<Rightarrow> string \<Rightarrow> doc \<Rightarrow> ref_db \<Rightarrow> ref_db" is
  "\<lambda>t P c v. map (\<lambda>r. if row_in t P r then set_column c v r else r)"
  by (simp add: comp_def if_distrib [of row_id] row_id_set_column cong: if_cong)

lift_definition db_remove :: "family \<Rightarrow> (row \<Rightarrow> bool) \<Rightarrow> ref_db \<Rightarrow> ref_db" is
  "\<lambda>t P. filter (\<lambda>r. \<not> row_in t P r)"
  by (simp add: distinct_map_filter)

definition ref_tbl :: "ref_db \<Rightarrow> family \<Rightarrow> sql_value \<rightharpoonup> row" where
  "ref_tbl d t k = List.find (\<lambda>r. row_id r = (t, Some k)) (db_rows d)"

definition ref_gorm :: "ref_db gorm" where
  "ref_gorm =
     \<lparr>gm_First = (\<lambda>t w d. Inr (List.find (row_in t (where_holds (<) w)) (db_rows d))),
      gm_Find = (\<lambda>t w order d. Inr (filter (row_in t (where_holds (<) w)) (db_rows d))),
      gm_Create = (\<lambda>upsert r d.
        if \<not> upsert \<and> list_ex (\<lambda>x. row_id x = row_id r) (db_rows d) then Inl ErrCommit else Inr (db_put r d)),
      gm_Update = (\<lambda>t w c v d.
        Inr (int (length (filter (row_in t (where_holds (<) w)) (db_rows d))),
          db_change t (where_holds (<) w) c v d)),
      gm_Delete = (\<lambda>t w d.
        Inr (int (length (filter (row_in t (where_holds (<) w)) (db_rows d))),
          db_remove t (where_holds (<) w) d))\<rparr>"

lemma db_rows_distinct: "distinct (map row_id (db_rows d))"
  by transfer simp

lemma db_rows_simps:
  "db_rows db_empty = []" "db_rows (db_put r d) = filter (\<lambda>x. row_id x \<noteq> row_id r) (db_rows d) @ [r]"
  "db_rows (db_change t P c v d) = map (\<lambda>r. if row_in t P r then set_column c v r else r) (db_rows d)"
  "db_rows (db_remove t P d) = filter (\<lambda>r. \<not> row_in t P r) (db_rows d)"
  by (transfer, simp)+

lemma find_distinct:
  "distinct (map f xs) \<Longrightarrow> List.find (\<lambda>x. f x = a) xs = Some y \<longleftrightarrow> y \<in> set xs \<and> f y = a"
  by (induction xs) auto

lemma ref_tbl_iff: "ref_tbl d t k = Some r \<longleftrightarrow> r \<in> set (db_rows d) \<and> row_id r = (t, Some k)"
  unfolding ref_tbl_def by (rule find_distinct [OF db_rows_distinct])

lemma ref_tbl_eqI:
  assumes "\<And>t k r. ref_tbl d t k = Some r \<longleftrightarrow> T t k = Some r"
  shows "ref_tbl d = T"
proof (intro ext)
  fix t k show "ref_tbl d t k = T t k"
    by (metis assms not_None_eq)
qed

lemma ref_table: "r \<in> set (db_rows d) \<Longrightarrow> row_table r = t \<longleftrightarrow> (\<exists>k. ref_tbl d t k = Some r)"
  using column_pk [of r] by (auto simp: ref_tbl_iff row_id_def)

lemma ref_count:
  "length (filter (row_in t P) (db_rows d)) = card {k. \<exists>r. ref_tbl d t k = Some r \<and> P r}"
proof -
  let ?xs = "filter (row_in t P) (db_rows d)"
  have "distinct (map row_id ?xs)" using db_rows_distinct by (rule distinct_map_filter)
  then have "length ?xs = card (row_id ` set ?xs)" by (metis distinct_card length_map set_map)
  also have "row_id ` set ?xs = (\<lambda>k. (t, Some k)) ` {k. \<exists>r. ref_tbl d t k = Some r \<and> P r}"
    using column_pk by (force simp: ref_tbl_iff row_in_def row_id_def image_iff)
  also have "card \<dots> = card {k. \<exists>r. ref_tbl d t k = Some r \<and> P r}"
    by (rule card_image) (simp add: inj_on_def)
  finally show ?thesis .
qed

lemma ref_tbl_put:
  assumes "column r (pk (row_table r)) = Some k"
  shows "ref_tbl (db_put r d) = (ref_tbl d)(row_table r := (ref_tbl d (row_table r))(k \<mapsto> r))"
proof (rule ref_tbl_eqI)
  fix t j x
  have id: "row_id r = (row_table r, Some k)" using assms by (simp add: row_id_def)
  show "ref_tbl (db_put r d) t j = Some x \<longleftrightarrow>
      ((ref_tbl d)(row_table r := (ref_tbl d (row_table r))(k \<mapsto> r))) t j = Some x"
    unfolding ref_tbl_iff db_rows_simps using id
    by (cases "t = row_table r"; cases "j = k") (auto simp: ref_tbl_iff)
qed

lemma ref_tbl_change:
  "ref_tbl (db_change t P c v d) =
     (ref_tbl d)(t := (\<lambda>k. map_option (\<lambda>r. if P r then set_column c v r else r) (ref_tbl d t k)))"
proof (rule ref_tbl_eqI)
  fix u k x
  let ?g = "\<lambda>r. if row_in t P r then set_column c v r else r"
  have tab: "row_id r = (u, Some k) \<Longrightarrow> row_in t P r \<longleftrightarrow> u = t \<and> P r" for r
    by (auto simp: row_id_def row_in_def)
  have "ref_tbl (db_change t P c v d) u k = Some x \<longleftrightarrow> (\<exists>r \<in> set (db_rows d). x = ?g r \<and> row_id r = (u, Some k))"
    unfolding ref_tbl_iff db_rows_simps by (auto simp: row_id_set_column)
  also have "\<dots> \<longleftrightarrow> (\<exists>r. ref_tbl d u k = Some r \<and> x = (if u = t \<and> P r then set_column c v r else r))"
    unfolding ref_tbl_iff using tab by auto
  also have "\<dots> \<longleftrightarrow>
      ((ref_tbl d)(t := (\<lambda>k. map_option (\<lambda>r. if P r then set_column c v r else r) (ref_tbl d t k)))) u k = Some x"
    by (cases "u = t"; cases "ref_tbl d u k") auto
  finally show "ref_tbl (db_change t P c v d) u k = Some x \<longleftrightarrow>
      ((ref_tbl d)(t := (\<lambda>k. map_option (\<lambda>r. if P r then set_column c v r else r) (ref_tbl d t k)))) u k = Some x" .
qed

lemma ref_tbl_remove:
  "ref_tbl (db_remove t P d) =
     (ref_tbl d)(t := (\<lambda>k. case ref_tbl d t k of None \<Rightarrow> None | Some r \<Rightarrow> if P r then None else Some r))"
proof (rule ref_tbl_eqI)
  fix u k x
  have tab: "row_id r = (u, Some k) \<Longrightarrow> row_in t P r \<longleftrightarrow> u = t \<and> P r" for r
    by (auto simp: row_id_def row_in_def)
  have "ref_tbl (db_remove t P d) u k = Some x \<longleftrightarrow> ref_tbl d u k = Some x \<and> \<not> (u = t \<and> P x)"
    unfolding ref_tbl_iff db_rows_simps using tab by auto
  then show "ref_tbl (db_remove t P d) u k = Some x \<longleftrightarrow>
      ((ref_tbl d)(t := (\<lambda>k. case ref_tbl d t k of None \<Rightarrow> None | Some r \<Rightarrow> if P r then None else Some r))) u k = Some x"
    by (auto split: option.splits)
qed

lemma ref_find:
  "case List.find (row_in t P) (db_rows d) of
     None \<Rightarrow> \<forall>k r. ref_tbl d t k = Some r \<longrightarrow> \<not> P r
   | Some r \<Rightarrow> P r \<and> (\<exists>k. ref_tbl d t k = Some r)"
proof (cases "List.find (row_in t P) (db_rows d)")
  case None
  then have "\<forall>x \<in> set (db_rows d). \<not> row_in t P x" by (auto simp: find_None_iff)
  then show ?thesis by (auto simp: None row_in_def ref_tbl_iff row_id_def)
next
  case (Some r)
  then have "r \<in> set (db_rows d)" "row_table r = t" "P r"
    by (auto simp: find_Some_iff row_in_def)
  then show ?thesis using ref_table by (simp add: Some)
qed

lemma ref_filter: "set (filter (row_in t P) (db_rows d)) = {r. P r \<and> (\<exists>k. ref_tbl d t k = Some r)}"
  using column_pk by (fastforce simp: row_in_def ref_tbl_iff row_id_def)

interpretation reference_db: reliable_database ref_gorm ref_tbl "(<)"
proof (unfold_locales, goal_cases)
  case (1 d t k r)
  then show ?case by (auto simp: ref_tbl_iff row_id_def)
next
  case (2 d t)
  have "dom (ref_tbl d t) \<subseteq> (\<lambda>r. the (column r (pk t))) ` set (db_rows d)"
    by (force simp: ref_tbl_iff row_id_def image_iff)
  then show ?case by (rule finite_subset) simp
next
  case (3 t w d x)
  then show ?case using ref_find [where t = t and P = "where_holds (<) w" and d = d] by (simp add: ref_gorm_def)
next
  case (4 t w order d rs)
  then show ?case
    using ref_filter [of t "where_holds (<) w" d] db_rows_distinct [of d]
    by (auto simp: ref_gorm_def distinct_map)
next
  case (5 upsert r d d')
  obtain k where k: "column r (pk (row_table r)) = Some k" using column_pk by blast
  have new: "ref_tbl d (row_table r) k = None" if "\<not> upsert"
  proof (rule ccontr)
    assume "ref_tbl d (row_table r) k \<noteq> None"
    then obtain x where "ref_tbl d (row_table r) k = Some x" by blast
    then have "x \<in> set (db_rows d)" "row_id x = row_id r" using k by (auto simp: ref_tbl_iff row_id_def)
    then show False using 5 that by (auto simp: ref_gorm_def list_ex_iff split: if_splits)
  qed
  have "d' = db_put r d" using 5 by (auto simp: ref_gorm_def split: if_splits)
  then show ?case using k new ref_tbl_put [OF k] by blast
next
  case (6 t w c v d n d')
  then show ?case
    using ref_count [of t "where_holds (<) w" d] ref_tbl_change [of t "where_holds (<) w" c v d]
    by (auto simp: ref_gorm_def)
next
  case (7 t w d n d')
  then show ?case
    using ref_count [of t "where_holds (<) w" d] ref_tbl_remove [of t "where_holds (<) w" d]
    by (auto simp: ref_gorm_def)
qed (auto simp: ref_gorm_def split: if_splits)

section \<open>The tables as a store\<close>

definition dview :: "('d \<Rightarrow> family \<Rightarrow> sql_value \<rightharpoonup> row) \<Rightarrow> 'd \<Rightarrow> store" where
  "dview tbl d f k =
     (if f = UserRec then None
      else if f = Meta then (if k = [] then map_option row_doc (tbl d Meta (VInt 1)) else None)
      else map_option row_doc (tbl d f (VStr k)))"

definition sview :: "('d \<Rightarrow> family \<Rightarrow> sql_value \<rightharpoonup> row) \<Rightarrow> 'd sqldb \<Rightarrow> store" where
  "sview tbl st = dview tbl (sd_db st)"

text \<open>The tables with a text key.\<close>

definition text_families :: "family list" where
  "text_families = [AccessToken, RefreshToken, AuthorizeCode, PkceRequest, AuthorizeReq, ClientReg, Credential]"

lemma text_family_simps [simp]:
  "AccessToken \<in> set text_families" "RefreshToken \<in> set text_families" "AuthorizeCode \<in> set text_families"
  "PkceRequest \<in> set text_families" "AuthorizeReq \<in> set text_families" "ClientReg \<in> set text_families"
  "Credential \<in> set text_families" "UserRec \<notin> set text_families" "Meta \<notin> set text_families"
  by (simp_all add: text_families_def)

lemma dview_text: "f \<in> set text_families \<Longrightarrow> dview tbl d f k = map_option row_doc (tbl d f (VStr k))"
  by (auto simp: dview_def)

lemma text_key: "column r (pk (row_table r)) = Some k \<Longrightarrow> row_table r \<in> set text_families \<Longrightarrow> \<exists>s. k = VStr s"
  by (cases r) auto

lemma sql_txn_writes:
  assumes "\<And>x d. f (sd_db st) = Inr (x, d) \<Longrightarrow> dview tbl d = g (dview tbl (sd_db st))"
  shows "writes (sview tbl) st (sql_txn f st) g"
  using assms
  by (auto simp: sql_txn_def writes_def sview_def split: sum.splits list.splits bool.splits prod.splits)

lemma sql_txn_result: "sql_txn f st = (Inr x, st') \<Longrightarrow> f (sd_db st) = Inr (x, sd_db st')"
  by (auto simp: sql_txn_def split: sum.splits list.splits bool.splits prod.splits)

lemma sql_txn_error: "sql_txn f st = (Inl e, st') \<Longrightarrow> sd_db st' = sd_db st \<and> (e = ErrCommit \<or> f (sd_db st) = Inl e)"
  by (auto simp: sql_txn_def split: sum.splits list.splits bool.splits prod.splits)

lemma set_column_doc: "(f, c) \<in> {(RefreshToken, ''request''), (ClientReg, ''client'')} \<Longrightarrow>
    row_table r = f \<Longrightarrow> row_doc (set_column c v r) = v"
  by (cases r) auto

context gorm_database begin

lemma by_key: "tbl d t j = Some r \<Longrightarrow> where_holds julian (WEq (pk t) k) r \<longleftrightarrow> j = k"
  using keyed [of d t j r] by (simp add: where_holds_def)

lemma by_keys: "tbl d t (VStr j) = Some r \<Longrightarrow> where_holds julian (WIn (pk t) ks) r \<longleftrightarrow> j \<in> set ks"
  using keyed [of d t "VStr j" r] by (auto simp: where_holds_def list_ex_iff)

lemma create_view:
  assumes "gm_Create G upsert r d = Inr d'" and "column r (pk f) = Some (VStr k)" and "row_table r = f"
    and "f \<in> set text_families"
  shows "dview tbl d' = spec_put f k (row_doc r) (dview tbl d)"
proof -
  obtain r' where r': "untimed r' = untimed r" and t: "tbl d' = (tbl d)(f := (tbl d f)(VStr k \<mapsto> r'))"
    using Create [OF assms(1)] assms(2,3) by auto
  have "row_doc r' = row_doc r" using untimed_eq(4) [OF r'] .
  then show ?thesis
    using assms(4) by (auto simp: fun_eq_iff t dview_def spec_put_def)
qed

lemma delete_view:
  assumes "gm_Delete G f (WEq (pk f) (VStr k)) d = Inr (n, d')" and "f \<in> set text_families"
  shows "dview tbl d' = spec_delete f k (dview tbl d)"
proof -
  have t: "tbl d' = (tbl d)(f := (\<lambda>j. if j = VStr k then None else tbl d f j))"
    using Delete [OF assms(1)] by (auto simp: fun_eq_iff by_key split: option.splits)
  show ?thesis using assms(2) by (auto simp: fun_eq_iff t dview_def spec_delete_def)
qed

lemma delete_keys_view:
  assumes "gm_Delete G f (WIn (pk f) ks) d = Inr (n, d')" and "f \<in> set text_families"
  shows "dview tbl d' = spec_drop f (\<lambda>k _. k \<in> set ks) (dview tbl d)"
proof (intro ext)
  fix g j
  show "dview tbl d' g j = spec_drop f (\<lambda>k _. k \<in> set ks) (dview tbl d) g j"
    using Delete [OF assms(1)] assms(2)
    by (auto simp: dview_def spec_drop_def by_keys split: option.splits)
qed

lemma delete_where_view:
  assumes "gm_Delete G f w d = Inr (n, d')" and "f \<in> set text_families"
  shows "dview tbl d' = (\<lambda>g k. if g = f \<and> (\<exists>r. tbl d f (VStr k) = Some r \<and> where_holds julian w r) then None
    else dview tbl d g k)"
proof (intro ext)
  fix g k
  show "dview tbl d' g k = (if g = f \<and> (\<exists>r. tbl d f (VStr k) = Some r \<and> where_holds julian w r) then None
      else dview tbl d g k)"
    using Delete [OF assms(1)] assms(2) by (auto simp: dview_def split: option.splits)
qed

lemma update_view:
  assumes "gm_Update G f (WEq (pk f) (VStr k)) c v d = Inr (n, d')" and "f \<in> set text_families"
    and "(f, c) \<in> {(RefreshToken, ''request''), (ClientReg, ''client'')}" and "dview tbl d f k \<noteq> None"
  shows "dview tbl d' = spec_put f k v (dview tbl d)"
proof -
  obtain upd where u: "\<And>r. untimed (upd r) = untimed (set_column c v r)"
    and t: "tbl d' = (tbl d)(f := (\<lambda>j. map_option (\<lambda>r. if where_holds julian (WEq (pk f) (VStr k)) r then upd r else r) (tbl d f j)))"
    using Update [OF assms(1)] by blast
  have new: "row_doc (upd r) = v" if "tbl d f j = Some r" for r j
    using untimed_eq(4) [OF u] set_column_doc [OF assms(3)] keyed [OF that] by simp
  have t': "tbl d' g j = (if g = f \<and> j = VStr k then map_option upd (tbl d f j) else tbl d g j)" for g j
    by (cases "tbl d f j") (auto simp: t by_key)
  obtain r where r: "tbl d f (VStr k) = Some r" using assms(2,4) by (auto simp: dview_text)
  show ?thesis
  proof (intro ext)
    fix g j show "dview tbl d' g j = spec_put f k v (dview tbl d) g j"
      using assms(2) new [OF r] r by (auto simp: dview_def t' spec_put_def)
  qed
qed

lemma create_writes:
  "column r (pk f) = Some (VStr k) \<Longrightarrow> row_table r = f \<Longrightarrow> f \<in> set text_families \<Longrightarrow> row_doc r = x \<Longrightarrow>
     writes (sview tbl) st (sql_create G upsert r st) (spec_put f k x)"
  unfolding sql_create_def
  by (rule sql_txn_writes) (auto simp: txn_unit_def res_bind_Inr create_view)

lemma delete_writes:
  "c = pk f \<Longrightarrow> f \<in> set text_families \<Longrightarrow>
     writes (sview tbl) st (sql_delete G f (WEq c (VStr k)) st) (spec_delete f k)"
  unfolding sql_delete_def
  by (rule sql_txn_writes) (auto simp: res_bind_Inr delete_view)

lemma update_writes:
  "p = pk f \<Longrightarrow> f \<in> set text_families \<Longrightarrow> (f, c) \<in> {(RefreshToken, ''request''), (ClientReg, ''client'')} \<Longrightarrow>
     sview tbl st f k \<noteq> None \<Longrightarrow>
     writes (sview tbl) st (sql_update G f (WEq p (VStr k)) c v st) (spec_put f k v)"
  unfolding sql_update_def sview_def
  by (rule sql_txn_writes [unfolded sview_def]) (auto simp: res_bind_Inr update_view)

text \<open>A read by key answers the stored document, or fails without calling it absent.\<close>

lemma first_cases:
  assumes "c = pk f" and "f \<in> set text_families"
  obtains "sql_first G f (WEq c (VStr k)) st = Inl ErrCommit"
  | "sql_first G f (WEq c (VStr k)) st = Inl ErrNotFound" "sview tbl st f k = None"
  | r where "sql_first G f (WEq c (VStr k)) st = Inr r" "sview tbl st f k = Some (row_doc r)"
proof (cases "gm_First G f (WEq c (VStr k)) (sd_db st)")
  case (Inl e)
  then show ?thesis using that(1) errors(1) by (simp add: sql_first_def)
next
  case (Inr x)
  note F = First [OF Inr]
  show ?thesis
  proof (cases x)
    case None
    then have "tbl (sd_db st) f (VStr k) = None"
      using F by_key [of "sd_db st" f "VStr k" _ "VStr k"] assms(1) by (cases "tbl (sd_db st) f (VStr k)") auto
    then show ?thesis using that(2) Inr None assms(2) by (simp add: sql_first_def sview_def dview_text)
  next
    case (Some r)
    then have "tbl (sd_db st) f (VStr k) = Some r"
      using F by_key [of "sd_db st" f _ r "VStr k"] assms(1) by auto
    then show ?thesis using that(3) Inr Some assms(2) by (simp add: sql_first_def sview_def dview_text)
  qed
qed

lemma read_doc:
  assumes "c = pk f" and "f \<in> set text_families"
  shows "res_bind (sql_first G f (WEq c (VStr k)) st) (\<lambda>r. h (row_doc r)) = res_bind (get_doc (sview tbl st) f k) h \<or>
    res_bind (sql_first G f (WEq c (VStr k)) st) (\<lambda>r. h (row_doc r)) = Inl ErrCommit"
  by (rule first_cases [OF assms, of k st]) (simp_all add: get_doc_def)

lemma read_request:
  assumes "c = pk f" and "f \<in> set text_families"
  shows "res_bind (sql_first G f (WEq c (VStr k)) st) (\<lambda>r. unmarshalRequest (row_doc r) sess) =
      spec_request (sview tbl st) f k sess \<or>
    res_bind (sql_first G f (WEq c (VStr k)) st) (\<lambda>r. unmarshalRequest (row_doc r) sess) = Inl ErrCommit"
  using read_doc [OF assms, of k st "\<lambda>d. unmarshalRequest d sess"]
  by (simp add: spec_request_def unmarshalRequest_def)

end

end
