(* ===== verification/SqlContract.thy ===== *)
theory SqlContract
  imports SqlStore
begin

text \<open>
  The kill switches of the SQLite backend, and the contracts of \<open>Repository\<close> it meets when its
  reads do not fail: sessions, authorize requests, clients and the inventory.
\<close>

section \<open>Rows that match\<close>

lemma fold_keys:
  "fold_res (\<lambda>r stale. res_bind (dec r) (\<lambda>q. Inr (if m q then stale @ [key r] else stale))) rs ks0 = Inr ks \<longleftrightarrow>
     (\<forall>r \<in> set rs. \<exists>q. dec r = Inr q) \<and>
     ks = ks0 @ map key (filter (\<lambda>r. case dec r of Inl _ \<Rightarrow> False | Inr q \<Rightarrow> m q) rs)"
proof (induction rs arbitrary: ks0)
  case (Cons r rs)
  show ?case by (cases "dec r") (auto simp: Cons.IH)
qed auto

lemma staleAuthorizeRequests_fold:
  "staleAuthorizeRequests G m d = res_bind (gm_Find G AuthorizeReq WAll None d) (\<lambda>records.
     fold_res (\<lambda>r stale. res_bind (dec_authorize (row_doc r)) (\<lambda>a.
         Inr (if ar_match m a then stale @ [row_key_of ''request_id'' r] else stale))) records [])"
  unfolding staleAuthorizeRequests_def
  by (intro arg_cong2 [of _ _ _ _ res_bind] refl ext arg_cong2 [of _ _ _ _ "\<lambda>f xs. fold_res f xs []"])
     (auto simp: ar_match_def res_bind_def split: sum.splits option.splits)

lemma set_tagged: "set (concat (map (\<lambda>s. map (Pair (g s)) (h s)) xs)) = {(f, k). \<exists>s \<in> set xs. g s = f \<and> k \<in> set (h s)}"
  by (induction xs) auto

lemma distinct_tagged:
  "distinct (map g xs) \<Longrightarrow> \<forall>s \<in> set xs. distinct (h s) \<Longrightarrow> distinct (concat (map (\<lambda>s. map (Pair (g s)) (h s)) xs))"
  by (induction xs) (auto simp: distinct_map inj_on_def)

text \<open>Whether a revoke of \<open>m\<close> removes a document of a table of requests.\<close>

definition hit :: "(Request \<Rightarrow> bool) \<Rightarrow> family \<Rightarrow> doc \<Rightarrow> bool" where
  "hit m f d \<longleftrightarrow> revoke_hits m (\<lambda>_. False) f [] d"

lemma revoke_hits_hit: "revoke_hits m Q f k d \<longleftrightarrow> hit m f d \<or> f = ClientReg \<and> Q k"
  by (auto simp: hit_def revoke_hits_def session_families_def split: sum.splits option.splits)

text \<open>The registrations a scope names.\<close>

definition scope_hits :: "revokeScope \<Rightarrow> string \<Rightarrow> bool" where
  "scope_hits scope k \<longleftrightarrow> rs_all scope \<or> k \<noteq> [] \<and> rs_clientID scope = k"

context gorm_database begin

lemma find_keys:
  assumes "gm_Find G t WAll None d = Inr rs" and "t \<in> set text_families"
  shows "distinct (map (row_key_of (pk t)) (filter P rs)) \<and>
    set (map (row_key_of (pk t)) (filter P rs)) = {k. \<exists>r. tbl d t (VStr k) = Some r \<and> P r}"
proof -
  have rs: "distinct rs" "set rs = {r. \<exists>k. tbl d t k = Some r}"
    using Find [OF assms(1)] by (simp_all add: where_holds_def)
  have key: "row_key_of (pk t) r = k \<longleftrightarrow> tbl d t (VStr k) = Some r" if r: "r \<in> set rs" for r k
  proof -
    obtain j where j: "tbl d t j = Some r" using r rs(2) by auto
    note K = keyed [OF j]
    obtain s where "j = VStr s" using text_key [of r j] K assms(2) by auto
    then show ?thesis using K j keyed [of d t "VStr k" r] by (auto simp: row_key_of_def)
  qed
  have "inj_on (row_key_of (pk t)) (set rs)"
    using key by (auto simp: inj_on_def) (metis option.inject)
  then have "distinct (map (row_key_of (pk t)) rs)" using rs(1) by (simp add: distinct_map)
  moreover have "set (map (row_key_of (pk t)) (filter P rs)) = {k. \<exists>r. tbl d t (VStr k) = Some r \<and> P r}"
    using key rs(2) by (auto simp: image_iff) metis+
  ultimately show ?thesis by (simp add: distinct_map_filter)
qed

lemma stale_keys:
  assumes "staleKeys G t c m d = Inr ks" and "c = pk t" and "t \<in> set session_families"
  shows "distinct ks \<and> set ks = {k. \<exists>x. dview tbl d t k = Some x \<and> hit m t x}"
proof -
  have t: "t \<in> set text_families" using assms(3) by (auto simp: session_families_def)
  obtain rs where rs: "gm_Find G t WAll None d = Inr rs"
    and ks: "ks = map (row_key_of (pk t)) (filter (\<lambda>r. case dec_request (row_doc r) of Inl _ \<Rightarrow> False | Inr q \<Rightarrow> m q) rs)"
    using assms(1,2) by (auto simp: staleKeys_def res_bind_Inr fold_keys)
  have "hit m t x \<longleftrightarrow> (case dec_request x of Inl _ \<Rightarrow> False | Inr q \<Rightarrow> m q)" for x
    using assms(3) by (simp add: hit_def revoke_hits_def)
  then show ?thesis
    using find_keys [OF rs t] by (auto simp: ks dview_text [OF t])
qed

lemma stale_authorize:
  assumes "staleAuthorizeRequests G m d = Inr ks"
  shows "distinct ks \<and> set ks = {k. \<exists>x. dview tbl d AuthorizeReq k = Some x \<and> hit m AuthorizeReq x}"
proof -
  obtain rs where rs: "gm_Find G AuthorizeReq WAll None d = Inr rs"
    and ks: "ks = map (row_key_of (pk AuthorizeReq))
      (filter (\<lambda>r. case dec_authorize (row_doc r) of Inl _ \<Rightarrow> False | Inr a \<Rightarrow> ar_match m a) rs)"
    using assms by (auto simp: staleAuthorizeRequests_fold res_bind_Inr fold_keys)
  have "hit m AuthorizeReq x \<longleftrightarrow> (case dec_authorize x of Inl _ \<Rightarrow> False | Inr a \<Rightarrow> ar_match m a)" for x
    by (simp add: hit_def revoke_hits_def session_families_def ar_match_def split: sum.splits)
  then show ?thesis
    using find_keys [OF rs] by (auto simp: ks dview_text)
qed

lemma run_sweeps:
  assumes "fold_res (run_sweep G) sws (n0, d) = Inr (n, d')"
    and "\<forall>s \<in> set sws. sp_column s = pk (sp_model s) \<and> sp_model s \<in> set text_families"
  shows "n = n0 + int (\<Sum>s\<leftarrow>sws. length (sp_keys s)) \<and>
    dview tbl d' = (\<lambda>f k. if \<exists>s \<in> set sws. sp_model s = f \<and> k \<in> set (sp_keys s) then None else dview tbl d f k)"
  using assms
proof (induction sws arbitrary: n0 d)
  case (Cons s sws)
  obtain n1 d1 where 1: "run_sweep G s (n0, d) = Inr (n1, d1)"
    and 2: "fold_res (run_sweep G) sws (n1, d1) = Inr (n, d')"
    using Cons.prems(1) by (auto simp: res_bind_Inr)
  have s: "sp_column s = pk (sp_model s)" "sp_model s \<in> set text_families" using Cons.prems(2) by auto
  have "n1 = n0 + int (length (sp_keys s)) \<and>
      dview tbl d1 = (\<lambda>f k. if sp_model s = f \<and> k \<in> set (sp_keys s) then None else dview tbl d f k)"
  proof (cases "sp_keys s = []")
    case True
    then show ?thesis using 1 by (auto simp: run_sweep_def)
  next
    case False
    then obtain j where "gm_Delete G (sp_model s) (WIn (pk (sp_model s)) (sp_keys s)) d = Inr (j, d1)"
      and "n1 = n0 + int (length (sp_keys s))"
      using 1 by (auto simp: run_sweep_def s(1) res_bind_Inr)
    then show ?thesis
      using delete_keys_view [OF _ s(2)] by (auto simp: spec_drop_def fun_eq_iff split: option.splits)
  qed
  then show ?case using Cons.IH [OF 2] Cons.prems(2) by (auto simp: fun_eq_iff)
qed simp

lemma registrations_view:
  assumes "deleteRegistrations G scope d = Inr (n, d')"
  shows "n = int (card {k. scope_hits scope k \<and> dview tbl d ClientReg k \<noteq> None}) \<and>
    dview tbl d' = (\<lambda>f k. if f = ClientReg \<and> scope_hits scope k then None else dview tbl d f k)"
proof -
  have all: "n = int (card {k. W k \<and> dview tbl d ClientReg k \<noteq> None}) \<and>
      dview tbl d' = (\<lambda>f k. if f = ClientReg \<and> W k then None else dview tbl d f k)"
    if del: "gm_Delete G ClientReg w d = Inr (n, d')"
      and W: "\<And>k r. tbl d ClientReg (VStr k) = Some r \<Longrightarrow> where_holds julian w r \<longleftrightarrow> W k" for w W
  proof -
    have str: "\<exists>s. k = VStr s" if "tbl d ClientReg k = Some r" for k r
      using keyed [OF that] text_key [of r k] by simp
    have "{k. \<exists>r. tbl d ClientReg k = Some r \<and> where_holds julian w r} =
        VStr ` {k. W k \<and> dview tbl d ClientReg k \<noteq> None}"
      using str W by (fastforce simp: dview_text image_iff)
    then have "n = int (card (VStr ` {k. W k \<and> dview tbl d ClientReg k \<noteq> None}))"
      using Delete [OF del] by simp
    also have "\<dots> = int (card {k. W k \<and> dview tbl d ClientReg k \<noteq> None})"
      by (simp add: card_image inj_on_def)
    finally show ?thesis
      using delete_where_view [OF del] W by (auto simp: fun_eq_iff dview_text)
  qed
  consider "rs_all scope" | "\<not> rs_all scope" "rs_clientID scope \<noteq> []" | "\<not> rs_all scope" "rs_clientID scope = []" by blast
  then show ?thesis
  proof cases
    case 1
    then show ?thesis
      using all [of WAll "scope_hits scope"] assms by (simp add: deleteRegistrations_def where_holds_def scope_hits_def)
  next
    case 2
    have "gm_Delete G ClientReg (WEq (pk ClientReg) (VStr (rs_clientID scope))) d = Inr (n, d')"
      using assms 2 by (simp add: deleteRegistrations_def)
    moreover have "where_holds julian (WEq (pk ClientReg) (VStr (rs_clientID scope))) r \<longleftrightarrow> scope_hits scope k"
      if "tbl d ClientReg (VStr k) = Some r" for k r
      unfolding by_key [OF that] using 2 by (auto simp: scope_hits_def)
    ultimately show ?thesis by (rule all)
  next
    case 3
    then show ?thesis using assms by (auto simp: deleteRegistrations_def scope_hits_def fun_eq_iff)
  qed
qed

lemma collected:
  assumes "collectSweeps G m d = Inr sws"
  shows "map sp_model sws = session_families @ [AuthorizeReq]"
    and "\<forall>s \<in> set sws. sp_column s = pk (sp_model s) \<and> sp_model s \<in> set text_families \<and> distinct (sp_keys s) \<and>
      set (sp_keys s) = {k. \<exists>x. dview tbl d (sp_model s) k = Some x \<and> hit m (sp_model s) x}"
proof -
  obtain k1 k2 k3 k4 k5 where ks: "staleKeys G AccessToken ''signature'' m d = Inr k1"
      "staleKeys G RefreshToken ''signature'' m d = Inr k2" "staleKeys G AuthorizeCode ''code'' m d = Inr k3"
      "staleKeys G PkceRequest ''signature'' m d = Inr k4" "staleAuthorizeRequests G m d = Inr k5"
    and sws: "sws = [\<lparr>sp_model = AccessToken, sp_column = ''signature'', sp_keys = k1\<rparr>,
            \<lparr>sp_model = RefreshToken, sp_column = ''signature'', sp_keys = k2\<rparr>,
            \<lparr>sp_model = AuthorizeCode, sp_column = ''code'', sp_keys = k3\<rparr>,
            \<lparr>sp_model = PkceRequest, sp_column = ''signature'', sp_keys = k4\<rparr>,
            \<lparr>sp_model = AuthorizeReq, sp_column = ''request_id'', sp_keys = k5\<rparr>]"
    using assms unfolding collectSweeps_def res_bind_Inr by blast
  have t: "AccessToken \<in> set session_families" "RefreshToken \<in> set session_families"
      "AuthorizeCode \<in> set session_families" "PkceRequest \<in> set session_families"
    by (simp_all add: session_families_def)
  show "map sp_model sws = session_families @ [AuthorizeReq]" by (simp add: sws session_families_def)
  show "\<forall>s \<in> set sws. sp_column s = pk (sp_model s) \<and> sp_model s \<in> set text_families \<and> distinct (sp_keys s) \<and>
      set (sp_keys s) = {k. \<exists>x. dview tbl d (sp_model s) k = Some x \<and> hit m (sp_model s) x}"
    using stale_keys [OF ks(1) _ t(1)] stale_keys [OF ks(2) _ t(2)] stale_keys [OF ks(3) _ t(3)]
      stale_keys [OF ks(4) _ t(4)] stale_authorize [OF ks(5)]
    by (simp add: sws)
qed

text \<open>A revoke removes its scope in one step and reports how many rows went.\<close>

lemma revoke_view:
  assumes "sql_revoke G m scope st = (Inr n, st')"
  shows "sview tbl st' = spec_revoke m (scope_hits scope) (sview tbl st)"
    and "n = int (card {(f, k). sview tbl st f k \<noteq> None \<and> sview tbl st' f k = None})"
proof -
  let ?d = "sd_db st"
  obtain sws n1 d1 n2 where sws: "collectSweeps G m ?d = Inr sws"
    and run: "fold_res (run_sweep G) sws (0, ?d) = Inr (n1, d1)"
    and reg: "deleteRegistrations G scope d1 = Inr (n2, sd_db st')" and n: "n = n1 + n2"
    using sql_txn_result [OF assms [unfolded sql_revoke_def]] by (auto simp: res_bind_Inr split: prod.splits)
  note C = collected [OF sws]
  note R = run_sweeps [OF run] and D = registrations_view [OF reg]
  have R1: "n1 = int (\<Sum>s\<leftarrow>sws. length (sp_keys s))"
    and R2: "dview tbl d1 = (\<lambda>f k. if \<exists>s \<in> set sws. sp_model s = f \<and> k \<in> set (sp_keys s) then None
      else dview tbl ?d f k)"
    using R C(2) by auto
  have mem: "(\<exists>s \<in> set sws. sp_model s = f \<and> k \<in> set (sp_keys s)) \<longleftrightarrow>
      (\<exists>x. dview tbl ?d f k = Some x \<and> hit m f x)" for f k
  proof -
    have "(\<exists>s \<in> set sws. sp_model s = f \<and> k \<in> set (sp_keys s)) \<longleftrightarrow>
        f \<in> set (map sp_model sws) \<and> (\<exists>x. dview tbl ?d f k = Some x \<and> hit m f x)"
      using C(2) by (auto simp: image_iff)
    moreover have "hit m f x \<Longrightarrow> f \<in> set (map sp_model sws)" for x
      unfolding C(1) by (auto simp: hit_def revoke_hits_def split: if_splits)
    ultimately show ?thesis by blast
  qed
  show V: "sview tbl st' = spec_revoke m (scope_hits scope) (sview tbl st)"
    using D by (auto simp: fun_eq_iff sview_def R2 mem spec_revoke_def revoke_hits_hit split: option.splits)
  let ?L = "concat (map (\<lambda>s. map (Pair (sp_model s)) (sp_keys s)) sws)"
  let ?K = "{k. scope_hits scope k \<and> dview tbl d1 ClientReg k \<noteq> None}"
  have L: "set ?L = {(f, k). \<exists>x. dview tbl ?d f k = Some x \<and> hit m f x}"
    unfolding set_tagged mem by (rule refl)
  have no_reg: "\<not> hit m ClientReg x" for x
    by (simp add: hit_def revoke_hits_def session_families_def)
  have "distinct (map sp_model sws)" unfolding C(1) by (simp add: session_families_def)
  then have "distinct ?L" by (rule distinct_tagged) (use C(2) in blast)
  then have card_L: "card (set ?L) = (\<Sum>s\<leftarrow>sws. length (sp_keys s))"
    by (simp add: distinct_card length_concat comp_def del: set_concat)
  have K: "?K = {k. scope_hits scope k \<and> dview tbl ?d ClientReg k \<noteq> None}"
    using no_reg by (auto simp: R2 mem split: if_splits)
  have "finite ?K"
  proof (rule finite_imageD)
    show "finite (VStr ` ?K)"
      by (rule finite_subset [OF _ finite_table [of ?d ClientReg]]) (unfold K, auto simp: dview_text)
  qed (simp add: inj_on_def)
  have "{(f, k). sview tbl st f k \<noteq> None \<and> sview tbl st' f k = None} = set ?L \<union> Pair ClientReg ` ?K"
    unfolding L K V
    by (auto simp: sview_def spec_revoke_def revoke_hits_hit image_iff split: option.splits)
  moreover have "set ?L \<inter> Pair ClientReg ` ?K = {}" unfolding L using no_reg by auto
  ultimately have "card {(f, k). sview tbl st f k \<noteq> None \<and> sview tbl st' f k = None} =
      (\<Sum>s\<leftarrow>sws. length (sp_keys s)) + card ?K"
    using \<open>finite ?K\<close> by (simp add: card_Un_disjoint card_L card_image inj_on_def del: set_concat)
  then show "n = int (card {(f, k). sview tbl st f k \<noteq> None \<and> sview tbl st' f k = None})"
    using D by (simp add: n R1)
qed

lemma revoke_writes:
  assumes "\<And>k. scope_hits scope k \<longleftrightarrow> Q k"
  shows "writes (sview tbl) st (sql_revoke G m scope st) (spec_revoke m Q)"
proof (cases "sql_revoke G m scope st")
  case (Pair r st')
  have Q: "scope_hits scope = Q" using assms by (rule ext)
  show ?thesis
  proof (cases r)
    case (Inl e)
    then show ?thesis using Pair sql_txn_error [OF Pair [unfolded Inl sql_revoke_def]]
      by (simp add: writes_def sview_def)
  next
    case (Inr n)
    then show ?thesis using Pair revoke_view(1) [OF Pair [unfolded Inr]] by (simp add: writes_def Q)
  qed
qed

end

section \<open>The interfaces\<close>

fun sql_ss_create :: "'d gorm \<Rightarrow> family \<Rightarrow> string \<Rightarrow> FRequest \<Rightarrow> (unit, 'd sqldb) act" where
  "sql_ss_create G AuthorizeCode k q st = sql_CreateAuthorizeCodeSession G k q st"
| "sql_ss_create G AccessToken k q st = sql_CreateAccessTokenSession G k q st"
| "sql_ss_create G RefreshToken k q st = sql_CreateRefreshTokenSession G k [] q st"
| "sql_ss_create G PkceRequest k q st = sql_CreatePKCERequestSession G k q st"
| "sql_ss_create G _ k q st = (Inl ErrNotImplemented, st)"

fun sql_ss_get :: "'d gorm \<Rightarrow> family \<Rightarrow> string \<Rightarrow> Session option \<Rightarrow> (FRequest, 'd sqldb) query" where
  "sql_ss_get G AuthorizeCode k sess st = sql_GetAuthorizeCodeSession G k sess st"
| "sql_ss_get G AccessToken k sess st = sql_GetAccessTokenSession G k sess st"
| "sql_ss_get G RefreshToken k sess st = sql_GetRefreshTokenSession G k sess st"
| "sql_ss_get G PkceRequest k sess st = sql_GetPKCERequestSession G k sess st"
| "sql_ss_get G _ k sess st = Inl ErrNotImplemented"

fun sql_ss_delete :: "'d gorm \<Rightarrow> family \<Rightarrow> string \<Rightarrow> (unit, 'd sqldb) act" where
  "sql_ss_delete G AuthorizeCode k st = sql_InvalidateAuthorizeCodeSession G k st"
| "sql_ss_delete G AccessToken k st = sql_DeleteAccessTokenSession G k st"
| "sql_ss_delete G RefreshToken k st = sql_DeleteRefreshTokenSession G k st"
| "sql_ss_delete G PkceRequest k st = sql_DeletePKCERequestSession G k st"
| "sql_ss_delete G _ k st = (Inl ErrNotImplemented, st)"

definition sql_SessionStorage :: "'d gorm \<Rightarrow> 'd sqldb SessionStorage" where
  "sql_SessionStorage G =
     \<lparr>ss_create = sql_ss_create G, ss_get = sql_ss_get G, ss_delete = sql_ss_delete G,
      ss_RotateRefreshToken = sql_RotateRefreshToken G,
      ss_RevokeRefreshToken = sql_RevokeRefreshToken G,
      ss_RevokeAccessToken = sql_RevokeAccessToken G\<rparr>"

definition sql_DynamicClientStorage :: "'d gorm \<Rightarrow> 'd sqldb DynamicClientStorage" where
  "sql_DynamicClientStorage G =
     \<lparr>ds_GetClient = sql_GetClient G, ds_RegisterClient = sql_RegisterClient G,
      ds_GetClientName = sql_GetClientName G, ds_TouchClient = sql_TouchClient G,
      ds_CountClients = sql_CountClients G\<rparr>"

definition sql_AuthorizeRequestStorage ::
  "'d gorm \<Rightarrow> (string \<Rightarrow> string option) \<Rightarrow> 'd sqldb AuthorizeRequestStorage" where
  "sql_AuthorizeRequestStorage G reparse =
     \<lparr>as_CreateAuthorizeRequest = sql_CreateAuthorizeRequest G,
      as_GetAuthorizeRequest = sql_GetAuthorizeRequest G reparse,
      as_DeleteAuthorizeRequest = sql_DeleteAuthorizeRequest G\<rparr>"

definition sql_UserStorage :: "'d gorm \<Rightarrow> 'd sqldb UserStorage" where
  "sql_UserStorage G =
     \<lparr>us_GetUser = sql_GetUser G, us_CreateUser = sql_CreateUser G, us_UpdateUser = sql_UpdateUser G,
      us_AddWebAuthnCredential = sql_AddWebAuthnCredential G,
      us_ListWebAuthnCredentials = sql_ListWebAuthnCredentials G,
      us_UpdateWebAuthnCredential = sql_UpdateWebAuthnCredential G,
      us_DeleteWebAuthnCredential = sql_DeleteWebAuthnCredential G\<rparr>"

definition sql_MaintenanceStorage :: "'d gorm \<Rightarrow> 'd sqldb MaintenanceStorage" where
  "sql_MaintenanceStorage G =
     \<lparr>ms_DeleteExpiredSessions = sql_DeleteExpiredSessions G,
      ms_EnsureSchemaVersion = sql_EnsureSchemaVersion G,
      ms_DeleteExpiredClients = sql_DeleteExpiredClients G\<rparr>"

definition sql_InventoryStorage :: "'d gorm \<Rightarrow> 'd sqldb InventoryStorage" where
  "sql_InventoryStorage G =
     \<lparr>is_RevokeClient = sql_RevokeClient G, is_RevokeGrant = sql_RevokeGrant G,
      is_RevokeAll = sql_RevokeAll G\<rparr>"

lemmas sql_create_defs =
  sql_CreateAuthorizeCodeSession_def sql_CreateAccessTokenSession_def
  sql_CreateRefreshTokenSession_def sql_CreatePKCERequestSession_def sql_CreateAuthorizeRequest_def
  marshalRequest_def marshalAuthorizeRequest_def

lemmas sql_get_defs =
  sql_GetAuthorizeCodeSession_def sql_GetAccessTokenSession_def sql_GetRefreshTokenSession_def
  sql_GetPKCERequestSession_def

lemmas sql_delete_defs =
  sql_InvalidateAuthorizeCodeSession_def sql_DeleteAccessTokenSession_def
  sql_DeleteRefreshTokenSession_def sql_DeletePKCERequestSession_def sql_DeleteAuthorizeRequest_def

context gorm_database begin

lemma ss_create_writes:
  "f \<in> set session_families \<Longrightarrow>
     writes (sview tbl) st (sql_ss_create G f k q st) (spec_put f k (DRequest (FromFositeReq q)))"
  by (elim session_family_cases)
     (simp_all add: sql_create_defs create_writes)

lemma ss_delete_writes:
  "f \<in> set session_families \<Longrightarrow> writes (sview tbl) st (sql_ss_delete G f k st) (spec_delete f k)"
  by (elim session_family_cases) (simp_all add: sql_delete_defs delete_writes)

lemma ss_get_cases:
  "f \<in> set session_families \<Longrightarrow> sql_ss_get G f k sess st = spec_request (sview tbl st) f k sess \<or>
     sql_ss_get G f k sess st = Inl ErrCommit"
  by (elim session_family_cases) (simp_all add: sql_get_defs read_request)

lemma getClientModel_cases:
  "getClientModel G cid st = res_bind (get_doc (sview tbl st) ClientReg cid) dec_client \<or>
     getClientModel G cid st = Inl ErrCommit"
  using read_doc [of "''id''" ClientReg cid st dec_client] by (simp add: getClientModel_def)

lemma touch_writes:
  "writes (sview tbl) st (sql_TouchClient G cid t st)
    (\<lambda>V. case V ClientReg cid of
       Some (DClient c) \<Rightarrow>
         if time_is_zero (cl_ExpiresAt c) then V
         else spec_put ClientReg cid (DClient (c\<lparr>cl_ExpiresAt := t\<rparr>)) V
     | _ \<Rightarrow> V)"
proof (cases "getClientModel G cid st")
  case (Inl e)
  then show ?thesis by (simp add: sql_TouchClient_def writes_def)
next
  case (Inr c)
  then have "res_bind (get_doc (sview tbl st) ClientReg cid) dec_client = Inr c"
    using getClientModel_cases [of cid st] by auto
  then obtain x where "sview tbl st ClientReg cid = Some x" and "dec_client x = Inr c"
    by (auto simp: get_doc_def split: option.splits)
  then have c: "sview tbl st ClientReg cid = Some (DClient c)" by (cases x) auto
  show ?thesis
  proof (cases "time_is_zero (cl_ExpiresAt c)")
    case True
    then show ?thesis using Inr c by (simp add: sql_TouchClient_def writes_def)
  next
    case False
    let ?v = "DClient (c\<lparr>cl_ExpiresAt := t\<rparr>)"
    have w: "writes (sview tbl) st (sql_update G ClientReg (WEq ''id'' (VStr cid)) ''client'' ?v st) (spec_put ClientReg cid ?v)"
      by (rule update_writes) (simp_all add: c)
    have "sql_TouchClient G cid t st = sql_update G ClientReg (WEq ''id'' (VStr cid)) ''client'' ?v st"
      using False by (simp add: sql_TouchClient_def Inr)
    then show ?thesis by (simp only:) (rule writes_cong [OF w], use False in \<open>simp add: c\<close>)
  qed
qed

lemma register_writes:
  "writes (sview tbl) st (sql_RegisterClient G g created now st)
    (spec_put ClientReg (fc_ID (cr_Client g))
      (DClient ((FromFositeClient (cr_Client g))
        \<lparr>cl_Name := cr_Name g, cl_CreatedAt := created, cl_ExpiresAt := cr_ExpiresAt g\<rparr>)))"
  unfolding sql_RegisterClient_def Let_def
  by (rule sql_txn_writes) (auto simp: txn_unit_def res_bind_Inr dest!: create_view)

lemma inventory: "inventory_storage (sql_InventoryStorage G) (sview tbl)"
  by unfold_locales
     (auto simp: sql_InventoryStorage_def sql_RevokeClient_def sql_RevokeGrant_def sql_RevokeAll_def
       scope_hits_def intro!: revoke_writes)

end

sublocale gorm_database \<subseteq> inventory_storage "sql_InventoryStorage G" "sview tbl"
  by (rule inventory)

context reliable_database begin

lemma reliable_doc:
  assumes "c = pk f" and "f \<in> set text_families"
  shows "res_bind (sql_first G f (WEq c (VStr k)) st) (\<lambda>r. h (row_doc r)) = res_bind (get_doc (sview tbl st) f k) h"
proof -
  obtain x where "gm_First G f (WEq c (VStr k)) (sd_db st) = Inr x" using First_total by blast
  then have up: "sql_first G f (WEq c (VStr k)) st \<noteq> Inl ErrCommit" by (simp add: sql_first_def split: option.splits)
  show ?thesis by (rule first_cases [OF assms, of k st]) (use up in \<open>simp_all add: get_doc_def\<close>)
qed

lemma reliable_session:
  "f \<in> set session_families \<Longrightarrow> sql_ss_get G f k sess st = spec_request (sview tbl st) f k sess"
  by (elim session_family_cases)
     (simp_all add: sql_get_defs spec_request_def unmarshalRequest_def [symmetric]
       reliable_doc [of _ _ k st "\<lambda>d. unmarshalRequest d sess"])

end

sublocale reliable_database \<subseteq> session_storage "sql_SessionStorage G" "sview tbl"
  by unfold_locales (simp_all add: sql_SessionStorage_def reliable_session ss_create_writes ss_delete_writes)

sublocale reliable_database \<subseteq>
  authorize_request_storage "sql_AuthorizeRequestStorage G reparse" "sview tbl" reparse
  for reparse :: "string \<Rightarrow> string option"
proof (unfold_locales, goal_cases)
  case (1 k s)
  then show ?case
    using reliable_doc [of "''request_id''" AuthorizeReq k s "unmarshalAuthorizeRequest reparse"]
    by (simp add: sql_AuthorizeRequestStorage_def sql_GetAuthorizeRequest_def
        unmarshalAuthorizeRequest_def [abs_def])
qed (simp_all add: sql_AuthorizeRequestStorage_def sql_create_defs sql_delete_defs create_writes delete_writes)

sublocale reliable_database \<subseteq> dynamic_client_storage "sql_DynamicClientStorage G" "sview tbl"
proof (unfold_locales, goal_cases)
  case (1 cid now s)
  then show ?case
    using reliable_doc [of "''id''" ClientReg cid s dec_client]
    by (auto simp: sql_DynamicClientStorage_def sql_GetClient_def getClientModel_def spec_client_def
        res_bind_def split: sum.splits)
qed (simp_all add: sql_DynamicClientStorage_def touch_writes register_writes)

end
