(* ===== verification/Backends.thy ===== *)
theory Backends
  imports SqlContract KvsProps Startup
begin

text \<open>
  One machine for every backend: the calls of the repository interface as a datatype, what a call
  answers and does to the abstract store (\<open>spec_op\<close>), and the contract that a backend simulates
  that machine unless the storage itself fails.  Proved here for bbolt; the operator account, the
  passkeys and the schema version are not among the calls, since the two backends store them
  differently.
\<close>

section \<open>The two repositories\<close>

definition kvs_repo :: "'b bolt \<Rightarrow> (string \<Rightarrow> string option) \<Rightarrow> 'b kvs repo_ops" where
  "kvs_repo B reparse =
     \<lparr>ro_sessions = kvs_SessionStorage B, ro_requests = kvs_AuthorizeRequestStorage B reparse,
      ro_clients = kvs_DynamicClientStorage B, ro_users = kvs_UserStorage B,
      ro_inventory = kvs_InventoryStorage B, ro_ListClientGrants = kvs_ListClientGrants B,
      ro_maintenance = kvs_MaintenanceStorage B\<rparr>"

definition sql_repo :: "'d gorm \<Rightarrow> (string \<Rightarrow> string option) \<Rightarrow> 'd sqldb repo_ops" where
  "sql_repo G reparse =
     \<lparr>ro_sessions = sql_SessionStorage G, ro_requests = sql_AuthorizeRequestStorage G reparse,
      ro_clients = sql_DynamicClientStorage G, ro_users = sql_UserStorage G,
      ro_inventory = sql_InventoryStorage G, ro_ListClientGrants = sql_ListClientGrants G,
      ro_maintenance = sql_MaintenanceStorage G\<rparr>"

section \<open>Calls\<close>

datatype store_op =
    OpCreate family string FRequest
  | OpGet family string "Session option"
  | OpDelete family string
  | OpRotate string string time
  | OpRevokeRefresh string
  | OpRevokeAccess string
  | OpCreateAuthorize FAuthorizeRequest
  | OpGetAuthorize string
  | OpDeleteAuthorize string
  | OpRegister ClientRegistration time time
  | OpGetClient string time
  | OpClientName string time
  | OpTouch string time
  | OpCount time
  | OpExpireClients time
  | OpRevokeClient string
  | OpRevokeGrant string
  | OpRevokeAll

datatype answer =
    ADone
  | ARequest FRequest
  | AAuthorize FAuthorizeRequest
  | AClient FClient
  | AName runes
  | ACount int

definition ans :: "('a \<Rightarrow> answer) \<Rightarrow> 'a result \<Rightarrow> answer result" where
  "ans h r = (case r of Inl e \<Rightarrow> Inl e | Inr x \<Rightarrow> Inr (h x))"

definition answered :: "('a \<Rightarrow> answer) \<Rightarrow> 'a result \<times> 's \<Rightarrow> answer result \<times> 's" where
  "answered h x = (ans h (fst x), snd x)"

fun run_op :: "'s repo_ops \<Rightarrow> store_op \<Rightarrow> 's \<Rightarrow> answer result \<times> 's" where
  "run_op R (OpCreate f k q) s = answered (\<lambda>_. ADone) (ss_create (ro_sessions R) f k q s)"
| "run_op R (OpGet f k se) s = (ans ARequest (ss_get (ro_sessions R) f k se s), s)"
| "run_op R (OpDelete f k) s = answered (\<lambda>_. ADone) (ss_delete (ro_sessions R) f k s)"
| "run_op R (OpRotate rid k now) s = answered (\<lambda>_. ADone) (ss_RotateRefreshToken (ro_sessions R) rid k now s)"
| "run_op R (OpRevokeRefresh rid) s = answered (\<lambda>_. ADone) (ss_RevokeRefreshToken (ro_sessions R) rid s)"
| "run_op R (OpRevokeAccess rid) s = answered (\<lambda>_. ADone) (ss_RevokeAccessToken (ro_sessions R) rid s)"
| "run_op R (OpCreateAuthorize q) s = answered (\<lambda>_. ADone) (as_CreateAuthorizeRequest (ro_requests R) q s)"
| "run_op R (OpGetAuthorize k) s = (ans AAuthorize (as_GetAuthorizeRequest (ro_requests R) k s), s)"
| "run_op R (OpDeleteAuthorize k) s = answered (\<lambda>_. ADone) (as_DeleteAuthorizeRequest (ro_requests R) k s)"
| "run_op R (OpRegister g created now) s = answered (\<lambda>_. ADone) (ds_RegisterClient (ro_clients R) g created now s)"
| "run_op R (OpGetClient cid now) s = (ans AClient (ds_GetClient (ro_clients R) cid now s), s)"
| "run_op R (OpClientName cid now) s = (ans AName (ds_GetClientName (ro_clients R) cid now s), s)"
| "run_op R (OpTouch cid t) s = answered (\<lambda>_. ADone) (ds_TouchClient (ro_clients R) cid t s)"
| "run_op R (OpCount now) s = (ans ACount (ds_CountClients (ro_clients R) now s), s)"
| "run_op R (OpExpireClients now) s = answered (\<lambda>_. ADone) (ms_DeleteExpiredClients (ro_maintenance R) now s)"
| "run_op R (OpRevokeClient cid) s = answered ACount (is_RevokeClient (ro_inventory R) cid s)"
| "run_op R (OpRevokeGrant rid) s = answered ACount (is_RevokeGrant (ro_inventory R) rid s)"
| "run_op R OpRevokeAll s = answered ACount (is_RevokeAll (ro_inventory R) s)"

fun run_ops :: "'s repo_ops \<Rightarrow> store_op list \<Rightarrow> 's \<Rightarrow> answer result list \<times> 's" where
  "run_ops R [] s = ([], s)"
| "run_ops R (op # ops) s =
     (case run_op R op s of (a, s1) \<Rightarrow> case run_ops R ops s1 of (as, s2) \<Rightarrow> (a # as, s2))"

text \<open>What the handlers ask for: a session family, and a client by its name.\<close>

fun valid_op :: "store_op \<Rightarrow> bool" where
  "valid_op (OpCreate f k q) = (f \<in> set session_families)"
| "valid_op (OpGet f k se) = (f \<in> set session_families)"
| "valid_op (OpDelete f k) = (f \<in> set session_families)"
| "valid_op (OpRevokeClient cid) = (cid \<noteq> [])"
| "valid_op _ = True"

text \<open>The kill switches, and the calls that look at every record of a family.\<close>

fun revokes :: "store_op \<Rightarrow> bool" where
  "revokes (OpRevokeClient cid) = True"
| "revokes (OpRevokeGrant rid) = True"
| "revokes OpRevokeAll = True"
| "revokes _ = False"

fun scans :: "store_op \<Rightarrow> bool" where
  "scans (OpRevokeRefresh rid) = True"
| "scans (OpRevokeAccess rid) = True"
| "scans (OpExpireClients now) = True"
| "scans op = revokes op"

section \<open>The abstract machine\<close>

definition counted :: "time \<Rightarrow> store \<Rightarrow> int" where
  "counted now V = int (card {k. \<exists>d. V ClientReg k = Some d \<and> client_counts now d})"

definition removed :: "(Request \<Rightarrow> bool) \<Rightarrow> (string \<Rightarrow> bool) \<Rightarrow> store \<Rightarrow> int" where
  "removed P Q V = int (card {(f, k). V f k \<noteq> None \<and> spec_revoke P Q V f k = None})"

definition registered :: "ClientRegistration \<Rightarrow> time \<Rightarrow> doc" where
  "registered g created = DClient ((FromFositeClient (cr_Client g))
     \<lparr>cl_Name := cr_Name g, cl_CreatedAt := created, cl_ExpiresAt := cr_ExpiresAt g\<rparr>)"

definition of_grant :: "string \<Rightarrow> doc \<Rightarrow> bool" where
  "of_grant rid d = (case dec_request d of Inl _ \<Rightarrow> False | Inr r \<Rightarrow> rq_ID r = rid)"

definition expired_doc :: "time \<Rightarrow> doc \<Rightarrow> bool" where
  "expired_doc now d = (case dec_client d of Inl _ \<Rightarrow> False | Inr c \<Rightarrow> client_expired now c)"

definition stored_client :: "store \<Rightarrow> string \<Rightarrow> Client result" where
  "stored_client V cid = res_bind (get_doc V ClientReg cid) dec_client"

definition stored_request :: "store \<Rightarrow> family \<Rightarrow> string \<Rightarrow> Request result" where
  "stored_request V f k = res_bind (get_doc V f k) dec_request"

fun spec_op :: "(string \<Rightarrow> string option) \<Rightarrow> store_op \<Rightarrow> store \<Rightarrow> answer result \<times> store" where
  "spec_op reparse (OpCreate f k q) V = (Inr ADone, spec_put f k (DRequest (FromFositeReq q)) V)"
| "spec_op reparse (OpGet f k se) V = (ans ARequest (spec_request V f k se), V)"
| "spec_op reparse (OpDelete f k) V = (Inr ADone, spec_delete f k V)"
| "spec_op reparse (OpRotate rid k now) V =
     (case stored_request V RefreshToken k of
        Inl e \<Rightarrow> (Inl e, V)
      | Inr r \<Rightarrow> (Inr ADone, spec_put RefreshToken k (DRequest (r\<lparr>rq_RotatedAt := now\<rparr>)) V))"
| "spec_op reparse (OpRevokeRefresh rid) V = (Inr ADone, spec_drop RefreshToken (\<lambda>_. of_grant rid) V)"
| "spec_op reparse (OpRevokeAccess rid) V = (Inr ADone, spec_drop AccessToken (\<lambda>_. of_grant rid) V)"
| "spec_op reparse (OpCreateAuthorize q) V =
     (Inr ADone, spec_put AuthorizeReq (fr_ID q) (DAuthorize (FromFositeAuthorizeRequest q)) V)"
| "spec_op reparse (OpGetAuthorize k) V =
     (ans AAuthorize (res_bind (get_doc V AuthorizeReq k) (\<lambda>d.
        res_bind (dec_authorize d) (ToFositeAuthorizeRequest reparse))), V)"
| "spec_op reparse (OpDeleteAuthorize k) V = (Inr ADone, spec_delete AuthorizeReq k V)"
| "spec_op reparse (OpRegister g created now) V =
     (if cr_MaxClients g > 0 \<and> V ClientReg (fc_ID (cr_Client g)) = None \<and> counted now V \<ge> cr_MaxClients g
      then (Inl ErrClientCapReached, V)
      else (Inr ADone, spec_put ClientReg (fc_ID (cr_Client g)) (registered g created) V))"
| "spec_op reparse (OpGetClient cid now) V = (ans AClient (spec_client V cid now), V)"
| "spec_op reparse (OpClientName cid now) V =
     (case stored_client V cid of
        Inl e \<Rightarrow> (if e = ErrNotFound then Inr (AName []) else Inl e, V)
      | Inr c \<Rightarrow> (Inr (AName (if client_expired now c then [] else cl_Name c)), V))"
| "spec_op reparse (OpTouch cid t) V =
     (case stored_client V cid of
        Inl e \<Rightarrow> (Inl e, V)
      | Inr c \<Rightarrow> (Inr ADone, if time_is_zero (cl_ExpiresAt c) then V
          else spec_put ClientReg cid (DClient (c\<lparr>cl_ExpiresAt := t\<rparr>)) V))"
| "spec_op reparse (OpCount now) V = (Inr (ACount (counted now V)), V)"
| "spec_op reparse (OpExpireClients now) V = (Inr ADone, spec_drop ClientReg (\<lambda>_. expired_doc now) V)"
| "spec_op reparse (OpRevokeClient cid) V =
     (Inr (ACount (removed (of_client cid) (\<lambda>k. k = cid) V)), spec_revoke (of_client cid) (\<lambda>k. k = cid) V)"
| "spec_op reparse (OpRevokeGrant rid) V =
     (Inr (ACount (removed (\<lambda>r. rq_ID r = rid) (\<lambda>_. False) V)), spec_revoke (\<lambda>r. rq_ID r = rid) (\<lambda>_. False) V)"
| "spec_op reparse OpRevokeAll V =
     (Inr (ACount (removed (\<lambda>_. True) (\<lambda>_. True) V)), spec_revoke (\<lambda>_. True) (\<lambda>_. True) V)"

fun spec_ops :: "(string \<Rightarrow> string option) \<Rightarrow> store_op list \<Rightarrow> store \<Rightarrow> answer result list \<times> store" where
  "spec_ops reparse [] V = ([], V)"
| "spec_ops reparse (op # ops) V =
     (case spec_op reparse op V of (a, V1) \<Rightarrow> case spec_ops reparse ops V1 of (as, V2) \<Rightarrow> (a # as, V2))"

text \<open>The families the calls are about.\<close>

definition core :: "store \<Rightarrow> store" where
  "core V = (\<lambda>f. if f \<in> {UserRec, Credential, Meta} then Map.empty else V f)"

section \<open>The contract\<close>

locale store_machine =
  fixes R :: "'s repo_ops" and v :: "'s \<Rightarrow> store" and reparse :: "string \<Rightarrow> string option"
    and inv :: "'s \<Rightarrow> bool"
  assumes simulates: "inv s \<Longrightarrow> valid_op op \<Longrightarrow> run_op R op s = (a, s') \<Longrightarrow>
      (a, v s') = spec_op reparse op (v s) \<or>
      a = Inl ErrCommit \<and> (v s' = v s \<or> (\<exists>now. op = OpExpireClients now))"
    and preserves: "inv s \<Longrightarrow> valid_op op \<Longrightarrow> inv (snd (run_op R op s))"
begin

lemma simulates_run:
  assumes "inv s" and "\<forall>op \<in> set ops. valid_op op" and "run_ops R ops s = (as, s')" and "Inl ErrCommit \<notin> set as"
  shows "(as, v s') = spec_ops reparse ops (v s)" and "inv s'"
proof -
  have "(as, v s') = spec_ops reparse ops (v s) \<and> inv s'"
    using assms
  proof (induction ops arbitrary: s as s')
    case (Cons op ops)
    obtain a s1 where 1: "run_op R op s = (a, s1)" by fastforce
    obtain as' s2 where 2: "run_ops R ops s1 = (as', s2)" by fastforce
    have as: "as = a # as'" "s' = s2" using Cons.prems(3) by (simp_all add: 1 2)
    have "inv s1" using preserves [of s op] Cons.prems(1,2) 1 by simp
    then have IH: "(as', v s2) = spec_ops reparse ops (v s1) \<and> inv s2"
      using Cons.IH [OF _ _ 2] Cons.prems(2,4) as by auto
    moreover have "(a, v s1) = spec_op reparse op (v s)"
      using simulates [OF Cons.prems(1) _ 1] Cons.prems(2,4) as by auto
    ultimately show ?case by (simp add: as split: prod.splits) (metis prod.inject)
  qed simp
  then show "(as, v s') = spec_ops reparse ops (v s)" "inv s'" by simp_all
qed

end

section \<open>The families of the calls\<close>

lemma core_apply: "f \<notin> {UserRec, Credential, Meta} \<Longrightarrow> core V f = V f"
  by (simp add: core_def)

lemma core_session: "f \<in> set session_families \<Longrightarrow> core V f = V f"
  by (auto simp: core_def session_families_def)

lemma core_put: "f \<notin> {UserRec, Credential, Meta} \<Longrightarrow> core (spec_put f k d V) = spec_put f k d (core V)"
  by (auto simp: core_def spec_put_def fun_eq_iff)

lemma core_delete: "f \<notin> {UserRec, Credential, Meta} \<Longrightarrow> core (spec_delete f k V) = spec_delete f k (core V)"
  by (auto simp: core_def spec_delete_def fun_eq_iff)

lemma core_drop: "f \<notin> {UserRec, Credential, Meta} \<Longrightarrow> core (spec_drop f P V) = spec_drop f P (core V)"
  by (auto simp: core_def spec_drop_def fun_eq_iff)

lemma revoke_hits_core: "f \<in> {UserRec, Credential, Meta} \<Longrightarrow> \<not> revoke_hits P Q f k d"
  by (auto simp: revoke_hits_def session_families_def)

lemma core_revoke: "core (spec_revoke P Q V) = spec_revoke P Q (core V)"
  by (auto simp: core_def spec_revoke_def fun_eq_iff)

lemma removed_core: "removed P Q (core V) = removed P Q V"
proof -
  have "{(f, k). core V f k \<noteq> None \<and> spec_revoke P Q (core V) f k = None} =
      {(f, k). V f k \<noteq> None \<and> spec_revoke P Q V f k = None}"
    using revoke_hits_core by (fastforce simp: core_def spec_revoke_def split: option.splits if_splits)
  then show ?thesis by (simp only: removed_def)
qed

lemma core_reads:
  "get_doc (core V) ClientReg k = get_doc V ClientReg k"
  "get_doc (core V) AuthorizeReq k = get_doc V AuthorizeReq k"
  "stored_client (core V) k = stored_client V k"
  "stored_request (core V) RefreshToken k = stored_request V RefreshToken k"
  "spec_client (core V) k now = spec_client V k now" "counted now (core V) = counted now V"
  "core V ClientReg k = V ClientReg k"
  by (simp_all add: get_doc_def core_def stored_client_def stored_request_def spec_client_def counted_def)

lemma core_request: "f \<in> set session_families \<Longrightarrow> spec_request (core V) f k se = spec_request V f k se"
  by (simp add: spec_request_def get_doc_def core_session)

lemmas core_simps = core_put core_delete core_drop core_revoke removed_core core_reads core_request

text \<open>One call simulates one step.\<close>

definition sim_step :: "('s \<Rightarrow> store) \<Rightarrow> 's \<Rightarrow> answer result \<times> 's \<Rightarrow> answer result \<times> store \<Rightarrow> bool" where
  "sim_step v s x y \<longleftrightarrow>
     (fst x, core (v (snd x))) = y \<or> fst x = Inl ErrCommit \<and> core (v (snd x)) = core (v s)"

lemma sim_write:
  assumes "writes v s rs f" and "\<And>e. fst rs = Inl e \<Longrightarrow> e = ErrCommit" and "\<And>x. fst rs = Inr x \<Longrightarrow> h x = y"
    and "core (f (v s)) = W"
  shows "sim_step v s (answered h rs) (Inr y, W)"
  using assms
  by (cases rs; cases "fst rs") (auto simp: sim_step_def answered_def ans_def writes_def)

lemma sim_read: "r = r0 \<or> r = Inl ErrCommit \<Longrightarrow> sim_step v s (ans h r, s) (ans h r0, core (v s))"
  by (auto simp: sim_step_def ans_def)

lemma sim_refused: "sim_step v s (answered h (Inl e, s)) (Inl e, core (v s))"
  by (simp add: sim_step_def answered_def ans_def)

lemma sim_unchanged: "h x = y \<Longrightarrow> sim_step v s (answered h (Inr x, s)) (Inr y, core (v s))"
  by (simp add: sim_step_def answered_def ans_def)

end
