(* ===== verification/KvsMachine.thy ===== *)
theory KvsMachine
  imports Backends
begin

text \<open>
  The bbolt backend is a \<open>store_machine\<close>: in a store of well-typed records every call answers what
  the abstract machine answers, or fails because the bucket or the commit fails.
\<close>

locale bolt_store = bolt_bucket B for B :: "'b bolt" +
  assumes put_error: "bk_put B b k d = Inl e \<Longrightarrow> e = ErrCommit"
    and delete_error: "bk_delete B b k = Inl e \<Longrightarrow> e = ErrCommit"

interpretation reference_store: bolt_store ref_bolt
  by unfold_locales (auto simp: ref_bolt_def split: if_splits)

lemma db_error: "fst (db_update f st) = Inl e \<Longrightarrow> e = ErrCommit \<or> f (kv_bucket st) = Inl e"
  by (auto simp: db_update_def split: sum.splits list.splits bool.splits prod.splits)

lemma txn_error: "txn_unit r = Inl e \<Longrightarrow> r = Inl e"
  by (cases r) (auto simp: txn_unit_def)

context bolt_store begin

lemma delete_keys_error: "delete_keys B ks b = Inl e \<Longrightarrow> e = ErrCommit"
proof (induction ks arbitrary: b)
  case (Cons k ks)
  then show ?case
    by (cases "bk_delete B b k") (auto simp: delete_keys_def dest: delete_error)
qed (simp add: delete_keys_def)

lemma create_error: "fst (kvs_create B k d st) = Inl e \<Longrightarrow> e = ErrCommit"
  unfolding kvs_create_def by (auto dest!: db_error txn_error put_error)

lemma delete_one_error: "fst (kvs_delete B k st) = Inl e \<Longrightarrow> e = ErrCommit"
  unfolding kvs_delete_def by (auto dest!: db_error txn_error delete_error)

lemma update_error:
  "bk_get B (kv_bucket st) k \<noteq> None \<Longrightarrow> fst (kvs_update B k d st) = Inl e \<Longrightarrow> e = ErrCommit"
  unfolding kvs_update_def by (auto dest!: db_error txn_error put_error split: option.splits)

lemma drop_error:
  "fst (db_update (\<lambda>b. let stale = ks b in txn_unit (delete_keys B stale b)) st) = Inl e \<Longrightarrow> e = ErrCommit"
  by (auto dest!: db_error txn_error delete_keys_error simp: Let_def)

lemma sim_create:
  "f \<notin> {UserRec, Credential, Meta} \<Longrightarrow>
   sim_step (kview B) st (answered (\<lambda>_. ADone) (kvs_create B (family_prefix f @ k) d st))
     (Inr ADone, spec_put f k d (core (kview B st)))"
  by (rule sim_write [OF create_writes]) (auto dest: create_error simp: core_put)

lemma sim_delete:
  "f \<notin> {UserRec, Credential, Meta} \<Longrightarrow>
   sim_step (kview B) st (answered (\<lambda>_. ADone) (kvs_delete B (family_prefix f @ k) st))
     (Inr ADone, spec_delete f k (core (kview B st)))"
  by (rule sim_write [OF delete_writes]) (auto dest: delete_one_error simp: core_delete)

lemma sim_update:
  "f \<notin> {UserRec, Credential, Meta} \<Longrightarrow> kview B st f k \<noteq> None \<Longrightarrow>
   sim_step (kview B) st (answered (\<lambda>_. ADone) (kvs_update B (family_prefix f @ k) d st))
     (Inr ADone, spec_put f k d (core (kview B st)))"
  by (rule sim_write [OF update_writes])
     (auto dest: update_error [rotated] simp: core_put kview_def bview_def)

lemma sim_drop:
  "f \<notin> {UserRec, Credential, Meta} \<Longrightarrow>
   sim_step (kview B) st (answered (\<lambda>_. ADone)
       (db_update (\<lambda>b. let stale = map fst (filter (\<lambda>(_, v). P v) (cursor_prefix B b (family_prefix f)))
          in txn_unit (delete_keys B stale b)) st))
     (Inr ADone, spec_drop f (\<lambda>_. P) (core (kview B st)))"
  by (rule sim_write [OF drop_writes], erule drop_error) (simp_all add: core_drop)

lemma count_view: "countNonExpiredClients B (kv_bucket st) now = counted now (kview B st)"
  by (simp add: count_card counted_def kview_def)

lemma sim_revoke:
  assumes "store_ok (kview B st)" and "selects B sel Q" and "\<And>select. sel = Some select \<Longrightarrow> \<exists>js. select (kv_bucket st) = Inr js"
  shows "sim_step (kview B) st (answered ACount (revoke B m sel st))
     (Inr (ACount (removed m Q (core (kview B st)))), spec_revoke m Q (core (kview B st)))"
proof (rule sim_write [OF revoke_writes [OF assms(2)]])
  fix e assume e: "fst (revoke B m sel st) = Inl e"
  have "store_ok (bview B (kv_bucket st))" using assms(1) by (simp add: kview_def)
  then obtain ks where "staleRecords B (kv_bucket st) m sel = Inr ks" 
    using stale_ok [of "kv_bucket st" sel m] assms(3) by blast
  then show "e = ErrCommit"
    using db_error [OF e [unfolded revoke_def]] delete_keys_error
    by (auto simp: res_bind_def split: sum.splits)
next
  fix n assume n: "fst (revoke B m sel st) = Inr n"
  obtain st' where r: "revoke B m sel st = (Inr n, st')" using n by (cases "revoke B m sel st") auto
  have "kview B st' = spec_revoke m Q (kview B st)"
    using writes_ok [OF revoke_writes [OF assms(2), of st m, unfolded r] refl] .
  then have "n = removed m Q (kview B st)" using revoke_count [OF r assms(2)] by (simp only: removed_def)
  then show "ACount n = ACount (removed m Q (core (kview B st)))" by (simp add: removed_core)
qed (rule core_revoke)

lemma stored_view:
  "kvs_get B (family_prefix ClientReg @ cid) dec_client st = stored_client (kview B st) cid"
  "kvs_get B (family_prefix RefreshToken @ cid) dec_request st = stored_request (kview B st) RefreshToken cid"
  by (simp_all add: get_view stored_client_def stored_request_def)

lemma stored_some:
  "stored_client V cid = Inr c \<Longrightarrow> V ClientReg cid \<noteq> None" "stored_request V f k = Inr r \<Longrightarrow> V f k \<noteq> None"
  by (auto simp: stored_client_def stored_request_def get_doc_def split: option.splits)

lemma sim_rotate:
  "sim_step (kview B) st (run_op (kvs_repo B reparse) (OpRotate rid k now) st)
     (spec_op reparse (OpRotate rid k now) (core (kview B st)))"
proof (cases "stored_request (kview B st) RefreshToken k")
  case (Inl e)
  then show ?thesis
    by (simp add: kvs_repo_def kvs_SessionStorage_def kvs_RotateRefreshToken_def prefix_of_family stored_view
        core_simps sim_refused)
next
  case (Inr r)
  then show ?thesis
    by (simp add: kvs_repo_def kvs_SessionStorage_def kvs_RotateRefreshToken_def prefix_of_family stored_view
        core_simps sim_update stored_some(2) [OF Inr])
qed

lemma sim_touch:
  "sim_step (kview B) st (run_op (kvs_repo B reparse) (OpTouch cid t) st)
     (spec_op reparse (OpTouch cid t) (core (kview B st)))"
proof (cases "stored_client (kview B st) cid")
  case (Inl e)
  then show ?thesis
    by (simp add: kvs_repo_def kvs_DynamicClientStorage_def kvs_TouchClient_def prefix_of_family stored_view
        core_simps sim_refused)
next
  case (Inr c)
  then show ?thesis
    by (simp add: kvs_repo_def kvs_DynamicClientStorage_def kvs_TouchClient_def prefix_of_family stored_view
        core_simps sim_update sim_unchanged stored_some(1) [OF Inr])
qed

lemma sim_register:
  "sim_step (kview B) st (run_op (kvs_repo B reparse) (OpRegister g created now) st)
     (spec_op reparse (OpRegister g created now) (core (kview B st)))"
proof -
  let ?full = "cr_MaxClients g > 0 \<and> kview B st ClientReg (fc_ID (cr_Client g)) = None \<and>
    counted now (kview B st) \<ge> cr_MaxClients g"
  have get: "bk_get B (kv_bucket st) (family_prefix ClientReg @ k) = kview B st ClientReg k" for k
    by (simp add: kview_def bview_def)
  show ?thesis
  proof (cases ?full)
    case True
    then have "kvs_RegisterClient B g created now st = (Inl ErrClientCapReached, st)"
      by (simp add: kvs_RegisterClient_def db_update_def prefix_of_family get count_view Let_def)
    then show ?thesis using True
      by (simp add: kvs_repo_def kvs_DynamicClientStorage_def core_simps sim_refused)
  next
    case False
    then have "kvs_RegisterClient B g created now st =
        kvs_create B (family_prefix ClientReg @ fc_ID (cr_Client g)) (registered g created) st"
      by (auto simp: kvs_RegisterClient_def kvs_create_def db_update_def prefix_of_family get count_view
          registered_def Let_def)
    then show ?thesis using False
      by (auto simp: kvs_repo_def kvs_DynamicClientStorage_def core_simps sim_create)
  qed
qed

lemma sim_name:
  "sim_step (kview B) st (run_op (kvs_repo B reparse) (OpClientName cid now) st)
     (spec_op reparse (OpClientName cid now) (core (kview B st)))"
  by (cases "stored_client (kview B st) cid")
     (auto simp: kvs_repo_def kvs_DynamicClientStorage_def kvs_GetClientName_def prefix_of_family stored_view
       core_simps sim_step_def ans_def split: err.splits)

lemma sim_kvs_plain:
  assumes "\<not> revokes op" and "valid_op op"
  shows "sim_step (kview B) st (run_op (kvs_repo B reparse) op st) (spec_op reparse op (core (kview B st)))"
proof (cases op)
  case (OpCreate f k q)
  then have f: "f \<in> set session_families" using assms(2) by simp
  show ?thesis unfolding OpCreate
    by (rule session_family_cases [OF f])
       (simp_all add: kvs_repo_def kvs_SessionStorage_def kvs_session_defs prefix_of_family sim_create)
next
  case (OpGet f k se)
  then have f: "f \<in> set session_families" using assms(2) by simp
  show ?thesis
    using sim_read [of "spec_request (kview B st) f k se" _ "kview B" st ARequest] get_session [OF f, of k se st]
    by (simp add: OpGet kvs_repo_def core_simps f)
next
  case (OpDelete f k)
  then have f: "f \<in> set session_families" using assms(2) by simp
  show ?thesis unfolding OpDelete
    by (rule session_family_cases [OF f])
       (simp_all add: kvs_repo_def kvs_SessionStorage_def kvs_session_defs prefix_of_family sim_delete)
next
  case (OpRotate rid k now)
  then show ?thesis using sim_rotate by simp
next
  case (OpRevokeRefresh rid)
  then show ?thesis
    using sim_drop [of RefreshToken st "of_grant rid"]
    by (simp add: kvs_repo_def kvs_SessionStorage_def kvs_RevokeRefreshToken_def deleteMatching_def
        prefix_of_family of_grant_def [abs_def])
next
  case (OpRevokeAccess rid)
  then show ?thesis
    using sim_drop [of AccessToken st "of_grant rid"]
    by (simp add: kvs_repo_def kvs_SessionStorage_def kvs_RevokeAccessToken_def deleteMatching_def
        prefix_of_family of_grant_def [abs_def])
next
  case (OpCreateAuthorize q)
  then show ?thesis
    by (simp add: kvs_repo_def kvs_AuthorizeRequestStorage_def kvs_CreateAuthorizeRequest_def prefix_of_family
        sim_create)
next
  case (OpGetAuthorize k)
  then show ?thesis
    using sim_read [of "as_GetAuthorizeRequest (kvs_AuthorizeRequestStorage B reparse) k st" _ "kview B" st AAuthorize]
      get_ar [of reparse k st]
    by (simp add: kvs_repo_def core_simps)
next
  case (OpDeleteAuthorize k)
  then show ?thesis
    by (simp add: kvs_repo_def kvs_AuthorizeRequestStorage_def kvs_DeleteAuthorizeRequest_def prefix_of_family
        sim_delete)
next
  case (OpRegister g created now)
  then show ?thesis using sim_register by simp
next
  case (OpGetClient cid now)
  then show ?thesis
    using sim_read [of "ds_GetClient (kvs_DynamicClientStorage B) cid now st" _ "kview B" st AClient]
      get_client [of cid now st]
    by (simp add: kvs_repo_def core_simps)
next
  case (OpClientName cid now)
  then show ?thesis using sim_name by simp
next
  case (OpTouch cid t)
  then show ?thesis using sim_touch by simp
next
  case (OpCount now)
  then show ?thesis
    by (simp add: kvs_repo_def kvs_DynamicClientStorage_def kvs_CountClients_def db_view_def count_view
        core_simps sim_step_def ans_def)
next
  case (OpExpireClients now)
  then show ?thesis
    using sim_drop [of ClientReg st "expired_doc now"]
    by (simp add: kvs_repo_def kvs_MaintenanceStorage_def kvs_DeleteExpiredClients_def prefix_of_family
        expired_doc_def [abs_def])
qed (use assms(1) in simp_all)

lemma sim_kvs:
  assumes "store_ok (kview B st)" and "valid_op op"
  shows "sim_step (kview B) st (run_op (kvs_repo B reparse) op st) (spec_op reparse op (core (kview B st)))"
proof (cases "revokes op")
  case False
  show ?thesis by (rule sim_kvs_plain [OF False assms(2)])
next
  case True
  then show ?thesis
  proof (cases op)
    case (OpRevokeClient cid)
    then show ?thesis
      using sim_revoke [OF assms(1) selects_client, of cid "of_client cid"]
      by (simp add: kvs_repo_def kvs_InventoryStorage_def kvs_RevokeClient_def)
  next
    case (OpRevokeGrant rid)
    then show ?thesis
      using sim_revoke [OF assms(1) selects_none, of "\<lambda>r. rq_ID r = rid"]
      by (simp add: kvs_repo_def kvs_InventoryStorage_def kvs_RevokeGrant_def)
  next
    case OpRevokeAll
    have "store_ok (bview B (kv_bucket st))" using assms(1) by (simp add: kview_def)
    then show ?thesis
      using sim_revoke [OF assms(1) selects_all, of "\<lambda>_. True"] all_client_keys_ok
      by (simp add: OpRevokeAll kvs_repo_def kvs_InventoryStorage_def kvs_RevokeAll_def)
  qed simp_all
qed

lemma keeps_kvs:
  assumes "store_ok (kview B st)" and "valid_op op"
  shows "store_ok (kview B (snd (run_op (kvs_repo B reparse) op st)))"
proof -
  have step: "store_ok (kview B (snd rs))" if "kvs_step B st (snd rs)" for rs :: "'x result \<times> 'b kvs"
    using step_store_ok [OF that assms(1)] .
  show ?thesis
    using assms
    by (cases op)
       (auto simp: answered_def kvs_repo_def kvs_SessionStorage_def kvs_AuthorizeRequestStorage_def
         kvs_DynamicClientStorage_def kvs_InventoryStorage_def kvs_MaintenanceStorage_def
         intro!: step kvs_step.intros)
qed

end

sublocale bolt_store \<subseteq>
  kvs: store_machine "kvs_repo B reparse" "\<lambda>st. core (kview B st)" reparse "\<lambda>st. store_ok (kview B st)"
  for reparse :: "string \<Rightarrow> string option"
proof
  fix s op a s'
  assume "store_ok (kview B s)" "valid_op op" "run_op (kvs_repo B reparse) op s = (a, s')"
  then show "(a, core (kview B s')) = spec_op reparse op (core (kview B s)) \<or>
      a = Inl ErrCommit \<and> (core (kview B s') = core (kview B s) \<or> (\<exists>now. op = OpExpireClients now))"
    using sim_kvs [of s op reparse] by (auto simp: sim_step_def)
qed (rule keeps_kvs)

end
