(* ===== verification/SqlMachine.thy ===== *)
theory SqlMachine
  imports Backends
begin

text \<open>
  The SQLite backend is a \<open>store_machine\<close> too.  Its invariant says, beyond the typing of the
  records, that the \<open>request_id\<close> column of the token tables repeats the identifier inside the
  stored request: \<open>RevokeAccessToken\<close> and \<open>RevokeRefreshToken\<close> select by the column.
\<close>

section \<open>The column and the document agree\<close>

definition row_ok :: "row \<Rightarrow> bool" where
  "row_ok r \<longleftrightarrow> (row_table r \<in> {AccessToken, RefreshToken} \<longrightarrow>
     (\<forall>q. row_doc r = DRequest q \<longrightarrow> column r ''request_id'' = Some (VStr (rq_ID q))))"

definition cols_ok :: "(family \<Rightarrow> sql_value \<rightharpoonup> row) \<Rightarrow> bool" where
  "cols_ok T \<longleftrightarrow> (\<forall>t k r. T t k = Some r \<longrightarrow> row_ok r)"

definition sql_ok :: "('d \<Rightarrow> family \<Rightarrow> sql_value \<rightharpoonup> row) \<Rightarrow> 'd sqldb \<Rightarrow> bool" where
  "sql_ok tbl st \<longleftrightarrow> store_ok (core (sview tbl st)) \<and> cols_ok (tbl (sd_db st))"

lemma row_ok_untimed: "untimed r' = untimed r \<Longrightarrow> row_ok r' \<longleftrightarrow> row_ok r"
  using untimed_eq(2,4) [of r' r] untimed_eq(3) [of r' r "''request_id''"] by (simp add: row_ok_def)

lemma row_ok_other: "row_table r \<notin> {AccessToken, RefreshToken} \<Longrightarrow> row_ok r"
  by (simp add: row_ok_def)

lemma row_ok_set_client: "row_ok r \<Longrightarrow> row_ok (set_column ''client'' v r)"
  by (cases r) (auto simp: row_ok_def split: doc.splits)

lemma row_ok_set_request:
  "row_table r = RefreshToken \<Longrightarrow> column r ''request_id'' = Some (VStr (rq_ID q)) \<Longrightarrow>
     row_ok (set_column ''request'' (DRequest q) r)"
  by (cases r) (auto simp: row_ok_def)

lemma cols_ok_put: "cols_ok T \<Longrightarrow> row_ok r \<Longrightarrow> cols_ok (T(t := (T t)(k \<mapsto> r)))"
  unfolding cols_ok_def by (intro allI impI) (auto split: if_splits)

section \<open>Single statements\<close>

lemma sql_txn_keeps:
  assumes "\<And>x d. f (sd_db st) = Inr (x, d) \<Longrightarrow> P d" and "P (sd_db st)"
  shows "P (sd_db (snd (sql_txn f st)))"
  using assms
  by (auto simp: sql_txn_def split: sum.splits list.splits bool.splits prod.splits)

lemma sql_txn_fst_error: "fst (sql_txn f st) = Inl e \<Longrightarrow> e = ErrCommit \<or> f (sd_db st) = Inl e"
  by (auto simp: sql_txn_def split: sum.splits list.splits bool.splits prod.splits)

lemma set_map_filter: "set (List.map_filter f xs) = {y. \<exists>x \<in> set xs. f x = Some y}"
  by (induction xs) (auto split: option.splits)

lemma expired_doc_iff: "expired_doc now x \<longleftrightarrow> (\<exists>c. dec_client x = Inr c \<and> client_expired now c)"
  by (cases "dec_client x") (auto simp: expired_doc_def)

lemma bind_error: "res_bind r f = Inl e \<Longrightarrow> r = Inl e \<or> (\<exists>x. r = Inr x \<and> f x = Inl e)"
  by (cases r) auto

context gorm_database begin

lemma cols_delete: "gm_Delete G t w d = Inr (n, d') \<Longrightarrow> cols_ok (tbl d) \<Longrightarrow> cols_ok (tbl d')"
  by (drule Delete) (auto simp: cols_ok_def split: option.splits if_splits)

lemma cols_create:
  assumes "gm_Create G up r d = Inr d'" and "row_ok r" and "cols_ok (tbl d)"
  shows "cols_ok (tbl d')"
proof -
  obtain k r' where "untimed r' = untimed r"
    and t: "tbl d' = (tbl d)(row_table r := (tbl d (row_table r))(k \<mapsto> r'))"
    using Create [OF assms(1)] by blast
  then have "row_ok r'" using row_ok_untimed assms(2) by blast
  then show ?thesis unfolding t by (rule cols_ok_put [OF assms(3)])
qed

lemma cols_update:
  assumes "gm_Update G t w c v d = Inr (n, d')" and "cols_ok (tbl d)"
    and "\<And>k r. tbl d t k = Some r \<Longrightarrow> where_holds julian w r \<Longrightarrow> row_ok (set_column c v r)"
  shows "cols_ok (tbl d')"
proof -
  obtain upd where u: "\<And>r. untimed (upd r) = untimed (set_column c v r)"
    and t: "tbl d' = (tbl d)(t := (\<lambda>k. map_option (\<lambda>r. if where_holds julian w r then upd r else r) (tbl d t k)))"
    using Update [OF assms(1)] by blast
  have old: "row_ok r" if "tbl d s k = Some r" for s k r using assms(2) that unfolding cols_ok_def by blast
  have new: "row_ok (if where_holds julian w r then upd r else r)" if r: "tbl d t k = Some r" for k r
  proof (cases "where_holds julian w r")
    case True
    show ?thesis unfolding if_P [OF True] row_ok_untimed [OF u] by (rule assms(3) [OF r True])
  next
    case False
    show ?thesis unfolding if_not_P [OF False] by (rule old [OF r])
  qed
  show ?thesis
    unfolding cols_ok_def
  proof (intro allI impI)
    fix s k x assume x: "tbl d' s k = Some x"
    show "row_ok x"
    proof (cases "s = t")
      case True
      then obtain r where "tbl d t k = Some r" "x = (if where_holds julian w r then upd r else r)"
        using x by (auto simp: t simp del: split_paired_Ex)
      then show ?thesis using new by simp
    next
      case False
      then show ?thesis using x old by (simp add: t)
    qed
  qed
qed

lemma create_cols:
  "cols_ok (tbl (sd_db st)) \<Longrightarrow> row_ok r \<Longrightarrow> cols_ok (tbl (sd_db (snd (sql_create G up r st))))"
  unfolding sql_create_def
  by (rule sql_txn_keeps [where P = "\<lambda>d. cols_ok (tbl d)"]) (auto simp: txn_unit_def res_bind_Inr cols_create)

lemma delete_cols: "cols_ok (tbl (sd_db st)) \<Longrightarrow> cols_ok (tbl (sd_db (snd (sql_delete G t w st))))"
  unfolding sql_delete_def
  by (rule sql_txn_keeps [where P = "\<lambda>d. cols_ok (tbl d)"]) (auto simp: res_bind_Inr cols_delete)

lemma create_error: "fst (sql_create G up r st) = Inl e \<Longrightarrow> e = ErrCommit"
  unfolding sql_create_def txn_unit_def by (auto dest!: sql_txn_fst_error bind_error errors)

lemma delete_error: "fst (sql_delete G t w st) = Inl e \<Longrightarrow> e = ErrCommit"
  unfolding sql_delete_def by (auto dest!: sql_txn_fst_error bind_error errors split: prod.splits)

lemma update_error: "fst (sql_update G t w c v st) = Inl e \<Longrightarrow> e = ErrCommit"
  unfolding sql_update_def by (auto dest!: sql_txn_fst_error bind_error errors split: prod.splits)

lemma sim_create:
  "column r (pk f) = Some (VStr k) \<Longrightarrow> row_table r = f \<Longrightarrow> row_doc r = x \<Longrightarrow> f \<in> set text_families \<Longrightarrow>
   f \<noteq> Credential \<Longrightarrow>
   sim_step (sview tbl) st (answered (\<lambda>_. ADone) (sql_create G up r st)) (Inr ADone, spec_put f k x (core (sview tbl st)))"
  by (rule sim_write [OF create_writes])
     (auto dest: create_error simp: text_families_def intro!: core_put)

lemma sim_delete:
  "c = pk f \<Longrightarrow> f \<in> set text_families \<Longrightarrow> f \<noteq> Credential \<Longrightarrow>
   sim_step (sview tbl) st (answered (\<lambda>_. ADone) (sql_delete G f (WEq c (VStr k)) st))
     (Inr ADone, spec_delete f k (core (sview tbl st)))"
  by (rule sim_write [OF delete_writes])
     (auto dest: delete_error simp: text_families_def intro!: core_delete)

lemma sim_update:
  "p = pk f \<Longrightarrow> (f, c) \<in> {(RefreshToken, ''request''), (ClientReg, ''client'')} \<Longrightarrow> sview tbl st f k \<noteq> None \<Longrightarrow>
   sim_step (sview tbl) st (answered (\<lambda>_. ADone) (sql_update G f (WEq p (VStr k)) c x st))
     (Inr ADone, spec_put f k x (core (sview tbl st)))"
  by (rule sim_write [OF update_writes]) (auto dest: update_error intro!: core_put)

section \<open>The calls\<close>

lemma read_error_cases:
  assumes "c = pk f" and "f \<in> set text_families"
  shows "res_bind (sql_first G f (WEq c (VStr k)) st) (\<lambda>r. dec (row_doc r)) = res_bind (get_doc (sview tbl st) f k) dec \<or>
    sql_first G f (WEq c (VStr k)) st = Inl ErrCommit"
  by (rule first_cases [OF assms, of k st]) (simp_all add: get_doc_def)

lemma client_model:
  "getClientModel G cid st = stored_client (sview tbl st) cid \<or> getClientModel G cid st = Inl ErrCommit"
  unfolding stored_client_def by (rule getClientModel_cases)

lemma sim_failed: "sim_step (sview tbl) st (answered h (Inl ErrCommit, st)) y"
  by (simp add: sim_step_def answered_def ans_def)

lemma sim_rotate:
  "sim_step (sview tbl) st (run_op (sql_repo G reparse) (OpRotate rid k now) st)
     (spec_op reparse (OpRotate rid k now) (core (sview tbl st)))"
proof (rule first_cases [of "''signature''" RefreshToken k st])
  assume "sql_first G RefreshToken (WEq ''signature'' (VStr k)) st = Inl ErrCommit"
  then show ?thesis by (simp add: sql_repo_def sql_SessionStorage_def sql_RotateRefreshToken_def sim_failed)
next
  assume "sql_first G RefreshToken (WEq ''signature'' (VStr k)) st = Inl ErrNotFound"
    and "sview tbl st RefreshToken k = None"
  then show ?thesis
    by (simp add: sql_repo_def sql_SessionStorage_def sql_RotateRefreshToken_def core_simps stored_request_def
        get_doc_def core_apply sim_refused)
next
  fix r
  assume r: "sql_first G RefreshToken (WEq ''signature'' (VStr k)) st = Inr r"
    and v: "sview tbl st RefreshToken k = Some (row_doc r)"
  then have s: "stored_request (core (sview tbl st)) RefreshToken k = dec_request (row_doc r)"
    by (simp add: stored_request_def get_doc_def core_apply)
  show ?thesis
  proof (cases "dec_request (row_doc r)")
    case (Inl e)
    then show ?thesis
      by (simp add: sql_repo_def sql_SessionStorage_def sql_RotateRefreshToken_def r s sim_refused)
  next
    case (Inr q)
    then show ?thesis
      by (simp add: sql_repo_def sql_SessionStorage_def sql_RotateRefreshToken_def r s sim_update v)
  qed
qed simp_all

lemma sim_touch:
  "sim_step (sview tbl) st (run_op (sql_repo G reparse) (OpTouch cid t) st)
     (spec_op reparse (OpTouch cid t) (core (sview tbl st)))"
proof (rule disjE [OF client_model [of cid st]])
  assume "getClientModel G cid st = Inl ErrCommit"
  then show ?thesis by (simp add: sql_repo_def sql_DynamicClientStorage_def sql_TouchClient_def sim_failed)
next
  assume m: "getClientModel G cid st = stored_client (sview tbl st) cid"
  show ?thesis
  proof (cases "stored_client (sview tbl st) cid")
    case (Inl e)
    then show ?thesis
      by (simp add: sql_repo_def sql_DynamicClientStorage_def sql_TouchClient_def m core_simps sim_refused)
  next
    case (Inr c)
    have "sview tbl st ClientReg cid \<noteq> None"
      using Inr by (auto simp: stored_client_def get_doc_def split: option.splits)
    then show ?thesis using Inr
      by (simp add: sql_repo_def sql_DynamicClientStorage_def sql_TouchClient_def m core_simps sim_update
          sim_unchanged)
  qed
qed

lemma sim_name:
  "sim_step (sview tbl) st (run_op (sql_repo G reparse) (OpClientName cid now) st)
     (spec_op reparse (OpClientName cid now) (core (sview tbl st)))"
  using client_model [of cid st]
  by (cases "stored_client (sview tbl st) cid")
     (auto simp: sql_repo_def sql_DynamicClientStorage_def sql_GetClientName_def core_simps sim_step_def ans_def
       split: err.splits)

lemma count_cases:
  "countNonExpiredClientRecords G d now = Inr (counted now (dview tbl d)) \<or>
   countNonExpiredClientRecords G d now = Inl ErrCommit"
proof (cases "gm_Find G ClientReg WAll None d")
  case (Inl e)
  then show ?thesis using errors(2) by (simp add: countNonExpiredClientRecords_def)
next
  case (Inr rs)
  let ?ks = "map (row_key_of (pk ClientReg)) (filter (\<lambda>r. client_counts now (row_doc r)) rs)"
  have "distinct ?ks \<and> set ?ks = {k. \<exists>r. tbl d ClientReg (VStr k) = Some r \<and> client_counts now (row_doc r)}"
    using find_keys [OF Inr] by simp
  then have "length (filter (\<lambda>r. client_counts now (row_doc r)) rs) =
      card {k. \<exists>r. tbl d ClientReg (VStr k) = Some r \<and> client_counts now (row_doc r)}"
    by (metis distinct_card length_map)
  moreover have "{k. \<exists>r. tbl d ClientReg (VStr k) = Some r \<and> client_counts now (row_doc r)} =
      {k. \<exists>x. dview tbl d ClientReg k = Some x \<and> client_counts now x}"
    by (auto simp: dview_text)
  ultimately show ?thesis by (simp add: countNonExpiredClientRecords_def Inr counted_def)
qed

lemma first_view:
  assumes "gm_First G f (WEq c (VStr k)) (sd_db st) = Inr x" and "c = pk f" and "f \<in> set text_families"
  shows "x = None \<longleftrightarrow> sview tbl st f k = None"
  by (rule first_cases [OF assms(2,3), of k st]) (use assms(1) in \<open>auto simp: sql_first_def split: option.splits\<close>)

lemma sql_txn_cong: "f (sd_db st) = g (sd_db st) \<Longrightarrow> sql_txn f st = sql_txn g st"
  by (simp add: sql_txn_def)

lemma sim_register:
  "sim_step (sview tbl) st (run_op (sql_repo G reparse) (OpRegister g created now) st)
     (spec_op reparse (OpRegister g created now) (core (sview tbl st)))"
proof -
  let ?d = "sd_db st" and ?id = "fc_ID (cr_Client g)"
  let ?full = "cr_MaxClients g > 0 \<and> sview tbl st ClientReg ?id = None \<and> counted now (sview tbl st) \<ge> cr_MaxClients g"
  let ?check = "if cr_MaxClients g > 0 then
      res_bind (gm_First G ClientReg (WEq ''id'' (VStr ?id)) ?d) (\<lambda>existing.
        if existing = None then
          res_bind (countNonExpiredClientRecords G ?d now) (\<lambda>count.
            if count \<ge> cr_MaxClients g then Inl ErrClientCapReached else Inr ())
        else Inr ())
      else Inr ()"
  let ?row = "RowClient \<lparr>clr_ID = ?id, clr_Client = registered g created, clr_CreatedAt = 0, clr_UpdatedAt = 0\<rparr>"
  have check: "?check = Inl ErrCommit \<or> ?check = (if ?full then Inl ErrClientCapReached else Inr ())"
  proof (cases "gm_First G ClientReg (WEq ''id'' (VStr ?id)) ?d")
    case (Inl e)
    then show ?thesis using errors(1) by auto
  next
    case (Inr x)
    have "x = None \<longleftrightarrow> sview tbl st ClientReg ?id = None" by (rule first_view [OF Inr]) simp_all
    then show ?thesis using count_cases [of ?d now] Inr by (auto simp: sview_def)
  qed
  have step: "sql_RegisterClient G g created now st =
      (case ?check of Inl e \<Rightarrow> (Inl e, st) | Inr _ \<Rightarrow> sql_create G True ?row st)"
  proof (cases ?check)
    case (Inl e)
    then show ?thesis by (simp only: sum.case sql_RegisterClient_def Let_def sql_txn_def res_bind_simps)
  next
    case (Inr u)
    show ?thesis unfolding Inr sum.case sql_RegisterClient_def Let_def sql_create_def
      by (rule sql_txn_cong) (simp only: Inr res_bind_simps registered_def)
  qed
  show ?thesis
  proof (cases ?check)
    case (Inl e)
    have e: "e = ErrCommit \<or> ?full \<and> e = ErrClientCapReached" using check unfolding Inl by (auto split: if_splits)
    have "sql_RegisterClient G g created now st = (Inl e, st)" unfolding step Inl by simp
    then show ?thesis using e
      by (auto simp: sql_repo_def sql_DynamicClientStorage_def core_simps sim_failed sim_refused)
  next
    case (Inr u)
    have full: "\<not> ?full" using check unfolding Inr by (auto split: if_splits)
    have "sql_RegisterClient G g created now st = sql_create G True ?row st" unfolding step Inr by simp
    then show ?thesis using full
      by (auto simp: sql_repo_def sql_DynamicClientStorage_def core_simps sim_create)
  qed
qed

subsection \<open>Expired registrations\<close>

lemma spec_drop_none: "spec_drop f (\<lambda>_ _. False) V = V"
  by (auto simp: spec_drop_def fun_eq_iff split: option.splits)

lemma drop_refl: "\<exists>P. V = spec_drop ClientReg P V"
  by (rule exI [of _ "\<lambda>_ _. False"]) (simp add: spec_drop_none)

lemma delete_clients:
  "sql_delete_clients G cids st = (r, st') \<Longrightarrow>
     r = Inr () \<and> sview tbl st' = spec_drop ClientReg (\<lambda>k _. k \<in> set cids) (sview tbl st) \<or>
     r = Inl ErrCommit \<and> (\<exists>P. sview tbl st' = spec_drop ClientReg P (sview tbl st))"
proof (induction cids arbitrary: st)
  case Nil
  then show ?case by (auto simp: spec_drop_none)
next
  case (Cons cid cids)
  obtain r1 st1 where 1: "sql_delete G ClientReg (WEq ''id'' (VStr cid)) st = (r1, st1)" by fastforce
  have w: "writes (sview tbl) st (r1, st1) (spec_delete ClientReg cid)"
    using delete_writes [of "''id''" ClientReg st cid] 1 by simp
  show ?case
  proof (cases r1)
    case (Inl e)
    then have "r = Inl e" "st' = st1" "e = ErrCommit"
      using Cons.prems 1 delete_error [of ClientReg "WEq ''id'' (VStr cid)" st e] by auto
    then show ?thesis using writes_err [OF w Inl] drop_refl [of "sview tbl st"] by auto
  next
    case (Inr u)
    have v: "sview tbl st1 = spec_delete ClientReg cid (sview tbl st)" by (rule writes_ok [OF w Inr])
    have "sql_delete_clients G cids st1 = (r, st')" using Cons.prems 1 Inr by simp
    then have IH: "r = Inr () \<and> sview tbl st' = spec_drop ClientReg (\<lambda>k _. k \<in> set cids) (sview tbl st1) \<or>
        r = Inl ErrCommit \<and> (\<exists>P. sview tbl st' = spec_drop ClientReg P (sview tbl st1))"
      by (rule Cons.IH)
    have drop: "spec_drop ClientReg P (spec_delete ClientReg cid V) = spec_drop ClientReg (\<lambda>k d. k = cid \<or> P k d) V" for P V
      by (auto simp: spec_drop_def spec_delete_def fun_eq_iff split: option.splits)
    show ?thesis using IH unfolding v drop by auto
  qed
qed

lemma expired_models:
  assumes "allClientModels G st = Inr cs" and "store_ok (core (sview tbl st))"
  shows "k \<in> set (map cl_ID (filter (client_expired now) cs)) \<longleftrightarrow>
    (\<exists>x. sview tbl st ClientReg k = Some x \<and> expired_doc now x)"
proof -
  obtain rs where rs: "gm_Find G ClientReg WAll None (sd_db st) = Inr rs"
    and cs: "cs = List.map_filter (\<lambda>r. case dec_client (row_doc r) of Inl _ \<Rightarrow> None | Inr c \<Rightarrow> Some c) rs"
    using assms(1) by (auto simp: allClientModels_def res_bind_Inr)
  have rows: "r \<in> set rs \<longleftrightarrow> (\<exists>j. tbl (sd_db st) ClientReg (VStr j) = Some r)" for r
  proof -
    have "r \<in> set rs \<longleftrightarrow> (\<exists>j. tbl (sd_db st) ClientReg j = Some r)" using Find [OF rs] by (simp add: where_holds_def)
    moreover have "\<exists>s. j = VStr s" if "tbl (sd_db st) ClientReg j = Some r" for j
      using keyed [OF that] text_key [of r j] by simp
    ultimately show ?thesis by metis
  qed
  have id: "cl_ID c = j" if "tbl (sd_db st) ClientReg (VStr j) = Some r" "dec_client (row_doc r) = Inr c" for j r c
  proof -
    have "row_doc r = DClient c" using that(2) by (cases "row_doc r") auto
    then have "core (sview tbl st) ClientReg j = Some (DClient c)"
      using that(1) by (simp add: core_apply sview_def dview_text)
    then show ?thesis by (rule store_ok_client_id [OF assms(2)])
  qed
  have dec: "(case x of Inl _ \<Rightarrow> None | Inr c \<Rightarrow> Some c) = Some c \<longleftrightarrow> x = Inr c" for x :: "Client result" and c
    by (cases x) auto
  have "c \<in> set cs \<longleftrightarrow> (\<exists>j r. tbl (sd_db st) ClientReg (VStr j) = Some r \<and> dec_client (row_doc r) = Inr c)" for c
    unfolding cs set_map_filter mem_Collect_eq dec Bex_def rows by blast
  then have "k \<in> set (map cl_ID (filter (client_expired now) cs)) \<longleftrightarrow>
      (\<exists>c j r. tbl (sd_db st) ClientReg (VStr j) = Some r \<and> dec_client (row_doc r) = Inr c \<and> client_expired now c \<and> k = cl_ID c)"
    by auto
  also have "\<dots> \<longleftrightarrow> (\<exists>c r. tbl (sd_db st) ClientReg (VStr k) = Some r \<and> dec_client (row_doc r) = Inr c \<and> client_expired now c)"
    using id by metis
  also have "\<dots> \<longleftrightarrow> (\<exists>x. sview tbl st ClientReg k = Some x \<and> expired_doc now x)"
    unfolding expired_doc_iff sview_def dview_text [OF text_family_simps(6)] by auto
  finally show ?thesis .
qed

lemma expire_clients:
  assumes "store_ok (core (sview tbl st))" and "sql_DeleteExpiredClients G now st = (r, st')"
  shows "r = Inr () \<and> sview tbl st' = spec_drop ClientReg (\<lambda>_. expired_doc now) (sview tbl st) \<or>
    r = Inl ErrCommit \<and> (\<exists>P. sview tbl st' = spec_drop ClientReg P (sview tbl st))"
proof (cases "allClientModels G st")
  case (Inl e)
  then have "e = ErrCommit" using errors(2) by (auto simp: allClientModels_def dest!: bind_error)
  then show ?thesis using assms(2) Inl drop_refl [of "sview tbl st"]
    by (auto simp: sql_DeleteExpiredClients_def)
next
  case (Inr cs)
  let ?ids = "map cl_ID (filter (client_expired now) cs)"
  have "sql_delete_clients G ?ids st = (r, st')" using assms(2) Inr by (simp add: sql_DeleteExpiredClients_def)
  note D = delete_clients [OF this]
  have "spec_drop ClientReg (\<lambda>k _. k \<in> set ?ids) (sview tbl st) = spec_drop ClientReg (\<lambda>_. expired_doc now) (sview tbl st)"
    unfolding expired_models [OF Inr assms(1)]
    by (auto simp: spec_drop_def fun_eq_iff split: option.splits)
  then show ?thesis using D by simp
qed

subsection \<open>Revocation\<close>

lemma rows_typed:
  assumes "gm_Find G t WAll None d = Inr rs" and "typed (core (dview tbl d))" and "t \<in> set text_families" and "t \<noteq> Credential"
    and "r \<in> set rs"
  shows "doc_ok t (row_doc r)"
proof -
  obtain j where j: "tbl d t j = Some r" using Find [OF assms(1)] assms(5) by (auto simp: where_holds_def)
  then obtain k where "j = VStr k" using keyed [OF j] text_key [of r j] assms(3) by auto
  then have "core (dview tbl d) t k = Some (row_doc r)"
    using j assms(3,4) by (auto simp: core_def dview_text)
  then show ?thesis using assms(2) unfolding typed_def by blast
qed

lemma doc_ok_session: "doc_ok t x \<Longrightarrow> t \<in> set session_families \<Longrightarrow> \<exists>q. dec_request x = Inr q"
  by (cases x; cases t) (auto simp: session_families_def)

lemma doc_ok_authorize: "doc_ok AuthorizeReq x \<Longrightarrow> \<exists>a. dec_authorize x = Inr a"
  by (cases x) (auto simp: session_families_def)

lemma stale_error:
  assumes "typed (core (dview tbl d))" and "t \<in> set session_families"
  shows "staleKeys G t c m d = Inl e \<Longrightarrow> e = ErrCommit"
proof (cases "gm_Find G t WAll None d")
  case (Inr rs)
  have t: "t \<in> set text_families" "t \<noteq> Credential" using assms(2) by (auto simp: session_families_def)
  have "\<forall>r \<in> set rs. \<exists>q. dec_request (row_doc r) = Inr q"
    using rows_typed [OF Inr assms(1) t] doc_ok_session [OF _ assms(2)] by blast
  then have "\<exists>ks. fold_res (\<lambda>r stale. res_bind (dec_request (row_doc r)) (\<lambda>q.
      Inr (if m q then stale @ [row_key_of c r] else stale))) rs [] = Inr ks"
    using fold_keys [of "\<lambda>r. dec_request (row_doc r)"] by blast
  then show "staleKeys G t c m d = Inl e \<Longrightarrow> e = ErrCommit" by (auto simp: staleKeys_def Inr)
qed (auto simp: staleKeys_def dest: errors)

lemma stale_authorize_error:
  assumes "typed (core (dview tbl d))"
  shows "staleAuthorizeRequests G m d = Inl e \<Longrightarrow> e = ErrCommit"
proof (cases "gm_Find G AuthorizeReq WAll None d")
  case (Inr rs)
  have "\<forall>r \<in> set rs. \<exists>q. dec_authorize (row_doc r) = Inr q"
    using rows_typed [OF Inr assms(1)] doc_ok_authorize by simp
  then have "\<exists>ks. fold_res (\<lambda>r stale. res_bind (dec_authorize (row_doc r)) (\<lambda>a.
      Inr (if ar_match m a then stale @ [row_key_of ''request_id'' r] else stale))) rs [] = Inr ks"
    using fold_keys [of "\<lambda>r. dec_authorize (row_doc r)"] by blast
  then show "staleAuthorizeRequests G m d = Inl e \<Longrightarrow> e = ErrCommit"
    by (auto simp: staleAuthorizeRequests_fold Inr)
qed (auto simp: staleAuthorizeRequests_fold dest: errors)

lemma collect_error:
  assumes "typed (core (dview tbl d))" and "collectSweeps G m d = Inl e"
  shows "e = ErrCommit"
proof -
  have t: "AccessToken \<in> set session_families" "RefreshToken \<in> set session_families"
      "AuthorizeCode \<in> set session_families" "PkceRequest \<in> set session_families"
    by (simp_all add: session_families_def)
  show ?thesis
    using assms(2) unfolding collectSweeps_def
    by (elim disjE exE conjE bind_error [elim_format])
       (use stale_error [OF assms(1) t(1)] stale_error [OF assms(1) t(2)] stale_error [OF assms(1) t(3)]
         stale_error [OF assms(1) t(4)] stale_authorize_error [OF assms(1)] in \<open>blast | simp\<close>)+
qed

lemma sweep_error: "fold_res (run_sweep G) sws x = Inl e \<Longrightarrow> e = ErrCommit"
proof (induction sws arbitrary: x)
  case (Cons s sws)
  show ?case
  proof (cases "run_sweep G s x")
    case (Inl e')
    then show ?thesis using Cons.prems errors(5)
      by (cases x) (auto simp: run_sweep_def split: if_splits dest!: bind_error)
  next
    case (Inr y)
    then show ?thesis using Cons.IH Cons.prems by simp
  qed
qed simp

lemma registrations_error: "deleteRegistrations G scope d = Inl e \<Longrightarrow> e = ErrCommit"
  using errors(5) by (auto simp: deleteRegistrations_def split: if_splits)

lemma revoke_error:
  assumes "typed (core (sview tbl st))" and "fst (sql_revoke G m scope st) = Inl e"
  shows "e = ErrCommit"
  using sql_txn_fst_error [OF assms(2) [unfolded sql_revoke_def]]
  by (auto dest!: bind_error sweep_error registrations_error collect_error [OF assms(1) [unfolded sview_def]]
      split: prod.splits)

lemma sim_revoke:
  assumes "typed (core (sview tbl st))" and "\<And>k. scope_hits scope k \<longleftrightarrow> Q k"
  shows "sim_step (sview tbl) st (answered ACount (sql_revoke G m scope st))
     (Inr (ACount (removed m Q (core (sview tbl st)))), spec_revoke m Q (core (sview tbl st)))"
proof (rule sim_write [OF revoke_writes [OF assms(2)]])
  show "\<And>e. fst (sql_revoke G m scope st) = Inl e \<Longrightarrow> e = ErrCommit" by (rule revoke_error [OF assms(1)])
  fix n assume "fst (sql_revoke G m scope st) = Inr n"
  then obtain st' where r: "sql_revoke G m scope st = (Inr n, st')" by (cases "sql_revoke G m scope st") auto
  have Q: "scope_hits scope = Q" using assms(2) by (rule ext)
  have "n = removed m Q (sview tbl st)"
    using revoke_view(2) [OF r] by (simp only: revoke_view(1) [OF r] removed_def Q)
  then show "ACount n = ACount (removed m Q (core (sview tbl st)))" by (simp add: removed_core)
qed (rule core_revoke)

lemma sim_grant:
  assumes "sql_ok tbl st" and "f \<in> {AccessToken, RefreshToken}"
  shows "sim_step (sview tbl) st (answered (\<lambda>_. ADone) (sql_delete G f (WEq ''request_id'' (VStr rid)) st))
     (Inr ADone, spec_drop f (\<lambda>_. of_grant rid) (core (sview tbl st)))"
proof (rule sim_write)
  have f: "f \<in> set text_families" "f \<in> set session_families" "f \<notin> {UserRec, Credential, Meta}"
    using assms(2) by (auto simp: session_families_def)
  have col: "where_holds julian (WEq ''request_id'' (VStr rid)) r \<longleftrightarrow> of_grant rid (row_doc r)"
    if r: "tbl (sd_db st) f (VStr k) = Some r" for r k
  proof -
    have "core (sview tbl st) f k = Some (row_doc r)"
      using r f by (simp add: core_apply sview_def dview_text)
    then have "doc_ok f (row_doc r)" using assms(1) unfolding sql_ok_def store_ok_def typed_def by blast
    then obtain q where q: "row_doc r = DRequest q" using f(2) by (cases "row_doc r"; cases f) (auto simp: session_families_def)
    have "row_ok r" using assms(1) r unfolding sql_ok_def cols_ok_def by blast
    then have "column r ''request_id'' = Some (VStr (rq_ID q))"
      using keyed [OF r] assms(2) q by (auto simp: row_ok_def)
    then show ?thesis by (auto simp: where_holds_def of_grant_def q)
  qed
  show "writes (sview tbl) st (sql_delete G f (WEq ''request_id'' (VStr rid)) st) (spec_drop f (\<lambda>_. of_grant rid))"
    unfolding sql_delete_def
  proof (rule sql_txn_writes)
    fix x d
    assume "res_bind (gm_Delete G f (WEq ''request_id'' (VStr rid)) (sd_db st)) (\<lambda>(n, d'). Inr ((), d')) = Inr (x, d)"
    then obtain n where del: "gm_Delete G f (WEq ''request_id'' (VStr rid)) (sd_db st) = Inr (n, d)"
      by (auto simp: res_bind_Inr)
    show "dview tbl d = spec_drop f (\<lambda>_. of_grant rid) (dview tbl (sd_db st))"
      unfolding delete_where_view [OF del f(1)] spec_drop_def
      using col by (auto simp: fun_eq_iff dview_text [OF f(1)] split: option.splits)
  qed
  show "core (spec_drop f (\<lambda>_. of_grant rid) (sview tbl st)) = spec_drop f (\<lambda>_. of_grant rid) (core (sview tbl st))"
    by (rule core_drop [OF f(3)])
qed (use delete_error in blast, rule refl)

lemma sim_expire:
  assumes "sql_ok tbl st"
  shows "sim_step (sview tbl) st (run_op (sql_repo G reparse) (OpExpireClients now) st)
     (spec_op reparse (OpExpireClients now) (core (sview tbl st))) \<or>
    fst (run_op (sql_repo G reparse) (OpExpireClients now) st) = Inl ErrCommit"
    and "\<exists>P. sview tbl (snd (sql_DeleteExpiredClients G now st)) = spec_drop ClientReg P (sview tbl st)"
proof -
  obtain r st' where e: "sql_DeleteExpiredClients G now st = (r, st')" by fastforce
  have D: "r = Inr () \<and> sview tbl st' = spec_drop ClientReg (\<lambda>_. expired_doc now) (sview tbl st) \<or>
      r = Inl ErrCommit \<and> (\<exists>P. sview tbl st' = spec_drop ClientReg P (sview tbl st))"
    by (rule expire_clients [OF _ e]) (use assms in \<open>simp add: sql_ok_def\<close>)
  show "sim_step (sview tbl) st (run_op (sql_repo G reparse) (OpExpireClients now) st)
      (spec_op reparse (OpExpireClients now) (core (sview tbl st))) \<or>
    fst (run_op (sql_repo G reparse) (OpExpireClients now) st) = Inl ErrCommit"
    using D by (auto simp: sim_step_def sql_repo_def sql_MaintenanceStorage_def e answered_def ans_def core_drop)
  show "\<exists>P. sview tbl (snd (sql_DeleteExpiredClients G now st)) = spec_drop ClientReg P (sview tbl st)"
    using D by (auto simp: e)
qed

lemma sim_sql_plain:
  assumes "\<not> scans op" and "valid_op op"
  shows "sim_step (sview tbl) st (run_op (sql_repo G reparse) op st) (spec_op reparse op (core (sview tbl st)))"
proof (cases op)
  case (OpCreate f k q)
  then have f: "f \<in> set session_families" using assms(2) by simp
  show ?thesis unfolding OpCreate
    by (rule session_family_cases [OF f])
       (simp_all add: sql_repo_def sql_SessionStorage_def sql_create_defs sim_create)
next
  case (OpGet f k se)
  then have f: "f \<in> set session_families" using assms(2) by simp
  show ?thesis
    using sim_read [OF ss_get_cases [OF f, of k se st], of "sview tbl" st ARequest]
    by (simp add: OpGet sql_repo_def sql_SessionStorage_def core_simps f)
next
  case (OpDelete f k)
  then have f: "f \<in> set session_families" using assms(2) by simp
  show ?thesis unfolding OpDelete
    by (rule session_family_cases [OF f])
       (simp_all add: sql_repo_def sql_SessionStorage_def sql_delete_defs sim_delete)
next
  case (OpRotate rid k now)
  then show ?thesis using sim_rotate by simp
next
  case (OpCreateAuthorize q)
  then show ?thesis
    by (simp add: sql_repo_def sql_AuthorizeRequestStorage_def sql_create_defs sim_create)
next
  case (OpGetAuthorize k)
  have "sql_GetAuthorizeRequest G reparse k st = res_bind (get_doc (sview tbl st) AuthorizeReq k)
        (\<lambda>d. res_bind (dec_authorize d) (ToFositeAuthorizeRequest reparse)) \<or>
      sql_GetAuthorizeRequest G reparse k st = Inl ErrCommit"
    using read_doc [of "''request_id''" AuthorizeReq k st "unmarshalAuthorizeRequest reparse"]
    by (simp add: sql_GetAuthorizeRequest_def unmarshalAuthorizeRequest_def [abs_def])
  from sim_read [OF this, of "sview tbl" st AAuthorize] show ?thesis
    by (simp add: OpGetAuthorize sql_repo_def sql_AuthorizeRequestStorage_def core_simps)
next
  case (OpDeleteAuthorize k)
  then show ?thesis
    by (simp add: sql_repo_def sql_AuthorizeRequestStorage_def sql_delete_defs sim_delete)
next
  case (OpRegister g created now)
  then show ?thesis using sim_register by simp
next
  case (OpGetClient cid now)
  have "sql_GetClient G cid now st = spec_client (sview tbl st) cid now \<or> sql_GetClient G cid now st = Inl ErrCommit"
    using client_model [of cid st]
    by (auto simp: sql_GetClient_def spec_client_def stored_client_def res_bind_def split: sum.splits)
  from sim_read [OF this, of "sview tbl" st AClient] show ?thesis
    by (simp add: OpGetClient sql_repo_def sql_DynamicClientStorage_def core_simps)
next
  case (OpClientName cid now)
  then show ?thesis using sim_name by simp
next
  case (OpTouch cid t)
  then show ?thesis using sim_touch by simp
next
  case (OpCount now)
  then show ?thesis
    using sim_read [OF count_cases [of "sd_db st" now], of "sview tbl" st ACount]
    by (simp add: sql_repo_def sql_DynamicClientStorage_def sql_CountClients_def core_simps sview_def ans_def)
qed (use assms(1) in simp_all)

lemma sim_sql:
  assumes "sql_ok tbl st" and "valid_op op" and "\<And>now. op \<noteq> OpExpireClients now"
  shows "sim_step (sview tbl) st (run_op (sql_repo G reparse) op st) (spec_op reparse op (core (sview tbl st)))"
proof (cases "scans op")
  case False
  show ?thesis by (rule sim_sql_plain [OF False assms(2)])
next
  case True
  have typed: "typed (core (sview tbl st))" using assms(1) by (simp add: sql_ok_def store_ok_def)
  from True show ?thesis
  proof (cases op)
    case (OpRevokeRefresh rid)
    then show ?thesis
      using sim_grant [OF assms(1), of RefreshToken rid]
      by (simp add: sql_repo_def sql_SessionStorage_def sql_RevokeRefreshToken_def)
  next
    case (OpRevokeAccess rid)
    then show ?thesis
      using sim_grant [OF assms(1), of AccessToken rid]
      by (simp add: sql_repo_def sql_SessionStorage_def sql_RevokeAccessToken_def)
  next
    case (OpExpireClients now)
    then show ?thesis using assms(3) by simp
  next
    case (OpRevokeClient cid)
    then show ?thesis
      using sim_revoke [OF typed, of "\<lparr>rs_clientID = cid, rs_all = False\<rparr>" "\<lambda>k. k = cid" "of_client cid"] assms(2)
      by (auto simp: sql_repo_def sql_InventoryStorage_def sql_RevokeClient_def scope_hits_def)
  next
    case (OpRevokeGrant rid)
    then show ?thesis
      using sim_revoke [OF typed, of "\<lparr>rs_clientID = [], rs_all = False\<rparr>" "\<lambda>_. False" "\<lambda>r. rq_ID r = rid"]
      by (auto simp: sql_repo_def sql_InventoryStorage_def sql_RevokeGrant_def scope_hits_def)
  next
    case OpRevokeAll
    then show ?thesis
      using sim_revoke [OF typed, of "\<lparr>rs_clientID = [], rs_all = True\<rparr>" "\<lambda>_. True" "\<lambda>_. True"]
      by (auto simp: sql_repo_def sql_InventoryStorage_def sql_RevokeAll_def scope_hits_def)
  qed simp_all
qed

section \<open>The invariant\<close>

lemma request_row_ok:
  "row_ok (RowAccess \<lparr>ats_Signature = k, ats_RequestID = fr_ID q, ats_Request = marshalRequest q,
     ats_CreatedAt = a, ats_UpdatedAt = b\<rparr>)"
  "row_ok (RowRefresh \<lparr>rts_Signature = k, rts_AccessSignature = j, rts_RequestID = fr_ID q,
     rts_Request = marshalRequest q, rts_CreatedAt = a, rts_UpdatedAt = b\<rparr>)"
  by (simp_all add: row_ok_def marshalRequest_def FromFositeReq_def)

lemma rotate_cols:
  assumes "cols_ok (tbl (sd_db st))"
  shows "cols_ok (tbl (sd_db (snd (sql_RotateRefreshToken G rid k now st))))"
proof (cases "sql_first G RefreshToken (WEq ''signature'' (VStr k)) st")
  case (Inl e)
  then show ?thesis using assms by (simp add: sql_RotateRefreshToken_def)
next
  case (Inr r)
  then have "gm_First G RefreshToken (WEq (pk RefreshToken) (VStr k)) (sd_db st) = Inr (Some r)"
    by (auto simp: sql_first_def split: sum.splits option.splits)
  then obtain j where j: "tbl (sd_db st) RefreshToken j = Some r"
      and h: "where_holds julian (WEq (pk RefreshToken) (VStr k)) r"
    using First [of RefreshToken "WEq (pk RefreshToken) (VStr k)" "sd_db st" "Some r"] by auto
  then have r: "tbl (sd_db st) RefreshToken (VStr k) = Some r"
    using j h unfolding by_key [OF j] by simp
  show ?thesis
  proof (cases "dec_request (row_doc r)")
    case (Inl e)
    then show ?thesis using assms Inr by (simp add: sql_RotateRefreshToken_def)
  next
    case q: (Inr q)
    then have doc: "row_doc r = DRequest q" by (cases "row_doc r") auto
    have "row_ok r" using assms r unfolding cols_ok_def by blast
    then have col: "column r ''request_id'' = Some (VStr (rq_ID q))" using keyed [OF r] doc by (simp add: row_ok_def)
    have "sql_RotateRefreshToken G rid k now st = sql_update G RefreshToken (WEq (pk RefreshToken) (VStr k)) ''request''
        (DRequest (q\<lparr>rq_RotatedAt := now\<rparr>)) st"
      by (simp add: sql_RotateRefreshToken_def Inr q)
    moreover have "cols_ok (tbl (sd_db (snd (sql_update G RefreshToken (WEq (pk RefreshToken) (VStr k)) ''request''
        (DRequest (q\<lparr>rq_RotatedAt := now\<rparr>)) st))))"
      unfolding sql_update_def
    proof (rule sql_txn_keeps [where P = "\<lambda>d. cols_ok (tbl d)"])
      fix x d
      assume "res_bind (gm_Update G RefreshToken (WEq (pk RefreshToken) (VStr k)) ''request''
          (DRequest (q\<lparr>rq_RotatedAt := now\<rparr>)) (sd_db st)) (\<lambda>(n, d'). Inr ((), d')) = Inr (x, d)"
      then obtain n where u: "gm_Update G RefreshToken (WEq (pk RefreshToken) (VStr k)) ''request''
          (DRequest (q\<lparr>rq_RotatedAt := now\<rparr>)) (sd_db st) = Inr (n, d)" by (auto simp: res_bind_Inr)
      show "cols_ok (tbl d)"
      proof (rule cols_update [OF u assms])
        fix j r' assume r': "tbl (sd_db st) RefreshToken j = Some r'"
          and "where_holds julian (WEq (pk RefreshToken) (VStr k)) r'"
        then have "r' = r" using by_key [OF r'] r by simp
        then show "row_ok (set_column ''request'' (DRequest (q\<lparr>rq_RotatedAt := now\<rparr>)) r')"
          using row_ok_set_request [of r "q\<lparr>rq_RotatedAt := now\<rparr>"] keyed [OF r] col by simp
      qed
    qed (rule assms)
    ultimately show ?thesis by simp
  qed
qed

lemma touch_cols:
  assumes "cols_ok (tbl (sd_db st))"
  shows "cols_ok (tbl (sd_db (snd (sql_TouchClient G cid t st))))"
proof -
  have "cols_ok (tbl (sd_db (snd (sql_update G ClientReg w ''client'' x st))))" for w x
    unfolding sql_update_def
  proof (rule sql_txn_keeps [where P = "\<lambda>d. cols_ok (tbl d)"])
    fix y d assume "res_bind (gm_Update G ClientReg w ''client'' x (sd_db st)) (\<lambda>(n, d'). Inr ((), d')) = Inr (y, d)"
    then obtain n where u: "gm_Update G ClientReg w ''client'' x (sd_db st) = Inr (n, d)" by (auto simp: res_bind_Inr)
    have "row_ok (set_column ''client'' x r)" if "tbl (sd_db st) ClientReg k = Some r" for k r
      using assms that row_ok_set_client unfolding cols_ok_def by blast
    then show "cols_ok (tbl d)" by (rule cols_update [OF u assms])
  qed (rule assms)
  then show ?thesis using assms by (simp add: sql_TouchClient_def split: sum.splits)
qed

lemma clients_cols: "cols_ok (tbl (sd_db st)) \<Longrightarrow> cols_ok (tbl (sd_db (snd (sql_delete_clients G cids st))))"
proof (induction cids arbitrary: st)
  case (Cons cid cids)
  obtain r1 st1 where 1: "sql_delete G ClientReg (WEq ''id'' (VStr cid)) st = (r1, st1)" by fastforce
  have "cols_ok (tbl (sd_db st1))" using delete_cols [OF Cons.prems] 1 by (metis snd_conv)
  then show ?case using Cons.IH 1 by (cases r1) simp_all
qed simp

lemma sweeps_cols:
  "fold_res (run_sweep G) sws (n, d) = Inr (n', d') \<Longrightarrow> cols_ok (tbl d) \<Longrightarrow> cols_ok (tbl d')"
proof (induction sws arbitrary: n d)
  case (Cons s sws)
  obtain n1 d1 where 1: "run_sweep G s (n, d) = Inr (n1, d1)"
    and 2: "fold_res (run_sweep G) sws (n1, d1) = Inr (n', d')"
    using Cons.prems(1) by (auto simp: res_bind_Inr)
  have "cols_ok (tbl d1)"
    using 1 Cons.prems(2) cols_delete by (auto simp: run_sweep_def res_bind_Inr split: if_splits)
  then show ?case by (rule Cons.IH [OF 2])
qed simp

lemma revoke_cols:
  assumes "cols_ok (tbl (sd_db st))"
  shows "cols_ok (tbl (sd_db (snd (sql_revoke G m scope st))))"
  unfolding sql_revoke_def
proof (rule sql_txn_keeps [where P = "\<lambda>d. cols_ok (tbl d)"])
  fix n d
  assume "res_bind (collectSweeps G m (sd_db st)) (\<lambda>sweeps.
     res_bind (fold_res (run_sweep G) sweeps (0, sd_db st)) (\<lambda>(deleted, tx1).
     res_bind (deleteRegistrations G scope tx1) (\<lambda>(clients, tx2). Inr (deleted + clients, tx2)))) = Inr (n, d)"
  then obtain sws n1 d1 n2 where 1: "fold_res (run_sweep G) sws (0, sd_db st) = Inr (n1, d1)"
    and 2: "deleteRegistrations G scope d1 = Inr (n2, d)"
    by (auto simp: res_bind_Inr split: prod.splits)
  have "cols_ok (tbl d1)" by (rule sweeps_cols [OF 1 assms])
  then show "cols_ok (tbl d)"
    using 2 cols_delete by (auto simp: deleteRegistrations_def split: if_splits)
qed (rule assms)

lemma register_cols:
  assumes "cols_ok (tbl (sd_db st))"
  shows "cols_ok (tbl (sd_db (snd (sql_RegisterClient G g created now st))))"
  unfolding sql_RegisterClient_def Let_def
  by (rule sql_txn_keeps [where P = "\<lambda>d. cols_ok (tbl d)"])
     (use assms in \<open>auto simp: txn_unit_def res_bind_Inr row_ok_other elim!: cols_create\<close>)

lemma op_cols:
  assumes "cols_ok (tbl (sd_db st))" and "valid_op op"
  shows "cols_ok (tbl (sd_db (snd (run_op (sql_repo G reparse) op st))))"
proof (cases op)
  case (OpCreate f k q)
  then have f: "f \<in> set session_families" using assms(2) by simp
  show ?thesis unfolding OpCreate
    by (rule session_family_cases [OF f])
       (simp_all add: sql_repo_def sql_SessionStorage_def sql_CreateAuthorizeCodeSession_def
         sql_CreateAccessTokenSession_def sql_CreateRefreshTokenSession_def sql_CreatePKCERequestSession_def
         answered_def create_cols assms(1) request_row_ok row_ok_other)
next
  case (OpDelete f k)
  then have f: "f \<in> set session_families" using assms(2) by simp
  show ?thesis unfolding OpDelete
    by (rule session_family_cases [OF f])
       (simp_all add: sql_repo_def sql_SessionStorage_def sql_delete_defs answered_def delete_cols assms(1))
next
  case (OpExpireClients now)
  then show ?thesis using assms(1)
    by (simp add: sql_repo_def sql_MaintenanceStorage_def sql_DeleteExpiredClients_def answered_def clients_cols
        split: sum.splits)
qed (simp_all add: sql_repo_def sql_SessionStorage_def sql_AuthorizeRequestStorage_def
    sql_DynamicClientStorage_def sql_InventoryStorage_def answered_def assms(1) rotate_cols touch_cols register_cols
    revoke_cols sql_RevokeRefreshToken_def sql_RevokeAccessToken_def sql_CreateAuthorizeRequest_def
    sql_DeleteAuthorizeRequest_def sql_RevokeClient_def sql_RevokeGrant_def sql_RevokeAll_def delete_cols
    create_cols row_ok_other)

lemma spec_op_store_ok:
  assumes "store_ok V" and "valid_op op"
  shows "store_ok (snd (spec_op reparse op V))"
proof (cases op)
  case (OpRotate rid k now)
  show ?thesis
  proof (cases "stored_request V RefreshToken k")
    case (Inr r)
    then have "V RefreshToken k = Some (DRequest r)"
      by (auto simp: stored_request_def get_doc_def split: option.splits)
    then have "doc_ok RefreshToken (DRequest r)" using assms(1) unfolding store_ok_def typed_def by blast
    then show ?thesis using assms(1) by (auto simp: OpRotate Inr intro!: store_ok_put)
  qed (simp add: OpRotate assms(1))
next
  case (OpTouch cid t)
  show ?thesis
  proof (cases "stored_client V cid")
    case (Inr c)
    then have "V ClientReg cid = Some (DClient c)"
      by (auto simp: stored_client_def get_doc_def split: option.splits)
    then have "cl_ID c = cid" by (rule store_ok_client_id [OF assms(1)])
    then show ?thesis using assms(1) by (auto simp: OpTouch Inr intro!: store_ok_put)
  qed (simp add: OpTouch assms(1))
next
  case (OpCreate f k q)
  then show ?thesis using assms by (auto intro!: store_ok_put doc_ok_FromFositeReq simp del: doc_ok.simps)
next
  case (OpCreateAuthorize q)
  then show ?thesis using assms
    by (auto intro!: store_ok_put doc_ok_FromFositeAuthorizeRequest simp del: doc_ok.simps)
next
  case (OpRegister g created now)
  then show ?thesis using assms
    by (auto intro!: store_ok_put simp: registered_def FromFositeClient_def)
next
  case (OpClientName cid now)
  then show ?thesis using assms(1) by (simp split: sum.splits)
qed (simp_all add: assms(1) store_ok_delete store_ok_drop store_ok_revoke)

lemma keeps_sql:
  assumes "sql_ok tbl st" and "valid_op op"
  shows "sql_ok tbl (snd (run_op (sql_repo G reparse) op st))"
proof -
  let ?V = "core (sview tbl st)" and ?st' = "snd (run_op (sql_repo G reparse) op st)"
  have ok: "store_ok ?V" using assms(1) by (simp add: sql_ok_def)
  have "store_ok (core (sview tbl ?st'))"
  proof (cases "\<exists>now. op = OpExpireClients now")
    case True
    then obtain now where op: "op = OpExpireClients now" by blast
    obtain P where "sview tbl ?st' = spec_drop ClientReg P (sview tbl st)"
      using sim_expire(2) [OF assms(1), of now]
      by (auto simp: op sql_repo_def sql_MaintenanceStorage_def answered_def)
    then show ?thesis using ok by (simp add: core_drop store_ok_drop)
  next
    case False
    then have "sim_step (sview tbl) st (run_op (sql_repo G reparse) op st) (spec_op reparse op ?V)"
      using sim_sql [OF assms] by blast
    then show ?thesis
      using ok spec_op_store_ok [OF ok assms(2), of reparse] by (auto simp: sim_step_def) (metis snd_conv)
  qed
  moreover have "cols_ok (tbl (sd_db ?st'))"
    by (rule op_cols) (use assms in \<open>simp_all add: sql_ok_def\<close>)
  ultimately show ?thesis by (simp add: sql_ok_def)
qed

end

sublocale gorm_database \<subseteq>
  sql: store_machine "sql_repo G reparse" "\<lambda>st. core (sview tbl st)" reparse "sql_ok tbl"
  for reparse :: "string \<Rightarrow> string option"
proof
  fix s op a s'
  assume ok: "sql_ok tbl s" "valid_op op" and r: "run_op (sql_repo G reparse) op s = (a, s')"
  show "(a, core (sview tbl s')) = spec_op reparse op (core (sview tbl s)) \<or>
      a = Inl ErrCommit \<and> (core (sview tbl s') = core (sview tbl s) \<or> (\<exists>now. op = OpExpireClients now))"
  proof (cases "\<exists>now. op = OpExpireClients now")
    case True
    then obtain now where op: "op = OpExpireClients now" by blast
    show ?thesis
      using sim_expire(1) [OF ok(1), of reparse now] r
      by (auto simp: op sim_step_def simp del: run_op.simps spec_op.simps)
  next
    case False
    then show ?thesis using sim_sql [OF ok, of reparse] r by (auto simp: sim_step_def)
  qed
qed (rule keeps_sql)

end
