(* ===== verification/BackendProps.thy ===== *)
theory BackendProps
  imports KvsMachine SqlMachine
begin

text \<open>
  The two backends side by side: the same calls give the same answers and the same contents on
  bbolt and on SQLite, as long as the storage itself reports no error, and a call that the storage
  fails leaves the contents as they were.
\<close>

section \<open>The simulations, over all laws\<close>

context bolt_store begin

lemma kvs_calls:
  assumes "store_ok (kview B st)" and "\<forall>op \<in> set ops. valid_op op"
    and "run_ops (kvs_repo B reparse) ops st = (as, st')" and "Inl ErrCommit \<notin> set as"
  shows "(as, core (kview B st')) = spec_ops reparse ops (core (kview B st))" and "store_ok (kview B st')"
  by (fact kvs.simulates_run [OF assms])+

end

context gorm_database begin

lemma sql_calls:
  assumes "sql_ok tbl st" and "\<forall>op \<in> set ops. valid_op op"
    and "run_ops (sql_repo G reparse) ops st = (as, st')" and "Inl ErrCommit \<notin> set as"
  shows "(as, core (sview tbl st')) = spec_ops reparse ops (core (sview tbl st))" and "sql_ok tbl st'"
  by (fact sql.simulates_run [OF assms])+

end

section \<open>Equivalence\<close>

definition empty_sql :: "ref_db sqldb" where
  "empty_sql = \<lparr>sd_db = db_empty, sd_faults = []\<rparr>"

text \<open>A registration, one above the cap, a look-up of the refused one, the kill switch, a count.\<close>

definition demo_calls :: "store_op list" where
  "demo_calls =
     [OpRegister (demo_registration ''a'') 1 2, OpRegister (demo_registration ''b'') 2 2,
      OpClientName ''b'' 2, OpRevokeClient ''a'', OpCount 2]"

definition demo_answers :: "answer result list" where
  "demo_answers = [Inr ADone, Inl ErrClientCapReached, Inr (AName []), Inr (ACount 1), Inr (ACount 0)]"


text \<open>C10: bbolt and SQLite are interchangeable.  From stores with the same contents, any sequence of
  repository calls that the storage does not fail gives the same answers on both, errors included,
  and ends in the same contents; both agree with the abstract machine, and stay well formed.\<close>

theorem backends_equivalent:
  assumes "bolt_store B" and "gorm_database G tbl julian"
    and "store_ok (kview B sk)" and "sql_ok tbl sd" and "core (kview B sk) = core (sview tbl sd)"
    and "\<forall>op \<in> set ops. valid_op op"
    and "run_ops (kvs_repo B reparse) ops sk = (as, sk')" and "Inl ErrCommit \<notin> set as"
    and "run_ops (sql_repo G reparse) ops sd = (bs, sd')" and "Inl ErrCommit \<notin> set bs"
  shows "as = bs \<and> core (kview B sk') = core (sview tbl sd') \<and>
    (as, core (kview B sk')) = spec_ops reparse ops (core (kview B sk)) \<and>
    store_ok (kview B sk') \<and> sql_ok tbl sd'"
proof -
  have k: "(as, core (kview B sk')) = spec_ops reparse ops (core (kview B sk))" "store_ok (kview B sk')"
    by (rule bolt_store.kvs_calls [OF assms(1,3,6,7,8)])+
  have s: "(bs, core (sview tbl sd')) = spec_ops reparse ops (core (sview tbl sd))" "sql_ok tbl sd'"
    by (rule gorm_database.sql_calls [OF assms(2,4,6,9,10)])+
  show ?thesis using k s assms(5) by (simp add: prod_eq_iff)
qed


lemma empty_stores:
  "kview ref_bolt empty_kvs = (\<lambda>_. Map.empty)" "sview ref_tbl empty_sql = (\<lambda>_. Map.empty)"
  by (auto simp: fun_eq_iff kview_def bview_def empty_kvs_def ref_bolt_def sview_def dview_def empty_sql_def
      ref_tbl_def db_rows_simps)

lemma empty_stores_ok: "store_ok (kview ref_bolt empty_kvs)" "sql_ok ref_tbl empty_sql"
proof -
  show "store_ok (kview ref_bolt empty_kvs)" by (simp add: empty_stores store_ok_def typed_def)
  have "core (sview ref_tbl empty_sql) = (\<lambda>_. Map.empty)" by (simp add: empty_stores core_def)
  then show "sql_ok ref_tbl empty_sql"
    by (simp add: sql_ok_def store_ok_def typed_def cols_ok_def empty_sql_def ref_tbl_def db_rows_simps)
qed



lemmas demo_defs = answered_def ans_def demo_registration_def demo_fclient_def client_counts_def
  FromFositeClient_def client_expired_def

lemmas bolt_eval = Let_def demo_defs kvs_repo_def kvs_DynamicClientStorage_def kvs_InventoryStorage_def kvs_eval

definition demo_full :: "ref_bucket kvs" where
  "demo_full = \<lparr>kv_bucket = rb_insert rb_empty (clientPrefix @ ''a'') (registered (demo_registration ''a'') 1),
     kv_faults = []\<rparr>"

lemma demo_bolt_register:
  "run_op (kvs_repo ref_bolt reparse) (OpRegister (demo_registration ''a'') 1 2) empty_kvs = (Inr ADone, demo_full)"
  by (simp add: bolt_eval kvs_RegisterClient_def countNonExpiredClients_def empty_kvs_def demo_full_def
      registered_def)

lemma demo_bolt_full:
  "run_op (kvs_repo ref_bolt reparse) (OpRegister (demo_registration ''b'') 2 2) demo_full =
     (Inl ErrClientCapReached, demo_full)"
  by (simp add: bolt_eval kvs_RegisterClient_def countNonExpiredClients_def demo_full_def registered_def)

lemma demo_bolt_name:
  "run_op (kvs_repo ref_bolt reparse) (OpClientName ''b'' 2) demo_full = (Inr (AName []), demo_full)"
  by (simp add: bolt_eval kvs_GetClientName_def demo_full_def registered_def)

definition demo_cleared :: "ref_bucket kvs" where
  "demo_cleared = \<lparr>kv_bucket = rb_remove (kv_bucket demo_full) (clientPrefix @ ''a''), kv_faults = []\<rparr>"

lemma demo_bolt_revoke:
  "run_op (kvs_repo ref_bolt reparse) (OpRevokeClient ''a'') demo_full = (Inr (ACount 1), demo_cleared)"
  by (simp add: bolt_eval kvs_RevokeClient_def revoke_def staleRecords_def sessionPrefixes_def scanRequests_def
      scanAuthorizeRequests_def scanPrefix_def demo_full_def demo_cleared_def registered_def)

lemma demo_bolt_count:
  "run_op (kvs_repo ref_bolt reparse) (OpCount 2) demo_cleared = (Inr (ACount 0), demo_cleared)"
  by (simp add: bolt_eval kvs_CountClients_def countNonExpiredClients_def demo_full_def demo_cleared_def)

lemma demo_on_bbolt: "fst (run_ops (kvs_repo ref_bolt reparse) demo_calls empty_kvs) = demo_answers"
  unfolding demo_calls_def demo_answers_def run_ops.simps demo_bolt_register prod.case demo_bolt_full
    demo_bolt_name demo_bolt_revoke demo_bolt_count
  by (rule fst_conv)

definition demo_row :: row where
  "demo_row = RowClient \<lparr>clr_ID = ''a'', clr_Client = registered (demo_registration ''a'') 1,
     clr_CreatedAt = 0, clr_UpdatedAt = 0\<rparr>"

lemmas sql_eval = demo_defs sql_repo_def sql_DynamicClientStorage_def sql_InventoryStorage_def sql_txn_def
  txn_unit_def ref_gorm_def db_rows_simps row_in_def where_holds_def row_id_def

lemma demo_sql_register:
  "run_op (sql_repo ref_gorm reparse) (OpRegister (demo_registration ''a'') 1 2) empty_sql =
     (Inr ADone, \<lparr>sd_db = db_put demo_row db_empty, sd_faults = []\<rparr>)"
  by (simp add: sql_eval sql_RegisterClient_def countNonExpiredClientRecords_def empty_sql_def demo_row_def
      registered_def)

lemma demo_sql_full:
  "run_op (sql_repo ref_gorm reparse) (OpRegister (demo_registration ''b'') 2 2)
     \<lparr>sd_db = db_put demo_row db_empty, sd_faults = []\<rparr> =
     (Inl ErrClientCapReached, \<lparr>sd_db = db_put demo_row db_empty, sd_faults = []\<rparr>)"
  by (simp add: sql_eval sql_RegisterClient_def countNonExpiredClientRecords_def demo_row_def registered_def)

lemma demo_sql_name:
  "run_op (sql_repo ref_gorm reparse) (OpClientName ''b'' 2)
     \<lparr>sd_db = db_put demo_row db_empty, sd_faults = []\<rparr> =
     (Inr (AName []), \<lparr>sd_db = db_put demo_row db_empty, sd_faults = []\<rparr>)"
  by (simp add: sql_eval sql_GetClientName_def getClientModel_def sql_first_def demo_row_def registered_def)

lemma demo_sql_revoke:
  "run_op (sql_repo ref_gorm reparse) (OpRevokeClient ''a'')
     \<lparr>sd_db = db_put demo_row db_empty, sd_faults = []\<rparr> =
     (Inr (ACount 1), \<lparr>sd_db = db_remove ClientReg (where_holds (<) (WEq ''id'' (VStr ''a''))) (db_put demo_row db_empty),
        sd_faults = []\<rparr>)"
  by (simp add: sql_eval sql_RevokeClient_def sql_revoke_def collectSweeps_def staleKeys_def
      staleAuthorizeRequests_def run_sweep_def deleteRegistrations_def demo_row_def registered_def)

lemma demo_sql_count:
  "run_op (sql_repo ref_gorm reparse) (OpCount 2)
     \<lparr>sd_db = db_remove ClientReg (where_holds (<) (WEq ''id'' (VStr ''a''))) (db_put demo_row db_empty), sd_faults = []\<rparr> =
     (Inr (ACount 0), \<lparr>sd_db = db_remove ClientReg (where_holds (<) (WEq ''id'' (VStr ''a''))) (db_put demo_row db_empty),
        sd_faults = []\<rparr>)"
  by (simp add: sql_eval sql_CountClients_def countNonExpiredClientRecords_def demo_row_def registered_def)

lemma demo_on_sqlite: "fst (run_ops (sql_repo ref_gorm reparse) demo_calls empty_sql) = demo_answers"
  unfolding demo_calls_def demo_answers_def run_ops.simps demo_sql_register prod.case demo_sql_full
    demo_sql_name demo_sql_revoke demo_sql_count
  by (rule fst_conv)

theorem backends_equivalent_witness:
  "\<exists>sk sd. run_ops (kvs_repo ref_bolt Some) demo_calls empty_kvs = (demo_answers, sk) \<and>
     run_ops (sql_repo ref_gorm Some) demo_calls empty_sql = (demo_answers, sd) \<and>
     core (kview ref_bolt sk) = core (sview ref_tbl sd)"
proof -
  obtain sk where sk: "run_ops (kvs_repo ref_bolt Some) demo_calls empty_kvs = (demo_answers, sk)"
    using demo_on_bbolt [of Some] by (metis prod.collapse)
  obtain sd where sd: "run_ops (sql_repo ref_gorm Some) demo_calls empty_sql = (demo_answers, sd)"
    using demo_on_sqlite [of Some] by (metis prod.collapse)
  have v: "\<forall>op \<in> set demo_calls. valid_op op" by (simp add: demo_calls_def)
  have n: "Inl ErrCommit \<notin> set demo_answers" by (simp add: demo_answers_def)
  have e: "core (kview ref_bolt empty_kvs) = core (sview ref_tbl empty_sql)" by (simp add: empty_stores)
  show ?thesis
    using sk sd backends_equivalent [OF reference_store.bolt_store_axioms reference_db.gorm_database_axioms
      empty_stores_ok e v sk n sd n] by blast
qed

end
