(* ===== verification/Signer.thy ===== *)
theory Signer
  imports ProxyProps
begin

text \<open>
  The writing half of \<^verbatim>\<open>pkg/keys/signer.go\<close>: \<open>FositeSigner\<close> signs what fosite hands it with the
  active key of the manager and names that key in the header.  What it signs is verified again by
  its own \<open>Validate\<close> and by the proxy, however the keys were rotated in between.
\<close>

section \<open>The signer\<close>

text \<open>fosite's \<open>jwt.Mapper\<close> and \<open>jwt.DefaultSigner\<close> are parameters; \<open>'h\<close> is the header object, which
  \<open>Generate\<close> changes in place.\<close>

record 'h jwt_lib =
  jl_Add :: "string \<Rightarrow> json \<Rightarrow> 'h \<Rightarrow> 'h"
  jl_Generate :: "privkey \<Rightarrow> claims \<Rightarrow> 'h \<Rightarrow> (string \<times> string) result"

definition Active :: "Manager \<Rightarrow> SigningKey" where
  "Active m = m_active m"

definition FositeSigner_Generate ::
  "'h jwt_lib \<Rightarrow> Manager \<Rightarrow> claims \<Rightarrow> 'h \<Rightarrow> (string \<times> string) result \<times> 'h" where
  "FositeSigner_Generate J m cs h =
     (let active = Active m;
          h = jl_Add J ''kid'' (JStr (sk_Kid active)) h
      in (jl_Generate J (sk_Key active) cs h, h))"

definition FositeSigner_Hash :: "(string \<Rightarrow> string) \<Rightarrow> string \<Rightarrow> string result" where
  "FositeSigner_Hash sha256 b = Inr (sha256 b)"

definition GetSigningMethodLength :: int where
  "GetSigningMethodLength = 32"

section \<open>The contract of the token library\<close>

text \<open>The default signer produces a compact serialisation: header, payload and signature joined by dots.
  The algorithm follows the type of the key, the header is the one it was given, and the signature
  it also returns is the last segment.\<close>

locale jwt_signer = jwt_library parse header payload sig_ok exp_of
  for parse :: jwt_parser and header :: "string \<Rightarrow> jwt_token option" and payload :: "string \<Rightarrow> claims option"
    and sig_ok :: "pubkey \<Rightarrow> string \<Rightarrow> bool" and exp_of :: "claims \<Rightarrow> time option" +
  fixes J :: "'h jwt_lib" and kid_in :: "'h \<Rightarrow> string option"
  assumes add_kid: "kid_in (jl_Add J ''kid'' (JStr k) h) = Some k"
    and generate: "jl_Generate J key cs h = Inr (tok, sg) \<Longrightarrow> algForKey key = Inr alg \<Longrightarrow>
      (\<exists>raw. header tok = Some \<lparr>jt_Method = alg, jt_Kid = kid_in h, jt_Raw = raw\<rparr>) \<and>
      sig_ok (Public key) tok \<and> payload tok = Some cs \<and> (\<exists>x y. split_char tok (CHR ''.'') = [x, y, sg])"
begin

lemma generated:
  assumes "good L m e" and "FositeSigner_Generate J m cs h = (Inr (tok, sg), h')"
  obtains raw x y where
    "header tok = Some \<lparr>jt_Method = sk_Alg (m_active m), jt_Kid = Some (sk_Kid (m_active m)), jt_Raw = raw\<rparr>"
    "sig_ok (Public (sk_Key (m_active m))) tok" "payload tok = Some cs" "split_char tok (CHR ''.'') = [x, y, sg]"
proof -
  have "algForKey (sk_Key (m_active m)) = Inr (sk_Alg (m_active m))"
    using assms(1) by (simp add: good_def synced_def keys_of_def key_ok_def)
  moreover have "jl_Generate J (sk_Key (m_active m)) cs (jl_Add J ''kid'' (JStr (sk_Kid (m_active m))) h) = Inr (tok, sg)"
    using assms(2) by (auto simp: FositeSigner_Generate_def Active_def Let_def)
  ultimately show thesis
    using that generate [of "sk_Key (m_active m)" cs _ tok sg "sk_Alg (m_active m)"] by (fastforce simp: add_kid)
qed

text \<open>A token of the signer is \<open>issued\<close> in the sense of the proxy's theorems.\<close>

lemma generated_issued:
  assumes "good L m e" and "FositeSigner_Generate J m cs h = (Inr (tok, sg), h')"
    and "map_of cs ''iss'' = Some (JStr issuer)" and "map_of cs ''aud'' = Some (JArr [JStr issuer])"
    and "exp_of cs = Some expiry"
  shows "issued header payload sig_ok exp_of issuer m expiry tok cs"
    and "\<exists>x y. split_char tok (CHR ''.'') = [x, y, sg]"
proof -
  obtain raw x y where g: "header tok = Some \<lparr>jt_Method = sk_Alg (m_active m), jt_Kid = Some (sk_Kid (m_active m)), jt_Raw = raw\<rparr>"
    "sig_ok (Public (sk_Key (m_active m))) tok" "payload tok = Some cs" "split_char tok (CHR ''.'') = [x, y, sg]"
    by (rule generated [OF assms(1,2)])
  show "issued header payload sig_ok exp_of issuer m expiry tok cs" using g assms(3-5) by (simp add: issued_def)
  show "\<exists>x y. split_char tok (CHR ''.'') = [x, y, sg]" using g(4) by blast
qed

end

text \<open>\<open>ParseWithClaims\<close> of fosite: it reads the token, asks for the key, checks the signature and the
  time claims (\<open>in_time\<close>); issuer and audience are not its business.\<close>

locale fosite_parser =
  fixes fparse :: "string \<Rightarrow> (jwt_token \<Rightarrow> pubkey result) \<Rightarrow> claims result" and header :: "string \<Rightarrow> jwt_token option"
    and payload :: "string \<Rightarrow> claims option" and sig_ok :: "pubkey \<Rightarrow> string \<Rightarrow> bool" and in_time :: "claims \<Rightarrow> bool"
  assumes fparse_sound: "fparse tok keyf = Inr cs \<Longrightarrow>
      \<exists>t pub. header tok = Some t \<and> keyf t = Inr pub \<and> sig_ok pub tok \<and> payload tok = Some cs \<and> in_time cs"
    and fparse_complete: "header tok = Some t \<Longrightarrow> keyf t = Inr pub \<Longrightarrow> sig_ok pub tok \<Longrightarrow>
      payload tok = Some cs \<Longrightarrow> in_time cs \<Longrightarrow> fparse tok keyf = Inr cs"
begin

text \<open>\<open>Validate\<close> returns the signature segment of a verified token and nothing else.\<close>

lemma Validate_iff:
  "Validate m fparse tok = Inr sg \<longleftrightarrow>
     (\<exists>t pub cs x y. header tok = Some t \<and> decode_key m t = Inr pub \<and> sig_ok pub tok \<and> payload tok = Some cs \<and>
        in_time cs \<and> split_char tok (CHR ''.'') = [x, y, sg])"
proof -
  have three: "length xs = 3 \<and> xs ! 2 = z \<longleftrightarrow> (\<exists>x y. xs = [x, y, z])" for xs :: "string list" and z
    by (auto simp: length_Suc_conv numeral_3_eq_3 numeral_2_eq_2)
  have "Validate m fparse tok = Inr sg \<longleftrightarrow>
      (\<exists>cs. fparse tok (decode_key m) = Inr cs) \<and> length (split_char tok (CHR ''.'')) = 3 \<and> split_char tok (CHR ''.'') ! 2 = sg"
    by (auto simp: Validate_def Decode_def GetSignature_def Let_def res_bind_Inr split: if_splits)
  also have "\<dots> \<longleftrightarrow> (\<exists>cs. fparse tok (decode_key m) = Inr cs) \<and> (\<exists>x y. split_char tok (CHR ''.'') = [x, y, sg])"
    by (simp only: three)
  also have "\<dots> \<longleftrightarrow> (\<exists>t pub cs x y. header tok = Some t \<and> decode_key m t = Inr pub \<and> sig_ok pub tok \<and> payload tok = Some cs \<and>
        in_time cs \<and> split_char tok (CHR ''.'') = [x, y, sg])"
    using fparse_sound [of tok "decode_key m"] fparse_complete [where tok = tok and keyf = "decode_key m"] by blast
  finally show ?thesis .
qed

end

text \<open>
  C23: what the gateway signs it verifies.  A token signed with the active key names that key in its
  header.  It is decoded to the same claims and validated to the same signature after any key
  maintenance and any rotations, failing or not, within the retire window; a manager that no longer
  has a key of that name refuses it.
\<close>

theorem sign_validate_roundtrip:
  assumes "key_library L" and "jwt_signer parse header payload sig_ok exp_of J kid_in"
    and "fosite_parser fparse header payload sig_ok in_time"
    and "good L m e" and "FositeSigner_Generate J m cs h = (Inr (tok, sg), h')" and "in_time cs"
    and "fresh_run L as (m, e)" and "0 < kc_RetireWindow (m_cfg m)" and "key_run L as (m, e) = (m', e')"
    and "\<forall>a \<in> set as. t \<le> op_time a \<and> op_time a < t + kc_RetireWindow (m_cfg m)"
    and "\<forall>sk \<in> set (keys_of other). sk_Kid sk \<noteq> sk_Kid (m_active m)"
  shows "kid_in h' = Some (sk_Kid (m_active m)) \<and> Decode m' fparse tok = Inr cs \<and> Validate m' fparse tok = Inr sg \<and>
    (\<forall>sg'. Validate other fparse tok \<noteq> Inr sg')"
proof -
  note F = fosite_parser.Validate_iff [OF assms(3)]
  obtain raw x y where g:
    "header tok = Some \<lparr>jt_Method = sk_Alg (m_active m), jt_Kid = Some (sk_Kid (m_active m)), jt_Raw = raw\<rparr>"
    "sig_ok (Public (sk_Key (m_active m))) tok" "payload tok = Some cs" "split_char tok (CHR ''.'') = [x, y, sg]"
    by (rule jwt_signer.generated [OF assms(2,4,5)])
  have dec: "decode_key m' \<lparr>jt_Method = sk_Alg (m_active m), jt_Kid = Some (sk_Kid (m_active m)), jt_Raw = raw\<rparr> =
      Inr (Public (sk_Key (m_active m)))"
    using active_key_verifies(1) [OF assms(1,4,7,8,9,10)] by (simp add: decode_key_def)
  have "kid_in h' = Some (sk_Kid (m_active m))"
    using assms(5) jwt_signer.add_kid [OF assms(2)] by (auto simp: FositeSigner_Generate_def Active_def Let_def)
  moreover have "Decode m' fparse tok = Inr cs"
    unfolding Decode_def by (rule fosite_parser.fparse_complete [where keyf = "decode_key m'", OF assms(3) g(1) dec g(2,3) assms(6)])
  moreover have "Validate m' fparse tok = Inr sg" unfolding F using g dec assms(6) by blast
  moreover have "Validate other fparse tok \<noteq> Inr sg'" for sg'
    unfolding F using decode_key_held [of other] assms(11) g(1) by fastforce
  ultimately show ?thesis by blast
qed

section \<open>A concrete signer\<close>

text \<open>The signer of \<open>demo_manager\<close>: it knows the one token of \<open>demo_claims\<close>.\<close>

definition demo_signer :: "string option jwt_lib" where
  "demo_signer =
     \<lparr>jl_Add = (\<lambda>k v h. case v of JStr s \<Rightarrow> if k = ''kid'' then Some s else h | _ \<Rightarrow> h),
      jl_Generate = (\<lambda>key cs h. if key = sk_Key (demo_key ''a'') \<and> cs = demo_claims \<and> h = Some ''ka''
        then Inr (''h.p.s'', ''s'') else Inl ErrDecode)\<rparr>"

definition demo_header :: "string \<Rightarrow> jwt_token option" where
  "demo_header tok = (if tok = ''h.p.s'' then Some \<lparr>jt_Method = AlgES256, jt_Kid = Some ''ka'', jt_Raw = []\<rparr> else None)"

interpretation demo_tokens: jwt_signer "ref_parse demo_header (\<lambda>tok. Some demo_claims) (\<lambda>pub tok. pub = ECPub ''P-256'' ''a'') exp_of"
    demo_header "\<lambda>tok. Some demo_claims" "\<lambda>pub tok. pub = ECPub ''P-256'' ''a''" exp_of demo_signer "\<lambda>h. h"
  for exp_of
  by unfold_locales (auto simp: demo_signer_def demo_key_def demo_header_def split: if_splits)

definition demo_fparse :: "string \<Rightarrow> (jwt_token \<Rightarrow> pubkey result) \<Rightarrow> claims result" where
  "demo_fparse tok keyf =
     (case demo_header tok of
        None \<Rightarrow> Inl ErrDecode
      | Some t \<Rightarrow> res_bind (keyf t) (\<lambda>pub. if pub = ECPub ''P-256'' ''a'' then Inr demo_claims else Inl (ErrMsg ''signature'')))"

interpretation demo_parser: fosite_parser demo_fparse demo_header "\<lambda>tok. Some demo_claims" "\<lambda>pub tok. pub = ECPub ''P-256'' ''a''" "\<lambda>_. True"
  by unfold_locales (auto simp: demo_fparse_def res_bind_Inr split: option.splits if_splits)

lemma demo_generated:
  "FositeSigner_Generate demo_signer demo_manager demo_claims None = (Inr (''h.p.s'', ''s''), Some ''ka'')"
  by (simp add: FositeSigner_Generate_def Active_def demo_signer_def demo_manager_def demo_key_def)

theorem sign_validate_roundtrip_witness:
  "\<exists>m' e'. key_run ref_lib [OpRotate 11] (demo_manager, demo_env) = (m', e') \<and>
     Validate m' demo_fparse ''h.p.s'' = Inr ''s'' \<and>
     Validate (demo_manager\<lparr>m_active := demo_key ''z''\<rparr>) demo_fparse ''h.p.s'' \<noteq> Inr ''s''"
proof (cases "key_run ref_lib [OpRotate 11] (demo_manager, demo_env)")
  case (Pair m' e')
  have fresh: "fresh_run ref_lib [OpRotate 11] (demo_manager, demo_env)" using demo_fresh by simp
  have "0 < kc_RetireWindow (m_cfg demo_manager)"
    and "\<forall>a \<in> set [OpRotate 11]. 11 \<le> op_time a \<and> op_time a < 11 + kc_RetireWindow (m_cfg demo_manager)"
    and "\<forall>sk \<in> set (keys_of (demo_manager\<lparr>m_active := demo_key ''z''\<rparr>)). sk_Kid sk \<noteq> sk_Kid (m_active demo_manager)"
    by (simp_all add: demo_manager_def keys_of_def demo_key_def)
  note R = sign_validate_roundtrip [OF reference_keys.key_library_axioms demo_tokens.jwt_signer_axioms
      demo_parser.fosite_parser_axioms demo_good demo_generated TrueI fresh this(1) Pair this(2,3)]
  from R Pair show ?thesis by blast
qed

end
