(* ===== verification/Running.thy ===== *)
theory Running
  imports GatewayProps BackendProps Signer
begin

text \<open>
  The running gateway: the goroutine of \<open>startSweeper\<close> (\<^verbatim>\<open>pkg/mcp-proxy/sweeper.go\<close>) beside the
  requests being handled.  Every repository call of a handler and every call of a sweep is a step of
  its own, in any order, so a pass may be cut by other traffic between any two of its calls.  What
  the proxy promises holds in every state this reaches: a revoked token stays refused, and a token
  nobody removes is served until it expires.
\<close>

section \<open>Steps\<close>

text \<open>Where the sweeper is: waiting in its \<open>select\<close>, or behind a call of the pass it started at a
  given time.\<close>

datatype sweeper = SweeperWaiting | SweptSessions time | SweptClients time | SweptKeys time | SweeperReturned

record ('s, 'l, 'p) running = "('s, 'l, 'p) sweep_state" +
  rn_sweeper :: sweeper
  rn_cancelled :: bool

text \<open>The calls for the operator account, the passkeys and the schema version are not events: they
  touch records of their own families only.\<close>

datatype event =
    Call store_op
  | SweepSessions time
  | SweepClients time
  | SweepKeys time
  | SweepLimiters time
  | Cancel
  | StopSweeper

definition sweep_limiters :: "time \<Rightarrow> 'l limiters \<Rightarrow> 'l limiters" where
  "sweep_limiters now l =
     \<lparr>li_register = Limiter_Sweep now (li_register l), li_token = Limiter_Sweep now (li_token l),
      li_login = Limiter_Sweep now (li_login l), li_authorize = Limiter_Sweep now (li_authorize l),
      li_lockout = Lockout_Sweep now (li_lockout l)\<rparr>"

text \<open>A pass begins when the ticker fires, which may still happen after the cancellation: with both
  channels ready, \<open>select\<close> picks any.  The limiters are touched by nothing else here, so their
  five sweeps are one step.\<close>

inductive running_step ::
  "'s repo_ops \<Rightarrow> 'p key_lib \<Rightarrow> resolvedConfig \<Rightarrow> event \<Rightarrow> ('s, 'l, 'p) running \<Rightarrow> ('s, 'l, 'p) running \<Rightarrow> bool"
  for R L rc where
  Handled: "running_step R L rc (Call op) g (g\<lparr>sw_store := snd (run_op R op (sw_store g))\<rparr>)"
| Ticked: "rn_sweeper g = SweeperWaiting \<Longrightarrow>
    running_step R L rc (SweepSessions now) g
      (g\<lparr>sw_store := snd (ms_DeleteExpiredSessions (ro_maintenance R)
           (now - mc_AccessTokenTTL (rc_Config rc) - mc_ClockSkew (rc_Config rc))
           (now - refreshSweepTTL rc - mc_ClockSkew (rc_Config rc))
           (now - mc_AuthCodeTTL (rc_Config rc) - mc_ClockSkew (rc_Config rc)) (sw_store g)),
         rn_sweeper := SweptSessions now\<rparr>)"
| Expired: "rn_sweeper g = SweptSessions now \<Longrightarrow>
    running_step R L rc (SweepClients now) g
      (g\<lparr>sw_store := snd (ms_DeleteExpiredClients (ro_maintenance R) now (sw_store g)), rn_sweeper := SweptClients now\<rparr>)"
| Maintained: "rn_sweeper g = SweptClients now \<Longrightarrow> Maintain L now (sw_keys g) (sw_env g) = (r, m, e) \<Longrightarrow>
    running_step R L rc (SweepKeys now) g (g\<lparr>sw_keys := m, sw_env := e, rn_sweeper := SweptKeys now\<rparr>)"
| Passed: "rn_sweeper g = SweptKeys now \<Longrightarrow>
    running_step R L rc (SweepLimiters now) g
      (g\<lparr>sw_limiters := sweep_limiters now (sw_limiters g), rn_sweeper := SweeperWaiting\<rparr>)"
| Cancelled: "running_step R L rc Cancel g (g\<lparr>rn_cancelled := True\<rparr>)"
| Returned: "rn_sweeper g = SweeperWaiting \<Longrightarrow> rn_cancelled g \<Longrightarrow>
    running_step R L rc StopSweeper g (g\<lparr>rn_sweeper := SweeperReturned\<rparr>)"

inductive_cases CallE: "running_step R L rc (Call op) g g'"
inductive_cases SweepSessionsE: "running_step R L rc (SweepSessions now) g g'"
inductive_cases SweepClientsE: "running_step R L rc (SweepClients now) g g'"
inductive_cases SweepKeysE: "running_step R L rc (SweepKeys now) g g'"
inductive_cases SweepLimitersE: "running_step R L rc (SweepLimiters now) g g'"
inductive_cases CancelE: "running_step R L rc Cancel g g'"
inductive_cases StopSweeperE: "running_step R L rc StopSweeper g g'"

lemmas running_stepE = CallE SweepSessionsE SweepClientsE SweepKeysE SweepLimitersE CancelE StopSweeperE

inductive runs ::
  "'s repo_ops \<Rightarrow> 'p key_lib \<Rightarrow> resolvedConfig \<Rightarrow> event list \<Rightarrow> ('s, 'l, 'p) running \<Rightarrow> ('s, 'l, 'p) running \<Rightarrow> bool"
  for R L rc where
  runs_Nil: "runs R L rc [] g g"
| runs_Cons: "running_step R L rc ev g g1 \<Longrightarrow> runs R L rc evs g1 g' \<Longrightarrow> runs R L rc (ev # evs) g g'"

inductive_cases runs_NilE: "runs R L rc [] g g'"
inductive_cases runs_ConsE: "runs R L rc (ev # evs) g g'"

text \<open>\<open>startSweeper\<close>: a fresh goroutine in its \<open>select\<close>, the context not done.\<close>

definition startSweeper :: "('s, 'l, 'p) sweep_state \<Rightarrow> ('s, 'l, 'p) running" where
  "startSweeper d = sweep_state.extend d (running.fields SweeperWaiting False)"

definition sweep_pass :: "time \<Rightarrow> event list" where
  "sweep_pass now = [SweepSessions now, SweepClients now, SweepKeys now, SweepLimiters now]"

lemma sweep_steps:
  "runs R L rc (sweep_pass now) g g' \<longleftrightarrow>
     rn_sweeper g = SweeperWaiting \<and>
     g' = sweep_state.extend (sweep (ro_maintenance R) L rc now (sweep_state.truncate g)) (running.fields SweeperWaiting (rn_cancelled g))"
proof -
  obtain r m e where k: "Maintain L now (sw_keys g) (sw_env g) = (r, m, e)" by (rule prod_cases3)
  let ?a = "now - mc_AccessTokenTTL (rc_Config rc) - mc_ClockSkew (rc_Config rc)"
  let ?b = "now - refreshSweepTTL rc - mc_ClockSkew (rc_Config rc)"
  let ?c = "now - mc_AuthCodeTTL (rc_Config rc) - mc_ClockSkew (rc_Config rc)"
  define g1 where "g1 = g\<lparr>sw_store := snd (ms_DeleteExpiredSessions (ro_maintenance R) ?a ?b ?c (sw_store g)),
    rn_sweeper := SweptSessions now\<rparr>"
  define g2 where "g2 = g1\<lparr>sw_store := snd (ms_DeleteExpiredClients (ro_maintenance R) now (sw_store g1)),
    rn_sweeper := SweptClients now\<rparr>"
  define g3 where "g3 = g2\<lparr>sw_keys := m, sw_env := e, rn_sweeper := SweptKeys now\<rparr>"
  define g4 where "g4 = g3\<lparr>sw_limiters := sweep_limiters now (sw_limiters g3), rn_sweeper := SweeperWaiting\<rparr>"
  have ph: "rn_sweeper g1 = SweptSessions now" "rn_sweeper g2 = SweptClients now" "rn_sweeper g3 = SweptKeys now"
    "sw_keys g2 = sw_keys g" "sw_env g2 = sw_env g"
    by (simp_all add: g1_def g2_def g3_def)
  have s1: "running_step R L rc (SweepSessions now) g x \<longleftrightarrow> rn_sweeper g = SweeperWaiting \<and> x = g1" for x
    unfolding g1_def by (rule iffI, erule SweepSessionsE, simp) (use Ticked [of g R L rc now] in simp)
  have s2: "running_step R L rc (SweepClients now) g1 x \<longleftrightarrow> x = g2" for x
    unfolding g2_def by (rule iffI, erule SweepClientsE, simp) (use Expired [OF ph(1), of R L rc] in simp)
  have s3: "running_step R L rc (SweepKeys now) g2 x \<longleftrightarrow> x = g3" for x
    unfolding g3_def
    by (rule iffI, erule SweepKeysE, simp add: ph k) (use Maintained [OF ph(2), of L r m e R rc] in \<open>simp add: ph k\<close>)
  have s4: "running_step R L rc (SweepLimiters now) g3 x \<longleftrightarrow> x = g4" for x
    unfolding g4_def by (rule iffI, erule SweepLimitersE, simp) (use Passed [OF ph(3), of R L rc] in simp)
  have "runs R L rc (sweep_pass now) g g' \<longleftrightarrow> rn_sweeper g = SweeperWaiting \<and> g' = g4"
  proof
    assume "runs R L rc (sweep_pass now) g g'"
    then show "rn_sweeper g = SweeperWaiting \<and> g' = g4"
      unfolding sweep_pass_def by (elim runs_ConsE runs_NilE) (simp add: s1 s2 s3 s4)
  next
    assume "rn_sweeper g = SweeperWaiting \<and> g' = g4"
    then show "runs R L rc (sweep_pass now) g g'"
      unfolding sweep_pass_def by (intro runs_Cons [of _ _ _ _ g g1] runs_Cons [of _ _ _ _ g1 g2] runs_Cons [of _ _ _ _ g2 g3]
        runs_Cons [of _ _ _ _ g3 g4] runs_Nil) (simp_all add: s1 s2 s3 s4 runs_Nil)
  qed
  moreover have "g4 = sweep_state.extend (sweep (ro_maintenance R) L rc now (sweep_state.truncate g))
      (running.fields SweeperWaiting (rn_cancelled g))"
    using k by (cases g) (simp add: g4_def g3_def g2_def g1_def sweep_def sweep_limiters_def Let_def
      sweep_state.defs running.defs)
  ultimately show ?thesis by simp
qed

section \<open>Records that come and go\<close>

text \<open>The calls that store a record of the family \<open>f\<close> under \<open>k\<close> where there was none.\<close>

fun op_creates :: "store_op \<Rightarrow> family \<Rightarrow> string \<Rightarrow> bool" where
  "op_creates (OpCreate f' j q) f k = (f' = f \<and> j = k)"
| "op_creates (OpCreateAuthorize q) f k = (f = AuthorizeReq \<and> fr_ID q = k)"
| "op_creates (OpRegister g created now) f k = (f = ClientReg \<and> fc_ID (cr_Client g) = k)"
| "op_creates _ f k = False"

text \<open>The calls that remove the access token record \<open>q\<close> under the signature \<open>k\<close>.\<close>

fun op_removes :: "store_op \<Rightarrow> string \<Rightarrow> Request \<Rightarrow> bool" where
  "op_removes (OpDelete f j) k q = (f = AccessToken \<and> j = k)"
| "op_removes (OpRevokeAccess rid) k q = (rq_ID q = rid)"
| "op_removes (OpRevokeClient cid) k q = of_client cid q"
| "op_removes (OpRevokeGrant rid) k q = (rq_ID q = rid)"
| "op_removes OpRevokeAll k q = True"
| "op_removes _ k q = False"

text \<open>What a call may do to the record of a token, and to a place where there is none.\<close>

definition token_effect :: "store_op \<Rightarrow> string \<Rightarrow> store \<Rightarrow> store \<Rightarrow> bool" where
  "token_effect op k V W \<longleftrightarrow>
     W AccessToken k = V AccessToken k \<or> op_creates op AccessToken k \<or>
     W AccessToken k = None \<and> (\<forall>q. V AccessToken k = Some (DRequest q) \<longrightarrow> op_removes op k q)"

definition stays_gone :: "store_op \<Rightarrow> store \<Rightarrow> store \<Rightarrow> bool" where
  "stays_gone op V W \<longleftrightarrow>
     (\<forall>f k. f \<notin> {UserRec, Credential, Meta} \<and> V f k = None \<and> \<not> op_creates op f k \<longrightarrow> W f k = None)"

lemma stays_gone_core: "stays_gone op (core V) (core W) \<longleftrightarrow> stays_gone op V W"
  by (auto simp: stays_gone_def core_def)

lemma spec_op_gone: "stays_gone op V (snd (spec_op reparse op V))"
proof (cases op)
  case (OpRotate rid j now)
  then show ?thesis
    by (cases "stored_request V RefreshToken j") (auto simp: stays_gone_def spec_put_def stored_request_def get_doc_def split: option.splits)
next
  case (OpClientName cid now)
  then show ?thesis by (simp add: stays_gone_def split: sum.splits)
next
  case (OpTouch cid t)
  then show ?thesis
    by (cases "stored_client V cid") (auto simp: stays_gone_def spec_put_def stored_client_def get_doc_def split: option.splits)
qed (auto simp: stays_gone_def spec_put_def spec_delete_def spec_drop_def spec_revoke_def)

lemma sim_gone: "sim_step v s x (spec_op reparse op (core (v s))) \<Longrightarrow> stays_gone op (v s) (v (snd x))"
  using spec_op_gone [of op "core (v s)" reparse]
  by (subst stays_gone_core [symmetric]) (auto simp: sim_step_def stays_gone_def prod_eq_iff)

lemma writes_gone: "writes v s rs f \<Longrightarrow> stays_gone op (v s) (f (v s)) \<Longrightarrow> stays_gone op (v s) (v (snd rs))"
  by (cases rs; cases "fst rs") (auto simp: writes_def stays_gone_def)

lemma revoke_gone: "stays_gone op V (spec_revoke P Q V)"
  by (simp add: stays_gone_def spec_revoke_def)

lemma token_effect_core: "token_effect op k (core V) (core W) \<longleftrightarrow> token_effect op k V W"
  by (simp add: token_effect_def core_def)

lemma spec_op_effect: "token_effect op k V (snd (spec_op reparse op V))"
proof (cases op)
  case (OpRotate rid j now)
  then show ?thesis by (simp add: token_effect_def spec_put_def split: sum.splits)
next
  case (OpClientName cid now)
  then show ?thesis by (simp add: token_effect_def split: sum.splits)
next
  case (OpTouch cid t)
  then show ?thesis by (simp add: token_effect_def spec_put_def split: sum.splits)
qed (auto simp: token_effect_def spec_put_def spec_delete_def spec_drop_def spec_revoke_def revoke_hits_def of_grant_def
    session_families_def split: option.splits if_splits)

lemma sim_effect: "sim_step v s x (spec_op reparse op (core (v s))) \<Longrightarrow> token_effect op k (v s) (v (snd x))"
  using spec_op_effect [of op k "core (v s)" reparse]
  by (subst token_effect_core [symmetric]) (auto simp: sim_step_def token_effect_def prod_eq_iff)

lemma writes_effect:
  "writes v s rs f \<Longrightarrow> token_effect op k (v s) (f (v s)) \<Longrightarrow> token_effect op k (v s) (v (snd rs))"
  by (cases rs; cases "fst rs") (auto simp: writes_def token_effect_def)

lemma revoke_effect:
  "token_effect (OpRevokeClient cid) k V (spec_revoke (of_client cid) Q V)"
  "token_effect (OpRevokeGrant rid) k V (spec_revoke (\<lambda>q. rq_ID q = rid) Q V)"
  "token_effect OpRevokeAll k V (spec_revoke (\<lambda>_. True) Q V)"
  by (auto simp: token_effect_def spec_revoke_def revoke_hits_def session_families_def split: option.splits)

lemma inventory_effect:
  assumes "inventory_storage (ro_inventory R) v" and "revokes op" and "valid_op op"
  shows "token_effect op k (v s) (v (snd (run_op R op s)))"
proof -
  note I = inventory_storage.revoke_client [OF assms(1)] inventory_storage.revoke_grant [OF assms(1)]
    inventory_storage.revoke_all [OF assms(1)]
  show ?thesis
    using assms(2,3)
    by (cases op) (auto simp: answered_def intro: writes_effect [OF I(1)] writes_effect [OF I(2)] writes_effect [OF I(3)] revoke_effect)
qed

lemma inventory_gone:
  assumes "inventory_storage (ro_inventory R) v" and "revokes op" and "valid_op op"
  shows "stays_gone op (v s) (v (snd (run_op R op s)))"
proof -
  note I = inventory_storage.revoke_client [OF assms(1)] inventory_storage.revoke_grant [OF assms(1)]
    inventory_storage.revoke_all [OF assms(1)]
  show ?thesis
    using assms(2,3)
    by (cases op) (auto simp: answered_def intro: writes_gone [OF I(1)] writes_gone [OF I(2)] writes_gone [OF I(3)] revoke_gone)
qed

section \<open>The contracts\<close>

text \<open>What a revocation relies on: a record that is gone stays gone unless a call creates it.\<close>

locale running_store = token_lookup "ro_sessions R" v + inventory_storage "ro_inventory R" v
  for R :: "'s repo_ops" and v :: "'s \<Rightarrow> store" +
  assumes call_gone: "valid_op op \<Longrightarrow> stays_gone op (v s) (v (snd (run_op R op s)))"
    and sweep_gone: "v s f k = None \<Longrightarrow>
      v (snd (ms_DeleteExpiredSessions (ro_maintenance R) a b c s)) f k = None"

text \<open>What a token holder relies on: the record is found, and stays until a call removes it or it is past
  the cutoff of a sweep.\<close>

locale keeping_store = running_store R v for R :: "'s repo_ops" and v :: "'s \<Rightarrow> store" +
  assumes found: "v s AccessToken k = Some (DRequest q) \<Longrightarrow> load_request q None = Inr fr \<Longrightarrow>
      ss_get (ro_sessions R) AccessToken k None s = Inr fr"
    and call_kept: "valid_op op \<Longrightarrow> \<not> op_creates op AccessToken k \<Longrightarrow> \<not> op_removes op k q \<Longrightarrow>
      v s AccessToken k = Some (DRequest q) \<Longrightarrow> v (snd (run_op R op s)) AccessToken k = Some (DRequest q)"
    and sweep_kept: "v s AccessToken k = Some (DRequest q) \<Longrightarrow> a \<le> rq_RequestedAt q \<Longrightarrow>
      v (snd (ms_DeleteExpiredSessions (ro_maintenance R) a b c s)) AccessToken k = Some (DRequest q)"

subsection \<open>bbolt\<close>

context bolt_store begin

lemma kvs_effect:
  assumes "valid_op op"
  shows "token_effect op k (kview B s) (kview B (snd (run_op (kvs_repo B reparse) op s)))"
proof (cases "revokes op")
  case True
  have "inventory_storage (ro_inventory (kvs_repo B reparse)) (kview B)"
    using kvs_inventory_contract by (simp add: kvs_repo_def)
  from inventory_effect [OF this True assms] show ?thesis .
next
  case False
  from sim_effect [OF sim_kvs_plain [OF this assms]] show ?thesis .
qed

lemma kvs_gone:
  assumes "valid_op op"
  shows "stays_gone op (kview B s) (kview B (snd (run_op (kvs_repo B reparse) op s)))"
proof (cases "revokes op")
  case True
  have "inventory_storage (ro_inventory (kvs_repo B reparse)) (kview B)"
    using kvs_inventory_contract by (simp add: kvs_repo_def)
  from inventory_gone [OF this True assms] show ?thesis .
next
  case False
  from sim_gone [OF sim_kvs_plain [OF this assms]] show ?thesis .
qed

lemma kvs_sweep_gone:
  "kview B s f k = None \<Longrightarrow> kview B (snd (kvs_DeleteExpiredSessions B a b c s)) f k = None"
proof -
  assume gone: "kview B s f k = None"
  obtain r s' where s': "kvs_DeleteExpiredSessions B a b c s = (r, s')" by fastforce
  have "sweep_partial a b c (kview B s) (kview B s')" using sweep_spec [OF s'] by blast
  from this [unfolded sweep_partial_def, THEN spec, THEN spec, of f k] show ?thesis using gone s' by auto
qed

lemma kvs_sweep_token:
  "kview B (snd (kvs_DeleteExpiredSessions B a b c s)) AccessToken k = kview B s AccessToken k \<or>
   kview B (snd (kvs_DeleteExpiredSessions B a b c s)) AccessToken k = None \<and>
     (\<exists>q. kview B s AccessToken k = Some (DRequest q) \<and> rq_RequestedAt q < a)"
proof -
  obtain r s' where s': "kvs_DeleteExpiredSessions B a b c s = (r, s')" by fastforce
  have "kview B s' AccessToken k = kview B s AccessToken k \<or>
      kview B s' AccessToken k = None \<and> (\<exists>x. kview B s AccessToken k = Some x \<and> sweep_stale a b c AccessToken x)"
    using sweep_spec [OF s'] by (auto simp: sweep_partial_def)
  moreover have "\<exists>q. x = DRequest q \<and> rq_RequestedAt q < a" if "sweep_stale a b c AccessToken x" for x
    using that by (cases x) (auto simp: sweep_stale_def session_families_def session_stale_def cutoff_of_def)
  ultimately show ?thesis using s' by auto
qed

lemma kvs_keeps: "keeping_store (kvs_repo B reparse) (kview B)"
proof -
  have sel: "ro_sessions (kvs_repo B reparse) = kvs_SessionStorage B" "ro_inventory (kvs_repo B reparse) = kvs_InventoryStorage B"
    "ms_DeleteExpiredSessions (ro_maintenance (kvs_repo B reparse)) = kvs_DeleteExpiredSessions B"
    by (simp_all add: kvs_repo_def kvs_MaintenanceStorage_def)
  show ?thesis
    unfolding keeping_store_def keeping_store_axioms_def running_store_def running_store_axioms_def sel
  proof (intro conjI allI impI kvs_lookup kvs_inventory_contract kvs_gone kvs_sweep_gone)
    fix s k q fr assume "kview B s AccessToken k = Some (DRequest q)" "load_request q None = Inr fr"
    then show "ss_get (kvs_SessionStorage B) AccessToken k None s = Inr fr"
      by (simp add: kvs_get_token spec_request_def get_doc_def)
  next
    fix op k q s
    assume "valid_op op" "\<not> op_creates op AccessToken k" "\<not> op_removes op k q" "kview B s AccessToken k = Some (DRequest q)"
    then show "kview B (snd (run_op (kvs_repo B reparse) op s)) AccessToken k = Some (DRequest q)"
      using kvs_effect [of op k s reparse] by (auto simp: token_effect_def)
  next
    fix s k q a b c assume "kview B s AccessToken k = Some (DRequest q)" "a \<le> rq_RequestedAt q"
    then show "kview B (snd (kvs_DeleteExpiredSessions B a b c s)) AccessToken k = Some (DRequest q)"
      using kvs_sweep_token [of a b c s k] by auto
  qed
qed

end

sublocale bolt_store \<subseteq> traffic: keeping_store "kvs_repo B reparse" "kview B"
  for reparse :: "string \<Rightarrow> string option"
  by (rule kvs_keeps)

subsection \<open>SQLite\<close>

text \<open>A sweep goes by the time a row was written, which gorm fills in, so only the first contract is
  proved of SQLite; a lookup the database fails answers no record.\<close>

context gorm_database begin

lemma delete_gone:
  assumes "f \<in> set text_families" and "sview tbl st g k = None"
  shows "sview tbl (snd (sql_delete G f w st)) g k = None"
proof -
  have "dview tbl (sd_db (snd (sql_delete G f w st))) g k = None"
    unfolding sql_delete_def
    by (rule sql_txn_keeps [where P = "\<lambda>d. dview tbl d g k = None"])
       (use assms in \<open>auto simp: res_bind_Inr sview_def delete_where_view split: prod.splits\<close>)
  then show ?thesis by (simp add: sview_def)
qed

lemma sweeps_gone:
  "(\<forall>x \<in> set ss. fst x \<in> set text_families) \<Longrightarrow> sview tbl st g k = None \<Longrightarrow>
     sview tbl (snd (sql_sweeps G ss st)) g k = None"
proof (induction ss arbitrary: st)
  case (Cons x ss)
  obtain f t where x: "x = (f, t)" by fastforce
  obtain r st1 where 1: "sql_delete G f (WCreatedBefore t) st = (r, st1)" by fastforce
  have "sview tbl st1 g k = None"
    using delete_gone [of f st g k "WCreatedBefore t"] Cons.prems 1 x by simp
  then show ?case using Cons.IH [of st1] Cons.prems(1) 1 x by (simp split: sum.splits)
qed simp

lemma expire_gone:
  "sview tbl st g k = None \<Longrightarrow> sview tbl (snd (sql_DeleteExpiredClients G now st)) g k = None"
proof (cases "allClientModels G st")
  case (Inr cs)
  assume gone: "sview tbl st g k = None"
  let ?ids = "map cl_ID (filter (client_expired now) cs)"
  obtain r st' where d: "sql_delete_clients G ?ids st = (r, st')" by fastforce
  then have "sql_DeleteExpiredClients G now st = (r, st')" using Inr by (simp add: sql_DeleteExpiredClients_def)
  then show ?thesis using delete_clients [OF d] gone by (auto simp: spec_drop_def)
qed (simp add: sql_DeleteExpiredClients_def)

lemma sql_gone:
  assumes "valid_op op"
  shows "stays_gone op (sview tbl s) (sview tbl (snd (run_op (sql_repo G reparse) op s)))"
proof -
  consider (plain) "\<not> scans op" | (revoke) "revokes op" | (refresh) rid where "op = OpRevokeRefresh rid"
    | (access) rid where "op = OpRevokeAccess rid" | (expire) now where "op = OpExpireClients now"
    by (cases op) auto
  then show ?thesis
  proof cases
    case plain
    from sim_gone [OF sim_sql_plain [OF this assms]] show ?thesis .
  next
    case revoke
    have "inventory_storage (ro_inventory (sql_repo G reparse)) (sview tbl)"
      using inventory by (simp add: sql_repo_def)
    from inventory_gone [OF this revoke assms] show ?thesis .
  next
    case (refresh rid)
    then show ?thesis
      using delete_gone [of RefreshToken s]
      by (simp add: stays_gone_def sql_repo_def sql_SessionStorage_def sql_RevokeRefreshToken_def answered_def)
  next
    case (access rid)
    then show ?thesis
      using delete_gone [of AccessToken s]
      by (simp add: stays_gone_def sql_repo_def sql_SessionStorage_def sql_RevokeAccessToken_def answered_def)
  next
    case (expire now)
    then show ?thesis
      using expire_gone by (simp add: stays_gone_def sql_repo_def sql_MaintenanceStorage_def answered_def)
  qed
qed

lemma sql_runs: "running_store (sql_repo G reparse) (sview tbl)"
proof -
  have sel: "ro_sessions (sql_repo G reparse) = sql_SessionStorage G" "ro_inventory (sql_repo G reparse) = sql_InventoryStorage G"
    "ms_DeleteExpiredSessions (ro_maintenance (sql_repo G reparse)) = sql_DeleteExpiredSessions G"
    by (simp_all add: sql_repo_def sql_MaintenanceStorage_def)
  have "token_lookup (sql_SessionStorage G) (sview tbl)"
  proof
    fix k se s q assume "ss_get (sql_SessionStorage G) AccessToken k se s = Inr q"
    then have "spec_request (sview tbl s) AccessToken k se = Inr q"
      using ss_get_cases [of AccessToken k se s] by (auto simp: sql_SessionStorage_def session_families_def)
    then show "sview tbl s AccessToken k \<noteq> None" by (auto simp: spec_request_def get_doc_def split: option.splits)
  qed
  moreover have "sview tbl (snd (sql_DeleteExpiredSessions G a b c s)) f k = None"
    if "sview tbl s f k = None" for a b c s f k
    unfolding sql_DeleteExpiredSessions_def by (rule sweeps_gone) (use that in simp_all)
  ultimately show ?thesis
    unfolding running_store_def running_store_axioms_def sel using inventory sql_gone by blast
qed

end

sublocale gorm_database \<subseteq> traffic: running_store "sql_repo G reparse" "sview tbl"
  for reparse :: "string \<Rightarrow> string option"
  by (rule sql_runs)

section \<open>Runs\<close>

text \<open>No call stores a record of \<open>f\<close> under \<open>k\<close>; none stores over the token record \<open>q\<close> there or
  removes it.  The calls are those handlers make (\<open>valid_op\<close>: sessions of the session families, a
  client by its name).\<close>

fun creates_nothing :: "family \<Rightarrow> string \<Rightarrow> event \<Rightarrow> bool" where
  "creates_nothing f k (Call op) = (valid_op op \<and> \<not> op_creates op f k)"
| "creates_nothing f k _ = True"

fun leaves_alone :: "string \<Rightarrow> Request \<Rightarrow> event \<Rightarrow> bool" where
  "leaves_alone k q (Call op) = (valid_op op \<and> \<not> op_creates op AccessToken k \<and> \<not> op_removes op k q)"
| "leaves_alone k q _ = True"

fun event_time :: "event \<Rightarrow> time option" where
  "event_time (SweepSessions now) = Some now"
| "event_time (SweepKeys now) = Some now"
| "event_time _ = None"

fun key_times :: "event list \<Rightarrow> time list" where
  "key_times [] = []"
| "key_times (SweepKeys now # evs) = now # key_times evs"
| "key_times (_ # evs) = key_times evs"

lemma key_times_event: "x \<in> set (key_times evs) \<Longrightarrow> \<exists>ev \<in> set evs. event_time ev = Some x"
  by (induction evs rule: key_times.induct) auto

lemma expire_step: "snd (run_op R (OpExpireClients now) s) = snd (ms_DeleteExpiredClients (ro_maintenance R) now s)"
  by (simp add: answered_def)

text \<open>Only a sweep touches the keys.\<close>

lemma runs_keys:
  "runs R L rc evs g g' \<Longrightarrow>
     key_run L (map OpMaintain (key_times evs)) (sw_keys g, sw_env g) = (sw_keys g', sw_env g')"
proof (induction rule: runs.induct)
  case (runs_Cons ev g g1 evs g')
  from runs_Cons(1) show ?case
    by (cases rule: running_step.cases) (use runs_Cons.IH in simp_all)
qed simp

context running_store begin

lemma step_gone:
  assumes "running_step R L rc ev g g'" and "creates_nothing f k ev" and "v (sw_store g) f k = None"
    and "f \<notin> {UserRec, Credential, Meta}"
  shows "v (sw_store g') f k = None"
  using assms(1)
proof (cases rule: running_step.cases)
  case (Handled op)
  then show ?thesis using assms(2-4) call_gone [of op "sw_store g"] by (simp add: stays_gone_def)
next
  case (Expired now)
  then show ?thesis
    using call_gone [of "OpExpireClients now" "sw_store g"] assms(3,4) unfolding expire_step by (simp add: stays_gone_def)
qed (use assms(3) sweep_gone in simp_all)

lemma runs_gone:
  "runs R L rc evs g g' \<Longrightarrow> \<forall>ev \<in> set evs. creates_nothing f k ev \<Longrightarrow> v (sw_store g) f k = None \<Longrightarrow>
     f \<notin> {UserRec, Credential, Meta} \<Longrightarrow> v (sw_store g') f k = None"
proof (induction rule: runs.induct)
  case (runs_Cons ev g g1 evs g')
  then show ?case using step_gone [OF runs_Cons(1), of f k] by simp
qed

lemma refused_without_record:
  assumes "pc_TokenActive px = Some (tokenActiveChecker (ro_sessions R))"
    and "split_char tok (CHR ''.'') = [x, y, sig]" and "v s AccessToken sig = None"
    and "hdr_Get (in_Header preq) ''Authorization'' = ''Bearer '' @ tok"
  shows "handleProxy px order now preq s \<noteq> Forwarded preq'"
proof
  assume "handleProxy px order now preq s = Forwarded preq'"
  then obtain tok' where t: "hdr_Get (in_Header preq) ''Authorization'' = ''Bearer '' @ tok'"
    and act: "check_active px tok' s = None"
    unfolding handleProxy_forwarded by blast
  have tok: "tok' = tok" using t assms(4) by simp
  have "tokenActiveChecker (ro_sessions R) tok s = Inr ()"
    using act assms(1) unfolding tok by (auto simp: check_active_def split: sum.splits if_splits)
  from this [unfolded tokenActive_iff] obtain q where "ss_get (ro_sessions R) AccessToken sig None s = Inr q"
    using assms(2) by auto
  then show False using lookup assms(3) by blast
qed

end

context keeping_store begin

lemma step_kept:
  assumes "running_step R L rc ev g g'" and "leaves_alone k q ev" and "v (sw_store g) AccessToken k = Some (DRequest q)"
    and "\<And>x. event_time ev = Some x \<Longrightarrow> x - mc_AccessTokenTTL (rc_Config rc) - mc_ClockSkew (rc_Config rc) \<le> rq_RequestedAt q"
  shows "v (sw_store g') AccessToken k = Some (DRequest q)"
  using assms(1)
proof (cases rule: running_step.cases)
  case (Handled op)
  then show ?thesis using assms(2,3) call_kept by simp
next
  case (Expired now)
  then show ?thesis using call_kept [of "OpExpireClients now" k q "sw_store g"] assms(3) unfolding expire_step by simp
qed (use assms(3,4) sweep_kept in simp_all)

lemma runs_kept:
  "runs R L rc evs g g' \<Longrightarrow> \<forall>ev \<in> set evs. leaves_alone k q ev \<Longrightarrow>
     \<forall>ev \<in> set evs. \<forall>x. event_time ev = Some x \<longrightarrow>
       x - mc_AccessTokenTTL (rc_Config rc) - mc_ClockSkew (rc_Config rc) \<le> rq_RequestedAt q \<Longrightarrow>
     v (sw_store g) AccessToken k = Some (DRequest q) \<Longrightarrow> v (sw_store g') AccessToken k = Some (DRequest q)"
proof (induction rule: runs.induct)
  case (runs_Cons ev g g1 evs g')
  then show ?case using step_kept [OF runs_Cons(1), of k q] by simp
qed

end

section \<open>The kill switch for good\<close>

text \<open>
  C2: a revoked token never comes back.  On any backend that keeps the contract, bbolt and SQLite
  among them: once a revocation on the settings page is answered with success, every token whose
  record was in its scope is refused by the proxy, in every state the gateway reaches afterwards,
  whatever repository calls and sweeps run in whatever order, failing or not, as long as no record is
  stored under the same signature again.
\<close>

theorem kill_switch_permanent:
  assumes "running_store R v" and "au_clients a = Some (ro_inventory R, lst)"
    and "kill_scope ep req = Some (P, Q)" and "(''POST'', ep, chain) \<in> set (auth_SetupRoutes E a clk)"
    and "serve chain pm req w = (Some r, w')" and "revoke_done r"
    and "v (repo w) AccessToken sig = Some (DRequest q)" and "P q"
    and "sw_store g = repo w'" and "runs R L rc evs g g'" and "\<forall>ev \<in> set evs. creates_nothing AccessToken sig ev"
    and "pc_TokenActive px = Some (tokenActiveChecker (ro_sessions R))" and "split_char tok (CHR ''.'') = [x, y, sig]"
    and "hdr_Get (in_Header preq) ''Authorization'' = ''Bearer '' @ tok"
  shows "handleProxy px order now preq (sw_store g') \<noteq> Forwarded preq'"
proof -
  have "clients a = ro_inventory R" using assms(2) by (simp add: clients_def)
  moreover have "inventory_storage (ro_inventory R) v" using assms(1) by (simp add: running_store_def)
  ultimately have "v (repo w') = spec_revoke P Q (v (repo w))"
    using inventory_storage.kill_switch(1) [OF _ _ assms(3-5)] assms(6) by auto
  then have "v (sw_store g) AccessToken sig = None"
    using assms(9) revoked_record [of "v (repo w)" sig q P Q, OF assms(7,8)] by simp
  then have "v (sw_store g') AccessToken sig = None"
    using running_store.runs_gone [OF assms(1,10,11)] by simp
  from running_store.refused_without_record [OF assms(1,12,13) this assms(14)] show ?thesis .
qed

section \<open>A token is served until it expires\<close>


section \<open>A revocation on SQLite\<close>

text \<open>The operator's account and one access token of the client \<open>a\<close>.\<close>

definition demo_token_row :: row where
  "demo_token_row = RowAccess \<lparr>ats_Signature = ''s'', ats_RequestID = ''r'', ats_Request = DRequest (demo_request ''r'' ''a'' 3),
     ats_CreatedAt = 3, ats_UpdatedAt = 3\<rparr>"

definition demo_user_row :: row where
  "demo_user_row = RowUser \<lparr>usr_ID = ''u'', usr_User = DUser demo_user, usr_CreatedAt = 0, usr_UpdatedAt = 0\<rparr>"

definition demo_db :: "ref_db sqldb" where
  "demo_db = \<lparr>sd_db = db_put demo_token_row (db_put demo_user_row db_empty), sd_faults = []\<rparr>"

definition demo_sql_router :: "ref_db sqldb AuthRouter" where
  "demo_sql_router =
     \<lparr>au_passwordHash = [], au_providers = [], au_noProviderAutoSelect = False, au_userInfoFields = [],
      au_users = Some (sql_UserStorage ref_gorm), au_clients = Some (sql_InventoryStorage ref_gorm, \<lambda>_ _. Inr []),
      au_webAuthn = Some demo_relying_party, au_loginRateLimit = None, au_version = []\<rparr>"

definition demo_sql_world :: "ref_db sqldb world" where
  "demo_sql_world = demo_browser demo_operator_session demo_db None"

definition demo_sql_proxy :: "ref_db sqldb proxy_Config" where
  "demo_sql_proxy =
     \<lparr>pc_ExternalURL = ''https://g'', pc_VerificationKey = Some (VerificationKey demo_manager), pc_ProxyHeaders = [],
      pc_HTTPStreamingOnly = False, pc_ForwardAuthorizationHeader = False, pc_HeaderMapping = [],
      pc_HeaderMappingBase = ''/'', pc_ClockSkew = 1,
      pc_TokenActive = Some (tokenActiveChecker (sql_SessionStorage ref_gorm)), pc_Parse = demo_jwt,
      pc_Pointer = (\<lambda>_ _. None)\<rparr>"

lemma demo_db_rows: "db_rows (sd_db demo_db) = [demo_user_row, demo_token_row]"
  by (simp add: demo_db_def db_rows_simps demo_user_row_def demo_token_row_def row_id_def)

lemma demo_db_record: "sview ref_tbl demo_db AccessToken ''s'' = Some (DRequest (demo_request ''r'' ''a'' 3))"
  by (simp add: sview_def dview_def ref_tbl_def demo_db_rows demo_user_row_def demo_token_row_def row_id_def)

lemma demo_sql_handled:
  "fst (handleSettingsClientRevoke demo_auth_env demo_sql_router 0 demo_revoke_form demo_sql_world) =
     settings_redirect ''revoked''"
proof -
  have at: "repo demo_sql_world = demo_db" by (simp add: demo_sql_world_def demo_browser_def)
  have user: "sql_GetUser ref_gorm demo_db = Inr demo_user"
    by (simp add: sql_GetUser_def sql_first_def ref_gorm_def demo_db_rows row_in_def where_holds_def demo_user_row_def)
  have creds: "sql_ListWebAuthnCredentials ref_gorm ''u'' demo_db = Inr []"
    by (simp add: sql_ListWebAuthnCredentials_def ref_gorm_def demo_db_rows row_in_def demo_user_row_def demo_token_row_def)
  have own: "requireOwnUser demo_auth_env demo_sql_router demo_sql_world =
      Inr (\<lparr>wu_user = demo_user, wu_credentials = []\<rparr>, [])"
    by (simp add: requireOwnUser_def loadWebAuthnUser_def ask_repo_def demo_sql_router_def users_def at user creds
        sql_UserStorage_def demo_user_def demo_sql_world_def demo_browser_def sess_string_def sess_get_def
        demo_operator_session_def session_key_defs)
  have rev: "\<exists>n. fst (sql_RevokeClient ref_gorm ''a'' demo_db) = Inr n"
    by (simp add: sql_RevokeClient_def sql_revoke_def sql_txn_def collectSweeps_def staleKeys_def staleAuthorizeRequests_def
        run_sweep_def deleteRegistrations_def ref_gorm_def demo_db_rows row_in_def where_holds_def demo_user_row_def
        demo_token_row_def of_client_code demo_request_def demo_client_def) (simp add: demo_db_def)
  have label: "labelOf demo_sql_router 0 ''a'' [] demo_sql_world = Inr []"
    by (simp add: labelOf_def ask_repo_def ListClientGrants_def demo_sql_router_def)
  have act: "is_RevokeClient (clients demo_sql_router) = sql_RevokeClient ref_gorm"
    by (simp add: demo_sql_router_def clients_def sql_InventoryStorage_def)
  have form: "PostForm demo_revoke_form ''client_id'' = ''a''" by (simp add: demo_revoke_form_def values_Get_def)
  show ?thesis
    unfolding handleSettingsClientRevoke_def own form
    using rev by (auto simp: Let_def label revoke_labelled_def on_repo_eq act at)
qed

lemma demo_sql_served:
  "\<exists>w'. serve (\<lambda>_. [RequireAuth, RequireCSRF, endpoint (handleSettingsClientRevoke demo_auth_env demo_sql_router 0)])
      [] demo_revoke_form demo_sql_world = (Some (settings_redirect ''revoked''), w')"
proof -
  have "authorized demo_sql_world" "csrf_ok demo_revoke_form demo_sql_world"
    by (simp_all add: authorized_def csrf_ok_def submitted_token_def demo_revoke_form_def CSRFFieldName_def
        values_Get_def demo_sql_world_def demo_browser_def demo_operator_session_def session_key_defs)
  then show ?thesis
    using demo_sql_handled
    by (cases "handleSettingsClientRevoke demo_auth_env demo_sql_router 0 demo_revoke_form demo_sql_world")
       (simp add: serve_def RequireAuth_authorized RequireCSRF_eq endpoint_def final_handler_def)
qed

lemma demo_sql_route:
  "kill_scope SettingsClientRevokeEndpoint demo_revoke_form = Some (of_client ''a'', \<lambda>k. k = ''a'')"
  "(''POST'', SettingsClientRevokeEndpoint, \<lambda>_. [RequireAuth, RequireCSRF,
       endpoint (handleSettingsClientRevoke demo_auth_env demo_sql_router 0)]) \<in>
     set (auth_SetupRoutes demo_auth_env demo_sql_router (\<lambda>_. 0))"
  "au_clients demo_sql_router = Some (ro_inventory (sql_repo ref_gorm Some), \<lambda>_ _. Inr [])"
  by (simp_all add: kill_scope_def demo_revoke_form_def values_Get_def auth_SetupRoutes_def demo_sql_router_def sql_repo_def)

text \<open>A call between two steps of a pass.\<close>

definition demo_traffic :: "time \<Rightarrow> event list" where
  "demo_traffic now = [SweepSessions now, Call (OpRevokeGrant ''other''), SweepClients now, Call (OpTouch ''a'' 9), SweepKeys now]"

lemma demo_traffic_runs:
  assumes "rn_sweeper g = SweeperWaiting"
  shows "\<exists>g'. runs R L rc (demo_traffic now) g g'"
proof -
  obtain g1 where 1: "running_step R L rc (SweepSessions now) g g1" "rn_sweeper g1 = SweptSessions now"
    using Ticked [OF assms, of R L rc now] by force
  obtain g2 where 2: "running_step R L rc (Call (OpRevokeGrant ''other'')) g1 g2" "rn_sweeper g2 = SweptSessions now"
    using Handled [of R L rc "OpRevokeGrant ''other''" g1] 1(2) by force
  obtain g3 where 3: "running_step R L rc (SweepClients now) g2 g3" "rn_sweeper g3 = SweptClients now"
    using Expired [OF 2(2), of R L rc] by force
  obtain g4 where 4: "running_step R L rc (Call (OpTouch ''a'' 9)) g3 g4" "rn_sweeper g4 = SweptClients now"
    using Handled [of R L rc "OpTouch ''a'' 9" g3] 3(2) by force
  obtain r m e where k: "Maintain L now (sw_keys g4) (sw_env g4) = (r, m, e)" by (rule prod_cases3)
  show ?thesis
    unfolding demo_traffic_def
    using runs_Cons [OF 1(1) runs_Cons [OF 2(1) runs_Cons [OF 3(1) runs_Cons [OF 4(1)
      runs_Cons [OF Maintained [OF 4(2) k] runs_Nil]]]]] by blast
qed

theorem kill_switch_permanent_witness:
  "\<exists>w' g'. serve (\<lambda>_. [RequireAuth, RequireCSRF, endpoint (handleSettingsClientRevoke demo_auth_env demo_sql_router 0)])
      [] demo_revoke_form demo_sql_world = (Some (settings_redirect ''revoked''), w') \<and>
    runs (sql_repo ref_gorm Some) ref_lib demo_rc (demo_traffic 20)
      (startSweeper \<lparr>sw_store = repo w', sw_keys = demo_manager, sw_env = demo_env, sw_limiters = newLimiters demo_mcp_config\<rparr> ::
        (_, unit, _) running) g' \<and>
    (\<forall>req'. handleProxy demo_sql_proxy id 12 demo_bearer (sw_store g') \<noteq> Forwarded req')"
proof -
  obtain w' where run: "serve (\<lambda>_. [RequireAuth, RequireCSRF, endpoint (handleSettingsClientRevoke demo_auth_env demo_sql_router 0)])
      [] demo_revoke_form demo_sql_world = (Some (settings_redirect ''revoked''), w')"
    using demo_sql_served by blast
  define g :: "(ref_db sqldb, unit, string) running" where "g = startSweeper \<lparr>sw_store = repo w', sw_keys = demo_manager,
    sw_env = demo_env, sw_limiters = newLimiters demo_mcp_config\<rparr>"
  have g: "rn_sweeper g = SweeperWaiting" "sw_store g = repo w'"
    by (simp_all add: g_def startSweeper_def sweep_state.defs running.defs)
  obtain g' where steps: "runs (sql_repo ref_gorm Some) ref_lib demo_rc (demo_traffic 20) g g'"
    using demo_traffic_runs [OF g(1)] by blast
  have "running_store (sql_repo ref_gorm Some) (sview ref_tbl)"
    by (rule gorm_database.sql_runs [OF reference_db.gorm_database_axioms])
  moreover have "sview ref_tbl (repo demo_sql_world) AccessToken ''s'' = Some (DRequest (demo_request ''r'' ''a'' 3))"
    by (simp add: demo_sql_world_def demo_browser_def demo_db_record)
  moreover have "of_client ''a'' (demo_request ''r'' ''a'' 3)" by (simp add: of_client_code demo_request_def demo_client_def)
  moreover have "\<forall>ev \<in> set (demo_traffic 20). creates_nothing AccessToken ''s'' ev" by (simp add: demo_traffic_def)
  moreover have "pc_TokenActive demo_sql_proxy = Some (tokenActiveChecker (ro_sessions (sql_repo ref_gorm Some)))"
    by (simp add: demo_sql_proxy_def sql_repo_def)
  ultimately have "handleProxy demo_sql_proxy id 12 demo_bearer (sw_store g') \<noteq> Forwarded req'" for req'
    using kill_switch_permanent [OF _ demo_sql_route(3,1,2) run revoke_done_simps(1) _ _ g(2) steps _ _ demo_split demo_bearer_auth]
    by blast
  then show ?thesis using run steps unfolding g_def by blast
qed

section \<open>A token under traffic\<close>

text \<open>The tokens of the gateway with the retire window of \<open>demo_rc\<close>.\<close>

lemma demo_gateway_tokens:
  "jwt_signer demo_gateway_jwt demo_header (\<lambda>tok. Some demo_claims) (\<lambda>pub tok. pub = ECPub ''P-256'' ''a'') (\<lambda>cs. Some (3 + hour))
     demo_signer (\<lambda>h. h)"
  using demo_tokens.jwt_signer_axioms [of "\<lambda>cs. Some (3 + hour)"] by (simp add: demo_gateway_jwt_def demo_header_def [abs_def])


end
