(* ===== verification/Traffic.thy ===== *)
theory Traffic
  imports AuthorizeProps Running
begin

text \<open>
  Authorization requests under traffic: a request that was decided, or that a revocation removed,
  can never be decided again, whatever else the gateway handles in between.  And the contracts the
  authorization endpoints rely on, discharged by SQLite.
\<close>

section \<open>SQLite meets the contracts of the authorization server\<close>

context gorm_database begin

lemma sql_get_pending:
  "as_GetAuthorizeRequest (sql_AuthorizeRequestStorage G reparse) k s =
     res_bind (get_doc (sview tbl s) AuthorizeReq k) (\<lambda>d. res_bind (dec_authorize d) (ToFositeAuthorizeRequest reparse)) \<or>
   as_GetAuthorizeRequest (sql_AuthorizeRequestStorage G reparse) k s = Inl ErrCommit"
  using read_doc [of "''request_id''" AuthorizeReq k s "unmarshalAuthorizeRequest reparse"]
  by (simp add: sql_AuthorizeRequestStorage_def sql_GetAuthorizeRequest_def unmarshalAuthorizeRequest_def [abs_def])

lemma sql_pending: "pending_storage (sql_AuthorizeRequestStorage G reparse) (sview tbl)"
proof
  fix k s q assume "as_GetAuthorizeRequest (sql_AuthorizeRequestStorage G reparse) k s = Inr q"
  then show "sview tbl s AuthorizeReq k \<noteq> None"
    using sql_get_pending [of reparse k s] by (auto simp: get_doc_def split: option.splits)
next
  fix k s assume "sview tbl s AuthorizeReq k = None"
  then show "as_GetAuthorizeRequest (sql_AuthorizeRequestStorage G reparse) k s \<noteq> Inl ErrPanic"
    using sql_get_pending [of reparse k s] by (auto simp: get_doc_def)
qed (simp_all add: sql_AuthorizeRequestStorage_def sql_create_defs sql_delete_defs create_writes delete_writes)

lemma sql_registry: "registry (sql_DynamicClientStorage G) (sview tbl)"
  by unfold_locales (simp add: sql_DynamicClientStorage_def register_writes)

end

sublocale gorm_database \<subseteq> pending: pending_storage "sql_AuthorizeRequestStorage G reparse" "sview tbl"
  for reparse :: "string \<Rightarrow> string option"
  by (rule sql_pending)

sublocale gorm_database \<subseteq> registry: registry "sql_DynamicClientStorage G" "sview tbl"
  by (rule sql_registry)

section \<open>Decided once and for all\<close>

text \<open>
  C5: an authorization request is decided once and for all.  After a consent POST that reached the
  store and whose deferred delete succeeded, whether it issued a code or failed in between, every
  later POST for the same request is answered 403 or 500 and changes nothing: from any browser, with
  any session (an old cookie that still lists the request included) and any form, in every state the
  gateway reaches through other traffic and sweeps, as long as no request is created under the same
  identifier again.  On any backend that keeps the contract, bbolt and SQLite among them.
\<close>

theorem consent_decided_for_good:
  assumes "running_store R v" and "pending_storage (ro_requests R) v" and "a_repo_ar a = ro_requests R"
    and "handleAuthorizationReturn E a now arID req w = (r1, w1)" and "consent_deleted E a now arID req w"
    and "sw_store g = repo w1" and "runs R L rc evs g g'" and "\<forall>ev \<in> set evs. creates_nothing AuthorizeReq arID ev"
    and "repo w2 = sw_store g'" and "handleAuthorizationReturn E a now' arID req' w2 = (r2, w3)"
  shows "w3 = w2 \<and> (r2 = forbidden_session \<or> r2 = load_failed)"
proof -
  have "v (sw_store g) AuthorizeReq arID = None"
    using pending_storage.decided_gone [OF assms(2,3,4,5)] assms(6) by simp
  then have "v (repo w2) AuthorizeReq arID = None"
    using running_store.runs_gone [OF assms(1,7,8)] assms(9) by simp
  from pending_storage.gone_refused [OF assms(2) this assms(3,10)] show ?thesis .
qed

text \<open>
  C31: a revocation also ends what is still pending.  Once a revocation on the settings page is answered
  with success, an authorization request in its scope that was waiting for consent is refused by
  every later consent POST, 403 or 500 with nothing changed, in every state the gateway reaches, as
  long as no request is created under the same identifier again.
\<close>

theorem revoked_request_refused:
  assumes "running_store R v" and "pending_storage (ro_requests R) v" and "au_clients b = Some (ro_inventory R, lst)"
    and "kill_scope ep req = Some (P, Q)" and "(''POST'', ep, chain) \<in> set (auth_SetupRoutes E b clk)"
    and "serve chain pm req w = (Some r, w1)" and "revoke_done r"
    and "v (repo w) AuthorizeReq arID = Some d" and "revoke_hits P Q AuthorizeReq arID d"
    and "sw_store g = repo w1" and "runs R L rc evs g g'" and "\<forall>ev \<in> set evs. creates_nothing AuthorizeReq arID ev"
    and "a_repo_ar a = ro_requests R" and "repo w2 = sw_store g'"
    and "handleAuthorizationReturn F a now arID req' w2 = (r2, w3)"
  shows "w3 = w2 \<and> (r2 = forbidden_session \<or> r2 = load_failed)"
proof -
  have "clients b = ro_inventory R" using assms(3) by (simp add: clients_def)
  moreover have "inventory_storage (ro_inventory R) v" using assms(1) by (simp add: running_store_def)
  ultimately have "v (repo w1) = spec_revoke P Q (v (repo w))"
    using inventory_storage.kill_switch(1) [OF _ _ assms(4-6)] assms(7) by auto
  then have "v (sw_store g) AuthorizeReq arID = None" using assms(8-10) by (simp add: spec_revoke_def)
  then have "v (repo w2) AuthorizeReq arID = None"
    using running_store.runs_gone [OF assms(1,11,12)] assms(14) by simp
  from pending_storage.gone_refused [OF assms(2) this assms(13,15)] show ?thesis .
qed

section \<open>What a revocation does not reach\<close>

text \<open>The repository offers fosite no transaction, so the calls of a token exchange are steps of their
  own.  A revocation between the lookup of the code and the two writes is answered with success, and
  so are the writes: the client ends up with an access token issued after it.\<close>

lemma exchange_outlives_revocation:
  assumes "fc_ID (fr_Client q) = cid" and "spec_request V AuthorizeCode code se = Inr r"
    and "spec_ops reparse [OpGet AuthorizeCode code se, OpRevokeClient cid, OpDelete AuthorizeCode code, OpCreate AccessToken sig q] V = (as, W)"
  shows "as ! 0 = Inr (ARequest r)" and "\<exists>n. as ! 1 = Inr (ACount n)" and "drop 2 as = [Inr ADone, Inr ADone]"
    and "W AccessToken sig = Some (DRequest (FromFositeReq q))" and "of_client cid (FromFositeReq q)"
  using assms by (auto simp: spec_put_def ans_def of_client_def FromFositeReq_def FromFositeClient_def)

section \<open>Concrete runs\<close>

lemma demo_started:
  fixes s :: 's
  obtains g :: "('s, unit, string) running" where "rn_sweeper g = SweeperWaiting" and "sw_store g = s"
  by (rule that [of "startSweeper \<lparr>sw_store = s, sw_keys = demo_manager, sw_env = demo_env, sw_limiters = newLimiters demo_mcp_config\<rparr>"])
     (simp_all add: startSweeper_def sweep_state.defs running.defs)

lemma demo_traffic_quiet: "\<forall>ev \<in> set (demo_traffic now). creates_nothing f k ev"
  by (simp add: demo_traffic_def)

theorem consent_decided_for_good_witness:
  "\<exists>w1 g g' w2 r2. snd (handleAuthorizationReturn demo_idp_env demo_router 9 ''r'' demo_consent (demo_world demo_session IdpProps.demo_pending)) = w1 \<and>
     sw_store (g :: (ref_bucket kvs, unit, string) running) = repo w1 \<and>
     runs (kvs_repo ref_bolt Some) ref_lib demo_rc (demo_traffic 20) g g' \<and> repo w2 = sw_store g' \<and> sess w2 = demo_session \<and>
     handleAuthorizationReturn demo_idp_env demo_router 21 ''r'' demo_consent w2 = (r2, w2) \<and>
     (r2 = forbidden_session \<or> r2 = load_failed)"
proof -
  obtain r1 w1 where h: "handleAuthorizationReturn demo_idp_env demo_router 9 ''r'' demo_consent
      (demo_world demo_session IdpProps.demo_pending) = (r1, w1)" by fastforce
  obtain g :: "(ref_bucket kvs, unit, string) running" where g: "rn_sweeper g = SweeperWaiting" "sw_store g = repo w1"
    by (rule demo_started)
  obtain g' where steps: "runs (kvs_repo ref_bolt Some) ref_lib demo_rc (demo_traffic 20) g g'"
    using demo_traffic_runs [OF g(1)] by blast
  define w2 where "w2 = demo_world demo_session (sw_store g')"
  then have w2: "repo w2 = sw_store g'" "sess w2 = demo_session" by (simp_all add: demo_world_def)
  obtain r2 w3 where h2: "handleAuthorizationReturn demo_idp_env demo_router 21 ''r'' demo_consent w2 = (r2, w3)"
    by fastforce
  have R: "running_store (kvs_repo ref_bolt Some) (kview ref_bolt)"
    using bolt_store.kvs_keeps [OF reference_store.bolt_store_axioms] by (simp add: keeping_store_def)
  have A: "ro_requests (kvs_repo ref_bolt Some) = kvs_AuthorizeRequestStorage ref_bolt Some" by (simp add: kvs_repo_def)
  have "pending_storage (ro_requests (kvs_repo ref_bolt Some)) (kview ref_bolt)"
    unfolding A by (rule bolt_bucket.kvs_pending [OF reference.bolt_bucket_axioms])
  moreover have "a_repo_ar demo_router = ro_requests (kvs_repo ref_bolt Some)" by (simp add: demo_router_def A)
  ultimately have "w3 = w2 \<and> (r2 = forbidden_session \<or> r2 = load_failed)"
    by (rule consent_decided_for_good [OF R _ _ h demo_deleted g(2) steps demo_traffic_quiet w2(1) h2])
  then show ?thesis using h h2 g(2) steps w2 by (intro exI conjI) (simp_all, auto)
qed

text \<open>The operator's store with a pending request, and the switch for everything.\<close>

definition demo_busy_kvs :: "ref_bucket kvs" where
  "demo_busy_kvs = IdpProps.demo_pending\<lparr>kv_bucket := rb_insert (kv_bucket IdpProps.demo_pending) kvsUserKey (DUser demo_user)\<rparr>"

definition demo_busy_world :: "ref_bucket kvs world" where
  "demo_busy_world = demo_browser demo_operator_session demo_busy_kvs None"

lemma demo_all_handled:
  "fst (handleSettingsRevokeAll demo_auth_env demo_operator_router demo_revoke_form demo_busy_world) = settings_redirect ''revoked_all''"
proof -
  have own: "requireOwnUser demo_auth_env demo_operator_router demo_busy_world =
      Inr (\<lparr>wu_user = demo_user, wu_credentials = []\<rparr>, [])"
    by (simp add: requireOwnUser_def loadWebAuthnUser_def ask_repo_def demo_operator_router_def users_def
        kvs_UserStorage_def kvs_GetUser_def kvs_ListWebAuthnCredentials_def kvs_eval demo_busy_world_def
        demo_browser_def demo_busy_kvs_def IdpProps.demo_pending_def demo_user_def sess_string_def sess_get_def
        demo_operator_session_def session_key_defs FromFositeAuthorizeRequest_def)
  have "\<exists>n. fst (kvs_RevokeAll ref_bolt demo_busy_kvs) = Inr n"
    by (simp add: kvs_RevokeAll_def revoke_def kvs_eval demo_busy_kvs_def IdpProps.demo_pending_def staleRecords_def
        sessionPrefixes_def scanRequests_def scanAuthorizeRequests_def scanPrefix_def allClientKeys_def scanClients_def
        FromFositeAuthorizeRequest_def)
  moreover have "is_RevokeAll (clients demo_operator_router) = kvs_RevokeAll ref_bolt" "repo demo_busy_world = demo_busy_kvs"
    by (simp_all add: demo_operator_router_def clients_def kvs_InventoryStorage_def demo_busy_world_def demo_browser_def)
  ultimately show ?thesis
    unfolding handleSettingsRevokeAll_def own by (auto simp: on_repo_eq)
qed

lemma demo_all_served:
  "\<exists>w'. serve (\<lambda>_. [RequireAuth, RequireCSRF, endpoint (handleSettingsRevokeAll demo_auth_env demo_operator_router)])
      [] demo_revoke_form demo_busy_world = (Some (settings_redirect ''revoked_all''), w')"
proof -
  have "authorized demo_busy_world" "csrf_ok demo_revoke_form demo_busy_world"
    by (simp_all add: authorized_def csrf_ok_def submitted_token_def demo_revoke_form_def CSRFFieldName_def
        values_Get_def demo_busy_world_def demo_browser_def demo_operator_session_def session_key_defs)
  then show ?thesis
    using demo_all_handled
    by (cases "handleSettingsRevokeAll demo_auth_env demo_operator_router demo_revoke_form demo_busy_world")
       (simp add: serve_def RequireAuth_authorized RequireCSRF_eq endpoint_def final_handler_def)
qed

lemma demo_all_route:
  "kill_scope SettingsRevokeAllEndpoint demo_revoke_form = Some (\<lambda>_. True, \<lambda>_. True)"
  "(''POST'', SettingsRevokeAllEndpoint, \<lambda>_. [RequireAuth, RequireCSRF,
       endpoint (handleSettingsRevokeAll demo_auth_env demo_operator_router)]) \<in>
     set (auth_SetupRoutes demo_auth_env demo_operator_router (\<lambda>_. 0))"
  by (simp_all add: kill_scope_def auth_endpoint_defs auth_SetupRoutes_def demo_operator_router_def)

theorem revoked_request_refused_witness:
  "\<exists>w1 g' w2 r2. serve (\<lambda>_. [RequireAuth, RequireCSRF, endpoint (handleSettingsRevokeAll demo_auth_env demo_operator_router)])
      [] demo_revoke_form demo_busy_world = (Some (settings_redirect ''revoked_all''), w1) \<and>
     repo w2 = sw_store (g' :: (ref_bucket kvs, unit, string) running) \<and> sess w2 = demo_session \<and>
     handleAuthorizationReturn demo_idp_env demo_router 21 ''r'' demo_consent w2 = (r2, w2) \<and>
     (r2 = forbidden_session \<or> r2 = load_failed)"
proof -
  obtain w1 where run: "serve (\<lambda>_. [RequireAuth, RequireCSRF, endpoint (handleSettingsRevokeAll demo_auth_env demo_operator_router)])
      [] demo_revoke_form demo_busy_world = (Some (settings_redirect ''revoked_all''), w1)"
    using demo_all_served by blast
  obtain g :: "(ref_bucket kvs, unit, string) running" where g: "rn_sweeper g = SweeperWaiting" "sw_store g = repo w1"
    by (rule demo_started)
  obtain g' where steps: "runs (kvs_repo ref_bolt Some) ref_lib demo_rc (demo_traffic 20) g g'"
    using demo_traffic_runs [OF g(1)] by blast
  define w2 where "w2 = demo_world demo_session (sw_store g')"
  then have w2: "repo w2 = sw_store g'" "sess w2 = demo_session" by (simp_all add: demo_world_def)
  obtain r2 w3 where h2: "handleAuthorizationReturn demo_idp_env demo_router 21 ''r'' demo_consent w2 = (r2, w3)"
    by fastforce
  have R: "running_store (kvs_repo ref_bolt Some) (kview ref_bolt)"
    using bolt_store.kvs_keeps [OF reference_store.bolt_store_axioms] by (simp add: keeping_store_def)
  have A: "ro_requests (kvs_repo ref_bolt Some) = kvs_AuthorizeRequestStorage ref_bolt Some"
    "ro_inventory (kvs_repo ref_bolt Some) = kvs_InventoryStorage ref_bolt" by (simp_all add: kvs_repo_def)
  have P: "pending_storage (ro_requests (kvs_repo ref_bolt Some)) (kview ref_bolt)"
    unfolding A by (rule bolt_bucket.kvs_pending [OF reference.bolt_bucket_axioms])
  have "au_clients demo_operator_router = Some (ro_inventory (kvs_repo ref_bolt Some), \<lambda>_ _. Inr [])"
    "a_repo_ar demo_router = ro_requests (kvs_repo ref_bolt Some)"
    by (simp_all add: A demo_operator_router_def demo_router_def)
  moreover have "kview ref_bolt (repo demo_busy_world) AuthorizeReq ''r'' = Some (DAuthorize (FromFositeAuthorizeRequest demo_ar))"
    by (simp add: demo_busy_world_def demo_browser_def demo_busy_kvs_def IdpProps.demo_pending_def kview_def bview_def ref_bolt_def
        family_prefix.simps prefix_defs)
  moreover have "revoke_hits (\<lambda>_. True) (\<lambda>_. True) AuthorizeReq ''r'' (DAuthorize (FromFositeAuthorizeRequest demo_ar))"
    by (simp add: revoke_hits_def session_families_def FromFositeAuthorizeRequest_def)
  ultimately have "w3 = w2 \<and> (r2 = forbidden_session \<or> r2 = load_failed)"
    by (intro revoked_request_refused [OF R P _ demo_all_route run revoke_done_simps(2) _ _ g(2) steps demo_traffic_quiet _ w2(1) h2])
  then show ?thesis using run h2 w2 by (intro exI conjI) (simp_all, auto)
qed

end
