(* ===== verification/Tlsreload.thy ===== *)
theory Tlsreload
  imports Models
begin

text \<open>
  \<^verbatim>\<open>pkg/tlsreload/file_reloader.go\<close>: the certificate pair of the HTTPS listener, read again when
  its files change.  The disk is what \<open>os.Stat\<close> and \<open>tls.LoadX509KeyPair\<close> answer during one
  call.
\<close>

section \<open>The reloader\<close>

record fileState =
  fi_modTime :: time
  fi_size :: int

record 'c tls_disk =
  dk_stat :: "string \<Rightarrow> fileState result"
  dk_pair :: "string \<Rightarrow> string \<Rightarrow> 'c result"

record 'c FileReloader =
  fr_certPath :: string
  fr_keyPath :: string
  fr_cert :: "'c option"
  fr_certState :: fileState
  fr_keyState :: fileState

definition NewFileReloader :: "string \<Rightarrow> string \<Rightarrow> 'c tls_disk \<Rightarrow> 'c FileReloader result" where
  "NewFileReloader certPath keyPath D =
     (case dk_stat D certPath of
        Inl _ \<Rightarrow> Inl (ErrMsg ''stat cert file'')
      | Inr certInfo \<Rightarrow>
          (case dk_stat D keyPath of
             Inl _ \<Rightarrow> Inl (ErrMsg ''stat key file'')
           | Inr keyInfo \<Rightarrow>
               (case dk_pair D certPath keyPath of
                  Inl _ \<Rightarrow> Inl (ErrMsg ''load key pair'')
                | Inr cert \<Rightarrow>
                    Inr \<lparr>fr_certPath = certPath, fr_keyPath = keyPath, fr_cert = Some cert,
                      fr_certState = certInfo, fr_keyState = keyInfo\<rparr>)))"

definition maybeReload :: "'c tls_disk \<Rightarrow> (unit, 'c FileReloader) act" where
  "maybeReload D r =
     (case dk_stat D (fr_certPath r) of
        Inl _ \<Rightarrow> (Inl (ErrMsg ''stat cert file''), r)
      | Inr newCertState \<Rightarrow>
          (case dk_stat D (fr_keyPath r) of
             Inl _ \<Rightarrow> (Inl (ErrMsg ''stat key file''), r)
           | Inr newKeyState \<Rightarrow>
               if fi_modTime newCertState = fi_modTime (fr_certState r) \<and>
                  fi_size newCertState = fi_size (fr_certState r) \<and>
                  fi_modTime newKeyState = fi_modTime (fr_keyState r) \<and>
                  fi_size newKeyState = fi_size (fr_keyState r) then (Inr (), r)
               else (case dk_pair D (fr_certPath r) (fr_keyPath r) of
                       Inl _ \<Rightarrow> (Inl (ErrMsg ''load key pair''), r)
                     | Inr cert \<Rightarrow>
                         (Inr (), r\<lparr>fr_cert := Some cert, fr_certState := newCertState,
                            fr_keyState := newKeyState\<rparr>))))"

definition GetCertificate :: "'c tls_disk \<Rightarrow> ('c, 'c FileReloader) act" where
  "GetCertificate D r =
     (let r' = snd (maybeReload D r)
      in (case fr_cert r' of
            None \<Rightarrow> (Inl (ErrMsg ''no TLS certificate loaded''), r')
          | Some cert \<Rightarrow> (Inr cert, r')))"

text \<open>A sequence of TLS handshakes, each with the disk it finds.\<close>

fun handshakes :: "'c tls_disk list \<Rightarrow> 'c FileReloader \<Rightarrow> 'c result list \<times> 'c FileReloader" where
  "handshakes [] r = ([], r)"
| "handshakes (D # Ds) r =
     (case GetCertificate D r of (c, r1) \<Rightarrow> case handshakes Ds r1 of (cs, r2) \<Rightarrow> (c # cs, r2))"

section \<open>What it serves\<close>

text \<open>Both files can be read and form a pair.\<close>

definition readable :: "string \<Rightarrow> string \<Rightarrow> 'c tls_disk \<Rightarrow> bool" where
  "readable cp kp D \<longleftrightarrow> \<not> isl (dk_stat D cp) \<and> \<not> isl (dk_stat D kp) \<and> \<not> isl (dk_pair D cp kp)"

text \<open>The pair on the latest readable disk.\<close>

fun latest_pair :: "string \<Rightarrow> string \<Rightarrow> 'c tls_disk list \<Rightarrow> 'c \<Rightarrow> 'c" where
  "latest_pair cp kp [] c = c"
| "latest_pair cp kp (D # Ds) c =
     latest_pair cp kp Ds (if readable cp kp D then projr (dk_pair D cp kp) else c)"

text \<open>A change of the pair shows in the time or the size of a file.\<close>

definition changes_show :: "string \<Rightarrow> string \<Rightarrow> 'c tls_disk set \<Rightarrow> bool" where
  "changes_show cp kp S \<longleftrightarrow>
     (\<forall>D \<in> S. \<forall>E \<in> S. readable cp kp D \<longrightarrow> readable cp kp E \<longrightarrow>
        dk_stat D cp = dk_stat E cp \<longrightarrow> dk_stat D kp = dk_stat E kp \<longrightarrow> dk_pair D cp kp = dk_pair E cp kp)"

definition holds_pair :: "string \<Rightarrow> string \<Rightarrow> 'c tls_disk \<Rightarrow> 'c FileReloader \<Rightarrow> bool" where
  "holds_pair cp kp D r \<longleftrightarrow>
     fr_certPath r = cp \<and> fr_keyPath r = kp \<and> readable cp kp D \<and>
     dk_stat D cp = Inr (fr_certState r) \<and> dk_stat D kp = Inr (fr_keyState r) \<and>
     (\<exists>c. dk_pair D cp kp = Inr c \<and> fr_cert r = Some c)"


lemma new_holds_pair:
  assumes "NewFileReloader cp kp D = Inr r"
  shows "holds_pair cp kp D r"
  using assms by (auto simp: NewFileReloader_def holds_pair_def readable_def split: sum.splits)

lemma reload_failed:
  assumes "maybeReload D r = (Inl e, r')"
  shows "r' = r"
  using assms by (auto simp: maybeReload_def split: sum.splits if_splits)

lemma reload_holds_pair:
  assumes "holds_pair cp kp D r"
  shows "snd (maybeReload E r) = r \<or> holds_pair cp kp E (snd (maybeReload E r))"
  using assms by (auto simp: maybeReload_def holds_pair_def readable_def split: sum.splits)

lemma fileState_eqI: "fi_modTime s = fi_modTime t \<Longrightarrow> fi_size s = fi_size t \<Longrightarrow> (s :: fileState) = t"
  by simp

text \<open>A readable disk is either loaded or has the times and sizes of the pair that is held.\<close>

lemma reload_readable:
  assumes "holds_pair cp kp D r" and "readable cp kp E"
  shows "holds_pair cp kp E (snd (maybeReload E r)) \<or>
    snd (maybeReload E r) = r \<and> dk_stat E cp = dk_stat D cp \<and> dk_stat E kp = dk_stat D kp"
  using assms
  by (auto simp: maybeReload_def holds_pair_def readable_def isl_def intro: fileState_eqI split: sum.splits)

lemma reload_unreadable:
  assumes "holds_pair cp kp D r" and "\<not> readable cp kp E"
  shows "snd (maybeReload E r) = r"
  using assms by (auto simp: maybeReload_def holds_pair_def readable_def split: sum.splits)

lemma GetCertificate_step:
  assumes "holds_pair cp kp D r" and "D \<in> S" and "E \<in> S" and "changes_show cp kp S"
  defines "c \<equiv> if readable cp kp E then projr (dk_pair E cp kp) else projr (dk_pair D cp kp)"
  shows "\<exists>F \<in> S. \<exists>r'. GetCertificate E r = (Inr c, r') \<and> holds_pair cp kp F r' \<and> dk_pair F cp kp = Inr c"
proof -
  let ?r = "snd (maybeReload E r)"
  have answer: "GetCertificate E r = (Inr c, ?r)" if "holds_pair cp kp F ?r" "dk_pair F cp kp = Inr c" for F
    using that by (auto simp: GetCertificate_def holds_pair_def)
  consider "\<not> readable cp kp E" | "readable cp kp E" "holds_pair cp kp E ?r"
    | "readable cp kp E" "?r = r" "dk_stat E cp = dk_stat D cp" "dk_stat E kp = dk_stat D kp"
    using reload_readable [OF assms(1)] by blast
  then show ?thesis
  proof cases
    case 1
    then have "dk_pair D cp kp = Inr c" "holds_pair cp kp D ?r"
      using assms(1) reload_unreadable [OF assms(1)] by (auto simp: c_def holds_pair_def)
    then show ?thesis using answer assms(2) by blast
  next
    case 2
    then have "dk_pair E cp kp = Inr c" by (auto simp: c_def holds_pair_def)
    then show ?thesis using answer 2 assms(3) by blast
  next
    case 3
    have "readable cp kp D" using assms(1) by (simp add: holds_pair_def)
    then have "dk_pair D cp kp = dk_pair E cp kp"
      using assms(2,3,4) 3 unfolding changes_show_def by metis
    then have "dk_pair D cp kp = Inr c" using assms(1) 3 by (auto simp: c_def holds_pair_def)
    moreover have "holds_pair cp kp D ?r" using assms(1) 3 by simp
    ultimately show ?thesis using answer assms(2) by blast
  qed
qed

lemma handshakes_latest:
  assumes "holds_pair cp kp D r" and "D \<in> S" and "set Ds \<subseteq> S" and "changes_show cp kp S"
  shows "fst (handshakes Ds r) =
    map (\<lambda>i. Inr (latest_pair cp kp (take (Suc i) Ds) (projr (dk_pair D cp kp)))) [0..<length Ds]"
  using assms(1,2,3)
proof (induction Ds arbitrary: D r)
  case (Cons E Ds)
  let ?c = "if readable cp kp E then projr (dk_pair E cp kp) else projr (dk_pair D cp kp)"
  obtain F r1 where 1: "F \<in> S" "GetCertificate E r = (Inr ?c, r1)" "holds_pair cp kp F r1" "dk_pair F cp kp = Inr ?c"
    using GetCertificate_step [OF Cons.prems(1,2) _ assms(4), of E] Cons.prems(3) by auto
  have "fst (handshakes Ds r1) =
      map (\<lambda>i. Inr (latest_pair cp kp (take (Suc i) Ds) ?c)) [0..<length Ds]"
    using Cons.IH [OF 1(3,1)] Cons.prems(3) 1(4) by simp
  then show ?case
    by (cases "handshakes Ds r1")
       (simp add: 1(2) upt_conv_Cons map_Suc_upt [symmetric] comp_def del: upt_Suc)
qed simp

text \<open>
  C19: the HTTPS listener always has a certificate, and the right one.  Once the gateway has
  loaded a pair, every handshake is answered, whatever happens to the files in between, and with the
  pair on the latest disk whose two files could be read and fitted together: a half-written update, a
  missing file or a mismatched key never takes the listener down, and the next complete update is
  picked up.  (As long as a change of the pair shows in the time or the size of one of the files.)
\<close>

theorem tls_serves_latest:
  assumes "NewFileReloader cp kp D = Inr r" and "changes_show cp kp (set (D # Ds))"
    and "handshakes Ds r = (cs, r')"
  shows "cs = map (\<lambda>i. Inr (latest_pair cp kp (take (Suc i) Ds) (projr (dk_pair D cp kp)))) [0..<length Ds]"
  using handshakes_latest [OF new_holds_pair [OF assms(1)] _ _ assms(2), of Ds] assms(3) by auto

definition demo_disk :: "time \<Rightarrow> string result \<Rightarrow> string tls_disk" where
  "demo_disk t pair = \<lparr>dk_stat = (\<lambda>_. Inr \<lparr>fi_modTime = t, fi_size = 3\<rparr>), dk_pair = (\<lambda>_ _. pair)\<rparr>"

text \<open>An update caught half-way, then complete.\<close>

theorem tls_serves_latest_witness:
  "\<exists>r r'. NewFileReloader ''c'' ''k'' (demo_disk 1 (Inr ''old'')) = Inr r \<and>
     handshakes [demo_disk 1 (Inr ''old''), demo_disk 2 (Inl ErrDecode), demo_disk 3 (Inr ''new'')] r =
       ([Inr ''old'', Inr ''old'', Inr ''new''], r')"
proof -
  let ?Ds = "[demo_disk 1 (Inr ''old''), demo_disk 2 (Inl ErrDecode), demo_disk 3 (Inr ''new'')]"
  obtain r where r: "NewFileReloader ''c'' ''k'' (demo_disk 1 (Inr ''old'')) = Inr r"
    by (simp add: NewFileReloader_def demo_disk_def)
  have c: "changes_show ''c'' ''k'' (set (demo_disk 1 (Inr ''old'') # ?Ds))"
    by (simp add: changes_show_def readable_def demo_disk_def)
  obtain cs r' where h: "handshakes ?Ds r = (cs, r')" by fastforce
  show ?thesis
    using tls_serves_latest [OF r c h] r h by (simp add: readable_def demo_disk_def upt_rec)
qed

end
