(* ===== verification/Stdio.thy ===== *)
theory Stdio
  imports Models
begin

text \<open>
  \<^verbatim>\<open>pkg/backend/proxy.go\<close>: the stdio upstream, a child process spoken to through an MCP client.
  The MCP client and server of mcp-go are parameters; the goroutines of \<open>Run\<close> and the calls of
  \<open>Wait\<close> are a step relation over the unbuffered channels they share.
\<close>

section \<open>Setting the bridge up\<close>

record upstream_info =
  ui_Name :: string
  ui_Version :: string
  ui_Tools :: bool
  ui_Prompts :: bool
  ui_Resources :: bool

text \<open>The MCP client; \<open>'x\<close> is the description of a tool, prompt or resource.\<close>

record ('x, 's) mcp_client =
  mp_Start :: "(unit, 's) act"
  mp_Initialize :: "(upstream_info, 's) act"
  mp_ListTools :: "('x list, 's) act"
  mp_ListPrompts :: "('x list, 's) act"
  mp_ListResources :: "('x list, 's) act"
  mp_Close :: "'s \<Rightarrow> 's"

text \<open>The MCP server, by what was registered with it, in order; every handler is the client's call
  of the same name.\<close>

record 'x mcp_server =
  sv_Name :: string
  sv_Version :: string
  sv_Tools :: "'x list"
  sv_Prompts :: "'x list"
  sv_Resources :: "'x list"

definition NewMCPServer :: "string \<Rightarrow> string \<Rightarrow> 'x mcp_server" where
  "NewMCPServer n v = \<lparr>sv_Name = n, sv_Version = v, sv_Tools = [], sv_Prompts = [], sv_Resources = []\<rparr>"

definition AddTool :: "'x \<Rightarrow> 'x mcp_server \<Rightarrow> 'x mcp_server" where
  "AddTool t srv = srv\<lparr>sv_Tools := sv_Tools srv @ [t]\<rparr>"

definition AddPrompt :: "'x \<Rightarrow> 'x mcp_server \<Rightarrow> 'x mcp_server" where
  "AddPrompt p srv = srv\<lparr>sv_Prompts := sv_Prompts srv @ [p]\<rparr>"

definition AddResource :: "'x \<Rightarrow> 'x mcp_server \<Rightarrow> 'x mcp_server" where
  "AddResource r srv = srv\<lparr>sv_Resources := sv_Resources srv @ [r]\<rparr>"

text \<open>One advertised capability: list, close the client on an error, register each item.\<close>

definition register_all ::
  "('x, 's) mcp_client \<Rightarrow> bool \<Rightarrow> ('x list, 's) act \<Rightarrow> string \<Rightarrow> ('x \<Rightarrow> 'x mcp_server \<Rightarrow> 'x mcp_server) \<Rightarrow>
     'x mcp_server \<Rightarrow> ('x mcp_server, 's) act" where
  "register_all C advertised list_items msg add srv s =
     (if \<not> advertised then (Inr srv, s)
      else (case list_items s of
              (Inl _, s') \<Rightarrow> (Inl (ErrMsg msg), mp_Close C s')
            | (Inr items, s') \<Rightarrow> (Inr (fold add items srv), s')))"

definition setupProxy :: "('x, 's) mcp_client \<Rightarrow> ('x mcp_server, 's) act" where
  "setupProxy C s =
     (case mp_Start C s of
        (Inl _, s1) \<Rightarrow> (Inl (ErrMsg ''failed to start MCP client''), s1)
      | (Inr _, s1) \<Rightarrow>
          (case mp_Initialize C s1 of
             (Inl _, s2) \<Rightarrow> (Inl (ErrMsg ''failed to initialize MCP client''), mp_Close C s2)
           | (Inr i, s2) \<Rightarrow>
               (case register_all C (ui_Tools i) (mp_ListTools C) ''failed to list tools'' AddTool
                       (NewMCPServer (ui_Name i) (ui_Version i)) s2 of
                  (Inl e, s3) \<Rightarrow> (Inl e, s3)
                | (Inr srv1, s3) \<Rightarrow>
                    (case register_all C (ui_Prompts i) (mp_ListPrompts C) ''failed to list prompts'' AddPrompt
                            srv1 s3 of
                       (Inl e, s4) \<Rightarrow> (Inl e, s4)
                     | (Inr srv2, s4) \<Rightarrow>
                         register_all C (ui_Resources i) (mp_ListResources C) ''failed to list resources''
                           AddResource srv2 s4))))"

lemma fold_AddTool: "fold AddTool xs srv = srv\<lparr>sv_Tools := sv_Tools srv @ xs\<rparr>"
  by (induction xs arbitrary: srv) (simp_all add: AddTool_def)

lemma fold_AddPrompt: "fold AddPrompt xs srv = srv\<lparr>sv_Prompts := sv_Prompts srv @ xs\<rparr>"
  by (induction xs arbitrary: srv) (simp_all add: AddPrompt_def)

lemma fold_AddResource: "fold AddResource xs srv = srv\<lparr>sv_Resources := sv_Resources srv @ xs\<rparr>"
  by (induction xs arbitrary: srv) (simp_all add: AddResource_def)

lemmas fold_Add = fold_AddTool fold_AddPrompt fold_AddResource

text \<open>A client that was started is closed on every failure.\<close>

lemma setup_failure_closes:
  assumes "setupProxy C s = (Inl e, s')" and "mp_Start C s = (Inr u, s1)"
  shows "\<exists>t. s' = mp_Close C t"
  using assms by (auto simp: setupProxy_def register_all_def split: prod.splits sum.splits if_splits)

text \<open>What is served is what the upstream listed, for the capabilities it advertised.\<close>

lemma register_all_Inr:
  assumes "register_all C advertised list_items msg add srv s = (Inr srv', s')"
  shows "if advertised then \<exists>items. fst (list_items s) = Inr items \<and> srv' = fold add items srv else srv' = srv"
  using assms by (auto simp: register_all_def split: prod.splits sum.splits if_splits)

lemma setup_mirrors:
  assumes "setupProxy C s = (Inr srv, s')"
  shows "\<exists>i t. fst (mp_Initialize C t) = Inr i \<and> sv_Name srv = ui_Name i \<and> sv_Version srv = ui_Version i \<and>
    (if ui_Tools i then \<exists>t. fst (mp_ListTools C t) = Inr (sv_Tools srv) else sv_Tools srv = []) \<and>
    (if ui_Prompts i then \<exists>t. fst (mp_ListPrompts C t) = Inr (sv_Prompts srv) else sv_Prompts srv = []) \<and>
    (if ui_Resources i then \<exists>t. fst (mp_ListResources C t) = Inr (sv_Resources srv) else sv_Resources srv = [])"
proof -
  obtain s1 i s2 srv1 s3 srv2 s4 where
    i: "mp_Initialize C s1 = (Inr i, s2)"
    and t: "register_all C (ui_Tools i) (mp_ListTools C) ''failed to list tools'' AddTool
        (NewMCPServer (ui_Name i) (ui_Version i)) s2 = (Inr srv1, s3)"
    and p: "register_all C (ui_Prompts i) (mp_ListPrompts C) ''failed to list prompts'' AddPrompt srv1 s3 = (Inr srv2, s4)"
    and r: "register_all C (ui_Resources i) (mp_ListResources C) ''failed to list resources'' AddResource srv2 s4 =
        (Inr srv, s')"
    using assms by (auto simp: setupProxy_def split: prod.splits sum.splits)
  show ?thesis
    by (rule exI [of _ i], rule exI [of _ s1])
       (use i register_all_Inr [OF t] register_all_Inr [OF p] register_all_Inr [OF r] in
         \<open>auto simp: fold_Add NewMCPServer_def split: if_splits\<close>)
qed

section \<open>Running and waiting\<close>

text \<open>The goroutine that waits for the command, with the error of \<open>execCmd.Wait\<close> (\<open>None\<close> is a
  clean exit); the goroutine that sets the bridge up; the call of \<open>Run\<close>; one call of \<open>Wait\<close>.\<close>

datatype cmd_phase = CmdRunning | CmdSending err | CmdDone "err option"

datatype setup_phase = SetupRunning | SetupSending err | SetupReady | SetupDone

datatype run_phase = RunSelect | RunFailed err | RunServing

datatype wait_phase = NoWait | WaitBlocked | WaitReturned "err option"

record 'h stdio =
  sb_errCh :: bool
  sb_cmd :: cmd_phase
  sb_setup :: setup_phase
  sb_handler :: "'h option"
  sb_run :: run_phase
  sb_wait :: wait_phase

text \<open>The synchronous part of \<open>Run\<close>: the pipes and the start of the command, then the channels and
  the goroutines.  An earlier call that got past the start leaves \<open>errCh\<close> set.\<close>

definition stdio_Run :: "unit result \<Rightarrow> unit result \<Rightarrow> unit result \<Rightarrow> bool \<Rightarrow> 'h stdio result" where
  "stdio_Run stdout stdin start errCh =
     (if errCh then Inl (ErrMsg ''proxy backend is already running'')
      else res_bind (case stdout of Inl _ \<Rightarrow> Inl (ErrMsg ''failed to get stdout pipe'') | Inr _ \<Rightarrow> Inr ()) (\<lambda>_.
           res_bind (case stdin of Inl _ \<Rightarrow> Inl (ErrMsg ''failed to get stdin pipe'') | Inr _ \<Rightarrow> Inr ()) (\<lambda>_.
           res_bind (case start of Inl _ \<Rightarrow> Inl (ErrMsg ''failed to start exec command'') | Inr _ \<Rightarrow> Inr ()) (\<lambda>_.
             Inr \<lparr>sb_errCh = True, sb_cmd = CmdRunning, sb_setup = SetupRunning, sb_handler = None,
               sb_run = RunSelect, sb_wait = NoWait\<rparr>))))"

text \<open>A send and a receive on an unbuffered channel are one step.  \<open>Run\<close> receives while it selects;
  \<open>Wait\<close> is called on a backend whose \<open>Run\<close> has returned.\<close>

inductive stdio_step :: "'h stdio \<Rightarrow> 'h stdio \<Rightarrow> bool" where
  CmdExits: "sb_cmd st = CmdRunning \<Longrightarrow>
     stdio_step st (st\<lparr>sb_cmd := (case exit of None \<Rightarrow> CmdDone None | Some e \<Rightarrow> CmdSending e)\<rparr>)"
| SetupFails: "sb_setup st = SetupRunning \<Longrightarrow> stdio_step st (st\<lparr>sb_setup := SetupSending e\<rparr>)"
| SetupSucceeds: "sb_setup st = SetupRunning \<Longrightarrow>
     stdio_step st (st\<lparr>sb_setup := SetupReady, sb_handler := Some h\<rparr>)"
| RunGetsCmd: "sb_run st = RunSelect \<Longrightarrow> sb_cmd st = CmdSending e \<Longrightarrow>
     stdio_step st (st\<lparr>sb_cmd := CmdDone (Some e), sb_run := RunFailed e\<rparr>)"
| RunGetsSetup: "sb_run st = RunSelect \<Longrightarrow> sb_setup st = SetupSending e \<Longrightarrow>
     stdio_step st (st\<lparr>sb_setup := SetupDone, sb_run := RunFailed e\<rparr>)"
| RunGetsDone: "sb_run st = RunSelect \<Longrightarrow> sb_setup st = SetupReady \<Longrightarrow>
     stdio_step st (st\<lparr>sb_setup := SetupDone, sb_run := RunServing\<rparr>)"
| WaitCalled: "sb_run st \<noteq> RunSelect \<Longrightarrow> sb_wait st = NoWait \<Longrightarrow>
     stdio_step st (st\<lparr>sb_wait := (if sb_errCh st then WaitBlocked else WaitReturned None)\<rparr>)"
| WaitGetsCmd: "sb_wait st = WaitBlocked \<Longrightarrow> sb_cmd st = CmdSending e \<Longrightarrow>
     stdio_step st (st\<lparr>sb_cmd := CmdDone (Some e), sb_wait := WaitReturned (Some e)\<rparr>)"
| WaitGetsSetup: "sb_wait st = WaitBlocked \<Longrightarrow> sb_setup st = SetupSending e \<Longrightarrow>
     stdio_step st (st\<lparr>sb_setup := SetupDone, sb_wait := WaitReturned (Some e)\<rparr>)"

inductive_cases stdio_stepE: "stdio_step st st'"

inductive stdio_reach :: "'h stdio \<Rightarrow> 'h stdio \<Rightarrow> bool" for st where
  reach_refl: "stdio_reach st st"
| reach_step: "stdio_reach st st1 \<Longrightarrow> stdio_step st1 st2 \<Longrightarrow> stdio_reach st st2"

text \<open>A backend whose \<open>Run\<close> returned a handler.\<close>

definition serving :: "'h stdio \<Rightarrow> bool" where
  "serving st \<longleftrightarrow> sb_errCh st \<and> sb_run st = RunServing \<and> sb_setup st = SetupDone \<and> sb_handler st \<noteq> None \<and>
     (case sb_wait st of
        WaitReturned x \<Rightarrow> (\<exists>e. x = Some e \<and> sb_cmd st = CmdDone (Some e))
      | _ \<Rightarrow> (\<forall>e. sb_cmd st \<noteq> CmdDone (Some e)))"

definition stdio_ok :: "'h stdio \<Rightarrow> bool" where
  "stdio_ok st \<longleftrightarrow> sb_errCh st \<and>
     (sb_setup st \<in> {SetupReady, SetupDone} \<and> sb_run st = RunServing \<longrightarrow> sb_handler st \<noteq> None) \<and>
     (sb_setup st = SetupReady \<longrightarrow> sb_handler st \<noteq> None) \<and>
     (sb_run st = RunSelect \<longrightarrow> sb_wait st = NoWait \<and> (\<forall>x. sb_cmd st \<noteq> CmdDone (Some x)) \<and> sb_setup st \<noteq> SetupDone) \<and>
     (sb_run st = RunServing \<longrightarrow> serving st)"


lemma run_ok: "stdio_Run a b c errCh = Inr st \<Longrightarrow> stdio_ok st"
  by (auto simp: stdio_Run_def res_bind_Inr stdio_ok_def split: if_splits)

lemma step_ok:
  assumes "stdio_step st st'" and "stdio_ok st"
  shows "stdio_ok st'"
  using assms
  by (cases rule: stdio_step.cases)
     (auto simp: stdio_ok_def serving_def split: wait_phase.splits option.splits)

lemma reach_ok: "stdio_reach st st' \<Longrightarrow> stdio_ok st \<Longrightarrow> stdio_ok st'"
  by (induction rule: stdio_reach.induct) (auto intro: step_ok)

text \<open>After a clean exit nothing is ever sent, so \<open>Wait\<close> stays blocked.\<close>

lemma clean_exit_step:
  assumes "stdio_step st st'" and "stdio_ok st" and "sb_run st = RunServing" and "sb_cmd st = CmdDone None"
  shows "sb_run st' = RunServing \<and> sb_cmd st' = CmdDone None \<and> (\<forall>x. sb_wait st' \<noteq> WaitReturned x)"
  using assms
  by (cases rule: stdio_step.cases)
     (auto simp: stdio_ok_def serving_def split: wait_phase.splits)

lemma clean_exit_reach:
  assumes "stdio_reach st st'" and "stdio_ok st" and "sb_run st = RunServing" and "sb_cmd st = CmdDone None"
  shows "stdio_ok st' \<and> sb_run st' = RunServing \<and> sb_cmd st' = CmdDone None \<and> (\<forall>x. sb_wait st' \<noteq> WaitReturned x)"
  using assms
proof (induction rule: stdio_reach.induct)
  case reach_refl
  then show ?case by (auto simp: stdio_ok_def serving_def split: wait_phase.splits)
next
  case (reach_step st1 st2)
  then show ?case using clean_exit_step [of st1 st2] step_ok [of st1 st2] by blast
qed

lemma stdio_serving:
  assumes "stdio_Run a b c False = Inr st0" and "stdio_reach st0 st" and "sb_run st = RunServing"
  shows "stdio_ok st" and "serving st"
  using reach_ok [OF assms(2) run_ok [OF assms(1)]] assms(3) by (simp_all add: stdio_ok_def)

text \<open>
  The stdio upstream is reported exactly when it fails.  Once \<open>Run\<close> has returned a handler,
  \<open>Wait\<close> returns only with the error its command ended with, and a blocked \<open>Wait\<close> can take that
  error at once; but a command that exits with status 0 sends nothing, and \<open>Wait\<close> then never
  returns.
\<close>

theorem stdio_wait_exact:
  assumes "stdio_Run a b c False = Inr st0" and "stdio_reach st0 st" and "sb_run st = RunServing"
  shows "sb_handler st \<noteq> None \<and>
    (\<forall>x. sb_wait st = WaitReturned x \<longrightarrow> (\<exists>e. x = Some e \<and> sb_cmd st = CmdDone (Some e))) \<and>
    (\<forall>e. sb_wait st = WaitBlocked \<and> sb_cmd st = CmdSending e \<longrightarrow>
       (\<exists>st'. stdio_step st st' \<and> sb_wait st' = WaitReturned (Some e))) \<and>
    (sb_cmd st = CmdDone None \<longrightarrow> (\<forall>st'. stdio_reach st st' \<longrightarrow> (\<forall>x. sb_wait st' \<noteq> WaitReturned x)))"
proof -
  note ok = stdio_serving [OF assms]
  have "\<exists>st'. stdio_step st st' \<and> sb_wait st' = WaitReturned (Some e)"
    if "sb_wait st = WaitBlocked" "sb_cmd st = CmdSending e" for e
    using WaitGetsCmd [OF that] by force
  moreover have "\<forall>x. sb_wait st = WaitReturned x \<longrightarrow> (\<exists>e. x = Some e \<and> sb_cmd st = CmdDone (Some e))"
    using ok(2) by (auto simp: serving_def)
  ultimately show ?thesis
    using ok clean_exit_reach [OF _ ok(1) assms(3)] by (auto simp: serving_def)
qed


text \<open>A bridge that is set up and waited for, whose command then exits with status 0.\<close>

definition demo_exited :: "nat stdio" where
  "demo_exited =
     \<lparr>sb_errCh = True, sb_cmd = CmdDone None, sb_setup = SetupDone, sb_handler = Some 7, sb_run = RunServing,
      sb_wait = WaitBlocked\<rparr>"

lemma demo_exited_reached:
  "\<exists>st0. stdio_Run (Inr ()) (Inr ()) (Inr ()) False = Inr st0 \<and> stdio_reach st0 demo_exited"
proof -
  let ?s0 = "\<lparr>sb_errCh = True, sb_cmd = CmdRunning, sb_setup = SetupRunning, sb_handler = None, sb_run = RunSelect,
      sb_wait = NoWait\<rparr> :: nat stdio"
  let ?s1 = "?s0\<lparr>sb_setup := SetupReady, sb_handler := Some 7\<rparr>"
  let ?s2 = "?s1\<lparr>sb_setup := SetupDone, sb_run := RunServing\<rparr>"
  let ?s3 = "?s2\<lparr>sb_wait := WaitBlocked\<rparr>"
  have 1: "stdio_step ?s0 ?s1" by (rule SetupSucceeds) simp
  have 2: "stdio_step ?s1 ?s2" by (rule RunGetsDone) simp_all
  have 3: "stdio_step ?s2 ?s3" using WaitCalled [of ?s2] by simp
  have 4: "stdio_step ?s3 demo_exited" using CmdExits [of ?s3 None] by (simp add: demo_exited_def)
  have "stdio_reach ?s0 demo_exited"
    by (rule reach_step [OF reach_step [OF reach_step [OF reach_step [OF reach_refl 1] 2] 3] 4])
  then show ?thesis by (simp add: stdio_Run_def)
qed

theorem stdio_wait_exact_witness:
  "\<forall>st'. stdio_reach demo_exited st' \<longrightarrow> (\<forall>x. sb_wait st' \<noteq> WaitReturned x)"
proof -
  obtain st0 where "stdio_Run (Inr ()) (Inr ()) (Inr ()) False = Inr st0" "stdio_reach st0 demo_exited"
    using demo_exited_reached by blast
  from stdio_wait_exact [OF this] show ?thesis by (simp add: demo_exited_def)
qed

end
