(* ===== verification/ParseProps.thy ===== *)
theory ParseProps
  imports Parse
begin

text \<open>
  The setting syntax: what can be written is read back, and no parse of a set allow-list leaves the
  login without a rule.
\<close>

section \<open>Writing settings\<close>

definition escape_entry :: "string \<Rightarrow> string" where
  "escape_entry e = concat (map (\<lambda>c. if c = CHR '','' then [CHR 0x5C, CHR '',''] else [c]) e)"

definition write_list :: "string list \<Rightarrow> string" where
  "write_list es = join (map escape_entry es) '',''"

text \<open>Entries that survive trimming and dropping.\<close>

definition clean :: "string \<Rightarrow> bool" where
  "clean e \<longleftrightarrow> e \<noteq> [] \<and> plain_byte (hd e) \<and> plain_byte (last e)"

definition ends_open :: "string \<Rightarrow> bool" where
  "ends_open e \<longleftrightarrow> e \<noteq> [] \<and> last e = CHR 0x5C"

text \<open>A backslash at the end of an entry would escape the comma after it.\<close>

definition writable :: "string list \<Rightarrow> bool" where
  "writable es \<longleftrightarrow> list_all clean es \<and> list_all (\<lambda>e. \<not> ends_open e) (butlast es)"

lemma clean_trim: "clean e \<Longrightarrow> trim_space e = e"
  by (simp add: clean_def trim_space_plain)

lemma escape_entry_simps [simp]:
  "escape_entry [] = []"
  "escape_entry (c # e) = (if c = CHR '','' then CHR 0x5C # CHR '','' # escape_entry e else c # escape_entry e)"
  by (simp_all add: escape_entry_def)

lemma escape_entry_no_comma: "escape_entry e = CHR '','' # s \<Longrightarrow> False"
  by (cases e) (auto split: if_splits)

lemma split_entry:
  "\<not> ends_open e \<Longrightarrow> split_escaped '','' (escape_entry e @ CHR '','' # t) current False =
     trim_space (current @ e) # split_escaped '','' t [] False"
proof (induction e arbitrary: current)
  case (Cons c e)
  have ne: "\<not> ends_open e" and bs: "c = CHR 0x5C \<Longrightarrow> e \<noteq> []" using Cons.prems by (auto simp: ends_open_def)
  consider "c = CHR '',''" | "c = CHR 0x5C" | "c \<noteq> CHR '',''" "c \<noteq> CHR 0x5C" by blast
  then show ?case
  proof cases
    case 1
    then show ?thesis using Cons.IH [OF ne, of "current @ [c]"] by simp
  next
    case 2
    then obtain x s where "escape_entry e = x # s" "x \<noteq> CHR '',''"
      using bs escape_entry_no_comma by (cases "escape_entry e"; cases e) (auto split: if_splits)
    then show ?thesis using 2 Cons.IH [OF ne, of "current @ [c]"] by simp
  next
    case 3
    then show ?thesis using Cons.IH [OF ne, of "current @ [c]"] by simp
  qed
qed simp

lemma split_last_entry: "split_escaped '','' (escape_entry e) current False = [trim_space (current @ e)]"
proof (induction e arbitrary: current)
  case (Cons c e)
  consider "c = CHR '',''" | "c = CHR 0x5C" | "c \<noteq> CHR '',''" "c \<noteq> CHR 0x5C" by blast
  then show ?case
  proof cases
    case 2
    then show ?thesis
      using Cons.IH [of "current @ [c]"] escape_entry_no_comma [of e] by (cases "escape_entry e") auto
  qed (use Cons.IH [of "current @ [c]"] in simp_all)
qed simp

lemma split_write:
  "es \<noteq> [] \<Longrightarrow> list_all (\<lambda>e. trim_space e = e) es \<Longrightarrow> list_all (\<lambda>e. \<not> ends_open e) (butlast es) \<Longrightarrow>
     split_escaped '','' (write_list es) [] False = es"
proof (induction es rule: induct_list012)
  case (3 x y zs)
  have "write_list (x # y # zs) = escape_entry x @ CHR '','' # write_list (y # zs)"
    by (simp add: write_list_def)
  with 3 show ?case by (simp add: split_entry)
qed (simp_all add: write_list_def split_last_entry)

lemma escape_entry_ne: "escape_entry e = [] \<longleftrightarrow> e = []"
  by (cases e) auto

lemma write_list_ne: "es \<noteq> [] \<Longrightarrow> list_all clean es \<Longrightarrow> write_list es \<noteq> []"
  by (cases es rule: remdups_adj.cases) (simp_all add: write_list_def clean_def escape_entry_ne)

lemma splitWithEscapes_write:
  "writable es \<Longrightarrow> es \<noteq> [] \<Longrightarrow> splitWithEscapes (write_list es) '','' = es"
  using split_write [of es] write_list_ne [of es]
  by (simp add: writable_def splitWithEscapes_def list_all_iff clean_trim)

lemma writable_trim: "writable es \<Longrightarrow> filter (\<lambda>e. e \<noteq> []) (map trim_space es) = es"
  by (auto simp: writable_def list_all_iff clean_trim clean_def filter_id_conv intro!: map_idI)

lemma parse_list_write: "writable es \<Longrightarrow> parseAllowList (write_list es) splitEscapedCSV = Inr es"
proof (cases "es = []")
  case False
  assume w: "writable es"
  then have "filter (\<lambda>e. e \<noteq> []) (map trim_space es) = es" by (rule writable_trim)
  then show ?thesis
    using w False splitWithEscapes_write [OF w False] write_list_ne [OF False]
    by (simp add: parseAllowList_def splitEscapedCSV_def writable_def Let_def)
qed (simp add: parseAllowList_def write_list_def)

lemma parse_csv_write:
  assumes "list_all clean us" and "list_all (\<lambda>u. CHR '','' \<notin> set u) us"
  shows "parseAllowList (join us '','') splitCSV = Inr us"
proof (cases "us = []")
  case False
  then have ne: "join us '','' \<noteq> []"
    using assms(1) by (cases us rule: remdups_adj.cases) (simp_all add: clean_def)
  have "split_char (join us '','') (CHR '','') = us"
    using False assms(2) by (intro split_join) (auto simp: list_all_iff)
  moreover have "map trim_space us = us" using assms(1) by (auto simp: list_all_iff clean_trim intro!: map_idI)
  moreover have "filter (\<lambda>e. e \<noteq> []) us = us" using assms(1) by (auto simp: list_all_iff clean_def filter_id_conv)
  ultimately show ?thesis using False ne by (simp add: parseAllowList_def splitCSV_def)
qed (simp add: parseAllowList_def)

section \<open>Attribute maps\<close>

definition attribute_entries :: "(string \<times> string list) list \<Rightarrow> string list" where
  "attribute_entries m = concat (map (\<lambda>(k, vs). map (\<lambda>v. k @ ''='' @ v) vs) m)"

text \<open>The maps that the syntax can write.\<close>

definition writable_map :: "(string \<times> string list) list \<Rightarrow> bool" where
  "writable_map m \<longleftrightarrow> distinct (map fst m) \<and> writable (attribute_entries m) \<and>
     (\<forall>(k, vs) \<in> set m. clean k \<and> has_prefix k ''/'' \<and> CHR ''='' \<notin> set k \<and> vs \<noteq> [] \<and> list_all clean vs)"

lemma attribute_entry_write:
  assumes "clean k" "has_prefix k ''/''" "CHR ''='' \<notin> set k" "clean v"
  shows "attribute_entry (k @ ''='' @ v) = Inr (Some (k, v))"
proof -
  have "clean (k @ ''='' @ v)" using assms by (auto simp: clean_def)
  moreover have "cut_char (k @ ''='' @ v) (CHR ''='') = (k, v, True)"
    using assms(3) by (simp add: cut_char_def takeWhile_append dropWhile_append dropWhile_eq_Nil_conv [THEN iffD2]
        takeWhile_eq_all_conv [THEN iffD2])
  ultimately show ?thesis
    using assms by (simp add: attribute_entry_def clean_trim Let_def clean_def)
qed

lemma add_values:
  "k \<notin> fst ` set m \<Longrightarrow> vs \<noteq> [] \<Longrightarrow> fold (values_Add k) vs m = m @ [(k, vs)]"
proof (induction vs rule: rev_induct)
  case (snoc v vs)
  show ?case
  proof (cases "vs = []")
    case False
    have "map (\<lambda>(k', ws). if k' = k then (k', ws @ [v]) else (k', ws)) m = m"
      using snoc.prems(1) by (intro map_idI) force
    then show ?thesis using snoc False by (simp add: values_Add_def)
  qed (use snoc.prems in \<open>simp add: values_Add_def\<close>)
qed simp

abbreviation read_entry :: "string \<Rightarrow> (string \<times> string list) list \<Rightarrow> (string \<times> string list) list result" where
  "read_entry part result \<equiv> res_bind (attribute_entry part) (\<lambda>e.
     Inr (case e of None \<Rightarrow> result | Some (k, v) \<Rightarrow> values_Add k v result))"

lemma read_values:
  "clean k \<Longrightarrow> has_prefix k ''/'' \<Longrightarrow> CHR ''='' \<notin> set k \<Longrightarrow> list_all clean vs \<Longrightarrow>
     fold_res read_entry (map (\<lambda>v. k @ ''='' @ v) vs) m = Inr (fold (values_Add k) vs m)"
  by (induction vs arbitrary: m) (simp_all add: attribute_entry_write [simplified])

lemma read_map:
  assumes "\<forall>(k, vs) \<in> set xs. clean k \<and> has_prefix k ''/'' \<and> CHR ''='' \<notin> set k \<and> vs \<noteq> [] \<and> list_all clean vs"
    and "distinct (map fst (m @ xs))"
  shows "fold_res read_entry (attribute_entries xs) m = Inr (m @ xs)"
  using assms
proof (induction xs arbitrary: m)
  case (Cons x xs)
  obtain k vs where x: "x = (k, vs)" by fastforce
  have "fold_res read_entry (attribute_entries (x # xs)) m =
      fold_res read_entry (attribute_entries xs) (fold (values_Add k) vs m)"
    using Cons.prems(1) by (simp add: x attribute_entries_def fold_res_append read_values [simplified])
  also have "fold (values_Add k) vs m = m @ [(k, vs)]"
    using Cons.prems by (intro add_values) (auto simp: x)
  finally show ?case using Cons.IH [of "m @ [(k, vs)]"] Cons.prems by (simp add: x)
qed (simp add: attribute_entries_def)

lemma parse_map_write:
  assumes "writable_map m"
  shows "parseAttributeMap (write_list (attribute_entries m)) = Inr m"
proof (cases "m = []")
  case True
  then show ?thesis by (simp add: parseAttributeMap_def attribute_entries_def write_list_def)
next
  case False
  then obtain k v vs xs where "m = (k, v # vs) # xs"
    using assms by (cases m) (auto simp: writable_map_def neq_Nil_conv)
  then have ne: "attribute_entries m \<noteq> []" by (simp add: attribute_entries_def)
  have "splitWithEscapes (write_list (attribute_entries m)) '','' = attribute_entries m"
    using assms ne by (intro splitWithEscapes_write) (auto simp: writable_map_def)
  moreover have "fold_res read_entry (attribute_entries m) [] = Inr m"
    using read_map [of m "[]"] assms by (simp add: writable_map_def)
  ultimately show ?thesis
    using False write_list_ne [OF ne] assms by (simp add: parseAttributeMap_def writable_map_def writable_def)
qed

section \<open>The properties\<close>

definition write_allow_lists :: "oidcAllowLists \<Rightarrow> oidcAllowListSettings" where
  "write_allow_lists L =
     \<lparr>as_Users = join (al_Users L) '','', as_UsersGlob = write_list (al_UsersGlob L),
      as_Attributes = write_list (attribute_entries (al_Attributes L)),
      as_AttributesGlob = write_list (attribute_entries (al_AttributesGlob L))\<rparr>"

text \<open>
  C21: the syntax of the allow-lists loses nothing.  Lists of entries that begin and end in visible
  ASCII, plain user names without a comma, and no backslash right before a separator, are read back
  exactly from what \<open>write_allow_lists\<close> writes: commas inside an entry survive through \<open>\,\<close>.
\<close>

theorem allow_lists_roundtrip:
  assumes "list_all clean (al_Users L)" and "list_all (\<lambda>u. CHR '','' \<notin> set u) (al_Users L)"
    and "writable (al_UsersGlob L)" and "writable_map (al_Attributes L)" and "writable_map (al_AttributesGlob L)"
  shows "parse_allow_lists (write_allow_lists L) = Inr L"
  using parse_csv_write [OF assms(1,2)] parse_list_write [OF assms(3)] parse_map_write [OF assms(4)]
    parse_map_write [OF assms(5)]
  by (simp add: parse_allow_lists_def write_allow_lists_def named_def)

definition demo_lists :: oidcAllowLists where
  "demo_lists =
     \<lparr>al_Users = [''me'', ''you''], al_UsersGlob = [''{a,b}@x'', ''*''],
      al_Attributes = [(''/groups'', [''admin'', ''ops,eu'']), (''/org'', [''g''])], al_AttributesGlob = []\<rparr>"

lemma demo_plain: "plain_byte c \<longleftrightarrow> 33 \<le> byte c \<and> byte c < 127"
  by (rule plain_byte_def)

theorem allow_lists_roundtrip_witness:
  "as_UsersGlob (write_allow_lists demo_lists) = [CHR ''{'', CHR ''a'', CHR 0x5C] @ '',b}@x,*'' \<and>
   parse_allow_lists (write_allow_lists demo_lists) = Inr demo_lists"
proof
  show "as_UsersGlob (write_allow_lists demo_lists) = [CHR ''{'', CHR ''a'', CHR 0x5C] @ '',b}@x,*''"
    by (simp add: write_allow_lists_def demo_lists_def write_list_def)
  show "parse_allow_lists (write_allow_lists demo_lists) = Inr demo_lists"
    by (rule allow_lists_roundtrip)
       (simp_all add: demo_lists_def clean_def demo_plain writable_def writable_map_def attribute_entries_def ends_open_def)
qed

section \<open>No rule is dropped\<close>

lemma parse_list_exact:
  "parseAllowList raw split = Inr es \<Longrightarrow> raw \<noteq> [] \<Longrightarrow>
     es = filter (\<lambda>e. e \<noteq> []) (map trim_space (split raw)) \<and> es \<noteq> []"
  by (auto simp: parseAllowList_def Let_def split: if_splits)

lemma parse_list_unset: "parseAllowList raw split = Inr es \<Longrightarrow> es = [] \<longleftrightarrow> raw = []"
  by (auto simp: parseAllowList_def Let_def split: if_splits)

lemma attribute_entry_blank: "attribute_entry part = Inr None \<longleftrightarrow> trim_space part = []"
  by (auto simp: attribute_entry_def Let_def split: if_splits prod.splits)

lemma read_keeps:
  assumes "fold_res read_entry parts m = Inr m'"
  shows "set (values_All m k) \<subseteq> set (values_All m' k)"
    and "part \<in> set parts \<Longrightarrow> trim_space part \<noteq> [] \<Longrightarrow>
      \<exists>k v. attribute_entry part = Inr (Some (k, v)) \<and> v \<in> set (values_All m' k)"
proof -
  have "set (values_All m k) \<subseteq> set (values_All m' k) \<and> (part \<in> set parts \<longrightarrow> trim_space part \<noteq> [] \<longrightarrow>
      (\<exists>k v. attribute_entry part = Inr (Some (k, v)) \<and> v \<in> set (values_All m' k)))" for k
    using assms
  proof (induction parts arbitrary: m k)
    case (Cons x xs)
    obtain e where e: "attribute_entry x = Inr e"
      and rest: "fold_res read_entry xs (case e of None \<Rightarrow> m | Some (k, v) \<Rightarrow> values_Add k v m) = Inr m'"
      using Cons.prems by (auto simp: res_bind_Inr)
    note IH = Cons.IH [OF rest]
    show ?case
    proof (cases e)
      case None
      then show ?thesis using IH e by (auto simp: attribute_entry_blank)
    next
      case (Some kv)
      obtain k1 v1 where kv: "e = Some (k1, v1)" using Some by (cases kv) auto
      have "v1 \<in> set (values_All m' k1)" using IH [of k1] by (simp add: kv values_Add_All)
      moreover have "set (values_All m k) \<subseteq> set (values_All (values_Add k1 v1 m) k)" by (auto simp: values_Add_All)
      ultimately show ?thesis using IH [of k] e kv by fastforce
    qed
  qed auto
  then show "set (values_All m k) \<subseteq> set (values_All m' k)"
    and "part \<in> set parts \<Longrightarrow> trim_space part \<noteq> [] \<Longrightarrow>
      \<exists>k v. attribute_entry part = Inr (Some (k, v)) \<and> v \<in> set (values_All m' k)" by blast+
qed

lemma parse_map_keeps:
  assumes "parseAttributeMap s = Inr m"
  shows "part \<in> set (splitEscapedCSV s) \<Longrightarrow> trim_space part \<noteq> [] \<Longrightarrow>
      \<exists>k v. attribute_entry part = Inr (Some (k, v)) \<and> v \<in> set (values_All m k)"
    and "m = [] \<longleftrightarrow> s = []"
proof -
  have "part \<in> set (splitEscapedCSV s) \<Longrightarrow> fold_res read_entry (splitWithEscapes s '','') [] = Inr m"
    using assms by (auto simp: parseAttributeMap_def res_bind_Inr splitEscapedCSV_def splitWithEscapes_def split: if_splits)
  then show "part \<in> set (splitEscapedCSV s) \<Longrightarrow> trim_space part \<noteq> [] \<Longrightarrow>
      \<exists>k v. attribute_entry part = Inr (Some (k, v)) \<and> v \<in> set (values_All m k)"
    using read_keeps(2) [of "splitWithEscapes s '',''" "[]" m part] by (auto simp: splitEscapedCSV_def)
  show "m = [] \<longleftrightarrow> s = []" using assms by (auto simp: parseAttributeMap_def res_bind_Inr split: if_splits)
qed

text \<open>The provider settings that the lists go into.\<close>

definition with_lists :: "oidcAllowLists \<Rightarrow> oidc_settings \<Rightarrow> oidc_settings" where
  "with_lists L s =
     s\<lparr>os_allowedUsers := al_Users L, os_allowedUsersGlob := al_UsersGlob L,
       os_allowedAttributes := al_Attributes L, os_allowedAttributesGlob := al_AttributesGlob L\<rparr>"

text \<open>
  The allow-lists fail closed.  When the four settings parse, every entry that is not blank has
  become a rule, so a setting that is set never turns into an empty list; and with all four
  settings empty no provider is created.
\<close>

theorem allow_lists_fail_closed:
  assumes "parse_allow_lists S = Inr L"
  shows "(\<forall>part \<in> set (splitCSV (as_Users S)). trim_space part \<noteq> [] \<longrightarrow> trim_space part \<in> set (al_Users L)) \<and>
    (\<forall>part \<in> set (splitEscapedCSV (as_UsersGlob S)). trim_space part \<noteq> [] \<longrightarrow> trim_space part \<in> set (al_UsersGlob L)) \<and>
    (\<forall>part \<in> set (splitEscapedCSV (as_Attributes S)). trim_space part \<noteq> [] \<longrightarrow>
      (\<exists>k v. attribute_entry part = Inr (Some (k, v)) \<and> v \<in> set (values_All (al_Attributes L) k))) \<and>
    (\<forall>part \<in> set (splitEscapedCSV (as_AttributesGlob S)). trim_space part \<noteq> [] \<longrightarrow>
      (\<exists>k v. attribute_entry part = Inr (Some (k, v)) \<and> v \<in> set (values_All (al_AttributesGlob L) k))) \<and>
    (al_Users L = [] \<longleftrightarrow> as_Users S = []) \<and> (al_UsersGlob L = [] \<longleftrightarrow> as_UsersGlob S = []) \<and>
    (al_Attributes L = [] \<longleftrightarrow> as_Attributes S = []) \<and> (al_AttributesGlob L = [] \<longleftrightarrow> as_AttributesGlob S = []) \<and>
    (as_Users S = [] \<and> as_UsersGlob S = [] \<and> as_Attributes S = [] \<and> as_AttributesGlob S = [] \<longrightarrow>
      NewOIDCProvider lib (with_lists L s) = Inl ErrNoAllowList)"
proof -
  have p: "parseAllowList (as_Users S) splitCSV = Inr (al_Users L)"
    "parseAllowList (as_UsersGlob S) splitEscapedCSV = Inr (al_UsersGlob L)"
    "parseAttributeMap (as_Attributes S) = Inr (al_Attributes L)"
    "parseAttributeMap (as_AttributesGlob S) = Inr (al_AttributesGlob L)"
    using assms by (auto simp: parse_allow_lists_def res_bind_Inr)
  have list: "trim_space part \<in> set es" if "parseAllowList raw split = Inr es" "part \<in> set (split raw)"
    "trim_space part \<noteq> []" "split [] = []" for raw split es part
    using parse_list_exact [OF that(1)] that by (cases "raw = []") auto
  have none: "splitCSV [] = []" "splitEscapedCSV [] = []"
    by (simp_all add: splitCSV_def splitEscapedCSV_def splitWithEscapes_def)
  show ?thesis
    using list [OF p(1) _ _ none(1)] list [OF p(2) _ _ none(2)] parse_map_keeps [OF p(3)] parse_map_keeps [OF p(4)]
      parse_list_unset [OF p(1)] parse_list_unset [OF p(2)]
    by (auto simp: NewOIDCProvider_def with_lists_def hasAllowRule_def Let_def)
qed

theorem allow_lists_fail_closed_witness:
  "let S = \<lparr>as_Users = ''me,'', as_UsersGlob = [], as_Attributes = [], as_AttributesGlob = []\<rparr>
   in \<exists>L. parse_allow_lists S = Inr L \<and> ''me'' \<in> set (al_Users L)"
proof -
  let ?S = "\<lparr>as_Users = ''me,'', as_UsersGlob = [], as_Attributes = [], as_AttributesGlob = []\<rparr>"
  have me: "trim_space ''me'' = ''me''" by (rule trim_space_plain) (simp_all add: demo_plain)
  then obtain L where L: "parse_allow_lists ?S = Inr L"
    by (simp add: parse_allow_lists_def parseAllowList_def splitCSV_def parseAttributeMap_def named_def)
  show ?thesis using allow_lists_fail_closed [OF L] L me by (auto simp: splitCSV_def)
qed

end
