(* ===== verification/Command.thy ===== *)
theory Command
  imports Config ParseProps
begin

text \<open>
  \<^verbatim>\<open>main.go\<close>: the settings of the root command.  The flags take their defaults from the
  environment; the command line (parsed by cobra) is a parameter that changes them; then the lists
  are parsed and the configuration of the gateway is built.
\<close>

section \<open>The flags\<close>

record rootFlags =
  fl_listen :: string
  fl_tlsListen :: string
  fl_noAutoTLS :: bool
  fl_tlsHost :: string
  fl_tlsDirectoryURL :: string
  fl_tlsAcceptTOS :: bool
  fl_tlsCertFile :: string
  fl_tlsKeyFile :: string
  fl_dataPath :: string
  fl_repositoryBackend :: string
  fl_repositoryDSN :: string
  fl_externalURL :: string
  fl_oidcConfigurationURL :: string
  fl_oidcClientID :: string
  fl_oidcClientSecret :: string
  fl_oidcScopes :: string
  fl_oidcUserIDField :: string
  fl_oidcProviderName :: string
  fl_oidcAllowedUsers :: string
  fl_oidcAllowedUsersGlob :: string
  fl_oidcAllowedAttributes :: string
  fl_oidcAllowedAttributesGlob :: string
  fl_noProviderAutoSelect :: bool
  fl_password :: string
  fl_passwordHash :: string
  fl_proxyBearerToken :: string
  fl_forwardAuthorizationHeader :: bool
  fl_proxyHeaders :: string
  fl_headerMapping :: string
  fl_headerMappingBase :: string
  fl_httpStreamingOnly :: bool
  fl_trustedProxies :: string
  fl_oidcDiscoveryMirror :: bool
  fl_clockSkew :: duration
  fl_accessTokenTTL :: duration
  fl_authCodeTTL :: duration
  fl_refreshTokenTTL :: duration
  fl_originCheckEnabled :: bool
  fl_cimdEnabled :: bool
  fl_cimdFetchTimeout :: duration
  fl_cimdMaxSize :: int
  fl_cimdCacheTTL :: duration
  fl_dcrEnabled :: bool
  fl_dcrClientTTL :: duration
  fl_dcrMaxClients :: int
  fl_keyAlg :: string
  fl_keyRotationInterval :: duration
  fl_rateLimitRegister :: string
  fl_rateLimitToken :: string
  fl_rateLimitLogin :: string
  fl_rateLimitAuthorize :: string
  fl_loginLockoutThreshold :: int
  fl_loginLockoutDuration :: duration

text \<open>The values before the command line, in the order the flags are declared: a malformed boolean,
  duration or number panics.\<close>

definition root_flags :: "(string \<Rightarrow> duration option) \<Rightarrow> environment \<Rightarrow> rootFlags result" where
  "root_flags parse_duration env =
     res_bind (getEnvBoolWithDefault env ''NO_AUTO_TLS'' False) (\<lambda>noAutoTLS.
     res_bind (getEnvBoolWithDefault env ''TLS_ACCEPT_TOS'' False) (\<lambda>tlsAcceptTOS.
     res_bind (getEnvBoolWithDefault env ''OIDC_DISCOVERY_MIRROR'' False) (\<lambda>oidcDiscoveryMirror.
     res_bind (getEnvDurationWithDefault parse_duration env ''CLOCK_SKEW'' (30 * second)) (\<lambda>clockSkew.
     res_bind (getEnvDurationWithDefault parse_duration env ''ACCESS_TOKEN_TTL'' hour) (\<lambda>accessTokenTTL.
     res_bind (getEnvDurationWithDefault parse_duration env ''AUTH_CODE_TTL'' (10 * minute)) (\<lambda>authCodeTTL.
     res_bind (getEnvDurationWithDefault parse_duration env ''REFRESH_TOKEN_TTL'' (720 * hour)) (\<lambda>refreshTokenTTL.
     res_bind (getEnvBoolWithDefault env ''ORIGIN_CHECK_ENABLED'' True) (\<lambda>originCheckEnabled.
     res_bind (getEnvBoolWithDefault env ''CIMD_ENABLED'' True) (\<lambda>cimdEnabled.
     res_bind (getEnvDurationWithDefault parse_duration env ''CIMD_FETCH_TIMEOUT'' (5 * second)) (\<lambda>cimdFetchTimeout.
     res_bind (getEnvInt64WithDefault env ''CIMD_MAX_SIZE'' 65536) (\<lambda>cimdMaxSize.
     res_bind (getEnvDurationWithDefault parse_duration env ''CIMD_CACHE_TTL'' hour) (\<lambda>cimdCacheTTL.
     res_bind (getEnvBoolWithDefault env ''DCR_ENABLED'' True) (\<lambda>dcrEnabled.
     res_bind (getEnvDurationWithDefault parse_duration env ''DCR_CLIENT_TTL'' (720 * hour)) (\<lambda>dcrClientTTL.
     res_bind (getEnvIntWithDefault env ''DCR_MAX_CLIENTS'' 100) (\<lambda>dcrMaxClients.
     res_bind (getEnvDurationWithDefault parse_duration env ''KEY_ROTATION_INTERVAL'' (2160 * hour)) (\<lambda>keyRotationInterval.
     res_bind (getEnvIntWithDefault env ''LOGIN_LOCKOUT_THRESHOLD'' 10) (\<lambda>loginLockoutThreshold.
     res_bind (getEnvDurationWithDefault parse_duration env ''LOGIN_LOCKOUT_DURATION'' (15 * minute)) (\<lambda>loginLockoutDuration.
     res_bind (getEnvBoolWithDefault env ''NO_PROVIDER_AUTO_SELECT'' False) (\<lambda>noProviderAutoSelect.
     res_bind (getEnvBoolWithDefault env ''PROXY_FORWARD_AUTHORIZATION'' False) (\<lambda>forwardAuthorizationHeader.
     res_bind (getEnvBoolWithDefault env ''HTTP_STREAMING_ONLY'' False) (\<lambda>httpStreamingOnly.
       Inr \<lparr>fl_listen = getEnvWithDefault env ''LISTEN'' '':80'',
         fl_tlsListen = getEnvWithDefault env ''TLS_LISTEN'' '':443'', fl_noAutoTLS = noAutoTLS,
         fl_tlsHost = getEnvWithDefault env ''TLS_HOST'' [],
         fl_tlsDirectoryURL = getEnvWithDefault env ''TLS_DIRECTORY_URL'' ''https://acme-v02.api.letsencrypt.org/directory'',
         fl_tlsAcceptTOS = tlsAcceptTOS, fl_tlsCertFile = getEnvWithDefault env ''TLS_CERT_FILE'' [],
         fl_tlsKeyFile = getEnvWithDefault env ''TLS_KEY_FILE'' [],
         fl_dataPath = getEnvWithDefault env ''DATA_PATH'' ''./data'',
         fl_repositoryBackend = getEnvWithDefault env ''REPOSITORY_BACKEND'' ''local'',
         fl_repositoryDSN = getEnvWithDefault env ''REPOSITORY_DSN'' [],
         fl_externalURL = getEnvWithDefault env ''EXTERNAL_URL'' ''http://localhost'',
         fl_oidcConfigurationURL = getEnvWithDefault env ''OIDC_CONFIGURATION_URL'' [],
         fl_oidcClientID = getEnvWithDefault env ''OIDC_CLIENT_ID'' [],
         fl_oidcClientSecret = getEnvWithDefault env ''OIDC_CLIENT_SECRET'' [],
         fl_oidcScopes = getEnvWithDefault env ''OIDC_SCOPES'' ''openid,profile,email'',
         fl_oidcUserIDField = getEnvWithDefault env ''OIDC_USER_ID_FIELD'' ''/email'',
         fl_oidcProviderName = getEnvWithDefault env ''OIDC_PROVIDER_NAME'' ''OIDC'',
         fl_oidcAllowedUsers = getEnvWithDefault env ''OIDC_ALLOWED_USERS'' [],
         fl_oidcAllowedUsersGlob = getEnvWithDefault env ''OIDC_ALLOWED_USERS_GLOB'' [],
         fl_oidcAllowedAttributes = getEnvWithDefault env ''OIDC_ALLOWED_ATTRIBUTES'' [],
         fl_oidcAllowedAttributesGlob = getEnvWithDefault env ''OIDC_ALLOWED_ATTRIBUTES_GLOB'' [],
         fl_noProviderAutoSelect = noProviderAutoSelect,
         fl_password = getEnvWithDefault env ''PASSWORD'' [],
         fl_passwordHash = getEnvWithDefault env ''PASSWORD_HASH'' [],
         fl_proxyBearerToken = getEnvWithDefault env ''PROXY_BEARER_TOKEN'' [],
         fl_forwardAuthorizationHeader = forwardAuthorizationHeader,
         fl_proxyHeaders = getEnvWithDefault env ''PROXY_HEADERS'' [],
         fl_headerMapping = getEnvWithDefault env ''HEADER_MAPPING'' [],
         fl_headerMappingBase = getEnvWithDefault env ''HEADER_MAPPING_BASE'' ''/userinfo'',
         fl_httpStreamingOnly = httpStreamingOnly,
         fl_trustedProxies = getEnvWithDefault env ''TRUSTED_PROXIES'' [],
         fl_oidcDiscoveryMirror = oidcDiscoveryMirror, fl_clockSkew = clockSkew,
         fl_accessTokenTTL = accessTokenTTL, fl_authCodeTTL = authCodeTTL,
         fl_refreshTokenTTL = refreshTokenTTL, fl_originCheckEnabled = originCheckEnabled,
         fl_cimdEnabled = cimdEnabled, fl_cimdFetchTimeout = cimdFetchTimeout, fl_cimdMaxSize = cimdMaxSize,
         fl_cimdCacheTTL = cimdCacheTTL, fl_dcrEnabled = dcrEnabled, fl_dcrClientTTL = dcrClientTTL,
         fl_dcrMaxClients = dcrMaxClients, fl_keyAlg = getEnvWithDefault env ''KEY_ALG'' ''RS256'',
         fl_keyRotationInterval = keyRotationInterval,
         fl_rateLimitRegister = getEnvWithDefault env ''RATE_LIMIT_REGISTER'' ''10/m'',
         fl_rateLimitToken = getEnvWithDefault env ''RATE_LIMIT_TOKEN'' ''60/m'',
         fl_rateLimitLogin = getEnvWithDefault env ''RATE_LIMIT_LOGIN'' ''10/m'',
         fl_rateLimitAuthorize = getEnvWithDefault env ''RATE_LIMIT_AUTHORIZE'' ''60/m'',
         fl_loginLockoutThreshold = loginLockoutThreshold, fl_loginLockoutDuration = loginLockoutDuration\<rparr>)))))))))))))))))))))"

section \<open>The configuration\<close>

definition root_config :: "rootFlags \<Rightarrow> string list \<Rightarrow> mcp_Config result" where
  "root_config f args =
     res_bind (parse_allow_lists \<lparr>as_Users = fl_oidcAllowedUsers f, as_UsersGlob = fl_oidcAllowedUsersGlob f,
         as_Attributes = fl_oidcAllowedAttributes f, as_AttributesGlob = fl_oidcAllowedAttributesGlob f\<rparr>) (\<lambda>oidcAllowed.
       (let oidcScopesList = (if length (splitCSV (fl_oidcScopes f)) = 0 then [''openid'', ''profile'', ''email'']
              else splitCSV (fl_oidcScopes f))
        in Inr \<lparr>mc_Listen = fl_listen f, mc_TLSListen = fl_tlsListen f,
             mc_AutoTLS = (\<not> fl_noAutoTLS f \<or> fl_tlsCertFile f \<noteq> [] \<or> fl_tlsKeyFile f \<noteq> []),
             mc_TLSHost = fl_tlsHost f, mc_TLSDirectoryURL = fl_tlsDirectoryURL f,
             mc_TLSAcceptTOS = fl_tlsAcceptTOS f, mc_TLSCertFile = fl_tlsCertFile f,
             mc_TLSKeyFile = fl_tlsKeyFile f, mc_DataPath = fl_dataPath f,
             mc_RepositoryBackend = fl_repositoryBackend f, mc_RepositoryDSN = fl_repositoryDSN f,
             mc_ExternalURL = fl_externalURL f, mc_OIDCConfigurationURL = fl_oidcConfigurationURL f,
             mc_OIDCClientID = fl_oidcClientID f, mc_OIDCClientSecret = fl_oidcClientSecret f,
             mc_OIDCScopes = oidcScopesList, mc_OIDCUserIDField = fl_oidcUserIDField f,
             mc_OIDCProviderName = fl_oidcProviderName f, mc_OIDCAllowedUsers = al_Users oidcAllowed,
             mc_OIDCAllowedUsersGlob = al_UsersGlob oidcAllowed,
             mc_OIDCAllowedAttributes = al_Attributes oidcAllowed,
             mc_OIDCAllowedAttributesGlob = al_AttributesGlob oidcAllowed,
             mc_NoProviderAutoSelect = fl_noProviderAutoSelect f, mc_Password = fl_password f,
             mc_PasswordHash = fl_passwordHash f, mc_TrustedProxies = splitCSV (fl_trustedProxies f),
             mc_ProxyHeaders = splitCSV (fl_proxyHeaders f), mc_ProxyBearerToken = fl_proxyBearerToken f,
             mc_ForwardAuthorizationHeader = fl_forwardAuthorizationHeader f, mc_ProxyTargets = args,
             mc_HTTPStreamingOnly = fl_httpStreamingOnly f,
             mc_HeaderMapping = parseHeaderMapping (fl_headerMapping f),
             mc_HeaderMappingBase = fl_headerMappingBase f,
             mc_OriginCheckEnabled = fl_originCheckEnabled f,
             mc_OIDCDiscoveryMirror = fl_oidcDiscoveryMirror f, mc_ClockSkew = fl_clockSkew f,
             mc_AccessTokenTTL = fl_accessTokenTTL f, mc_AuthCodeTTL = fl_authCodeTTL f,
             mc_RefreshTokenTTL = fl_refreshTokenTTL f, mc_CIMDEnabled = fl_cimdEnabled f,
             mc_CIMDFetchTimeout = fl_cimdFetchTimeout f, mc_CIMDMaxSize = fl_cimdMaxSize f,
             mc_CIMDCacheTTL = fl_cimdCacheTTL f, mc_DCREnabled = fl_dcrEnabled f,
             mc_DCRClientTTL = fl_dcrClientTTL f, mc_DCRMaxClients = fl_dcrMaxClients f,
             mc_KeyAlg = fl_keyAlg f, mc_KeyRotationInterval = fl_keyRotationInterval f,
             mc_RateLimitRegister = fl_rateLimitRegister f, mc_RateLimitToken = fl_rateLimitToken f,
             mc_RateLimitLogin = fl_rateLimitLogin f, mc_RateLimitAuthorize = fl_rateLimitAuthorize f,
             mc_LoginLockoutThreshold = fl_loginLockoutThreshold f,
             mc_LoginLockoutDuration = fl_loginLockoutDuration f\<rparr>))"

text \<open>\<open>cobra f args\<close> is the outcome of parsing the command line over the defaults.\<close>

definition root_command ::
  "(string \<Rightarrow> duration option) \<Rightarrow> (rootFlags \<Rightarrow> (rootFlags \<times> string list) result) \<Rightarrow> environment \<Rightarrow> mcp_Config result" where
  "root_command parse_duration cobra env =
     res_bind (root_flags parse_duration env) (\<lambda>defaults.
     res_bind (cobra defaults) (\<lambda>(f, args). root_config f args))"


section \<open>What the command line guarantees\<close>

text \<open>A switch is read from its words only.\<close>

lemma env_bool_Inr:
  assumes "getEnvBoolWithDefault env key d = Inr b"
  shows "b = (if env key = [] then d else equal_fold_ascii (env key) ''true'' \<or> env key = ''1'')"
    and "env key \<noteq> [] \<Longrightarrow> \<not> b \<Longrightarrow> equal_fold_ascii (env key) ''false'' \<or> env key = ''0''"
  using assms by (auto simp: getEnvBoolWithDefault_def Let_def split: if_splits)

lemma root_flags_bools:
  assumes "root_flags parse_duration env = Inr f"
  shows "getEnvBoolWithDefault env ''NO_AUTO_TLS'' False = Inr (fl_noAutoTLS f)"
    and "getEnvBoolWithDefault env ''TLS_ACCEPT_TOS'' False = Inr (fl_tlsAcceptTOS f)"
    and "getEnvBoolWithDefault env ''ORIGIN_CHECK_ENABLED'' True = Inr (fl_originCheckEnabled f)"
    and "getEnvBoolWithDefault env ''PROXY_FORWARD_AUTHORIZATION'' False = Inr (fl_forwardAuthorizationHeader f)"
  using assms by (auto simp: root_flags_def res_bind_Inr)

lemma root_config_lists:
  assumes "root_config f args = Inr cfg"
  shows "parse_allow_lists \<lparr>as_Users = fl_oidcAllowedUsers f, as_UsersGlob = fl_oidcAllowedUsersGlob f,
      as_Attributes = fl_oidcAllowedAttributes f, as_AttributesGlob = fl_oidcAllowedAttributesGlob f\<rparr> =
    Inr \<lparr>al_Users = mc_OIDCAllowedUsers cfg, al_UsersGlob = mc_OIDCAllowedUsersGlob cfg,
      al_Attributes = mc_OIDCAllowedAttributes cfg, al_AttributesGlob = mc_OIDCAllowedAttributesGlob cfg\<rparr>"
  using assms by (auto simp: root_config_def res_bind_Inr Let_def)

lemma root_config_sel:
  assumes "root_config f args = Inr cfg"
  shows "mc_AutoTLS cfg \<longleftrightarrow> \<not> fl_noAutoTLS f \<or> fl_tlsCertFile f \<noteq> [] \<or> fl_tlsKeyFile f \<noteq> []"
    and "mc_OriginCheckEnabled cfg = fl_originCheckEnabled f" and "mc_TLSAcceptTOS cfg = fl_tlsAcceptTOS f"
    and "mc_ForwardAuthorizationHeader cfg = fl_forwardAuthorizationHeader f"
    and "mc_TLSCertFile cfg = fl_tlsCertFile f" and "mc_TLSKeyFile cfg = fl_tlsKeyFile f"
    and "mc_TLSHost cfg = fl_tlsHost f" and "mc_ProxyTargets cfg = args" and "mc_OIDCScopes cfg \<noteq> []"
  using assms by (auto simp: root_config_def res_bind_Inr Let_def split: if_splits)

lemma allow_lists_set:
  assumes "parse_allow_lists S = Inr L"
  shows "as_Users S \<noteq> [] \<longleftrightarrow> al_Users L \<noteq> []" and "as_UsersGlob S \<noteq> [] \<longleftrightarrow> al_UsersGlob L \<noteq> []"
    and "as_Attributes S \<noteq> [] \<longleftrightarrow> al_Attributes L \<noteq> []" and "as_AttributesGlob S \<noteq> [] \<longleftrightarrow> al_AttributesGlob L \<noteq> []"
proof -
  have p: "parseAllowList (as_Users S) splitCSV = Inr (al_Users L)"
    "parseAllowList (as_UsersGlob S) splitEscapedCSV = Inr (al_UsersGlob L)"
    "parseAttributeMap (as_Attributes S) = Inr (al_Attributes L)"
    "parseAttributeMap (as_AttributesGlob S) = Inr (al_AttributesGlob L)"
    using assms by (auto simp: parse_allow_lists_def res_bind_Inr)
  show "as_Users S \<noteq> [] \<longleftrightarrow> al_Users L \<noteq> []" "as_UsersGlob S \<noteq> [] \<longleftrightarrow> al_UsersGlob L \<noteq> []"
    "as_Attributes S \<noteq> [] \<longleftrightarrow> al_Attributes L \<noteq> []" "as_AttributesGlob S \<noteq> [] \<longleftrightarrow> al_AttributesGlob L \<noteq> []"
    using parse_list_unset [OF p(1)] parse_list_unset [OF p(2)] parse_map_keeps(2) [OF p(3)]
      parse_map_keeps(2) [OF p(4)] by simp_all
qed



section \<open>The defaults\<close>

definition default_flags :: rootFlags where
  "default_flags = projr (root_flags (\<lambda>_. None) (\<lambda>_. []))"

definition default_config :: "string list \<Rightarrow> mcp_Config" where
  "default_config args = projr (root_config default_flags args)"

lemma root_flags_unset: "root_flags parse_duration (\<lambda>_. []) = Inr default_flags"
  by (simp add: default_flags_def root_flags_def getEnvBoolWithDefault_def getEnvDurationWithDefault_def
      getEnvIntWithDefault_def getEnvInt64WithDefault_def Let_def)

lemma default_flags_allow:
  "fl_oidcAllowedUsers default_flags = []" "fl_oidcAllowedUsersGlob default_flags = []"
  "fl_oidcAllowedAttributes default_flags = []" "fl_oidcAllowedAttributesGlob default_flags = []"
  by (simp_all add: default_flags_def root_flags_def getEnvBoolWithDefault_def getEnvDurationWithDefault_def
      getEnvIntWithDefault_def getEnvInt64WithDefault_def getEnvWithDefault_def Let_def)

lemma no_allow_lists:
  "parse_allow_lists \<lparr>as_Users = [], as_UsersGlob = [], as_Attributes = [], as_AttributesGlob = []\<rparr> =
     Inr \<lparr>al_Users = [], al_UsersGlob = [], al_Attributes = [], al_AttributesGlob = []\<rparr>"
  by (simp add: parse_allow_lists_def parseAllowList_def parseAttributeMap_def named_def)

lemma root_config_default: "root_config default_flags args = Inr (default_config args)"
  by (simp add: default_config_def root_config_def default_flags_allow no_allow_lists Let_def)

lemma default_config_sel:
  "mc_Listen (default_config args) = '':80''" "mc_TLSHost (default_config args) = []"
  "mc_TLSCertFile (default_config args) = []" "mc_TLSKeyFile (default_config args) = []"
  "mc_AutoTLS (default_config args)" "mc_ExternalURL (default_config args) = ''http://localhost''"
  "mc_RepositoryBackend (default_config args) = ''local''" "mc_ProxyTargets (default_config args) = args"
  "mc_TrustedProxies (default_config args) = []" "mc_Password (default_config args) = []"
  "mc_PasswordHash (default_config args) = []" "mc_OIDCConfigurationURL (default_config args) = []"
  "mc_OriginCheckEnabled (default_config args)" "mc_CIMDEnabled (default_config args)"
  "mc_DCREnabled (default_config args)" "mc_ClockSkew (default_config args) = 30 * second"
  "mc_AccessTokenTTL (default_config args) = hour" "mc_AuthCodeTTL (default_config args) = 10 * minute"
  "mc_RefreshTokenTTL (default_config args) = 720 * hour" "mc_CIMDFetchTimeout (default_config args) = 5 * second"
  "mc_CIMDMaxSize (default_config args) = 65536" "mc_CIMDCacheTTL (default_config args) = hour"
  "mc_DCRClientTTL (default_config args) = 720 * hour" "mc_DCRMaxClients (default_config args) = 100"
  "mc_KeyAlg (default_config args) = AlgRS256" "mc_KeyRotationInterval (default_config args) = 2160 * hour"
  "mc_RateLimitRegister (default_config args) = ''10/m''" "mc_RateLimitToken (default_config args) = ''60/m''"
  "mc_RateLimitLogin (default_config args) = ''10/m''" "mc_RateLimitAuthorize (default_config args) = ''60/m''"
  "mc_LoginLockoutThreshold (default_config args) = 10" "mc_LoginLockoutDuration (default_config args) = 15 * minute"
  by (simp_all add: default_config_def root_config_def default_flags_allow no_allow_lists Let_def)
     (simp_all add: default_flags_def root_flags_def getEnvBoolWithDefault_def getEnvDurationWithDefault_def
      getEnvIntWithDefault_def getEnvInt64WithDefault_def getEnvWithDefault_def Let_def splitCSV_def AlgRS256_def)

lemma default_limits:
  "ParseLimit ''10/m'' = Inr \<lparr>Events = 10, Window = minute\<rparr>" "ParseLimit ''60/m'' = Inr \<lparr>Events = 60, Window = minute\<rparr>"
proof -
  have "trim_space ''10/m'' = ''10/m''" by (rule trim_space_plain) (simp_all add: demo_plain)
  then show "ParseLimit ''10/m'' = Inr \<lparr>Events = 10, Window = minute\<rparr>"
    by (simp add: ParseLimit_def cut_char_def atoi_def digits_val_def is_digit_def windowUnits_def Let_def)
  have "trim_space ''60/m'' = ''60/m''" by (rule trim_space_plain) (simp_all add: demo_plain)
  then show "ParseLimit ''60/m'' = Inr \<lparr>Events = 60, Window = minute\<rparr>"
    by (simp add: ParseLimit_def cut_char_def atoi_def digits_val_def is_digit_def windowUnits_def Let_def)
qed

lemma default_alg: "ParseAlg AlgRS256 = Inr AlgRS256"
  by (simp add: ParseAlg_def AlgRS256_def upper_byte_def)

lemma default_valid: "validateTTLs (default_config args) = Inr ()"
  by (simp add: validateTTLs_def default_config_sel dur_defs valid_rate_def default_limits default_alg)

lemma default_kept: "with_defaults (default_config args) = default_config args"
  by (simp add: with_defaults_def default_config_sel dur_defs AlgRS256_def Let_def)


end
