(* ===== verification/Server.thy ===== *)
theory Server
  imports Gateway Tlsreload Stdio Command
begin

text \<open>
  \<^verbatim>\<open>pkg/mcp-proxy/server.go\<close>: which listeners the gateway opens, and the group of goroutines that
  runs them, ends the process when one of them stops and collects their errors; and \<open>Run\<close> of
  \<^verbatim>\<open>main.go\<close>, which puts the start together, with the small commands beside it.
\<close>

section \<open>The listeners\<close>

definition acmeHost :: "resolvedConfig \<Rightarrow> string \<times> bool" where
  "acmeHost rc =
     (if mc_TLSHost (rc_Config rc) \<noteq> [] then (mc_TLSHost (rc_Config rc), False)
      else if mc_AutoTLS (rc_Config rc) \<and> \<not> rc_manualTLS rc \<and> u_Scheme (rc_issuerURL rc) = ''https'' \<and>
          u_Host (rc_issuerURL rc) \<noteq> ''localhost'' then (u_Host (rc_issuerURL rc), True)
      else ([], False))"

text \<open>The settings of \<open>autocert.Manager\<close>; the cache directory is what \<open>path.Join\<close> is given.\<close>

record autocert_manager =
  am_AcceptTOS :: bool
  am_HostWhitelist :: "string list"
  am_DirCache :: "string list"
  am_DirectoryURL :: string

datatype 'c tls_source = TlsFiles "'c FileReloader" | TlsAcme autocert_manager

datatype listen_handler = ServeRouter | ServeFallback | ServeChallenge

datatype task = HTTP | HTTPS | Upstream

record 'c listener =
  ln_Addr :: string
  ln_Handler :: listen_handler
  ln_TLS :: "'c tls_source option"
  ln_Name :: task

definition serveManualTLS :: "resolvedConfig \<Rightarrow> 'c tls_disk \<Rightarrow> 'c listener list result" where
  "serveManualTLS rc D =
     res_bind (named ''failed to prepare TLS certificate reloader''
         (NewFileReloader (mc_TLSCertFile (rc_Config rc)) (mc_TLSKeyFile (rc_Config rc)) D)) (\<lambda>certReloader.
       Inr [\<lparr>ln_Addr = mc_Listen (rc_Config rc), ln_Handler = ServeFallback, ln_TLS = None, ln_Name = HTTP\<rparr>,
            \<lparr>ln_Addr = mc_TLSListen (rc_Config rc), ln_Handler = ServeRouter, ln_TLS = Some (TlsFiles certReloader),
              ln_Name = HTTPS\<rparr>])"

definition serveACME :: "resolvedConfig \<Rightarrow> string \<Rightarrow> bool \<Rightarrow> 'c listener list result" where
  "serveACME rc host autoDetected =
     (if \<not> mc_TLSAcceptTOS (rc_Config rc) then
        (if autoDetected then
           Inl (ErrMsg ''TLS host is auto-detected, but tlsAcceptTOS is not set to true'')
         else Inl (ErrMsg ''TLS is enabled, but tlsAcceptTOS is not set to true''))
      else
        (let m = \<lparr>am_AcceptTOS = mc_TLSAcceptTOS (rc_Config rc), am_HostWhitelist = [host],
               am_DirCache = [mc_DataPath (rc_Config rc), ''certs''],
               am_DirectoryURL = mc_TLSDirectoryURL (rc_Config rc)\<rparr>
         in Inr [\<lparr>ln_Addr = mc_Listen (rc_Config rc), ln_Handler = ServeChallenge, ln_TLS = None, ln_Name = HTTP\<rparr>,
              \<lparr>ln_Addr = mc_TLSListen (rc_Config rc), ln_Handler = ServeRouter, ln_TLS = Some (TlsAcme m),
                ln_Name = HTTPS\<rparr>]))"

text \<open>The switch of \<open>gateway.serve\<close>.\<close>

definition gateway_listeners :: "resolvedConfig \<Rightarrow> 'c tls_disk \<Rightarrow> 'c listener list result" where
  "gateway_listeners rc D =
     (case acmeHost rc of
        (host, autoDetected) \<Rightarrow>
          if rc_manualTLS rc then serveManualTLS rc D
          else if host \<noteq> [] then serveACME rc host autoDetected
          else Inr [\<lparr>ln_Addr = mc_Listen (rc_Config rc), ln_Handler = ServeRouter, ln_TLS = None, ln_Name = HTTP\<rparr>])"

section \<open>The server group\<close>

text \<open>A goroutine of the group: its server or backend runs, it is about to send on \<open>exit\<close>, it has
  ended.\<close>

datatype task_phase = NotStarted | TaskRunning | TaskSignalling | TaskEnded

text \<open>\<open>wait\<close> blocks on \<open>exit\<close>, then on the wait group, then returns the joined errors.\<close>

datatype main_phase = MainWaiting | MainDraining | MainReturned "err list"

text \<open>The second goroutine of \<open>serve\<close>: \<open>Shutdown\<close> of the listener's server, once the context is
  cancelled.\<close>

datatype shutdown_phase = ShutdownIdle | ShutdownDraining | ShutdownDone

record serverGroup =
  sg_phase :: "task \<Rightarrow> task_phase"
  sg_shutdown :: "task \<Rightarrow> shutdown_phase"
  sg_exit :: nat
  sg_errs :: "err list"
  sg_cancelled :: bool
  sg_main :: main_phase

definition exit_capacity :: nat where "exit_capacity = 3"

text \<open>The group after \<open>serve\<close> and \<open>watchUpstream\<close> were called for the tasks.\<close>

definition start_group :: "task list \<Rightarrow> serverGroup" where
  "start_group ts =
     \<lparr>sg_phase = (\<lambda>t. if t \<in> set ts then TaskRunning else NotStarted), sg_shutdown = (\<lambda>_. ShutdownIdle),
      sg_exit = 0, sg_errs = [], sg_cancelled = False, sg_main = MainWaiting\<rparr>"

text \<open>What a task's call returned, \<open>None\<close> for \<open>nil\<close> and \<open>http.ErrServerClosed\<close>: the error of the
  upstream does not count once the context is cancelled.\<close>

definition task_fails :: "serverGroup \<Rightarrow> task \<Rightarrow> err option \<Rightarrow> err list" where
  "task_fails g t x =
     (case x of None \<Rightarrow> [] | Some e \<Rightarrow> if t = Upstream \<and> sg_cancelled g then [] else [e])"

text \<open>\<open>out t\<close> is what the call of the task returns in this run, \<open>None\<close> if it never returns.  A
  server's call returns as soon as \<open>Shutdown\<close> is called, which the relation allows like any other
  moment; \<open>Shutdown\<close> itself ends when the requests in flight have.  The process ends when
  \<open>wait\<close> has returned.\<close>

inductive group_step :: "(task \<Rightarrow> err option option) \<Rightarrow> serverGroup \<Rightarrow> serverGroup \<Rightarrow> bool" for out where
  TaskReturns: "sg_phase g t = TaskRunning \<Longrightarrow> out t = Some x \<Longrightarrow>
     group_step out g (g\<lparr>sg_phase := (sg_phase g)(t := TaskSignalling), sg_errs := sg_errs g @ task_fails g t x\<rparr>)"
| TaskSignals: "sg_phase g t = TaskSignalling \<Longrightarrow> sg_exit g < exit_capacity \<Longrightarrow>
     group_step out g (g\<lparr>sg_phase := (sg_phase g)(t := TaskEnded), sg_exit := sg_exit g + 1\<rparr>)"
| Interrupt: "\<not> sg_cancelled g \<Longrightarrow> group_step out g (g\<lparr>sg_cancelled := True\<rparr>)"
| ShutdownStarts: "sg_cancelled g \<Longrightarrow> t \<noteq> Upstream \<Longrightarrow> sg_phase g t \<noteq> NotStarted \<Longrightarrow>
     sg_shutdown g t = ShutdownIdle \<Longrightarrow> \<forall>es. sg_main g \<noteq> MainReturned es \<Longrightarrow>
     group_step out g (g\<lparr>sg_shutdown := (sg_shutdown g)(t := ShutdownDraining)\<rparr>)"
| ShutdownEnds: "sg_shutdown g t = ShutdownDraining \<Longrightarrow> \<forall>es. sg_main g \<noteq> MainReturned es \<Longrightarrow>
     group_step out g (g\<lparr>sg_shutdown := (sg_shutdown g)(t := ShutdownDone)\<rparr>)"
| MainStops: "sg_main g = MainWaiting \<Longrightarrow> 0 < sg_exit g \<Longrightarrow>
     group_step out g (g\<lparr>sg_exit := sg_exit g - 1, sg_cancelled := True, sg_main := MainDraining\<rparr>)"
| MainReturns: "sg_main g = MainDraining \<Longrightarrow> \<forall>t. sg_phase g t \<in> {NotStarted, TaskEnded} \<Longrightarrow>
     group_step out g (g\<lparr>sg_main := MainReturned (sg_errs g)\<rparr>)"

section \<open>The invariant of the group\<close>

definition tasks_of :: "(task_phase \<Rightarrow> nat) \<Rightarrow> serverGroup \<Rightarrow> nat" where
  "tasks_of w g = w (sg_phase g HTTP) + w (sg_phase g HTTPS) + w (sg_phase g Upstream)"

definition ended_tasks :: "serverGroup \<Rightarrow> nat" where
  "ended_tasks = tasks_of (\<lambda>p. if p = TaskEnded then 1 else 0)"

definition returned_phases :: "task_phase set" where
  "returned_phases = {TaskSignalling, TaskEnded}"

definition group_ok :: "(task \<Rightarrow> err option option) \<Rightarrow> task list \<Rightarrow> serverGroup \<Rightarrow> bool" where
  "group_ok out ts g \<longleftrightarrow>
     (\<forall>t. t \<in> set ts \<longleftrightarrow> sg_phase g t \<noteq> NotStarted) \<and>
     (\<forall>t. sg_phase g t \<in> returned_phases \<longrightarrow> out t \<noteq> None) \<and>
     sg_exit g + (if sg_main g = MainWaiting then 0 else 1) = ended_tasks g \<and>
     (sg_main g \<noteq> MainWaiting \<longrightarrow> sg_cancelled g) \<and>
     (\<forall>e \<in> set (sg_errs g). \<exists>t \<in> set ts. out t = Some (Some e)) \<and>
     (\<forall>t e. sg_phase g t \<in> returned_phases \<longrightarrow> out t = Some (Some e) \<longrightarrow>
        (t = Upstream \<longrightarrow> \<not> sg_cancelled g) \<longrightarrow> e \<in> set (sg_errs g)) \<and>
     (\<forall>es. sg_main g = MainReturned es \<longrightarrow> es = sg_errs g \<and> (\<forall>t. sg_phase g t \<in> {NotStarted, TaskEnded}))"

lemma group_okD:
  assumes "group_ok out ts g"
  shows "t \<in> set ts \<longleftrightarrow> sg_phase g t \<noteq> NotStarted"
    and "sg_phase g t \<in> returned_phases \<Longrightarrow> out t \<noteq> None"
    and "sg_exit g + (if sg_main g = MainWaiting then 0 else 1) = ended_tasks g"
    and "sg_main g \<noteq> MainWaiting \<Longrightarrow> sg_cancelled g"
    and "e \<in> set (sg_errs g) \<Longrightarrow> \<exists>t \<in> set ts. out t = Some (Some e)"
    and "sg_phase g t \<in> returned_phases \<Longrightarrow> out t = Some (Some e) \<Longrightarrow> (t = Upstream \<Longrightarrow> \<not> sg_cancelled g) \<Longrightarrow>
        e \<in> set (sg_errs g)"
    and "sg_main g = MainReturned es \<Longrightarrow> es = sg_errs g \<and> (\<forall>t. sg_phase g t \<in> {NotStarted, TaskEnded})"
  using assms unfolding group_ok_def by blast+

lemma start_group_ok: "group_ok out ts (start_group ts)"
  by (simp add: group_ok_def start_group_def ended_tasks_def tasks_of_def returned_phases_def)

lemma tasks_of_upd:
  "sg_phase g' = (sg_phase g)(t := p) \<Longrightarrow> tasks_of w g' + w (sg_phase g t) = tasks_of w g + w p"
  by (cases t; simp add: tasks_of_def)

lemma tasks_of_other [simp]:
  "tasks_of w (g\<lparr>sg_cancelled := c\<rparr>) = tasks_of w g"
  "tasks_of w (g\<lparr>sg_exit := n, sg_cancelled := c, sg_main := m\<rparr>) = tasks_of w g"
  "tasks_of w (g\<lparr>sg_main := m\<rparr>) = tasks_of w g" "tasks_of w (g\<lparr>sg_exit := n\<rparr>) = tasks_of w g"
  "tasks_of w (g\<lparr>sg_shutdown := d\<rparr>) = tasks_of w g"
  by (simp_all add: tasks_of_def)

lemma task_fails_set: "e \<in> set (task_fails g t x) \<longleftrightarrow> x = Some e \<and> (t = Upstream \<longrightarrow> \<not> sg_cancelled g)"
  by (auto simp: task_fails_def split: option.splits)

lemma group_step_ok:
  assumes "group_step out g g'" and ok: "group_ok out ts g"
  shows "group_ok out ts g'"
  using assms(1)
proof (cases rule: group_step.cases)
  case (TaskReturns t x)
  have n: "ended_tasks g' = ended_tasks g"
    using tasks_of_upd [of g' g t TaskSignalling "\<lambda>p. if p = TaskEnded then 1 else 0"] TaskReturns
    by (simp add: ended_tasks_def)
  have m: "sg_main g \<noteq> MainReturned es" for es
  proof
    assume "sg_main g = MainReturned es"
    then have "sg_phase g t \<in> {NotStarted, TaskEnded}" using group_okD(7) [OF ok] by blast
    then show False using TaskReturns by simp
  qed
  show ?thesis
    using ok m TaskReturns unfolding group_ok_def n
    by (auto simp: task_fails_set returned_phases_def)
next
  case (TaskSignals t)
  have n: "ended_tasks g' = Suc (ended_tasks g)"
    using tasks_of_upd [of g' g t TaskEnded "\<lambda>p. if p = TaskEnded then 1 else 0"] TaskSignals
    by (simp add: ended_tasks_def)
  show ?thesis
    using ok TaskSignals unfolding group_ok_def n
    by (auto simp: returned_phases_def)
next
  case Interrupt
  then show ?thesis using ok by (auto simp: group_ok_def ended_tasks_def)
next
  case ShutdownStarts
  then show ?thesis using ok by (auto simp: group_ok_def ended_tasks_def)
next
  case ShutdownEnds
  then show ?thesis using ok by (auto simp: group_ok_def ended_tasks_def)
next
  case MainStops
  then show ?thesis using ok by (auto simp: group_ok_def ended_tasks_def)
next
  case MainReturns
  then show ?thesis using ok by (auto simp: group_ok_def ended_tasks_def)
qed

lemma group_reach_ok: "(group_step out)\<^sup>*\<^sup>* (start_group ts) g \<Longrightarrow> group_ok out ts g"
  by (induction rule: rtranclp_induct) (auto intro: start_group_ok group_step_ok)

text \<open>No goroutine of the group ever blocks on \<open>exit\<close>.\<close>

lemma signal_fits:
  assumes "group_ok out ts g" and "sg_phase g t = TaskSignalling"
  shows "sg_exit g < exit_capacity"
  using group_okD(3) [OF assms(1)] assms(2)
  by (cases t) (auto simp: ended_tasks_def tasks_of_def exit_capacity_def split: if_splits)

lemma group_progress:
  assumes ok: "group_ok out ts g" and "ts \<noteq> []" and "\<forall>t \<in> set ts. out t \<noteq> None"
    and "\<forall>es. sg_main g \<noteq> MainReturned es"
  shows "\<exists>g'. group_step out g g'"
proof -
  consider t where "sg_phase g t = TaskRunning" | t where "sg_phase g t = TaskSignalling"
    | "\<forall>t. sg_phase g t \<in> {NotStarted, TaskEnded}"
    by (metis insertCI task_phase.exhaust)
  then show ?thesis
  proof cases
    case (1 t)
    then have "t \<in> set ts" using group_okD(1) [OF ok] by simp
    then obtain x where "out t = Some x" using assms(3) by blast
    then show ?thesis using TaskReturns [OF 1] by blast
  next
    case (2 t)
    show ?thesis using TaskSignals [OF 2 signal_fits [OF ok 2]] by blast
  next
    case 3
    obtain t where "t \<in> set ts" using assms(2) by (cases ts) auto
    then have "sg_phase g t = TaskEnded" using group_okD(1) [OF ok] 3 by auto
    then have pos: "0 < ended_tasks g" by (cases t) (auto simp: ended_tasks_def tasks_of_def)
    show ?thesis
    proof (cases "sg_main g")
      case MainWaiting
      then have "0 < sg_exit g" using group_okD(3) [OF ok] pos by simp
      then show ?thesis using MainStops [OF MainWaiting] by blast
    next
      case MainDraining
      then show ?thesis using MainReturns [OF MainDraining 3] by blast
    next
      case (MainReturned es)
      then show ?thesis using assms(4) by blast
    qed
  qed
qed

fun phase_rank :: "task_phase \<Rightarrow> nat" where
  "phase_rank TaskRunning = 2"
| "phase_rank TaskSignalling = 1"
| "phase_rank _ = 0"

fun shutdown_rank :: "shutdown_phase \<Rightarrow> nat" where
  "shutdown_rank ShutdownIdle = 2"
| "shutdown_rank ShutdownDraining = 1"
| "shutdown_rank ShutdownDone = 0"

definition group_rank :: "serverGroup \<Rightarrow> nat" where
  "group_rank g =
     tasks_of phase_rank g +
     shutdown_rank (sg_shutdown g HTTP) + shutdown_rank (sg_shutdown g HTTPS) + shutdown_rank (sg_shutdown g Upstream) +
     (if sg_cancelled g then 0 else 1) +
     (case sg_main g of MainWaiting \<Rightarrow> 2 | MainDraining \<Rightarrow> 1 | MainReturned _ \<Rightarrow> 0)"

lemma group_step_rank:
  assumes "group_step out g g'"
  shows "group_rank g' < group_rank g"
  using assms
proof (cases rule: group_step.cases)
  case (TaskReturns t x)
  then show ?thesis
    using tasks_of_upd [of g' g t TaskSignalling phase_rank]
    by (simp add: group_rank_def)
next
  case (TaskSignals t)
  then show ?thesis
    using tasks_of_upd [of g' g t TaskEnded phase_rank]
    by (simp add: group_rank_def)
next
  case (ShutdownStarts t)
  then show ?thesis by (cases t) (simp_all add: group_rank_def)
next
  case (ShutdownEnds t)
  then show ?thesis by (cases t) (simp_all add: group_rank_def)
qed (auto simp: group_rank_def)

lemma group_run_bound:
  assumes "(group_step out ^^ n) g g'"
  shows "n + group_rank g' \<le> group_rank g"
  using assms
proof (induction n arbitrary: g')
  case (Suc n)
  then obtain g1 where "(group_step out ^^ n) g g1" "group_step out g1 g'" by auto
  then show ?case using Suc.IH [of g1] group_step_rank [of out g1 g'] by simp
qed simp

lemma start_rank: "group_rank (start_group ts) \<le> 15"
  by (simp add: group_rank_def start_group_def tasks_of_def)


section \<open>What the group guarantees\<close>

lemma group_reach_run: "(group_step out ^^ n) (start_group ts) g \<Longrightarrow> group_ok out ts g"
  by (rule group_reach_ok) (rule relpowp_imp_rtranclp)

text \<open>
  C18: the gateway ends with its listeners, and reports why.  In any interleaving of the group's
  goroutines: \<open>wait\<close> returns only after every listener and the upstream have ended; the error it
  returns has every error of a listener, and nothing else than errors of the tasks; no goroutine
  blocks on the exit channel; and if every task eventually ends then \<open>wait\<close> returns, after at most
  fifteen steps, whatever the order.  A task that never ends keeps it from returning.
\<close>

theorem server_group_exact:
  assumes "(group_step out ^^ n) (start_group ts) g" and "ts \<noteq> []"
  shows "n \<le> 15 \<and>
    (\<forall>t. sg_phase g t = TaskSignalling \<longrightarrow> sg_exit g < exit_capacity) \<and>
    (\<forall>es. sg_main g = MainReturned es \<longrightarrow>
       (\<forall>t \<in> set ts. out t \<noteq> None \<and> sg_phase g t = TaskEnded) \<and>
       (\<forall>t \<in> set ts. \<forall>e. t \<noteq> Upstream \<and> out t = Some (Some e) \<longrightarrow> e \<in> set es) \<and>
       (\<forall>e \<in> set es. \<exists>t \<in> set ts. out t = Some (Some e))) \<and>
    ((\<forall>t \<in> set ts. out t \<noteq> None) \<and> (\<forall>es. sg_main g \<noteq> MainReturned es) \<longrightarrow> (\<exists>g'. group_step out g g'))"
proof -
  have ok: "group_ok out ts g" by (rule group_reach_run [OF assms(1)])
  have returned: "out t \<noteq> None \<and> sg_phase g t = TaskEnded \<and>
      (\<forall>e. t \<noteq> Upstream \<and> out t = Some (Some e) \<longrightarrow> e \<in> set es)"
    if "sg_main g = MainReturned es" "t \<in> set ts" for es t
  proof -
    have "sg_phase g t = TaskEnded" "es = sg_errs g"
      using group_okD(1) [OF ok, of t] group_okD(7) [OF ok that(1)] that(2) by auto
    moreover from this have "sg_phase g t \<in> returned_phases" by (simp add: returned_phases_def)
    ultimately show ?thesis using group_okD(2,6) [OF ok, of t] by blast
  qed
  have errors: "\<exists>t \<in> set ts. out t = Some (Some e)" if "sg_main g = MainReturned es" "e \<in> set es" for es e
    using group_okD(5) [OF ok, of e] group_okD(7) [OF ok that(1)] that(2) by blast
  have "n \<le> 15" using group_run_bound [OF assms(1)] start_rank [of ts] by simp
  with returned errors signal_fits [OF ok] group_progress [OF ok assms(2)] show ?thesis by blast
qed

text \<open>Both listeners and a failing upstream: one run to the end.\<close>

definition demo_out :: "task \<Rightarrow> err option option" where
  "demo_out t = Some (if t = HTTP then Some ErrCommit else None)"

lemma four_steps:
  assumes "R a b" and "R b c" and "R c d" and "R d e"
  shows "(R ^^ 4) a e"
proof -
  have "(R ^^ Suc (Suc (Suc (Suc 0)))) a e"
    by (intro relpowp_Suc_I2 [of R, OF assms(1)] relpowp_Suc_I2 [of R, OF assms(2)]
        relpowp_Suc_I2 [of R, OF assms(3)] relpowp_Suc_I2 [of R, OF assms(4)]) simp
  moreover have "Suc (Suc (Suc (Suc 0))) = 4" by simp
  ultimately show ?thesis by (simp only:)
qed

theorem server_group_exact_witness:
  "\<exists>g. (group_step demo_out ^^ 4) (start_group [HTTP]) g \<and> sg_main g = MainReturned [ErrCommit] \<and>
     sg_phase g HTTP = TaskEnded"
proof -
  define g1 where "g1 = (start_group [HTTP])\<lparr>sg_phase := (sg_phase (start_group [HTTP]))(HTTP := TaskSignalling),
      sg_errs := [ErrCommit]\<rparr>"
  define g2 where "g2 = g1\<lparr>sg_phase := (sg_phase g1)(HTTP := TaskEnded), sg_exit := 1\<rparr>"
  define g3 where "g3 = g2\<lparr>sg_exit := 0, sg_cancelled := True, sg_main := MainDraining\<rparr>"
  define g4 where "g4 = g3\<lparr>sg_main := MainReturned [ErrCommit]\<rparr>"
  have 1: "group_step demo_out (start_group [HTTP]) g1"
    using TaskReturns [of "start_group [HTTP]" HTTP demo_out "Some ErrCommit"]
    by (simp add: g1_def demo_out_def start_group_def task_fails_def)
  have 2: "group_step demo_out g1 g2"
    using TaskSignals [of g1 HTTP demo_out] by (simp add: g1_def g2_def exit_capacity_def start_group_def)
  have 3: "group_step demo_out g2 g3"
    using MainStops [of g2 demo_out] by (simp add: g1_def g2_def g3_def start_group_def)
  have 4: "group_step demo_out g3 g4"
    using MainReturns [of g3 demo_out] by (simp add: g1_def g2_def g3_def g4_def start_group_def)
  have run: "(group_step demo_out ^^ 4) (start_group [HTTP]) g4" by (rule four_steps [where R = "group_step demo_out", OF 1 2 3 4])
  have ret: "sg_main g4 = MainReturned [ErrCommit]" by (simp add: g4_def)
  have "[HTTP] \<noteq> []" by simp
  from server_group_exact [OF run this] have "sg_phase g4 HTTP = TaskEnded" using ret by (metis list.set_intros(1))
  with run ret show ?thesis by blast
qed

text \<open>
  C29: a stdio upstream that exits cleanly is not noticed and blocks the shutdown.  Once the
  command of a serving stdio backend has exited with status 0, no run of the group of the gateway
  ever returns, not even after an interrupt has stopped both listeners.
\<close>

theorem stdio_clean_exit_blocks:
  assumes "stdio_Run a b c False = Inr st0" and "stdio_reach st0 st" and "sb_run st = RunServing"
    and "sb_cmd st = CmdDone None"
    and "\<forall>x. out Upstream = Some x \<longrightarrow> (\<exists>st'. stdio_reach st st' \<and> sb_wait st' = WaitReturned x)"
    and "Upstream \<in> set ts" and "(group_step out)\<^sup>*\<^sup>* (start_group ts) g"
  shows "sg_phase g Upstream = TaskRunning \<and> (\<forall>es. sg_main g \<noteq> MainReturned es)"
proof -
  have ok: "group_ok out ts g" by (rule group_reach_ok [OF assms(7)])
  have "out Upstream = None"
    using clean_exit_reach [OF _ stdio_serving(1) [OF assms(1,2,3)] assms(3,4)] assms(5)
    by (metis not_None_eq)
  then have "sg_phase g Upstream \<notin> returned_phases" "sg_phase g Upstream \<noteq> NotStarted"
    using group_okD(1,2) [OF ok, of Upstream] assms(6) by auto
  then have "sg_phase g Upstream = TaskRunning"
    by (cases "sg_phase g Upstream") (auto simp: returned_phases_def)
  moreover have "sg_main g \<noteq> MainReturned es" for es
  proof
    assume "sg_main g = MainReturned es"
    then have "sg_phase g Upstream \<in> {NotStarted, TaskEnded}" using group_okD(7) [OF ok] by blast
    then show False using \<open>sg_phase g Upstream = TaskRunning\<close> by simp
  qed
  ultimately show ?thesis by blast
qed


theorem stdio_clean_exit_blocks_witness:
  "\<not> (\<exists>g es. (group_step (demo_out(Upstream := None)))\<^sup>*\<^sup>* (start_group [HTTP, Upstream]) g \<and>
     sg_main g = MainReturned es)"
proof
  assume "\<exists>g es. (group_step (demo_out(Upstream := None)))\<^sup>*\<^sup>* (start_group [HTTP, Upstream]) g \<and>
     sg_main g = MainReturned es"
  then obtain g es where g: "(group_step (demo_out(Upstream := None)))\<^sup>*\<^sup>* (start_group [HTTP, Upstream]) g"
    and es: "sg_main g = MainReturned es" by blast
  obtain st0 where st: "stdio_Run (Inr ()) (Inr ()) (Inr ()) False = Inr st0" "stdio_reach st0 demo_exited"
    using demo_exited_reached by blast
  show False
    using stdio_clean_exit_blocks [OF st _ _ _ _ g] es by (simp add: demo_exited_def)
qed

text \<open>\<open>wait\<close> does not wait for \<open>Shutdown\<close>: after an interrupt the process can end while the requests
  in flight are still being drained.\<close>

lemma shutdown_not_awaited:
  "\<exists>g. (group_step (\<lambda>_. Some None))\<^sup>*\<^sup>* (start_group [HTTP]) g \<and> sg_main g = MainReturned [] \<and>
     sg_shutdown g HTTP = ShutdownDraining"
proof -
  let ?R = "group_step (\<lambda>_. Some None)"
  define g1 where "g1 = (start_group [HTTP])\<lparr>sg_cancelled := True\<rparr>"
  define g2 where "g2 = g1\<lparr>sg_shutdown := (sg_shutdown g1)(HTTP := ShutdownDraining)\<rparr>"
  define g3 where "g3 = g2\<lparr>sg_phase := (sg_phase g2)(HTTP := TaskSignalling), sg_errs := []\<rparr>"
  define g4 where "g4 = g3\<lparr>sg_phase := (sg_phase g3)(HTTP := TaskEnded), sg_exit := 1\<rparr>"
  define g5 where "g5 = g4\<lparr>sg_exit := 0, sg_cancelled := True, sg_main := MainDraining\<rparr>"
  define g6 where "g6 = g5\<lparr>sg_main := MainReturned []\<rparr>"
  note defs = g1_def g2_def g3_def g4_def g5_def g6_def start_group_def
  have 1: "?R (start_group [HTTP]) g1" unfolding g1_def by (rule Interrupt) (simp add: start_group_def)
  have 2: "?R g1 g2" unfolding g2_def by (rule ShutdownStarts) (simp_all add: defs)
  have 3: "?R g2 g3"
    using TaskReturns [of g2 HTTP "\<lambda>_. Some None" None] by (simp add: defs task_fails_def)
  have 4: "?R g3 g4"
    using TaskSignals [of g3 HTTP "\<lambda>_. Some None"] by (simp add: defs exit_capacity_def)
  have 5: "?R g4 g5" using MainStops [of g4 "\<lambda>_. Some None"] by (simp add: defs)
  have 6: "?R g5 g6" using MainReturns [of g5 "\<lambda>_. Some None"] by (simp add: defs)
  have "?R\<^sup>*\<^sup>* (start_group [HTTP]) g6"
    using 1 2 3 4 5 6 by (meson rtranclp.rtrancl_refl rtranclp.rtrancl_into_rtrancl)
  moreover have "sg_main g6 = MainReturned []" "sg_shutdown g6 HTTP = ShutdownDraining" by (simp_all add: defs)
  ultimately show ?thesis by blast
qed

section \<open>What the listeners guarantee\<close>

definition serves_tls :: "resolvedConfig \<Rightarrow> bool" where
  "serves_tls rc \<longleftrightarrow> rc_manualTLS rc \<or> fst (acmeHost rc) \<noteq> []"

lemma listeners_manual:
  assumes "gateway_listeners rc D = Inr ls" and "rc_manualTLS rc"
  obtains r where "NewFileReloader (mc_TLSCertFile (rc_Config rc)) (mc_TLSKeyFile (rc_Config rc)) D = Inr r"
    "ls = [\<lparr>ln_Addr = mc_Listen (rc_Config rc), ln_Handler = ServeFallback, ln_TLS = None, ln_Name = HTTP\<rparr>,
       \<lparr>ln_Addr = mc_TLSListen (rc_Config rc), ln_Handler = ServeRouter, ln_TLS = Some (TlsFiles r), ln_Name = HTTPS\<rparr>]"
  using assms by (auto simp: gateway_listeners_def serveManualTLS_def res_bind_Inr split: prod.splits)

lemma listeners_acme:
  assumes "gateway_listeners rc D = Inr ls" and "\<not> rc_manualTLS rc" and "fst (acmeHost rc) \<noteq> []"
  shows "\<exists>m. am_AcceptTOS m \<and> am_HostWhitelist m = [fst (acmeHost rc)] \<and> mc_TLSAcceptTOS (rc_Config rc) \<and>
    ls = [\<lparr>ln_Addr = mc_Listen (rc_Config rc), ln_Handler = ServeChallenge, ln_TLS = None, ln_Name = HTTP\<rparr>,
       \<lparr>ln_Addr = mc_TLSListen (rc_Config rc), ln_Handler = ServeRouter, ln_TLS = Some (TlsAcme m), ln_Name = HTTPS\<rparr>]"
  using assms
  by (auto simp: gateway_listeners_def serveACME_def Let_def split: prod.splits if_splits
      intro!: exI [of _ "\<lparr>am_AcceptTOS = True, am_HostWhitelist = [fst (acmeHost rc)],
        am_DirCache = [mc_DataPath (rc_Config rc), ''certs''],
        am_DirectoryURL = mc_TLSDirectoryURL (rc_Config rc)\<rparr>"])

lemma listeners_plain:
  assumes "gateway_listeners rc D = Inr ls" and "\<not> serves_tls rc"
  shows "ls = [\<lparr>ln_Addr = mc_Listen (rc_Config rc), ln_Handler = ServeRouter, ln_TLS = None, ln_Name = HTTP\<rparr>]"
  using assms by (auto simp: gateway_listeners_def serves_tls_def split: prod.splits)

text \<open>
  C20: TLS is all or nothing.  The gateway opens the plain listener, and the TLS listener exactly
  when a pair was supplied or built-in ACME applies; the gateway itself is behind the TLS listener
  whenever there is one, never also on the plain port, which then only redirects, answers the health
  probe and the ACME challenge.  ACME starts only with the terms accepted and only for its one host,
  supplied files only when they load, and whenever TLS is served the session cookie is \<open>Secure\<close>.
\<close>

theorem listeners_exact:
  assumes "gateway_listeners rc D = Inr ls"
  shows "map ln_Name ls = (if serves_tls rc then [HTTP, HTTPS] else [HTTP]) \<and>
    map ln_Addr ls = mc_Listen (rc_Config rc) # (if serves_tls rc then [mc_TLSListen (rc_Config rc)] else []) \<and>
    (\<forall>l \<in> set ls. ln_TLS l \<noteq> None \<longleftrightarrow> ln_Name l = HTTPS) \<and>
    (\<forall>l \<in> set ls. ln_Handler l = ServeRouter \<longleftrightarrow> (ln_TLS l \<noteq> None \<longleftrightarrow> serves_tls rc)) \<and>
    (\<forall>l \<in> set ls. \<forall>m. ln_TLS l = Some (TlsAcme m) \<longrightarrow> \<not> rc_manualTLS rc \<and>
       mc_TLSAcceptTOS (rc_Config rc) \<and> am_HostWhitelist m = [fst (acmeHost rc)]) \<and>
    (\<forall>l \<in> set ls. \<forall>r. ln_TLS l = Some (TlsFiles r) \<longrightarrow> rc_manualTLS rc \<and>
       NewFileReloader (mc_TLSCertFile (rc_Config rc)) (mc_TLSKeyFile (rc_Config rc)) D = Inr r) \<and>
    (serves_tls rc \<longrightarrow>
       sessionCookieSecure (rc_issuerURL rc) (rc_manualTLS rc \<or> mc_TLSHost (rc_Config rc) \<noteq> []))"
proof -
  have cookie: "sessionCookieSecure (rc_issuerURL rc) (rc_manualTLS rc \<or> mc_TLSHost (rc_Config rc) \<noteq> [])"
    if "serves_tls rc"
    using that by (auto simp: serves_tls_def acmeHost_def sessionCookieSecure_def split: if_splits)
  consider "rc_manualTLS rc" | "\<not> rc_manualTLS rc" "fst (acmeHost rc) \<noteq> []" | "\<not> serves_tls rc"
    by (auto simp: serves_tls_def)
  then show ?thesis
  proof cases
    case 1
    then have "serves_tls rc" by (simp add: serves_tls_def)
    with 1 cookie show ?thesis by (rule_tac listeners_manual [OF assms 1]) auto
  next
    case 2
    then have "serves_tls rc" by (simp add: serves_tls_def)
    with listeners_acme [OF assms 2] 2 cookie show ?thesis by auto
  next
    case 3
    then show ?thesis using listeners_plain [OF assms 3] by simp
  qed
qed

definition localhost_url :: url where
  "localhost_url =
     \<lparr>u_Scheme = ''http'', u_User = None, u_Host = ''localhost'', u_Path = [], u_RawQuery = [], u_Fragment = []\<rparr>"

definition default_rc :: "(url \<Rightarrow> string) \<Rightarrow> string list \<Rightarrow> resolvedConfig" where
  "default_rc unparse args =
     \<lparr>rc_Config = default_config args, rc_issuerURL = localhost_url, rc_issuer = unparse localhost_url,
      rc_trustedProxies = [], rc_manualTLS = False\<rparr>"

theorem listeners_exact_witness:
  "\<exists>ls. gateway_listeners (default_rc (\<lambda>_. []) []) (demo_disk 0 (Inr [])) = Inr ls \<and> map ln_Name ls = [HTTP] \<and>
     map ln_Addr ls = ['':80'']"
proof -
  obtain ls where ls: "gateway_listeners (default_rc (\<lambda>_. []) []) (demo_disk 0 (Inr [])) = Inr ls"
    by (simp add: gateway_listeners_def acmeHost_def default_rc_def localhost_url_def default_config_sel)
  have "\<not> serves_tls (default_rc (\<lambda>_. []) [])"
    by (simp add: serves_tls_def acmeHost_def default_rc_def localhost_url_def default_config_sel)
  with ls listeners_exact [OF ls] show ?thesis by (simp add: default_rc_def default_config_sel)
qed

lemma default_resolves:
  assumes "P ''http://localhost'' = Some localhost_url"
  shows "resolveConfig P unparse N (default_config args) = Inr (default_rc unparse args)"
  using assms
  by (simp add: resolveConfig_def default_config_sel default_kept default_valid localhost_url_def Let_def
      maxClockSkew_def named_def NormalizeTrustedProxies_def resolveTLSMode_def default_rc_def dur_defs)

text \<open>
  The defaults are valid and closed.  With nothing set, the root command's configuration
  passes every check of \<open>resolveConfig\<close> unchanged: the bbolt store, the plain listener on port 80
  with no warning for the loopback issuer, the \<open>Origin\<close> check, all rate limits and the lockout
  on; and with no password, no provider and no enrolled passkey the gateway refuses to start.
\<close>

theorem defaults_valid_and_closed:
  assumes "P ''http://localhost'' = Some localhost_url"
  shows "root_command parse_duration (\<lambda>f. Inr (f, args)) (\<lambda>_. []) = Inr (default_config args) \<and>
    resolveConfig P unparse N (default_config args) = Inr (default_rc unparse args) \<and>
    rc_Config (default_rc unparse args) = default_config args \<and>
    repository_choice (default_rc unparse args) = Inr LocalStore \<and>
    gateway_listeners (default_rc unparse args) D =
      Inr [\<lparr>ln_Addr = '':80'', ln_Handler = ServeRouter, ln_TLS = None, ln_Name = HTTP\<rparr>] \<and>
    \<not> warnPlainHTTPIssuer N localhost_url \<and> mc_OriginCheckEnabled (default_config args) \<and>
    li_register (newLimiters (default_config args)) \<noteq> (None :: 'l Limiter option) \<and>
    li_token (newLimiters (default_config args)) \<noteq> (None :: 'l Limiter option) \<and>
    li_login (newLimiters (default_config args)) \<noteq> (None :: 'l Limiter option) \<and>
    li_authorize (newLimiters (default_config args)) \<noteq> (None :: 'l Limiter option) \<and>
    li_lockout (newLimiters (default_config args) :: 'l limiters) \<noteq> None \<and>
    (\<not> hasEnrolledPasskey (ro_users (dp_repo deps)) s \<longrightarrow>
       newAuthRouter E OL bcrypt (default_rc unparse args) deps s = Inl (ErrMsg ''no authentication backend configured''))"
proof -
  have host: "isLoopbackHost N (Hostname localhost_url)"
  proof -
    have "Hostname localhost_url = ''localhost''"
      by (simp add: localhost_url_def Hostname_def splitHostPort_def last_index_def)
    moreover have "to_lower ''localhost'' = ''localhost''" by (simp add: lower_byte_def)
    ultimately show ?thesis by (simp add: isLoopbackHost_def)
  qed
  have limits: "NewLimiter (parseLimit ''10/m'') \<noteq> (None :: 'l Limiter option)"
    "NewLimiter (parseLimit ''60/m'') \<noteq> (None :: 'l Limiter option)"
    by (simp_all add: parseLimit_def default_limits NewLimiter_def Enabled_def dur_defs)
  have lockout: "NewLockout 10 (15 * minute) \<noteq> None" by (simp add: NewLockout_def dur_defs)
  have auth: "newAuthRouter E OL bcrypt (default_rc unparse args) deps s = Inl (ErrMsg ''no authentication backend configured'')"
    if "\<not> hasEnrolledPasskey (ro_users (dp_repo deps)) s"
    using that by (simp add: newAuthRouter_def buildOIDCProviders_def buildPasswordHashes_def default_rc_def
        default_config_sel)
  have "to_lower ''local'' = ''local''" by (simp add: lower_byte_def)
  then have "repository_choice (default_rc unparse args) = Inr LocalStore"
    by (simp add: repository_choice_def default_rc_def default_config_sel)
  moreover have "gateway_listeners (default_rc unparse args) D =
      Inr [\<lparr>ln_Addr = '':80'', ln_Handler = ServeRouter, ln_TLS = None, ln_Name = HTTP\<rparr>]"
    by (simp add: gateway_listeners_def acmeHost_def default_rc_def localhost_url_def default_config_sel)
  moreover have "root_command parse_duration (\<lambda>f. Inr (f, args)) (\<lambda>_. []) = Inr (default_config args)"
    by (simp add: root_command_def root_flags_unset root_config_default)
  moreover have "rc_Config (default_rc unparse args) = default_config args" by (simp add: default_rc_def)
  moreover have "\<not> warnPlainHTTPIssuer N localhost_url" using host by (simp add: warnPlainHTTPIssuer_def)
  ultimately show ?thesis
    using default_resolves [of P, OF assms] limits lockout auth by (simp add: newLimiters_def default_config_sel)
qed

theorem defaults_valid_and_closed_witness:
  "resolveConfig (\<lambda>_. Some localhost_url) (\<lambda>_. []) \<lparr>nl_ParsePrefix = (\<lambda>_. None), nl_ParseAddr = (\<lambda>_. None),
     nl_PrefixString = (\<lambda>_. []), nl_SplitHostPort = (\<lambda>_. None)\<rparr> (default_config []) = Inr (default_rc (\<lambda>_. []) [])"
  by (rule defaults_valid_and_closed [where P = "\<lambda>_. Some localhost_url", OF refl, THEN conjunct2, THEN conjunct1])

text \<open>The host for ACME keeps the port of \<open>EXTERNAL_URL\<close>, although no TLS client names one, and
  \<open>localhost\<close> with a port is not recognised.\<close>

lemma acme_host_keeps_port:
  assumes "mc_TLSHost (rc_Config rc) = []" and "mc_AutoTLS (rc_Config rc)" and "\<not> rc_manualTLS rc"
    and "u_Scheme (rc_issuerURL rc) = ''https''" and "u_Host (rc_issuerURL rc) \<in> {''g:8443'', ''localhost:8443''}"
  shows "acmeHost rc = (u_Host (rc_issuerURL rc), True)"
  using assms by (auto simp: acmeHost_def)

section \<open>Starting the gateway\<close>

text \<open>\<open>run_stdio\<close> is \<open>Run\<close> of the stdio backend for a command.\<close>

datatype upstream_backend = TransparentUpstream TransparentBackend | StdioUpstream "string list"

definition openUpstream ::
  "url_parser \<Rightarrow> net_lib \<Rightarrow> (string list \<Rightarrow> unit result) \<Rightarrow> resolvedConfig \<Rightarrow> upstream_backend result" where
  "openUpstream P N run_stdio rc =
     (case mc_ProxyTargets (rc_Config rc) of
        [] \<Rightarrow> Inl (ErrMsg ''proxy target must be specified'')
      | target # _ \<Rightarrow>
          (let stdio = res_bind (named ''failed to create proxy backend''
                 (run_stdio (mc_ProxyTargets (rc_Config rc)))) (\<lambda>_.
                 Inr (StdioUpstream (mc_ProxyTargets (rc_Config rc))))
           in case P target of
                None \<Rightarrow> stdio
              | Some proxyURL \<Rightarrow>
                  if u_Scheme proxyURL = ''http'' \<or> u_Scheme proxyURL = ''https'' then
                    res_bind (named ''failed to create transparent backend''
                        (NewTransparentBackend N proxyURL (rc_trustedProxies rc))) (\<lambda>be. Inr (TransparentUpstream be))
                  else stdio))"

text \<open>The start as far as serving: \<open>open_deps\<close> is \<open>openDependencies\<close> with the store it opened.  On
  every error after it the store is closed again by a deferred call.\<close>

definition gateway_Run ::
  "'s build_env \<Rightarrow> (url \<Rightarrow> string) \<Rightarrow> net_lib \<Rightarrow> (resolvedConfig \<Rightarrow> ('s dependencies \<times> 's) result) \<Rightarrow> 'c tls_disk \<Rightarrow>
     mcp_Config \<Rightarrow> ('s gateway \<times> 'c listener list) result" where
  "gateway_Run V unparse N open_deps D cfg =
     res_bind (resolveConfig (be_P V) unparse N cfg) (\<lambda>rc.
     res_bind (open_deps rc) (\<lambda>(deps, s).
     res_bind (buildRouter V rc deps s) (\<lambda>router.
     res_bind (gateway_listeners rc D) (\<lambda>ls. Inr (router, ls)))))"

text \<open>A started gateway was validated, and serves TLS whenever its issuer is a public https host, unless
  automatic TLS was switched off.\<close>

lemma run_serves_tls:
  assumes "gateway_Run V unparse N open_deps D cfg = Inr (router, ls)"
  shows "\<exists>rc. resolveConfig (be_P V) unparse N cfg = Inr rc \<and> validateTTLs (rc_Config rc) = Inr () \<and>
    gateway_listeners rc D = Inr ls \<and>
    (u_Scheme (rc_issuerURL rc) = ''https'' \<and> u_Host (rc_issuerURL rc) \<noteq> ''localhost'' \<and> mc_AutoTLS (rc_Config rc) \<longrightarrow>
       (\<exists>l \<in> set ls. ln_TLS l \<noteq> None))"
proof -
  obtain rc where rc: "resolveConfig (be_P V) unparse N cfg = Inr rc" and ls: "gateway_listeners rc D = Inr ls"
    using assms by (auto simp: gateway_Run_def res_bind_Inr)
  have "\<exists>l \<in> set ls. ln_TLS l \<noteq> None"
    if "u_Scheme (rc_issuerURL rc) = ''https''" "u_Host (rc_issuerURL rc) \<noteq> ''localhost''" "mc_AutoTLS (rc_Config rc)"
  proof (cases "rc_manualTLS rc")
    case True
    then show ?thesis by (rule listeners_manual [OF ls]) simp
  next
    case False
    then have "fst (acmeHost rc) \<noteq> []" using that resolveConfig_Inr(6) [OF rc] by (simp add: acmeHost_def)
    then show ?thesis using listeners_acme [OF ls False] by auto
  qed
  with rc ls resolveConfig_Inr(2) [OF rc] show ?thesis by blast
qed

section \<open>The commands beside it\<close>

text \<open>\<open>get\<close> is the HTTP client without redirects: the status of the answer, if there is one.\<close>

definition probeHealth :: "net_lib \<Rightarrow> (string \<Rightarrow> int option) \<Rightarrow> string \<Rightarrow> unit result" where
  "probeHealth N get listen =
     res_bind (healthURL N listen) (\<lambda>u.
       (case get u of
          None \<Rightarrow> Inl (ErrMsg ''health probe failed'')
        | Some status \<Rightarrow> if status \<noteq> 200 then Inl (ErrMsg ''health probe returned status'') else Inr ()))"

definition healthcheck_listen :: "environment \<Rightarrow> string" where
  "healthcheck_listen env = getEnvWithDefault env ''LISTEN'' '':80''"

definition rotate_flags :: "(string \<Rightarrow> duration option) \<Rightarrow> environment \<Rightarrow> rotateKeyOptions result" where
  "rotate_flags parse_duration env =
     res_bind (getEnvDurationWithDefault parse_duration env ''ACCESS_TOKEN_TTL'' hour) (\<lambda>accessTokenTTL.
     res_bind (getEnvDurationWithDefault parse_duration env ''CLOCK_SKEW'' (30 * second)) (\<lambda>clockSkew.
       Inr \<lparr>rk_keyAlg = getEnvWithDefault env ''KEY_ALG'' ''RS256'', rk_accessTokenTTL = accessTokenTTL,
         rk_clockSkew = clockSkew\<rparr>))"

text \<open>The commands see the settings of the gateway: the probe asks the address it listens on, and the
  retiring window of a manual rotation is the gateway's.\<close>

lemma commands_mirror_gateway:
  assumes "root_flags parse_duration env = Inr f" and "rotate_flags parse_duration env = Inr opts"
    and "root_config f args = Inr cfg" and "resolveConfig P unparse N cfg = Inr rc" and "mc_AccessTokenTTL cfg \<noteq> 0"
  shows "rk_accessTokenTTL opts + 2 * rk_clockSkew opts = retireWindow rc" and "healthcheck_listen env = mc_Listen cfg"
proof -
  have f: "getEnvDurationWithDefault parse_duration env ''ACCESS_TOKEN_TTL'' hour = Inr (fl_accessTokenTTL f)"
    "getEnvDurationWithDefault parse_duration env ''CLOCK_SKEW'' (30 * second) = Inr (fl_clockSkew f)"
    "fl_listen f = getEnvWithDefault env ''LISTEN'' '':80''"
    using assms(1) by (auto simp: root_flags_def res_bind_Inr)
  have c: "mc_AccessTokenTTL cfg = fl_accessTokenTTL f" "mc_ClockSkew cfg = fl_clockSkew f" "mc_Listen cfg = fl_listen f"
    using assms(3) by (auto simp: root_config_def res_bind_Inr Let_def)
  show "rk_accessTokenTTL opts + 2 * rk_clockSkew opts = retireWindow rc"
    using assms(2,5) f c resolveConfig_Inr(1) [OF assms(4)]
    by (auto simp: rotate_flags_def res_bind_Inr retireWindow_def with_defaults_sel)
  show "healthcheck_listen env = mc_Listen cfg" using f c by (simp add: healthcheck_listen_def)
qed

end
