(* ===== verification/Lifecycle.thy ===== *)
theory Lifecycle
  imports Server
begin

text \<open>
  The small operations around the start and the stop: the logger (\<^verbatim>\<open>buildLogger\<close> of \<^verbatim>\<open>deps.go\<close>,
  \<^verbatim>\<open>pkg/utils/log.go\<close>, \<^verbatim>\<open>must.go\<close>), opening and closing the two stores, the life of the two
  upstream backends beside the state machine of \<open>Stdio\<close>, and the tail of \<open>serve\<close>.
\<close>

section \<open>Logging\<close>

datatype gin_mode = DebugMode | ReleaseMode

datatype log_config = DevelopmentConfig | ProductionConfig

text \<open>\<open>build\<close> is \<open>zap.Config.Build\<close>.  gin's mode is set whether or not the logger is built.\<close>

definition buildLogger :: "environment \<Rightarrow> (log_config \<Rightarrow> 'l option) \<Rightarrow> gin_mode \<times> 'l result" where
  "buildLogger env build =
     (let (mode, config) =
            (if env ''MODE'' = ''debug'' then (DebugMode, DevelopmentConfig) else (ReleaseMode, ProductionConfig))
      in (mode, (case build config of None \<Rightarrow> Inl (ErrMsg ''failed to build logger'') | Some l \<Rightarrow> Inr l)))"

text \<open>\<open>openDependencies\<close>, before \<open>openDependenciesWithLogger\<close>: the result, and whether an opened
  store is left open.\<close>

definition openDependencies_logged :: "'l result \<Rightarrow> ('l \<Rightarrow> 'a result \<times> bool) \<Rightarrow> 'a result \<times> bool" where
  "openDependencies_logged logger rest = (case logger of Inl e \<Rightarrow> (Inl e, False) | Inr l \<Rightarrow> rest l)"

text \<open>An error of fosite is logged by its fields, any other as it is.\<close>

record RFC6749Error_fields = RFC6749Error +
  fe_Hint :: string
  fe_Debug :: string

datatype log_field = FieldString string string | FieldInt string int | FieldError err

definition utils_Err :: "RFC6749Error_fields + err \<Rightarrow> log_field list" where
  "utils_Err e =
     (case e of
        Inl e \<Rightarrow> [FieldString ''error'' (fe_Error e), FieldString ''description'' (fe_Description e),
          FieldString ''hint'' (fe_Hint e), FieldInt ''code'' (fe_Code e), FieldString ''debug'' (fe_Debug e)]
      | Inr e \<Rightarrow> [FieldError e])"

definition utils_Must :: "'a result \<Rightarrow> 'a result" where
  "utils_Must r = (case r of Inl _ \<Rightarrow> Inl ErrPanic | Inr x \<Rightarrow> Inr x)"

definition version_default :: string where
  "version_default = ''dev''"

text \<open>A store that was opened is handed to the caller or closed again; nothing is opened without a
  logger.\<close>

lemma store_handed_over_or_closed:
  "snd (openDependencies mkdir secret upstream headers opened keys) \<longleftrightarrow>
     (\<exists>x. fst (openDependencies mkdir secret upstream headers opened keys) = Inr x)"
  by (auto simp: openDependencies_def split: sum.splits prod.splits)

lemma no_logger_nothing_open:
  assumes "\<And>l. snd (rest l) \<longleftrightarrow> (\<exists>x. fst (rest l) = Inr x)"
  shows "snd (openDependencies_logged logger rest) \<longleftrightarrow> (\<exists>x. fst (openDependencies_logged logger rest) = Inr x)"
  using assms by (simp add: openDependencies_logged_def split: sum.splits)

section \<open>The stores\<close>

text \<open>\<open>open_db\<close> is \<open>bbolt.Open\<close>, \<open>ensure\<close> the transaction with \<open>CreateBucketIfNotExists\<close>.  When it
  fails, the database stays open: the constructor returns without closing it.\<close>

definition NewKVSRepository ::
  "(string \<Rightarrow> 'd option) \<Rightarrow> (string \<Rightarrow> 'd \<Rightarrow> unit result \<times> 'd) \<Rightarrow> string \<Rightarrow> string \<Rightarrow> ('d \<times> string) result" where
  "NewKVSRepository open_db ensure path bucketName =
     (case open_db path of
        None \<Rightarrow> Inl (ErrMsg ''failed to open database'')
      | Some db \<Rightarrow>
          (case ensure bucketName db of
             (Inl _, _) \<Rightarrow> Inl (ErrMsg ''failed to create bucket'')
           | (Inr _, db) \<Rightarrow> Inr (db, bucketName)))"

definition kvs_Close :: "('d \<Rightarrow> err option) \<Rightarrow> 'd \<Rightarrow> err option" where
  "kvs_Close close db = close db"

text \<open>\<open>handle\<close> is \<open>gorm.DB.DB()\<close>.\<close>

definition sql_Close :: "('d \<Rightarrow> 'h option) \<Rightarrow> ('h \<Rightarrow> err option) \<Rightarrow> 'd \<Rightarrow> err option" where
  "sql_Close handle close db =
     (case handle db of None \<Rightarrow> Some (ErrMsg ''failed to get sql db'') | Some h \<Rightarrow> close h)"

section \<open>The backends\<close>

text \<open>The context a transparent backend was run with, and whether it is done.\<close>

record transparent =
  tr_backend :: TransparentBackend
  tr_ctx :: "bool option"

text \<open>The reverse proxy \<open>Run\<close> returns: its transport follows redirects to \<open>rp_targetHost\<close> only, and its
  \<open>Rewrite\<close> is \<open>rewrite_header\<close> with the backend.\<close>

record reverse_proxy =
  rp_targetHost :: string
  rp_backend :: TransparentBackend

definition transparent_Run :: "transparent \<Rightarrow> reverse_proxy result \<times> transparent" where
  "transparent_Run p =
     (if tr_ctx p \<noteq> None then (Inl (ErrMsg ''transparent backend is already running''), p)
      else (Inr \<lparr>rp_targetHost = u_Host (tb_url (tr_backend p)), rp_backend = tr_backend p\<rparr>, p\<lparr>tr_ctx := Some False\<rparr>))"

text \<open>\<open>None\<close> while the call blocks.\<close>

definition transparent_Wait :: "transparent \<Rightarrow> err option option" where
  "transparent_Wait p =
     (case tr_ctx p of None \<Rightarrow> Some None | Some ctx_done \<Rightarrow> if ctx_done then Some None else None)"

definition transparent_Close :: "transparent \<Rightarrow> err option" where
  "transparent_Close p = None"

definition NewProxyBackend :: "string list \<Rightarrow> string list \<times> bool" where
  "NewProxyBackend cmd = (cmd, False)"

definition stdio_Close :: "('c \<Rightarrow> err option) \<Rightarrow> 'c option \<Rightarrow> err option" where
  "stdio_Close close client = (case client of None \<Rightarrow> None | Some c \<Rightarrow> close c)"

text \<open>The life of a transparent backend: \<open>Run\<close> is called, the context is cancelled.\<close>

inductive transparent_step :: "transparent \<Rightarrow> transparent \<Rightarrow> bool" where
  RunCalled: "transparent_step p (snd (transparent_Run p))"
| ContextDone: "tr_ctx p = Some False \<Longrightarrow> transparent_step p (p\<lparr>tr_ctx := Some True\<rparr>)"

inductive_cases transparent_stepE: "transparent_step p p'"

lemma transparent_runs_once:
  assumes "transparent_Run p = (Inr h, p')" and "transparent_step\<^sup>*\<^sup>* p' q"
  shows "rp_targetHost h = u_Host (tb_url (tr_backend p)) \<and> tr_ctx q \<noteq> None \<and> (\<exists>e. fst (transparent_Run q) = Inl e)"
proof -
  have start: "tr_ctx p' \<noteq> None" using assms(1) by (auto simp: transparent_Run_def split: if_splits)
  from assms(2) start have "tr_ctx q \<noteq> None"
    by (induction rule: rtranclp_induct) (auto elim!: transparent_stepE simp: transparent_Run_def)
  then show ?thesis using assms(1) by (auto simp: transparent_Run_def split: if_splits)
qed

text \<open>\<open>Wait\<close> reports no error, returns at once before \<open>Run\<close>, and blocks from \<open>Run\<close> to the end of the
  context; once it returns it always does.  So an HTTP upstream, unlike a stdio upstream that exits
  cleanly, never keeps the gateway from stopping, and never ends it.\<close>

lemma transparent_wait_exact:
  "transparent_Wait p = Some x \<longleftrightarrow> x = None \<and> tr_ctx p \<noteq> Some False"
  by (auto simp: transparent_Wait_def split: option.splits)

lemma transparent_wait_stable:
  assumes "tr_ctx p = Some True" and "transparent_step\<^sup>*\<^sup>* p q"
  shows "transparent_Wait q = Some None"
proof -
  from assms(2,1) have "tr_ctx q = Some True"
    by (induction rule: rtranclp_induct) (auto elim!: transparent_stepE simp: transparent_Run_def)
  then show ?thesis by (simp add: transparent_Wait_def)
qed

section \<open>The tail of serve\<close>

text \<open>The addresses the start is announced with.\<close>

definition announced_listeners :: "resolvedConfig \<Rightarrow> string list" where
  "announced_listeners rc =
     (let listeners = [mc_Listen (rc_Config rc)]
      in if rc_manualTLS rc \<or> fst (acmeHost rc) \<noteq> [] then listeners @ [mc_TLSListen (rc_Config rc)] else listeners)"

lemma announced_listeners_open:
  "gateway_listeners rc D = Inr ls \<Longrightarrow> announced_listeners rc = map ln_Addr ls"
  by (auto simp: gateway_listeners_def announced_listeners_def serveManualTLS_def serveACME_def res_bind_Inr Let_def
      split: prod.splits if_splits)

section \<open>The requested redirect URI\<close>

text \<open>A context with the value of \<open>requestedRedirectURIKey\<close> beside the values of other keys.\<close>

datatype ctx_key = RequestedRedirectURIKey | OtherKey string

definition withRequestedRedirectURI :: "(ctx_key \<rightharpoonup> string) \<Rightarrow> string \<Rightarrow> ctx_key \<rightharpoonup> string" where
  "withRequestedRedirectURI ctx raw = ctx(RequestedRedirectURIKey \<mapsto> raw)"

definition requestedRedirectURI :: "(ctx_key \<rightharpoonup> string) \<Rightarrow> string" where
  "requestedRedirectURI ctx = (case ctx RequestedRedirectURIKey of None \<Rightarrow> [] | Some raw \<Rightarrow> raw)"

lemma requested_with: "requestedRedirectURI (withRequestedRedirectURI ctx raw) = raw"
  by (simp add: requestedRedirectURI_def withRequestedRedirectURI_def)

end
